(* ===== verification/Prelude.thy ===== *)
theory Prelude
  imports Main "HOL-Library.Word"
begin

section \<open>Prelude: results, effects, bytes and strings\<close>

text \<open>
  The vocabulary every component shares. The client library is TypeScript, so the
  prelude fixes how JavaScript values appear in the model:
  \<^item> a thrown value is a \<open>js_error\<close>; a synchronous function that can throw returns
    \<open>'a res\<close>, the error on the left;
  \<^item> an \<open>async\<close> function that talks to the outside world (a Bitcoin server, an
    Ethereum node, a clock) is an \<open>('w, 'a) io\<close>: it threads a world \<open>'w\<close>, and the
    world survives a throw, as it does in the code;
  \<^item> a number used as an integer, a \<open>BigInt\<close> and an ethers \<open>BigNumber\<close> are \<open>int\<close>
    (or \<open>nat\<close> where the code can only produce non-negative values);
  \<^item> a string is a list of characters, a \<open>Buffer\<close> a list of 8-bit words.
\<close>

named_theorems res_simps \<open>how results compose\<close>
named_theorems io_simps \<open>how effects compose\<close>
named_theorems str_simps \<open>lengths and shapes of strings and buffers\<close>

subsection \<open>Errors and results\<close>

datatype js_error =
    Error string
  | RangeError string
  | TypeError string
  | Thrown string

text \<open>\<open>err instanceof Error\<close>: the code throws subclasses of \<open>Error\<close>, but a rejected
  promise may carry any value, which is \<open>Thrown\<close>.\<close>

fun is_Error :: "js_error \<Rightarrow> bool" where
  "is_Error (Thrown _) = False"
| "is_Error _ = True"

fun error_message :: "js_error \<Rightarrow> string" where
  "error_message (Error m) = m"
| "error_message (RangeError m) = m"
| "error_message (TypeError m) = m"
| "error_message (Thrown m) = m"

type_synonym 'a res = "js_error + 'a"

definition bind_res :: "'a res \<Rightarrow> ('a \<Rightarrow> 'b res) \<Rightarrow> 'b res" where
  "bind_res m f = (case m of Inl e \<Rightarrow> Inl e | Inr x \<Rightarrow> f x)"

definition guard_res :: "bool \<Rightarrow> js_error \<Rightarrow> unit res" where
  "guard_res b e = (if b then Inr () else Inl e)"

text \<open>A loop that fills a list, and stops at the first throw.\<close>

fun map_res :: "('a \<Rightarrow> 'b res) \<Rightarrow> 'a list \<Rightarrow> 'b list res" where
  "map_res f [] = Inr []"
| "map_res f (x # xs) = bind_res (f x) (\<lambda>y. bind_res (map_res f xs) (\<lambda>ys. Inr (y # ys)))"

definition is_ok :: "'a res \<Rightarrow> bool" where
  "is_ok r = (case r of Inl _ \<Rightarrow> False | Inr _ \<Rightarrow> True)"

lemma bind_res_simps [simp, res_simps]:
  "bind_res (Inl e) f = Inl e"
  "bind_res (Inr x) f = f x"
  by (simp_all add: bind_res_def)

lemma bind_res_Inr [res_simps]:
  "(bind_res m f = Inr y) = (\<exists>x. m = Inr x \<and> f x = Inr y)"
  by (cases m) auto

lemma bind_res_Inl [res_simps]:
  "(bind_res m f = Inl e) = (m = Inl e \<or> (\<exists>x. m = Inr x \<and> f x = Inl e))"
  by (cases m) auto

lemma if_Inl_eq_Inr [res_simps]:
  "((if b then Inl e else r) = Inr x) = (\<not> b \<and> r = Inr x)"
  by simp

lemma guard_res_Inr [simp, res_simps]: "(guard_res b e = Inr u) = b"
  by (simp add: guard_res_def)

lemma guard_res_True [simp]: "guard_res True e = Inr ()"
  by (simp add: guard_res_def)

lemma guard_res_False [simp]: "guard_res False e = Inl e"
  by (simp add: guard_res_def)

lemma is_ok_simps [simp]: "is_ok (Inr x)" "\<not> is_ok (Inl e)"
  by (simp_all add: is_ok_def)

lemma is_ok_conv: "is_ok r = (\<exists>x. r = Inr x)"
  by (cases r) simp_all

lemma map_res_Inr_length: "map_res f xs = Inr ys \<Longrightarrow> length ys = length xs"
  by (induction xs arbitrary: ys) (auto simp: res_simps)

lemma map_res_Inr_nth:
  "map_res f xs = Inr ys \<Longrightarrow> i < length xs \<Longrightarrow> f (xs ! i) = Inr (ys ! i)"
proof (induction xs arbitrary: ys i)
  case (Cons x xs)
  then show ?case by (cases i) (auto simp: res_simps)
qed simp

lemma map_res_total: "(\<And>x. x \<in> set xs \<Longrightarrow> f x = Inr (g x)) \<Longrightarrow> map_res f xs = Inr (map g xs)"
  by (induction xs) auto

text \<open>What such a loop finds.\<close>

lemma map_res_mem: "map_res p xs = Inr yss \<Longrightarrow> x \<in> set xs \<Longrightarrow> \<exists>ys. p x = Inr ys \<and> ys \<in> set yss"
  by (induction xs arbitrary: yss) (auto simp: res_simps)

lemma map_res_concat_mem:
  "map_res p xs = Inr yss \<Longrightarrow> (y \<in> set (concat yss)) = (\<exists>x \<in> set xs. \<exists>ys. p x = Inr ys \<and> y \<in> set ys)"
  by (induction xs arbitrary: yss) (auto simp: res_simps)

lemma map_res_values: "map_res p xs = Inr ys \<Longrightarrow> (y \<in> set ys) = (\<exists>x \<in> set xs. p x = Inr y)"
  by (induction xs arbitrary: ys) (auto simp: res_simps)

lemma map_res_ok: "(\<And>x. x \<in> set xs \<Longrightarrow> \<exists>y. p x = Inr y) \<Longrightarrow> \<exists>ys. map_res p xs = Inr ys"
  by (induction xs) (simp, metis bind_res_simps(2) list.set_intros map_res.simps(2))

lemma zip_mem_nth: "length xs = length ys \<Longrightarrow> (\<exists>p \<in> set (zip xs ys). Q (fst p) (snd p)) = (\<exists>i < length xs. Q (xs ! i) (ys ! i))"
  by (induction xs ys rule: list_induct2) (auto simp: Ex_less_Suc2)

lemma filter_zip_mem:
  "length xs = length ys \<Longrightarrow> length ys = length zs \<Longrightarrow>
   (\<exists>p \<in> set (filter (\<lambda>(_, q, s). Q q s) (zip xs (zip ys zs))). R (fst p)) = (\<exists>i < length xs. Q (ys ! i) (zs ! i) \<and> R (xs ! i))"
  by (induction xs ys zs rule: list_induct3) (auto simp: Ex_less_Suc2)

subsection \<open>Effects\<close>

type_synonym ('w, 'a) io = "'w \<Rightarrow> 'a res \<times> 'w"

definition return_io :: "'a \<Rightarrow> ('w, 'a) io" where
  "return_io x = (\<lambda>w. (Inr x, w))"

definition throw_io :: "js_error \<Rightarrow> ('w, 'a) io" where
  "throw_io e = (\<lambda>w. (Inl e, w))"

definition lift_io :: "'a res \<Rightarrow> ('w, 'a) io" where
  "lift_io r = (\<lambda>w. (r, w))"

definition bind_io :: "('w, 'a) io \<Rightarrow> ('a \<Rightarrow> ('w, 'b) io) \<Rightarrow> ('w, 'b) io" where
  "bind_io m f = (\<lambda>w. case m w of (r, w') \<Rightarrow> (case r of Inl e \<Rightarrow> (Inl e, w') | Inr x \<Rightarrow> f x w'))"

text \<open>\<open>try ... catch\<close>: the handler runs in the world the failed block left.\<close>

definition catch_io :: "('w, 'a) io \<Rightarrow> (js_error \<Rightarrow> ('w, 'a) io) \<Rightarrow> ('w, 'a) io" where
  "catch_io m h = (\<lambda>w. case m w of (r, w') \<Rightarrow> (case r of Inl e \<Rightarrow> h e w' | Inr x \<Rightarrow> (Inr x, w')))"

text \<open>\<open>finally\<close> with a block that only changes the world.\<close>

definition finally_io :: "('w, 'a) io \<Rightarrow> ('w \<Rightarrow> 'w) \<Rightarrow> ('w, 'a) io" where
  "finally_io m k = (\<lambda>w. case m w of (r, w') \<Rightarrow> (r, k w'))"

fun map_io :: "('a \<Rightarrow> ('w, 'b) io) \<Rightarrow> 'a list \<Rightarrow> ('w, 'b list) io" where
  "map_io f [] = return_io []"
| "map_io f (x # xs) = bind_io (f x) (\<lambda>y. bind_io (map_io f xs) (\<lambda>ys. return_io (y # ys)))"

lemma return_io_app [simp, io_simps]: "return_io x w = (Inr x, w)"
  by (simp add: return_io_def)

lemma throw_io_app [simp, io_simps]: "throw_io e w = (Inl e, w)"
  by (simp add: throw_io_def)

lemma lift_io_app [simp, io_simps]: "lift_io r w = (r, w)"
  by (simp add: lift_io_def)

lemma bind_io_Inr [io_simps]:
  "(bind_io m f w = (Inr y, w'')) = (\<exists>x w'. m w = (Inr x, w') \<and> f x w' = (Inr y, w''))"
  by (auto simp: bind_io_def split: prod.splits sum.splits)

lemma bind_io_ok [simp]: "m w = (Inr x, w') \<Longrightarrow> bind_io m f w = f x w'"
  by (simp add: bind_io_def)

lemma bind_io_fail [simp]: "m w = (Inl e, w') \<Longrightarrow> bind_io m f w = (Inl e, w')"
  by (simp add: bind_io_def)

lemma catch_io_ok [simp]: "m w = (Inr x, w') \<Longrightarrow> catch_io m h w = (Inr x, w')"
  by (simp add: catch_io_def)

lemma catch_io_fail [simp]: "m w = (Inl e, w') \<Longrightarrow> catch_io m h w = h e w'"
  by (simp add: catch_io_def)

lemma bind_io_total:
  "m w = (Inr x, w1) \<Longrightarrow> \<exists>y w2. f x w1 = (Inr y, w2) \<Longrightarrow> \<exists>y w2. bind_io m f w = (Inr y, w2)"
  by simp

lemma bind_io_Inl:
  "(bind_io m f w = (Inl e, w'')) = (m w = (Inl e, w'') \<or> (\<exists>x w'. m w = (Inr x, w') \<and> f x w' = (Inl e, w'')))"
  by (auto simp: bind_io_def split: prod.splits sum.splits)

lemma map_io_reads:
  "map_io f xs w = (Inr ys, w') \<Longrightarrow> length ys = length xs \<and> (\<forall>i < length xs. \<exists>v v'. f (xs ! i) v = (Inr (ys ! i), v'))"
proof (induction xs arbitrary: ys w)
  case (Cons x xs)
  then obtain y w1 ys' where 1: "f x w = (Inr y, w1)" "map_io f xs w1 = (Inr ys', w')" "ys = y # ys'"
    by (auto simp: bind_io_Inr)
  have "\<exists>v v'. f ((x # xs) ! i) v = (Inr (ys ! i), v')" if "i < length (x # xs)" for i
    using that 1 Cons.IH[OF 1(2)] by (cases i) auto
  then show ?case using 1(3) Cons.IH[OF 1(2)] by simp
qed simp

lemma finally_io_app [io_simps]: "finally_io m k w = (fst (m w), k (snd (m w)))"
  by (simp add: finally_io_def split: prod.splits)

subsection \<open>Bytes and hexadecimal digits\<close>

type_synonym byte = "8 word"

definition byte_of :: "nat \<Rightarrow> byte" where
  "byte_of n = word_of_nat n"

definition hex_digits :: string where
  "hex_digits = ''0123456789abcdef''"

definition hex_digit :: "nat \<Rightarrow> char" where
  "hex_digit n = hex_digits ! n"

text \<open>The value of a hexadecimal digit in either case, as \<open>parseInt(c, 16)\<close> and
  \<open>Buffer.from(s, "hex")\<close> read it.\<close>

definition hex_val :: "char \<Rightarrow> nat option" where
  "hex_val c = map_of (zip (hex_digits @ ''ABCDEF'') ([0..<16] @ [10..<16])) c"

definition is_hex_digit :: "char \<Rightarrow> bool" where
  "is_hex_digit c = (hex_val c \<noteq> None)"

lemma hex_digit_table: "\<forall>n \<in> set [0..<16]. hex_val (hex_digit n) = Some n"
  by code_simp

lemma hex_val_hex_digit [simp]: "n < 16 \<Longrightarrow> hex_val (hex_digit n) = Some n"
  using hex_digit_table by simp

lemma is_hex_digit_hex_digit [simp]: "n < 16 \<Longrightarrow> is_hex_digit (hex_digit n)"
  by (simp add: is_hex_digit_def)

lemma hex_digit_inj: "m < 16 \<Longrightarrow> n < 16 \<Longrightarrow> hex_digit m = hex_digit n \<Longrightarrow> m = n"
  by (metis hex_val_hex_digit option.inject)

lemma hex_val_lt: "hex_val c = Some n \<Longrightarrow> n < 16"
proof -
  assume "hex_val c = Some n"
  then have "(c, n) \<in> set (zip (hex_digits @ ''ABCDEF'') ([0..<16] @ [10..<16]))"
    unfolding hex_val_def by (rule map_of_SomeD)
  then have "n \<in> set ([0..<16] @ [10..<16])" by (rule set_zip_rightD)
  then show ?thesis by auto
qed

text \<open>\<open>buf.toString("hex")\<close>: two lower-case digits per byte.\<close>

definition byte_hex :: "byte \<Rightarrow> string" where
  "byte_hex b = [hex_digit (unat b div 16), hex_digit (unat b mod 16)]"

definition bytes_to_hex :: "byte list \<Rightarrow> string" where
  "bytes_to_hex bs = concat (map byte_hex bs)"

text \<open>\<open>Buffer.from(s, "hex")\<close>: pairs of digits up to the first character that is not a
  digit; a last single digit is dropped. It never throws.\<close>

fun hex_to_bytes :: "string \<Rightarrow> byte list" where
  "hex_to_bytes (a # b # cs) =
     (case hex_val a of None \<Rightarrow> []
      | Some x \<Rightarrow> (case hex_val b of None \<Rightarrow> []
                  | Some y \<Rightarrow> byte_of (16 * x + y) # hex_to_bytes cs))"
| "hex_to_bytes _ = []"

lemma unat_byte_lt [simp]: "unat (b :: byte) < 256"
  using unsigned_less[of b] by simp

lemma byte_of_unat [simp]: "byte_of (unat b) = b"
  by (simp add: byte_of_def)

lemma unat_byte_of: "n < 256 \<Longrightarrow> unat (byte_of n) = n"
  by (simp add: byte_of_def unat_of_nat)

lemma unat_div_16_lt [simp]: "unat (b :: byte) div 16 < 16"
  using unat_byte_lt[of b] by (simp add: less_mult_imp_div_less)

lemma bytes_to_hex_simps [simp]:
  "bytes_to_hex [] = []"
  "bytes_to_hex (b # bs) = byte_hex b @ bytes_to_hex bs"
  "bytes_to_hex (xs @ ys) = bytes_to_hex xs @ bytes_to_hex ys"
  by (simp_all add: bytes_to_hex_def)

lemma length_byte_hex [simp]: "length (byte_hex b) = 2"
  by (simp add: byte_hex_def)

lemma length_bytes_to_hex [simp, str_simps]: "length (bytes_to_hex bs) = 2 * length bs"
  by (induction bs) simp_all

lemma hex_to_bytes_byte_hex [simp]: "hex_to_bytes (byte_hex b @ cs) = b # hex_to_bytes cs"
  by (simp add: byte_hex_def)

lemma hex_to_bytes_to_hex [simp]: "hex_to_bytes (bytes_to_hex bs) = bs"
  by (induction bs) simp_all

lemma bytes_to_hex_inj [simp]: "(bytes_to_hex xs = bytes_to_hex ys) = (xs = ys)"
  by (metis hex_to_bytes_to_hex)

lemma bytes_to_hex_Nil [simp]: "(bytes_to_hex bs = []) = (bs = [])"
  by (cases bs) (simp_all add: byte_hex_def)

lemma bytes_to_hex_digits [simp]: "list_all is_hex_digit (bytes_to_hex bs)"
  by (induction bs) (simp_all add: byte_hex_def)

lemma take_bytes_to_hex: "take (2 * n) (bytes_to_hex bs) = bytes_to_hex (take n bs)"
proof (induction bs arbitrary: n)
  case (Cons b bs)
  then show ?case by (cases n) simp_all
qed simp

lemma drop_bytes_to_hex: "drop (2 * n) (bytes_to_hex bs) = bytes_to_hex (drop n bs)"
proof (induction bs arbitrary: n)
  case (Cons b bs)
  then show ?case by (cases n) simp_all
qed simp

lemma length_hex_to_bytes:
  "list_all is_hex_digit s \<Longrightarrow> even (length s) \<Longrightarrow> 2 * length (hex_to_bytes s) = length s"
  by (induction s rule: hex_to_bytes.induct) (auto simp: is_hex_digit_def)

lemma is_hex_digit_not_x [simp]: "\<not> is_hex_digit (CHR ''x'')" "\<not> is_hex_digit (CHR ''X'')"
  by (simp_all add: is_hex_digit_def hex_val_def hex_digits_def upt_rec)

end
