(* ===== verification/JsText.thy ===== *)
theory JsText
  imports Prelude
begin

section \<open>JavaScript strings, numbers as text, buffers as numbers\<close>

text \<open>
  The standard-library string and number operations the sources use (\<open>replace(/^0x/, "")\<close>,
  \<open>toLowerCase\<close>, \<open>padStart\<close>, \<open>toString(radix)\<close>, \<open>parseInt(s, 16)\<close>, \<open>BigInt("0x...")\<close>,
  \<open>buf.readUInt32LE\<close>, \<open>buf.writeUInt32LE\<close>, \<open>buf.copy\<close>), and the arithmetic of
  big-endian byte strings their correctness lemmas rest on.
\<close>

subsection \<open>Prefixes, case, padding\<close>

text \<open>\<open>s.replace(/^0x/, "")\<close> and \<open>s.replace(/^(0x|0X)/, "")\<close>.\<close>

definition strip_0x :: "string \<Rightarrow> string" where
  "strip_0x s = (if take 2 s = ''0x'' then drop 2 s else s)"

definition strip_0xX :: "string \<Rightarrow> string" where
  "strip_0xX s = (if take 2 s = ''0x'' \<or> take 2 s = ''0X'' then drop 2 s else s)"

text \<open>\<open>toLowerCase\<close> on the letters A to Z; the sources apply it to hexadecimal text.\<close>

definition lower_char :: "char \<Rightarrow> char" where
  "lower_char c =
     (case map_of (zip ''ABCDEFGHIJKLMNOPQRSTUVWXYZ'' ''abcdefghijklmnopqrstuvwxyz'') c of
        None \<Rightarrow> c | Some d \<Rightarrow> d)"

definition toLowerCase :: "string \<Rightarrow> string" where
  "toLowerCase s = map lower_char s"

definition padStart :: "nat \<Rightarrow> char \<Rightarrow> string \<Rightarrow> string" where
  "padStart n c s = replicate (n - length s) c @ s"

lemma length_padStart [str_simps]: "length (padStart n c s) = max n (length s)"
  by (simp add: padStart_def)

lemma padStart_id [simp]: "n \<le> length s \<Longrightarrow> padStart n c s = s"
  by (simp add: padStart_def)

lemma length_toLowerCase [simp, str_simps]: "length (toLowerCase s) = length s"
  by (simp add: toLowerCase_def)

lemma toLowerCase_append [simp]: "toLowerCase (xs @ ys) = toLowerCase xs @ toLowerCase ys"
  by (simp add: toLowerCase_def)

lemma hex_char_cases: "is_hex_digit c \<Longrightarrow> c \<in> set (hex_digits @ ''ABCDEF'')"
proof -
  assume "is_hex_digit c"
  then obtain n where "hex_val c = Some n" by (auto simp: is_hex_digit_def)
  then have "(c, n) \<in> set (zip (hex_digits @ ''ABCDEF'') ([0..<16] @ [10..<16]))"
    unfolding hex_val_def by (rule map_of_SomeD)
  then show ?thesis by (rule set_zip_leftD)
qed

lemma hex_char_lower_table:
  "\<forall>c \<in> set (hex_digits @ ''ABCDEF'').
     hex_val (lower_char c) = hex_val c \<and> hex_digit (the (hex_val c)) = lower_char c"
  by code_simp

lemma hex_val_lower [simp]: "is_hex_digit c \<Longrightarrow> hex_val (lower_char c) = hex_val c"
  using hex_char_cases hex_char_lower_table by blast

lemma is_hex_digit_lower [simp]: "is_hex_digit c \<Longrightarrow> is_hex_digit (lower_char c)"
  by (simp add: is_hex_digit_def)

lemma lower_digit_table: "\<forall>n \<in> set [0..<16]. lower_char (hex_digit n) = hex_digit n"
  by code_simp

lemma lower_char_hex_digit [simp]: "n < 16 \<Longrightarrow> lower_char (hex_digit n) = hex_digit n"
  using lower_digit_table by simp

lemma list_all_hex_lower: "list_all is_hex_digit s \<Longrightarrow> list_all is_hex_digit (toLowerCase s)"
  by (simp add: toLowerCase_def list_all_iff)

lemma lower_hex_digits [simp]:
  "is_hex_digit c \<Longrightarrow> hex_digit (the (hex_val c)) = lower_char c"
  using hex_char_cases hex_char_lower_table by blast

lemma toLowerCase_bytes_to_hex [simp]: "toLowerCase (bytes_to_hex bs) = bytes_to_hex bs"
  by (induction bs) (simp_all add: byte_hex_def toLowerCase_def)

lemma byte_hex_byte_of:
  "x < 16 \<Longrightarrow> y < 16 \<Longrightarrow> byte_hex (byte_of (16 * x + y)) = [hex_digit x, hex_digit y]"
  by (simp add: byte_hex_def unat_byte_of)

text \<open>Decoding digits and printing them again gives the digits in lower case.\<close>

lemma bytes_to_hex_to_bytes:
  "list_all is_hex_digit s \<Longrightarrow> even (length s) \<Longrightarrow> bytes_to_hex (hex_to_bytes s) = toLowerCase s"
proof (induction s rule: hex_to_bytes.induct)
  case (1 a b cs)
  then obtain x y where xy: "hex_val a = Some x" "hex_val b = Some y"
    by (auto simp: is_hex_digit_def)
  with 1 have "lower_char a = hex_digit x" "lower_char b = hex_digit y"
    using lower_hex_digits[of a] lower_hex_digits[of b] by (simp_all add: is_hex_digit_def)
  with 1 xy show ?case
    by (simp add: toLowerCase_def byte_hex_byte_of hex_val_lt)
qed (simp_all add: toLowerCase_def)

subsection \<open>Numbers as text\<close>

function show_base :: "nat \<Rightarrow> nat \<Rightarrow> string" where
  "show_base b n =
     (if b < 2 \<or> n < b then [hex_digit n] else show_base b (n div b) @ [hex_digit (n mod b)])"
  by pat_completeness auto
termination
  by (relation "measure snd") auto

declare show_base.simps [simp del]

definition show_nat :: "nat \<Rightarrow> string" where
  "show_nat n = show_base 10 n"

definition show_int :: "int \<Rightarrow> string" where
  "show_int i = (if i < 0 then CHR ''-'' # show_nat (nat (- i)) else show_nat (nat i))"

text \<open>The value of a string of hexadecimal digits: \<open>parseInt(s, 16)\<close> on such a string.\<close>

definition hex_num :: "string \<Rightarrow> nat" where
  "hex_num s = foldl (\<lambda>a c. 16 * a + the (hex_val c)) 0 s"

text \<open>\<open>BigInt("0x" + s)\<close> drops white space at the end, and is a SyntaxError unless a non-empty
  string of digits is left.\<close>

definition is_space :: "char \<Rightarrow> bool" where
  "is_space c = (c \<in> {CHR 0x09, CHR 0x0A, CHR 0x0B, CHR 0x0C, CHR 0x0D, CHR 0x20, CHR 0xA0})"

definition trimEnd :: "string \<Rightarrow> string" where
  "trimEnd s = rev (dropWhile is_space (rev s))"

definition BigInt_hex :: "string \<Rightarrow> int res" where
  "BigInt_hex s = (let d = trimEnd s in if d \<noteq> [] \<and> list_all is_hex_digit d then Inr (int (hex_num d))
     else Inl (Error (''SyntaxError: Cannot convert 0x'' @ s @ '' to a BigInt'')))"

lemma is_space_not_hex: "is_hex_digit c \<Longrightarrow> \<not> is_space c"
  by (auto simp: is_space_def is_hex_digit_def hex_val_def hex_digits_def upt_rec)

lemma trimEnd_hex [simp]: "list_all is_hex_digit s \<Longrightarrow> trimEnd s = s"
  by (cases s rule: rev_cases) (simp_all add: trimEnd_def is_space_not_hex)

fun fixed_digits :: "nat \<Rightarrow> nat \<Rightarrow> nat \<Rightarrow> nat list" where
  "fixed_digits b 0 x = []"
| "fixed_digits b (Suc n) x = fixed_digits b n (x div b) @ [x mod b]"

lemma length_fixed_digits [simp]: "length (fixed_digits b n x) = n"
  by (induction n arbitrary: x) simp_all

lemma fixed_digits_zero: "fixed_digits b n 0 = replicate n 0"
  by (induction n) (simp_all add: replicate_append_same)

lemma fixed_digits_lt: "0 < b \<Longrightarrow> d \<in> set (fixed_digits b n x) \<Longrightarrow> d < b"
  by (induction n arbitrary: x) auto

lemma length_show_base_le:
  "1 < b \<Longrightarrow> 0 < n \<Longrightarrow> x < b ^ n \<Longrightarrow> length (show_base b x) \<le> n"
proof (induction n arbitrary: x)
  case (Suc n)
  show ?case
  proof (cases "x < b")
    case False
    then have "0 < n" using Suc.prems by (cases n) auto
    moreover have "x div b < b ^ n" using Suc.prems by (simp add: less_mult_imp_div_less mult.commute)
    ultimately have "length (show_base b (x div b)) \<le> n" using Suc by simp
    then show ?thesis using False Suc.prems by (subst show_base.simps) simp
  qed (subst show_base.simps, simp)
qed simp

text \<open>Zero padding to a fixed width prints the digits of that width.\<close>

lemma padStart_show_base:
  "1 < b \<Longrightarrow> 0 < n \<Longrightarrow> x < b ^ n \<Longrightarrow>
   padStart n (CHR ''0'') (show_base b x) = map hex_digit (fixed_digits b n x)"
proof (induction n arbitrary: x)
  case (Suc n)
  have d0: "hex_digit 0 = CHR ''0''" by (simp add: hex_digit_def hex_digits_def)
  show ?case
  proof (cases "x < b")
    case True
    then show ?thesis
      by (subst show_base.simps) (simp add: padStart_def fixed_digits_zero d0)
  next
    case False
    then have n: "0 < n" using Suc.prems by (cases n) auto
    have lt: "x div b < b ^ n" using Suc.prems by (simp add: less_mult_imp_div_less mult.commute)
    have "padStart (Suc n) (CHR ''0'') (show_base b x)
        = padStart n (CHR ''0'') (show_base b (x div b)) @ [hex_digit (x mod b)]"
      using False Suc.prems by (subst show_base.simps) (simp add: padStart_def)
    then show ?thesis using Suc.IH[OF Suc.prems(1) n lt] by simp
  qed
qed simp

subsection \<open>Number operators\<close>

text \<open>\<open>a % b\<close> takes the sign of \<open>a\<close>; \<open>a >> n\<close> works on the signed 32-bit value of \<open>a\<close>.\<close>

definition js_rem :: "int \<Rightarrow> int \<Rightarrow> int" where
  "js_rem a b = sgn a * (\<bar>a\<bar> mod \<bar>b\<bar>)"

definition js_shr :: "int \<Rightarrow> nat \<Rightarrow> int" where
  "js_shr a n = sint (signed_drop_bit n (word_of_int a :: 32 word))"

lemma js_rem_nonneg: "0 \<le> a \<Longrightarrow> 0 < b \<Longrightarrow> js_rem a b = a mod b"
  by (cases "a = 0") (simp_all add: js_rem_def)

lemma js_shr_nonneg:
  assumes "0 \<le> a" "a < 2 ^ 31"
  shows "js_shr a n = a div 2 ^ n"
proof -
  have "sint (word_of_int a :: 32 word) = a"
    using assms by (simp add: sint_sbintrunc' signed_take_bit_int_eq_self)
  then show ?thesis
    by (simp add: js_shr_def sint_signed_drop_bit_eq drop_bit_eq_div)
qed

subsection \<open>Buffers as numbers\<close>

definition be_nat :: "byte list \<Rightarrow> nat" where
  "be_nat bs = foldl (\<lambda>a b. 256 * a + unat b) 0 bs"

definition le_nat :: "byte list \<Rightarrow> nat" where
  "le_nat bs = be_nat (rev bs)"

fun be_bytes :: "nat \<Rightarrow> nat \<Rightarrow> byte list" where
  "be_bytes 0 x = []"
| "be_bytes (Suc n) x = be_bytes n (x div 256) @ [byte_of (x mod 256)]"

definition le_bytes :: "nat \<Rightarrow> nat \<Rightarrow> byte list" where
  "le_bytes n x = rev (be_bytes n x)"

lemma length_be_bytes [simp, str_simps]: "length (be_bytes n x) = n"
  by (induction n arbitrary: x) simp_all

lemma length_le_bytes [simp, str_simps]: "length (le_bytes n x) = n"
  by (simp add: le_bytes_def)

lemma be_nat_Nil [simp]: "be_nat [] = 0"
  by (simp add: be_nat_def)

lemma be_nat_snoc [simp]: "be_nat (bs @ [b]) = 256 * be_nat bs + unat b"
  by (simp add: be_nat_def)

lemma be_nat_lt: "be_nat bs < 256 ^ length bs"
proof (induction bs rule: rev_induct)
  case (snoc b bs)
  have "256 * be_nat bs + unat b < 256 * be_nat bs + 256" by simp
  also have "\<dots> \<le> 256 * 256 ^ length bs" using snoc by simp
  finally show ?case by simp
qed simp

lemma be_bytes_be_nat: "be_bytes (length bs) (be_nat bs) = bs"
proof (induction bs rule: rev_induct)
  case (snoc b bs)
  have "(256 * be_nat bs + unat b) div 256 = be_nat bs" "(256 * be_nat bs + unat b) mod 256 = unat b"
    by simp_all
  then show ?case using snoc by simp
qed simp

lemma be_nat_be_bytes: "be_nat (be_bytes n x) = x mod 256 ^ n"
proof (induction n arbitrary: x)
  case (Suc n)
  have "x mod (256 * 256 ^ n) = 256 * (x div 256 mod 256 ^ n) + x mod 256"
    by (rule mod_mult2_eq)
  then show ?case using Suc by (simp add: unat_byte_of)
qed simp

lemma be_nat_inj: "length xs = length ys \<Longrightarrow> be_nat xs = be_nat ys \<Longrightarrow> xs = ys"
  by (metis be_bytes_be_nat)

lemma le_bytes_le_nat: "le_bytes (length bs) (le_nat bs) = bs"
  using be_bytes_be_nat[of "rev bs"] by (simp add: le_bytes_def le_nat_def)

lemma le_nat_le_bytes: "le_nat (le_bytes n x) = x mod 256 ^ n"
  by (simp add: le_bytes_def le_nat_def be_nat_be_bytes)

lemma le_nat_lt: "le_nat bs < 256 ^ length bs"
  using be_nat_lt[of "rev bs"] by (simp add: le_nat_def)

lemma be_nat_append: "be_nat (xs @ ys) = be_nat xs * 256 ^ length ys + be_nat ys"
proof (induction ys rule: rev_induct)
  case (snoc y ys)
  show ?case using snoc by (simp flip: append_assoc add: algebra_simps)
qed simp

lemma be_nat_zeros [simp]: "be_nat (replicate n 0) = 0"
  by (induction n) (simp_all add: be_nat_def)

lemma hex_num_append_digit: "hex_num (s @ [c]) = 16 * hex_num s + the (hex_val c)"
  by (simp add: hex_num_def)

lemma hex_num_bytes_to_hex [simp]: "hex_num (bytes_to_hex bs) = be_nat bs"
proof (induction bs rule: rev_induct)
  case (snoc b bs)
  have "hex_num (bytes_to_hex bs @ byte_hex b) = 256 * hex_num (bytes_to_hex bs) + unat b"
    using hex_num_append_digit[of "bytes_to_hex bs @ [hex_digit (unat b div 16)]"]
    by (simp add: byte_hex_def hex_num_append_digit)
  then show ?case using snoc by simp
qed (simp add: hex_num_def)

lemma BigInt_hex_bytes [simp]:
  "bs \<noteq> [] \<Longrightarrow> BigInt_hex (bytes_to_hex bs) = Inr (int (be_nat bs))"
  by (simp add: BigInt_hex_def bytes_to_hex_digits)

lemma hex_num_toLowerCase: "list_all is_hex_digit s \<Longrightarrow> hex_num (toLowerCase s) = hex_num s"
  by (induction s rule: rev_induct) (simp_all add: toLowerCase_def hex_num_append_digit hex_num_def)

lemma hex_num_hex_bytes:
  "list_all is_hex_digit s \<Longrightarrow> even (length s) \<Longrightarrow> hex_num s = be_nat (hex_to_bytes s)"
  by (metis bytes_to_hex_to_bytes hex_num_bytes_to_hex hex_num_toLowerCase)

lemma map_hex_digit_fixed:
  "map hex_digit (fixed_digits 16 (2 * n) x) = bytes_to_hex (be_bytes n x)"
proof (induction n arbitrary: x)
  case (Suc n)
  have "x div 16 div 16 = x div 256" by (simp flip: div_mult2_eq)
  moreover have "x mod 256 = 16 * (x div 16 mod 16) + x mod 16"
    using mod_mult2_eq[of x 16 16] by simp
  then have "x div 16 mod 16 = x mod 256 div 16" "x mod 16 = x mod 256 mod 16" by simp_all
  ultimately show ?case using Suc by (simp add: byte_hex_def unat_byte_of)
qed simp

lemma padStart_show_hex:
  assumes "0 < n" "x < 256 ^ n"
  shows "padStart (2 * n) (CHR ''0'') (show_base 16 x) = bytes_to_hex (be_bytes n x)"
proof -
  have "(256 :: nat) ^ n = 16 ^ (2 * n)" by (simp add: power_mult)
  then show ?thesis
    using padStart_show_base[of 16 "2 * n" x] assms by (simp add: map_hex_digit_fixed)
qed

subsection \<open>Buffer reads and writes\<close>

text \<open>\<open>buf.readUInt32LE(off)\<close> and \<open>buf.writeUInt32LE(v, off)\<close> throw outside the buffer, and
  the write throws outside the range of the type. \<open>src.copy(buf, off)\<close> clips to the buffer.\<close>

definition readUInt32LE :: "byte list \<Rightarrow> nat \<Rightarrow> int res" where
  "readUInt32LE buf off =
     (if off + 4 \<le> length buf then Inr (int (le_nat (take 4 (drop off buf))))
      else Inl (RangeError ''ERR_OUT_OF_RANGE''))"

definition writeUInt32LE :: "byte list \<Rightarrow> int \<Rightarrow> nat \<Rightarrow> byte list res" where
  "writeUInt32LE buf v off =
     (if 0 \<le> v \<and> v < 2 ^ 32 \<and> off + 4 \<le> length buf
      then Inr (take off buf @ le_bytes 4 (nat v) @ drop (off + 4) buf)
      else Inl (RangeError ''ERR_OUT_OF_RANGE''))"

definition buffer_copy :: "byte list \<Rightarrow> byte list \<Rightarrow> nat \<Rightarrow> byte list" where
  "buffer_copy src buf off =
     (let s = take (length buf - off) src in take off buf @ s @ drop (off + length s) buf)"

definition buffer_slice :: "byte list \<Rightarrow> nat \<Rightarrow> nat \<Rightarrow> byte list" where
  "buffer_slice buf i j = take (j - i) (drop i buf)"

lemma length_buffer_copy [simp]: "off \<le> length buf \<Longrightarrow> length (buffer_copy src buf off) = length buf"
  by (simp add: buffer_copy_def Let_def)

end
