(* ===== verification/Codec.thy ===== *)
theory Codec
  imports JsText
begin

section \<open>Codecs: the contract of every encode/decode pair\<close>

text \<open>
  The library encodes and decodes at many places: hexadecimal values, block headers,
  Merkle proofs, deposit owners of the destination chains, receivers of token bridges.
  Each pair is an interpretation of \<open>codec\<close>: decoding is a partial left inverse of
  encoding on the valid values. An \<open>exact_codec\<close> also accepts nothing but encodings.
  The loop that cuts a string into chunks of a fixed width is shared too.
\<close>

locale codec =
  fixes enc :: "'a \<Rightarrow> 'b"
    and dec :: "'b \<Rightarrow> 'a res"
    and valid :: "'a \<Rightarrow> bool"
  assumes dec_enc: "valid x \<Longrightarrow> dec (enc x) = Inr x"
    and dec_valid: "dec y = Inr x \<Longrightarrow> valid x"
begin

lemma enc_inj: "valid x \<Longrightarrow> valid x' \<Longrightarrow> (enc x = enc x') = (x = x')"
  by (metis dec_enc sum.inject(2))

lemma dec_of_dec: "dec y = Inr x \<Longrightarrow> dec (enc x) = Inr x"
  by (rule dec_enc) (rule dec_valid)

lemma map_dec_enc: "list_all valid xs \<Longrightarrow> map_res dec (map enc xs) = Inr xs"
  by (induction xs) (simp_all add: dec_enc)

end

locale exact_codec = codec +
  assumes enc_dec: "dec y = Inr x \<Longrightarrow> enc x = y"
begin

lemma dec_iff: "(dec y = Inr x) = (valid x \<and> enc x = y)"
  using dec_enc dec_valid enc_dec by metis

lemma dec_inj: "dec y = Inr x \<Longrightarrow> dec y' = Inr x \<Longrightarrow> y = y'"
  using enc_dec by metis

end

subsection \<open>Cutting a list into chunks\<close>

text \<open>\<open>for (let i = 0; i < xs.length; i += w) result.push(f(xs.slice(i, i + w)))\<close>, for a
  positive width.\<close>

function for_chunks :: "nat \<Rightarrow> ('a list \<Rightarrow> 'b res) \<Rightarrow> 'a list \<Rightarrow> 'b list res" where
  "for_chunks w f xs =
     (if w = 0 \<or> xs = [] then Inr []
      else bind_res (f (take w xs)) (\<lambda>y. bind_res (for_chunks w f (drop w xs)) (\<lambda>ys. Inr (y # ys))))"
  by pat_completeness auto
termination
  by (relation "measure (\<lambda>(w, f, xs). length xs)") auto

declare for_chunks.simps [simp del]

lemma for_chunks_Nil [simp]: "for_chunks w f [] = Inr []"
  by (simp add: for_chunks.simps)

lemma for_chunks_append:
  "0 < w \<Longrightarrow> length xs = w \<Longrightarrow>
   for_chunks w f (xs @ ys) = bind_res (f xs) (\<lambda>y. bind_res (for_chunks w f ys) (\<lambda>zs. Inr (y # zs)))"
  by (subst for_chunks.simps) auto

lemma for_chunks_concat:
  "0 < w \<Longrightarrow> (\<And>x. x \<in> set xs \<Longrightarrow> length (e x) = w) \<Longrightarrow>
   for_chunks w f (concat (map e xs)) = map_res (f \<circ> e) xs"
  by (induction xs) (auto simp: for_chunks_append)

lemma for_chunks_count:
  "for_chunks w f xs = Inr ys \<Longrightarrow> 0 < w \<Longrightarrow> w dvd length xs \<Longrightarrow> length ys * w = length xs"
proof (induction w f xs arbitrary: ys rule: for_chunks.induct)
  case (1 w f xs)
  show ?case
  proof (cases "xs = []")
    case False
    then have len: "w \<le> length xs" using "1.prems" by (simp add: dvd_imp_le)
    obtain y zs where y: "f (take w xs) = Inr y" and zs: "for_chunks w f (drop w xs) = Inr zs"
      and ys: "ys = y # zs"
      using "1.prems" False by (subst (asm) for_chunks.simps) (auto simp: res_simps)
    have "w dvd length (drop w xs)" using "1.prems" len by (simp add: dvd_minus_self)
    then have "length zs * w = length (drop w xs)" using "1.IH" "1.prems" False y zs by auto
    then show ?thesis using ys len by simp
  qed (use "1.prems" in simp)
qed

text \<open>Decoding what is cut, then encoding and gluing, gives the input back, when the pieces
  decode exactly.\<close>

lemma for_chunks_inv:
  "0 < w \<Longrightarrow> (\<And>b x. length b = w \<Longrightarrow> f b = Inr x \<Longrightarrow> P x \<and> e x = b) \<Longrightarrow>
   w dvd length xs \<Longrightarrow> for_chunks w f xs = Inr ys \<Longrightarrow> list_all P ys \<and> concat (map e ys) = xs"
proof (induction w f xs arbitrary: ys rule: for_chunks.induct)
  case (1 w f xs)
  show ?case
  proof (cases "xs = []")
    case False
    then have len: "w \<le> length xs" using "1.prems" by (simp add: dvd_imp_le)
    obtain y zs where y: "f (take w xs) = Inr y" and zs: "for_chunks w f (drop w xs) = Inr zs"
      and ys: "ys = y # zs"
      using "1.prems"(1,4) False by (subst (asm) for_chunks.simps) (auto simp: res_simps)
    have "w dvd length (drop w xs)" using "1.prems"(3) len by (simp add: dvd_minus_self)
    then have "list_all P zs \<and> concat (map e zs) = drop w xs"
      using "1.IH" "1.prems"(1,2) False zs y by blast
    moreover have "P y \<and> e y = take w xs" using "1.prems"(2)[of "take w xs" y] len y by simp
    ultimately show ?thesis using ys by simp
  qed (use "1.prems" in simp)
qed

text \<open>Cutting the hexadecimal text cuts the bytes.\<close>

lemma for_chunks_hex:
  "for_chunks (2 * w) f (bytes_to_hex bs) = for_chunks w (\<lambda>b. f (bytes_to_hex b)) bs"
proof (induction w "\<lambda>b. f (bytes_to_hex b)" bs rule: for_chunks.induct)
  case (1 w bs)
  show ?case
  proof (cases "w = 0 \<or> bs = []")
    case True
    then show ?thesis by (subst (1 2) for_chunks.simps) auto
  next
    case False
    then have IH: "for_chunks (2 * w) f (bytes_to_hex (drop w bs)) =
        for_chunks w (\<lambda>b. f (bytes_to_hex b)) (drop w bs)" if "f (bytes_to_hex (take w bs)) = Inr y" for y
      using 1 that by blast
    show ?thesis using False IH
      by (subst (1 2) for_chunks.simps)
        (cases "f (bytes_to_hex (take w bs))"; simp add: take_bytes_to_hex drop_bytes_to_hex)
  qed
qed

text \<open>Cutting without decoding, then gluing, gives the list back.\<close>

lemma for_chunks_concat_id: "0 < w \<Longrightarrow> \<exists>yss. for_chunks w Inr xs = Inr yss \<and> concat yss = xs"
proof (induction w "Inr :: 'a list \<Rightarrow> 'a list res" xs rule: for_chunks.induct)
  case (1 w xs)
  show ?case
  proof (cases "xs = []")
    case False
    then obtain yss where "for_chunks w Inr (drop w xs) = Inr yss" "concat yss = drop w xs"
      using 1 by auto
    then show ?thesis using False "1.prems" by (subst for_chunks.simps) simp
  qed simp
qed

lemma for_chunks_bounds:
  "for_chunks w Inr xs = Inr yss \<Longrightarrow> ys \<in> set yss \<Longrightarrow> 0 < length ys \<and> length ys \<le> w"
proof (induction w "Inr :: 'a list \<Rightarrow> 'a list res" xs arbitrary: yss rule: for_chunks.induct)
  case (1 w xs)
  show ?case
  proof (cases "w = 0 \<or> xs = []")
    case True
    then show ?thesis using "1.prems" by (subst (asm) for_chunks.simps) auto
  next
    case False
    then obtain zss where zss: "for_chunks w Inr (drop w xs) = Inr zss" "yss = take w xs # zss"
      using "1.prems" by (subst (asm) for_chunks.simps) (auto simp: res_simps)
    show ?thesis
    proof (cases "ys \<in> set zss")
      case True
      then show ?thesis using 1 False zss by blast
    next
      case notin: False
      then show ?thesis using "1.prems" zss False by auto
    qed
  qed
qed

end
