(* ===== verification/HexValue.thy ===== *)
theory HexValue
  imports Codec
begin

section \<open>Hexadecimal values (typescript/src/lib/utils/hex.ts)\<close>

text \<open>
  The class \<open>Hex\<close> wraps a \<open>Buffer\<close> that is copied on the way in and on the way out, so
  a value never changes: the model is a datatype over the bytes. The constructor's two
  branches (a string, a buffer) are two functions; only the string branch can throw.
\<close>

datatype Hex = Hex (hex_buf: "byte list")

text \<open>\<open>value.match(/^(0x|0X)?[0-9A-Fa-f]*$/)\<close>: since \<open>x\<close> is no digit, the optional group
  matches exactly when the string starts with it.\<close>

definition hex_pattern :: "string \<Rightarrow> bool" where
  "hex_pattern s = list_all is_hex_digit (strip_0xX s)"

definition Hex_from_string :: "string \<Rightarrow> Hex res" where
  "Hex_from_string value =
     (if \<not> hex_pattern value then Inl (Error ''invalid format of hex string'')
      else if length value mod 2 \<noteq> 0
      then Inl (Error (''invalid length of hex string: '' @ show_nat (length value)))
      else Inr (Hex (hex_to_bytes (strip_0xX value))))"

definition Hex_from_buffer :: "byte list \<Rightarrow> Hex" where
  "Hex_from_buffer value = Hex value"

definition toBuffer :: "Hex \<Rightarrow> byte list" where
  "toBuffer h = hex_buf h"

definition toString :: "Hex \<Rightarrow> string" where
  "toString h = bytes_to_hex (hex_buf h)"

definition toPrefixedString :: "Hex \<Rightarrow> string" where
  "toPrefixedString h = (let str = toString h in if length str > 0 then ''0x'' @ str else '''')"

definition hex_equals :: "Hex \<Rightarrow> Hex \<Rightarrow> bool" where
  "hex_equals h otherValue = (toString h = toString otherValue)"

definition hex_reverse :: "Hex \<Rightarrow> Hex" where
  "hex_reverse h = Hex_from_buffer (rev (hex_buf h))"

subsection \<open>Lemmas\<close>

lemma strip_hex [simp]:
  assumes "list_all is_hex_digit s"
  shows "strip_0xX s = s" "strip_0x s = s"
proof -
  have "take 2 s \<noteq> ''0x''" "take 2 s \<noteq> ''0X''"
    using assms by (auto simp: take_Suc_conv_app_nth numeral_2_eq_2 list_all_iff
        dest!: arg_cong[where f = set] split: list.splits)
      (metis in_set_takeD insertCI is_hex_digit_not_x)+
  then show "strip_0xX s = s" "strip_0x s = s"
    by (simp_all add: strip_0xX_def strip_0x_def)
qed

lemma strip_0x_prefixed [simp]: "strip_0xX (''0x'' @ s) = s" "strip_0x (''0x'' @ s) = s"
  by (simp_all add: strip_0xX_def strip_0x_def)

lemma strip_bytes_to_hex [simp]:
  "strip_0xX (bytes_to_hex bs) = bytes_to_hex bs" "strip_0x (bytes_to_hex bs) = bytes_to_hex bs"
  by (simp_all add: bytes_to_hex_digits)

lemma even_strip_0xX [simp]: "even (length (strip_0xX s)) = even (length s)"
proof -
  have "take 2 s = [a, b] \<Longrightarrow> 2 \<le> length s" for a b
    by (metis One_nat_def Suc_1 length_Cons length_take list.size(3) min.orderI min.commute)
  then show ?thesis by (auto simp: strip_0xX_def)
qed

lemma toBuffer_Hex [simp]: "toBuffer (Hex bs) = bs" "toBuffer (Hex_from_buffer bs) = bs"
  by (simp_all add: toBuffer_def Hex_from_buffer_def)

lemma Hex_from_toBuffer [simp]: "Hex_from_buffer (toBuffer h) = h"
  by (simp add: toBuffer_def Hex_from_buffer_def)

lemma toString_Hex [simp]: "toString (Hex bs) = bytes_to_hex bs" "toString (Hex_from_buffer bs) = bytes_to_hex bs"
  by (simp_all add: toString_def Hex_from_buffer_def)

lemma length_toString [simp, str_simps]: "length (toString h) = 2 * length (hex_buf h)"
  by (simp add: toString_def)

lemma toString_inj [simp]: "(toString a = toString b) = (a = b)"
  by (cases a; cases b) simp

lemma Hex_from_hex_string [simp]: "Hex_from_string (bytes_to_hex bs) = Inr (Hex bs)"
  by (simp add: Hex_from_string_def hex_pattern_def bytes_to_hex_digits)

lemma Hex_from_prefixed_hex_string [simp]: "Hex_from_string (CHR ''0'' # CHR ''x'' # bytes_to_hex bs) = Inr (Hex bs)"
  using strip_0x_prefixed(1)[of "bytes_to_hex bs"]
  by (simp add: Hex_from_string_def hex_pattern_def bytes_to_hex_digits)

lemma Hex_from_hex_append [simp]:
  "Hex_from_string (bytes_to_hex a @ bytes_to_hex b) = Inr (Hex (a @ b))"
  "Hex_from_string (CHR ''0'' # CHR ''x'' # bytes_to_hex a @ bytes_to_hex b) = Inr (Hex (a @ b))"
  using Hex_from_hex_string[of "a @ b"] Hex_from_prefixed_hex_string[of "a @ b"] by simp_all

lemma toPrefixedString_Hex: "bs \<noteq> [] \<Longrightarrow> toPrefixedString (Hex bs) = ''0x'' @ bytes_to_hex bs"
  by (simp add: toPrefixedString_def Let_def)

lemma Hex_from_string_Inr:
  "(Hex_from_string s = Inr h) =
   (hex_pattern s \<and> even (length s) \<and> h = Hex (hex_to_bytes (strip_0xX s)))"
  by (auto simp: Hex_from_string_def even_iff_mod_2_eq_zero)

lemma Hex_from_string_ok: "is_ok (Hex_from_string s) = (hex_pattern s \<and> even (length s))"
  by (auto simp: Hex_from_string_def even_iff_mod_2_eq_zero)

lemma toString_from_string: "Hex_from_string s = Inr h \<Longrightarrow> toString h = toLowerCase (strip_0xX s)"
  by (auto simp: Hex_from_string_Inr hex_pattern_def bytes_to_hex_to_bytes)

text \<open>Both printed forms are codecs for the class.\<close>

interpretation hexstr: codec toString Hex_from_string "\<lambda>_. True"
  by unfold_locales (simp_all add: toString_def)

lemma from_toPrefixedString [simp]: "Hex_from_string (toPrefixedString h) = Inr h"
  by (cases h) (simp add: toPrefixedString_def Let_def Hex_from_string_def hex_pattern_def strip_0xX_def)

interpretation hexpre: codec toPrefixedString Hex_from_string "\<lambda>_. True"
  by unfold_locales simp_all

lemma hex_equals_eq [simp]: "hex_equals a b = (a = b)"
  by (simp add: hex_equals_def)

lemma hex_reverse_buf [simp]: "hex_buf (hex_reverse h) = rev (hex_buf h)" "hex_reverse (Hex bs) = Hex (rev bs)"
  by (simp_all add: hex_reverse_def Hex_from_buffer_def)

lemma hex_reverse_reverse [simp]: "hex_reverse (hex_reverse h) = h"
  by (cases h) simp

end
