(* ===== verification/BigNumbers.thy ===== *)
theory BigNumbers
  imports HexValue
begin

section \<open>Arbitrary-precision numbers\<close>

text \<open>
  An ethers \<open>BigNumber\<close> is an integer of any size, so it is an \<open>int\<close>: \<open>add\<close>, \<open>sub\<close>,
  \<open>mul\<close>, \<open>eq\<close>, \<open>lt\<close>, \<open>gt\<close> are the operations of \<open>int\<close>. Here are the operations whose
  documented behaviour is not that of \<open>int\<close>: the ones that throw (division by zero, a
  negative exponent, a value that does not fit a JavaScript number), the division that
  rounds towards zero, and the conversions from and to text.
\<close>

definition MAX_SAFE :: int where
  "MAX_SAFE = 2 ^ 53 - 1"

definition bn_from_number :: "int \<Rightarrow> int res" where
  "bn_from_number n = (if MAX_SAFE \<le> n \<or> n \<le> - MAX_SAFE then Inl (Error ''overflow'') else Inr n)"

definition bn_from_hex :: "string \<Rightarrow> int res" where
  "bn_from_hex s = (if take 2 s = ''0x'' \<and> drop 2 s \<noteq> [] \<and> list_all is_hex_digit (drop 2 s)
     then Inr (int (hex_num (drop 2 s)))
     else Inl (Error ''invalid BigNumber string''))"

definition bn_toNumber :: "int \<Rightarrow> int res" where
  "bn_toNumber v = (if \<bar>v\<bar> < 2 ^ 53 then Inr v else Inl (Error ''overflow''))"

definition bn_div :: "int \<Rightarrow> int \<Rightarrow> int res" where
  "bn_div a b = (if b = 0 then Inl (Error ''division-by-zero'')
     else Inr (sgn a * sgn b * (\<bar>a\<bar> div \<bar>b\<bar>)))"

definition bn_mod :: "int \<Rightarrow> int \<Rightarrow> int res" where
  "bn_mod a b = (if b < 0 then Inl (Error ''division-by-zero'')
     else if b = 0 then Inl (Error ''Assertion failed'') else Inr (a mod b))"

definition bn_pow :: "int \<Rightarrow> int \<Rightarrow> int res" where
  "bn_pow a n = (if n < 0 then Inl (Error ''negative-power'') else Inr (a ^ nat n))"

text \<open>\<open>toHexString\<close>: an even number of lower-case digits after \<open>0x\<close>.\<close>

definition bn_toHexString :: "int \<Rightarrow> string" where
  "bn_toHexString v =
     (let h = show_base 16 (nat \<bar>v\<bar>);
          e = ''0x'' @ (if odd (length h) then CHR ''0'' # h else h)
      in if v < 0 then CHR ''-'' # e else e)"

lemma bn_div_nonneg: "0 \<le> a \<Longrightarrow> 0 < b \<Longrightarrow> bn_div a b = Inr (a div b)"
  by (cases "a = 0") (simp_all add: bn_div_def)

lemma bn_mod_pos: "0 < b \<Longrightarrow> bn_mod a b = Inr (a mod b)"
  by (simp add: bn_mod_def)

lemma bn_from_hex_prefixed [simp]:
  "bs \<noteq> [] \<Longrightarrow> bn_from_hex (CHR ''0'' # CHR ''x'' # bytes_to_hex bs) = Inr (int (be_nat bs))"
  by (simp add: bn_from_hex_def)

lemma bn_from_hex_toPrefixedString:
  "hex_buf h \<noteq> [] \<Longrightarrow> bn_from_hex (toPrefixedString h) = Inr (int (be_nat (hex_buf h)))"
  by (cases h) (simp add: toPrefixedString_def Let_def)

lemma length_show_base_ge: "1 < b \<Longrightarrow> b ^ k \<le> x \<Longrightarrow> k < length (show_base b x)"
proof (induction k arbitrary: x)
  case 0
  then show ?case by (subst show_base.simps) simp
next
  case (Suc k)
  then have "b ^ k \<le> x div b" by (simp add: less_eq_div_iff_mult_less_eq mult.commute)
  then have IH: "k < length (show_base b (x div b))" using Suc by simp
  have "b \<le> b * b ^ k" using Suc.prems(1) by simp
  then have "\<not> x < b" using Suc.prems(2) le_trans not_less by (metis power_Suc)
  then show ?case using IH Suc.prems by (subst show_base.simps) simp
qed

lemma show_base_hex_digits: "list_all is_hex_digit (show_base 16 x)"
proof (induction x rule: less_induct)
  case (less x)
  show ?case
  proof (cases "x < 16")
    case False
    then have "x div 16 < x" by simp
    then show ?thesis using less False by (subst show_base.simps) simp
  qed (subst show_base.simps, simp)
qed

text \<open>The number of bytes of the even-length form, and its bytes.\<close>

lemma bn_toHexString_bytes:
  assumes "0 < n" "n = 1 \<or> 256 ^ (n - 1) \<le> nat v" "0 \<le> v" "nat v < 256 ^ n"
  shows "bn_toHexString v = ''0x'' @ bytes_to_hex (be_bytes n (nat v))"
proof -
  let ?h = "show_base 16 (nat v)"
  have p: "(256 :: nat) ^ k = 16 ^ (2 * k)" for k by (simp add: power_mult)
  have le: "length ?h \<le> 2 * n"
    using assms by (intro length_show_base_le) (simp_all add: p)
  have ge: "2 * n - 1 \<le> length ?h"
  proof (cases "n = 1")
    case True
    then show ?thesis using length_show_base_ge[of 16 0 "nat v"] by (subst show_base.simps) simp
  next
    case False
    then have "2 * (n - 1) < length ?h"
      using assms by (intro length_show_base_ge) (simp_all add: p)
    then show ?thesis by simp
  qed
  have "(if odd (length ?h) then CHR ''0'' # ?h else ?h) = padStart (2 * n) (CHR ''0'') ?h"
  proof (cases "length ?h = 2 * n")
    case False
    then have "length ?h = 2 * n - 1" using le ge by simp
    then show ?thesis using assms(1) by (cases n) (simp_all add: padStart_def)
  qed simp
  then show ?thesis
    using padStart_show_hex[OF assms(1,4)] assms(3) by (simp add: bn_toHexString_def Let_def)
qed

lemma length_bn_toHexString:
  assumes "0 \<le> v" "length (bn_toHexString v) = 2 + 2 * n" "1 < n"
  shows "256 ^ (n - 1) \<le> v \<and> v < 256 ^ n"
proof -
  let ?h = "show_base 16 (nat v)"
  have p: "(256 :: nat) ^ k = 16 ^ (2 * k)" for k by (simp add: power_mult)
  have len: "length ?h = 2 * n \<or> length ?h = 2 * n - 1"
    using assms by (auto simp: bn_toHexString_def Let_def split: if_splits)
  have "nat v < 256 ^ n"
  proof (rule ccontr)
    assume "\<not> nat v < 256 ^ n"
    then have "2 * n < length ?h" by (intro length_show_base_ge) (simp_all add: p)
    then show False using len by auto
  qed
  moreover have "256 ^ (n - 1) \<le> nat v"
  proof (rule ccontr)
    assume "\<not> 256 ^ (n - 1) \<le> nat v"
    then have "length ?h \<le> 2 * (n - 1)" using assms by (intro length_show_base_le) (simp_all add: p)
    then show False using len assms(3) by auto
  qed
  ultimately have "int (256 ^ (n - 1)) \<le> v" "v < int (256 ^ n)" using assms(1) by linarith+
  then show ?thesis by simp
qed

end
