(* ===== verification/BitcoinLib.thy ===== *)
theory BitcoinLib
  imports BigNumbers
begin

section \<open>Third-party code as parameters\<close>

text \<open>
  The hash functions of ethers and the payment, address, script and transaction codecs of
  bitcoinjs-lib are not part of the repository. The definitions that call them take them
  as arguments, bundled in two records; what a theorem relies on is a predicate that
  states documented behaviour.
\<close>

subsection \<open>Hash functions (ethers utils)\<close>

text \<open>They take a \<open>0x\<close>-prefixed hexadecimal string and return one; on anything else they
  throw.\<close>

record crypto =
  sha256 :: "string \<Rightarrow> string res"
  ripemd160 :: "string \<Rightarrow> string res"

definition hash_function :: "(string \<Rightarrow> string res) \<Rightarrow> nat \<Rightarrow> bool" where
  "hash_function H n = (\<forall>bs. bs \<noteq> [] \<longrightarrow>
     (\<exists>out. length out = n \<and> H (''0x'' @ bytes_to_hex bs) = Inr (''0x'' @ bytes_to_hex out)))"

definition crypto_ok :: "crypto \<Rightarrow> bool" where
  "crypto_ok c = (hash_function (sha256 c) 32 \<and> hash_function (ripemd160 c) 20)"

text \<open>The bytes such a function computes.\<close>

definition digest :: "(string \<Rightarrow> string res) \<Rightarrow> byte list \<Rightarrow> byte list" where
  "digest H bs = (case H (''0x'' @ bytes_to_hex bs) of Inl _ \<Rightarrow> [] | Inr s \<Rightarrow> hex_to_bytes (drop 2 s))"

lemma hash_function_digest:
  assumes "hash_function H n" "bs \<noteq> []"
  shows "H (''0x'' @ bytes_to_hex bs) = Inr (''0x'' @ bytes_to_hex (digest H bs))"
    and "length (digest H bs) = n"
proof -
  obtain out where out: "length out = n" "H (''0x'' @ bytes_to_hex bs) = Inr (''0x'' @ bytes_to_hex out)"
    using assms by (auto simp: hash_function_def)
  then have "digest H bs = out" by (simp add: digest_def)
  with out show "H (''0x'' @ bytes_to_hex bs) = Inr (''0x'' @ bytes_to_hex (digest H bs))"
    and "length (digest H bs) = n" by simp_all
qed

text \<open>A function that meets the documented behaviour, for the witnesses: it folds its input
  into a buffer of the required length.\<close>

fun fold_bytes :: "byte list \<Rightarrow> byte list \<Rightarrow> byte list" where
  "fold_bytes acc [] = acc"
| "fold_bytes acc (b # bs) = fold_bytes (tl acc @ [3 * hd acc + b + 1]) bs"

definition sample_hash :: "nat \<Rightarrow> string \<Rightarrow> string res" where
  "sample_hash n s =
     (if take 2 s = ''0x'' \<and> list_all is_hex_digit (drop 2 s) \<and> even (length s)
      then Inr (''0x'' @ bytes_to_hex (fold_bytes (replicate n 0) (hex_to_bytes (drop 2 s))))
      else Inl (Error ''invalid arrayify value''))"

definition sample_crypto :: crypto where
  "sample_crypto = \<lparr>sha256 = sample_hash 32, ripemd160 = sample_hash 20\<rparr>"

lemma length_fold_bytes: "acc \<noteq> [] \<Longrightarrow> length (fold_bytes acc bs) = length acc"
  by (induction acc bs rule: fold_bytes.induct) (auto simp: Suc_diff_1)

lemma hash_function_sample: "0 < n \<Longrightarrow> hash_function (sample_hash n) n"
  unfolding hash_function_def
proof (intro allI impI)
  fix bs :: "byte list"
  assume "0 < n" "bs \<noteq> []"
  then show "\<exists>out. length out = n \<and> sample_hash n (''0x'' @ bytes_to_hex bs) = Inr (''0x'' @ bytes_to_hex out)"
    by (intro exI[of _ "fold_bytes (replicate n 0) bs"]) (simp add: sample_hash_def length_fold_bytes)
qed

lemma crypto_ok_sample: "crypto_ok sample_crypto"
  by (simp add: crypto_ok_def sample_crypto_def hash_function_sample)

subsection \<open>bitcoinjs-lib\<close>

text \<open>The two network descriptions of bitcoinjs-lib the code passes to the library.\<close>

datatype js_network = networks_bitcoin | networks_testnet

text \<open>The objects the code gives to \<open>payments.p2pkh\<close> and its siblings.\<close>

datatype payment_arg =
    OutputArg "byte list"
  | OutputNetArg "byte list" js_network
  | PubkeyArg "byte list"
  | PubkeyNetArg "byte list" js_network
  | HashArg "byte list"
  | HashNetArg "byte list" js_network
  | AddressArg string js_network
  | SignatureArg "byte list" "byte list"

record payment =
  pay_address :: string
  pay_hash :: "byte list"
  pay_output :: "byte list"
  pay_input :: "byte list"

text \<open>Script opcodes of the deposit script and the elements of a script stack.\<close>

datatype opcode =
    OP_0 | OP_DROP | OP_DUP | OP_HASH160 | OP_EQUAL | OP_IF | OP_CHECKSIG | OP_ELSE
  | OP_EQUALVERIFY | OP_CHECKLOCKTIMEVERIFY | OP_ENDIF

datatype chunk = Push "byte list" | Op opcode

text \<open>A transaction as the library represents it.\<close>

record js_tx_in =
  in_hash :: "byte list"
  in_index :: int
  in_script :: "byte list"
  in_sequence :: int
  in_witness :: "byte list list"

record js_tx_out =
  out_value :: int
  out_script :: "byte list"

record js_tx =
  tx_version :: int
  tx_ins :: "js_tx_in list"
  tx_outs :: "js_tx_out list"
  tx_locktime :: int

record btcjs =
  p2pkh :: "payment_arg \<Rightarrow> payment res"
  p2wpkh :: "payment_arg \<Rightarrow> payment res"
  p2sh :: "payment_arg \<Rightarrow> payment res"
  p2wsh :: "payment_arg \<Rightarrow> payment res"
  address_toOutputScript :: "string \<Rightarrow> js_network \<Rightarrow> byte list res"
  address_fromOutputScript :: "byte list \<Rightarrow> js_network \<Rightarrow> string res"
  script_compile :: "chunk list \<Rightarrow> byte list"
  tx_fromBuffer :: "byte list \<Rightarrow> js_tx res"
  tx_toHex :: "js_tx \<Rightarrow> string"
  tx_getId :: "js_tx \<Rightarrow> string"

text \<open>An instance for the witnesses: payments and scripts are the bytes they were made from, every
  buffer parses as an empty transaction.\<close>

fun payment_arg_bytes :: "payment_arg \<Rightarrow> byte list" where
  "payment_arg_bytes (OutputArg b) = b"
| "payment_arg_bytes (OutputNetArg b n) = b"
| "payment_arg_bytes (PubkeyArg b) = b"
| "payment_arg_bytes (PubkeyNetArg b n) = b"
| "payment_arg_bytes (HashArg b) = b"
| "payment_arg_bytes (HashNetArg b n) = b"
| "payment_arg_bytes (AddressArg a n) = hex_to_bytes a"
| "payment_arg_bytes (SignatureArg s k) = s @ k"

definition sample_payment :: "payment_arg \<Rightarrow> payment res" where
  "sample_payment a = (let b = payment_arg_bytes a in
     case a of
       AddressArg _ _ \<Rightarrow> if length b = 20 then Inr \<lparr>pay_address = bytes_to_hex b, pay_hash = b, pay_output = b, pay_input = b\<rparr>
         else Inl (Error ''invalid address'')
     | _ \<Rightarrow> Inr \<lparr>pay_address = bytes_to_hex b, pay_hash = b, pay_output = b, pay_input = b\<rparr>)"

fun sample_chunk_bytes :: "chunk \<Rightarrow> byte list" where
  "sample_chunk_bytes (Push b) = byte_of (length b) # b"
| "sample_chunk_bytes (Op opc) = [case opc of OP_0 \<Rightarrow> 0 | OP_DROP \<Rightarrow> 117 | OP_DUP \<Rightarrow> 118 | OP_HASH160 \<Rightarrow> 169
     | OP_EQUAL \<Rightarrow> 135 | OP_IF \<Rightarrow> 99 | OP_CHECKSIG \<Rightarrow> 172 | OP_ELSE \<Rightarrow> 103 | OP_EQUALVERIFY \<Rightarrow> 136
     | OP_CHECKLOCKTIMEVERIFY \<Rightarrow> 177 | OP_ENDIF \<Rightarrow> 104]"

definition sample_btcjs :: btcjs where
  "sample_btcjs = \<lparr>p2pkh = sample_payment, p2wpkh = sample_payment, p2sh = sample_payment, p2wsh = sample_payment,
     address_toOutputScript = (\<lambda>a n. Inr (hex_to_bytes a)),
     address_fromOutputScript = (\<lambda>s n. Inr (bytes_to_hex s)),
     script_compile = (\<lambda>cs. concat (map sample_chunk_bytes cs)),
     tx_fromBuffer = (\<lambda>b. Inr \<lparr>tx_version = 1, tx_ins = [], tx_outs = [], tx_locktime = 0\<rparr>),
     tx_toHex = (\<lambda>t. ''00''), tx_getId = (\<lambda>t. ''00'')\<rparr>"

end
