(* ===== verification/BitcoinPrimitives.thy ===== *)
theory BitcoinPrimitives
  imports BitcoinLib
begin

section \<open>Bitcoin primitives (typescript/src/lib/bitcoin)\<close>

text \<open>
  Compact size integers, hashes, public keys, networks, script types, addresses, the
  transaction data types and the locktime codec: \<open>csuint.ts\<close>, \<open>hash.ts\<close>,
  \<open>ecdsa-key.ts\<close>, \<open>network.ts\<close>, \<open>script.ts\<close>, \<open>address.ts\<close> and \<open>tx.ts\<close>.
\<close>

subsection \<open>Compact size integers (csuint.ts)\<close>

record csuint =
  cs_value :: int
  cs_byteLength :: nat

definition readCompactSizeUint :: "Hex \<Rightarrow> csuint res" where
  "readCompactSizeUint varLenData =
     (if length (toString varLenData) = 0
      then Inl (Error ''Empty variable length data argument'')
      else (let discriminant = take 2 (toString varLenData) in
        if discriminant = ''ff'' \<or> discriminant = ''fe'' \<or> discriminant = ''fd''
        then Inl (Error ''Support for 3, 5 and 9 bytes compact size uints is not implemented yet'')
        else Inr \<lparr>cs_value = int (hex_num discriminant), cs_byteLength = 1\<rparr>))"

subsection \<open>Hashes (hash.ts)\<close>

definition computeHash160 :: "crypto \<Rightarrow> Hex \<Rightarrow> Hex res" where
  "computeHash160 c text =
     bind_res (sha256 c (toPrefixedString text)) (\<lambda>sha256Hash.
     bind_res (ripemd160 c sha256Hash) (\<lambda>hash160. Hex_from_string hash160))"

definition computeHash256 :: "crypto \<Rightarrow> Hex \<Rightarrow> Hex res" where
  "computeHash256 c text =
     bind_res (sha256 c (toPrefixedString text)) (\<lambda>firstHash.
     bind_res (sha256 c firstHash) (\<lambda>secondHash. Hex_from_string secondHash))"

definition hashLEToBigNumber :: "Hex \<Rightarrow> int res" where
  "hashLEToBigNumber hash = bn_from_hex (toPrefixedString (hex_reverse hash))"

definition computeSha256 :: "crypto \<Rightarrow> Hex \<Rightarrow> Hex res" where
  "computeSha256 c text = bind_res (sha256 c (toPrefixedString text)) (\<lambda>hash. Hex_from_string hash)"

subsection \<open>Public keys (ecdsa-key.ts)\<close>

definition isCompressedPublicKey :: "Hex \<Rightarrow> bool" where
  "isCompressedPublicKey publicKey =
     (let publicKeyStr = toString publicKey in
      length publicKeyStr = 66 \<and> (take 2 publicKeyStr = ''02'' \<or> take 2 publicKeyStr = ''03''))"

definition compressPublicKey :: "Hex \<Rightarrow> string res" where
  "compressPublicKey publicKey =
     (let publicKeyStr = toString publicKey in
      if length publicKeyStr \<noteq> 128
      then Inl (Error ''The public key parameter must be 64-byte. Neither 0x nor 04 prefix is allowed'')
      else (let publicKeyX = take 64 publicKeyStr; publicKeyY = drop 64 publicKeyStr in
        bind_res (bn_from_hex (''0x'' @ publicKeyY)) (\<lambda>y.
        bind_res (bn_mod y 2) (\<lambda>m.
        Inr ((if m = 0 then ''02'' else ''03'') @ publicKeyX)))))"

subsection \<open>Networks (network.ts)\<close>

datatype BitcoinNetwork = Unknown | Testnet | Mainnet

definition fromGenesisHash :: "Hex \<Rightarrow> BitcoinNetwork" where
  "fromGenesisHash hash =
     (if toString hash = ''000000000019d6689c085ae165831e934ff763ae46a2a6c172b3f1b60a8ce26f'' then Mainnet
      else if toString hash = ''000000000933ea01ad0ee984209779baaec3ced90fa3f408719526f8d77f4943'' then Testnet
      else Unknown)"

fun toBitcoinJsLibNetwork :: "BitcoinNetwork \<Rightarrow> js_network res" where
  "toBitcoinJsLibNetwork Mainnet = Inr networks_bitcoin"
| "toBitcoinJsLibNetwork Testnet = Inr networks_testnet"
| "toBitcoinJsLibNetwork Unknown = Inl (Error ''network not supported'')"

subsection \<open>Script types (script.ts)\<close>

definition isP2PKHScript :: "btcjs \<Rightarrow> Hex \<Rightarrow> bool" where
  "isP2PKHScript lib script = is_ok (p2pkh lib (OutputArg (toBuffer script)))"

definition isP2WPKHScript :: "btcjs \<Rightarrow> Hex \<Rightarrow> bool" where
  "isP2WPKHScript lib script = is_ok (p2wpkh lib (OutputArg (toBuffer script)))"

definition isP2SHScript :: "btcjs \<Rightarrow> Hex \<Rightarrow> bool" where
  "isP2SHScript lib script = is_ok (p2sh lib (OutputArg (toBuffer script)))"

definition isP2WSHScript :: "btcjs \<Rightarrow> Hex \<Rightarrow> bool" where
  "isP2WSHScript lib script = is_ok (p2wsh lib (OutputArg (toBuffer script)))"

subsection \<open>Addresses (address.ts)\<close>

definition publicKeyToAddress :: "btcjs \<Rightarrow> Hex \<Rightarrow> BitcoinNetwork \<Rightarrow> bool \<Rightarrow> string res" where
  "publicKeyToAddress lib publicKey bitcoinNetwork witness =
     bind_res (toBitcoinJsLibNetwork bitcoinNetwork) (\<lambda>network.
     bind_res (if witness then p2wpkh lib (PubkeyNetArg (toBuffer publicKey) network)
               else p2pkh lib (PubkeyNetArg (toBuffer publicKey) network)) (\<lambda>p.
     Inr (pay_address p)))"

definition publicKeyHashToAddress :: "btcjs \<Rightarrow> Hex \<Rightarrow> bool \<Rightarrow> BitcoinNetwork \<Rightarrow> string res" where
  "publicKeyHashToAddress lib publicKeyHash witness bitcoinNetwork =
     (let hash = toBuffer publicKeyHash in
     bind_res (toBitcoinJsLibNetwork bitcoinNetwork) (\<lambda>network.
     bind_res (if witness then p2wpkh lib (HashNetArg hash network)
               else p2pkh lib (HashNetArg hash network)) (\<lambda>p.
     Inr (pay_address p))))"

text \<open>The network is resolved outside the two \<open>try\<close> blocks; an error of the first attempt is
  swallowed, and so is one of the second.\<close>

definition addressToPublicKeyHash :: "btcjs \<Rightarrow> string \<Rightarrow> BitcoinNetwork \<Rightarrow> Hex res" where
  "addressToPublicKeyHash lib address bitcoinNetwork =
     bind_res (toBitcoinJsLibNetwork bitcoinNetwork) (\<lambda>network.
     case p2pkh lib (AddressArg address network) of
       Inr p \<Rightarrow> Inr (Hex_from_buffer (pay_hash p))
     | Inl _ \<Rightarrow>
       (case p2wpkh lib (AddressArg address network) of
          Inr p \<Rightarrow> Inr (Hex_from_buffer (pay_hash p))
        | Inl _ \<Rightarrow> Inl (Error ''Address must be P2PKH or P2WPKH valid for given network'')))"

definition addressToOutputScript :: "btcjs \<Rightarrow> string \<Rightarrow> BitcoinNetwork \<Rightarrow> Hex res" where
  "addressToOutputScript lib address bitcoinNetwork =
     bind_res (toBitcoinJsLibNetwork bitcoinNetwork) (\<lambda>network.
     bind_res (address_toOutputScript lib address network) (\<lambda>s. Inr (Hex_from_buffer s)))"

definition outputScriptToAddress :: "btcjs \<Rightarrow> Hex \<Rightarrow> BitcoinNetwork \<Rightarrow> string res" where
  "outputScriptToAddress lib script bitcoinNetwork =
     bind_res (toBitcoinJsLibNetwork bitcoinNetwork) (\<lambda>network.
     address_fromOutputScript lib (toBuffer script) network)"

subsection \<open>Transactions (tx.ts)\<close>

type_synonym BitcoinTxHash = Hex

record BitcoinRawTx =
  transactionHex :: string

record BitcoinTxOutpoint =
  op_transactionHash :: BitcoinTxHash
  op_outputIndex :: int

record BitcoinTxInput = BitcoinTxOutpoint +
  scriptSig :: Hex

record BitcoinTxOutput =
  txo_outputIndex :: int
  txo_value :: int
  scriptPubKey :: Hex

record BitcoinTx =
  bt_transactionHash :: BitcoinTxHash
  bt_inputs :: "BitcoinTxInput list"
  bt_outputs :: "BitcoinTxOutput list"

record BitcoinUtxo = BitcoinTxOutpoint +
  utxo_value :: int

record BitcoinRawTxVectors =
  vec_version :: Hex
  vec_inputs :: Hex
  vec_outputs :: Hex
  vec_locktime :: Hex

text \<open>The buffer writer of the bufio library: one function per write of the source.\<close>

record bufio =
  writeVarint :: "int \<Rightarrow> byte list"
  writeHash :: "byte list \<Rightarrow> byte list"
  writeU32 :: "int \<Rightarrow> byte list"
  writeI64 :: "int \<Rightarrow> byte list"
  writeVarBytes :: "byte list \<Rightarrow> byte list"

definition getTxInputVector :: "bufio \<Rightarrow> js_tx \<Rightarrow> Hex" where
  "getTxInputVector w tx = Hex_from_buffer (writeVarint w (int (length (tx_ins tx))) @
     concat (map (\<lambda>input. writeHash w (in_hash input) @ writeU32 w (in_index input) @
       writeVarBytes w (in_script input) @ writeU32 w (in_sequence input)) (tx_ins tx)))"

definition getTxOutputVector :: "bufio \<Rightarrow> js_tx \<Rightarrow> Hex" where
  "getTxOutputVector w tx = Hex_from_buffer (writeVarint w (int (length (tx_outs tx))) @
     concat (map (\<lambda>output. writeI64 w (out_value output) @ writeVarBytes w (out_script output)) (tx_outs tx)))"

definition getTxVersion :: "bufio \<Rightarrow> js_tx \<Rightarrow> Hex" where
  "getTxVersion w tx = Hex_from_buffer (writeU32 w (tx_version tx))"

definition getTxLocktime :: "bufio \<Rightarrow> js_tx \<Rightarrow> Hex" where
  "getTxLocktime w tx = Hex_from_buffer (writeU32 w (tx_locktime tx))"

definition extractBitcoinRawTxVectors :: "btcjs \<Rightarrow> bufio \<Rightarrow> BitcoinRawTx \<Rightarrow> BitcoinRawTxVectors res" where
  "extractBitcoinRawTxVectors lib w rawTransaction =
     bind_res (tx_fromBuffer lib (hex_to_bytes (transactionHex rawTransaction))) (\<lambda>transaction.
     Inr \<lparr>vec_version = getTxVersion w transaction, vec_inputs = getTxInputVector w transaction,
          vec_outputs = getTxOutputVector w transaction, vec_locktime = getTxLocktime w transaction\<rparr>)"

subsection \<open>Locktime (tx.ts)\<close>

text \<open>The parameter of \<open>locktimeToNumber\<close> is a buffer or a string; the string branch is the one
  that can fail to parse.\<close>

definition locktimeToNumber_hex :: "Hex \<Rightarrow> int res" where
  "locktimeToNumber_hex h = bn_toNumber (int (be_nat (toBuffer (hex_reverse h))))"

definition locktimeToNumber :: "string \<Rightarrow> int res" where
  "locktimeToNumber locktimeLE = bind_res (Hex_from_string locktimeLE) locktimeToNumber_hex"

definition calculateLocktime :: "int \<Rightarrow> int \<Rightarrow> Hex res" where
  "calculateLocktime locktimeStartedAt locktimeDuration =
     bind_res (bn_from_number (locktimeStartedAt + locktimeDuration)) (\<lambda>locktime.
     bind_res (Hex_from_string (bn_toHexString locktime)) (\<lambda>locktimeHex.
     if length (toString locktimeHex) \<noteq> 8 then Inl (Error ''Locktime must be a 4 bytes number'')
     else Inr (hex_reverse locktimeHex)))"

subsection \<open>Lemmas on the primitives\<close>

lemma readCompactSizeUint_byte:
  "readCompactSizeUint (Hex (b # bs)) =
     (if unat b < 253 then Inr \<lparr>cs_value = int (unat b), cs_byteLength = 1\<rparr>
      else Inl (Error ''Support for 3, 5 and 9 bytes compact size uints is not implemented yet''))"
proof -
  have d: "take 2 (toString (Hex (b # bs))) = byte_hex b" by (simp add: byte_hex_def)
  have n: "hex_num (byte_hex b) = unat b"
    using hex_num_bytes_to_hex[of "[b]"] by (simp add: be_nat_def)
  have e: "byte_hex b = byte_hex (byte_of k) \<longleftrightarrow> unat b = k" if "k < 256" for k
    using that bytes_to_hex_inj[of "[b]" "[byte_of k]"] by (auto simp: unat_byte_of)
  have "byte_hex (byte_of 255) = ''ff''" "byte_hex (byte_of 254) = ''fe''" "byte_hex (byte_of 253) = ''fd''"
    by (simp_all add: byte_hex_def unat_byte_of hex_digit_def hex_digits_def)
  then have "byte_hex b = ''ff'' \<or> byte_hex b = ''fe'' \<or> byte_hex b = ''fd''
      \<longleftrightarrow> unat b = 255 \<or> unat b = 254 \<or> unat b = 253"
    using e[of 255] e[of 254] e[of 253] by simp
  moreover have "unat b = 255 \<or> unat b = 254 \<or> unat b = 253 \<longleftrightarrow> \<not> unat b < 253"
    using unat_byte_lt[of b] by linarith
  ultimately show ?thesis
    unfolding readCompactSizeUint_def d Let_def by (simp add: n)
qed

lemma computeHash256_bytes:
  assumes "hash_function (sha256 c) 32" "bs \<noteq> []"
  shows "computeHash256 c (Hex bs) = Inr (Hex (digest (sha256 c) (digest (sha256 c) bs)))"
    and "length (digest (sha256 c) (digest (sha256 c) bs)) = 32"
proof -
  have l: "length (digest (sha256 c) bs) = 32" by (rule hash_function_digest(2)) (fact assms)+
  then have ne: "digest (sha256 c) bs \<noteq> []" by auto
  show "computeHash256 c (Hex bs) = Inr (Hex (digest (sha256 c) (digest (sha256 c) bs)))"
    using hash_function_digest(1)[OF assms] hash_function_digest(1)[OF assms(1) ne] assms(2)
    by (simp add: computeHash256_def toPrefixedString_Hex)
  show "length (digest (sha256 c) (digest (sha256 c) bs)) = 32"
    by (rule hash_function_digest(2)) (fact assms ne)+
qed

lemma computeSha256_bytes:
  assumes "hash_function (sha256 c) 32" "bs \<noteq> []"
  shows "computeSha256 c (Hex bs) = Inr (Hex (digest (sha256 c) bs))"
  using hash_function_digest(1)[OF assms] assms(2)
  by (simp add: computeSha256_def toPrefixedString_Hex)

lemma computeHash160_bytes:
  assumes "crypto_ok c" "bs \<noteq> []"
  shows "computeHash160 c (Hex bs) = Inr (Hex (digest (ripemd160 c) (digest (sha256 c) bs)))"
    and "length (digest (ripemd160 c) (digest (sha256 c) bs)) = 20"
proof -
  have h: "hash_function (sha256 c) 32" "hash_function (ripemd160 c) 20"
    using assms by (simp_all add: crypto_ok_def)
  have "length (digest (sha256 c) bs) = 32" by (rule hash_function_digest(2)[OF h(1) assms(2)])
  then have ne: "digest (sha256 c) bs \<noteq> []" by auto
  show "computeHash160 c (Hex bs) = Inr (Hex (digest (ripemd160 c) (digest (sha256 c) bs)))"
    using hash_function_digest(1)[OF h(1) assms(2)] hash_function_digest(1)[OF h(2) ne] assms(2)
    by (simp add: computeHash160_def toPrefixedString_Hex)
  show "length (digest (ripemd160 c) (digest (sha256 c) bs)) = 20"
    by (rule hash_function_digest(2)[OF h(2) ne])
qed

lemma hashLEToBigNumber_bytes:
  "bs \<noteq> [] \<Longrightarrow> hashLEToBigNumber (Hex bs) = Inr (int (le_nat bs))"
  by (simp add: hashLEToBigNumber_def bn_from_hex_toPrefixedString le_nat_def)

lemma be_nat_mod_2: "bs \<noteq> [] \<Longrightarrow> be_nat bs mod 2 = unat (last bs) mod 2"
  by (cases bs rule: rev_cases) (simp_all add: mod_add_left_eq[symmetric])

lemma compressPublicKey_xy:
  assumes "length x = 32" "length y = 32"
  shows "compressPublicKey (Hex (x @ y)) =
     Inr (bytes_to_hex ((if even (unat (last y)) then 2 else 3) # x))"
proof -
  have y: "y \<noteq> []" using assms by auto
  have p: "byte_hex 2 = ''02''" "byte_hex 3 = ''03''"
    by (simp_all add: byte_hex_def hex_digit_def hex_digits_def)
  have "int (be_nat y) mod 2 = 0 \<longleftrightarrow> even (unat (last y))"
    using be_nat_mod_2[OF y] by presburger
  then show ?thesis
    using assms y take_bytes_to_hex[of 32 x]
    by (simp add: compressPublicKey_def Let_def bn_mod_pos p)
qed

lemma calculateLocktime_iff:
  "(calculateLocktime a d = Inr h) = (2 ^ 24 \<le> a + d \<and> a + d < 2 ^ 32 \<and> h = Hex (le_bytes 4 (nat (a + d))))"
proof
  assume lhs: "calculateLocktime a d = Inr h"
  then obtain l where bn: "bn_from_number (a + d) = Inr (a + d)"
    and l: "Hex_from_string (bn_toHexString (a + d)) = Inr l" "length (toString l) = 8" "h = hex_reverse l"
    by (auto simp: calculateLocktime_def res_simps bn_from_number_def split: if_splits)
  have nn: "0 \<le> a + d"
  proof (rule ccontr)
    assume "\<not> 0 \<le> a + d"
    then show False using l(1)
      by (auto simp: bn_toHexString_def Let_def Hex_from_string_Inr hex_pattern_def strip_0xX_def
          is_hex_digit_def hex_val_def hex_digits_def upt_rec)
  qed
  have s: "take 2 (bn_toHexString (a + d)) = ''0x''"
    using nn by (simp add: bn_toHexString_def Let_def)
  have "length (strip_0xX (bn_toHexString (a + d))) = 8"
    using l(1,2) by (metis toString_from_string length_toLowerCase)
  then have len: "length (bn_toHexString (a + d)) = 2 + 2 * 4" using s by (simp add: strip_0xX_def)
  have r: "2 ^ 24 \<le> a + d" "a + d < 2 ^ 32" using length_bn_toHexString[OF nn len] by simp_all
  then have "bn_toHexString (a + d) = ''0x'' @ bytes_to_hex (be_bytes 4 (nat (a + d)))"
    by (intro bn_toHexString_bytes) simp_all
  then have "l = Hex (be_bytes 4 (nat (a + d)))" using l(1) by simp
  then show "2 ^ 24 \<le> a + d \<and> a + d < 2 ^ 32 \<and> h = Hex (le_bytes 4 (nat (a + d)))"
    using r l(3) by (simp add: le_bytes_def)
next
  assume "2 ^ 24 \<le> a + d \<and> a + d < 2 ^ 32 \<and> h = Hex (le_bytes 4 (nat (a + d)))"
  then have r: "2 ^ 24 \<le> a + d" "a + d < 2 ^ 32" "h = Hex (le_bytes 4 (nat (a + d)))" by auto
  then have b: "bn_toHexString (a + d) = ''0x'' @ bytes_to_hex (be_bytes 4 (nat (a + d)))"
    by (intro bn_toHexString_bytes) simp_all
  have "bn_from_number (a + d) = Inr (a + d)" using r by (simp add: bn_from_number_def MAX_SAFE_def)
  then show "calculateLocktime a d = Inr h"
    using r(3) by (simp only: calculateLocktime_def bind_res_simps b) (simp add: le_bytes_def)
qed

end
