(* ===== verification/Header.thy ===== *)
theory Header
  imports BitcoinPrimitives
begin

section \<open>Block headers (typescript/src/lib/bitcoin/header.ts)\<close>

text \<open>
  The 80-byte header codec, the chain codec, the compact target arithmetic and the
  validation of a chain of headers against the difficulties of two epochs. The lemmas
  relate each to bytes and numbers: the header codec is a \<open>codec\<close>, the chain codec an
  \<open>exact_codec\<close>, and validation is characterised without its loop state.
\<close>

subsection \<open>Operations\<close>

record BitcoinHeader =
  hdr_version :: int
  previousBlockHeaderHash :: Hex
  merkleRootHash :: Hex
  hdr_time :: int
  hdr_bits :: int
  hdr_nonce :: int

definition serializeHeader :: "BitcoinHeader \<Rightarrow> Hex res" where
  "serializeHeader header =
     (let buffer0 = replicate 80 0 in
      bind_res (writeUInt32LE buffer0 (hdr_version header) 0) (\<lambda>buffer1.
      let buffer2 = buffer_copy (toBuffer (previousBlockHeaderHash header)) buffer1 4;
          buffer3 = buffer_copy (toBuffer (merkleRootHash header)) buffer2 36 in
      bind_res (writeUInt32LE buffer3 (hdr_time header) 68) (\<lambda>buffer4.
      bind_res (writeUInt32LE buffer4 (hdr_bits header) 72) (\<lambda>buffer5.
      bind_res (writeUInt32LE buffer5 (hdr_nonce header) 76) (\<lambda>buffer6.
      Inr (Hex_from_buffer buffer6))))))"

definition deserializeHeader :: "Hex \<Rightarrow> BitcoinHeader res" where
  "deserializeHeader rawHeader =
     (let buffer = toBuffer rawHeader in
      bind_res (readUInt32LE buffer 0) (\<lambda>v.
      let prev = buffer_slice buffer 4 36; root = buffer_slice buffer 36 68 in
      bind_res (readUInt32LE buffer 68) (\<lambda>t.
      bind_res (readUInt32LE buffer 72) (\<lambda>b.
      bind_res (readUInt32LE buffer 76) (\<lambda>n.
      Inr \<lparr>hdr_version = v, previousBlockHeaderHash = Hex_from_buffer prev,
           merkleRootHash = Hex_from_buffer root, hdr_time = t, hdr_bits = b, hdr_nonce = n\<rparr>)))))"

definition deserializeHeadersChain :: "Hex \<Rightarrow> BitcoinHeader list res" where
  "deserializeHeadersChain rawHeadersChain =
     (let headersChain = toString rawHeadersChain in
      if length headersChain mod 160 \<noteq> 0
      then Inl (Error ''Incorrect length of Bitcoin headers'')
      else for_chunks 160 (\<lambda>s. bind_res (Hex_from_string s) deserializeHeader) headersChain)"

text \<open>JavaScript's bit operators work on the 32-bit value of the number.\<close>

definition bitsToTarget :: "int \<Rightarrow> int res" where
  "bitsToTarget bits =
     (let w = word_of_int bits :: 32 word;
          exponent = uint (and (drop_bit 24 w) 0xff) - 3;
          mantissa = uint (and w 0xffffff) in
      bind_res (bn_pow 256 exponent) (\<lambda>p. Inr (mantissa * p)))"

definition DIFF1_TARGET :: int where
  "DIFF1_TARGET = 0xffff0000000000000000000000000000000000000000000000000000"

definition targetToDifficulty :: "int \<Rightarrow> int res" where
  "targetToDifficulty target = bn_div DIFF1_TARGET target"

text \<open>The loop of \<open>validateBitcoinHeadersChain\<close>: its two variables, the index, and the headers
  still to visit.\<close>

fun validateHeadersLoop ::
  "crypto \<Rightarrow> int \<Rightarrow> int \<Rightarrow> bool \<Rightarrow> Hex \<Rightarrow> nat \<Rightarrow> BitcoinHeader list \<Rightarrow> unit res" where
  "validateHeadersLoop c previousEpochDifficulty currentEpochDifficulty
     requireCurrentDifficulty previousHash index [] = Inr ()"
| "validateHeadersLoop c previousEpochDifficulty currentEpochDifficulty
     requireCurrentDifficulty previousHash index (currentHeader # headers) =
     (if index \<noteq> 0 \<and> \<not> hex_equals previousHash (previousBlockHeaderHash currentHeader)
      then Inl (Error (''Invalid headers chain; problem with header index: '' @ show_nat index))
      else
        bind_res (bitsToTarget (hdr_bits currentHeader)) (\<lambda>difficultyTarget.
        bind_res (serializeHeader currentHeader) (\<lambda>serialized.
        bind_res (computeHash256 c serialized) (\<lambda>currentBlockHeaderHash.
        bind_res (hashLEToBigNumber currentBlockHeaderHash) (\<lambda>work.
        if work > difficultyTarget then Inl (Error ''Insufficient work in the header'')
        else
          bind_res (targetToDifficulty difficultyTarget) (\<lambda>difficulty.
          if previousEpochDifficulty = 1 \<and> currentEpochDifficulty = 1
          then validateHeadersLoop c previousEpochDifficulty currentEpochDifficulty
                 requireCurrentDifficulty currentBlockHeaderHash (Suc index) headers
          else if difficulty \<noteq> previousEpochDifficulty \<and> difficulty \<noteq> currentEpochDifficulty
          then Inl (Error ''Header difficulty not at current or previous Bitcoin difficulty'')
          else if requireCurrentDifficulty \<and> difficulty \<noteq> currentEpochDifficulty
          then Inl (Error ''Header must be at current Bitcoin difficulty'')
          else validateHeadersLoop c previousEpochDifficulty currentEpochDifficulty
                 (difficulty = currentEpochDifficulty) currentBlockHeaderHash (Suc index) headers))))))"

definition validateBitcoinHeadersChain ::
  "crypto \<Rightarrow> BitcoinHeader list \<Rightarrow> int \<Rightarrow> int \<Rightarrow> unit res" where
  "validateBitcoinHeadersChain c headers previousEpochDifficulty currentEpochDifficulty =
     bind_res (Hex_from_string ''00'') (\<lambda>previousHash.
     validateHeadersLoop c previousEpochDifficulty currentEpochDifficulty False previousHash 0 headers)"

subsection \<open>The header codec\<close>

text \<open>A header whose fields have the widths the format gives them, and its 80 bytes.\<close>

definition header_ok :: "BitcoinHeader \<Rightarrow> bool" where
  "header_ok h =
     (hdr_version h \<in> {0..<2 ^ 32} \<and> hdr_time h \<in> {0..<2 ^ 32} \<and>
      hdr_bits h \<in> {0..<2 ^ 32} \<and> hdr_nonce h \<in> {0..<2 ^ 32} \<and>
      length (hex_buf (previousBlockHeaderHash h)) = 32 \<and> length (hex_buf (merkleRootHash h)) = 32)"

definition header_bytes :: "BitcoinHeader \<Rightarrow> byte list" where
  "header_bytes h =
     le_bytes 4 (nat (hdr_version h)) @ hex_buf (previousBlockHeaderHash h) @ hex_buf (merkleRootHash h) @
     le_bytes 4 (nat (hdr_time h)) @ le_bytes 4 (nat (hdr_bits h)) @ le_bytes 4 (nat (hdr_nonce h))"

lemma length_header_bytes [simp]: "header_ok h \<Longrightarrow> length (header_bytes h) = 80"
  by (simp add: header_ok_def header_bytes_def)

lemma header_bytes_not_Nil: "header_ok h \<Longrightarrow> header_bytes h \<noteq> []"
  by (auto dest: length_header_bytes)

lemma writeUInt32LE_parts:
  "0 \<le> v \<Longrightarrow> v < 2 ^ 32 \<Longrightarrow> length a = off \<Longrightarrow>
   writeUInt32LE (a @ b) v off =
     (if 4 \<le> length b then Inr (a @ le_bytes 4 (nat v) @ drop 4 b)
      else Inl (RangeError ''ERR_OUT_OF_RANGE''))"
  by (simp add: writeUInt32LE_def)

lemma buffer_copy_parts:
  "length a = off \<Longrightarrow> length s \<le> length b \<Longrightarrow> buffer_copy s (a @ b) off = a @ s @ drop (length s) b"
  by (simp add: buffer_copy_def Let_def)

lemma readUInt32LE_parts:
  "length a = off \<Longrightarrow> length b = 4 \<Longrightarrow> readUInt32LE (a @ b @ r) off = Inr (int (le_nat b))"
  by (simp add: readUInt32LE_def)

lemma serializeHeader_bytes:
  assumes "header_ok h"
  shows "serializeHeader h = Inr (Hex (header_bytes h))"
proof -
  obtain p where p: "previousBlockHeaderHash h = Hex p" by (cases "previousBlockHeaderHash h")
  obtain m where m: "merkleRootHash h = Hex m" by (cases "merkleRootHash h")
  let ?v = "le_bytes 4 (nat (hdr_version h))" and ?t = "le_bytes 4 (nat (hdr_time h))"
    and ?b = "le_bytes 4 (nat (hdr_bits h))"
  have l: "length p = 32" "length m = 32" using assms p m by (simp_all add: header_ok_def)
  note r = assms[unfolded header_ok_def]
  have "writeUInt32LE (replicate 80 0) (hdr_version h) 0 = Inr (?v @ replicate 76 0)"
    using r writeUInt32LE_parts[of "hdr_version h" "[]" 0 "replicate 80 0"] by simp
  moreover have "buffer_copy p (?v @ replicate 76 0) 4 = ?v @ p @ replicate 44 0"
    using l by (subst buffer_copy_parts) simp_all
  moreover have "buffer_copy m (?v @ p @ replicate 44 0) 36 = (?v @ p @ m) @ replicate 12 0"
    using l buffer_copy_parts[of "?v @ p" 36 m "replicate 44 0"] by simp
  moreover have "writeUInt32LE ((?v @ p @ m) @ replicate 12 0) (hdr_time h) 68
      = Inr ((?v @ p @ m @ ?t) @ replicate 8 0)"
    using r l writeUInt32LE_parts[of "hdr_time h" "?v @ p @ m" 68] by simp
  moreover have "writeUInt32LE ((?v @ p @ m @ ?t) @ replicate 8 0) (hdr_bits h) 72
      = Inr ((?v @ p @ m @ ?t @ ?b) @ replicate 4 0)"
    using r l writeUInt32LE_parts[of "hdr_bits h" "?v @ p @ m @ ?t" 72] by simp
  moreover have "writeUInt32LE ((?v @ p @ m @ ?t @ ?b) @ replicate 4 0) (hdr_nonce h) 76
      = Inr (header_bytes h)"
    using r l p m writeUInt32LE_parts[of "hdr_nonce h" "?v @ p @ m @ ?t @ ?b" 76]
    by (simp add: header_bytes_def)
  ultimately show ?thesis
    using p m by (simp add: serializeHeader_def Let_def Hex_from_buffer_def del: append_assoc)
qed

lemma readUInt32LE_Inr:
  "(readUInt32LE buf off = Inr v) = (off + 4 \<le> length buf \<and> v = int (le_nat (take 4 (drop off buf))))"
  by (auto simp: readUInt32LE_def)

lemma deserializeHeader_short: "length bs < 80 \<Longrightarrow> \<not> is_ok (deserializeHeader (Hex bs))"
  by (auto simp: is_ok_conv deserializeHeader_def Let_def res_simps readUInt32LE_Inr)

lemma le_nat_4_lt: "length bs = 4 \<Longrightarrow> le_nat bs < 4294967296"
  using le_nat_lt[of bs] by simp

lemma deserializeHeader_ok: "deserializeHeader raw = Inr h \<Longrightarrow> header_ok h"
  by (cases raw) (auto simp: deserializeHeader_def Let_def res_simps readUInt32LE_Inr header_ok_def
      buffer_slice_def Hex_from_buffer_def le_nat_4_lt)

lemma deserialize_header_bytes:
  assumes "header_ok h"
  shows "deserializeHeader (Hex (header_bytes h)) = Inr h"
proof -
  note r = assms[unfolded header_ok_def]
  have n: "int (le_nat (le_bytes 4 (nat i))) = i" if "i \<in> {0..<2 ^ 32}" for i
    using that by (simp add: le_nat_le_bytes nat_less_iff mod_less)
  show ?thesis using r
    by (simp add: deserializeHeader_def header_bytes_def readUInt32LE_def n[simplified] buffer_slice_def
        Hex_from_buffer_def Let_def)
qed

text \<open>A raw header of 80 bytes is the serialisation of what it decodes to.\<close>

lemma header_bytes_deserialized:
  assumes "deserializeHeader (Hex bs) = Inr h" "length bs = 80"
  shows "header_bytes h = bs"
proof -
  have t: "take n bs = take m bs @ take (n - m) (drop m bs)" if "m \<le> n" for n m
    by (metis that le_add_diff_inverse take_add)
  have d: "le_bytes 4 (le_nat (take 4 (drop i bs))) = take 4 (drop i bs)" if "i \<le> 76" for i
    using le_bytes_le_nat[of "take 4 (drop i bs)"] that assms(2) by simp
  have "bs = take 80 bs" using assms(2) by simp
  also have "\<dots> = take 4 (drop 0 bs) @ take 32 (drop 4 bs) @ take 32 (drop 36 bs) @
      take 4 (drop 68 bs) @ take 4 (drop 72 bs) @ take 4 (drop 76 bs)"
    using t[of 76 80] t[of 72 76] t[of 68 72] t[of 36 68] t[of 4 36] by simp
  finally show ?thesis
    using assms d[of 0] d[of 68] d[of 72] d[of 76]
    by (auto simp: deserializeHeader_def Let_def res_simps readUInt32LE_Inr header_bytes_def
        buffer_slice_def Hex_from_buffer_def)
qed

interpretation hdrs: codec "\<lambda>h. Hex (header_bytes h)" deserializeHeader header_ok
  by unfold_locales (auto intro: deserialize_header_bytes deserializeHeader_ok)

subsection \<open>The chain codec\<close>

definition chain_bytes :: "BitcoinHeader list \<Rightarrow> byte list" where
  "chain_bytes hs = concat (map header_bytes hs)"

lemma length_chain_bytes: "list_all header_ok hs \<Longrightarrow> length (chain_bytes hs) = 80 * length hs"
  by (induction hs) (simp_all add: chain_bytes_def)

lemma deserializeHeadersChain_bytes:
  "deserializeHeadersChain (Hex bs) =
     (if length bs mod 80 \<noteq> 0 then Inl (Error ''Incorrect length of Bitcoin headers'')
      else for_chunks 80 (\<lambda>b. deserializeHeader (Hex b)) bs)"
proof -
  have m: "2 * n mod 160 = 2 * (n mod 80)" for n :: nat using mult_mod_right[of 2 n 80] by simp
  have "for_chunks 160 (\<lambda>s. bind_res (Hex_from_string s) deserializeHeader) (bytes_to_hex bs)
      = for_chunks 80 (\<lambda>b. deserializeHeader (Hex b)) bs"
    using for_chunks_hex[of 80 "\<lambda>s. bind_res (Hex_from_string s) deserializeHeader" bs] by simp
  then show ?thesis by (simp add: deserializeHeadersChain_def Let_def m)
qed

lemma deserialize_chain_bytes:
  assumes "list_all header_ok hs"
  shows "deserializeHeadersChain (Hex (chain_bytes hs)) = Inr hs"
proof -
  have "for_chunks 80 (\<lambda>b. deserializeHeader (Hex b)) (chain_bytes hs)
      = map_res ((\<lambda>b. deserializeHeader (Hex b)) \<circ> header_bytes) hs"
    unfolding chain_bytes_def using assms
    by (intro for_chunks_concat) (simp_all add: list_all_iff)
  also have "\<dots> = Inr hs"
    using assms by (induction hs) (simp_all add: deserialize_header_bytes)
  finally show ?thesis
    using length_chain_bytes[OF assms] by (simp add: deserializeHeadersChain_bytes)
qed

lemma deserializeHeadersChain_Inr:
  assumes "deserializeHeadersChain (Hex bs) = Inr hs"
  shows "list_all header_ok hs \<and> chain_bytes hs = bs"
proof -
  have "80 dvd length bs" "for_chunks 80 (\<lambda>b. deserializeHeader (Hex b)) bs = Inr hs"
    using assms by (auto simp: deserializeHeadersChain_bytes split: if_splits)
  then show ?thesis
    unfolding chain_bytes_def
    by (rule for_chunks_inv[rotated 2])
      (auto dest: header_bytes_deserialized deserializeHeader_ok)
qed

interpretation chain: exact_codec "\<lambda>hs. Hex (chain_bytes hs)" deserializeHeadersChain "list_all header_ok"
proof unfold_locales
  fix y hs
  assume "deserializeHeadersChain y = Inr hs"
  then show "list_all header_ok hs" "Hex (chain_bytes hs) = y"
    using deserializeHeadersChain_Inr[of "hex_buf y" hs] by (cases y; simp)+
qed (rule deserialize_chain_bytes)

subsection \<open>Targets\<close>

text \<open>The target a compact value stands for: a mantissa of three bytes times a power of 256.\<close>

definition compact_target :: "int \<Rightarrow> int" where
  "compact_target bits = bits mod 2 ^ 24 * 256 ^ nat (bits div 2 ^ 24 - 3)"

lemma bitsToTarget_compact:
  assumes "0 \<le> bits" "bits < 2 ^ 32"
  shows "bitsToTarget bits =
     (if bits div 2 ^ 24 < 3 then Inl (Error ''negative-power'') else Inr (compact_target bits))"
proof -
  let ?w = "word_of_int bits :: 32 word"
  have w: "uint ?w = bits" using assms by (simp add: unsigned_of_int take_bit_int_eq_self)
  have m8: "and x 255 = x mod 256" and m24: "and x 16777215 = x mod 16777216" for x :: int
    using take_bit_eq_mask[of 8 x] take_bit_eq_mask[of 24 x]
    by (simp_all add: mask_eq_exp_minus_1 take_bit_eq_mod)
  have "bits div 2 ^ 24 < 256" using assms by (simp add: div_less_iff_less_mult)
  moreover have "0 \<le> bits div 2 ^ 24" using assms by simp
  moreover have "uint (drop_bit 24 ?w) = bits div 2 ^ 24"
    using assms by (subst unsigned_drop_bit_eq) (simp add: w take_bit_int_eq_self drop_bit_eq_div)
  ultimately have e: "uint (and (drop_bit 24 ?w) 0xff) = bits div 2 ^ 24"
    by (simp add: unsigned_and_eq m8 mod_pos_pos_trivial)
  have m: "uint (and ?w 0xffffff) = bits mod 2 ^ 24"
    using w by (simp add: unsigned_and_eq m24)
  show ?thesis unfolding bitsToTarget_def Let_def e m
    by (simp add: bn_pow_def compact_target_def)
qed

lemma compact_target_nonneg: "0 \<le> compact_target bits"
  by (simp add: compact_target_def)

lemma compact_target_pos: "(0 < compact_target bits) = (bits mod 2 ^ 24 \<noteq> 0)"
  using compact_target_nonneg[of bits] by (simp add: compact_target_def zero_less_mult_iff less_le)

lemma targetToDifficulty_div:
  "0 \<le> t \<Longrightarrow> targetToDifficulty t = (if t = 0 then Inl (Error ''division-by-zero'') else Inr (DIFF1_TARGET div t))"
  by (simp add: targetToDifficulty_def bn_div_nonneg DIFF1_TARGET_def) (simp add: bn_div_def)

subsection \<open>Validation without loop state\<close>

definition header_hash :: "crypto \<Rightarrow> BitcoinHeader \<Rightarrow> byte list" where
  "header_hash c h = digest (sha256 c) (digest (sha256 c) (header_bytes h))"

text \<open>A header proves its work: its bits are a proper compact value and its hash, read
  little-endian, is at most the target.\<close>

definition header_work_ok :: "crypto \<Rightarrow> BitcoinHeader \<Rightarrow> bool" where
  "header_work_ok c h =
     (3 \<le> hdr_bits h div 2 ^ 24 \<and> hdr_bits h mod 2 ^ 24 \<noteq> 0 \<and>
      int (le_nat (header_hash c h)) \<le> compact_target (hdr_bits h))"

definition header_difficulty :: "BitcoinHeader \<Rightarrow> int" where
  "header_difficulty h = DIFF1_TARGET div compact_target (hdr_bits h)"

text \<open>A run of one difficulty, then a run of the other.\<close>

definition one_switch :: "int \<Rightarrow> int \<Rightarrow> int list \<Rightarrow> bool" where
  "one_switch p c ds = (\<exists>k \<le> length ds. ds = replicate k p @ replicate (length ds - k) c)"

fun headers_linked :: "crypto \<Rightarrow> BitcoinHeader list \<Rightarrow> bool" where
  "headers_linked c (h # h' # hs) =
     (previousBlockHeaderHash h' = Hex (header_hash c h) \<and> headers_linked c (h' # hs))"
| "headers_linked c _ = True"

definition valid_headers_chain :: "crypto \<Rightarrow> BitcoinHeader list \<Rightarrow> int \<Rightarrow> int \<Rightarrow> bool" where
  "valid_headers_chain c hs prev cur =
     (headers_linked c hs \<and> list_all (header_work_ok c) hs \<and>
      (prev = 1 \<and> cur = 1 \<or> one_switch prev cur (map header_difficulty hs)))"

lemma headers_linked_nth:
  "headers_linked c hs =
     (\<forall>i. Suc i < length hs \<longrightarrow> previousBlockHeaderHash (hs ! Suc i) = Hex (header_hash c (hs ! i)))"
proof (induction c hs rule: headers_linked.induct)
  case (1 c h h' hs)
  show ?case
    unfolding headers_linked.simps 1
    by (rule iffI; clarsimp) (metis (no_types, lifting) Suc_less_eq diff_Suc_1 length_Cons nth_Cons' not_gr_zero
        nth_Cons_Suc Suc_pred less_Suc_eq_0_disj nth_Cons_0)+
qed auto

lemma one_switch_Cons:
  "one_switch p c (d # ds) = (d = p \<and> one_switch p c ds \<or> d = c \<and> ds = replicate (length ds) c)"
proof
  assume "one_switch p c (d # ds)"
  then obtain k where k: "k \<le> Suc (length ds)" "d # ds = replicate k p @ replicate (Suc (length ds) - k) c"
    by (auto simp: one_switch_def)
  then show "d = p \<and> one_switch p c ds \<or> d = c \<and> ds = replicate (length ds) c"
    by (cases k) (auto simp: one_switch_def)
next
  assume "d = p \<and> one_switch p c ds \<or> d = c \<and> ds = replicate (length ds) c"
  then show "one_switch p c (d # ds)"
  proof
    assume "d = p \<and> one_switch p c ds"
    then obtain k where "k \<le> length ds" "ds = replicate k p @ replicate (length ds - k) c" "d = p"
      by (auto simp: one_switch_def)
    then show ?thesis unfolding one_switch_def by (intro exI[of _ "Suc k"]) simp
  next
    assume "d = c \<and> ds = replicate (length ds) c"
    then show ?thesis unfolding one_switch_def by (intro exI[of _ 0]) simp
  qed
qed

lemma one_switch_Nil [simp]: "one_switch p c []"
  by (simp add: one_switch_def)

lemma one_switch_same: "one_switch c c ds = (ds = replicate (length ds) c)"
  unfolding one_switch_def by (metis le_add_diff_inverse replicate_add le0)

text \<open>One step of the loop on a header of the right shape.\<close>

lemma validateHeadersLoop_step:
  assumes h: "header_ok h" and c: "hash_function (sha256 c) 32"
  shows "(validateHeadersLoop c prev cur req p i (h # hs) = Inr ()) =
     ((i = 0 \<or> p = previousBlockHeaderHash h) \<and> header_work_ok c h \<and>
      (let d = header_difficulty h; req' = (if prev = 1 \<and> cur = 1 then req else d = cur) in
       (prev = 1 \<and> cur = 1 \<or> (d = prev \<or> d = cur) \<and> (req \<longrightarrow> d = cur)) \<and>
       validateHeadersLoop c prev cur req' (Hex (header_hash c h)) (Suc i) hs = Inr ()))"
proof -
  have ne: "header_bytes h \<noteq> []" using header_bytes_not_Nil h .
  have hash: "computeHash256 c (Hex (header_bytes h)) = Inr (Hex (header_hash c h))"
    unfolding header_hash_def by (rule computeHash256_bytes(1)[OF c ne])
  have "header_hash c h \<noteq> []"
    using computeHash256_bytes(2)[OF c ne] by (auto simp: header_hash_def)
  then have w: "hashLEToBigNumber (Hex (header_hash c h)) = Inr (int (le_nat (header_hash c h)))"
    by (rule hashLEToBigNumber_bytes)
  have t: "bitsToTarget (hdr_bits h) = (if hdr_bits h div 2 ^ 24 < 3 then Inl (Error ''negative-power'')
      else Inr (compact_target (hdr_bits h)))"
    using h by (intro bitsToTarget_compact) (simp_all add: header_ok_def)
  have d: "targetToDifficulty (compact_target (hdr_bits h)) =
      (if hdr_bits h mod 2 ^ 24 = 0 then Inl (Error ''division-by-zero'') else Inr (header_difficulty h))"
    using compact_target_pos[of "hdr_bits h"] compact_target_nonneg[of "hdr_bits h"]
    by (auto simp add: targetToDifficulty_div header_difficulty_def)
  show ?thesis
    unfolding validateHeadersLoop.simps serializeHeader_bytes[OF h] t header_work_ok_def Let_def
    using hash w d by (auto simp: not_less)
qed

lemma validateHeadersLoop_iff:
  assumes "list_all header_ok hs" "hash_function (sha256 c) 32"
  shows "(validateHeadersLoop c prev cur req p i hs = Inr ()) =
     ((i = 0 \<or> hs = [] \<or> p = previousBlockHeaderHash (hd hs)) \<and> headers_linked c hs \<and>
      list_all (header_work_ok c) hs \<and>
      (prev = 1 \<and> cur = 1 \<or> one_switch (if req then cur else prev) cur (map header_difficulty hs)))"
  using assms(1)
proof (induction hs arbitrary: req p i)
  case (Cons h hs)
  have linked: "headers_linked c (h # hs) =
      ((hs = [] \<or> Hex (header_hash c h) = previousBlockHeaderHash (hd hs)) \<and> headers_linked c hs)"
    by (cases hs) auto
  show ?case
    using Cons.prems
    by (subst validateHeadersLoop_step[OF _ assms(2)])
      (auto simp: Cons.IH linked Let_def one_switch_Cons one_switch_same)
qed simp

lemma validateBitcoinHeadersChain_spec:
  assumes "hash_function (sha256 c) 32" "list_all header_ok hs"
  shows "(validateBitcoinHeadersChain c hs prev cur = Inr ()) = valid_headers_chain c hs prev cur"
proof -
  have "Hex_from_string ''00'' = Inr (Hex [0])"
    using Hex_from_hex_string[of "[0]"] by (simp add: byte_hex_def hex_digit_def hex_digits_def)
  then show ?thesis
    by (simp add: validateBitcoinHeadersChain_def validateHeadersLoop_iff[OF assms(2,1)] valid_headers_chain_def)
qed

lemma one_switch_nth:
  "one_switch p c ds = (\<exists>k \<le> length ds. \<forall>i < length ds. ds ! i = (if i < k then p else c))"
proof -
  have "ds = replicate k p @ replicate (length ds - k) c \<longleftrightarrow> (\<forall>i < length ds. ds ! i = (if i < k then p else c))"
    if "k \<le> length ds" for k
    using that by (subst list_eq_iff_nth_eq) (auto simp: nth_append)
  then show ?thesis unfolding one_switch_def by blast
qed

text \<open>A header whose target no hash can exceed, for the witnesses.\<close>

definition easy_header :: "Hex \<Rightarrow> BitcoinHeader" where
  "easy_header root = \<lparr>hdr_version = 1, previousBlockHeaderHash = Hex (replicate 32 0), merkleRootHash = root,
     hdr_time = 0, hdr_bits = 0x21ffffff, hdr_nonce = 0\<rparr>"

lemma easy_header_ok:
  assumes "hash_function (sha256 c) 32" "length r = 32"
  shows "header_ok (easy_header (Hex r))" "header_work_ok c (easy_header (Hex r))"
    "valid_headers_chain c [easy_header (Hex r)] 1 1"
proof -
  show ok: "header_ok (easy_header (Hex r))"
    using assms(2) by (simp add: header_ok_def easy_header_def)
  have "length (header_hash c (easy_header (Hex r))) = 32"
    unfolding header_hash_def by (rule computeHash256_bytes(2)[OF assms(1) header_bytes_not_Nil[OF ok]])
  then have "le_nat (header_hash c (easy_header (Hex r))) < 256 ^ 32"
    using le_nat_lt by metis
  then show w: "header_work_ok c (easy_header (Hex r))"
    by (simp add: header_work_ok_def easy_header_def compact_target_def)
  show "valid_headers_chain c [easy_header (Hex r)] 1 1"
    using w by (simp add: valid_headers_chain_def)
qed

subsection \<open>Properties\<close>

text \<open>C7: a chain of headers is accepted exactly when every header proves the work its compact target
  demands, every header stores the double hash of its predecessor, and, unless both epochs
  have difficulty one, the difficulties are those of the previous epoch up to some header and
  those of the current epoch from there on.\<close>

theorem validateBitcoinHeadersChain_iff:
  assumes "hash_function (sha256 c) 32" "list_all header_ok hs"
  shows "(validateBitcoinHeadersChain c hs prev cur = Inr ()) =
     ((\<forall>i < length hs. header_work_ok c (hs ! i)) \<and>
      (\<forall>i. Suc i < length hs \<longrightarrow> previousBlockHeaderHash (hs ! Suc i) = Hex (header_hash c (hs ! i))) \<and>
      (prev = 1 \<and> cur = 1 \<or>
       (\<exists>k \<le> length hs. \<forall>i < length hs. header_difficulty (hs ! i) = (if i < k then prev else cur))))"
proof -
  have "one_switch prev cur (map header_difficulty hs) =
      (\<exists>k \<le> length hs. \<forall>i < length hs. header_difficulty (hs ! i) = (if i < k then prev else cur))"
    by (simp add: one_switch_nth)
  then show ?thesis
    unfolding validateBitcoinHeadersChain_spec[OF assms] valid_headers_chain_def headers_linked_nth
    by (auto simp: list_all_length)
qed

theorem validateBitcoinHeadersChain_iff_witness:
  "validateBitcoinHeadersChain sample_crypto [easy_header (Hex (replicate 32 7))] 1 1 = Inr ()"
proof -
  have h: "hash_function (sha256 sample_crypto) 32" using crypto_ok_sample by (simp add: crypto_ok_def)
  have ok: "list_all header_ok [easy_header (Hex (replicate 32 7))]"
    using easy_header_ok(1)[OF h, of "replicate 32 7"] by simp
  show ?thesis
    using validateBitcoinHeadersChain_iff[OF h ok, of 1 1] easy_header_ok(2)[OF h, of "replicate 32 7"] by simp
qed

text \<open>C39: deserialising a raw chain yields exactly the headers whose 80-byte encodings, glued
  together, are the input; every other input is an error.\<close>

theorem deserializeHeadersChain_exact:
  "(deserializeHeadersChain (Hex bs) = Inr hs) = (list_all header_ok hs \<and> concat (map header_bytes hs) = bs)"
  using chain.dec_iff[of "Hex bs" hs] by (simp add: chain_bytes_def)

text \<open>a header serialises to a value that deserialises to the same header exactly when its
  fields have the widths the format gives them.\<close>

theorem serializeHeader_roundtrip:
  "header_ok h = (\<exists>raw. serializeHeader h = Inr raw \<and> deserializeHeader raw = Inr h)"
  using serializeHeader_bytes[of h] hdrs.dec_enc[of h] hdrs.dec_valid by blast

end
