(* ===== verification/Spv.thy ===== *)
theory Spv
  imports Header
begin

section \<open>Inclusion proofs (typescript/src/lib/bitcoin/spv.ts, client.ts)\<close>

text \<open>
  The Bitcoin client interface, the assembly of a proof that a transaction is in the chain,
  and its validation. A reference Merkle tree, built level by level from the leaves as
  Bitcoin does, says what the path computation must agree with.
\<close>

subsection \<open>Data\<close>

record BitcoinSpvProof =
  merkleProof :: Hex
  txIndexInBlock :: int
  bitcoinHeaders :: Hex
  coinbasePreimage :: Hex
  coinbaseProof :: Hex

record BitcoinTxMerkleBranch =
  mb_blockHeight :: int
  mb_merkle :: "Hex list"
  mb_position :: int

text \<open>The operations of a \<open>BitcoinClient\<close>; the optional limit of the history is an option.\<close>

record 'w bitcoin_client =
  getNetwork :: "('w, BitcoinNetwork) io"
  findAllUnspentTransactionOutputs :: "string \<Rightarrow> ('w, BitcoinUtxo list) io"
  getTransactionHistory :: "string \<Rightarrow> int option \<Rightarrow> ('w, BitcoinTx list) io"
  getTransaction :: "BitcoinTxHash \<Rightarrow> ('w, BitcoinTx) io"
  getRawTransaction :: "BitcoinTxHash \<Rightarrow> ('w, BitcoinRawTx) io"
  getTransactionConfirmations :: "BitcoinTxHash \<Rightarrow> ('w, int) io"
  getTxHashesForPublicKeyHash :: "Hex \<Rightarrow> ('w, BitcoinTxHash list) io"
  latestBlockHeight :: "('w, int) io"
  getHeadersChain :: "int \<Rightarrow> int \<Rightarrow> ('w, Hex) io"
  getTransactionMerkle :: "BitcoinTxHash \<Rightarrow> int \<Rightarrow> ('w, BitcoinTxMerkleBranch) io"
  broadcast :: "BitcoinRawTx \<Rightarrow> ('w, unit) io"
  getCoinbaseTxHash :: "int \<Rightarrow> ('w, BitcoinTxHash) io"

subsection \<open>Assembly\<close>

definition createMerkleProof :: "BitcoinTxMerkleBranch \<Rightarrow> Hex" where
  "createMerkleProof txMerkleBranch =
     Hex_from_buffer (foldl (\<lambda>proof item. proof @ rev (toBuffer item)) [] (mb_merkle txMerkleBranch))"

definition assembleBitcoinSpvProof ::
  "crypto \<Rightarrow> btcjs \<Rightarrow> bufio \<Rightarrow> BitcoinTxHash \<Rightarrow> int \<Rightarrow> 'w bitcoin_client \<Rightarrow>
   ('w, BitcoinTx \<times> BitcoinSpvProof) io" where
  "assembleBitcoinSpvProof c lib wr transactionHash requiredConfirmations bitcoinClient =
     bind_io (getTransaction bitcoinClient transactionHash) (\<lambda>transaction.
     bind_io (getTransactionConfirmations bitcoinClient transactionHash) (\<lambda>confirmations.
     if confirmations < requiredConfirmations
     then throw_io (Error (''Transaction confirmations number['' @ show_int confirmations @
            ''] is not enough, required ['' @ show_int requiredConfirmations @ '']''))
     else
     bind_io (latestBlockHeight bitcoinClient) (\<lambda>latestHeight.
     let txBlockHeight = latestHeight - confirmations + 1 in
     bind_io (getHeadersChain bitcoinClient txBlockHeight (requiredConfirmations - 1)) (\<lambda>headersChain.
     bind_io (getTransactionMerkle bitcoinClient transactionHash txBlockHeight) (\<lambda>merkleBranch.
     let txProof = createMerkleProof merkleBranch in
     bind_io (getCoinbaseTxHash bitcoinClient txBlockHeight) (\<lambda>coinbaseTxHash.
     bind_io (getRawTransaction bitcoinClient coinbaseTxHash) (\<lambda>rawCoinbase.
     bind_io (lift_io (extractBitcoinRawTxVectors lib wr rawCoinbase)) (\<lambda>coinbaseTx.
     bind_io (lift_io (bind_res (Hex_from_string (toString (vec_version coinbaseTx) @
         toString (vec_inputs coinbaseTx) @ toString (vec_outputs coinbaseTx) @
         toString (vec_locktime coinbaseTx))) (computeSha256 c))) (\<lambda>preimage.
     bind_io (getTransactionMerkle bitcoinClient coinbaseTxHash txBlockHeight) (\<lambda>coinbaseMerkleBranch.
     return_io (transaction,
       \<lparr>merkleProof = txProof, txIndexInBlock = mb_position merkleBranch, bitcoinHeaders = headersChain,
        coinbasePreimage = preimage, coinbaseProof = createMerkleProof coinbaseMerkleBranch\<rparr>)))))))))))"

subsection \<open>Validation\<close>

definition splitMerkleProof :: "Hex \<Rightarrow> Hex list res" where
  "splitMerkleProof proof =
     (let merkleProofStr = toString proof in
      if length merkleProofStr mod 64 \<noteq> 0 then Inl (Error ''Incorrect length of Merkle proof'')
      else for_chunks 64 Hex_from_string merkleProofStr)"

fun merkleLoop :: "crypto \<Rightarrow> int \<Rightarrow> Hex \<Rightarrow> Hex list \<Rightarrow> Hex res" where
  "merkleLoop c idx currentHash [] = Inr currentHash"
| "merkleLoop c idx currentHash (node # nodes) =
     bind_res (bind_res
       (if js_rem idx 2 = 1 then Hex_from_string (toString node @ toString currentHash)
        else Hex_from_string (toString currentHash @ toString node))
       (computeHash256 c)) (\<lambda>h. merkleLoop c (js_shr idx 1) h nodes)"

definition validateMerkleTreeHashes :: "crypto \<Rightarrow> BitcoinTxHash \<Rightarrow> Hex \<Rightarrow> Hex list \<Rightarrow> int \<Rightarrow> unit res" where
  "validateMerkleTreeHashes c transactionHash root intermediateNodeHashes transactionIndex =
     (if length intermediateNodeHashes = 0 then Inl (Error ''Invalid merkle tree'')
      else bind_res (merkleLoop c transactionIndex (hex_reverse transactionHash) intermediateNodeHashes)
        (\<lambda>currentHash. if \<not> hex_equals currentHash root
           then Inl (Error ''Transaction Merkle proof is not valid for provided header and transaction hash'')
           else Inr ()))"

definition validateMerkleTree :: "crypto \<Rightarrow> BitcoinTxHash \<Rightarrow> Hex \<Rightarrow> Hex list \<Rightarrow> int \<Rightarrow> unit res" where
  "validateMerkleTree c transactionHash root intermediateNodeHashes transactionIndex =
     (if hex_equals (hex_reverse transactionHash) root \<and> transactionIndex = 0 \<and>
         length intermediateNodeHashes = 0
      then Inr ()
      else validateMerkleTreeHashes c transactionHash root intermediateNodeHashes transactionIndex)"

text \<open>The checks of \<open>validateBitcoinSpvProof\<close> after the proof was assembled. An empty chain
  would make the code read a field of \<open>undefined\<close>; it cannot get there, since at least one
  confirmation is required.\<close>

definition checkSpvProof ::
  "crypto \<Rightarrow> BitcoinTxHash \<Rightarrow> int \<Rightarrow> int \<Rightarrow> int \<Rightarrow> BitcoinSpvProof \<Rightarrow> unit res" where
  "checkSpvProof c transactionHash requiredConfirmations previousDifficulty currentDifficulty proof =
     (if length (toBuffer (merkleProof proof)) \<noteq> length (toBuffer (coinbaseProof proof))
      then Inl (Error ''Tx not on same level of merkle tree as coinbase'')
      else
      bind_res (deserializeHeadersChain (bitcoinHeaders proof)) (\<lambda>headers.
      if int (length headers) \<noteq> requiredConfirmations
      then Inl (Error ''Wrong number of confirmations'')
      else (case headers of
        [] \<Rightarrow> Inl (TypeError ''Cannot read properties of undefined (reading 'merkleRootHash')'')
      | firstHeader # _ \<Rightarrow>
        let root = merkleRootHash firstHeader in
        bind_res (splitMerkleProof (merkleProof proof)) (\<lambda>txNodes.
        bind_res (validateMerkleTree c transactionHash root txNodes (txIndexInBlock proof)) (\<lambda>_.
        bind_res (validateBitcoinHeadersChain c headers previousDifficulty currentDifficulty) (\<lambda>_.
        bind_res (computeSha256 c (coinbasePreimage proof)) (\<lambda>coinbaseHash.
        bind_res (splitMerkleProof (coinbaseProof proof)) (\<lambda>coinbaseNodes.
        validateMerkleTree c (hex_reverse coinbaseHash) root coinbaseNodes 0))))))))"

definition validateBitcoinSpvProof ::
  "crypto \<Rightarrow> btcjs \<Rightarrow> bufio \<Rightarrow> BitcoinTxHash \<Rightarrow> int \<Rightarrow> int \<Rightarrow> int \<Rightarrow> 'w bitcoin_client \<Rightarrow> ('w, unit) io" where
  "validateBitcoinSpvProof c lib wr transactionHash requiredConfirmations previousDifficulty
     currentDifficulty bitcoinClient =
     (if requiredConfirmations < 1
      then throw_io (Error ''The number of required confirmations but at least 1'')
      else bind_io (assembleBitcoinSpvProof c lib wr transactionHash requiredConfirmations bitcoinClient)
        (\<lambda>(transaction, proof).
          lift_io (checkSpvProof c transactionHash requiredConfirmations previousDifficulty
            currentDifficulty proof)))"

subsection \<open>The proof codec\<close>

definition proof_bytes :: "Hex list \<Rightarrow> byte list" where
  "proof_bytes nodes = concat (map hex_buf nodes)"

definition node_ok :: "Hex \<Rightarrow> bool" where
  "node_ok h = (length (hex_buf h) = 32)"

lemma createMerkleProof_bytes:
  "createMerkleProof b = Hex (proof_bytes (map hex_reverse (mb_merkle b)))"
proof -
  have "foldl (\<lambda>proof item. proof @ rev (toBuffer item)) acc hs =
      acc @ proof_bytes (map hex_reverse hs)" for acc hs
    by (induction hs arbitrary: acc) (simp_all add: proof_bytes_def toBuffer_def)
  then show ?thesis by (simp add: createMerkleProof_def Hex_from_buffer_def)
qed

lemma splitMerkleProof_bytes:
  "splitMerkleProof (Hex bs) = (if length bs mod 32 \<noteq> 0 then Inl (Error ''Incorrect length of Merkle proof'')
     else for_chunks 32 (\<lambda>b. Inr (Hex b)) bs)"
proof -
  have m: "2 * n mod 64 = 2 * (n mod 32)" for n :: nat using mult_mod_right[of 2 n 32] by simp
  show ?thesis
    using for_chunks_hex[of 32 Hex_from_string bs] by (simp add: splitMerkleProof_def Let_def m)
qed

lemma length_proof_bytes: "list_all node_ok ns \<Longrightarrow> length (proof_bytes ns) = 32 * length ns"
  by (induction ns) (simp_all add: proof_bytes_def node_ok_def)

lemma split_proof_bytes:
  assumes "list_all node_ok ns"
  shows "splitMerkleProof (Hex (proof_bytes ns)) = Inr ns"
proof -
  have "for_chunks 32 (\<lambda>b. Inr (Hex b)) (proof_bytes ns) = map_res ((\<lambda>b. Inr (Hex b)) \<circ> hex_buf) ns"
    unfolding proof_bytes_def using assms
    by (intro for_chunks_concat) (simp_all add: list_all_iff node_ok_def)
  also have "\<dots> = Inr ns" by (induction ns) simp_all
  finally show ?thesis using length_proof_bytes[OF assms] by (simp add: splitMerkleProof_bytes)
qed

lemma splitMerkleProof_Inr:
  assumes "splitMerkleProof (Hex bs) = Inr ns"
  shows "list_all node_ok ns \<and> proof_bytes ns = bs"
proof -
  have "32 dvd length bs" "for_chunks 32 (\<lambda>b. Inr (Hex b)) bs = Inr ns"
    using assms by (auto simp: splitMerkleProof_bytes split: if_splits)
  then show ?thesis
    unfolding proof_bytes_def by (rule for_chunks_inv[rotated 2]) (auto simp: node_ok_def)
qed

interpretation nodes: exact_codec "\<lambda>ns. Hex (proof_bytes ns)" splitMerkleProof "list_all node_ok"
proof unfold_locales
  fix y ns
  assume "splitMerkleProof y = Inr ns"
  then show "list_all node_ok ns" "Hex (proof_bytes ns) = y"
    using splitMerkleProof_Inr[of "hex_buf y" ns] by (cases y; simp)+
qed (rule split_proof_bytes)

subsection \<open>Paths in a Merkle tree\<close>

definition hash_pair :: "crypto \<Rightarrow> byte list \<Rightarrow> byte list \<Rightarrow> byte list" where
  "hash_pair c a b = digest (sha256 c) (digest (sha256 c) (a @ b))"

text \<open>From a leaf at a position up to the root.\<close>

fun merkle_up :: "crypto \<Rightarrow> nat \<Rightarrow> byte list \<Rightarrow> byte list list \<Rightarrow> byte list" where
  "merkle_up c idx x [] = x"
| "merkle_up c idx x (n # ns) =
     merkle_up c (idx div 2) (if odd idx then hash_pair c n x else hash_pair c x n) ns"

text \<open>The tree of a block: each level pairs the hashes of the level below, the last one with
  itself when it is alone. The branch of a leaf lists its sibling at every level.\<close>

fun pair_level :: "crypto \<Rightarrow> byte list list \<Rightarrow> byte list list" where
  "pair_level c (a # b # xs) = hash_pair c a b # pair_level c xs"
| "pair_level c [a] = [hash_pair c a a]"
| "pair_level c [] = []"

lemma length_pair_level [simp]: "length (pair_level c xs) = (length xs + 1) div 2"
  by (induction c xs rule: pair_level.induct) simp_all

function merkle_root :: "crypto \<Rightarrow> byte list list \<Rightarrow> byte list" where
  "merkle_root c xs = (if length xs \<le> 1 then hd xs else merkle_root c (pair_level c xs))"
  by pat_completeness auto
termination
  by (relation "measure (\<lambda>(c, xs). length xs)") auto

definition sibling :: "'a list \<Rightarrow> nat \<Rightarrow> 'a" where
  "sibling xs i = (if odd i then xs ! (i - 1) else if i + 1 < length xs then xs ! (i + 1) else xs ! i)"

function merkle_branch :: "crypto \<Rightarrow> byte list list \<Rightarrow> nat \<Rightarrow> byte list list" where
  "merkle_branch c xs i =
     (if length xs \<le> 1 then [] else sibling xs i # merkle_branch c (pair_level c xs) (i div 2))"
  by pat_completeness auto
termination
  by (relation "measure (\<lambda>(c, xs, i). length xs)") auto

declare merkle_root.simps [simp del] merkle_branch.simps [simp del]

lemma pair_level_nth:
  "i < length xs \<Longrightarrow>
   pair_level c xs ! (i div 2) =
     (if odd i then hash_pair c (sibling xs i) (xs ! i) else hash_pair c (xs ! i) (sibling xs i))"
proof (induction c xs arbitrary: i rule: pair_level.induct)
  case (1 c a b xs)
  show ?case
  proof (cases "i < 2")
    case True
    then have "i = 0 \<or> i = 1" by auto
    then show ?thesis by (auto simp: sibling_def)
  next
    case False
    then obtain j where j: "i = Suc (Suc j)" by (metis add_2_eq_Suc le_Suc_ex not_less)
    have "sibling (a # b # xs) i = sibling xs j"
      using j by (cases j) (auto simp: sibling_def)
    then show ?thesis using 1 j by simp
  qed
qed (auto simp: sibling_def)

lemma merkle_up_branch:
  "i < length xs \<Longrightarrow> merkle_up c i (xs ! i) (merkle_branch c xs i) = merkle_root c xs"
proof (induction c xs arbitrary: i rule: merkle_root.induct)
  case (1 c xs)
  show ?case
  proof (cases "length xs \<le> 1")
    case True
    then show ?thesis using "1.prems" by (cases xs) (simp_all add: merkle_root.simps merkle_branch.simps)
  next
    case False
    then have "i div 2 < length (pair_level c xs)" using "1.prems" by simp
    then have "merkle_up c (i div 2) (pair_level c xs ! (i div 2)) (merkle_branch c (pair_level c xs) (i div 2))
        = merkle_root c (pair_level c xs)"
      using "1.IH" False by blast
    then show ?thesis
      using False pair_level_nth[OF "1.prems"]
      by (subst merkle_branch.simps, subst merkle_root.simps) (simp split: if_splits)
  qed
qed

lemma length_hash_pair: "hash_function (sha256 c) 32 \<Longrightarrow> a @ b \<noteq> [] \<Longrightarrow> length (hash_pair c a b) = 32"
  unfolding hash_pair_def by (rule computeHash256_bytes(2))

lemma length_merkle_branch: "length (merkle_branch c xs i) = length (merkle_branch c xs j)"
proof (induction c xs arbitrary: i j rule: merkle_root.induct)
  case (1 c xs)
  show ?case
  proof (cases "length xs \<le> 1")
    case True
    then show ?thesis by (simp add: merkle_branch.simps)
  next
    case False
    show ?thesis using "1.IH"[OF False, of "i div 2" "j div 2"] False
      by (subst (1 2) merkle_branch.simps) simp
  qed
qed

lemma pair_level_node_ok:
  "hash_function (sha256 c) 32 \<Longrightarrow> \<forall>x \<in> set xs. length x = 32 \<Longrightarrow> \<forall>x \<in> set (pair_level c xs). length x = 32"
  by (induction c xs rule: pair_level.induct) (auto intro!: length_hash_pair)

lemma merkle_branch_ok:
  "hash_function (sha256 c) 32 \<Longrightarrow> \<forall>x \<in> set xs. length x = 32 \<Longrightarrow> i < length xs \<Longrightarrow>
   \<forall>x \<in> set (merkle_branch c xs i). length x = 32"
proof (induction c xs arbitrary: i rule: merkle_root.induct)
  case (1 c xs)
  show ?case
  proof (cases "length xs \<le> 1")
    case True
    then show ?thesis by (simp add: merkle_branch.simps)
  next
    case False
    have "sibling xs i \<in> set xs" using "1.prems"(3) by (auto simp: sibling_def)
    moreover have "\<forall>x \<in> set (merkle_branch c (pair_level c xs) (i div 2)). length x = 32"
      using "1.prems"(3) by (intro "1.IH"[OF False "1.prems"(1) pair_level_node_ok[OF "1.prems"(1,2)]]) simp
    ultimately show ?thesis using False "1.prems"(2) by (subst merkle_branch.simps) simp
  qed
qed

text \<open>The preimages of the double hash on the way up: what is hashed at each level of a path. Two
  paths collide when at some level they hash different bytes to one value.\<close>

definition double_hash :: "crypto \<Rightarrow> byte list \<Rightarrow> byte list" where
  "double_hash c p = digest (sha256 c) (digest (sha256 c) p)"

fun merkle_preimages :: "crypto \<Rightarrow> nat \<Rightarrow> byte list \<Rightarrow> byte list list \<Rightarrow> byte list list" where
  "merkle_preimages c idx x [] = []"
| "merkle_preimages c idx x (n # ns) =
     (let p = (if odd idx then n @ x else x @ n) in
      p # merkle_preimages c (idx div 2) (double_hash c p) ns)"

definition paths_collide ::
  "crypto \<Rightarrow> nat \<Rightarrow> byte list \<times> byte list list \<Rightarrow> byte list \<times> byte list list \<Rightarrow> bool" where
  "paths_collide c idx p q =
     list_ex (\<lambda>(a, b). a \<noteq> b \<and> double_hash c a = double_hash c b)
       (zip (merkle_preimages c idx (fst p) (snd p)) (merkle_preimages c idx (fst q) (snd q)))"

lemma hash_pair_double: "hash_pair c a b = double_hash c (a @ b)"
  by (simp add: hash_pair_def double_hash_def)

lemma length_double_hash: "hash_function (sha256 c) 32 \<Longrightarrow> length p = 64 \<Longrightarrow> length (double_hash c p) = 32"
  using length_hash_pair[of c "take 32 p" "drop 32 p"] by (force simp: hash_pair_double)

text \<open>Two different paths of the same shape to the same root hash, at the level where they meet,
  different bytes to one value.\<close>

lemma merkle_up_binding:
  assumes "hash_function (sha256 c) 32"
    and "length x = 32" "length y = 32" "length ns = length ms"
    and "list_all (\<lambda>n. length n = 32) ns" "list_all (\<lambda>n. length n = 32) ms"
    and "merkle_up c i x ns = merkle_up c i y ms" "(x, ns) \<noteq> (y, ms)"
  shows "paths_collide c i (x, ns) (y, ms)"
  using assms(4) assms(2,3,5-8)
proof (induction ns ms arbitrary: i x y rule: list_induct2)
  case (Cons n ns m ms)
  let ?x = "if odd i then n @ x else x @ n" and ?y = "if odd i then m @ y else y @ m"
  have len: "length ?x = 64" "length ?y = 64" using Cons.prems by simp_all
  have up: "merkle_up c (i div 2) (double_hash c ?x) ns = merkle_up c (i div 2) (double_hash c ?y) ms"
    using Cons.prems(5) by (simp add: hash_pair_double split: if_splits)
  show ?case
  proof (cases "(double_hash c ?x, ns) = (double_hash c ?y, ms)")
    case True
    then have "?x \<noteq> ?y" using Cons.prems by (auto simp: append_eq_append_conv)
    then show ?thesis using True by (simp add: paths_collide_def Let_def)
  next
    case False
    have l: "length (double_hash c ?x) = 32" "length (double_hash c ?y) = 32"
      by (rule length_double_hash[OF assms(1) len(1)], rule length_double_hash[OF assms(1) len(2)])
    have "paths_collide c (i div 2) (double_hash c ?x, ns) (double_hash c ?y, ms)"
      by (rule Cons.IH[OF l _ _ up False]) (use Cons.prems in simp_all)
    then show ?thesis by (simp add: paths_collide_def Let_def)
  qed
qed simp

subsection \<open>The validation computes the path\<close>

lemma merkleLoop_up:
  assumes "hash_function (sha256 c) 32"
  shows "x \<noteq> [] \<Longrightarrow> idx < 2 ^ 31 \<Longrightarrow>
     merkleLoop c (int idx) (Hex x) ns = Inr (Hex (merkle_up c idx x (map hex_buf ns)))"
proof (induction ns arbitrary: idx x)
  case (Cons node ns)
  obtain n where n: "node = Hex n" by (cases node)
  have r: "js_rem (int idx) 2 = 1 \<longleftrightarrow> odd idx" by (subst js_rem_nonneg) (simp_all, presburger)
  have s: "js_shr (int idx) 1 = int (idx div 2)" using Cons.prems by (simp add: js_shr_nonneg zdiv_int)
  have h: "Hex_from_string (bytes_to_hex a @ bytes_to_hex b) = Inr (Hex (a @ b))" for a b
    using Hex_from_hex_string[of "a @ b"] by simp
  have e: "computeHash256 c (Hex (a @ b)) = Inr (Hex (hash_pair c a b))"
    and ne: "hash_pair c a b \<noteq> []" if "a @ b \<noteq> []" for a b
    using computeHash256_bytes[OF assms that] by (auto simp: hash_pair_def)
  have IH: "z \<noteq> [] \<Longrightarrow> merkleLoop c (int (idx div 2)) (Hex z) ns =
      Inr (Hex (merkle_up c (idx div 2) z (map hex_buf ns)))" for z
    using Cons.IH Cons.prems by simp
  show ?case
    using Cons.prems n by (simp add: r s[unfolded One_nat_def] h e ne IH)
qed simp

text \<open>What a successful validation of a path means.\<close>

definition merkle_path_ok :: "crypto \<Rightarrow> byte list \<Rightarrow> byte list \<Rightarrow> byte list list \<Rightarrow> nat \<Rightarrow> bool" where
  "merkle_path_ok c leaf root ns idx = ((ns = [] \<longrightarrow> idx = 0) \<and> merkle_up c idx leaf ns = root)"

lemma validateMerkleTree_path:
  assumes "hash_function (sha256 c) 32" "hex_buf txHash \<noteq> []" "idx < 2 ^ 31"
  shows "(validateMerkleTree c txHash root ns (int idx) = Inr ()) =
     merkle_path_ok c (rev (hex_buf txHash)) (hex_buf root) (map hex_buf ns) idx"
proof -
  obtain t where t: "txHash = Hex t" by (cases txHash)
  obtain r where r: "root = Hex r" by (cases root)
  have l: "merkleLoop c (int idx) (Hex (rev t)) ns = Inr (Hex (merkle_up c idx (rev t) (map hex_buf ns)))"
    using assms t by (intro merkleLoop_up) simp_all
  show ?thesis using l t r
    by (auto simp: validateMerkleTree_def validateMerkleTreeHashes_def merkle_path_ok_def)
qed

subsection \<open>What an accepted proof shows\<close>

text \<open>The declarative reading of an inclusion proof: a linked chain of headers with enough work
  at the right difficulties, and two paths of one length into the tree of its first block,
  one from the transaction and one from the coinbase at position zero.\<close>

definition spv_proof_valid ::
  "crypto \<Rightarrow> BitcoinTxHash \<Rightarrow> int \<Rightarrow> int \<Rightarrow> int \<Rightarrow> BitcoinSpvProof \<Rightarrow> BitcoinHeader list \<Rightarrow>
   Hex list \<Rightarrow> Hex list \<Rightarrow> bool" where
  "spv_proof_valid c txHash n prev cur proof hs txNodes coinbaseNodes =
     (list_all header_ok hs \<and> list_all node_ok txNodes \<and> list_all node_ok coinbaseNodes \<and>
      bitcoinHeaders proof = Hex (chain_bytes hs) \<and> int (length hs) = n \<and>
      merkleProof proof = Hex (proof_bytes txNodes) \<and>
      coinbaseProof proof = Hex (proof_bytes coinbaseNodes) \<and> length txNodes = length coinbaseNodes \<and>
      valid_headers_chain c hs prev cur \<and>
      merkle_path_ok c (rev (hex_buf txHash)) (hex_buf (merkleRootHash (hd hs))) (map hex_buf txNodes)
        (nat (txIndexInBlock proof)) \<and>
      merkle_path_ok c (digest (sha256 c) (hex_buf (coinbasePreimage proof)))
        (hex_buf (merkleRootHash (hd hs))) (map hex_buf coinbaseNodes) 0)"

lemma length_proof_eq:
  "list_all node_ok ns \<Longrightarrow> list_all node_ok ms \<Longrightarrow>
   (length (proof_bytes ns) = length (proof_bytes ms)) = (length ns = length ms)"
  by (simp add: length_proof_bytes)

lemma list_case_hd: "(case xs of [] \<Rightarrow> a | x # _ \<Rightarrow> f x) = (if xs = [] then a else f (hd xs))"
  by (cases xs) simp_all

lemma checkSpvProof_iff:
  assumes c: "hash_function (sha256 c) 32"
    and t: "hex_buf txHash \<noteq> []" and p: "hex_buf (coinbasePreimage proof) \<noteq> []"
    and i: "0 \<le> txIndexInBlock proof" "txIndexInBlock proof < 2 ^ 31" and n: "1 \<le> n"
  shows "(checkSpvProof c txHash n prev cur proof = Inr ()) =
     (\<exists>hs txNodes coinbaseNodes. spv_proof_valid c txHash n prev cur proof hs txNodes coinbaseNodes)"
proof -
  obtain pre where pre: "coinbasePreimage proof = Hex pre" by (cases "coinbasePreimage proof")
  have cb: "computeSha256 c (coinbasePreimage proof) = Inr (Hex (digest (sha256 c) pre))"
    and cbne: "digest (sha256 c) pre \<noteq> []"
    using computeSha256_bytes[OF c, of pre] hash_function_digest(2)[OF c, of pre] p pre by auto
  have path: "(validateMerkleTree c txHash root ns (txIndexInBlock proof) = Inr ()) =
      merkle_path_ok c (rev (hex_buf txHash)) (hex_buf root) (map hex_buf ns) (nat (txIndexInBlock proof))"
    for root ns
    using validateMerkleTree_path[OF c t, of "nat (txIndexInBlock proof)"] i by (simp add: nat_less_iff)
  have cpath: "(validateMerkleTree c (hex_reverse (Hex (digest (sha256 c) pre))) root ns 0 = Inr ()) =
      merkle_path_ok c (digest (sha256 c) pre) (hex_buf root) (map hex_buf ns) 0" for root ns
    using validateMerkleTree_path[OF c, of "hex_reverse (Hex (digest (sha256 c) pre))" 0 root ns] cbne by simp
  have "(checkSpvProof c txHash n prev cur proof = Inr ()) =
      (length (toBuffer (merkleProof proof)) = length (toBuffer (coinbaseProof proof)) \<and>
       (\<exists>hs. deserializeHeadersChain (bitcoinHeaders proof) = Inr hs \<and> int (length hs) = n \<and>
         (\<exists>ns. splitMerkleProof (merkleProof proof) = Inr ns \<and>
           validateMerkleTree c txHash (merkleRootHash (hd hs)) ns (txIndexInBlock proof) = Inr () \<and>
           validateBitcoinHeadersChain c hs prev cur = Inr () \<and>
           (\<exists>ms. splitMerkleProof (coinbaseProof proof) = Inr ms \<and>
             validateMerkleTree c (hex_reverse (Hex (digest (sha256 c) pre))) (merkleRootHash (hd hs)) ms 0 = Inr ()))))"
  proof -
    show ?thesis
      unfolding checkSpvProof_def Let_def list_case_hd if_Inl_eq_Inr bind_res_Inr cb
      by (rule arg_cong2[of _ _ _ _ "(\<and>)"], simp, rule arg_cong[of _ _ Ex], rule ext) (use n in auto)
  qed
  also have "\<dots> = (\<exists>hs ns ms. spv_proof_valid c txHash n prev cur proof hs ns ms)"
    (is "?L = ?R")
  proof
    assume ?L
    then obtain hs ns ms where "length (toBuffer (merkleProof proof)) = length (toBuffer (coinbaseProof proof))"
      and h: "list_all header_ok hs" "Hex (chain_bytes hs) = bitcoinHeaders proof" "int (length hs) = n"
      and ns: "list_all node_ok ns" "Hex (proof_bytes ns) = merkleProof proof"
      and ms: "list_all node_ok ms" "Hex (proof_bytes ms) = coinbaseProof proof"
      and v: "validateMerkleTree c txHash (merkleRootHash (hd hs)) ns (txIndexInBlock proof) = Inr ()"
        "validateMerkleTree c (hex_reverse (Hex (digest (sha256 c) pre))) (merkleRootHash (hd hs)) ms 0 = Inr ()"
        "validateBitcoinHeadersChain c hs prev cur = Inr ()"
      unfolding chain.dec_iff nodes.dec_iff by blast
    moreover from this have "length ns = length ms"
      using length_proof_eq by (metis toBuffer_Hex(1))
    ultimately have "spv_proof_valid c txHash n prev cur proof hs ns ms"
      using v[unfolded path cpath validateBitcoinHeadersChain_spec[OF c h(1)]]
      by (simp add: spv_proof_valid_def pre)
    then show ?R by blast
  next
    assume ?R
    then obtain hs ns ms where v: "spv_proof_valid c txHash n prev cur proof hs ns ms" by blast
    then have "deserializeHeadersChain (bitcoinHeaders proof) = Inr hs" "int (length hs) = n"
      "splitMerkleProof (merkleProof proof) = Inr ns" "splitMerkleProof (coinbaseProof proof) = Inr ms"
      by (simp_all add: spv_proof_valid_def chain.dec_enc nodes.dec_enc)
    moreover have "length (toBuffer (merkleProof proof)) = length (toBuffer (coinbaseProof proof))"
      using v by (simp add: spv_proof_valid_def length_proof_bytes)
    moreover have "validateMerkleTree c txHash (merkleRootHash (hd hs)) ns (txIndexInBlock proof) = Inr ()"
      "validateMerkleTree c (hex_reverse (Hex (digest (sha256 c) pre))) (merkleRootHash (hd hs)) ms 0 = Inr ()"
      unfolding path cpath using v by (simp_all add: spv_proof_valid_def pre)
    moreover have "validateBitcoinHeadersChain c hs prev cur = Inr ()"
      using v by (simp add: spv_proof_valid_def validateBitcoinHeadersChain_spec[OF c])
    ultimately show ?L by blast
  qed
  finally show ?thesis .
qed

subsection \<open>Hypotheses on the writer and the client\<close>

text \<open>A 32-bit write writes four bytes. Positions in a block are 0-based and fit 31 bits.\<close>

definition bufio_ok :: "bufio \<Rightarrow> bool" where
  "bufio_ok wr = (\<forall>v. length (writeU32 wr v) = 4)"

definition merkle_answers_ok :: "'w bitcoin_client \<Rightarrow> bool" where
  "merkle_answers_ok bc = (\<forall>h b w br w'. getTransactionMerkle bc h b w = (Inr br, w') \<longrightarrow>
     0 \<le> mb_position br \<and> mb_position br < 2 ^ 31)"

definition sample_bufio :: bufio where
  "sample_bufio = \<lparr>writeVarint = (\<lambda>v. [byte_of (nat v)]), writeHash = (\<lambda>h. h), writeU32 = (\<lambda>v. le_bytes 4 (nat v)),
     writeI64 = (\<lambda>v. le_bytes 8 (nat v)), writeVarBytes = (\<lambda>b. byte_of (length b) # b)\<rparr>"

text \<open>A client of a chain whose last block holds the coinbase transaction only.\<close>

definition sample_coinbase :: "byte list" where
  "sample_coinbase = le_bytes 4 1 @ [0] @ [0] @ le_bytes 4 0"

definition sample_txid :: "byte list" where
  "sample_txid = digest (sha256 sample_crypto) (digest (sha256 sample_crypto) sample_coinbase)"

definition sample_bitcoin_client :: "unit bitcoin_client" where
  "sample_bitcoin_client = \<lparr>getNetwork = return_io Testnet,
     findAllUnspentTransactionOutputs = (\<lambda>_. return_io []),
     getTransactionHistory = (\<lambda>_ _. return_io []),
     getTransaction = (\<lambda>h. return_io \<lparr>bt_transactionHash = h, bt_inputs = [], bt_outputs = []\<rparr>),
     getRawTransaction = (\<lambda>_. return_io \<lparr>transactionHex = ''00''\<rparr>),
     getTransactionConfirmations = (\<lambda>_. return_io 1),
     getTxHashesForPublicKeyHash = (\<lambda>_. return_io []),
     latestBlockHeight = return_io 100,
     getHeadersChain = (\<lambda>_ _. return_io (Hex (chain_bytes [easy_header (Hex sample_txid)]))),
     getTransactionMerkle = (\<lambda>_ b. return_io \<lparr>mb_blockHeight = b, mb_merkle = [], mb_position = 0\<rparr>),
     broadcast = (\<lambda>_. return_io ()),
     getCoinbaseTxHash = (\<lambda>_. return_io (Hex (rev sample_txid)))\<rparr>"

lemma bufio_ok_sample: "bufio_ok sample_bufio"
  by (simp add: bufio_ok_def sample_bufio_def)

lemma merkle_answers_ok_sample: "merkle_answers_ok sample_bitcoin_client"
  by (simp add: merkle_answers_ok_def sample_bitcoin_client_def)

text \<open>What an assembled proof has in common whatever the client answers.\<close>

lemma assemble_shape:
  assumes "hash_function (sha256 c) 32" "bufio_ok wr" "merkle_answers_ok bc"
    and "assembleBitcoinSpvProof c lib wr txHash n bc w = (Inr (tx, proof), w')"
  shows "hex_buf (coinbasePreimage proof) \<noteq> [] \<and> 0 \<le> txIndexInBlock proof \<and> txIndexInBlock proof < 2 ^ 31"
proof -
  obtain vs pre br h b u u' where e: "extractBitcoinRawTxVectors lib wr br = Inr vs"
    and pre: "bind_res (Hex_from_string (toString (vec_version vs) @ toString (vec_inputs vs) @
         toString (vec_outputs vs) @ toString (vec_locktime vs))) (computeSha256 c) = Inr (coinbasePreimage proof)"
    and pos: "getTransactionMerkle bc h b u = (Inr pre, u')" "mb_position pre = txIndexInBlock proof"
    using assms(4)
    by (auto simp: assembleBitcoinSpvProof_def bind_io_Inr Let_def split: if_splits)
  let ?bs = "hex_buf (vec_version vs) @ hex_buf (vec_inputs vs) @ hex_buf (vec_outputs vs) @ hex_buf (vec_locktime vs)"
  have v: "length (hex_buf (vec_version vs)) = 4"
    using e assms(2) by (auto simp: extractBitcoinRawTxVectors_def res_simps getTxVersion_def bufio_ok_def
        Hex_from_buffer_def)
  then have ne: "?bs \<noteq> []" by auto
  have "toString (vec_version vs) @ toString (vec_inputs vs) @ toString (vec_outputs vs) @
      toString (vec_locktime vs) = bytes_to_hex ?bs"
    by (simp add: toString_def)
  then have "computeSha256 c (Hex ?bs) = Inr (coinbasePreimage proof)"
    using pre by (simp del: bytes_to_hex_simps(3))
  then have "hex_buf (coinbasePreimage proof) = digest (sha256 c) ?bs"
    using computeSha256_bytes[OF assms(1) ne] by (metis Hex.sel sum.inject(2))
  moreover have "length (digest (sha256 c) ?bs) = 32" by (rule hash_function_digest(2)[OF assms(1) ne])
  ultimately have "length (hex_buf (coinbasePreimage proof)) = 32" by simp
  then have "hex_buf (coinbasePreimage proof) \<noteq> []" by auto
  then show ?thesis using pos assms(3) by (metis merkle_answers_ok_def)
qed

subsection \<open>Properties\<close>

text \<open>C1: validating an inclusion proof succeeds exactly when at least one confirmation is required
  and the proof assembled from the client's answers reads as a linked chain of that many
  headers, each with enough work at the right difficulty, and two Merkle paths of one length
  into its first block: the transaction's at its index, the coinbase's at index zero.\<close>

theorem validateBitcoinSpvProof_iff:
  assumes "hash_function (sha256 c) 32" "bufio_ok wr" "merkle_answers_ok bc" "hex_buf txHash \<noteq> []"
  shows "(validateBitcoinSpvProof c lib wr txHash n prev cur bc w = (Inr (), w')) =
     (1 \<le> n \<and> (\<exists>tx proof hs txNodes coinbaseNodes.
        assembleBitcoinSpvProof c lib wr txHash n bc w = (Inr (tx, proof), w') \<and>
        spv_proof_valid c txHash n prev cur proof hs txNodes coinbaseNodes))"
proof (cases "1 \<le> n")
  case True
  have step: "(checkSpvProof c txHash n prev cur proof = Inr ()) =
      (\<exists>hs ns ms. spv_proof_valid c txHash n prev cur proof hs ns ms)"
    if "assembleBitcoinSpvProof c lib wr txHash n bc w = (Inr (tx, proof), w')" for tx and "proof"
    using assemble_shape[OF assms(1-3) that] True by (intro checkSpvProof_iff assms(1,4)) simp_all
  show ?thesis using True step
    by (auto simp: validateBitcoinSpvProof_def bind_io_Inr)
qed (simp add: validateBitcoinSpvProof_def)

theorem validateBitcoinSpvProof_iff_witness:
  "validateBitcoinSpvProof sample_crypto sample_btcjs sample_bufio (Hex (rev sample_txid)) 1 1 1
     sample_bitcoin_client () = (Inr (), ())"
proof -
  let ?c = sample_crypto
  have h: "hash_function (sha256 ?c) 32" using crypto_ok_sample by (simp add: crypto_ok_def)
  have ne: "sample_coinbase \<noteq> []" by (simp add: sample_coinbase_def)
  have l: "length sample_txid = 32" unfolding sample_txid_def by (rule computeHash256_bytes(2)[OF h ne])
  then have ne': "hex_buf (Hex (rev sample_txid)) \<noteq> []" by auto
  have s: "computeSha256 ?c (Hex sample_coinbase) = Inr (Hex (digest (sha256 ?c) sample_coinbase))"
    by (rule computeSha256_bytes[OF h ne])
  have v: "toString (getTxVersion sample_bufio t) @ toString (getTxInputVector sample_bufio t) @
      toString (getTxOutputVector sample_bufio t) @ toString (getTxLocktime sample_bufio t) = bytes_to_hex sample_coinbase"
    if "t = \<lparr>tx_version = 1, tx_ins = [], tx_outs = [], tx_locktime = 0\<rparr>" for t
    using that by (simp add: getTxVersion_def getTxInputVector_def getTxOutputVector_def getTxLocktime_def
        sample_bufio_def sample_coinbase_def byte_of_def)
  let ?proof = "\<lparr>merkleProof = Hex [], txIndexInBlock = 0, bitcoinHeaders = Hex (chain_bytes [easy_header (Hex sample_txid)]),
       coinbasePreimage = Hex (digest (sha256 ?c) sample_coinbase), coinbaseProof = Hex []\<rparr>"
  have a: "assembleBitcoinSpvProof ?c sample_btcjs sample_bufio (Hex (rev sample_txid)) 1 sample_bitcoin_client () =
    (Inr (\<lparr>bt_transactionHash = Hex (rev sample_txid), bt_inputs = [], bt_outputs = []\<rparr>, ?proof), ())"
    by (simp add: assembleBitcoinSpvProof_def sample_bitcoin_client_def bind_io_def sample_btcjs_def
        extractBitcoinRawTxVectors_def v s createMerkleProof_def Hex_from_buffer_def)
  have "spv_proof_valid ?c (Hex (rev sample_txid)) 1 1 1 ?proof [easy_header (Hex sample_txid)] [] []"
    using easy_header_ok[OF h l]
    by (simp add: spv_proof_valid_def proof_bytes_def merkle_path_ok_def easy_header_def sample_txid_def)
  then show ?thesis
    using validateBitcoinSpvProof_iff[OF h bufio_ok_sample merkle_answers_ok_sample ne', of sample_btcjs 1 1 1 "()" "()"] a
    by blast
qed

text \<open>C14: the proof built from the branches of a block's Merkle tree is accepted for every
  transaction of the block, when the chain of headers is valid and starts at that block.\<close>

theorem honest_spv_proof_accepted:
  assumes c: "hash_function (sha256 c) 32"
    and leaves: "\<forall>x \<in> set leaves. length x = 32" "i < length leaves" "length leaves < 2 ^ 31"
    and hs: "list_all header_ok hs" "hs \<noteq> []" "valid_headers_chain c hs prev cur"
    and root: "merkleRootHash (hd hs) = Hex (merkle_root c leaves)"
    and pre: "length pre = 32" "leaves ! 0 = digest (sha256 c) pre"
  shows "checkSpvProof c (Hex (rev (leaves ! i))) (int (length hs)) prev cur
     \<lparr>merkleProof = createMerkleProof \<lparr>mb_blockHeight = b, mb_merkle = map (Hex \<circ> rev) (merkle_branch c leaves i), mb_position = int i\<rparr>,
      txIndexInBlock = int i, bitcoinHeaders = Hex (chain_bytes hs), coinbasePreimage = Hex pre,
      coinbaseProof = createMerkleProof \<lparr>mb_blockHeight = b, mb_merkle = map (Hex \<circ> rev) (merkle_branch c leaves 0), mb_position = 0\<rparr>\<rparr>
     = Inr ()"
    (is "checkSpvProof _ _ _ _ _ ?p = _")
proof -
  let ?ns = "map Hex (merkle_branch c leaves i)" and ?ms = "map Hex (merkle_branch c leaves 0)"
  have r: "map (hex_reverse \<circ> (Hex \<circ> rev)) xs = map Hex xs" for xs :: "byte list list" by simp
  have ne: "0 < length leaves" using leaves(2) by auto
  have x: "length (leaves ! i) = 32" using leaves by simp
  have id: "map (hex_buf \<circ> Hex) xs = xs" for xs by (simp add: map_idI)
  have ok: "list_all node_ok ?ns" "list_all node_ok ?ms"
    using merkle_branch_ok[OF c leaves(1,2)] merkle_branch_ok[OF c leaves(1) ne]
    by (simp_all add: list_all_iff node_ok_def)
  have small: "i = 0" if "merkle_branch c leaves i = []"
    using that leaves(2) by (subst (asm) merkle_branch.simps) (auto split: if_splits)
  have up: "merkle_path_ok c (leaves ! i) (merkle_root c leaves) (merkle_branch c leaves i) i"
    "merkle_path_ok c (leaves ! 0) (merkle_root c leaves) (merkle_branch c leaves 0) 0"
    unfolding merkle_path_ok_def using small merkle_up_branch[OF leaves(2)] merkle_up_branch[OF ne] by auto
  have "spv_proof_valid c (Hex (rev (leaves ! i))) (int (length hs)) prev cur ?p hs ?ns ?ms"
    using ok hs up pre root length_merkle_branch[of c leaves i 0]
    by (simp add: spv_proof_valid_def createMerkleProof_bytes r id)
  moreover have "hex_buf (Hex (rev (leaves ! i))) \<noteq> []" "pre \<noteq> []" using x pre(1) by auto
  moreover have "1 \<le> int (length hs)" using hs(2) by (cases hs) simp_all
  ultimately show ?thesis
    using leaves(2,3) by (subst checkSpvProof_iff[OF c]) auto
qed

text \<open>A block of two transactions, for the witness.\<close>

definition sample_leaves :: "byte list list" where
  "sample_leaves = [digest (sha256 sample_crypto) (replicate 32 7), replicate 32 9]"

theorem honest_spv_proof_accepted_witness:
  "checkSpvProof sample_crypto (Hex (rev (sample_leaves ! 1))) (int (length [()])) 1 1
     \<lparr>merkleProof = createMerkleProof \<lparr>mb_blockHeight = 5,
        mb_merkle = map (Hex \<circ> rev) (merkle_branch sample_crypto sample_leaves 1), mb_position = int 1\<rparr>,
      txIndexInBlock = int 1,
      bitcoinHeaders = Hex (chain_bytes [easy_header (Hex (merkle_root sample_crypto sample_leaves))]),
      coinbasePreimage = Hex (replicate 32 7),
      coinbaseProof = createMerkleProof \<lparr>mb_blockHeight = 5,
        mb_merkle = map (Hex \<circ> rev) (merkle_branch sample_crypto sample_leaves 0), mb_position = 0\<rparr>\<rparr> = Inr ()"
proof -
  let ?c = sample_crypto
  have h: "hash_function (sha256 ?c) 32" using crypto_ok_sample by (simp add: crypto_ok_def)
  have l: "length sample_leaves = 2" "sample_leaves ! 0 = digest (sha256 ?c) (replicate 32 7)"
    by (simp_all add: sample_leaves_def)
  have "length (digest (sha256 ?c) (replicate 32 7)) = 32" by (rule hash_function_digest(2)[OF h]) simp
  then have ok: "\<forall>x \<in> set sample_leaves. length x = 32" by (simp add: sample_leaves_def)
  have "merkle_root ?c sample_leaves = hash_pair ?c (sample_leaves ! 0) (sample_leaves ! 1)"
    by (subst merkle_root.simps, subst merkle_root.simps) (simp add: sample_leaves_def)
  then have r: "length (merkle_root ?c sample_leaves) = 32"
    using length_hash_pair[OF h, of "sample_leaves ! 0" "sample_leaves ! 1"] by (simp add: sample_leaves_def)
  show ?thesis
    using honest_spv_proof_accepted[OF h ok, of 1 "[easy_header (Hex (merkle_root ?c sample_leaves))]" 1 1 "replicate 32 7" 5]
      easy_header_ok[OF h r] l by (simp add: easy_header_def)
qed

text \<open>C13: what a block's root commits to. Two proofs of one length for one position that the root
  accepts are the same proof of the same transaction, unless these two paths, at some level, hash
  different bytes to the same value.\<close>

theorem validateMerkleTree_binding:
  assumes "hash_function (sha256 c) 32" "i < 2 ^ 31"
    and "node_ok tx" "node_ok tx'" "list_all node_ok ns" "list_all node_ok ms" "length ns = length ms"
    and "validateMerkleTree c tx root ns (int i) = Inr ()" "validateMerkleTree c tx' root ms (int i) = Inr ()"
  shows "(tx, ns) = (tx', ms) \<or>
    paths_collide c i (rev (hex_buf tx), map hex_buf ns) (rev (hex_buf tx'), map hex_buf ms)"
proof (rule disjCI)
  let ?p = "(rev (hex_buf tx), map hex_buf ns)" and ?q = "(rev (hex_buf tx'), map hex_buf ms)"
  assume no: "\<not> paths_collide c i ?p ?q"
  have ne: "hex_buf tx \<noteq> []" "hex_buf tx' \<noteq> []" using assms(3,4) by (auto simp: node_ok_def)
  have "merkle_up c i (fst ?p) (snd ?p) = merkle_up c i (fst ?q) (snd ?q)"
    using assms(8,9) validateMerkleTree_path[OF assms(1) ne(1) assms(2)] validateMerkleTree_path[OF assms(1) ne(2) assms(2)]
    by (simp add: merkle_path_ok_def)
  then have "?p = ?q"
    using merkle_up_binding[OF assms(1), of "fst ?p" "fst ?q" "snd ?p" "snd ?q" i]
      no assms(3-7) by (auto simp: node_ok_def list_all_iff)
  moreover have "inj hex_buf" by (rule injI) (metis Hex.collapse)
  ultimately show "(tx, ns) = (tx', ms)" by (simp add: inj_map_eq_map inj_eq)
qed

text \<open>The sample hash is weak enough for two transactions with one root: the paths collide.\<close>

lemma sample_collision:
  "hash_pair sample_crypto (2 # replicate 31 1) (1 # replicate 31 4) =
   hash_pair sample_crypto (replicate 32 1) (replicate 32 4)"
proof -
  have d: "digest (sha256 sample_crypto) bs = fold_bytes (replicate 32 0) bs" for bs
    by (simp add: digest_def sample_crypto_def sample_hash_def)
  have "fold_bytes (replicate 32 0) ((2 # replicate 31 1) @ (1 # replicate 31 4)) =
    fold_bytes (replicate 32 0) (replicate 32 1 @ replicate 32 4)"
    by (simp add: numeral_eq_Suc)
  then show ?thesis by (simp only: hash_pair_def d)
qed

theorem validateMerkleTree_binding_witness:
  "let x = replicate 32 1; n = replicate 32 4; x' = 2 # replicate 31 1; n' = 1 # replicate 31 4 in
     \<exists>root. validateMerkleTree sample_crypto (Hex (rev x)) root [Hex n] (int 0) = Inr () \<and>
       validateMerkleTree sample_crypto (Hex (rev x')) root [Hex n'] (int 0) = Inr () \<and>
       Hex (rev x) \<noteq> Hex (rev x') \<and> paths_collide sample_crypto 0 (x, [n]) (x', [n'])"
proof -
  have h: "hash_function (sha256 sample_crypto) 32" using crypto_ok_sample by (simp add: crypto_ok_def)
  let ?x = "replicate 32 1 :: byte list" and ?n = "replicate 32 4 :: byte list"
  let ?y = "2 # replicate 31 1 :: byte list" and ?m = "1 # replicate 31 4 :: byte list"
  let ?root = "Hex (hash_pair sample_crypto ?x ?n)"
  have v: "validateMerkleTree sample_crypto (Hex (rev ?x)) ?root [Hex ?n] (int 0) = Inr ()"
    by (subst validateMerkleTree_path[OF h]) (simp_all add: merkle_path_ok_def)
  have w: "validateMerkleTree sample_crypto (Hex (rev ?y)) ?root [Hex ?m] (int 0) = Inr ()"
    by (subst validateMerkleTree_path[OF h]) (simp_all add: merkle_path_ok_def sample_collision)
  have "?x \<noteq> ?y" by (simp add: numeral_eq_Suc)
  then have ne: "Hex (rev ?x) \<noteq> Hex (rev ?y)" by (simp only: Hex.inject rev_is_rev_conv not_False_eq_True)
  have "(Hex (rev ?x), [Hex ?n]) = (Hex (rev ?y), [Hex ?m]) \<or> paths_collide sample_crypto 0
      (rev (hex_buf (Hex (rev ?x))), map hex_buf [Hex ?n]) (rev (hex_buf (Hex (rev ?y))), map hex_buf [Hex ?m])"
    by (rule validateMerkleTree_binding[OF h _ _ _ _ _ _ v w]) (simp_all add: node_ok_def)
  then have "paths_collide sample_crypto 0 (?x, [?n]) (?y, [?m])"
    using ne by (simp only: prod.inject Hex.sel rev_rev_ident list.map simp_thms)
  with v w ne show ?thesis unfolding Let_def by (intro exI[of _ ?root] conjI)
qed

end
