(* ===== verification/Ntt.thy ===== *)
theory Ntt
  imports BigNumbers
begin

section \<open>Receivers of token bridges (typescript/src/lib/utils/ntt.ts, wormhole.ts)\<close>

text \<open>
  A destination chain and a recipient packed into 32 bytes: the chain in the two leading
  bytes, the recipient in the twenty trailing ones. The ten bytes between them are where
  decoding and validation are weaker than encoding.
\<close>

unbundle bit_operations_syntax

subsection \<open>Operations\<close>

definition WORMHOLE_SEPOLIA :: int where "WORMHOLE_SEPOLIA = 10002"
definition WORMHOLE_ETHEREUM :: int where "WORMHOLE_ETHEREUM = 2"
definition WORMHOLE_SEI :: int where "WORMHOLE_SEI = 40"

text \<open>\<open>recipient.match(/^0x[a-fA-F0-9]{40}$/)\<close>\<close>

definition evm_address_pattern :: "string \<Rightarrow> bool" where
  "evm_address_pattern s = (take 2 s = ''0x'' \<and> length s = 42 \<and> list_all is_hex_digit (drop 2 s))"

definition encodeDestinationReceiver :: "int \<Rightarrow> string \<Rightarrow> Hex res" where
  "encodeDestinationReceiver chainId recipient =
     (if chainId < 0 \<or> chainId > 65535
      then Inl (Error (''Chain ID must be between 0 and 65535, got '' @ show_int chainId))
      else if \<not> evm_address_pattern recipient
      then Inl (Error (''Invalid recipient address format: '' @ recipient))
      else (let recipientHex = strip_0x recipient in
        bind_res (BigInt_hex recipientHex) (\<lambda>r.
        let encoded = push_bit 240 chainId OR r in
        Hex_from_string (''0x'' @ padStart 64 (CHR ''0'') (show_base 16 (nat encoded))))))"

datatype receiver = HexReceiver Hex | StringReceiver string

fun receiver_text :: "receiver \<Rightarrow> string" where
  "receiver_text (StringReceiver s) = s"
| "receiver_text (HexReceiver h) = toPrefixedString h"

definition recipientMask :: int where
  "recipientMask = 0x0000FFFFFFFFFFFFFFFFFFFFFFFFFFFFFFFFFFFFFFFFFFFFFFFFFFFFFFFFFFFF"

definition receiver_length_error :: "string \<Rightarrow> js_error" where
  "receiver_length_error cleanHex = Error (''Invalid encoded receiver length: '' @ show_nat (length cleanHex) @
     ''. Expected 64 hex characters (32 bytes).'')"

definition decodeDestinationReceiver :: "receiver \<Rightarrow> (int \<times> string) res" where
  "decodeDestinationReceiver encodedReceiver =
     (let cleanHex = strip_0x (receiver_text encodedReceiver) in
      if length cleanHex \<noteq> 64 then Inl (receiver_length_error cleanHex)
      else bind_res (BigInt_hex cleanHex) (\<lambda>encodedBigInt.
        let chainId = drop_bit 240 encodedBigInt;
            recipientBigInt = encodedBigInt AND recipientMask;
            recipient = ''0x'' @ padStart 40 (CHR ''0'') (show_base 16 (nat recipientBigInt))
        in Inr (chainId, recipient)))"

definition isValidEncodedReceiver :: "receiver \<Rightarrow> bool" where
  "isValidEncodedReceiver encodedReceiver =
     (let cleanHex = strip_0x (receiver_text encodedReceiver) in
      if length cleanHex \<noteq> 64 then False
      else if \<not> list_all is_hex_digit cleanHex then False
      else is_ok (decodeDestinationReceiver encodedReceiver))"

definition getChainIdFromEncodedReceiver :: "receiver \<Rightarrow> int res" where
  "getChainIdFromEncodedReceiver encodedReceiver =
     (let cleanHex = strip_0x (receiver_text encodedReceiver) in
      if length cleanHex \<noteq> 64 then Inl (receiver_length_error cleanHex)
      else bind_res (BigInt_hex cleanHex) (\<lambda>encodedBigInt. Inr (drop_bit 240 encodedBigInt)))"

definition getRecipientFromEncodedReceiver :: "receiver \<Rightarrow> string res" where
  "getRecipientFromEncodedReceiver encodedReceiver =
     (let cleanHex = strip_0x (receiver_text encodedReceiver) in
      if length cleanHex \<noteq> 64 then Inl (receiver_length_error cleanHex)
      else bind_res (BigInt_hex cleanHex) (\<lambda>encodedBigInt.
        let recipientBigInt = encodedBigInt AND recipientMask in
        Inr (''0x'' @ padStart 40 (CHR ''0'') (show_base 16 (nat recipientBigInt)))))"

subsection \<open>Lemmas\<close>

lemma recipientMask_mask: "recipientMask = mask 240"
  by (simp add: recipientMask_def mask_eq_exp_minus_1)

text \<open>The two parts of a 32-byte value.\<close>

lemma split_32_bytes:
  assumes "length bs = 32"
  shows "drop_bit 240 (int (be_nat bs)) = int (be_nat (take 2 bs))"
    and "int (be_nat bs) AND recipientMask = int (be_nat (drop 2 bs))"
proof -
  have l: "length (drop 2 bs) = 30" using assms by simp
  have b: "be_nat bs = be_nat (take 2 bs) * 256 ^ 30 + be_nat (drop 2 bs)"
    using be_nat_append[of "take 2 bs" "drop 2 bs"] l by simp
  have lt: "be_nat (drop 2 bs) < 256 ^ 30" using be_nat_lt[of "drop 2 bs"] l by simp
  have p: "(2 :: nat) ^ 240 = 256 ^ 30" by simp
  have "be_nat bs div 2 ^ 240 = be_nat (take 2 bs)" "be_nat bs mod 2 ^ 240 = be_nat (drop 2 bs)"
    unfolding p b using lt by simp_all
  then show "drop_bit 240 (int (be_nat bs)) = int (be_nat (take 2 bs))"
    and "int (be_nat bs) AND recipientMask = int (be_nat (drop 2 bs))"
    by (metis drop_bit_eq_div drop_bit_of_nat, metis recipientMask_mask take_bit_eq_mask take_bit_eq_mod take_bit_of_nat)
qed

definition receiver_recipient :: "byte list \<Rightarrow> string" where
  "receiver_recipient bs = ''0x'' @ padStart 40 (CHR ''0'') (show_base 16 (be_nat (drop 2 bs)))"

lemma decode_bytes:
  assumes "length bs = 32"
  shows "decodeDestinationReceiver (HexReceiver (Hex bs)) =
     Inr (int (be_nat (take 2 bs)), receiver_recipient bs)"
proof -
  have "bs \<noteq> []" using assms by auto
  then show ?thesis
    using split_32_bytes[OF assms] assms
    by (simp add: decodeDestinationReceiver_def toPrefixedString_Hex receiver_recipient_def Let_def strip_0x_def)
qed

lemma receiver_recipient_20:
  assumes "length bs = 32" "take 10 (drop 2 bs) = replicate 10 0"
  shows "receiver_recipient bs = ''0x'' @ bytes_to_hex (drop 12 bs)"
proof -
  have "drop 2 bs = take 10 (drop 2 bs) @ drop 12 bs"
    using append_take_drop_id[of 10 "drop 2 bs"] by simp
  then have e: "be_nat (drop 2 bs) = be_nat (drop 12 bs)"
    using assms(2) be_nat_append[of "replicate 10 0" "drop 12 bs"] by simp
  have l: "length (drop 12 bs) = 20" using assms by simp
  have "be_nat (drop 12 bs) < 256 ^ 20" using be_nat_lt[of "drop 12 bs"] l by simp
  then show ?thesis
    using padStart_show_hex[of 20 "be_nat (drop 12 bs)"] be_bytes_be_nat[of "drop 12 bs"] l e
    by (simp add: receiver_recipient_def)
qed

lemma receiver_recipient_long:
  assumes "length bs = 32" "take 10 (drop 2 bs) \<noteq> replicate 10 0"
  shows "42 < length (receiver_recipient bs)"
proof -
  let ?m = "take 10 (drop 2 bs)"
  have d: "drop 2 bs = ?m @ drop 12 bs"
    using append_take_drop_id[of 10 "drop 2 bs"] by simp
  have l: "length (drop 12 bs) = 20" "length ?m = 10" using assms by simp_all
  have "be_nat ?m \<noteq> 0"
    using be_nat_inj[of ?m "replicate 10 0"] assms(2) l(2) by auto
  moreover have "be_nat (drop 2 bs) = be_nat ?m * 256 ^ 20 + be_nat (drop 12 bs)"
    using be_nat_append[of ?m "drop 12 bs"] d l by simp
  ultimately have "256 ^ 20 \<le> be_nat (drop 2 bs)" by (cases "be_nat ?m") simp_all
  then have "16 ^ 40 \<le> be_nat (drop 2 bs)" by simp
  then have "40 < length (show_base 16 (be_nat (drop 2 bs)))" by (intro length_show_base_ge) simp_all
  then show ?thesis by (simp add: receiver_recipient_def)
qed

lemma push_bit_and_take_bit: "push_bit n a AND take_bit n b = (0 :: int)"
  by (rule bit_eqI) (auto simp: bit_simps)

lemma receiver_number:
  assumes "0 \<le> chainId" "chainId \<le> 65535" "length r = 20"
  shows "nat (push_bit 240 chainId OR int (be_nat r)) = be_nat (be_bytes 2 (nat chainId) @ replicate 10 0 @ r)"
proof -
  have r: "be_nat r < 256 ^ 20" using assms be_nat_lt[of r] by auto
  have c: "nat chainId < 256 ^ 2" using assms by simp
  have "push_bit 240 chainId OR int (be_nat r) = push_bit 240 chainId + int (be_nat r)"
  proof (rule disjunctive_add_eq_or[symmetric])
    have "be_nat r < 2 ^ 240" by (rule less_le_trans[OF r]) simp
    then have r': "int (be_nat r) = take_bit 240 (int (be_nat r))" by (simp add: take_bit_int_eq_self)
    show "push_bit 240 chainId AND int (be_nat r) = 0"
      by (subst r') (rule push_bit_and_take_bit)
  qed
  then show ?thesis
    using assms c by (simp add: be_nat_append be_nat_be_bytes push_bit_eq_mult nat_add_distrib nat_mult_distrib)
qed

lemma encode_bytes:
  assumes "0 \<le> chainId" "chainId \<le> 65535" "length r = 20"
  shows "encodeDestinationReceiver chainId (''0x'' @ bytes_to_hex r) =
     Inr (Hex (be_bytes 2 (nat chainId) @ replicate 10 0 @ r))"
proof -
  let ?bs = "be_bytes 2 (nat chainId) @ replicate 10 0 @ r"
  have r: "r \<noteq> []" using assms by auto
  have "be_nat ?bs < 256 ^ 32" using be_nat_lt[of ?bs] assms by simp
  then have "padStart 64 (CHR ''0'') (show_base 16 (be_nat ?bs)) = bytes_to_hex ?bs"
    using padStart_show_hex[of 32 "be_nat ?bs"] be_bytes_be_nat[of ?bs] assms by simp
  then show ?thesis
    using assms r receiver_number[OF assms]
    by (simp add: encodeDestinationReceiver_def evm_address_pattern_def strip_0x_def del: bytes_to_hex_simps(3))
qed

lemma getters_decode:
  "getChainIdFromEncodedReceiver x = bind_res (decodeDestinationReceiver x) (\<lambda>p. Inr (fst p))"
  "getRecipientFromEncodedReceiver x = bind_res (decodeDestinationReceiver x) (\<lambda>p. Inr (snd p))"
proof -
  have b: "bind_res (bind_res m f) g = bind_res m (\<lambda>x. bind_res (f x) g)" for m :: "int res" and f :: "int \<Rightarrow> (int \<times> string) res"
    and g :: "int \<times> string \<Rightarrow> 'b res"
    by (cases m) simp_all
  show "getChainIdFromEncodedReceiver x = bind_res (decodeDestinationReceiver x) (\<lambda>p. Inr (fst p))"
    "getRecipientFromEncodedReceiver x = bind_res (decodeDestinationReceiver x) (\<lambda>p. Inr (snd p))"
    by (simp_all add: getChainIdFromEncodedReceiver_def getRecipientFromEncodedReceiver_def
        decodeDestinationReceiver_def Let_def b)
qed

lemma isValid_bytes: "isValidEncodedReceiver (HexReceiver (Hex bs)) = (length bs = 32)"
proof (cases "bs = []")
  case False
  then show ?thesis
    using decode_bytes[of bs] bytes_to_hex_digits[of bs]
    by (simp add: isValidEncodedReceiver_def toPrefixedString_Hex strip_0x_def Let_def)
qed (simp add: isValidEncodedReceiver_def toPrefixedString_def Let_def strip_0x_def)

subsection \<open>Properties\<close>

text \<open>An encoded receiver decodes to the chain and the recipient it was made from, the
  recipient in lower case, whichever of the decoding functions is used.\<close>

theorem receiver_roundtrip:
  assumes "0 \<le> chainId" "chainId \<le> 65535" "evm_address_pattern recipient"
  shows "\<exists>h. encodeDestinationReceiver chainId recipient = Inr h \<and>
     decodeDestinationReceiver (HexReceiver h) = Inr (chainId, toLowerCase recipient) \<and>
     getChainIdFromEncodedReceiver (HexReceiver h) = Inr chainId \<and>
     getRecipientFromEncodedReceiver (HexReceiver h) = Inr (toLowerCase recipient) \<and>
     isValidEncodedReceiver (HexReceiver h)"
proof -
  let ?s = "drop 2 recipient"
  have s: "recipient = ''0x'' @ ?s" "length ?s = 40" "list_all is_hex_digit ?s"
    using assms(3) append_take_drop_id[of 2 recipient] by (auto simp: evm_address_pattern_def)
  define r where "r = hex_to_bytes ?s"
  have "even (length ?s)" using s(2) by presburger
  then have r: "length r = 20" "bytes_to_hex r = toLowerCase ?s"
    using length_hex_to_bytes[of ?s] bytes_to_hex_to_bytes[of ?s] s by (auto simp: r_def)
  have x: "toLowerCase ''0x'' = ''0x''" by (simp add: toLowerCase_def lower_char_def)
  have low: "toLowerCase recipient = ''0x'' @ bytes_to_hex r"
    using s(1) r(2) x by (metis toLowerCase_append)
  let ?bs = "be_bytes 2 (nat chainId) @ replicate 10 0 @ r"
  have pat: "evm_address_pattern (''0x'' @ bytes_to_hex r)"
    using r(1) by (simp add: evm_address_pattern_def)
  have hn: "hex_num ?s = be_nat r" using s by (simp add: r_def hex_num_hex_bytes)
  have same: "encodeDestinationReceiver chainId recipient = encodeDestinationReceiver chainId (''0x'' @ bytes_to_hex r)"
    using assms(1,2,3) pat s hn r(1)
    by (auto simp: encodeDestinationReceiver_def BigInt_hex_def strip_0x_def evm_address_pattern_def Let_def
        bytes_to_hex_digits)
  have e: "encodeDestinationReceiver chainId recipient = Inr (Hex ?bs)"
    unfolding same by (rule encode_bytes[OF assms(1,2) r(1)])
  have l: "length ?bs = 32" using r(1) by simp
  have d: "decodeDestinationReceiver (HexReceiver (Hex ?bs)) = Inr (chainId, toLowerCase recipient)"
    using decode_bytes[OF l] receiver_recipient_20[OF l] assms(1,2) r(1)
    by (simp add: be_nat_be_bytes low del: be_bytes.simps)
  show ?thesis
    using e d l by (intro exI[of _ "Hex ?bs"]) (simp add: getters_decode isValid_bytes del: be_bytes.simps)
qed

theorem receiver_roundtrip_witness:
  "\<exists>h. encodeDestinationReceiver 40 ''0x12345678901234567890123456789012345678Ab'' = Inr h \<and>
     decodeDestinationReceiver (HexReceiver h) = Inr (40, ''0x12345678901234567890123456789012345678ab'')"
proof -
  have p: "evm_address_pattern ''0x12345678901234567890123456789012345678Ab''"
    "toLowerCase ''0x12345678901234567890123456789012345678Ab'' = ''0x12345678901234567890123456789012345678ab''"
    by code_simp+
  show ?thesis using receiver_roundtrip[OF _ _ p(1), of 40] p(2) by auto
qed

text \<open>every 32-byte value counts as a valid encoded receiver, but what it decodes to can be
  encoded again only when the ten bytes between chain and recipient are zero: otherwise the
  decoded recipient has more than twenty bytes.\<close>

theorem receiver_reencode_iff:
  assumes "length bs = 32"
  shows "isValidEncodedReceiver (HexReceiver (Hex bs)) \<and>
     (is_ok (bind_res (decodeDestinationReceiver (HexReceiver (Hex bs))) (\<lambda>(c, r). encodeDestinationReceiver c r))
       = (take 10 (drop 2 bs) = replicate 10 0))"
proof -
  have c: "int (be_nat (take 2 bs)) \<le> 65535"
    using be_nat_lt[of "take 2 bs"] assms by simp
  show ?thesis
  proof (cases "take 10 (drop 2 bs) = replicate 10 0")
    case True
    have "length (drop 12 bs) = 20" using assms by simp
    then show ?thesis
      using True c encode_bytes[of "int (be_nat (take 2 bs))" "drop 12 bs"] assms
      by (simp add: isValid_bytes decode_bytes receiver_recipient_20)
  next
    case False
    have "\<not> evm_address_pattern (receiver_recipient bs)"
      using receiver_recipient_long[OF assms False] by (auto simp: evm_address_pattern_def)
    then show ?thesis
      using False c assms by (simp add: isValid_bytes decode_bytes encodeDestinationReceiver_def)
  qed
qed

theorem receiver_reencode_iff_witness:
  "isValidEncodedReceiver (HexReceiver (Hex (replicate 32 1))) \<and>
   \<not> is_ok (bind_res (decodeDestinationReceiver (HexReceiver (Hex (replicate 32 1))))
       (\<lambda>(c, r). encodeDestinationReceiver c r))"
proof -
  have "take 10 (drop 2 (replicate 32 (1 :: byte))) \<noteq> replicate 10 0"
    by (simp add: replicate_eq_replicate)
  then show ?thesis using receiver_reencode_iff[of "replicate 32 1"] by simp
qed

end
