(* ===== verification/ChainAddresses.thy ===== *)
theory ChainAddresses
  imports Ntt
begin

section \<open>Identifiers of the supported chains and deposit owners as extra data\<close>

text \<open>
  The address classes (\<open>ethereum/address.ts\<close>, \<open>sei/address.ts\<close>, \<open>starknet/address.ts\<close>,
  \<open>sui/chain-identifier.ts\<close>, \<open>solana/address.ts\<close> under typescript/src/lib) and the encoders
  that put a deposit owner into 32 bytes of extra data and read it back. The contract of an
  encoder is a locale; every encoder of the code that can read its own data is an
  interpretation of it. The Solana encoder is shown not to be one.
\<close>

subsection \<open>Identifiers\<close>

text \<open>The classes have private constructors: a value of a class exists only if its \<open>from\<close>
  function made it. Each carries \<open>identifierHex\<close>.\<close>

datatype ChainIdentifier =
    EthereumAddress (identifierHex: string)
  | SeiAddress (identifierHex: string)
  | StarkNetAddress (identifierHex: string)
  | SuiAddress (identifierHex: string)
  | SolanaAddress (identifierHex: string)

text \<open>\<open>utils.getAddress\<close> of ethers, a parameter: it takes an address with or without prefix and
  returns it checksummed, or throws.\<close>

definition EthereumAddress_from :: "(string \<Rightarrow> string res) \<Rightarrow> string \<Rightarrow> ChainIdentifier res" where
  "EthereumAddress_from getAddress address =
     (case getAddress address of
        Inl _ \<Rightarrow> Inl (Error ''Invalid Ethereum address'')
      | Inr validAddress \<Rightarrow> Inr (EthereumAddress (toLowerCase (drop 2 validAddress))))"

definition SeiAddress_from :: "string \<Rightarrow> ChainIdentifier res" where
  "SeiAddress_from address =
     (let normalized = (if take 2 address = ''0x'' then address else ''0x'' @ address) in
      if \<not> evm_address_pattern normalized
      then Inl (Error (''Invalid Sei address format: '' @ address @ ''. Expected 0x followed by 40 hex characters.''))
      else Inr (SeiAddress (toLowerCase (drop 2 normalized))))"

definition lower_hex_digit :: "char \<Rightarrow> bool" where
  "lower_hex_digit c = (c \<in> set hex_digits)"

definition StarkNetAddress_from :: "string \<Rightarrow> ChainIdentifier res" where
  "StarkNetAddress_from address =
     (let normalized = strip_0x (toLowerCase address) in
      if \<not> (normalized \<noteq> [] \<and> list_all lower_hex_digit normalized)
      then Inl (Error (''Invalid StarkNet address format: '' @ address))
      else if length normalized > 64
      then Inl (Error (''StarkNet address exceeds maximum field element size: '' @ address))
      else Inr (StarkNetAddress (padStart 64 (CHR ''0'') normalized)))"

definition SuiAddress_from :: "string \<Rightarrow> ChainIdentifier res" where
  "SuiAddress_from address =
     (if \<not> (take 2 address = ''0x'' \<and> length address = 66 \<and> list_all is_hex_digit (drop 2 address))
      then Inl (Error ''Invalid SUI address format'')
      else Inr (SuiAddress (drop 2 (toLowerCase address))))"

text \<open>\<open>new PublicKey(address).toBuffer()\<close> of the Solana library, a parameter.\<close>

definition SolanaAddress_from :: "(string \<Rightarrow> byte list res) \<Rightarrow> string \<Rightarrow> ChainIdentifier res" where
  "SolanaAddress_from publicKey address =
     (case publicKey address of
        Inl _ \<Rightarrow> Inl (Error (''Invalid Solana address: '' @ address))
      | Inr buffer \<Rightarrow> Inr (SolanaAddress (toLowerCase (bytes_to_hex buffer))))"

text \<open>The \<open>equals\<close> methods: Sei and StarkNet compare the class too, the others only the text.\<close>

fun chain_equals :: "ChainIdentifier \<Rightarrow> ChainIdentifier \<Rightarrow> bool" where
  "chain_equals (SeiAddress a) (SeiAddress b) = (a = b)"
| "chain_equals (SeiAddress a) _ = False"
| "chain_equals (StarkNetAddress a) (StarkNetAddress b) = (a = b)"
| "chain_equals (StarkNetAddress a) _ = False"
| "chain_equals this other = (identifierHex this = identifierHex other)"

definition toBytes32 :: "ChainIdentifier \<Rightarrow> string" where
  "toBytes32 a = ''0x'' @ identifierHex a"

subsection \<open>Encoders\<close>

fun Sei_encodeDepositOwner :: "ChainIdentifier \<Rightarrow> Hex res" where
  "Sei_encodeDepositOwner (SeiAddress addressHex) =
     Hex_from_string (''0x'' @ padStart 64 (CHR ''0'') addressHex)"
| "Sei_encodeDepositOwner _ = Inl (Error ''Deposit owner must be a Sei address'')"

definition Sei_decodeDepositOwner :: "Hex \<Rightarrow> ChainIdentifier res" where
  "Sei_decodeDepositOwner extraData =
     (let cleanHex = strip_0x (toString extraData) in
      if length cleanHex \<noteq> 64
      then Inl (Error (''Invalid extra data length: '' @ show_nat (length cleanHex) @
             ''. Expected 64 hex characters (32 bytes).''))
      else SeiAddress_from (''0x'' @ drop 24 cleanHex))"

fun StarkNet_encodeDepositOwner :: "ChainIdentifier \<Rightarrow> Hex res" where
  "StarkNet_encodeDepositOwner (StarkNetAddress a) = Hex_from_string (strip_0x (toBytes32 (StarkNetAddress a)))"
| "StarkNet_encodeDepositOwner _ = Inl (Error ''Deposit owner must be a StarkNet address'')"

definition half_text :: "nat \<Rightarrow> string" where
  "half_text n = show_nat (n div 2) @ (if odd n then ''.5'' else [])"

definition StarkNet_decodeDepositOwner :: "Hex \<Rightarrow> ChainIdentifier res" where
  "StarkNet_decodeDepositOwner extraData =
     (let hexString = strip_0x (toString extraData) in
      if length hexString \<noteq> 2 * 32
      then Inl (Error (''Invalid extra data length for StarkNet. Expected 32 bytes but got '' @ half_text (length hexString)))
      else StarkNetAddress_from (toString extraData))"

definition Sui_encodeDepositOwner :: "ChainIdentifier \<Rightarrow> Hex res" where
  "Sui_encodeDepositOwner depositOwner = Hex_from_string (''0x'' @ identifierHex depositOwner)"

definition Sui_decodeDepositOwner :: "Hex \<Rightarrow> ChainIdentifier res" where
  "Sui_decodeDepositOwner extraData =
     (let addressHex = toString extraData in
      SuiAddress_from (if take 2 addressHex \<noteq> ''0x'' then ''0x'' @ addressHex else addressHex))"

fun Solana_encodeDepositOwner :: "ChainIdentifier \<Rightarrow> Hex res" where
  "Solana_encodeDepositOwner (SolanaAddress a) =
     bind_res (Hex_from_string a) (\<lambda>h. Inr (Hex_from_buffer (toBuffer h)))"
| "Solana_encodeDepositOwner _ = Inl (Error ''Deposit owner must be a Solana address'')"

definition Solana_decodeDepositOwner :: "(string \<Rightarrow> byte list res) \<Rightarrow> Hex \<Rightarrow> ChainIdentifier res" where
  "Solana_decodeDepositOwner publicKey extraData =
     (let buffer = toBuffer extraData in
      if length buffer \<noteq> 32
      then Inl (Error (''Extra data must be 32 bytes. Got '' @ show_nat (length buffer) @ ''.''))
      else SolanaAddress_from publicKey (toString (Hex_from_buffer buffer)))"

text \<open>The encoder of the Ethereum depositor, and that of Arbitrum and Base, which are the same
  code.\<close>

definition Ethereum_encodeDepositOwner :: "(string \<Rightarrow> string res) \<Rightarrow> ChainIdentifier \<Rightarrow> Hex res" where
  "Ethereum_encodeDepositOwner getAddress depositOwner =
     bind_res (EthereumAddress_from getAddress (identifierHex depositOwner)) (\<lambda>address.
     Hex_from_string (''000000000000000000000000'' @ identifierHex address))"

definition Ethereum_decodeDepositOwner :: "(string \<Rightarrow> string res) \<Rightarrow> Hex \<Rightarrow> ChainIdentifier res" where
  "Ethereum_decodeDepositOwner getAddress extraData =
     EthereumAddress_from getAddress (toString (Hex_from_buffer (drop 12 (toBuffer extraData))))"

definition Arbitrum_encodeDepositOwner :: "(string \<Rightarrow> string res) \<Rightarrow> ChainIdentifier \<Rightarrow> Hex res" where
  "Arbitrum_encodeDepositOwner getAddress depositOwner =
     bind_res (EthereumAddress_from getAddress (identifierHex depositOwner)) (\<lambda>address.
     Hex_from_string (''000000000000000000000000'' @ identifierHex address))"

definition Arbitrum_decodeDepositOwner :: "(string \<Rightarrow> string res) \<Rightarrow> Hex \<Rightarrow> ChainIdentifier res" where
  "Arbitrum_decodeDepositOwner getAddress extraData =
     EthereumAddress_from getAddress (toString (Hex_from_buffer (drop 12 (toBuffer extraData))))"

subsection \<open>The contract of an encoder\<close>

locale deposit_owner_encoder =
  fixes encode :: "ChainIdentifier \<Rightarrow> Hex res"
    and decode :: "Hex \<Rightarrow> ChainIdentifier res"
    and owner :: "ChainIdentifier \<Rightarrow> bool"
  assumes encode_decode: "owner x \<Longrightarrow> \<exists>h. encode x = Inr h \<and> length (hex_buf h) = 32 \<and> decode h = Inr x"
    and decode_owner: "decode h = Inr x \<Longrightarrow> owner x"
begin

lemma encode_inj: "owner x \<Longrightarrow> owner y \<Longrightarrow> encode x = encode y \<Longrightarrow> x = y"
  using encode_decode by (metis sum.inject(2))

lemma encoded_32_bytes: "owner x \<Longrightarrow> \<exists>h. encode x = Inr h \<and> length (toString h) = 64"
  using encode_decode by (metis length_toString mult_2 numeral_Bit0)

lemma decoded_reencodes: "decode h = Inr x \<Longrightarrow> \<exists>h'. encode x = Inr h' \<and> decode h' = Inr x"
  using encode_decode decode_owner by blast

end

text \<open>Lower-case texts of a number of bytes.\<close>

definition hex_text :: "nat \<Rightarrow> string \<Rightarrow> bool" where
  "hex_text n s = (\<exists>bs. length bs = n \<and> s = bytes_to_hex bs)"

lemma hex_text_lower:
  assumes "list_all is_hex_digit s" "length s = 2 * n"
  shows "hex_text n (toLowerCase s)"
proof -
  have "even (length s)" using assms by simp
  then show ?thesis
    using assms bytes_to_hex_to_bytes[of s] length_hex_to_bytes[of s]
    by (auto simp: hex_text_def intro!: exI[of _ "hex_to_bytes s"])
qed

lemma lower_hex_is_hex: "lower_hex_digit c \<Longrightarrow> is_hex_digit c \<and> lower_char c = c"
  by (auto simp: lower_hex_digit_def hex_digits_def is_hex_digit_def hex_val_def upt_rec lower_char_def)

lemma lower_hex_list: "list_all lower_hex_digit s \<Longrightarrow> list_all is_hex_digit s \<and> toLowerCase s = s"
  by (induction s) (auto simp: toLowerCase_def lower_hex_is_hex)

lemma hex_digit_lower_hex: "n < 16 \<Longrightarrow> lower_hex_digit (hex_digit n)"
  by (simp add: lower_hex_digit_def hex_digit_def) (simp add: hex_digits_def nth_mem del: set_simps)

lemma bytes_to_hex_lower: "list_all lower_hex_digit (bytes_to_hex bs)"
  by (induction bs) (simp_all add: byte_hex_def hex_digit_lower_hex)

lemma lower_0x: "toLowerCase (CHR ''0'' # CHR ''x'' # s) = CHR ''0'' # CHR ''x'' # toLowerCase s"
  by (simp add: toLowerCase_def lower_char_def)

lemma padStart_bytes_to_hex:
  assumes "length bs \<le> n"
  shows "padStart (2 * n) (CHR ''0'') (bytes_to_hex bs) = bytes_to_hex (replicate (n - length bs) 0 @ bs)"
proof -
  have "replicate (2 * k) (CHR ''0'') = bytes_to_hex (replicate k 0)" for k
    by (induction k) (simp_all add: byte_hex_def hex_digit_def hex_digits_def)
  from this[of "n - length bs"] show ?thesis by (simp add: padStart_def right_diff_distrib')
qed

definition sei_owner :: "ChainIdentifier \<Rightarrow> bool" where
  "sei_owner x = (\<exists>s. x = SeiAddress s \<and> hex_text 20 s)"

definition starknet_owner :: "ChainIdentifier \<Rightarrow> bool" where
  "starknet_owner x = (\<exists>s. x = StarkNetAddress s \<and> hex_text 32 s)"

definition sui_owner :: "ChainIdentifier \<Rightarrow> bool" where
  "sui_owner x = (\<exists>s. x = SuiAddress s \<and> hex_text 32 s)"

definition ethereum_owner :: "ChainIdentifier \<Rightarrow> bool" where
  "ethereum_owner x = (\<exists>s. x = EthereumAddress s \<and> hex_text 20 s)"

lemma SeiAddress_from_bytes:
  "length bs = 20 \<Longrightarrow> SeiAddress_from (CHR ''0'' # CHR ''x'' # bytes_to_hex bs) = Inr (SeiAddress (bytes_to_hex bs))"
  by (simp add: SeiAddress_from_def evm_address_pattern_def)

lemma SeiAddress_from_owner: "SeiAddress_from s = Inr x \<Longrightarrow> sei_owner x"
  using hex_text_lower[of "drop 2 (if take 2 s = ''0x'' then s else ''0x'' @ s)" 20]
  by (auto simp: SeiAddress_from_def evm_address_pattern_def sei_owner_def Let_def split: if_splits)

interpretation sei: deposit_owner_encoder Sei_encodeDepositOwner Sei_decodeDepositOwner sei_owner
proof unfold_locales
  fix x
  assume "sei_owner x"
  then obtain bs where bs: "length bs = 20" "x = SeiAddress (bytes_to_hex bs)"
    by (auto simp: sei_owner_def hex_text_def)
  have "Sei_encodeDepositOwner x = Inr (Hex (replicate 12 0 @ bs))"
    using bs padStart_bytes_to_hex[of bs 32] by simp
  moreover have "drop 24 (bytes_to_hex (replicate 12 0 @ bs)) = bytes_to_hex bs"
    using drop_bytes_to_hex[of 12 "replicate 12 0 @ bs"] by simp
  then have "Sei_decodeDepositOwner (Hex (replicate 12 0 @ bs)) = Inr x"
    using bs strip_bytes_to_hex(2)[of "replicate 12 0 @ bs"]
    by (simp add: Sei_decodeDepositOwner_def Let_def SeiAddress_from_bytes)
  ultimately show "\<exists>h. Sei_encodeDepositOwner x = Inr h \<and> length (hex_buf h) = 32 \<and> Sei_decodeDepositOwner h = Inr x"
    using bs by auto
qed (auto simp: Sei_decodeDepositOwner_def Let_def split: if_splits dest: SeiAddress_from_owner)

lemma StarkNetAddress_from_bytes:
  "length bs = 32 \<Longrightarrow> StarkNetAddress_from (bytes_to_hex bs) = Inr (StarkNetAddress (bytes_to_hex bs))"
  using bytes_to_hex_lower[of bs] by (auto simp: StarkNetAddress_from_def Let_def)

lemma StarkNetAddress_from_owner:
  assumes "StarkNetAddress_from s = Inr x"
  shows "starknet_owner x"
proof -
  let ?n = "strip_0x (toLowerCase s)"
  have n: "list_all lower_hex_digit ?n" "length ?n \<le> 64" and x: "x = StarkNetAddress (padStart 64 (CHR ''0'') ?n)"
    using assms by (auto simp: StarkNetAddress_from_def Let_def split: if_splits)
  let ?p = "padStart 64 (CHR ''0'') ?n"
  have "lower_hex_digit (CHR ''0'')" by (simp add: lower_hex_digit_def hex_digits_def)
  then have "list_all lower_hex_digit ?p" using n(1) by (auto simp add: padStart_def list_all_iff)
  then have d: "list_all is_hex_digit ?p" and l: "toLowerCase ?p = ?p"
    by (simp_all add: lower_hex_list)
  have "length ?p = 2 * 32" using n(2) by (simp add: length_padStart)
  then show ?thesis using hex_text_lower[OF d] l x by (auto simp: starknet_owner_def)
qed

interpretation starknet: deposit_owner_encoder StarkNet_encodeDepositOwner StarkNet_decodeDepositOwner starknet_owner
proof unfold_locales
  fix x
  assume "starknet_owner x"
  then obtain bs where bs: "length bs = 32" "x = StarkNetAddress (bytes_to_hex bs)"
    by (auto simp: starknet_owner_def hex_text_def)
  have "StarkNet_encodeDepositOwner x = Inr (Hex bs)"
    using bs by (simp add: toBytes32_def strip_0x_def)
  moreover have "StarkNet_decodeDepositOwner (Hex bs) = Inr x"
    using bs by (simp add: StarkNet_decodeDepositOwner_def Let_def StarkNetAddress_from_bytes)
  ultimately show "\<exists>h. StarkNet_encodeDepositOwner x = Inr h \<and> length (hex_buf h) = 32 \<and> StarkNet_decodeDepositOwner h = Inr x"
    using bs by auto
qed (auto simp: StarkNet_decodeDepositOwner_def Let_def split: if_splits dest: StarkNetAddress_from_owner)

lemma SuiAddress_from_owner:
  assumes "SuiAddress_from s = Inr x"
  shows "sui_owner x"
proof -
  have "list_all is_hex_digit (drop 2 s)" "length (drop 2 s) = 2 * 32" and x: "x = SuiAddress (toLowerCase (drop 2 s))"
    using assms by (auto simp: SuiAddress_from_def toLowerCase_def drop_map split: if_splits)
  then show ?thesis using hex_text_lower[of "drop 2 s" 32] by (auto simp: sui_owner_def)
qed

interpretation sui: deposit_owner_encoder Sui_encodeDepositOwner Sui_decodeDepositOwner sui_owner
proof unfold_locales
  fix x
  assume "sui_owner x"
  then obtain bs where bs: "length bs = 32" "x = SuiAddress (bytes_to_hex bs)"
    by (auto simp: sui_owner_def hex_text_def)
  have no: "take 2 (bytes_to_hex bs) \<noteq> ''0x''"
  proof
    assume "take 2 (bytes_to_hex bs) = ''0x''"
    then have "drop 2 (bytes_to_hex bs) = bytes_to_hex bs" using strip_bytes_to_hex(2)[of bs] by (simp add: strip_0x_def)
    from arg_cong[OF this, of length] show False using bs(1) by simp
  qed
  show "\<exists>h. Sui_encodeDepositOwner x = Inr h \<and> length (hex_buf h) = 32 \<and> Sui_decodeDepositOwner h = Inr x"
    using bs no by (intro exI[of _ "Hex bs"])
      (simp add: Sui_encodeDepositOwner_def Sui_decodeDepositOwner_def SuiAddress_from_def lower_0x)
qed (auto simp: Sui_decodeDepositOwner_def Let_def dest: SuiAddress_from_owner)

text \<open>What \<open>utils.getAddress\<close> documents: it accepts a lower-case address without prefix and returns
  the same address, checksummed; whatever it returns is an address.\<close>

definition getAddress_ok :: "(string \<Rightarrow> string res) \<Rightarrow> bool" where
  "getAddress_ok ga =
     ((\<forall>bs. length bs = 20 \<longrightarrow> (\<exists>r. ga (bytes_to_hex bs) = Inr (''0x'' @ r) \<and> toLowerCase r = bytes_to_hex bs)) \<and>
      (\<forall>s y. ga s = Inr y \<longrightarrow> (\<exists>bs. length bs = 20 \<and> toLowerCase (drop 2 y) = bytes_to_hex bs)))"

definition sample_getAddress :: "string \<Rightarrow> string res" where
  "sample_getAddress s = (let d = strip_0x s in
     if length d = 40 \<and> list_all is_hex_digit d then Inr (''0x'' @ toLowerCase d) else Inl (Error ''invalid address''))"

lemma toLowerCase_hex_text: "hex_text n s \<Longrightarrow> toLowerCase s = s"
  by (auto simp: hex_text_def)

lemma getAddress_ok_sample: "getAddress_ok sample_getAddress"
  unfolding getAddress_ok_def
proof (intro conjI allI impI)
  fix bs :: "byte list"
  assume "length bs = 20"
  then show "\<exists>r. sample_getAddress (bytes_to_hex bs) = Inr (''0x'' @ r) \<and> toLowerCase r = bytes_to_hex bs"
    by (simp add: sample_getAddress_def)
next
  fix s y
  assume "sample_getAddress s = Inr y"
  then have d: "length (strip_0x s) = 2 * 20" "list_all is_hex_digit (strip_0x s)" "drop 2 y = toLowerCase (strip_0x s)"
    by (auto simp: sample_getAddress_def Let_def split: if_splits)
  then have "hex_text 20 (drop 2 y)" using hex_text_lower by simp
  then show "\<exists>bs. length bs = 20 \<and> toLowerCase (drop 2 y) = bytes_to_hex bs"
    by (auto simp: toLowerCase_hex_text) (auto simp: hex_text_def)
qed

lemma EthereumAddress_from_bytes:
  "getAddress_ok ga \<Longrightarrow> length bs = 20 \<Longrightarrow> EthereumAddress_from ga (bytes_to_hex bs) = Inr (EthereumAddress (bytes_to_hex bs))"
  by (force simp: getAddress_ok_def EthereumAddress_from_def)

lemma EthereumAddress_from_owner: "getAddress_ok ga \<Longrightarrow> EthereumAddress_from ga s = Inr x \<Longrightarrow> ethereum_owner x"
  by (auto simp: getAddress_ok_def EthereumAddress_from_def ethereum_owner_def hex_text_def split: sum.splits)

text \<open>The Ethereum encoder meets the contract for every address library that does what it
  documents.\<close>

lemma ethereum_encoder:
  assumes "getAddress_ok ga"
  shows "deposit_owner_encoder (Ethereum_encodeDepositOwner ga) (Ethereum_decodeDepositOwner ga) ethereum_owner"
proof unfold_locales
  fix x
  assume "ethereum_owner x"
  then obtain bs where bs: "length bs = 20" "x = EthereumAddress (bytes_to_hex bs)"
    by (auto simp: ethereum_owner_def hex_text_def)
  have z: "''000000000000000000000000'' = bytes_to_hex (replicate 12 0)"
    by code_simp
  have "Ethereum_encodeDepositOwner ga x = Inr (Hex (replicate 12 0 @ bs))"
    unfolding Ethereum_encodeDepositOwner_def z using bs EthereumAddress_from_bytes[OF assms bs(1)] by simp
  moreover have "Ethereum_decodeDepositOwner ga (Hex (replicate 12 0 @ bs)) = Inr x"
    using bs EthereumAddress_from_bytes[OF assms bs(1)] by (simp add: Ethereum_decodeDepositOwner_def)
  ultimately show "\<exists>h. Ethereum_encodeDepositOwner ga x = Inr h \<and> length (hex_buf h) = 32 \<and> Ethereum_decodeDepositOwner ga h = Inr x"
    using bs by auto
qed (auto simp: Ethereum_decodeDepositOwner_def dest: EthereumAddress_from_owner[OF assms])

lemma arbitrum_is_ethereum:
  "Arbitrum_encodeDepositOwner = Ethereum_encodeDepositOwner" "Arbitrum_decodeDepositOwner = Ethereum_decodeDepositOwner"
  by (intro ext, simp add: Arbitrum_encodeDepositOwner_def Ethereum_encodeDepositOwner_def)
    (intro ext, simp add: Arbitrum_decodeDepositOwner_def Ethereum_decodeDepositOwner_def)

subsection \<open>Solana\<close>

text \<open>The Solana encoder cannot read the extra data it writes: it hands the hexadecimal text of
  the bytes to a constructor that reads base58, where a 32-byte key never has more than 44
  characters, so decoding fails on every extra data.\<close>

theorem solana_decode_fails:
  assumes "\<forall>s b. publicKey s = Inr b \<longrightarrow> length s \<le> 44" "length k = 32"
  shows "Solana_encodeDepositOwner (SolanaAddress (bytes_to_hex k)) = Inr (Hex k) \<and>
     \<not> is_ok (Solana_decodeDepositOwner publicKey (Hex k)) \<and>
     \<not> is_ok (Solana_decodeDepositOwner publicKey h)"
proof -
  have "\<not> is_ok (Solana_decodeDepositOwner publicKey (Hex b))" for b
  proof (cases "length b = 32")
    case True
    then have "publicKey (bytes_to_hex b) \<noteq> Inr r" for r
      using assms(1)[rule_format, of "bytes_to_hex b" r] by auto
    then have "\<exists>e. publicKey (bytes_to_hex b) = Inl e" by (cases "publicKey (bytes_to_hex b)") auto
    then show ?thesis using True by (auto simp: Solana_decodeDepositOwner_def SolanaAddress_from_def)
  qed (simp add: Solana_decodeDepositOwner_def)
  from this[of k] this[of "hex_buf h"] show ?thesis
    by (simp add: Hex_from_buffer_def toBuffer_def)
qed

theorem solana_decode_fails_witness:
  "\<not> is_ok (Solana_decodeDepositOwner
      (\<lambda>s. if length s \<le> 44 then Inr (replicate 32 0) else Inl (Error ''Invalid public key input'')) (Hex (replicate 32 5)))"
  using solana_decode_fails[of "\<lambda>s. if length s \<le> 44 then Inr (replicate 32 0) else Inl (Error ''Invalid public key input'')"
      "replicate 32 5" "Hex []"]
  by simp

end
