(* ===== verification/Bridge.thy ===== *)
theory Bridge
  imports Spv ChainAddresses
begin

section \<open>Contracts: data and interfaces (typescript/src/lib/contracts)\<close>

text \<open>
  The data the library exchanges with the tBTC contracts (\<open>bridge.ts\<close>, \<open>chain-event.ts\<close>)
  and the interfaces through which the services use them: the Bridge, the token, the vault, the
  wallet registry, depositor proxies and the cross-chain contracts. An interface is a record of operations; an
  implementation is a value of it.
\<close>

subsection \<open>Events\<close>

record ChainEvent =
  ev_blockNumber :: int
  ev_blockHash :: Hex
  ev_transactionHash :: Hex

record GetEventsOptions =
  fromBlock :: "int option"
  toBlock :: "int option"
  opt_retries :: "int option"
  batchedQueryBlockInterval :: "int option"

subsection \<open>Deposits\<close>

record DepositReceipt =
  dr_depositor :: ChainIdentifier
  dr_blindingFactor :: Hex
  dr_walletPublicKeyHash :: Hex
  dr_refundPublicKeyHash :: Hex
  dr_refundLocktime :: Hex
  dr_extraData :: "Hex option"

definition validateDepositReceipt :: "DepositReceipt \<Rightarrow> unit res" where
  "validateDepositReceipt receipt =
     (if length (toString (dr_blindingFactor receipt)) \<noteq> 16
      then Inl (Error ''Blinding factor must be an 8-byte number'')
      else if length (toString (dr_walletPublicKeyHash receipt)) \<noteq> 40
      then Inl (Error ''Invalid wallet public key hash'')
      else if length (toString (dr_refundPublicKeyHash receipt)) \<noteq> 40
      then Inl (Error ''Invalid refund public key hash'')
      else if length (toString (dr_refundLocktime receipt)) \<noteq> 8
      then Inl (Error ''Refund locktime must be a 4-byte number'')
      else (case dr_extraData receipt of
          None \<Rightarrow> Inr ()
        | Some extraData \<Rightarrow>
            if length (toString extraData) \<noteq> 64 then Inl (Error ''Extra data must be a 32-byte number'')
            else Inr ()))"

record DepositRequest =
  dq_depositor :: ChainIdentifier
  dq_amount :: int
  dq_vault :: "ChainIdentifier option"
  dq_revealedAt :: int
  dq_sweptAt :: int
  dq_treasuryFee :: int

record DepositRevealedEvent = ChainEvent +
  dre_receipt :: DepositReceipt
  dre_amount :: int
  dre_vault :: "ChainIdentifier option"
  fundingTxHash :: BitcoinTxHash
  fundingOutputIndex :: int

subsection \<open>Redemptions\<close>

record RedemptionRequest =
  rr_redeemer :: ChainIdentifier
  rr_redeemerOutputScript :: Hex
  rr_requestedAmount :: int
  rr_treasuryFee :: int
  rr_txMaxFee :: int
  rr_requestedAt :: int

record RedemptionRequestedEvent = ChainEvent +
  rre_redeemer :: ChainIdentifier
  rre_redeemerOutputScript :: Hex
  rre_requestedAmount :: int
  rre_treasuryFee :: int
  rre_txMaxFee :: int
  rre_walletPublicKeyHash :: Hex

subsection \<open>Wallets\<close>

datatype WalletState = WS_Unknown | WS_Live | WS_MovingFunds | WS_Closing | WS_Closed | WS_Terminated

fun WalletState_number :: "WalletState \<Rightarrow> int" where
  "WalletState_number WS_Unknown = 0"
| "WalletState_number WS_Live = 1"
| "WalletState_number WS_MovingFunds = 2"
| "WalletState_number WS_Closing = 3"
| "WalletState_number WS_Closed = 4"
| "WalletState_number WS_Terminated = 5"

text \<open>\<open>WalletState.parse\<close> searches the values of the enumeration object for the number and falls
  back to \<open>Unknown\<close>.\<close>

definition WalletState_parse :: "int \<Rightarrow> WalletState" where
  "WalletState_parse val =
     (case find (\<lambda>s. WalletState_number s = val)
             [WS_Unknown, WS_Live, WS_MovingFunds, WS_Closing, WS_Closed, WS_Terminated] of
        Some s \<Rightarrow> s | None \<Rightarrow> WS_Unknown)"

record Wallet =
  w_ecdsaWalletID :: Hex
  w_walletPublicKey :: "Hex option"
  w_mainUtxoHash :: Hex
  w_pendingRedemptionsValue :: int
  w_createdAt :: int
  w_movingFundsRequestedAt :: int
  w_closingStartedAt :: int
  w_pendingMovedFundsSweepRequestsCount :: int
  w_state :: WalletState
  w_movingFundsTargetWalletsCommitmentHash :: Hex

record NewWalletRegisteredEvent = ChainEvent +
  nw_ecdsaWalletID :: Hex
  nw_walletPublicKeyHash :: Hex

subsection \<open>Distributed key generation (wallet-registry.ts)\<close>

record DkgResult =
  dkg_submitterMemberIndex :: int
  dkg_groupPubKey :: Hex
  dkg_misbehavedMembersIndices :: "int list"
  dkg_signatures :: Hex
  dkg_signingMembersIndices :: "int list"
  dkg_members :: "int list"
  dkg_membersHash :: Hex

record DkgResultSubmittedEvent = ChainEvent +
  dkgs_resultHash :: Hex
  dkgs_seed :: Hex
  dkgs_result :: DkgResult

record DkgResultApprovedEvent = ChainEvent +
  dkga_resultHash :: Hex
  dkga_approver :: ChainIdentifier

record DkgResultChallengedEvent = ChainEvent +
  dkgc_resultHash :: Hex
  dkgc_challenger :: ChainIdentifier
  dkgc_reason :: string

record 'w wallet_registry =
  registry_getChainIdentifier :: ChainIdentifier
  getWalletPublicKey :: "Hex \<Rightarrow> ('w, Hex) io"
  getDkgResultSubmittedEvents :: "GetEventsOptions \<Rightarrow> ('w, DkgResultSubmittedEvent list) io"
  getDkgResultApprovedEvents :: "GetEventsOptions \<Rightarrow> ('w, DkgResultApprovedEvent list) io"
  getDkgResultChallengedEvents :: "GetEventsOptions \<Rightarrow> ('w, DkgResultChallengedEvent list) io"

subsection \<open>Optimistic minting (tbtc-vault.ts)\<close>

record OptimisticMintingRequest =
  omr_requestedAt :: int
  omr_finalizedAt :: int

record OptimisticMintingRequestedEvent = ChainEvent +
  omre_minter :: ChainIdentifier
  omre_depositKey :: Hex
  omre_depositor :: ChainIdentifier
  omre_amount :: int
  omre_fundingTxHash :: BitcoinTxHash
  omre_fundingOutputIndex :: int

record OptimisticMintingCancelledEvent = ChainEvent +
  omce_guardian :: ChainIdentifier
  omce_depositKey :: Hex

record OptimisticMintingFinalizedEvent = ChainEvent +
  omfe_minter :: ChainIdentifier
  omfe_depositKey :: Hex
  omfe_depositor :: ChainIdentifier
  omfe_optimisticMintingDebt :: int

text \<open>The requested events are also read with filter arguments, where \<open>null\<close> matches everything.\<close>

record 'w tbtc_vault =
  vault_getChainIdentifier :: ChainIdentifier
  optimisticMintingDelay :: "('w, int) io"
  getMinters :: "('w, ChainIdentifier list) io"
  isMinter :: "ChainIdentifier \<Rightarrow> ('w, bool) io"
  isGuardian :: "ChainIdentifier \<Rightarrow> ('w, bool) io"
  requestOptimisticMint :: "BitcoinTxHash \<Rightarrow> int \<Rightarrow> ('w, Hex) io"
  cancelOptimisticMint :: "BitcoinTxHash \<Rightarrow> int \<Rightarrow> ('w, Hex) io"
  finalizeOptimisticMint :: "BitcoinTxHash \<Rightarrow> int \<Rightarrow> ('w, Hex) io"
  optimisticMintingRequests :: "BitcoinTxHash \<Rightarrow> int \<Rightarrow> ('w, OptimisticMintingRequest) io"
  getOptimisticMintingRequestedEvents ::
    "GetEventsOptions option \<Rightarrow> string option list \<Rightarrow> ('w, OptimisticMintingRequestedEvent list) io"
  getOptimisticMintingCancelledEvents :: "GetEventsOptions \<Rightarrow> ('w, OptimisticMintingCancelledEvent list) io"
  getOptimisticMintingFinalizedEvents :: "GetEventsOptions \<Rightarrow> ('w, OptimisticMintingFinalizedEvent list) io"

subsection \<open>Interfaces\<close>

record 'w bridge =
  bridge_getChainIdentifier :: ChainIdentifier
  getDepositRevealedEvents :: "GetEventsOptions \<Rightarrow> ('w, DepositRevealedEvent list) io"
  submitDepositSweepProof ::
    "BitcoinRawTxVectors \<Rightarrow> BitcoinSpvProof \<Rightarrow> BitcoinUtxo \<Rightarrow> ChainIdentifier option \<Rightarrow> ('w, Hex) io"
  bridge_revealDeposit ::
    "BitcoinRawTxVectors \<Rightarrow> int \<Rightarrow> DepositReceipt \<Rightarrow> ChainIdentifier option \<Rightarrow> ('w, Hex) io"
  bridge_deposits :: "BitcoinTxHash \<Rightarrow> int \<Rightarrow> ('w, DepositRequest) io"
  bridge_requestRedemption :: "Hex \<Rightarrow> BitcoinUtxo \<Rightarrow> Hex \<Rightarrow> int \<Rightarrow> ('w, Hex) io"
  submitRedemptionProof ::
    "BitcoinRawTxVectors \<Rightarrow> BitcoinSpvProof \<Rightarrow> BitcoinUtxo \<Rightarrow> Hex \<Rightarrow> ('w, Hex) io"
  txProofDifficultyFactor :: "('w, int) io"
  pendingRedemptions :: "Hex \<Rightarrow> Hex \<Rightarrow> ('w, RedemptionRequest) io"
  pendingRedemptionsByWalletPKH :: "Hex \<Rightarrow> Hex \<Rightarrow> ('w, RedemptionRequest) io"
  timedOutRedemptions :: "Hex \<Rightarrow> Hex \<Rightarrow> ('w, RedemptionRequest) io"
  activeWalletPublicKey :: "('w, Hex option) io"
  getNewWalletRegisteredEvents :: "GetEventsOptions \<Rightarrow> ('w, NewWalletRegisteredEvent list) io"
  bridge_walletRegistry :: "('w, 'w wallet_registry) io"
  bridge_wallets :: "Hex \<Rightarrow> ('w, Wallet) io"
  buildUtxoHash :: "BitcoinUtxo \<Rightarrow> Hex res"
  getRedemptionRequestedEvents :: "GetEventsOptions \<Rightarrow> ('w, RedemptionRequestedEvent list) io"

record 'w tbtc_token =
  token_getChainIdentifier :: ChainIdentifier
  totalSupply :: "int option \<Rightarrow> ('w, int) io"
  token_requestRedemption :: "Hex \<Rightarrow> BitcoinUtxo \<Rightarrow> Hex \<Rightarrow> int \<Rightarrow> ('w, Hex) io"
  buildRequestRedemptionData :: "ChainIdentifier \<Rightarrow> Hex \<Rightarrow> BitcoinUtxo \<Rightarrow> Hex \<Rightarrow> Hex res"

record 'w tbtc_contracts =
  tc_bridge :: "'w bridge"
  tc_tbtcToken :: "'w tbtc_token"
  tc_vaultIdentifier :: ChainIdentifier

text \<open>What a transaction that reveals a deposit returns: a hash, a Sui response with a digest, or a
  receipt with a transaction hash.\<close>

datatype tx_result = HexResult Hex | SuiResponse string | TransactionReceipt string

record 'w depositor_proxy =
  proxy_getChainIdentifier :: ChainIdentifier
  proxy_revealDeposit ::
    "BitcoinRawTxVectors \<Rightarrow> int \<Rightarrow> DepositReceipt \<Rightarrow> ChainIdentifier option \<Rightarrow> ('w, tx_result) io"

record extra_data_encoder =
  encodeDepositOwner :: "ChainIdentifier \<Rightarrow> Hex res"
  decodeDepositOwner :: "Hex \<Rightarrow> ChainIdentifier res"

record 'w bitcoin_depositor =
  depositor_getChainIdentifier :: ChainIdentifier
  getDepositOwner :: "'w \<Rightarrow> ChainIdentifier option"
  setDepositOwner :: "ChainIdentifier \<Rightarrow> 'w \<Rightarrow> 'w"
  extraDataEncoder :: extra_data_encoder
  initializeDeposit ::
    "BitcoinRawTxVectors \<Rightarrow> int \<Rightarrow> DepositReceipt \<Rightarrow> ChainIdentifier option \<Rightarrow> ('w, tx_result) io"

record 'w cross_chain_interfaces =
  destinationChainBitcoinDepositor :: "'w bitcoin_depositor"
  l1BitcoinDepositor :: "'w bitcoin_depositor"
  l2_requestRedemption :: "(int \<Rightarrow> Hex \<Rightarrow> int \<Rightarrow> ('w, Hex) io) option"
  l1_requestRedemption :: "(Hex \<Rightarrow> BitcoinUtxo \<Rightarrow> Hex \<Rightarrow> ('w, Hex) io) option"

subsection \<open>Lemmas\<close>

text \<open>A receipt with parts of the right sizes.\<close>

definition receipt_ok :: "DepositReceipt \<Rightarrow> bool" where
  "receipt_ok r =
     (length (hex_buf (dr_blindingFactor r)) = 8 \<and> length (hex_buf (dr_walletPublicKeyHash r)) = 20 \<and>
      length (hex_buf (dr_refundPublicKeyHash r)) = 20 \<and> length (hex_buf (dr_refundLocktime r)) = 4 \<and>
      (\<forall>e. dr_extraData r = Some e \<longrightarrow> length (hex_buf e) = 32))"

lemma validateDepositReceipt_ok: "(validateDepositReceipt r = Inr ()) = receipt_ok r"
  by (auto simp: validateDepositReceipt_def receipt_ok_def split: option.splits)

lemma validateDepositReceipt_iff: "(validateDepositReceipt r = Inr u) = receipt_ok r"
  using validateDepositReceipt_ok by simp

lemma WalletState_parse_number [simp]: "WalletState_parse (WalletState_number s) = s"
  by (cases s) (simp_all add: WalletState_parse_def)

lemma WalletState_parse_outside: "n < 0 \<or> 5 < n \<Longrightarrow> WalletState_parse n = WS_Unknown"
  by (auto simp: WalletState_parse_def)

text \<open>States are ordered as their numbers.\<close>

instantiation WalletState :: linorder
begin

definition less_eq_WalletState :: "WalletState \<Rightarrow> WalletState \<Rightarrow> bool" where
  "less_eq_WalletState a b = (WalletState_number a \<le> WalletState_number b)"

definition less_WalletState :: "WalletState \<Rightarrow> WalletState \<Rightarrow> bool" where
  "less_WalletState a b = (WalletState_number a < WalletState_number b)"

instance
proof
  fix a b :: WalletState
  assume "a \<le> b" "b \<le> a"
  then show "a = b" by (metis WalletState_parse_number less_eq_WalletState_def order_antisym)
qed (auto simp: less_eq_WalletState_def less_WalletState_def)

end

subsection \<open>Sample contracts\<close>

text \<open>Contracts with one wallet and no requests, for the witnesses.\<close>

definition sample_owner :: ChainIdentifier where
  "sample_owner = EthereumAddress (bytes_to_hex (replicate 20 0x11))"

definition sample_wallet_key :: Hex where
  "sample_wallet_key = Hex (2 # replicate 32 1)"

definition sample_request :: "int \<Rightarrow> RedemptionRequest" where
  "sample_request requestedAt = \<lparr>rr_redeemer = sample_owner, rr_redeemerOutputScript = Hex [1, 2], rr_requestedAmount = 1000,
     rr_treasuryFee = 1, rr_txMaxFee = 10, rr_requestedAt = requestedAt\<rparr>"

definition sample_bridge :: "'w bridge" where
  "sample_bridge = \<lparr>bridge_getChainIdentifier = sample_owner,
     getDepositRevealedEvents = (\<lambda>_. return_io []),
     submitDepositSweepProof = (\<lambda>_ _ _ _. return_io (Hex [1])),
     bridge_revealDeposit = (\<lambda>_ _ _ _. return_io (Hex [2])),
     bridge_deposits = (\<lambda>_ _. throw_io (Error ''unknown'')),
     bridge_requestRedemption = (\<lambda>_ _ _ _. return_io (Hex [3])),
     submitRedemptionProof = (\<lambda>_ _ _ _. return_io (Hex [4])),
     txProofDifficultyFactor = return_io 6,
     pendingRedemptions = (\<lambda>_ _. return_io (sample_request 0)),
     pendingRedemptionsByWalletPKH = (\<lambda>_ _. return_io (sample_request 0)),
     timedOutRedemptions = (\<lambda>_ _. return_io (sample_request 0)),
     activeWalletPublicKey = return_io (Some sample_wallet_key),
     getNewWalletRegisteredEvents = (\<lambda>_. return_io []),
     bridge_walletRegistry = throw_io (Error ''unknown''),
     bridge_wallets = (\<lambda>_. throw_io (Error ''unknown'')),
     buildUtxoHash = (\<lambda>u. Inr (op_transactionHash u)),
     getRedemptionRequestedEvents = (\<lambda>_. return_io [])\<rparr>"

definition sample_token :: "'w tbtc_token" where
  "sample_token = \<lparr>token_getChainIdentifier = sample_owner, totalSupply = (\<lambda>_. return_io 0),
     token_requestRedemption = (\<lambda>_ _ _ _. return_io (Hex [5])),
     buildRequestRedemptionData = (\<lambda>_ _ _ _. Inr (Hex [6]))\<rparr>"

definition sample_contracts :: "'w tbtc_contracts" where
  "sample_contracts = \<lparr>tc_bridge = sample_bridge, tc_tbtcToken = sample_token, tc_vaultIdentifier = sample_owner\<rparr>"

end
