(* ===== verification/Deposits.thy ===== *)
theory Deposits
  imports Bridge
begin

section \<open>Deposits (typescript/src/services/deposits)\<close>

text \<open>
  The deposit script and its address, the deposit object that detects funding and initiates
  minting (\<open>deposit.ts\<close>), the cross-chain depositor (\<open>cross-chain.ts\<close>) and the service
  that generates receipts (\<open>deposits-service.ts\<close>). The random source and the clock are the
  operations of a system record.
\<close>

subsection \<open>The deposit script (deposit.ts)\<close>

record DepositScript =
  ds_receipt :: DepositReceipt
  ds_witness :: bool

definition DepositScript_fromReceipt :: "DepositReceipt \<Rightarrow> bool \<Rightarrow> DepositScript res" where
  "DepositScript_fromReceipt receipt witness =
     bind_res (validateDepositReceipt receipt) (\<lambda>_. Inr \<lparr>ds_receipt = receipt, ds_witness = witness\<rparr>)"

definition deposit_chunks :: "DepositReceipt \<Rightarrow> chunk list" where
  "deposit_chunks receipt =
     [Push (hex_to_bytes (identifierHex (dr_depositor receipt))), Op OP_DROP] @
     (case dr_extraData receipt of None \<Rightarrow> [] | Some extraData \<Rightarrow> [Push (toBuffer extraData), Op OP_DROP]) @
     [Push (toBuffer (dr_blindingFactor receipt)), Op OP_DROP, Op OP_DUP, Op OP_HASH160,
      Push (toBuffer (dr_walletPublicKeyHash receipt)), Op OP_EQUAL, Op OP_IF, Op OP_CHECKSIG, Op OP_ELSE,
      Op OP_DUP, Op OP_HASH160, Push (toBuffer (dr_refundPublicKeyHash receipt)), Op OP_EQUALVERIFY,
      Push (toBuffer (dr_refundLocktime receipt)), Op OP_CHECKLOCKTIMEVERIFY, Op OP_DROP, Op OP_CHECKSIG,
      Op OP_ENDIF]"

definition getPlainText :: "btcjs \<Rightarrow> DepositScript \<Rightarrow> Hex" where
  "getPlainText lib s = Hex_from_buffer (script_compile lib (deposit_chunks (ds_receipt s)))"

definition getHash :: "crypto \<Rightarrow> btcjs \<Rightarrow> DepositScript \<Rightarrow> byte list res" where
  "getHash c lib s =
     (let scr = getPlainText lib s in
      if ds_witness s then bind_res (computeSha256 c scr) (\<lambda>h. Inr (toBuffer h))
      else bind_res (computeHash160 c scr) (\<lambda>h. Inr (toBuffer h)))"

text \<open>The opcode values in the output scripts are those of Bitcoin: \<open>OP_0\<close> is 0, \<open>OP_HASH160\<close> is
  0xa9 and \<open>OP_EQUAL\<close> 0x87.\<close>

definition deriveAddress :: "crypto \<Rightarrow> btcjs \<Rightarrow> DepositScript \<Rightarrow> BitcoinNetwork \<Rightarrow> string res" where
  "deriveAddress c lib s bitcoinNetwork =
     bind_res (getHash c lib s) (\<lambda>scriptHash.
     bind_res (toBitcoinJsLibNetwork bitcoinNetwork) (\<lambda>network.
     if ds_witness s
     then bind_res (p2wsh lib (OutputNetArg ([0x00, 0x20] @ scriptHash) network)) (\<lambda>p. Inr (pay_address p))
     else bind_res (p2sh lib (OutputNetArg ([0xa9, 0x14] @ scriptHash @ [0x87]) network)) (\<lambda>p. Inr (pay_address p))))"

subsection \<open>The deposit object (deposit.ts)\<close>

record 'w Deposit =
  d_script :: DepositScript
  d_tbtcContracts :: "'w tbtc_contracts"
  d_bitcoinClient :: "'w bitcoin_client"
  d_depositorProxy :: "'w depositor_proxy option"
  d_bitcoinNetwork :: BitcoinNetwork

definition Deposit_fromReceipt ::
  "DepositReceipt \<Rightarrow> 'w tbtc_contracts \<Rightarrow> 'w bitcoin_client \<Rightarrow> 'w depositor_proxy option \<Rightarrow> ('w, 'w Deposit) io" where
  "Deposit_fromReceipt receipt tbtcContracts bitcoinClient depositorProxy =
     bind_io (getNetwork bitcoinClient) (\<lambda>bitcoinNetwork.
     bind_io (lift_io (DepositScript_fromReceipt receipt True)) (\<lambda>s.
     return_io \<lparr>d_script = s, d_tbtcContracts = tbtcContracts, d_bitcoinClient = bitcoinClient,
       d_depositorProxy = depositorProxy, d_bitcoinNetwork = bitcoinNetwork\<rparr>))"

definition getReceipt :: "'w Deposit \<Rightarrow> DepositReceipt" where
  "getReceipt d = ds_receipt (d_script d)"

definition getBitcoinAddress :: "crypto \<Rightarrow> btcjs \<Rightarrow> 'w Deposit \<Rightarrow> string res" where
  "getBitcoinAddress c lib d = deriveAddress c lib (d_script d) (d_bitcoinNetwork d)"

definition detectFunding :: "crypto \<Rightarrow> btcjs \<Rightarrow> 'w Deposit \<Rightarrow> ('w, BitcoinUtxo list) io" where
  "detectFunding c lib d =
     bind_io (lift_io (getBitcoinAddress c lib d)) (\<lambda>address.
     bind_io (findAllUnspentTransactionOutputs (d_bitcoinClient d) address) (\<lambda>utxos.
     if length utxos = 0 then return_io [] else return_io utxos))"

definition initiateMinting ::
  "crypto \<Rightarrow> btcjs \<Rightarrow> bufio \<Rightarrow> 'w Deposit \<Rightarrow> BitcoinTxOutpoint option \<Rightarrow> ('w, tx_result) io" where
  "initiateMinting c lib wr d fundingOutpoint =
     bind_io (case fundingOutpoint of
         Some outpoint \<Rightarrow> return_io outpoint
       | None \<Rightarrow> bind_io (detectFunding c lib d) (\<lambda>fundingUtxos.
           case fundingUtxos of
             [] \<Rightarrow> throw_io (Error ''Deposit not funded yet'')
           | utxo # _ \<Rightarrow> return_io (BitcoinTxOutpoint.truncate utxo))) (\<lambda>resolved.
     bind_io (getRawTransaction (d_bitcoinClient d) (op_transactionHash resolved)) (\<lambda>rawTx.
     bind_io (lift_io (extractBitcoinRawTxVectors lib wr rawTx)) (\<lambda>depositFundingTx.
     let vault = Some (tc_vaultIdentifier (d_tbtcContracts d)) in
     case d_depositorProxy d of
       Some proxy \<Rightarrow> proxy_revealDeposit proxy depositFundingTx (op_outputIndex resolved) (getReceipt d) vault
     | None \<Rightarrow>
         bind_io (bridge_revealDeposit (tc_bridge (d_tbtcContracts d)) depositFundingTx
           (op_outputIndex resolved) (getReceipt d) vault) (\<lambda>h. return_io (HexResult h)))))"

subsection \<open>The cross-chain depositor (cross-chain.ts)\<close>

datatype CrossChainDepositorMode = L2Transaction | L1Transaction

definition crossChain_encoder :: "'w cross_chain_interfaces \<Rightarrow> CrossChainDepositorMode \<Rightarrow> extra_data_encoder" where
  "crossChain_encoder cc revealMode =
     (case revealMode of
        L2Transaction \<Rightarrow> extraDataEncoder (destinationChainBitcoinDepositor cc)
      | L1Transaction \<Rightarrow> extraDataEncoder (l1BitcoinDepositor cc))"

definition crossChain_extraData :: "'w cross_chain_interfaces \<Rightarrow> CrossChainDepositorMode \<Rightarrow> ('w, Hex) io" where
  "crossChain_extraData cc revealMode = (\<lambda>w.
     case getDepositOwner (destinationChainBitcoinDepositor cc) w of
       None \<Rightarrow> (Inl (Error ''Cannot resolve destination chain deposit owner''), w)
     | Some depositOwner \<Rightarrow> (encodeDepositOwner (crossChain_encoder cc revealMode) depositOwner, w))"

text \<open>\<open>Buffer.from(s, "utf8")\<close> for characters of one byte.\<close>

definition utf8_char :: "char \<Rightarrow> byte list" where
  "utf8_char ch = (let n = of_char ch in
     if n < (128 :: nat) then [byte_of n] else [byte_of (192 + n div 64), byte_of (128 + n mod 64)])"

definition result_hash :: "tx_result \<Rightarrow> Hex res" where
  "result_hash result =
     (case result of
        HexResult h \<Rightarrow> Inr h
      | SuiResponse dig \<Rightarrow>
          if dig \<noteq> [] then Inr (Hex_from_buffer (concat (map utf8_char dig)))
          else Inl (TypeError ''The first argument must be of type string or an instance of Buffer'')
      | TransactionReceipt hash \<Rightarrow> Hex_from_string hash)"

definition crossChain_revealDeposit ::
  "'w cross_chain_interfaces \<Rightarrow> CrossChainDepositorMode \<Rightarrow> BitcoinRawTxVectors \<Rightarrow> int \<Rightarrow> DepositReceipt \<Rightarrow>
   ChainIdentifier option \<Rightarrow> ('w, Hex) io" where
  "crossChain_revealDeposit cc revealMode depositTx depositOutputIndex deposit vault =
     bind_io (case revealMode of
         L2Transaction \<Rightarrow> initializeDeposit (destinationChainBitcoinDepositor cc) depositTx depositOutputIndex deposit vault
       | L1Transaction \<Rightarrow> initializeDeposit (l1BitcoinDepositor cc) depositTx depositOutputIndex deposit vault)
       (\<lambda>result. lift_io (result_hash result))"

definition CrossChainDepositor ::
  "'w cross_chain_interfaces \<Rightarrow> CrossChainDepositorMode \<Rightarrow> 'w depositor_proxy" where
  "CrossChainDepositor cc revealMode =
     \<lparr>proxy_getChainIdentifier = depositor_getChainIdentifier (l1BitcoinDepositor cc),
      proxy_revealDeposit = (\<lambda>tx i r v.
        bind_io (crossChain_revealDeposit cc revealMode tx i r v) (\<lambda>h. return_io (HexResult h)))\<rparr>"

subsection \<open>The service (deposits-service.ts)\<close>

record 'w system =
  randomBytes :: "nat \<Rightarrow> ('w, byte list) io"
  getTime :: "('w, int) io"

definition depositRefundLocktimeDuration :: int where
  "depositRefundLocktimeDuration = 23328000"

record 'w DepositsService =
  svc_tbtcContracts :: "'w tbtc_contracts"
  svc_bitcoinClient :: "'w bitcoin_client"
  svc_defaultDepositor :: "ChainIdentifier option"
  svc_crossChainContracts :: "string \<Rightarrow> 'w cross_chain_interfaces option"

definition new_DepositsService ::
  "'w tbtc_contracts \<Rightarrow> 'w bitcoin_client \<Rightarrow> (string \<Rightarrow> 'w cross_chain_interfaces option) option \<Rightarrow> 'w DepositsService" where
  "new_DepositsService contracts client cc =
     \<lparr>svc_tbtcContracts = contracts, svc_bitcoinClient = client, svc_defaultDepositor = None,
      svc_crossChainContracts = (case cc of None \<Rightarrow> (\<lambda>_. None) | Some f \<Rightarrow> f)\<rparr>"

definition setCrossChainContractsResolver ::
  "(string \<Rightarrow> 'w cross_chain_interfaces option) \<Rightarrow> 'w DepositsService \<Rightarrow> 'w DepositsService" where
  "setCrossChainContractsResolver resolver svc = svc\<lparr>svc_crossChainContracts := resolver\<rparr>"

definition setDefaultDepositor :: "ChainIdentifier \<Rightarrow> 'w DepositsService \<Rightarrow> 'w DepositsService" where
  "setDefaultDepositor defaultDepositor svc = svc\<lparr>svc_defaultDepositor := Some defaultDepositor\<rparr>"

definition checkExtraData :: "Hex option \<Rightarrow> unit res" where
  "checkExtraData extraData =
     (case extraData of None \<Rightarrow> Inr ()
      | Some e \<Rightarrow>
          if length (toString e) \<noteq> 64 then Inl (Error ''Extra data is not 32-byte'')
          else if toPrefixedString e = ''0x0000000000000000000000000000000000000000000000000000000000000000''
          then Inl (Error ''Extra data contains only zero bytes'')
          else Inr ())"

definition generateDepositReceipt ::
  "crypto \<Rightarrow> btcjs \<Rightarrow> 'w system \<Rightarrow> 'w DepositsService \<Rightarrow> string \<Rightarrow> ChainIdentifier \<Rightarrow> Hex option \<Rightarrow>
   ('w, DepositReceipt) io" where
  "generateDepositReceipt c lib sys svc bitcoinRecoveryAddress depositor extraData =
     bind_io (randomBytes sys 8) (\<lambda>random.
     let blindingFactor = Hex_from_buffer random in
     bind_io (activeWalletPublicKey (tc_bridge (svc_tbtcContracts svc))) (\<lambda>active.
     case active of
       None \<Rightarrow> throw_io (Error ''Could not get active wallet public key'')
     | Some walletPublicKey \<Rightarrow>
     bind_io (lift_io (computeHash160 c walletPublicKey)) (\<lambda>walletPublicKeyHash.
     bind_io (getNetwork (svc_bitcoinClient svc)) (\<lambda>bitcoinNetwork.
     bind_io (lift_io (addressToOutputScript lib bitcoinRecoveryAddress bitcoinNetwork)) (\<lambda>recoveryOutputScript.
     if \<not> isP2PKHScript lib recoveryOutputScript \<and> \<not> isP2WPKHScript lib recoveryOutputScript
     then throw_io (Error ''Bitcoin recovery address must be P2PKH or P2WPKH'')
     else
     bind_io (lift_io (addressToPublicKeyHash lib bitcoinRecoveryAddress bitcoinNetwork)) (\<lambda>refundPublicKeyHash.
     bind_io (getTime sys) (\<lambda>time.
     let currentTimestamp = time div 1000 in
     bind_io (lift_io (calculateLocktime currentTimestamp depositRefundLocktimeDuration)) (\<lambda>refundLocktime.
     bind_io (lift_io (checkExtraData extraData)) (\<lambda>_.
     return_io \<lparr>dr_depositor = depositor, dr_blindingFactor = blindingFactor,
       dr_walletPublicKeyHash = walletPublicKeyHash, dr_refundPublicKeyHash = refundPublicKeyHash,
       dr_refundLocktime = refundLocktime, dr_extraData = extraData\<rparr>)))))))))"

definition initiateDeposit ::
  "crypto \<Rightarrow> btcjs \<Rightarrow> 'w system \<Rightarrow> 'w DepositsService \<Rightarrow> string \<Rightarrow> Hex option \<Rightarrow> ('w, 'w Deposit) io" where
  "initiateDeposit c lib sys svc bitcoinRecoveryAddress extraData =
     (case svc_defaultDepositor svc of
        None \<Rightarrow> throw_io (Error ''Default depositor is not set; use setDefaultDepositor first'')
      | Some depositor \<Rightarrow>
          bind_io (generateDepositReceipt c lib sys svc bitcoinRecoveryAddress depositor extraData) (\<lambda>receipt.
          Deposit_fromReceipt receipt (svc_tbtcContracts svc) (svc_bitcoinClient svc) None))"

definition initiateDepositWithProxy ::
  "crypto \<Rightarrow> btcjs \<Rightarrow> 'w system \<Rightarrow> 'w DepositsService \<Rightarrow> string \<Rightarrow> 'w depositor_proxy \<Rightarrow> Hex option \<Rightarrow>
   ('w, 'w Deposit) io" where
  "initiateDepositWithProxy c lib sys svc bitcoinRecoveryAddress depositorProxy extraData =
     bind_io (generateDepositReceipt c lib sys svc bitcoinRecoveryAddress
       (proxy_getChainIdentifier depositorProxy) extraData) (\<lambda>receipt.
     Deposit_fromReceipt receipt (svc_tbtcContracts svc) (svc_bitcoinClient svc) (Some depositorProxy))"

definition initiateCrossChainDeposit ::
  "crypto \<Rightarrow> btcjs \<Rightarrow> 'w system \<Rightarrow> 'w DepositsService \<Rightarrow> string \<Rightarrow> string \<Rightarrow> ('w, 'w Deposit) io" where
  "initiateCrossChainDeposit c lib sys svc bitcoinRecoveryAddress destinationChainName =
     (case svc_crossChainContracts svc destinationChainName of
        None \<Rightarrow> throw_io (Error (''Cross-chain contracts for '' @ destinationChainName @ '' not initialized''))
      | Some cc \<Rightarrow>
          bind_io (crossChain_extraData cc L2Transaction) (\<lambda>extraData.
          initiateDepositWithProxy c lib sys svc bitcoinRecoveryAddress
            (CrossChainDepositor cc L2Transaction) (Some extraData)))"

subsection \<open>Hypotheses on the environment\<close>

text \<open>Both address kinds hold a hash of twenty bytes; the random source returns as many bytes as it
  was asked for.\<close>

definition payment_hashes_ok :: "btcjs \<Rightarrow> bool" where
  "payment_hashes_ok lib = (\<forall>a n p. p2pkh lib (AddressArg a n) = Inr p \<or> p2wpkh lib (AddressArg a n) = Inr p \<longrightarrow>
     length (pay_hash p) = 20)"

definition random_ok :: "'w system \<Rightarrow> bool" where
  "random_ok sys = (\<forall>n w bs w'. randomBytes sys n w = (Inr bs, w') \<longrightarrow> length bs = n)"

definition active_wallet_ok :: "'w bridge \<Rightarrow> bool" where
  "active_wallet_ok b = (\<forall>w k w'. activeWalletPublicKey b w = (Inr (Some k), w') \<longrightarrow> hex_buf k \<noteq> [])"

lemma addressToPublicKeyHash_20:
  assumes "payment_hashes_ok lib" "addressToPublicKeyHash lib a n = Inr h"
  shows "length (hex_buf h) = 20"
proof -
  obtain net where net: "toBitcoinJsLibNetwork n = Inr net"
    using assms(2) by (auto simp: addressToPublicKeyHash_def res_simps)
  show ?thesis
  proof (cases "p2pkh lib (AddressArg a net)")
    case (Inl e)
    then show ?thesis using assms net
      by (cases "p2wpkh lib (AddressArg a net)")
        (auto simp: addressToPublicKeyHash_def payment_hashes_ok_def Hex_from_buffer_def)
  qed (use assms net in \<open>auto simp: addressToPublicKeyHash_def payment_hashes_ok_def Hex_from_buffer_def\<close>)
qed

lemma computeHash160_20: "crypto_ok c \<Longrightarrow> hex_buf k \<noteq> [] \<Longrightarrow> computeHash160 c k = Inr h \<Longrightarrow> length (hex_buf h) = 20"
  using computeHash160_bytes[of c "hex_buf k"] by (cases k) auto

lemma checkExtraData_ok:
  "(checkExtraData e = Inr ()) = (\<forall>x. e = Some x \<longrightarrow> length (hex_buf x) = 32 \<and> hex_buf x \<noteq> replicate 32 0)"
proof -
  have z: "''0x0000000000000000000000000000000000000000000000000000000000000000'' = toPrefixedString (Hex (replicate 32 0))"
    by code_simp
  have "toPrefixedString x = toPrefixedString y \<longleftrightarrow> x = y" for x y
    by (metis from_toPrefixedString sum.inject(2))
  then show ?thesis
    unfolding checkExtraData_def z by (auto split: option.splits) (metis Hex.collapse)+
qed

lemma checkExtraData_unit: "(checkExtraData e = Inr u) = (\<forall>x. e = Some x \<longrightarrow> length (hex_buf x) = 32 \<and> hex_buf x \<noteq> replicate 32 0)"
  using checkExtraData_ok by simp

text \<open>What a generated receipt consists of.\<close>

lemma generateDepositReceipt_parts:
  assumes "generateDepositReceipt c lib sys svc addr depositor extraData w = (Inr r, w')"
  shows "\<exists>random w1 key w2 n w3 t. randomBytes sys 8 w = (Inr random, w1) \<and>
     activeWalletPublicKey (tc_bridge (svc_tbtcContracts svc)) w1 = (Inr (Some key), w2) \<and>
     getNetwork (svc_bitcoinClient svc) w2 = (Inr n, w3) \<and> getTime sys w3 = (Inr t, w') \<and>
     dr_depositor r = depositor \<and> dr_blindingFactor r = Hex random \<and> dr_extraData r = extraData \<and>
     computeHash160 c key = Inr (dr_walletPublicKeyHash r) \<and>
     addressToPublicKeyHash lib addr n = Inr (dr_refundPublicKeyHash r) \<and>
     calculateLocktime (t div 1000) depositRefundLocktimeDuration = Inr (dr_refundLocktime r) \<and>
     checkExtraData extraData = Inr ()"
  using assms
  by (clarsimp simp: generateDepositReceipt_def bind_io_Inr Let_def Hex_from_buffer_def split: option.splits if_splits)
    fastforce

lemma generated_receipt_ok:
  assumes "crypto_ok c" "payment_hashes_ok lib" "random_ok sys" "active_wallet_ok (tc_bridge (svc_tbtcContracts svc))"
    and "generateDepositReceipt c lib sys svc addr depositor extraData w = (Inr r, w')"
  shows "receipt_ok r \<and> dr_depositor r = depositor \<and> dr_extraData r = extraData \<and>
     (\<forall>e. extraData = Some e \<longrightarrow> hex_buf e \<noteq> replicate 32 0)"
proof -
  obtain random w1 key w2 n t where p: "randomBytes sys 8 w = (Inr random, w1)"
    "activeWalletPublicKey (tc_bridge (svc_tbtcContracts svc)) w1 = (Inr (Some key), w2)"
    "dr_depositor r = depositor" "dr_blindingFactor r = Hex random" "dr_extraData r = extraData"
    "computeHash160 c key = Inr (dr_walletPublicKeyHash r)"
    "addressToPublicKeyHash lib addr n = Inr (dr_refundPublicKeyHash r)"
    "calculateLocktime (t div 1000) depositRefundLocktimeDuration = Inr (dr_refundLocktime r)"
    "checkExtraData extraData = Inr ()"
    using generateDepositReceipt_parts[OF assms(5)] by blast
  have lock: "dr_refundLocktime r = Hex (le_bytes 4 (nat (t div 1000 + 23328000)))"
    using p(8) by (simp add: calculateLocktime_iff depositRefundLocktimeDuration_def)
  have "length random = 8" using assms(3) p(1) by (auto simp: random_ok_def)
  moreover have "length (hex_buf (dr_walletPublicKeyHash r)) = 20"
    using computeHash160_20[OF assms(1) _ p(6)] assms(4) p(2) by (auto simp: active_wallet_ok_def)
  moreover have "length (hex_buf (dr_refundPublicKeyHash r)) = 20"
    using addressToPublicKeyHash_20[OF assms(2) p(7)] .
  ultimately have "receipt_ok r"
    using p(4,5,9) lock by (simp add: receipt_ok_def checkExtraData_ok)
  then show ?thesis using p(3,5,9) lock by (auto simp: checkExtraData_ok)
qed

text \<open>The refund locktime lies nine months after a time that the clock has shown.\<close>

lemma generated_locktime:
  assumes "generateDepositReceipt c lib sys svc addr depositor extraData w = (Inr r, w')"
  shows "\<exists>t w1 w2. getTime sys w1 = (Inr t, w2) \<and> t div 1000 + 23328000 < 2 ^ 32 \<and> 0 \<le> t div 1000 + 23328000 \<and>
    dr_refundLocktime r = Hex (le_bytes 4 (nat (t div 1000 + 23328000)))"
  using generateDepositReceipt_parts [OF assms]
  by (fastforce simp: calculateLocktime_iff depositRefundLocktimeDuration_def)

lemma receipt_ok_script: "receipt_ok r \<Longrightarrow> DepositScript_fromReceipt r b = Inr \<lparr>ds_receipt = r, ds_witness = b\<rparr>"
  using validateDepositReceipt_ok[of r] by (simp add: DepositScript_fromReceipt_def)

lemma Deposit_fromReceipt_receipt:
  "Deposit_fromReceipt r tc bc px w = (Inr d, w') \<Longrightarrow> getReceipt d = r \<and> receipt_ok r \<and> d_depositorProxy d = px"
  by (auto simp: Deposit_fromReceipt_def bind_io_Inr DepositScript_fromReceipt_def res_simps getReceipt_def
      validateDepositReceipt_iff)

lemma deposit_chunks_inj:
  assumes "deposit_chunks r = deposit_chunks r'"
    and "hex_text n (identifierHex (dr_depositor r))" "hex_text n' (identifierHex (dr_depositor r'))"
  shows "identifierHex (dr_depositor r) = identifierHex (dr_depositor r') \<and>
     r' = r\<lparr>dr_depositor := dr_depositor r'\<rparr>"
proof -
  have i: "identifierHex (dr_depositor r) = identifierHex (dr_depositor r')"
    using assms by (auto simp: deposit_chunks_def hex_text_def)
  have b: "toBuffer x = toBuffer y \<longleftrightarrow> x = y" for x y by (cases x; cases y) simp
  show ?thesis using i assms(1)
    by (cases r; cases r') (auto simp: deposit_chunks_def b split: option.splits)
qed

subsection \<open>Sample service\<close>

definition sample_system :: "'w system" where
  "sample_system = \<lparr>randomBytes = (\<lambda>n. return_io (replicate n 7)), getTime = return_io 1700000000123\<rparr>"

definition sample_depositor_of :: "(string \<Rightarrow> string res) \<Rightarrow> unit bitcoin_depositor" where
  "sample_depositor_of ga = \<lparr>depositor_getChainIdentifier = sample_owner, getDepositOwner = (\<lambda>_. Some sample_owner),
     setDepositOwner = (\<lambda>_ w. w),
     extraDataEncoder = \<lparr>encodeDepositOwner = Ethereum_encodeDepositOwner ga, decodeDepositOwner = Ethereum_decodeDepositOwner ga\<rparr>,
     initializeDeposit = (\<lambda>_ _ _ _. return_io (HexResult (Hex [7])))\<rparr>"

definition sample_cross_chain :: "unit cross_chain_interfaces" where
  "sample_cross_chain = \<lparr>destinationChainBitcoinDepositor = sample_depositor_of sample_getAddress,
     l1BitcoinDepositor = sample_depositor_of sample_getAddress,
     l2_requestRedemption = None, l1_requestRedemption = None\<rparr>"

definition sample_service :: "unit DepositsService" where
  "sample_service = new_DepositsService sample_contracts sample_bitcoin_client (Some (\<lambda>_. Some sample_cross_chain))"

definition sample_recovery_address :: string where
  "sample_recovery_address = bytes_to_hex (replicate 20 3)"

lemma sample_environment_ok:
  "payment_hashes_ok sample_btcjs" "random_ok sample_system" "active_wallet_ok (tc_bridge (svc_tbtcContracts sample_service))"
  by (auto simp: payment_hashes_ok_def random_ok_def active_wallet_ok_def sample_btcjs_def sample_payment_def Let_def
      sample_system_def sample_service_def new_DepositsService_def sample_contracts_def sample_bridge_def
      sample_wallet_key_def split: if_splits)

lemma sample_generate:
  assumes "checkExtraData extraData = Inr ()"
  shows "\<exists>r. generateDepositReceipt sample_crypto sample_btcjs sample_system sample_service sample_recovery_address
     depositor extraData () = (Inr r, ())"
proof -
  obtain h where h: "computeHash160 sample_crypto sample_wallet_key = Inr h"
    using computeHash160_bytes(1)[OF crypto_ok_sample] by (simp add: sample_wallet_key_def)
  have l: "calculateLocktime 1700000000 23328000 = Inr (Hex (le_bytes 4 1723328000))"
    by (simp add: calculateLocktime_iff)
  show ?thesis
    using assms h l
    by (simp add: generateDepositReceipt_def sample_service_def new_DepositsService_def sample_contracts_def
        sample_bridge_def sample_system_def sample_bitcoin_client_def bind_io_def isP2PKHScript_def sample_btcjs_def
        sample_payment_def addressToOutputScript_def addressToPublicKeyHash_def sample_recovery_address_def
        depositRefundLocktimeDuration_def Let_def)
qed

subsection \<open>Properties\<close>

text \<open>C18: a generated deposit receipt always passes the validation of the deposit script. It has the
  depositor and the extra data it was asked for, extra data that is not zero, the eight random
  bytes as blinding factor, the hash of the wallet key that the Bridge names as active and the
  hash of the recovery address in the network of the client; its refund locktime is
  nine months of thirty days after the time that the clock shows when the receipt is made,
  which is read last, and fits into the four bytes.\<close>

theorem generateDepositReceipt_valid:
  assumes "crypto_ok c" "payment_hashes_ok lib" "random_ok sys" "active_wallet_ok (tc_bridge (svc_tbtcContracts svc))"
    and "generateDepositReceipt c lib sys svc addr depositor extraData w = (Inr r, w')"
  shows "DepositScript_fromReceipt r witness = Inr \<lparr>ds_receipt = r, ds_witness = witness\<rparr> \<and>
     dr_depositor r = depositor \<and> dr_extraData r = extraData \<and>
     (\<forall>e. extraData = Some e \<longrightarrow> hex_buf e \<noteq> replicate 32 0) \<and>
     (\<exists>random w1 key w2 n w3 t. randomBytes sys 8 w = (Inr random, w1) \<and>
        activeWalletPublicKey (tc_bridge (svc_tbtcContracts svc)) w1 = (Inr (Some key), w2) \<and>
        getNetwork (svc_bitcoinClient svc) w2 = (Inr n, w3) \<and> getTime sys w3 = (Inr t, w') \<and>
        dr_blindingFactor r = Hex random \<and> computeHash160 c key = Inr (dr_walletPublicKeyHash r) \<and>
        addressToPublicKeyHash lib addr n = Inr (dr_refundPublicKeyHash r) \<and>
        dr_refundLocktime r = Hex (le_bytes 4 (nat (t div 1000 + 9 * 30 * 24 * 60 * 60))) \<and>
        0 \<le> t div 1000 + 9 * 30 * 24 * 60 * 60 \<and> t div 1000 + 9 * 30 * 24 * 60 * 60 < 2 ^ 32)"
proof -
  obtain random w1 key w2 n w3 t where p: "randomBytes sys 8 w = (Inr random, w1)"
    "activeWalletPublicKey (tc_bridge (svc_tbtcContracts svc)) w1 = (Inr (Some key), w2)"
    "getNetwork (svc_bitcoinClient svc) w2 = (Inr n, w3)" "getTime sys w3 = (Inr t, w')"
    "dr_blindingFactor r = Hex random" "computeHash160 c key = Inr (dr_walletPublicKeyHash r)"
    "addressToPublicKeyHash lib addr n = Inr (dr_refundPublicKeyHash r)"
    and lock: "calculateLocktime (t div 1000) depositRefundLocktimeDuration = Inr (dr_refundLocktime r)"
    using generateDepositReceipt_parts[OF assms(5)] by blast
  have "dr_refundLocktime r = Hex (le_bytes 4 (nat (t div 1000 + 9 * 30 * 24 * 60 * 60))) \<and>
      0 \<le> t div 1000 + 9 * 30 * 24 * 60 * 60 \<and> t div 1000 + 9 * 30 * 24 * 60 * 60 < 2 ^ 32"
    using lock by (simp add: calculateLocktime_iff depositRefundLocktimeDuration_def)
  then show ?thesis using generated_receipt_ok[OF assms] receipt_ok_script[of r witness] p by blast
qed

theorem generateDepositReceipt_valid_witness:
  "\<exists>r. generateDepositReceipt sample_crypto sample_btcjs sample_system sample_service sample_recovery_address
       sample_owner None () = (Inr r, ()) \<and>
     DepositScript_fromReceipt r True = Inr \<lparr>ds_receipt = r, ds_witness = True\<rparr> \<and>
     dr_refundLocktime r = Hex (le_bytes 4 1723328000)"
proof -
  have "checkExtraData None = Inr ()" by (simp add: checkExtraData_def)
  then obtain r where r: "generateDepositReceipt sample_crypto sample_btcjs sample_system sample_service
      sample_recovery_address sample_owner None () = (Inr r, ())"
    using sample_generate by blast
  have t: "getTime sample_system w = (Inr 1700000000123, w)" for w :: unit by (simp add: sample_system_def)
  show ?thesis using r generateDepositReceipt_valid[OF crypto_ok_sample sample_environment_ok r, of True] by (auto simp: t)
qed

text \<open>C21: a cross-chain deposit is revealed through the depositor contract of the L1 chain, carries
  the deposit owner of the destination chain in its extra data, and the encoder of that chain
  reads the owner back from it.\<close>

theorem initiateCrossChainDeposit_owner:
  assumes "deposit_owner_encoder (encodeDepositOwner enc) (decodeDepositOwner enc) owner"
    and "svc_crossChainContracts svc chain = Some cc"
    and "extraDataEncoder (destinationChainBitcoinDepositor cc) = enc"
    and "getDepositOwner (destinationChainBitcoinDepositor cc) w = Some o'" "owner o'"
    and "initiateCrossChainDeposit c lib sys svc addr chain w = (Inr d, w')"
  shows "dr_depositor (getReceipt d) = depositor_getChainIdentifier (l1BitcoinDepositor cc) \<and>
     d_depositorProxy d = Some (CrossChainDepositor cc L2Transaction) \<and>
     (\<exists>e. dr_extraData (getReceipt d) = Some e \<and> decodeDepositOwner enc e = Inr o')"
proof -
  obtain e where e: "encodeDepositOwner enc o' = Inr e" "decodeDepositOwner enc e = Inr o'"
    using deposit_owner_encoder.encode_decode[OF assms(1,5)] by blast
  have x: "crossChain_extraData cc L2Transaction w = (Inr e, w)"
    using assms(3,4) e(1) by (simp add: crossChain_extraData_def crossChain_encoder_def)
  obtain r w1 where g: "generateDepositReceipt c lib sys svc addr
      (proxy_getChainIdentifier (CrossChainDepositor cc L2Transaction)) (Some e) w = (Inr r, w1)"
    and f: "Deposit_fromReceipt r (svc_tbtcContracts svc) (svc_bitcoinClient svc)
      (Some (CrossChainDepositor cc L2Transaction)) w1 = (Inr d, w')"
    using assms(2,6) x
    by (auto simp: initiateCrossChainDeposit_def initiateDepositWithProxy_def bind_io_Inr)
  show ?thesis
    using generateDepositReceipt_parts[OF g] Deposit_fromReceipt_receipt[OF f] e(2)
    by (auto simp: CrossChainDepositor_def)
qed

theorem initiateCrossChainDeposit_owner_witness:
  "\<exists>d e. initiateCrossChainDeposit sample_crypto sample_btcjs sample_system sample_service sample_recovery_address
       ''Base'' () = (Inr d, ()) \<and>
     dr_extraData (getReceipt d) = Some e \<and> Ethereum_decodeDepositOwner sample_getAddress e = Inr sample_owner"
proof -
  let ?enc = "extraDataEncoder (sample_depositor_of sample_getAddress)"
  have enc: "deposit_owner_encoder (encodeDepositOwner ?enc) (decodeDepositOwner ?enc) ethereum_owner"
    using ethereum_encoder[OF getAddress_ok_sample] by (simp add: sample_depositor_of_def)
  have own: "ethereum_owner sample_owner" by (auto simp: ethereum_owner_def sample_owner_def hex_text_def)
  have cc: "svc_crossChainContracts sample_service ''Base'' = Some sample_cross_chain"
    by (simp add: sample_service_def new_DepositsService_def)
  obtain e where e: "encodeDepositOwner ?enc sample_owner = Inr e" "length (hex_buf e) = 32" "decodeDepositOwner ?enc e = Inr sample_owner"
    using deposit_owner_encoder.encode_decode[OF enc own] by blast
  have x: "crossChain_extraData sample_cross_chain L2Transaction () = (Inr e, ())"
    using e(1) by (simp add: crossChain_extraData_def crossChain_encoder_def sample_cross_chain_def sample_depositor_of_def)
  have "hex_buf e \<noteq> replicate 32 0"
  proof
    assume "hex_buf e = replicate 32 0"
    then have "e = Hex (replicate 32 0)" by (cases e) simp
    then have "Ethereum_decodeDepositOwner sample_getAddress (Hex (replicate 32 0)) = Inr sample_owner"
      using e(3) by (simp add: sample_depositor_of_def)
    moreover have "Ethereum_decodeDepositOwner sample_getAddress (Hex (replicate 32 0)) =
        Inr (EthereumAddress (bytes_to_hex (replicate 20 0)))"
      using EthereumAddress_from_bytes[OF getAddress_ok_sample, of "replicate 20 0"]
      by (simp add: Ethereum_decodeDepositOwner_def)
    ultimately show False by (simp add: sample_owner_def replicate_eq_replicate)
  qed
  then have ok: "checkExtraData (Some e) = Inr ()" using e(2) by (simp add: checkExtraData_ok)
  obtain r where r: "generateDepositReceipt sample_crypto sample_btcjs sample_system sample_service
      sample_recovery_address (proxy_getChainIdentifier (CrossChainDepositor sample_cross_chain L2Transaction)) (Some e) () = (Inr r, ())"
    using sample_generate[OF ok] by blast
  have s: "DepositScript_fromReceipt r True = Inr \<lparr>ds_receipt = r, ds_witness = True\<rparr>"
    using generated_receipt_ok[OF crypto_ok_sample sample_environment_ok r] receipt_ok_script by blast
  obtain d where d: "initiateCrossChainDeposit sample_crypto sample_btcjs sample_system sample_service sample_recovery_address
       ''Base'' () = (Inr d, ())"
    using cc x r s
    by (simp add: initiateCrossChainDeposit_def initiateDepositWithProxy_def bind_io_def Deposit_fromReceipt_def
        sample_service_def new_DepositsService_def sample_bitcoin_client_def)
  show ?thesis
    using d initiateCrossChainDeposit_owner[OF enc cc _ _ own d] by (auto simp: sample_cross_chain_def sample_depositor_of_def)
qed

end
