(* ===== verification/TxBuild.thy ===== *)
theory TxBuild
  imports Deposits
begin

section \<open>Building and signing transactions: shared parts\<close>

text \<open>
  The operations of bitcoinjs-lib that build and sign transactions, as parameters, and the
  steps the funding, refund, sweep and redemption components share: reading a previous output,
  writing the unlocking data of an input, the spending condition of a deposit. What the library
  documents of its operations is a predicate.
\<close>

subsection \<open>The library\<close>

record keypair =
  kp_publicKey :: "byte list"
  kp_sign :: "byte list \<Rightarrow> byte list"

record txlib =
  ecpair_fromWIF :: "string \<Rightarrow> js_network \<Rightarrow> keypair res"
  tx_new :: js_tx
  tx_addInput :: "js_tx \<Rightarrow> byte list \<Rightarrow> int \<Rightarrow> js_tx res"
  tx_addOutput :: "js_tx \<Rightarrow> byte list \<Rightarrow> int \<Rightarrow> js_tx res"
  hashForSignature :: "js_tx \<Rightarrow> nat \<Rightarrow> byte list \<Rightarrow> byte list res"
  hashForWitnessV0 :: "js_tx \<Rightarrow> nat \<Rightarrow> byte list \<Rightarrow> int \<Rightarrow> byte list res"
  signature_encode :: "byte list \<Rightarrow> byte list res"

text \<open>\<open>addInput\<close> and \<open>addOutput\<close> append, or throw.\<close>

definition txlib_ok :: "txlib \<Rightarrow> bool" where
  "txlib_ok L =
     (tx_ins (tx_new L) = [] \<and> tx_outs (tx_new L) = [] \<and>
      (\<forall>t h i t'. tx_addInput L t h i = Inr t' \<longrightarrow>
         t' = t\<lparr>tx_ins := tx_ins t @ [\<lparr>in_hash = h, in_index = i, in_script = [], in_sequence = 0xffffffff, in_witness = []\<rparr>]\<rparr>) \<and>
      (\<forall>t s v t'. tx_addOutput L t s v = Inr t' \<longrightarrow>
         t' = t\<lparr>tx_outs := tx_outs t @ [\<lparr>out_value = v, out_script = s\<rparr>]\<rparr>))"

datatype psbt_source = NonWitnessUtxo "byte list" | WitnessUtxo "byte list" int

record psbt_input =
  pi_hash :: "byte list"
  pi_index :: int
  pi_source :: psbt_source

datatype psbt_output = ScriptOutput "byte list" (psbt_value: int) | AddressOutput string (psbt_value: int)

text \<open>\<open>psbt_extract\<close> is \<open>signAllInputs\<close>, \<open>finalizeAllInputs\<close> and \<open>extractTransaction\<close>.\<close>

record 'p psbtlib =
  psbt_new :: "js_network \<Rightarrow> 'p"
  psbt_setVersion :: "int \<Rightarrow> 'p \<Rightarrow> 'p"
  psbt_addInput :: "psbt_input \<Rightarrow> 'p \<Rightarrow> 'p res"
  psbt_addOutput :: "psbt_output \<Rightarrow> 'p \<Rightarrow> 'p res"
  psbt_extract :: "keypair \<Rightarrow> 'p \<Rightarrow> js_tx res"

text \<open>What a partially signed transaction contains, and that the extracted one has the same
  outpoints and values.\<close>

definition psbt_ok :: "'p psbtlib \<Rightarrow> ('p \<Rightarrow> psbt_input list) \<Rightarrow> ('p \<Rightarrow> psbt_output list) \<Rightarrow> bool" where
  "psbt_ok P pins pouts =
     ((\<forall>n. pins (psbt_new P n) = [] \<and> pouts (psbt_new P n) = []) \<and>
      (\<forall>v p. pins (psbt_setVersion P v p) = pins p \<and> pouts (psbt_setVersion P v p) = pouts p) \<and>
      (\<forall>i p p'. psbt_addInput P i p = Inr p' \<longrightarrow> pins p' = pins p @ [i] \<and> pouts p' = pouts p) \<and>
      (\<forall>out p p'. psbt_addOutput P out p = Inr p' \<longrightarrow> pins p' = pins p \<and> pouts p' = pouts p @ [out]) \<and>
      (\<forall>k p t. psbt_extract P k p = Inr t \<longrightarrow>
         map (\<lambda>i. (in_hash i, in_index i)) (tx_ins t) = map (\<lambda>i. (pi_hash i, pi_index i)) (pins p) \<and>
         map out_value (tx_outs t) = map psbt_value (pouts p)))"

text \<open>What the outputs pay to: an output given by its script pays to it, one given by an address pays
  to the script of the address in the network the transaction was created for.\<close>

definition output_script :: "btcjs \<Rightarrow> js_network \<Rightarrow> psbt_output \<Rightarrow> byte list res" where
  "output_script lib network out = (case out of
     ScriptOutput scr v \<Rightarrow> Inr scr
   | AddressOutput address v \<Rightarrow> address_toOutputScript lib address network)"

definition psbt_pays :: "btcjs \<Rightarrow> 'p psbtlib \<Rightarrow> ('p \<Rightarrow> psbt_output list) \<Rightarrow> ('p \<Rightarrow> js_network) \<Rightarrow> bool" where
  "psbt_pays lib P pouts pnet =
     ((\<forall>n. pnet (psbt_new P n) = n) \<and>
      (\<forall>v p. pnet (psbt_setVersion P v p) = pnet p) \<and>
      (\<forall>i p p'. psbt_addInput P i p = Inr p' \<longrightarrow> pnet p' = pnet p) \<and>
      (\<forall>out p p'. psbt_addOutput P out p = Inr p' \<longrightarrow> pnet p' = pnet p) \<and>
      (\<forall>k p t. psbt_extract P k p = Inr t \<longrightarrow>
         map (\<lambda>out. Inr (out_script out)) (tx_outs t) = map (output_script lib (pnet p)) (pouts p)))"

subsection \<open>Shared operations\<close>

record UtxoWithRaw = BitcoinUtxo +
  raw_transactionHex :: string

definition createKeyPair :: "txlib \<Rightarrow> string \<Rightarrow> BitcoinNetwork \<Rightarrow> keypair res" where
  "createKeyPair L privateKey bitcoinNetwork =
     bind_res (toBitcoinJsLibNetwork bitcoinNetwork) (\<lambda>network. ecpair_fromWIF L privateKey network)"

text \<open>\<open>Transaction.fromHex(hex).outs[index]\<close>, of which the caller reads a field.\<close>

definition previousOutput :: "btcjs \<Rightarrow> string \<Rightarrow> int \<Rightarrow> js_tx_out res" where
  "previousOutput lib hex index =
     bind_res (tx_fromBuffer lib (hex_to_bytes hex)) (\<lambda>t.
     if 0 \<le> index \<and> index < int (length (tx_outs t)) then Inr (tx_outs t ! nat index)
     else Inl (TypeError ''Cannot read properties of undefined''))"

definition set_input :: "js_tx \<Rightarrow> nat \<Rightarrow> (js_tx_in \<Rightarrow> js_tx_in) \<Rightarrow> js_tx res" where
  "set_input t i f = (if i < length (tx_ins t) then Inr (t\<lparr>tx_ins := (tx_ins t)[i := f (tx_ins t ! i)]\<rparr>)
     else Inl (TypeError ''Cannot set properties of undefined''))"

definition signature :: "txlib \<Rightarrow> keypair \<Rightarrow> byte list \<Rightarrow> byte list res" where
  "signature L keyPair sigHash = signature_encode L (kp_sign keyPair sigHash)"

text \<open>The unlocking data of a deposit input: signature, public key, deposit script.\<close>

definition signP2SH :: "btcjs \<Rightarrow> txlib \<Rightarrow> js_tx \<Rightarrow> nat \<Rightarrow> byte list \<Rightarrow> keypair \<Rightarrow> js_tx res" where
  "signP2SH lib L transaction inputIndex depositScript keyPair =
     bind_res (hashForSignature L transaction inputIndex depositScript) (\<lambda>sigHash.
     bind_res (signature L keyPair sigHash) (\<lambda>sig.
     set_input transaction inputIndex (\<lambda>i. i\<lparr>in_script :=
       script_compile lib [Push sig, Push (kp_publicKey keyPair), Push depositScript]\<rparr>)))"

definition signP2WSH :: "txlib \<Rightarrow> js_tx \<Rightarrow> nat \<Rightarrow> byte list \<Rightarrow> int \<Rightarrow> keypair \<Rightarrow> js_tx res" where
  "signP2WSH L transaction inputIndex depositScript previousOutputValue keyPair =
     bind_res (hashForWitnessV0 L transaction inputIndex depositScript previousOutputValue) (\<lambda>sigHash.
     bind_res (signature L keyPair sigHash) (\<lambda>sig.
     set_input transaction inputIndex (\<lambda>i. i\<lparr>in_witness := [sig, kp_publicKey keyPair, depositScript]\<rparr>)))"

subsection \<open>Lemmas\<close>

definition outpoint :: "js_tx_in \<Rightarrow> byte list \<times> int" where
  "outpoint i = (in_hash i, in_index i)"

text \<open>Signing changes neither the outpoints nor the outputs of a transaction.\<close>

definition same_frame :: "js_tx \<Rightarrow> js_tx \<Rightarrow> bool" where
  "same_frame t t' = (map outpoint (tx_ins t') = map outpoint (tx_ins t) \<and> tx_outs t' = tx_outs t)"

lemma same_frame_refl [simp]: "same_frame t t"
  by (simp add: same_frame_def)

lemma same_frame_trans [trans]: "same_frame a b \<Longrightarrow> same_frame b c \<Longrightarrow> same_frame a c"
  by (simp add: same_frame_def)

lemma set_input_frame:
  "set_input t i f = Inr t' \<Longrightarrow> (\<And>x. outpoint (f x) = outpoint x) \<Longrightarrow> same_frame t t'"
  by (auto simp: set_input_def same_frame_def map_update list_update_same_conv split: if_splits)

lemma signP2SH_frame: "signP2SH lib L t i s k = Inr t' \<Longrightarrow> same_frame t t'"
  by (auto simp: signP2SH_def res_simps outpoint_def elim!: set_input_frame)

lemma signP2WSH_frame: "signP2WSH L t i s v k = Inr t' \<Longrightarrow> same_frame t t'"
  by (auto simp: signP2WSH_def res_simps outpoint_def elim!: set_input_frame)

lemma addInput_eq:
  "txlib_ok L \<Longrightarrow> tx_addInput L t h i = Inr t' \<Longrightarrow>
   t' = t\<lparr>tx_ins := tx_ins t @ [\<lparr>in_hash = h, in_index = i, in_script = [], in_sequence = 0xffffffff, in_witness = []\<rparr>]\<rparr>"
  unfolding txlib_ok_def by blast

lemma addInput_outpoint:
  "txlib_ok L \<Longrightarrow> tx_addInput L t h i = Inr t' \<Longrightarrow>
   map outpoint (tx_ins t') = map outpoint (tx_ins t) @ [(h, i)] \<and> tx_outs t' = tx_outs t"
  by (drule (1) addInput_eq) (simp add: outpoint_def)

lemma addOutput_eq:
  "txlib_ok L \<Longrightarrow> tx_addOutput L t s v = Inr t' \<Longrightarrow>
   t' = t\<lparr>tx_outs := tx_outs t @ [\<lparr>out_value = v, out_script = s\<rparr>]\<rparr>"
  unfolding txlib_ok_def by blast

lemma addOutput_outs:
  "txlib_ok L \<Longrightarrow> tx_addOutput L t s v = Inr t' \<Longrightarrow>
   tx_ins t' = tx_ins t \<and> tx_outs t' = tx_outs t @ [\<lparr>out_value = v, out_script = s\<rparr>]"
  by (drule (1) addOutput_eq) simp

subsection \<open>Sample library\<close>

definition sample_tx_lib :: txlib where
  "sample_tx_lib = \<lparr>ecpair_fromWIF = (\<lambda>w n. Inr \<lparr>kp_publicKey = 2 # replicate 32 1, kp_sign = id\<rparr>),
     tx_new = \<lparr>tx_version = 1, tx_ins = [], tx_outs = [], tx_locktime = 0\<rparr>,
     tx_addInput = (\<lambda>t h i. Inr (t\<lparr>tx_ins := tx_ins t @
       [\<lparr>in_hash = h, in_index = i, in_script = [], in_sequence = 0xffffffff, in_witness = []\<rparr>]\<rparr>)),
     tx_addOutput = (\<lambda>t s v. if 0 \<le> v then Inr (t\<lparr>tx_outs := tx_outs t @ [\<lparr>out_value = v, out_script = s\<rparr>]\<rparr>)
       else Inl (TypeError ''Expected property of type Satoshi'')),
     hashForSignature = (\<lambda>t i s. Inr s), hashForWitnessV0 = (\<lambda>t i s v. Inr s), signature_encode = Inr\<rparr>"

lemma txlib_ok_sample: "txlib_ok sample_tx_lib"
  by (auto simp: txlib_ok_def sample_tx_lib_def split: if_splits)

type_synonym sample_psbt = "js_network \<times> psbt_input list \<times> psbt_output list"

definition sample_psbt_lib :: "sample_psbt psbtlib" where
  "sample_psbt_lib = \<lparr>psbt_new = (\<lambda>n. (n, [], [])), psbt_setVersion = (\<lambda>v p. p),
     psbt_addInput = (\<lambda>i (n, is, os). Inr (n, is @ [i], os)),
     psbt_addOutput = (\<lambda>out (n, is, os). if 0 \<le> psbt_value out then Inr (n, is, os @ [out]) else Inl (Error ''Invalid value'')),
     psbt_extract = (\<lambda>k (n, is, os). Inr \<lparr>tx_version = 1,
       tx_ins = map (\<lambda>i. \<lparr>in_hash = pi_hash i, in_index = pi_index i, in_script = [], in_sequence = 0xffffffff, in_witness = []\<rparr>) is,
       tx_outs = map (\<lambda>out. \<lparr>out_value = psbt_value out,
         out_script = (case out of ScriptOutput scr v \<Rightarrow> scr | AddressOutput a v \<Rightarrow> hex_to_bytes a)\<rparr>) os, tx_locktime = 0\<rparr>)\<rparr>"

lemma psbt_ok_sample: "psbt_ok sample_psbt_lib (fst \<circ> snd) (snd \<circ> snd)"
  by (auto simp: psbt_ok_def sample_psbt_lib_def comp_def split: if_splits)

lemma psbt_pays_sample:
  "address_toOutputScript lib = (\<lambda>a n. Inr (hex_to_bytes a)) \<Longrightarrow> psbt_pays lib sample_psbt_lib (snd \<circ> snd) fst"
  by (auto simp: psbt_pays_def sample_psbt_lib_def output_script_def split: if_splits psbt_output.splits)

end
