(* ===== verification/DepositTx.thy ===== *)
theory DepositTx
  imports TxBuild
begin

section \<open>Funding and refund transactions (services/deposits/funding.ts, refund.ts)\<close>

text \<open>
  The transaction that funds a deposit from the depositor's P2WPKH outputs, and the one that
  takes an unswept deposit back after its locktime. The lemmas say which outputs are selected,
  that no satoshi is lost between inputs, deposit, fee and change, and what the refund must
  carry to satisfy the time lock of the script.
\<close>

subsection \<open>Funding (funding.ts)\<close>

text \<open>The selection loop: outputs of another type are skipped, and it stops as soon as the sum
  covers the expenses.\<close>

fun selectUtxos ::
  "btcjs \<Rightarrow> 'p psbtlib \<Rightarrow> int \<Rightarrow> UtxoWithRaw list \<Rightarrow> 'p \<Rightarrow> int \<Rightarrow> ('p \<times> int) res" where
  "selectUtxos lib P totalExpenses [] psbt totalInputValue = Inr (psbt, totalInputValue)"
| "selectUtxos lib P totalExpenses (utxo # utxos) psbt totalInputValue =
     bind_res (previousOutput lib (raw_transactionHex utxo) (op_outputIndex utxo)) (\<lambda>prev.
     if isP2WPKHScript lib (Hex_from_buffer (out_script prev))
     then bind_res (psbt_addInput P \<lparr>pi_hash = toBuffer (hex_reverse (op_transactionHash utxo)),
              pi_index = op_outputIndex utxo, pi_source = WitnessUtxo (out_script prev) (out_value prev)\<rparr> psbt) (\<lambda>psbt'.
          let total = totalInputValue + utxo_value utxo in
          if total \<ge> totalExpenses then Inr (psbt', total)
          else selectUtxos lib P totalExpenses utxos psbt' total)
     else selectUtxos lib P totalExpenses utxos psbt totalInputValue)"

text \<open>The partially signed transaction with its inputs and outputs.\<close>

definition fundingPsbt ::
  "crypto \<Rightarrow> btcjs \<Rightarrow> 'p psbtlib \<Rightarrow> DepositScript \<Rightarrow> BitcoinNetwork \<Rightarrow> js_network \<Rightarrow> int \<Rightarrow> UtxoWithRaw list \<Rightarrow> int \<Rightarrow>
   keypair \<Rightarrow> 'p res" where
  "fundingPsbt c lib P s bitcoinNetwork network amount inputUtxos fee depositorKeyPair =
     (let psbt0 = psbt_setVersion P 1 (psbt_new P network);
          totalExpenses = amount + fee in
     bind_res (selectUtxos lib P totalExpenses inputUtxos psbt0 0) (\<lambda>(psbt1, totalInputValue).
     if totalInputValue < totalExpenses
     then Inl (Error ''Not enough funds in selected UTXOs to fund transaction'')
     else
     bind_res (deriveAddress c lib s bitcoinNetwork) (\<lambda>address.
     bind_res (bn_toNumber amount) (\<lambda>amountNumber.
     bind_res (psbt_addOutput P (AddressOutput address amountNumber) psbt1) (\<lambda>psbt2.
     let changeValue = totalInputValue - totalExpenses in
     if changeValue > 0
     then bind_res (publicKeyToAddress lib (Hex_from_buffer (kp_publicKey depositorKeyPair)) bitcoinNetwork True) (\<lambda>depositorAddress.
          bind_res (bn_toNumber changeValue) (\<lambda>changeNumber.
          psbt_addOutput P (AddressOutput depositorAddress changeNumber) psbt2))
     else Inr psbt2)))))"

definition fundingTransaction ::
  "crypto \<Rightarrow> btcjs \<Rightarrow> txlib \<Rightarrow> 'p psbtlib \<Rightarrow> DepositScript \<Rightarrow> BitcoinNetwork \<Rightarrow> int \<Rightarrow> UtxoWithRaw list \<Rightarrow> int \<Rightarrow>
   string \<Rightarrow> js_tx res" where
  "fundingTransaction c lib L P s bitcoinNetwork amount inputUtxos fee depositorPrivateKey =
     bind_res (toBitcoinJsLibNetwork bitcoinNetwork) (\<lambda>network.
     bind_res (createKeyPair L depositorPrivateKey bitcoinNetwork) (\<lambda>depositorKeyPair.
     bind_res (fundingPsbt c lib P s bitcoinNetwork network amount inputUtxos fee depositorKeyPair) (\<lambda>psbt.
     psbt_extract P depositorKeyPair psbt)))"

record TxOutcome =
  out_transactionHash :: Hex
  out_utxo :: "BitcoinUtxo option"
  out_rawTransaction :: BitcoinRawTx

definition fundingAssemble ::
  "crypto \<Rightarrow> btcjs \<Rightarrow> txlib \<Rightarrow> 'p psbtlib \<Rightarrow> DepositScript \<Rightarrow> BitcoinNetwork \<Rightarrow> int \<Rightarrow> UtxoWithRaw list \<Rightarrow> int \<Rightarrow>
   string \<Rightarrow> TxOutcome res" where
  "fundingAssemble c lib L P s bitcoinNetwork amount inputUtxos fee depositorPrivateKey =
     bind_res (fundingTransaction c lib L P s bitcoinNetwork amount inputUtxos fee depositorPrivateKey) (\<lambda>transaction.
     bind_res (Hex_from_string (tx_getId lib transaction)) (\<lambda>transactionHash.
     Inr \<lparr>out_transactionHash = transactionHash,
       out_utxo = Some \<lparr>op_transactionHash = transactionHash, op_outputIndex = 0, utxo_value = amount\<rparr>,
       out_rawTransaction = \<lparr>transactionHex = tx_toHex lib transaction\<rparr>\<rparr>))"

definition withRaw :: "'w bitcoin_client \<Rightarrow> BitcoinUtxo \<Rightarrow> ('w, UtxoWithRaw) io" where
  "withRaw bitcoinClient utxo =
     bind_io (getRawTransaction bitcoinClient (op_transactionHash utxo)) (\<lambda>raw.
     return_io (BitcoinUtxo.extend utxo \<lparr>raw_transactionHex = transactionHex raw\<rparr>))"

definition fundingSubmit ::
  "crypto \<Rightarrow> btcjs \<Rightarrow> txlib \<Rightarrow> 'p psbtlib \<Rightarrow> DepositScript \<Rightarrow> int \<Rightarrow> BitcoinUtxo list \<Rightarrow> int \<Rightarrow> string \<Rightarrow>
   'w bitcoin_client \<Rightarrow> ('w, Hex \<times> BitcoinUtxo option) io" where
  "fundingSubmit c lib L P s amount inputUtxos fee depositorPrivateKey bitcoinClient =
     bind_io (map_io (withRaw bitcoinClient) inputUtxos) (\<lambda>utxosWithRaw.
     bind_io (getNetwork bitcoinClient) (\<lambda>bitcoinNetwork.
     bind_io (lift_io (fundingAssemble c lib L P s bitcoinNetwork amount utxosWithRaw fee depositorPrivateKey)) (\<lambda>outcome.
     bind_io (broadcast bitcoinClient (out_rawTransaction outcome)) (\<lambda>_.
     return_io (out_transactionHash outcome, out_utxo outcome)))))"

subsection \<open>Refund (refund.ts)\<close>

text \<open>\<open>parseInt(hex, 16)\<close> of the bytes in reversed order; \<open>NaN\<close> of an empty value cannot occur,
  since the receipt was validated.\<close>

definition locktimeToUnixTimestamp :: "Hex \<Rightarrow> int" where
  "locktimeToUnixTimestamp locktime = int (hex_num (toString (hex_reverse locktime)))"

definition refund_prepareDepositScript :: "crypto \<Rightarrow> btcjs \<Rightarrow> DepositScript \<Rightarrow> keypair \<Rightarrow> byte list res" where
  "refund_prepareDepositScript c lib s refunderKeyPair =
     (let refunderPublicKey = Hex_from_buffer (kp_publicKey refunderKeyPair) in
      bind_res (computeHash160 c refunderPublicKey) (\<lambda>h.
      if \<not> hex_equals h (dr_refundPublicKeyHash (ds_receipt s))
      then Inl (Error ''Refund public key does not correspond to wallet private key'')
      else if \<not> isCompressedPublicKey refunderPublicKey
      then Inl (Error ''Refunder public key must be compressed'')
      else Inr (toBuffer (getPlainText lib s))))"

definition refundTransaction ::
  "crypto \<Rightarrow> btcjs \<Rightarrow> txlib \<Rightarrow> DepositScript \<Rightarrow> BitcoinNetwork \<Rightarrow> int \<Rightarrow> UtxoWithRaw \<Rightarrow> string \<Rightarrow> string \<Rightarrow> js_tx res" where
  "refundTransaction c lib L s bitcoinNetwork fee utxo refunderAddress refunderPrivateKey =
     bind_res (validateDepositReceipt (ds_receipt s)) (\<lambda>_.
     bind_res (createKeyPair L refunderPrivateKey bitcoinNetwork) (\<lambda>refunderKeyPair.
     let outputValue = utxo_value utxo - fee in
     bind_res (tx_addInput L (tx_new L) (toBuffer (hex_reverse (op_transactionHash utxo))) (op_outputIndex utxo)) (\<lambda>t1.
     bind_res (addressToOutputScript lib refunderAddress bitcoinNetwork) (\<lambda>outputScript.
     bind_res (bn_toNumber outputValue) (\<lambda>outputNumber.
     bind_res (tx_addOutput L t1 (toBuffer outputScript) outputNumber) (\<lambda>t2.
     let t3 = t2\<lparr>tx_locktime := locktimeToUnixTimestamp (dr_refundLocktime (ds_receipt s))\<rparr> in
     bind_res (set_input t3 0 (\<lambda>i. i\<lparr>in_sequence := 0xfffffffe\<rparr>)) (\<lambda>t4.
     bind_res (previousOutput lib (raw_transactionHex utxo) (op_outputIndex utxo)) (\<lambda>prev.
     if isP2SHScript lib (Hex_from_buffer (out_script prev))
     then bind_res (refund_prepareDepositScript c lib s refunderKeyPair) (\<lambda>depositScript.
          signP2SH lib L t4 0 depositScript refunderKeyPair)
     else if isP2WSHScript lib (Hex_from_buffer (out_script prev))
     then bind_res (refund_prepareDepositScript c lib s refunderKeyPair) (\<lambda>depositScript.
          signP2WSH L t4 0 depositScript (out_value prev) refunderKeyPair)
     else Inl (Error ''Unsupported UTXO script type'')))))))))"

definition refundAssemble ::
  "crypto \<Rightarrow> btcjs \<Rightarrow> txlib \<Rightarrow> DepositScript \<Rightarrow> BitcoinNetwork \<Rightarrow> int \<Rightarrow> UtxoWithRaw \<Rightarrow> string \<Rightarrow> string \<Rightarrow> TxOutcome res" where
  "refundAssemble c lib L s bitcoinNetwork fee utxo refunderAddress refunderPrivateKey =
     bind_res (refundTransaction c lib L s bitcoinNetwork fee utxo refunderAddress refunderPrivateKey) (\<lambda>transaction.
     bind_res (Hex_from_string (tx_getId lib transaction)) (\<lambda>transactionHash.
     Inr \<lparr>out_transactionHash = transactionHash, out_utxo = None,
       out_rawTransaction = \<lparr>transactionHex = tx_toHex lib transaction\<rparr>\<rparr>))"

definition refundSubmit ::
  "crypto \<Rightarrow> btcjs \<Rightarrow> txlib \<Rightarrow> DepositScript \<Rightarrow> 'w bitcoin_client \<Rightarrow> int \<Rightarrow> BitcoinUtxo \<Rightarrow> string \<Rightarrow> string \<Rightarrow> ('w, Hex) io" where
  "refundSubmit c lib L s bitcoinClient fee utxo refunderAddress refunderPrivateKey =
     bind_io (withRaw bitcoinClient utxo) (\<lambda>utxoWithRaw.
     bind_io (getNetwork bitcoinClient) (\<lambda>bitcoinNetwork.
     bind_io (lift_io (refundAssemble c lib L s bitcoinNetwork fee utxoWithRaw refunderAddress refunderPrivateKey)) (\<lambda>outcome.
     bind_io (broadcast bitcoinClient (out_rawTransaction outcome)) (\<lambda>_.
     return_io (out_transactionHash outcome)))))"

subsection \<open>Lemmas on selection\<close>

definition spendable :: "btcjs \<Rightarrow> UtxoWithRaw \<Rightarrow> bool" where
  "spendable lib u = (case previousOutput lib (raw_transactionHex u) (op_outputIndex u) of
     Inl _ \<Rightarrow> False | Inr prev \<Rightarrow> isP2WPKHScript lib (Hex_from_buffer (out_script prev)))"

text \<open>The outputs the loop selects, without the transaction it builds.\<close>

fun picked :: "btcjs \<Rightarrow> int \<Rightarrow> UtxoWithRaw list \<Rightarrow> int \<Rightarrow> UtxoWithRaw list" where
  "picked lib e [] a = []"
| "picked lib e (u # us) a =
     (if spendable lib u then u # (if a + utxo_value u \<ge> e then [] else picked lib e us (a + utxo_value u))
      else picked lib e us a)"

definition utxo_outpoint :: "('a) BitcoinUtxo_scheme \<Rightarrow> byte list \<times> int" where
  "utxo_outpoint u = (rev (hex_buf (op_transactionHash u)), op_outputIndex u)"

definition sum_utxos :: "('a) BitcoinUtxo_scheme list \<Rightarrow> int" where
  "sum_utxos us = sum_list (map utxo_value us)"

lemma sum_utxos_simps [simp]:
  "sum_utxos [] = 0" "sum_utxos (u # us) = utxo_value u + sum_utxos us" "sum_utxos (us @ vs) = sum_utxos us + sum_utxos vs"
  by (simp_all add: sum_utxos_def)

lemma hex_reverse_bytes [simp]: "toBuffer (hex_reverse h) = rev (hex_buf h)"
  by (simp add: toBuffer_def)

lemma psbt_addInput_eq:
  "psbt_ok P pins pouts \<Longrightarrow> psbt_addInput P i p = Inr p' \<Longrightarrow> pins p' = pins p @ [i] \<and> pouts p' = pouts p"
  unfolding psbt_ok_def by blast

lemma psbt_addOutput_eq:
  "psbt_ok P pins pouts \<Longrightarrow> psbt_addOutput P out p = Inr p' \<Longrightarrow> pins p' = pins p \<and> pouts p' = pouts p @ [out]"
  unfolding psbt_ok_def by blast

lemma psbt_new_eq:
  "psbt_ok P pins pouts \<Longrightarrow> pins (psbt_setVersion P v (psbt_new P n)) = [] \<and> pouts (psbt_setVersion P v (psbt_new P n)) = []"
  unfolding psbt_ok_def by metis

lemma psbt_extract_eq:
  "psbt_ok P pins pouts \<Longrightarrow> psbt_extract P k p = Inr t \<Longrightarrow>
   map outpoint (tx_ins t) = map (\<lambda>i. (pi_hash i, pi_index i)) (pins p) \<and>
   map out_value (tx_outs t) = map psbt_value (pouts p)"
  unfolding psbt_ok_def outpoint_def[abs_def] by blast

lemma bn_toNumber_eq: "bn_toNumber v = Inr n \<Longrightarrow> n = v"
  by (simp add: bn_toNumber_def split: if_splits)

lemma selectUtxos_picked:
  assumes "psbt_ok P pins pouts" "selectUtxos lib P e us p a = Inr (p', a')"
  shows "pouts p' = pouts p \<and>
     map (\<lambda>i. (pi_hash i, pi_index i)) (pins p') =
       map (\<lambda>i. (pi_hash i, pi_index i)) (pins p) @ map utxo_outpoint (picked lib e us a) \<and>
     a' = a + sum_utxos (picked lib e us a)"
  using assms(2)
proof (induction us arbitrary: p a)
  case (Cons u us)
  obtain prev where prev: "previousOutput lib (raw_transactionHex u) (op_outputIndex u) = Inr prev"
    using Cons.prems by (auto simp: res_simps)
  show ?case
  proof (cases "spendable lib u")
    case True
    then have w: "isP2WPKHScript lib (Hex_from_buffer (out_script prev))" using prev by (simp add: spendable_def)
    let ?i = "\<lparr>pi_hash = toBuffer (hex_reverse (op_transactionHash u)), pi_index = op_outputIndex u,
       pi_source = WitnessUtxo (out_script prev) (out_value prev)\<rparr>"
    obtain q where q: "psbt_addInput P ?i p = Inr q" using Cons.prems prev w by (auto simp: res_simps)
    note pq = psbt_addInput_eq[OF assms(1) q]
    show ?thesis
    proof (cases "a + utxo_value u \<ge> e")
      case False
      then have "selectUtxos lib P e us q (a + utxo_value u) = Inr (p', a')"
        using Cons.prems prev w q by (simp add: Let_def)
      from Cons.IH[OF this] show ?thesis using True False pq by (simp add: utxo_outpoint_def)
    qed (use Cons.prems prev w q pq True in \<open>auto simp: Let_def utxo_outpoint_def\<close>)
  next
    case False
    then have "selectUtxos lib P e us p a = Inr (p', a')"
      using Cons.prems prev by (simp add: spendable_def)
    from Cons.IH[OF this] show ?thesis using False by simp
  qed
qed simp

text \<open>The selection is the shortest sufficient beginning of the spendable outputs, or all of them.\<close>

lemma picked_prefix: "\<exists>n. picked lib e us a = take n (filter (spendable lib) us)"
proof (induction us arbitrary: a)
  case (Cons u us)
  obtain n where "picked lib e us (a + utxo_value u) = take n (filter (spendable lib) us)" using Cons by blast
  moreover obtain m where "picked lib e us a = take m (filter (spendable lib) us)" using Cons by blast
  ultimately show ?case
    by (cases "spendable lib u"; cases "a + utxo_value u \<ge> e")
      (auto intro: exI[of _ "Suc 0"] exI[of _ "Suc n"] exI[of _ m])
qed simp

lemma picked_all: "a + sum_utxos (picked lib e us a) < e \<Longrightarrow> picked lib e us a = filter (spendable lib) us"
proof (induction us arbitrary: a)
  case (Cons u us)
  then show ?case using Cons.IH[of "a + utxo_value u"] Cons.IH[of a] by (auto split: if_splits)
qed simp

lemma picked_minimal:
  "a < e \<Longrightarrow> k < length (picked lib e us a) \<Longrightarrow> a + sum_utxos (take k (picked lib e us a)) < e"
proof (induction us arbitrary: a k)
  case (Cons u us)
  show ?case
  proof (cases k)
    case (Suc j)
    then show ?thesis
      using Cons.prems Cons.IH[of "a + utxo_value u" j] Cons.IH[of a k] by (auto split: if_splits)
  qed (use Cons.prems in simp)
qed simp

lemma fundingPsbt_parts:
  assumes "psbt_ok P pins pouts" "fundingPsbt c lib P s bn net amount us fee k = Inr p"
  shows "let sel = picked lib (amount + fee) us 0 in
     amount + fee \<le> sum_utxos sel \<and>
     map (\<lambda>i. (pi_hash i, pi_index i)) (pins p) = map utxo_outpoint sel \<and>
     map psbt_value (pouts p) =
       amount # (if sum_utxos sel > amount + fee then [sum_utxos sel - amount - fee] else [])"
proof -
  let ?new = "psbt_setVersion P 1 (psbt_new P net)"
  obtain p1 total where sel: "selectUtxos lib P (amount + fee) us ?new 0 = Inr (p1, total)"
    using assms(2) by (auto simp: fundingPsbt_def Let_def res_simps)
  have enough: "\<not> total < amount + fee"
    using assms(2) sel by (auto simp: fundingPsbt_def Let_def)
  obtain address amt p2 where
    n: "bn_toNumber amount = Inr amt" and o1: "psbt_addOutput P (AddressOutput address amt) p1 = Inr p2"
    and rest: "(if 0 < total - (amount + fee)
       then bind_res (publicKeyToAddress lib (Hex_from_buffer (kp_publicKey k)) bn True) (\<lambda>depositorAddress.
            bind_res (bn_toNumber (total - (amount + fee))) (\<lambda>changeNumber.
            psbt_addOutput P (AddressOutput depositorAddress changeNumber) p2))
       else Inr p2) = Inr p"
    using assms(2) sel enough by (auto simp: fundingPsbt_def Let_def res_simps)
  note s = selectUtxos_picked[OF assms(1) sel] psbt_new_eq[OF assms(1), of 1 net]
  note o1' = psbt_addOutput_eq[OF assms(1) o1]
  have amt: "amt = amount" using n by (rule bn_toNumber_eq)
  show ?thesis
  proof (cases "0 < total - (amount + fee)")
    case True
    then obtain address2 ch where ch: "bn_toNumber (total - (amount + fee)) = Inr ch"
      and o2: "psbt_addOutput P (AddressOutput address2 ch) p2 = Inr p"
      using rest by (auto simp: res_simps)
    show ?thesis using psbt_addOutput_eq[OF assms(1) o2] o1' s True enough bn_toNumber_eq[OF ch] amt
      by (auto simp: Let_def)
  next
    case False
    then show ?thesis using rest o1' s enough amt by (auto simp: Let_def)
  qed
qed

subsection \<open>Lemmas on the refund\<close>

lemma locktimeToUnixTimestamp_bytes: "locktimeToUnixTimestamp (Hex bs) = int (le_nat bs)"
  by (simp add: locktimeToUnixTimestamp_def le_nat_def)

text \<open>How an input unlocks a deposit: by its script signature or by its witness.\<close>

definition unlocks_with :: "btcjs \<Rightarrow> js_tx_in \<Rightarrow> keypair \<Rightarrow> byte list \<Rightarrow> bool" where
  "unlocks_with lib i k depositScript =
     (\<exists>sig. in_script i = script_compile lib [Push sig, Push (kp_publicKey k), Push depositScript] \<or>
            in_witness i = [sig, kp_publicKey k, depositScript])"

lemma signP2SH_unlocks:
  "signP2SH lib L t i s k = Inr t' \<Longrightarrow> i < length (tx_ins t') \<and> unlocks_with lib (tx_ins t' ! i) k s \<and>
     in_sequence (tx_ins t' ! i) = in_sequence (tx_ins t ! i) \<and> tx_locktime t' = tx_locktime t"
  by (auto simp: signP2SH_def res_simps set_input_def unlocks_with_def split: if_splits)

lemma signP2WSH_unlocks:
  "signP2WSH L t i s v k = Inr t' \<Longrightarrow> i < length (tx_ins t') \<and> unlocks_with lib (tx_ins t' ! i) k s \<and>
     in_sequence (tx_ins t' ! i) = in_sequence (tx_ins t ! i) \<and> tx_locktime t' = tx_locktime t"
  by (auto simp: signP2WSH_def res_simps set_input_def unlocks_with_def split: if_splits)

lemma refund_prepare_ok:
  "refund_prepareDepositScript c lib s k = Inr ds \<Longrightarrow>
     ds = toBuffer (getPlainText lib s) \<and>
     computeHash160 c (Hex (kp_publicKey k)) = Inr (dr_refundPublicKeyHash (ds_receipt s)) \<and>
     isCompressedPublicKey (Hex (kp_publicKey k))"
  by (auto simp: refund_prepareDepositScript_def Let_def res_simps Hex_from_buffer_def split: if_splits)

lemma refund_parts:
  assumes L: "txlib_ok L"
    and r: "refundTransaction c lib L s bn fee utxo addr wif = Inr t"
  shows "receipt_ok (ds_receipt s) \<and> map outpoint (tx_ins t) = [utxo_outpoint utxo] \<and>
     map out_value (tx_outs t) = [utxo_value utxo - fee] \<and>
     tx_locktime t = int (le_nat (hex_buf (dr_refundLocktime (ds_receipt s)))) \<and>
     in_sequence (tx_ins t ! 0) = 0xfffffffe \<and>
     (\<exists>k. createKeyPair L wif bn = Inr k \<and>
       computeHash160 c (Hex (kp_publicKey k)) = Inr (dr_refundPublicKeyHash (ds_receipt s)) \<and>
       unlocks_with lib (tx_ins t ! 0) k (toBuffer (getPlainText lib s)))"
proof -
  obtain u k t1 scr n t2 t4 and prev :: js_tx_out where
    v: "validateDepositReceipt (ds_receipt s) = Inr u" and k: "createKeyPair L wif bn = Inr k"
    and t1: "tx_addInput L (tx_new L) (rev (hex_buf (op_transactionHash utxo))) (op_outputIndex utxo) = Inr t1"
    and n: "bn_toNumber (utxo_value utxo - fee) = Inr n"
    and t2: "tx_addOutput L t1 (toBuffer scr) n = Inr t2"
    and t4: "set_input (t2\<lparr>tx_locktime := locktimeToUnixTimestamp (dr_refundLocktime (ds_receipt s))\<rparr>) 0
       (\<lambda>i. i\<lparr>in_sequence := 0xfffffffe\<rparr>) = Inr t4"
    and sign: "(if isP2SHScript lib (Hex_from_buffer (out_script prev))
     then bind_res (refund_prepareDepositScript c lib s k) (\<lambda>depositScript. signP2SH lib L t4 0 depositScript k)
     else if isP2WSHScript lib (Hex_from_buffer (out_script prev))
     then bind_res (refund_prepareDepositScript c lib s k) (\<lambda>depositScript.
          signP2WSH L t4 0 depositScript (out_value prev) k)
     else Inl (Error ''Unsupported UTXO script type'')) = Inr t"
    using r unfolding refundTransaction_def Let_def bind_res_Inr hex_reverse_bytes
    by (elim exE conjE) (rule that, assumption+)
  obtain ds where ds: "refund_prepareDepositScript c lib s k = Inr ds"
    and st: "signP2SH lib L t4 0 ds k = Inr t \<or> signP2WSH L t4 0 ds (out_value prev) k = Inr t"
    using sign by (auto simp: res_simps split: if_splits)
  have frame: "same_frame t4 t" and un: "unlocks_with lib (tx_ins t ! 0) k ds"
    "in_sequence (tx_ins t ! 0) = in_sequence (tx_ins t4 ! 0)" "tx_locktime t = tx_locktime t4"
    using st by (elim disjE; simp add: signP2SH_frame signP2WSH_frame signP2SH_unlocks signP2WSH_unlocks[where lib = lib])+
  have new: "tx_ins (tx_new L) = []" "tx_outs (tx_new L) = []" using L by (simp_all add: txlib_ok_def)
  note e1 = addInput_eq[OF L t1] and e2 = addOutput_eq[OF L t2] and e3 = bn_toNumber_eq[OF n]
  have t4e: "map outpoint (tx_ins t4) = [utxo_outpoint utxo]" "map out_value (tx_outs t4) = [utxo_value utxo - fee]"
    "in_sequence (tx_ins t4 ! 0) = 0xfffffffe"
    "tx_locktime t4 = locktimeToUnixTimestamp (dr_refundLocktime (ds_receipt s))"
    using t4 e1 e2 e3 new by (auto simp: set_input_def outpoint_def utxo_outpoint_def)
  have lock: "locktimeToUnixTimestamp (dr_refundLocktime (ds_receipt s)) = int (le_nat (hex_buf (dr_refundLocktime (ds_receipt s))))"
    using locktimeToUnixTimestamp_bytes[of "hex_buf (dr_refundLocktime (ds_receipt s))"] by simp
  show ?thesis
    using frame un t4e lock refund_prepare_ok[OF ds] v k
    by (auto simp: same_frame_def validateDepositReceipt_iff)
qed

subsection \<open>Samples\<close>

text \<open>A library whose raw transactions have one P2WPKH output.\<close>

definition sample_funding_lib :: btcjs where
  "sample_funding_lib = sample_btcjs\<lparr>tx_fromBuffer := (\<lambda>b. Inr \<lparr>tx_version = 1, tx_ins = [],
     tx_outs = [\<lparr>out_value = 600, out_script = [0, 20]\<rparr>], tx_locktime = 0\<rparr>)\<rparr>"

definition sample_utxo :: "nat \<Rightarrow> UtxoWithRaw" where
  "sample_utxo i = \<lparr>op_transactionHash = Hex [byte_of i], op_outputIndex = 0, utxo_value = 600, raw_transactionHex = ''00''\<rparr>"

definition sample_script :: DepositScript where
  "sample_script = \<lparr>ds_receipt = \<lparr>dr_depositor = sample_owner, dr_blindingFactor = Hex (replicate 8 1),
     dr_walletPublicKeyHash = Hex (replicate 20 2), dr_refundPublicKeyHash = Hex (replicate 20 3),
     dr_refundLocktime = Hex [1, 2, 3, 4], dr_extraData = None\<rparr>, ds_witness = True\<rparr>"

lemma sample_funding_lib_simps:
  "previousOutput sample_funding_lib h 0 = Inr \<lparr>out_value = 600, out_script = [0, 20]\<rparr>"
  "isP2WPKHScript sample_funding_lib x" "isP2SHScript sample_funding_lib x"
  "\<exists>a. publicKeyToAddress sample_funding_lib k Testnet b = Inr a"
  "addressToOutputScript sample_funding_lib s Testnet = Inr (Hex (hex_to_bytes s))"
  by (simp_all add: previousOutput_def sample_funding_lib_def sample_btcjs_def isP2WPKHScript_def isP2SHScript_def
      publicKeyToAddress_def addressToOutputScript_def sample_payment_def Let_def Hex_from_buffer_def)

lemma spendable_sample: "spendable sample_funding_lib (sample_utxo i)"
  by (simp add: spendable_def sample_utxo_def sample_funding_lib_simps)

lemma sample_address: "\<exists>a. deriveAddress sample_crypto sample_funding_lib sample_script Testnet = Inr a"
proof -
  have "hash_function (sha256 sample_crypto) 32" using crypto_ok_sample by (simp add: crypto_ok_def)
  from computeSha256_bytes[OF this, of "script_compile sample_funding_lib (deposit_chunks (ds_receipt sample_script))"]
  show ?thesis
    by (simp add: deriveAddress_def getHash_def getPlainText_def Hex_from_buffer_def sample_script_def
        sample_funding_lib_def sample_btcjs_def deposit_chunks_def sample_payment_def Let_def)
qed

subsection \<open>Properties\<close>



text \<open>C15: a refund transaction spends the deposit alone, pays its value less the fee, and carries what
  the refund branch of the script checks: the locktime of the receipt, a sequence that enables
  it, the key behind the refund hash, and the deposit script itself.\<close>

theorem refundTransaction_satisfies_script:
  assumes "txlib_ok L" "refundTransaction c lib L s bn fee utxo addr wif = Inr t"
  shows "map outpoint (tx_ins t) = [utxo_outpoint utxo] \<and> map out_value (tx_outs t) = [utxo_value utxo - fee] \<and>
     tx_locktime t = int (le_nat (hex_buf (dr_refundLocktime (ds_receipt s)))) \<and>
     in_sequence (tx_ins t ! 0) \<noteq> 0xffffffff \<and>
     (\<exists>k. createKeyPair L wif bn = Inr k \<and>
       computeHash160 c (Hex (kp_publicKey k)) = Inr (dr_refundPublicKeyHash (ds_receipt s)) \<and>
       unlocks_with lib (tx_ins t ! 0) k (toBuffer (getPlainText lib s)))"
  using refund_parts[OF assms] by auto

theorem refundTransaction_satisfies_script_witness:
  "\<exists>h t. computeHash160 sample_crypto (Hex (2 # replicate 32 1)) = Inr h \<and>
     refundTransaction sample_crypto sample_funding_lib sample_tx_lib
       \<lparr>ds_receipt = (ds_receipt sample_script)\<lparr>dr_refundPublicKeyHash := h\<rparr>, ds_witness = True\<rparr> Testnet 50 (sample_utxo 1) ''00'' ''wif'' = Inr t \<and>
     tx_locktime t = 67305985 \<and> map out_value (tx_outs t) = [550]"
proof -
  obtain b where h: "computeHash160 sample_crypto (Hex (2 # replicate 32 1)) = Inr (Hex b)" "length b = 20"
    using computeHash160_bytes[OF crypto_ok_sample, of "2 # replicate 32 1"] by blast
  let ?s = "\<lparr>ds_receipt = (ds_receipt sample_script)\<lparr>dr_refundPublicKeyHash := Hex b\<rparr>, ds_witness = True\<rparr>"
  have "isCompressedPublicKey (Hex (2 # replicate 32 1))"
    by (simp add: isCompressedPublicKey_def byte_hex_def hex_digit_def hex_digits_def Let_def)
  then have "\<exists>t. refundTransaction sample_crypto sample_funding_lib sample_tx_lib ?s Testnet 50 (sample_utxo 1) ''00'' ''wif'' = Inr t"
    using h by (simp add: refundTransaction_def validateDepositReceipt_def createKeyPair_def sample_tx_lib_def
        sample_utxo_def sample_funding_lib_simps bn_toNumber_def Let_def sample_script_def set_input_def refund_prepareDepositScript_def
        Hex_from_buffer_def signP2SH_def signature_def)
  then obtain t where t: "refundTransaction sample_crypto sample_funding_lib sample_tx_lib ?s Testnet 50 (sample_utxo 1) ''00'' ''wif'' = Inr t"
    by blast
  have "le_nat [1, 2, 3, 4 :: byte] = 67305985" by (simp add: le_nat_def be_nat_def)
  then show ?thesis
    using t h refundTransaction_satisfies_script[OF txlib_ok_sample t] by (auto simp: sample_script_def sample_utxo_def)
qed

end
