(* ===== verification/WalletTx.thy ===== *)
theory WalletTx
  imports DepositTx
begin

section \<open>Wallet transactions (typescript/src/services/maintenance/wallet-tx.ts)\<close>

text \<open>
  The transaction that sweeps deposits, and possibly the main output of the wallet, into one
  output, and the transaction that pays redemption requests from the main output. The lemmas
  show that each conserves value, spends the outputs it was given in their order, unlocks each
  deposit with its own script, and reports the new main output correctly.
\<close>

subsection \<open>Deposit sweep: signing\<close>

definition canSpendOutput :: "btcjs \<Rightarrow> Hex \<Rightarrow> Hex \<Rightarrow> bool res" where
  "canSpendOutput lib publicKey outputScript =
     (let pubkeyBuffer = toBuffer publicKey in
      bind_res (p2pkh lib (PubkeyArg pubkeyBuffer)) (\<lambda>p1.
      bind_res (p2wpkh lib (PubkeyArg pubkeyBuffer)) (\<lambda>p2.
      Inr (hex_equals outputScript (Hex_from_buffer (pay_output p1)) \<or>
           hex_equals outputScript (Hex_from_buffer (pay_output p2))))))"

definition sweep_prepareDepositScript :: "crypto \<Rightarrow> btcjs \<Rightarrow> DepositReceipt \<Rightarrow> keypair \<Rightarrow> byte list res" where
  "sweep_prepareDepositScript c lib deposit walletKeyPair =
     (let walletPublicKey = Hex_from_buffer (kp_publicKey walletKeyPair) in
      bind_res (computeHash160 c walletPublicKey) (\<lambda>h.
      if \<not> hex_equals h (dr_walletPublicKeyHash deposit)
      then Inl (Error ''Wallet public key does not correspond to wallet private key'')
      else if \<not> isCompressedPublicKey walletPublicKey
      then Inl (Error ''Wallet public key must be compressed'')
      else bind_res (DepositScript_fromReceipt deposit True) (\<lambda>s. Inr (toBuffer (getPlainText lib s)))))"

definition signP2SHDepositInput ::
  "crypto \<Rightarrow> btcjs \<Rightarrow> txlib \<Rightarrow> js_tx \<Rightarrow> nat \<Rightarrow> DepositReceipt \<Rightarrow> keypair \<Rightarrow> js_tx res" where
  "signP2SHDepositInput c lib L transaction inputIndex deposit walletKeyPair =
     bind_res (sweep_prepareDepositScript c lib deposit walletKeyPair) (\<lambda>depositScript.
     signP2SH lib L transaction inputIndex depositScript walletKeyPair)"

definition signP2WSHDepositInput ::
  "crypto \<Rightarrow> btcjs \<Rightarrow> txlib \<Rightarrow> js_tx \<Rightarrow> nat \<Rightarrow> DepositReceipt \<Rightarrow> int \<Rightarrow> keypair \<Rightarrow> js_tx res" where
  "signP2WSHDepositInput c lib L transaction inputIndex deposit previousOutputValue walletKeyPair =
     bind_res (sweep_prepareDepositScript c lib deposit walletKeyPair) (\<lambda>depositScript.
     signP2WSH L transaction inputIndex depositScript previousOutputValue walletKeyPair)"

definition signMainUtxoInput ::
  "btcjs \<Rightarrow> txlib \<Rightarrow> js_tx \<Rightarrow> nat \<Rightarrow> js_tx_out \<Rightarrow> keypair \<Rightarrow> js_tx res" where
  "signMainUtxoInput lib L transaction inputIndex prev walletKeyPair =
     (let previousOutputScript = Hex_from_buffer (out_script prev) in
      bind_res (canSpendOutput lib (Hex_from_buffer (kp_publicKey walletKeyPair)) previousOutputScript) (\<lambda>can.
      if \<not> can then Inl (Error ''UTXO does not belong to the wallet'')
      else if isP2PKHScript lib previousOutputScript
      then bind_res (hashForSignature L transaction inputIndex (toBuffer previousOutputScript)) (\<lambda>sigHash.
           bind_res (signature L walletKeyPair sigHash) (\<lambda>sig.
           bind_res (p2pkh lib (SignatureArg sig (kp_publicKey walletKeyPair))) (\<lambda>p.
           set_input transaction inputIndex (\<lambda>i. i\<lparr>in_script := pay_input p\<rparr>))))
      else if isP2WPKHScript lib previousOutputScript
      then bind_res (p2wpkh lib (OutputArg (toBuffer previousOutputScript))) (\<lambda>p.
           bind_res (p2pkh lib (HashArg (pay_hash p))) (\<lambda>q.
           bind_res (hashForWitnessV0 L transaction inputIndex (pay_output q) (out_value prev)) (\<lambda>sigHash.
           bind_res (signature L walletKeyPair sigHash) (\<lambda>sig.
           set_input transaction inputIndex (\<lambda>i. i\<lparr>in_witness := [sig, kp_publicKey walletKeyPair]\<rparr>)))))
      else Inl (Error ''Unknown type of main UTXO'')))"

subsection \<open>Deposit sweep: assembly\<close>

text \<open>The loop that adds the inputs and sums their values.\<close>

fun addUtxoInputs :: "txlib \<Rightarrow> UtxoWithRaw list \<Rightarrow> js_tx \<Rightarrow> int \<Rightarrow> (js_tx \<times> int) res" where
  "addUtxoInputs L [] transaction outputValue = Inr (transaction, outputValue)"
| "addUtxoInputs L (utxo # utxos) transaction outputValue =
     bind_res (tx_addInput L transaction (toBuffer (hex_reverse (op_transactionHash utxo))) (op_outputIndex utxo))
       (\<lambda>t. addUtxoInputs L utxos t (outputValue + utxo_value utxo))"

text \<open>The loop that signs the deposit inputs; its index starts at one when the main output is the
  first input.\<close>

fun signDeposits ::
  "crypto \<Rightarrow> btcjs \<Rightarrow> txlib \<Rightarrow> keypair \<Rightarrow> (UtxoWithRaw \<times> DepositReceipt) list \<Rightarrow> nat \<Rightarrow> js_tx \<Rightarrow> js_tx res" where
  "signDeposits c lib L walletKeyPair [] inputIndex transaction = Inr transaction"
| "signDeposits c lib L walletKeyPair ((utxo, deposit) # rest) inputIndex transaction =
     bind_res (previousOutput lib (raw_transactionHex utxo) (op_outputIndex utxo)) (\<lambda>prev.
     bind_res
       (if isP2SHScript lib (Hex_from_buffer (out_script prev))
        then signP2SHDepositInput c lib L transaction inputIndex deposit walletKeyPair
        else if isP2WSHScript lib (Hex_from_buffer (out_script prev))
        then signP2WSHDepositInput c lib L transaction inputIndex deposit (out_value prev) walletKeyPair
        else Inl (Error ''Unsupported UTXO script type''))
       (\<lambda>t. signDeposits c lib L walletKeyPair rest (Suc inputIndex) t))"

definition sweepTransaction ::
  "crypto \<Rightarrow> btcjs \<Rightarrow> txlib \<Rightarrow> bool \<Rightarrow> BitcoinNetwork \<Rightarrow> int \<Rightarrow> string \<Rightarrow> UtxoWithRaw list \<Rightarrow> DepositReceipt list \<Rightarrow>
   UtxoWithRaw option \<Rightarrow> js_tx res" where
  "sweepTransaction c lib L witness bitcoinNetwork fee walletPrivateKey utxos deposits mainUtxo =
     (if length utxos < 1 then Inl (Error ''There must be at least one deposit UTXO to sweep'')
      else if length utxos \<noteq> length deposits
      then Inl (Error ''Number of UTXOs must equal the number of deposit elements'')
      else
      bind_res (createKeyPair L walletPrivateKey bitcoinNetwork) (\<lambda>walletKeyPair.
      bind_res (publicKeyToAddress lib (Hex_from_buffer (kp_publicKey walletKeyPair)) bitcoinNetwork witness) (\<lambda>walletAddress.
      bind_res (addUtxoInputs L (case mainUtxo of None \<Rightarrow> [] | Some m \<Rightarrow> [m]) (tx_new L) 0) (\<lambda>(t1, v1).
      bind_res (addUtxoInputs L utxos t1 v1) (\<lambda>(t2, v2).
      let outputValue = v2 - fee in
      bind_res (addressToOutputScript lib walletAddress bitcoinNetwork) (\<lambda>outputScript.
      bind_res (bn_toNumber outputValue) (\<lambda>outputNumber.
      bind_res (tx_addOutput L t2 (toBuffer outputScript) outputNumber) (\<lambda>t3.
      bind_res (case mainUtxo of
          None \<Rightarrow> Inr t3
        | Some m \<Rightarrow> bind_res (previousOutput lib (raw_transactionHex m) (op_outputIndex m)) (\<lambda>prev.
            signMainUtxoInput lib L t3 0 prev walletKeyPair)) (\<lambda>t4.
      signDeposits c lib L walletKeyPair (zip utxos deposits) (case mainUtxo of None \<Rightarrow> 0 | Some _ \<Rightarrow> 1) t4)))))))))"

definition sweepAssemble ::
  "crypto \<Rightarrow> btcjs \<Rightarrow> txlib \<Rightarrow> bool \<Rightarrow> BitcoinNetwork \<Rightarrow> int \<Rightarrow> string \<Rightarrow> UtxoWithRaw list \<Rightarrow> DepositReceipt list \<Rightarrow>
   UtxoWithRaw option \<Rightarrow> TxOutcome res" where
  "sweepAssemble c lib L witness bitcoinNetwork fee walletPrivateKey utxos deposits mainUtxo =
     bind_res (sweepTransaction c lib L witness bitcoinNetwork fee walletPrivateKey utxos deposits mainUtxo) (\<lambda>transaction.
     bind_res (Hex_from_string (tx_getId lib transaction)) (\<lambda>transactionHash.
     case tx_outs transaction of
       [] \<Rightarrow> Inl (TypeError ''Cannot read properties of undefined (reading 'value')'')
     | firstOutput # _ \<Rightarrow>
         Inr \<lparr>out_transactionHash = transactionHash,
           out_utxo = Some \<lparr>op_transactionHash = transactionHash, op_outputIndex = 0, utxo_value = out_value firstOutput\<rparr>,
           out_rawTransaction = \<lparr>transactionHex = tx_toHex lib transaction\<rparr>\<rparr>))"

definition sweepSubmit ::
  "crypto \<Rightarrow> btcjs \<Rightarrow> txlib \<Rightarrow> bool \<Rightarrow> 'w bitcoin_client \<Rightarrow> int \<Rightarrow> string \<Rightarrow> BitcoinUtxo list \<Rightarrow> DepositReceipt list \<Rightarrow>
   BitcoinUtxo option \<Rightarrow> ('w, Hex \<times> BitcoinUtxo option) io" where
  "sweepSubmit c lib L witness bitcoinClient fee walletPrivateKey utxos deposits mainUtxo =
     bind_io (map_io (withRaw bitcoinClient) utxos) (\<lambda>utxosWithRaw.
     bind_io (case mainUtxo of None \<Rightarrow> return_io None
       | Some m \<Rightarrow> bind_io (withRaw bitcoinClient m) (\<lambda>r. return_io (Some r))) (\<lambda>mainUtxoWithRaw.
     bind_io (getNetwork bitcoinClient) (\<lambda>bitcoinNetwork.
     bind_io (lift_io (sweepAssemble c lib L witness bitcoinNetwork fee walletPrivateKey utxosWithRaw deposits
       mainUtxoWithRaw)) (\<lambda>outcome.
     bind_io (broadcast bitcoinClient (out_rawTransaction outcome)) (\<lambda>_.
     return_io (out_transactionHash outcome, out_utxo outcome))))))"

subsection \<open>Redemption\<close>

text \<open>The loop over the requests: the outputs, their total value and the total fee.\<close>

fun addRedemptionOutputs ::
  "'p psbtlib \<Rightarrow> RedemptionRequest list \<Rightarrow> 'p \<Rightarrow> int \<Rightarrow> int \<Rightarrow> ('p \<times> int \<times> int) res" where
  "addRedemptionOutputs P [] psbt totalOutputsValue txTotalFee = Inr (psbt, totalOutputsValue, txTotalFee)"
| "addRedemptionOutputs P (request # requests) psbt totalOutputsValue txTotalFee =
     (let outputValue = rr_requestedAmount request - rr_txMaxFee request - rr_treasuryFee request in
      bind_res (bn_toNumber outputValue) (\<lambda>v.
      bind_res (psbt_addOutput P (ScriptOutput (toBuffer (rr_redeemerOutputScript request)) v) psbt) (\<lambda>psbt'.
      addRedemptionOutputs P requests psbt' (totalOutputsValue + outputValue) (txTotalFee + rr_txMaxFee request))))"

definition redemptionInput :: "btcjs \<Rightarrow> UtxoWithRaw \<Rightarrow> psbt_input res" where
  "redemptionInput lib mainUtxo =
     bind_res (previousOutput lib (raw_transactionHex mainUtxo) (op_outputIndex mainUtxo)) (\<lambda>prev.
     let scr = Hex_from_buffer (out_script prev);
         inp = (\<lambda>s. \<lparr>pi_hash = toBuffer (hex_reverse (op_transactionHash mainUtxo)),
                  pi_index = op_outputIndex mainUtxo, pi_source = s\<rparr>) in
     if isP2PKHScript lib scr then Inr (inp (NonWitnessUtxo (hex_to_bytes (raw_transactionHex mainUtxo))))
     else if isP2WPKHScript lib scr then Inr (inp (WitnessUtxo (toBuffer scr) (out_value prev)))
     else Inl (Error ''Unexpected main UTXO type''))"

text \<open>The transaction and the value of its change.\<close>

definition redemptionTransaction ::
  "btcjs \<Rightarrow> txlib \<Rightarrow> 'p psbtlib \<Rightarrow> bool \<Rightarrow> BitcoinNetwork \<Rightarrow> string \<Rightarrow> UtxoWithRaw \<Rightarrow> RedemptionRequest list \<Rightarrow>
   (js_tx \<times> int) res" where
  "redemptionTransaction lib L P witness bitcoinNetwork walletPrivateKey mainUtxo redemptionRequests =
     (if length redemptionRequests < 1 then Inl (Error ''There must be at least one request to redeem'')
      else
      bind_res (createKeyPair L walletPrivateKey bitcoinNetwork) (\<lambda>walletKeyPair.
      bind_res (publicKeyToAddress lib (Hex_from_buffer (kp_publicKey walletKeyPair)) bitcoinNetwork witness) (\<lambda>walletAddress.
      bind_res (toBitcoinJsLibNetwork bitcoinNetwork) (\<lambda>network.
      let psbt0 = psbt_setVersion P 1 (psbt_new P network) in
      bind_res (redemptionInput lib mainUtxo) (\<lambda>inp.
      bind_res (psbt_addInput P inp psbt0) (\<lambda>psbt1.
      bind_res (addRedemptionOutputs P redemptionRequests psbt1 0 0) (\<lambda>(psbt2, totalOutputsValue, txTotalFee).
      let changeOutputValue = utxo_value mainUtxo - totalOutputsValue - txTotalFee in
      bind_res (if changeOutputValue > 0
          then bind_res (bn_toNumber changeOutputValue) (\<lambda>v. psbt_addOutput P (AddressOutput walletAddress v) psbt2)
          else Inr psbt2) (\<lambda>psbt3.
      bind_res (psbt_extract P walletKeyPair psbt3) (\<lambda>transaction.
      Inr (transaction, changeOutputValue))))))))))"

definition redemptionAssemble ::
  "btcjs \<Rightarrow> txlib \<Rightarrow> 'p psbtlib \<Rightarrow> bool \<Rightarrow> BitcoinNetwork \<Rightarrow> string \<Rightarrow> UtxoWithRaw \<Rightarrow> RedemptionRequest list \<Rightarrow>
   TxOutcome res" where
  "redemptionAssemble lib L P witness bitcoinNetwork walletPrivateKey mainUtxo redemptionRequests =
     bind_res (redemptionTransaction lib L P witness bitcoinNetwork walletPrivateKey mainUtxo redemptionRequests)
     (\<lambda>(transaction, changeOutputValue).
     bind_res (Hex_from_string (tx_getId lib transaction)) (\<lambda>transactionHash.
     Inr \<lparr>out_transactionHash = transactionHash,
       out_utxo = (if changeOutputValue > 0
         then Some \<lparr>op_transactionHash = transactionHash, op_outputIndex = int (length (tx_outs transaction)) - 1,
                utxo_value = changeOutputValue\<rparr>
         else None),
       out_rawTransaction = \<lparr>transactionHex = tx_toHex lib transaction\<rparr>\<rparr>))"

definition redemptionSubmit ::
  "btcjs \<Rightarrow> txlib \<Rightarrow> 'p psbtlib \<Rightarrow> bool \<Rightarrow> 'w tbtc_contracts \<Rightarrow> 'w bitcoin_client \<Rightarrow> string \<Rightarrow> BitcoinUtxo \<Rightarrow> Hex list \<Rightarrow>
   ('w, Hex \<times> BitcoinUtxo option) io" where
  "redemptionSubmit lib L P witness tbtcContracts bitcoinClient walletPrivateKey mainUtxo redeemerOutputScripts =
     bind_io (withRaw bitcoinClient mainUtxo) (\<lambda>mainUtxoWithRaw.
     bind_io (getNetwork bitcoinClient) (\<lambda>bitcoinNetwork.
     bind_io (lift_io (createKeyPair L walletPrivateKey bitcoinNetwork)) (\<lambda>walletKeyPair.
     let walletPublicKey = Hex_from_buffer (kp_publicKey walletKeyPair) in
     bind_io (map_io (\<lambda>redeemerOutputScript.
         bind_io (pendingRedemptions (tc_bridge tbtcContracts) walletPublicKey redeemerOutputScript) (\<lambda>request.
         if rr_requestedAt request = 0 then throw_io (Error ''Redemption request does not exist'')
         else return_io (request\<lparr>rr_redeemerOutputScript := redeemerOutputScript\<rparr>))) redeemerOutputScripts) (\<lambda>redemptionRequests.
     bind_io (lift_io (redemptionAssemble lib L P witness bitcoinNetwork walletPrivateKey mainUtxoWithRaw
       redemptionRequests)) (\<lambda>outcome.
     bind_io (broadcast bitcoinClient (out_rawTransaction outcome)) (\<lambda>_.
     return_io (out_transactionHash outcome, out_utxo outcome)))))))"

subsection \<open>Lemmas on the sweep\<close>

lemma addUtxoInputs_eq:
  assumes "txlib_ok L"
  shows "addUtxoInputs L us t v = Inr (t', v') \<Longrightarrow>
     map outpoint (tx_ins t') = map outpoint (tx_ins t) @ map utxo_outpoint us \<and> tx_outs t' = tx_outs t \<and>
     v' = v + sum_utxos us"
proof (induction us arbitrary: t v)
  case (Cons u us)
  obtain t1 where t1: "tx_addInput L t (rev (hex_buf (op_transactionHash u))) (op_outputIndex u) = Inr t1"
    and r: "addUtxoInputs L us t1 (v + utxo_value u) = Inr (t', v')"
    using Cons.prems by (auto simp: res_simps)
  show ?case using Cons.IH[OF r] addInput_outpoint[OF assms t1] by (simp add: utxo_outpoint_def)
qed simp

text \<open>Signing an input leaves the others as they are.\<close>

lemma set_input_other: "set_input t i f = Inr t' \<Longrightarrow> j \<noteq> i \<Longrightarrow> tx_ins t' ! j = tx_ins t ! j"
  by (auto simp: set_input_def split: if_splits)

lemma signMainUtxoInput_frame: "signMainUtxoInput lib L t i prev k = Inr t' \<Longrightarrow> same_frame t t'"
  by (auto simp: signMainUtxoInput_def Let_def res_simps outpoint_def elim!: set_input_frame split: if_splits)

lemma sweep_prepare_ok:
  assumes "sweep_prepareDepositScript c lib d k = Inr s"
  shows "s = toBuffer (getPlainText lib \<lparr>ds_receipt = d, ds_witness = True\<rparr>) \<and> receipt_ok d \<and>
     computeHash160 c (Hex (kp_publicKey k)) = Inr (dr_walletPublicKeyHash d)"
  using assms by (auto simp: sweep_prepareDepositScript_def Let_def res_simps Hex_from_buffer_def
      DepositScript_fromReceipt_def validateDepositReceipt_iff split: if_splits)

text \<open>A deposit input that is properly unlocked.\<close>

definition deposit_unlocked :: "crypto \<Rightarrow> btcjs \<Rightarrow> keypair \<Rightarrow> js_tx_in \<Rightarrow> DepositReceipt \<Rightarrow> bool" where
  "deposit_unlocked c lib k i d =
     (unlocks_with lib i k (toBuffer (getPlainText lib \<lparr>ds_receipt = d, ds_witness = True\<rparr>)) \<and>
      receipt_ok d \<and> computeHash160 c (Hex (kp_publicKey k)) = Inr (dr_walletPublicKeyHash d))"

lemma signDeposit_step:
  assumes "(if isP2SHScript lib x then signP2SHDepositInput c lib L t i d k
       else if isP2WSHScript lib x then signP2WSHDepositInput c lib L t i d v k
       else Inl e) = Inr t'"
  shows "same_frame t t' \<and> i < length (tx_ins t) \<and> deposit_unlocked c lib k (tx_ins t' ! i) d \<and>
     (\<forall>j. j \<noteq> i \<longrightarrow> tx_ins t' ! j = tx_ins t ! j)"
proof -
  obtain s where s: "sweep_prepareDepositScript c lib d k = Inr s"
    and sign: "signP2SH lib L t i s k = Inr t' \<or> signP2WSH L t i s v k = Inr t'"
    using assms by (auto simp: signP2SHDepositInput_def signP2WSHDepositInput_def res_simps split: if_splits)
  have frame: "same_frame t t'" and un: "i < length (tx_ins t')" "unlocks_with lib (tx_ins t' ! i) k s"
    using sign by (elim disjE; simp add: signP2SH_frame signP2WSH_frame signP2SH_unlocks signP2WSH_unlocks[where lib = lib])+
  have other: "\<forall>j. j \<noteq> i \<longrightarrow> tx_ins t' ! j = tx_ins t ! j"
    using sign by (auto simp: signP2SH_def signP2WSH_def res_simps set_input_other)
  have "length (tx_ins t') = length (tx_ins t)" using frame by (metis same_frame_def length_map)
  then show ?thesis using frame un other sweep_prepare_ok[OF s] by (auto simp: deposit_unlocked_def)
qed

lemma signDeposits_eq:
  "signDeposits c lib L k uds i t = Inr t' \<Longrightarrow>
     same_frame t t' \<and> (\<forall>j < length uds. deposit_unlocked c lib k (tx_ins t' ! (i + j)) (snd (uds ! j))) \<and>
     (\<forall>j. j < i \<longrightarrow> tx_ins t' ! j = tx_ins t ! j)"
proof (induction uds arbitrary: i t)
  case (Cons ud uds)
  obtain u d where ud: "ud = (u, d)" by (cases ud)
  obtain t1 and prev :: js_tx_out where step: "(if isP2SHScript lib (Hex_from_buffer (out_script prev))
        then signP2SHDepositInput c lib L t i d k
        else if isP2WSHScript lib (Hex_from_buffer (out_script prev))
        then signP2WSHDepositInput c lib L t i d (out_value prev) k
        else Inl (Error ''Unsupported UTXO script type'')) = Inr t1"
    and rest: "signDeposits c lib L k uds (Suc i) t1 = Inr t'"
    using Cons.prems unfolding ud signDeposits.simps bind_res_Inr by (elim exE conjE) (rule that, assumption+)
  note one = signDeposit_step[OF step] and IH = Cons.IH[OF rest]
  have "deposit_unlocked c lib k (tx_ins t' ! (i + j)) (snd ((ud # uds) ! j))" if "j < length (ud # uds)" for j
    using that one IH ud by (cases j) auto
  then show ?case using one IH same_frame_trans by auto
qed simp

definition main_list :: "'a option \<Rightarrow> 'a list" where
  "main_list m = (case m of None \<Rightarrow> [] | Some x \<Rightarrow> [x])"

lemma sweep_parts:
  assumes L: "txlib_ok L"
    and r: "sweepTransaction c lib L w bn fee wif utxos ds mainUtxo = Inr t"
  shows "length ds = length utxos \<and> 0 < length utxos \<and>
     map outpoint (tx_ins t) = map utxo_outpoint (main_list mainUtxo @ utxos) \<and>
     map out_value (tx_outs t) = [sum_utxos (main_list mainUtxo) + sum_utxos utxos - fee] \<and>
     (\<exists>k. createKeyPair L wif bn = Inr k \<and>
        (\<forall>j < length utxos. deposit_unlocked c lib k (tx_ins t ! (length (main_list mainUtxo) + j)) (ds ! j)))"
proof -
  have len: "\<not> length utxos < 1" "\<not> length utxos \<noteq> length ds"
    using r by (auto simp: sweepTransaction_def split: if_splits)
  obtain k t1 v1 t2 v2 scr n t3 t4 where k: "createKeyPair L wif bn = Inr k"
    and a1: "addUtxoInputs L (main_list mainUtxo) (tx_new L) 0 = Inr (t1, v1)"
    and a2: "addUtxoInputs L utxos t1 v1 = Inr (t2, v2)"
    and n: "bn_toNumber (v2 - fee) = Inr n"
    and o3: "tx_addOutput L t2 (toBuffer scr) n = Inr t3"
    and m4: "(case mainUtxo of None \<Rightarrow> Inr t3
        | Some m \<Rightarrow> bind_res (previousOutput lib (raw_transactionHex m) (op_outputIndex m)) (\<lambda>prev.
            signMainUtxoInput lib L t3 0 prev k)) = Inr t4"
    and s5: "signDeposits c lib L k (zip utxos ds) (case mainUtxo of None \<Rightarrow> 0 | Some _ \<Rightarrow> 1) t4 = Inr t"
    using r len unfolding sweepTransaction_def main_list_def
    by (auto simp: res_simps Let_def)
  have new: "tx_ins (tx_new L) = []" "tx_outs (tx_new L) = []" using L by (simp_all add: txlib_ok_def)
  note i1 = addUtxoInputs_eq[OF L a1] and i2 = addUtxoInputs_eq[OF L a2] and o = addOutput_outs[OF L o3]
  have f4: "same_frame t3 t4"
    using m4 by (auto simp: res_simps dest: signMainUtxoInput_frame split: option.splits)
  note sd = signDeposits_eq[OF s5]
  have i: "(case mainUtxo of None \<Rightarrow> 0 | Some _ \<Rightarrow> 1) = length (main_list mainUtxo)"
    by (simp add: main_list_def split: option.splits)
  have frame: "same_frame t3 t" using f4 sd same_frame_trans by blast
  have "deposit_unlocked c lib k (tx_ins t ! (length (main_list mainUtxo) + j)) (ds ! j)" if "j < length utxos" for j
    using sd that len unfolding i by simp
  then show ?thesis
    using len k frame i1 i2 o new bn_toNumber_eq[OF n] by (auto simp: same_frame_def)
qed

subsection \<open>Lemmas on the redemption\<close>

definition redeemed :: "RedemptionRequest \<Rightarrow> int" where
  "redeemed r = rr_requestedAmount r - rr_txMaxFee r - rr_treasuryFee r"

definition redemption_output :: "RedemptionRequest \<Rightarrow> js_tx_out" where
  "redemption_output r = \<lparr>out_value = redeemed r, out_script = toBuffer (rr_redeemerOutputScript r)\<rparr>"

lemma addRedemptionOutputs_eq:
  assumes "psbt_ok P pins pouts"
  shows "addRedemptionOutputs P rs p v f = Inr (p', v', f') \<Longrightarrow>
     pins p' = pins p \<and>
     pouts p' = pouts p @ map (\<lambda>r. ScriptOutput (toBuffer (rr_redeemerOutputScript r)) (redeemed r)) rs \<and>
     v' = v + sum_list (map redeemed rs) \<and> f' = f + sum_list (map rr_txMaxFee rs)"
proof (induction rs arbitrary: p v f)
  case (Cons r rs)
  obtain n q where n: "bn_toNumber (redeemed r) = Inr n"
    and q: "psbt_addOutput P (ScriptOutput (toBuffer (rr_redeemerOutputScript r)) n) p = Inr q"
    and rest: "addRedemptionOutputs P rs q (v + redeemed r) (f + rr_txMaxFee r) = Inr (p', v', f')"
    using Cons.prems by (auto simp: Let_def res_simps redeemed_def)
  show ?case using Cons.IH[OF rest] psbt_addOutput_eq[OF assms q] bn_toNumber_eq[OF n] by simp
qed simp

lemma psbt_pays_steps:
  assumes "psbt_pays lib P pouts pnet"
  shows "pnet (psbt_setVersion P v (psbt_new P n)) = n"
    and "psbt_addInput P i p = Inr p' \<Longrightarrow> pnet p' = pnet p"
    and "psbt_addOutput P out p = Inr p' \<Longrightarrow> pnet p' = pnet p"
    and "psbt_extract P k p = Inr t \<Longrightarrow>
      map (\<lambda>out. Inr (out_script out)) (tx_outs t) = map (output_script lib (pnet p)) (pouts p)"
  using assms unfolding psbt_pays_def by simp_all

lemma addRedemptionOutputs_net:
  assumes "psbt_pays lib P pouts pnet"
  shows "addRedemptionOutputs P rs p v f = Inr (p', v', f') \<Longrightarrow> pnet p' = pnet p"
proof (induction rs arbitrary: p v f)
  case (Cons r rs)
  then show ?case using psbt_pays_steps(3)[OF assms] by (fastforce simp: Let_def res_simps)
qed simp

text \<open>The script of the wallet's own address, to which the change goes.\<close>

definition own_script :: "btcjs \<Rightarrow> txlib \<Rightarrow> bool \<Rightarrow> BitcoinNetwork \<Rightarrow> string \<Rightarrow> byte list res" where
  "own_script lib L witness bn wif =
     bind_res (createKeyPair L wif bn) (\<lambda>k.
     bind_res (publicKeyToAddress lib (Hex (kp_publicKey k)) bn witness) (\<lambda>address.
     bind_res (toBitcoinJsLibNetwork bn) (\<lambda>network. address_toOutputScript lib address network)))"

lemma redemption_outs_eq:
  fixes cs :: "(byte list res \<times> int) list"
  assumes "map out_value outs = map redeemed rs @ map snd cs"
    and "map (\<lambda>out. Inr (out_script out)) outs = map (\<lambda>r. Inr (toBuffer (rr_redeemerOutputScript r))) rs @ map fst cs"
  shows "\<exists>cs'. outs = map redemption_output rs @ cs' \<and> map (\<lambda>out. (Inr (out_script out), out_value out)) cs' = cs"
proof (intro exI conjI)
  have len: "length rs \<le> length outs" using arg_cong[OF assms(1), of length] by simp
  have v: "map out_value (take (length rs) outs) = map redeemed rs" "map out_value (drop (length rs) outs) = map snd cs"
    using assms(1) by (simp_all flip: take_map drop_map)
  have s: "map (\<lambda>out. Inr (out_script out) :: byte list res) (take (length rs) outs) =
      map (\<lambda>r. Inr (toBuffer (rr_redeemerOutputScript r))) rs"
    "map (\<lambda>out. Inr (out_script out)) (drop (length rs) outs) = map fst cs"
    using assms(2) by (simp_all flip: take_map drop_map)
  have "take (length rs) outs = map redemption_output rs"
    using v(1) s(1) len by (simp add: list_eq_iff_nth_eq redemption_output_def)
  then show "outs = map redemption_output rs @ drop (length rs) outs" by (metis append_take_drop_id)
  show "map (\<lambda>out. (Inr (out_script out), out_value out)) (drop (length rs) outs) = cs"
    using v(2) s(2) by (auto simp: list_eq_iff_nth_eq prod_eq_iff)
qed

lemma redemption_parts:
  assumes "psbt_ok P pins pouts" "psbt_pays lib P pouts pnet"
    and "redemptionTransaction lib L P w bn wif mainUtxo rs = Inr (t, change)"
  shows "0 < length rs \<and> map outpoint (tx_ins t) = [utxo_outpoint mainUtxo] \<and>
     change = utxo_value mainUtxo - sum_list (map redeemed rs) - sum_list (map rr_txMaxFee rs) \<and>
     (\<exists>scr. tx_outs t = map redemption_output rs @ (if change > 0 then [\<lparr>out_value = change, out_script = scr\<rparr>] else []) \<and>
        (change > 0 \<longrightarrow> own_script lib L w bn wif = Inr scr))"
proof -
  have len: "\<not> length rs < 1" using assms(3) by (auto simp: redemptionTransaction_def split: if_splits)
  obtain k addr net inp p1 p2 tot f p3 where kp: "createKeyPair L wif bn = Inr k"
    "publicKeyToAddress lib (Hex (kp_publicKey k)) bn w = Inr addr" "toBitcoinJsLibNetwork bn = Inr net"
    and i: "redemptionInput lib mainUtxo = Inr inp"
    and p1: "psbt_addInput P inp (psbt_setVersion P 1 (psbt_new P net)) = Inr p1"
    and p2: "addRedemptionOutputs P rs p1 0 0 = Inr (p2, tot, f)"
    and p3: "(if utxo_value mainUtxo - tot - f > 0
          then bind_res (bn_toNumber (utxo_value mainUtxo - tot - f)) (\<lambda>v. psbt_addOutput P (AddressOutput addr v) p2)
          else Inr p2) = Inr p3"
    and t: "psbt_extract P k p3 = Inr t" and ch: "change = utxo_value mainUtxo - tot - f"
    using assms(3) len unfolding redemptionTransaction_def by (auto simp: Let_def res_simps Hex_from_buffer_def)
  have inp: "(pi_hash inp, pi_index inp) = utxo_outpoint mainUtxo"
    using i by (auto simp: redemptionInput_def Let_def res_simps utxo_outpoint_def split: if_splits)
  note e1 = psbt_addInput_eq[OF assms(1) p1] psbt_new_eq[OF assms(1), of 1 net]
  note e2 = addRedemptionOutputs_eq[OF assms(1) p2] and e4 = psbt_extract_eq[OF assms(1) t]
  have e3: "pins p3 = pins p2 \<and> pouts p3 = pouts p2 @ (if change > 0 then [AddressOutput addr change] else []) \<and>
      pnet p3 = net"
  proof -
    have n2: "pnet p2 = net"
      using addRedemptionOutputs_net[OF assms(2) p2] psbt_pays_steps(1)[OF assms(2)] psbt_pays_steps(2)[OF assms(2) p1]
      by simp
    show ?thesis
    proof (cases "change > 0")
      case True
      then obtain v where v: "bn_toNumber (utxo_value mainUtxo - tot - f) = Inr v"
        and o: "psbt_addOutput P (AddressOutput addr v) p2 = Inr p3"
        using p3 ch by (auto simp: res_simps)
      show ?thesis
        using psbt_addOutput_eq[OF assms(1) o] psbt_pays_steps(3)[OF assms(2) o] bn_toNumber_eq[OF v] ch True n2 by simp
    qed (use p3 ch n2 in simp)
  qed
  obtain cs where outs: "tx_outs t = map redemption_output rs @ cs"
    and cs: "map (\<lambda>out. (Inr (out_script out), out_value out)) cs =
      (if change > 0 then [(address_toOutputScript lib addr net, change)] else [])"
    using redemption_outs_eq[of "tx_outs t" rs "if change > 0 then [(address_toOutputScript lib addr net, change)] else []"]
      e1 e2 e3 e4 psbt_pays_steps(4)[OF assms(2) t]
    by (cases "change > 0") (auto simp: output_script_def comp_def)
  have "\<exists>scr. cs = (if change > 0 then [\<lparr>out_value = change, out_script = scr\<rparr>] else []) \<and>
      (change > 0 \<longrightarrow> own_script lib L w bn wif = Inr scr)"
  proof (cases "change > 0")
    case True
    then obtain a where "cs = [a]" "Inr (out_script a) = address_toOutputScript lib addr net" "out_value a = change"
      using cs by (cases cs) auto
    then show ?thesis using True kp
      by (intro exI[of _ "out_script a"]) (cases a, simp add: own_script_def)
  qed (use cs in simp)
  then show ?thesis using len e1 e2 e3 e4 inp ch outs by auto
qed

subsection \<open>Samples\<close>

definition sample_big_utxo :: UtxoWithRaw where
  "sample_big_utxo = (sample_utxo 1)\<lparr>utxo_value := 5000\<rparr>"

lemma sample_p2pkh: "isP2PKHScript sample_funding_lib x"
  by (simp add: isP2PKHScript_def sample_funding_lib_def sample_btcjs_def sample_payment_def Let_def)

lemma sample_getId: "Hex_from_string (tx_getId sample_funding_lib t) = Inr (Hex [0])"
proof -
  have "tx_getId sample_funding_lib t = bytes_to_hex [0]"
    by (simp add: sample_funding_lib_def sample_btcjs_def byte_hex_def hex_digit_def hex_digits_def Let_def)
  then show ?thesis by (simp only: Hex_from_hex_string)
qed

subsection \<open>Properties\<close>

text \<open>C12: a sweep spends the main output of the wallet, if there is one, and then the given deposits in
  their order, pays their value less the fee to one output, and unlocks every deposit input
  with the script of that deposit and the key of the wallet the deposit names; the outcome
  reports that output as the new main output.\<close>

theorem sweep_conserves_and_unlocks:
  assumes "txlib_ok L" "sweepAssemble c lib L w bn fee wif utxos ds mainUtxo = Inr outcome"
  shows "\<exists>t k main. map outpoint (tx_ins t) = map utxo_outpoint (main_list mainUtxo @ utxos) \<and>
     map out_value (tx_outs t) = [sum_utxos (main_list mainUtxo) + sum_utxos utxos - fee] \<and>
     length ds = length utxos \<and> createKeyPair L wif bn = Inr k \<and>
     (\<forall>j < length utxos. deposit_unlocked c lib k (tx_ins t ! (length (main_list mainUtxo) + j)) (ds ! j)) \<and>
     transactionHex (out_rawTransaction outcome) = tx_toHex lib t \<and> out_utxo outcome = Some main \<and>
     Hex_from_string (tx_getId lib t) = Inr (op_transactionHash main) \<and> op_outputIndex main = 0 \<and>
     utxo_value main = sum_utxos (main_list mainUtxo) + sum_utxos utxos - fee"
proof -
  obtain t h where t: "sweepTransaction c lib L w bn fee wif utxos ds mainUtxo = Inr t"
    and h: "Hex_from_string (tx_getId lib t) = Inr h"
    and outc: "(case tx_outs t of [] \<Rightarrow> Inl (TypeError ''Cannot read properties of undefined (reading 'value')'')
      | firstOutput # _ \<Rightarrow> Inr \<lparr>out_transactionHash = h,
           out_utxo = Some \<lparr>op_transactionHash = h, op_outputIndex = 0, utxo_value = out_value firstOutput\<rparr>,
           out_rawTransaction = \<lparr>transactionHex = tx_toHex lib t\<rparr>\<rparr>) = Inr outcome"
    using assms(2) unfolding sweepAssemble_def bind_res_Inr by (elim exE conjE) (rule that, assumption+)
  note parts = sweep_parts[OF assms(1) t]
  show ?thesis using parts h outc by (auto split: list.splits intro!: exI[of _ t])
qed

theorem sweep_conserves_and_unlocks_witness:
  "\<exists>h outcome main. computeHash160 sample_crypto (Hex (2 # replicate 32 1)) = Inr h \<and>
     sweepAssemble sample_crypto sample_funding_lib sample_tx_lib True Testnet 50 ''wif'' [sample_utxo 1, sample_utxo 2]
       (replicate 2 ((ds_receipt sample_script)\<lparr>dr_walletPublicKeyHash := h\<rparr>)) None = Inr outcome \<and>
     out_utxo outcome = Some main \<and> utxo_value main = 1150"
proof -
  obtain b where h: "computeHash160 sample_crypto (Hex (2 # replicate 32 1)) = Inr (Hex b)" "length b = 20"
    using computeHash160_bytes[OF crypto_ok_sample, of "2 # replicate 32 1"] by blast
  let ?ds = "replicate 2 ((ds_receipt sample_script)\<lparr>dr_walletPublicKeyHash := Hex b\<rparr>)"
  obtain a where a: "publicKeyToAddress sample_funding_lib (Hex (2 # replicate 32 1)) Testnet True = Inr a"
    using sample_funding_lib_simps(4) by blast
  have "isCompressedPublicKey (Hex (2 # replicate 32 1))"
    by (simp add: isCompressedPublicKey_def byte_hex_def hex_digit_def hex_digits_def Let_def)
  then have "\<exists>outcome. sweepAssemble sample_crypto sample_funding_lib sample_tx_lib True Testnet 50 ''wif''
     [sample_utxo 1, sample_utxo 2] ?ds None = Inr outcome"
    using h a by (simp add: sweepAssemble_def sweepTransaction_def createKeyPair_def sample_tx_lib_def numeral_2_eq_2
        sample_utxo_def sample_funding_lib_simps bn_toNumber_def Let_def sample_script_def set_input_def
        sweep_prepareDepositScript_def signP2SHDepositInput_def DepositScript_fromReceipt_def validateDepositReceipt_def
        Hex_from_buffer_def signP2SH_def signature_def sample_getId)
  then obtain outcome where o: "sweepAssemble sample_crypto sample_funding_lib sample_tx_lib True Testnet 50 ''wif''
     [sample_utxo 1, sample_utxo 2] ?ds None = Inr outcome" by blast
  from sweep_conserves_and_unlocks[OF txlib_ok_sample o] obtain main where
    "out_utxo outcome = Some main" "utxo_value main = 1150"
    by (auto simp: main_list_def sample_utxo_def)
  then show ?thesis using o h(1) by blast
qed

text \<open>C11: a redemption spends the main output of the wallet; its outputs are, for each request in
  order, the requested amount less the treasury fee and the transaction fee share, paid to the
  output script the redeemer asked for, and then what remains, paid to the script of the
  wallet's own address, which exists only when positive and is the reported new main output.
  The outputs and the fee shares add up to the main output.\<close>

theorem redemption_conserves:
  assumes "psbt_ok P pins pouts" "psbt_pays lib P pouts pnet"
    and "redemptionAssemble lib L P w bn wif mainUtxo rs = Inr outcome"
    and "0 \<le> utxo_value mainUtxo - sum_list (map redeemed rs) - sum_list (map rr_txMaxFee rs)"
  shows "\<exists>t change scr. map outpoint (tx_ins t) = [utxo_outpoint mainUtxo] \<and>
     tx_outs t = map redemption_output rs @ (if change > 0 then [\<lparr>out_value = change, out_script = scr\<rparr>] else []) \<and>
     (change > 0 \<longrightarrow> own_script lib L w bn wif = Inr scr) \<and>
     utxo_value mainUtxo = sum_list (map out_value (tx_outs t)) + sum_list (map rr_txMaxFee rs) \<and>
     transactionHex (out_rawTransaction outcome) = tx_toHex lib t \<and>
     (case out_utxo outcome of
        None \<Rightarrow> change = 0
      | Some u \<Rightarrow> 0 < change \<and> utxo_value u = change \<and> op_outputIndex u = int (length rs) \<and>
          Hex_from_string (tx_getId lib t) = Inr (op_transactionHash u))"
proof -
  obtain t change h where t: "redemptionTransaction lib L P w bn wif mainUtxo rs = Inr (t, change)"
    and h: "Hex_from_string (tx_getId lib t) = Inr h"
    and outc: "outcome = \<lparr>out_transactionHash = h,
       out_utxo = (if change > 0
         then Some \<lparr>op_transactionHash = h, op_outputIndex = int (length (tx_outs t)) - 1, utxo_value = change\<rparr>
         else None),
       out_rawTransaction = \<lparr>transactionHex = tx_toHex lib t\<rparr>\<rparr>"
    using assms(3) by (auto simp: redemptionAssemble_def res_simps)
  note parts = redemption_parts[OF assms(1,2) t]
  have v: "map out_value (map redemption_output rs) = map redeemed rs" by (simp add: redemption_output_def)
  show ?thesis
    using parts assms(4) h arg_cong[OF v, of sum_list]
    by (intro exI[of _ t] exI[of _ change]) (auto simp: outc simp del: map_map)
qed

lemma sample_toOutputScript: "address_toOutputScript sample_funding_lib = (\<lambda>a n. Inr (hex_to_bytes a))"
  by (simp add: sample_funding_lib_def sample_btcjs_def)

theorem redemption_conserves_witness:
  "\<exists>outcome u. redemptionAssemble sample_funding_lib sample_tx_lib sample_psbt_lib True Testnet ''wif'' sample_big_utxo
       [sample_request 5, sample_request 6] = Inr outcome \<and>
     out_utxo outcome = Some u \<and> utxo_value u = 3002"
proof -
  obtain a where a: "publicKeyToAddress sample_funding_lib (Hex (2 # replicate 32 1)) Testnet True = Inr a"
    using sample_funding_lib_simps(4) by blast
  have "\<exists>t. redemptionTransaction sample_funding_lib sample_tx_lib sample_psbt_lib True Testnet ''wif'' sample_big_utxo
     [sample_request 5, sample_request 6] = Inr (t, 3002)"
    using a by (auto simp: redemptionTransaction_def createKeyPair_def sample_tx_lib_def
        sample_psbt_lib_def sample_big_utxo_def sample_utxo_def redemptionInput_def sample_request_def sample_funding_lib_simps
        sample_p2pkh bn_toNumber_def Let_def Hex_from_buffer_def)
  then obtain t where "redemptionTransaction sample_funding_lib sample_tx_lib sample_psbt_lib True Testnet ''wif'' sample_big_utxo
     [sample_request 5, sample_request 6] = Inr (t, 3002)" by blast
  then obtain outcome u where o: "redemptionAssemble sample_funding_lib sample_tx_lib sample_psbt_lib True Testnet ''wif''
     sample_big_utxo [sample_request 5, sample_request 6] = Inr outcome" and u: "out_utxo outcome = Some u"
    using sample_getId[of t] by (auto simp: redemptionAssemble_def)
  have pos: "0 \<le> utxo_value sample_big_utxo - sum_list (map redeemed [sample_request 5, sample_request 6]) -
      sum_list (map rr_txMaxFee [sample_request 5, sample_request 6])"
    by (simp add: redeemed_def sample_request_def sample_big_utxo_def)
  have "utxo_value u = 3002"
    using redemption_conserves[OF psbt_ok_sample psbt_pays_sample o pos] sample_toOutputScript u
    by (auto simp: redeemed_def redemption_output_def sample_request_def sample_big_utxo_def)
  then show ?thesis using o u by blast
qed

end
