(* ===== verification/Backoff.thy ===== *)
theory Backoff
  imports BigNumbers
begin

section \<open>Retries and amounts (typescript/src/lib/utils/backoff.ts, bitcoin.ts)\<close>

text \<open>
  \<open>backoffRetrier\<close> calls a function until it succeeds, waiting twice as long after each
  failure. The loop is a recursion over the retries that are left; \<open>Math.random\<close> and
  \<open>setTimeout\<close> are the two operations of a runtime. \<open>amountToSatoshi\<close> truncates an
  18-decimal amount to satoshis.
\<close>

subsection \<open>Operations\<close>

definition amountToSatoshi :: "int \<Rightarrow> int res" where
  "amountToSatoshi value =
     (let satoshiMultiplier = 10 ^ 10 in
      bind_res (bn_mod value satoshiMultiplier) (\<lambda>remainder.
      let convertibleAmount = value - remainder in
      bn_div convertibleAmount satoshiMultiplier))"

definition retryAll :: "js_error \<Rightarrow> bool" where
  "retryAll error = True"

text \<open>A matcher is a string or a regular expression: a predicate on messages.\<close>

definition skipRetryWhenMatched :: "(string \<Rightarrow> bool) list \<Rightarrow> js_error \<Rightarrow> bool" where
  "skipRetryWhenMatched matchers err =
     (if is_Error err then \<not> list_ex (\<lambda>matcher. matcher (error_message err)) matchers else True)"

record 'w runtime =
  random100 :: "'w \<Rightarrow> int \<times> 'w"
  sleep :: "int \<Rightarrow> 'w \<Rightarrow> 'w"

fun error_text :: "js_error \<Rightarrow> string" where
  "error_text (Error m) = ''Error: '' @ m"
| "error_text (RangeError m) = ''RangeError: '' @ m"
| "error_text (TypeError m) = ''TypeError: '' @ m"
| "error_text (Thrown m) = m"

text \<open>What the handler does before the next attempt.\<close>

definition backoffWait ::
  "'w runtime \<Rightarrow> (string \<Rightarrow> ('w, unit) io) \<Rightarrow> int \<Rightarrow> nat \<Rightarrow> js_error \<Rightarrow> ('w, unit) io" where
  "backoffWait rt logger backoffStepMs attempt error = (\<lambda>w.
     let backoffMillis = 2 ^ attempt * backoffStepMs;
         (jitterMillis, w1) = random100 rt w;
         waitMillis = backoffMillis + jitterMillis
     in bind_io (logger (''attempt '' @ show_nat attempt @ '' failed: '' @ error_text error @
              ''; retrying after '' @ show_int waitMillis @ '' milliseconds''))
          (\<lambda>_ w2. (Inr (), sleep rt waitMillis w2)) w1)"

definition guardedAttempt :: "(string \<Rightarrow> ('w, unit) io) \<Rightarrow> ('w, 'a) io \<Rightarrow> nat \<Rightarrow> ('w, 'a) io" where
  "guardedAttempt logger fn attempt = bind_io (logger (''making attempt number '' @ show_nat attempt)) (\<lambda>_. fn)"

fun backoffLoop ::
  "'w runtime \<Rightarrow> int \<Rightarrow> (string \<Rightarrow> ('w, unit) io) \<Rightarrow> (js_error \<Rightarrow> bool) \<Rightarrow> ('w, 'a) io \<Rightarrow> nat \<Rightarrow> nat \<Rightarrow> ('w, 'a) io" where
  "backoffLoop rt backoffStepMs logger errorMatcher fn attempt 0 = fn"
| "backoffLoop rt backoffStepMs logger errorMatcher fn attempt (Suc left) =
     catch_io (guardedAttempt logger fn attempt) (\<lambda>error.
       if \<not> errorMatcher error then throw_io error
       else bind_io (backoffWait rt logger backoffStepMs attempt error)
         (\<lambda>_. backoffLoop rt backoffStepMs logger errorMatcher fn (Suc attempt) left))"

definition backoffRetrier ::
  "'w runtime \<Rightarrow> int \<Rightarrow> int \<Rightarrow> (string \<Rightarrow> ('w, unit) io) \<Rightarrow> (js_error \<Rightarrow> bool) \<Rightarrow> ('w, 'a) io \<Rightarrow> ('w, 'a) io" where
  "backoffRetrier rt retries backoffStepMs logger errorMatcher fn =
     backoffLoop rt backoffStepMs logger errorMatcher fn 0 (nat retries)"

subsection \<open>Lemmas\<close>

definition logger_total :: "(string \<Rightarrow> ('w, unit) io) \<Rightarrow> bool" where
  "logger_total logger = (\<forall>m w. \<exists>w'. logger m w = (Inr (), w'))"

text \<open>A world counts calls, or time, when everything but the function, or the clock, leaves the
  counter alone.\<close>

definition keeps :: "('w \<Rightarrow> 'c) \<Rightarrow> ('w, 'a) io \<Rightarrow> bool" where
  "keeps c m = (\<forall>w. c (snd (m w)) = c w)"

definition counts_calls :: "('w \<Rightarrow> nat) \<Rightarrow> 'w runtime \<Rightarrow> (string \<Rightarrow> ('w, unit) io) \<Rightarrow> ('w, 'a) io \<Rightarrow> bool" where
  "counts_calls c rt logger fn =
     ((\<forall>w. c (snd (fn w)) = Suc (c w)) \<and> (\<forall>m. keeps c (logger m)) \<and>
      (\<forall>w. c (snd (random100 rt w)) = c w) \<and> (\<forall>ms w. c (sleep rt ms w) = c w))"

definition counts_time :: "('w \<Rightarrow> int) \<Rightarrow> 'w runtime \<Rightarrow> (string \<Rightarrow> ('w, unit) io) \<Rightarrow> ('w, 'a) io \<Rightarrow> bool" where
  "counts_time c rt logger fn =
     ((\<forall>w. c (snd (fn w)) = c w) \<and> (\<forall>m. keeps c (logger m)) \<and>
      (\<forall>w. c (snd (random100 rt w)) = c w \<and> 0 \<le> fst (random100 rt w) \<and> fst (random100 rt w) < 100) \<and>
      (\<forall>ms w. c (sleep rt ms w) = c w + ms))"

lemma snd_backoffWait:
  assumes "logger_total logger"
  shows "\<exists>msg w2. logger msg (snd (random100 rt w)) = (Inr (), w2) \<and>
     backoffWait rt logger step a e w = (Inr (), sleep rt (2 ^ a * step + fst (random100 rt w)) w2)"
proof -
  obtain j w1 where r: "random100 rt w = (j, w1)" by fastforce
  let ?m = "''attempt '' @ show_nat a @ '' failed: '' @ error_text e @
              ''; retrying after '' @ show_int (2 ^ a * step + j) @ '' milliseconds''"
  obtain w2 where "logger ?m w1 = (Inr (), w2)" using assms by (auto simp: logger_total_def)
  then show ?thesis using r by (intro exI[of _ ?m] exI[of _ w2]) (simp add: backoffWait_def)
qed

lemma guardedAttempt_app:
  assumes "logger_total logger"
  shows "\<exists>msg w1. logger msg w = (Inr (), w1) \<and> guardedAttempt logger fn a w = fn w1"
proof -
  let ?m = "''making attempt number '' @ show_nat a"
  obtain w1 where "logger ?m w = (Inr (), w1)" using assms by (auto simp: logger_total_def)
  then show ?thesis by (intro exI[of _ ?m] exI[of _ w1]) (simp add: guardedAttempt_def)
qed

lemma backoffLoop_calls:
  assumes "logger_total logger" "counts_calls c rt logger fn"
  shows "c w < c (snd (backoffLoop rt step logger matcher fn a n w)) \<and>
     c (snd (backoffLoop rt step logger matcher fn a n w)) \<le> c w + n + 1"
proof (induction n arbitrary: a w)
  case 0
  then show ?case using assms by (simp add: counts_calls_def)
next
  case (Suc n)
  obtain msg w1 where l: "logger msg w = (Inr (), w1)" and g: "guardedAttempt logger fn a w = fn w1"
    using guardedAttempt_app[OF assms(1)] by blast
  obtain r w2 where f: "fn w1 = (r, w2)" by fastforce
  have c2: "c w2 = Suc (c w)" using assms(2) l f by (metis counts_calls_def keeps_def snd_conv)
  show ?case
  proof (cases r)
    case (Inl e)
    obtain msg' w3 where l': "logger msg' (snd (random100 rt w2)) = (Inr (), w3)"
      and b: "backoffWait rt logger step a e w2 = (Inr (), sleep rt (2 ^ a * step + fst (random100 rt w2)) w3)"
      using snd_backoffWait[OF assms(1)] by blast
    have "c (sleep rt (2 ^ a * step + fst (random100 rt w2)) w3) = c w2"
      using assms(2) l' by (metis counts_calls_def keeps_def snd_conv)
    then show ?thesis
      using g f Inl b c2 Suc[of "sleep rt (2 ^ a * step + fst (random100 rt w2)) w3" "Suc a"] by simp
  qed (use g f c2 in simp)
qed

lemma backoffLoop_time:
  assumes "logger_total logger" "counts_time c rt logger fn" "0 \<le> step"
  shows "c w \<le> c (snd (backoffLoop rt step logger matcher fn a n w)) \<and>
     c (snd (backoffLoop rt step logger matcher fn a n w)) \<le> c w + (2 ^ n - 1) * 2 ^ a * step + 99 * int n"
proof (induction n arbitrary: a w)
  case 0
  then show ?case using assms by (simp add: counts_time_def)
next
  case (Suc n)
  obtain msg w1 where l: "logger msg w = (Inr (), w1)" and g: "guardedAttempt logger fn a w = fn w1"
    using guardedAttempt_app[OF assms(1)] by blast
  obtain r w2 where f: "fn w1 = (r, w2)" by fastforce
  have c2: "c w2 = c w" using assms(2) l f by (metis counts_time_def keeps_def snd_conv)
  have pos: "0 \<le> (2 ^ Suc n - 1) * 2 ^ a * step" using assms(3) by simp
  show ?case
  proof (cases r)
    case (Inl e)
    obtain msg' w3 where l': "logger msg' (snd (random100 rt w2)) = (Inr (), w3)"
      and b: "backoffWait rt logger step a e w2 = (Inr (), sleep rt (2 ^ a * step + fst (random100 rt w2)) w3)"
      using snd_backoffWait[OF assms(1)] by blast
    let ?w = "sleep rt (2 ^ a * step + fst (random100 rt w2)) w3"
    have "c ?w = c w2 + (2 ^ a * step + fst (random100 rt w2))"
      using assms(2) l' by (metis counts_time_def keeps_def snd_conv)
    moreover have "0 \<le> fst (random100 rt w2) \<and> fst (random100 rt w2) < 100"
      using assms(2) by (simp add: counts_time_def)
    moreover have "2 ^ a * step + (2 ^ n - 1) * 2 ^ Suc a * step = (2 ^ Suc n - 1) * 2 ^ a * step"
      by (simp add: algebra_simps)
    moreover have "0 \<le> 2 ^ a * step" using assms(3) by simp
    ultimately show ?thesis
      using g f Inl b c2 pos Suc[of ?w "Suc a"] by (simp del: power_Suc)
  qed (use g f c2 pos in simp)
qed

text \<open>An attempt that failed in a way that is retried, up to the start of the next attempt: it was announced and
  made, and after its failure was told the runtime slept for the step, doubled for every attempt before,
  and a jitter.\<close>

definition failed_attempt ::
  "'w runtime \<Rightarrow> int \<Rightarrow> (string \<Rightarrow> ('w, unit) io) \<Rightarrow> (js_error \<Rightarrow> bool) \<Rightarrow> ('w, 'a) io \<Rightarrow> nat \<Rightarrow> 'w \<Rightarrow> 'w \<Rightarrow> bool" where
  "failed_attempt rt step logger matcher fn a w w'' =
     (\<exists>w1 e w2 msg w3. logger (''making attempt number '' @ show_nat a) w = (Inr (), w1) \<and>
        fn w1 = (Inl e, w2) \<and> matcher e \<and> logger msg (snd (random100 rt w2)) = (Inr (), w3) \<and>
        w'' = sleep rt (2 ^ a * step + fst (random100 rt w2)) w3)"

lemma failed_attemptI:
  assumes "logger_total logger" "guardedAttempt logger fn a w = (Inl e, w')" "matcher e"
    and "backoffWait rt logger step a e w' = (Inr (), w'')"
  shows "failed_attempt rt step logger matcher fn a w w''"
proof -
  obtain w1 where w1: "logger (''making attempt number '' @ show_nat a) w = (Inr (), w1)"
    using assms(1) by (auto simp: logger_total_def)
  then have "fn w1 = (Inl e, w')" using assms(2) by (simp add: guardedAttempt_def)
  then show ?thesis
    using w1 assms(3,4) snd_backoffWait [OF assms(1), of rt w' step a e] unfolding failed_attempt_def by fastforce
qed

lemma backoffLoop_settles:
  assumes "logger_total logger"
  shows "\<exists>k ws. k \<le> n \<and> ws 0 = w \<and>
     (\<forall>j < k. failed_attempt rt step logger matcher fn (a + j) (ws j) (ws (Suc j))) \<and>
     backoffLoop rt step logger matcher fn a n w =
       (if k = n then fn (ws k) else guardedAttempt logger fn (a + k) (ws k)) \<and>
     (k < n \<longrightarrow> (\<forall>e w'. backoffLoop rt step logger matcher fn a n w = (Inl e, w') \<longrightarrow> \<not> matcher e))"
proof (induction n arbitrary: a w)
  case 0
  show ?case by (intro exI[of _ 0] exI[of _ "\<lambda>_. w"]) simp
next
  case (Suc n)
  obtain r w1 where g: "guardedAttempt logger fn a w = (r, w1)" by fastforce
  show ?case
  proof (cases "\<exists>e. r = Inl e \<and> matcher e")
    case True
    then obtain e where e: "r = Inl e" "matcher e" by blast
    obtain w2 where b: "backoffWait rt logger step a e w1 = (Inr (), w2)"
      using snd_backoffWait[OF assms] by blast
    have loop: "backoffLoop rt step logger matcher fn a (Suc n) w =
        backoffLoop rt step logger matcher fn (Suc a) n w2"
      using g e b by simp
    obtain k ws where IH: "k \<le> n" "ws 0 = w2"
      "\<forall>j < k. failed_attempt rt step logger matcher fn (Suc a + j) (ws j) (ws (Suc j))"
      "backoffLoop rt step logger matcher fn (Suc a) n w2 =
         (if k = n then fn (ws k) else guardedAttempt logger fn (Suc a + k) (ws k))"
      "k < n \<longrightarrow> (\<forall>e w'. backoffLoop rt step logger matcher fn (Suc a) n w2 = (Inl e, w') \<longrightarrow> \<not> matcher e)"
      using Suc by metis
    let ?ws = "case_nat w ws"
    have "failed_attempt rt step logger matcher fn a w w2" using failed_attemptI [OF assms] g e b by blast
    then have f: "failed_attempt rt step logger matcher fn (a + j) (?ws j) (?ws (Suc j))" if "j < Suc k" for j
      using that IH(2,3) by (cases j) auto
    show ?thesis
      unfolding loop using IH f by (intro exI[of _ "Suc k"] exI[of _ ?ws]) auto
  next
    case False
    then have "backoffLoop rt step logger matcher fn a (Suc n) w = (r, w1)"
      using g by (cases r) auto
    then show ?thesis
      using g False by (intro exI[of _ 0] exI[of _ "\<lambda>_. w"]) auto
  qed
qed

text \<open>A clock that counts calls and milliseconds and a function that fails a number of times, for
  the witnesses.\<close>

record clock =
  calls :: nat
  now :: int

definition sample_runtime :: "clock runtime" where
  "sample_runtime = \<lparr>random100 = (\<lambda>w. (7, w)), sleep = (\<lambda>ms w. w\<lparr>now := now w + ms\<rparr>)\<rparr>"

definition silent :: "string \<Rightarrow> ('w, unit) io" where
  "silent msg = return_io ()"

definition fails_before :: "nat \<Rightarrow> (clock, nat) io" where
  "fails_before k = (\<lambda>w. (if calls w < k then Inl (Error ''down'') else Inr (calls w), w\<lparr>calls := Suc (calls w)\<rparr>))"

lemma sample_runtime_ok:
  "logger_total silent" "counts_calls calls sample_runtime silent (fails_before k)"
  "counts_time now sample_runtime silent (fails_before k)"
  by (simp_all add: logger_total_def counts_calls_def counts_time_def keeps_def sample_runtime_def silent_def fails_before_def)

subsection \<open>Properties\<close>

text \<open>C30: The retrier goes through attempts that fail with retriable errors, sleeps after each for the step,
  doubled for every attempt before, and a jitter, and returns the outcome of the first attempt
  that succeeds, fails with an error that is not to be retried, or is the last one.\<close>

theorem backoffRetrier_settles:
  assumes "logger_total logger"
  shows "\<exists>k ws. k \<le> nat retries \<and> ws 0 = w \<and>
     (\<forall>j < k. failed_attempt rt step logger matcher fn j (ws j) (ws (Suc j))) \<and>
     backoffRetrier rt retries step logger matcher fn w =
       (if k = nat retries then fn (ws k)
        else bind_io (logger (''making attempt number '' @ show_nat k)) (\<lambda>_. fn) (ws k)) \<and>
     (k < nat retries \<longrightarrow>
       (\<forall>e w'. backoffRetrier rt retries step logger matcher fn w = (Inl e, w') \<longrightarrow> \<not> matcher e))"
  unfolding backoffRetrier_def
  by (rule backoffLoop_settles[OF assms, of "nat retries" w rt step matcher fn 0, unfolded add_0 guardedAttempt_def])

theorem backoffRetrier_settles_witness:
  "\<exists>k ws. k \<le> nat 3 \<and> ws 0 = \<lparr>calls = 0, now = 0\<rparr> \<and>
     (\<forall>j < k. failed_attempt sample_runtime 1000 silent retryAll (fails_before 2) j (ws j) (ws (Suc j))) \<and>
     backoffRetrier sample_runtime 3 1000 silent retryAll (fails_before 2) \<lparr>calls = 0, now = 0\<rparr> =
       (Inr 2, \<lparr>calls = 3, now = 3014\<rparr>)"
proof -
  have r: "backoffRetrier sample_runtime 3 1000 silent retryAll (fails_before 2) \<lparr>calls = 0, now = 0\<rparr> =
      (Inr 2, \<lparr>calls = 3, now = 3014\<rparr>)"
    by (simp add: backoffRetrier_def backoffWait_def guardedAttempt_def silent_def sample_runtime_def
        fails_before_def catch_io_def bind_io_def retryAll_def numeral_3_eq_3)
  then show ?thesis
    using backoffRetrier_settles[OF sample_runtime_ok(1), of 3 "\<lparr>calls = 0, now = 0\<rparr>" sample_runtime 1000 retryAll "fails_before 2"]
    by blast
qed

text \<open>the function is called at least once and at most once more than the number of retries,
  and the waiting time is at most the sum of the doubled steps and the jitters.\<close>

theorem backoffRetrier_bounds:
  assumes "logger_total logger" "counts_calls cs rt logger fn" "counts_time ct rt logger fn" "0 \<le> step" "0 \<le> retries"
  shows "let w' = snd (backoffRetrier rt retries step logger matcher fn w) in
     cs w < cs w' \<and> int (cs w') \<le> int (cs w) + retries + 1 \<and>
     ct w \<le> ct w' \<and> ct w' \<le> ct w + (2 ^ nat retries - 1) * step + 99 * retries"
  using backoffLoop_calls[OF assms(1,2), of w step matcher 0 "nat retries"]
    backoffLoop_time[OF assms(1,3,4), of w matcher 0 "nat retries"] assms(5)
  by (simp add: backoffRetrier_def Let_def) linarith

theorem backoffRetrier_bounds_witness:
  "let w' = snd (backoffRetrier sample_runtime 3 1000 silent retryAll (fails_before 9) \<lparr>calls = 0, now = 0\<rparr>) in
     0 < calls w' \<and> int (calls w') \<le> 4 \<and> 0 \<le> now w' \<and> now w' \<le> 7297"
  using backoffRetrier_bounds[OF sample_runtime_ok(1) sample_runtime_ok(2)[of 9] sample_runtime_ok(3)[of 9], of 1000 3 retryAll "\<lparr>calls = 0, now = 0\<rparr>"]
  by (simp add: Let_def)

text \<open>The satoshi amount of an 18-decimal amount is the integer part of its ten-billionth.\<close>

theorem amountToSatoshi_floor: "amountToSatoshi value = Inr (value div 10 ^ 10)"
proof -
  let ?m = "10 ^ 10 :: int"
  have e: "value - value mod ?m = ?m * (value div ?m)" by (simp add: minus_mod_eq_mult_div)
  have "bn_div (?m * q) ?m = Inr q" for q :: int
    by (cases q "0 :: int" rule: linorder_cases) (simp_all add: bn_div_def abs_mult sgn_mult)
  then show ?thesis unfolding amountToSatoshi_def Let_def e by (subst bn_mod_pos) (simp_all only: bind_res_simps e zero_less_power zero_less_numeral)
qed

end
