(* ===== verification/Redemptions.thy ===== *)
theory Redemptions
  imports WalletTx Backoff
begin

section \<open>Redemptions (typescript/src/services/redemptions)\<close>

text \<open>
  \<open>RedemptionsService\<close> picks the wallet that pays a redemption and requests it. The on-chain
  search examines the wallets of a chunk concurrently: each is a task that awaits three reads,
  and the event loop chooses which task resumes next. The choice is a schedule, a list of task
  numbers, given to the definitions; what the tasks share is a \<open>find_acc\<close>. The lemmas show
  that when the chain answers the same question in the same way, every schedule and every chunk
  size selects the wallet the sequential specification selects.
\<close>

subsection \<open>State\<close>

record 'w RedemptionsService =
  rsvc_tbtcContracts :: "'w tbtc_contracts"
  rsvc_bitcoinClient :: "'w bitcoin_client"
  rsvc_crossChainContracts :: "string \<Rightarrow> 'w cross_chain_interfaces option"

definition new_RedemptionsService ::
  "'w tbtc_contracts \<Rightarrow> 'w bitcoin_client \<Rightarrow> (string \<Rightarrow> 'w cross_chain_interfaces option) option \<Rightarrow> 'w RedemptionsService" where
  "new_RedemptionsService tbtcContracts bitcoinClient crossChainContracts =
     \<lparr>rsvc_tbtcContracts = tbtcContracts, rsvc_bitcoinClient = bitcoinClient,
      rsvc_crossChainContracts = (case crossChainContracts of None \<Rightarrow> (\<lambda>_. None) | Some r \<Rightarrow> r)\<rparr>"

definition rsvc_setCrossChainContractsResolver ::
  "(string \<Rightarrow> 'w cross_chain_interfaces option) \<Rightarrow> 'w RedemptionsService \<Rightarrow> 'w RedemptionsService" where
  "rsvc_setCrossChainContractsResolver resolver svc = svc\<lparr>rsvc_crossChainContracts := resolver\<rparr>"

record SerializableWallet =
  sw_index :: int
  sw_walletPublicKey :: string
  sw_transactionHash :: string
  sw_outputIndex :: int
  sw_value :: string
  sw_walletBTCBalance :: string

record ValidRedemptionWallet =
  vw_index :: int
  vw_walletPublicKey :: Hex
  vw_mainUtxo :: BitcoinUtxo
  vw_walletBTCBalance :: int

record RedemptionWallet =
  rw_walletPublicKey :: Hex
  rw_mainUtxo :: BitcoinUtxo
  rw_redeemerOutputScript :: "Hex option"

text \<open>What the service uses of its environment: the explorer that lists candidate wallets
  (\<open>response.ok\<close>, \<open>data.candidateResults\<close>), the clock, the decimal parser of ethers.\<close>

record 'w redemption_env =
  env_fetch_ok :: "('w, bool) io"
  env_candidateResults :: "('w, SerializableWallet list) io"
  env_Date_now :: "('w, int) io"
  env_BigNumber_from :: "string \<Rightarrow> int res"

subsection \<open>Redeemer scripts\<close>

definition getRedeemerOutputScript :: "btcjs \<Rightarrow> 'w bitcoin_client \<Rightarrow> string \<Rightarrow> ('w, Hex) io" where
  "getRedeemerOutputScript lib bitcoinClient bitcoinRedeemerAddress =
     bind_io (getNetwork bitcoinClient) (\<lambda>bitcoinNetwork.
     bind_io (lift_io (addressToOutputScript lib bitcoinRedeemerAddress bitcoinNetwork)) (\<lambda>redeemerOutputScript.
     if \<not> isP2PKHScript lib redeemerOutputScript \<and> \<not> isP2WPKHScript lib redeemerOutputScript \<and>
        \<not> isP2SHScript lib redeemerOutputScript \<and> \<not> isP2WSHScript lib redeemerOutputScript
     then throw_io (Error ''Redeemer output script must be of standard type'')
     else return_io redeemerOutputScript))"

definition resolveRedeemerOutputScript :: "btcjs \<Rightarrow> 'w bitcoin_client \<Rightarrow> string \<Rightarrow> ('w, Hex) io" where
  "resolveRedeemerOutputScript lib bitcoinClient redeemerAddressOrScript =
     (if list_all is_space redeemerAddressOrScript
      then throw_io (Error ''Redeemer output script cannot be empty'')
      else
      let withoutPrefix = strip_0x redeemerAddressOrScript;
          isHexScript = withoutPrefix \<noteq> [] \<and> list_all is_hex_digit withoutPrefix in
      if isHexScript
      then (if length withoutPrefix mod 2 \<noteq> 0
            then throw_io (Error ''Invalid hex script: odd-length hex string is not a valid byte sequence'')
            else if length withoutPrefix < 4
            then throw_io (Error ''Invalid hex script: output script must be at least 2 bytes'')
            else lift_io (Hex_from_string redeemerAddressOrScript))
      else getRedeemerOutputScript lib bitcoinClient redeemerAddressOrScript)"

subsection \<open>The main output of a wallet\<close>

definition isWalletOutput :: "Hex \<Rightarrow> Hex \<Rightarrow> BitcoinTxOutput \<Rightarrow> bool" where
  "isWalletOutput walletP2PKH walletP2WPKH out =
     (hex_equals walletP2PKH (scriptPubKey out) \<or> hex_equals walletP2WPKH (scriptPubKey out))"

text \<open>\<open>findIndex\<close>, with -1 when nothing is found.\<close>

fun findIndex :: "('a \<Rightarrow> bool) \<Rightarrow> 'a list \<Rightarrow> int" where
  "findIndex P [] = -1"
| "findIndex P (x # xs) = (if P x then 0 else let i = findIndex P xs in if i < 0 then -1 else i + 1)"

text \<open>The loop from the latest transaction to the first.\<close>

fun mainUtxoLoop ::
  "'w tbtc_contracts \<Rightarrow> 'w bitcoin_client \<Rightarrow> Hex \<Rightarrow> (BitcoinTxOutput \<Rightarrow> bool) \<Rightarrow> BitcoinTxHash list \<Rightarrow>
   ('w, BitcoinUtxo option) io" where
  "mainUtxoLoop cs bitcoinClient mainUtxoHash isOutput [] = return_io None"
| "mainUtxoLoop cs bitcoinClient mainUtxoHash isOutput (walletTxHash # older) =
     bind_io (getTransaction bitcoinClient walletTxHash) (\<lambda>walletTransaction.
     let outputIndex = findIndex isOutput (bt_outputs walletTransaction) in
     if outputIndex < 0 then mainUtxoLoop cs bitcoinClient mainUtxoHash isOutput older
     else
       let utxo = \<lparr>op_transactionHash = bt_transactionHash walletTransaction, op_outputIndex = outputIndex,
             utxo_value = txo_value (bt_outputs walletTransaction ! nat outputIndex)\<rparr> in
       bind_io (lift_io (buildUtxoHash (tc_bridge cs) utxo)) (\<lambda>utxoHash.
       if hex_equals mainUtxoHash utxoHash then return_io (Some utxo)
       else mainUtxoLoop cs bitcoinClient mainUtxoHash isOutput older))"

definition walletOutputScript :: "btcjs \<Rightarrow> Hex \<Rightarrow> BitcoinNetwork \<Rightarrow> bool \<Rightarrow> Hex res" where
  "walletOutputScript lib walletPublicKeyHash bitcoinNetwork witness =
     bind_res (publicKeyHashToAddress lib walletPublicKeyHash witness bitcoinNetwork) (\<lambda>address.
     addressToOutputScript lib address bitcoinNetwork)"

definition determineWalletMainUtxo ::
  "btcjs \<Rightarrow> 'w tbtc_contracts \<Rightarrow> 'w bitcoin_client \<Rightarrow> Hex \<Rightarrow> BitcoinNetwork \<Rightarrow> ('w, BitcoinUtxo option) io" where
  "determineWalletMainUtxo lib cs bitcoinClient walletPublicKeyHash bitcoinNetwork =
     bind_io (bridge_wallets (tc_bridge cs) walletPublicKeyHash) (\<lambda>wallet.
     if hex_equals (w_mainUtxoHash wallet) (Hex (replicate 32 0)) then return_io None
     else
     bind_io (getTxHashesForPublicKeyHash bitcoinClient walletPublicKeyHash) (\<lambda>walletTxHashes.
     bind_io (lift_io (walletOutputScript lib walletPublicKeyHash bitcoinNetwork False)) (\<lambda>walletP2PKH.
     bind_io (lift_io (walletOutputScript lib walletPublicKeyHash bitcoinNetwork True)) (\<lambda>walletP2WPKH.
     mainUtxoLoop cs bitcoinClient (w_mainUtxoHash wallet) (isWalletOutput walletP2PKH walletP2WPKH)
       (rev walletTxHashes)))))"

subsection \<open>The search over the registered wallets\<close>

text \<open>The slices of \<open>chunkArray\<close>.\<close>

function chunk_slices :: "nat \<Rightarrow> 'a list \<Rightarrow> 'a list list" where
  "chunk_slices n xs = (if xs = [] \<or> n = 0 then [] else take n xs # chunk_slices n (drop n xs))"
  by pat_completeness auto
termination by (relation "measure (\<lambda>(n, xs). length xs)") auto

declare chunk_slices.simps [simp del]

definition chunkArray :: "'a list \<Rightarrow> int \<Rightarrow> 'a list list res" where
  "chunkArray arr chunkSize =
     (if chunkSize \<le> 0 then Inl (Error ''chunkSize must be greater than 0.'')
      else Inr (chunk_slices (nat chunkSize) arr))"

text \<open>The variables the callbacks share, and a callback by the read it awaits.\<close>

record find_acc =
  fa_liveWallets :: nat
  fa_maxAmount :: int
  fa_candidates :: "(nat \<times> Hex \<times> BitcoinUtxo) list"

datatype wallet_task =
    AwaitWallet Hex
  | AwaitPending Hex Wallet Hex
  | AwaitMainUtxo Hex Wallet Hex
  | TaskDone

text \<open>One resumption: the awaited read answers and the callback runs to its next \<open>await\<close>.\<close>

fun step_task ::
  "btcjs \<Rightarrow> 'w tbtc_contracts \<Rightarrow> 'w bitcoin_client \<Rightarrow> BitcoinNetwork \<Rightarrow> int \<Rightarrow> Hex option \<Rightarrow> nat \<Rightarrow> wallet_task \<Rightarrow>
   find_acc \<Rightarrow> ('w, wallet_task \<times> find_acc) io" where
  "step_task lib cs bc bitcoinNetwork amount script globalIndex (AwaitWallet pkh) acc =
     bind_io (bridge_wallets (tc_bridge cs) pkh) (\<lambda>wallet.
     case w_walletPublicKey wallet of
       None \<Rightarrow> return_io (TaskDone, acc)
     | Some walletPublicKey \<Rightarrow>
         if w_state wallet \<noteq> WS_Live then return_io (TaskDone, acc)
         else return_io
           (case script of None \<Rightarrow> AwaitMainUtxo pkh wallet walletPublicKey
              | Some _ \<Rightarrow> AwaitPending pkh wallet walletPublicKey,
            acc\<lparr>fa_liveWallets := Suc (fa_liveWallets acc)\<rparr>))"
| "step_task lib cs bc bitcoinNetwork amount script globalIndex (AwaitPending pkh wallet walletPublicKey) acc =
     bind_io (pendingRedemptions (tc_bridge cs) walletPublicKey (the script)) (\<lambda>pendingRedemption.
     if rr_requestedAt pendingRedemption \<noteq> 0 then return_io (TaskDone, acc)
     else return_io (AwaitMainUtxo pkh wallet walletPublicKey, acc))"
| "step_task lib cs bc bitcoinNetwork amount script globalIndex (AwaitMainUtxo pkh wallet walletPublicKey) acc =
     bind_io (determineWalletMainUtxo lib cs bc pkh bitcoinNetwork) (\<lambda>mainUtxo.
     case mainUtxo of
       None \<Rightarrow> return_io (TaskDone, acc)
     | Some utxo \<Rightarrow>
         let walletBTCBalance = utxo_value utxo - w_pendingRedemptionsValue wallet;
             acc' = (if walletBTCBalance > fa_maxAmount acc then acc\<lparr>fa_maxAmount := walletBTCBalance\<rparr> else acc) in
         return_io (TaskDone,
           if walletBTCBalance \<ge> amount
           then acc'\<lparr>fa_candidates := fa_candidates acc' @ [(globalIndex, walletPublicKey, utxo)]\<rparr>
           else acc'))"
| "step_task lib cs bc bitcoinNetwork amount script globalIndex TaskDone acc = return_io (TaskDone, acc)"

text \<open>\<open>Promise.all\<close> over a chunk: tasks resume in the order of the schedule; the first throw
  settles the whole.\<close>

fun run_tasks ::
  "(nat \<Rightarrow> wallet_task \<Rightarrow> find_acc \<Rightarrow> ('w, wallet_task \<times> find_acc) io) \<Rightarrow> nat list \<Rightarrow> wallet_task list \<Rightarrow> find_acc \<Rightarrow>
   ('w, wallet_task list \<times> find_acc) io" where
  "run_tasks step [] ts acc = return_io (ts, acc)"
| "run_tasks step (i # schedule) ts acc =
     (if i < length ts
      then bind_io (step i (ts ! i) acc) (\<lambda>(t, acc'). run_tasks step schedule (ts[i := t]) acc')
      else run_tasks step schedule ts acc)"

text \<open>Every task resumes at most three times, so three rounds after the schedule end them all.\<close>

definition full_schedule :: "nat list \<Rightarrow> nat \<Rightarrow> nat list" where
  "full_schedule schedule n = schedule @ [0..<n] @ [0..<n] @ [0..<n]"

fun find_chunks ::
  "(nat \<Rightarrow> wallet_task \<Rightarrow> find_acc \<Rightarrow> ('w, wallet_task \<times> find_acc) io) \<Rightarrow> (nat \<Rightarrow> nat list) \<Rightarrow> nat \<Rightarrow> nat \<Rightarrow>
   NewWalletRegisteredEvent list list \<Rightarrow> find_acc \<Rightarrow> ('w, find_acc) io" where
  "find_chunks step schedules limit cIndex [] acc = return_io acc"
| "find_chunks step schedules limit cIndex (chunk # chunks) acc =
     bind_io (run_tasks (\<lambda>indexInChunk. step (cIndex * limit + indexInChunk))
       (full_schedule (schedules cIndex) (length chunk))
       (map (\<lambda>walletEvent. AwaitWallet (nw_walletPublicKeyHash walletEvent)) chunk) acc)
     (\<lambda>(_, acc'). find_chunks step schedules limit (Suc cIndex) chunks acc')"

definition all_events :: GetEventsOptions where
  "all_events = \<lparr>fromBlock = None, toBlock = None, opt_retries = None, batchedQueryBlockInterval = None\<rparr>"

text \<open>What the search concludes from what the tasks left.\<close>

definition noLiveWallets :: js_error where
  "noLiveWallets = Error ''Currently, there are no live wallets in the network.''"

definition noCandidate :: "int \<Rightarrow> 'a res" where
  "noCandidate maxAmount =
     (if maxAmount = 0
      then Inl (Error (''All live wallets in the network have the pending redemption for a given Bitcoin address. '' @
         ''Please use another Bitcoin address.''))
      else bind_res (bn_div maxAmount (10 ^ 8)) (\<lambda>btc.
         Inl (Error (''Could not find a wallet with enough funds. Maximum redemption amount is '' @
           show_int maxAmount @ '' Satoshi ( '' @ show_int btc @ '' BTC )''))))"

definition chooseWallet :: "find_acc \<Rightarrow> (Hex \<times> BitcoinUtxo) res" where
  "chooseWallet acc =
     (if fa_liveWallets acc = 0 then Inl noLiveWallets
      else case sort_key fst (fa_candidates acc) of
        (_, chosenWallet) # _ \<Rightarrow> Inr chosenWallet
      | [] \<Rightarrow> noCandidate (fa_maxAmount acc))"

definition findWalletForRedemption ::
  "btcjs \<Rightarrow> 'w tbtc_contracts \<Rightarrow> 'w bitcoin_client \<Rightarrow> (nat \<Rightarrow> nat list) \<Rightarrow> int \<Rightarrow> Hex option \<Rightarrow> int \<Rightarrow>
   ('w, Hex \<times> BitcoinUtxo) io" where
  "findWalletForRedemption lib cs bitcoinClient schedules amount redeemerOutputScript concurrencyLimit =
     bind_io (getNewWalletRegisteredEvents (tc_bridge cs) all_events) (\<lambda>allWalletEvents.
     bind_io (getNetwork bitcoinClient) (\<lambda>bitcoinNetwork.
     bind_io (lift_io (chunkArray allWalletEvents concurrencyLimit)) (\<lambda>chunkedWallets.
     bind_io (find_chunks (step_task lib cs bitcoinClient bitcoinNetwork amount redeemerOutputScript) schedules
       (nat concurrencyLimit) 0 chunkedWallets \<lparr>fa_liveWallets = 0, fa_maxAmount = 0, fa_candidates = []\<rparr>) (\<lambda>acc.
     lift_io (chooseWallet acc)))))"

subsection \<open>Candidate wallets of the explorer\<close>

definition fetchWalletsForRedemption :: "'w redemption_env \<Rightarrow> 'w bitcoin_client \<Rightarrow> ('w, SerializableWallet list) io" where
  "fetchWalletsForRedemption env bitcoinClient =
     bind_io (getNetwork bitcoinClient) (\<lambda>network.
     if network \<noteq> Mainnet then throw_io (Error ''This function is only available on Mainnet'')
     else
     bind_io (env_fetch_ok env) (\<lambda>response_ok.
     if \<not> response_ok then throw_io (Error ''Failed to fetch redemption wallet from server'')
     else env_candidateResults env))"

definition fromSerializableWallet :: "'w redemption_env \<Rightarrow> SerializableWallet \<Rightarrow> ValidRedemptionWallet res" where
  "fromSerializableWallet env serialized =
     bind_res (Hex_from_string (sw_walletPublicKey serialized)) (\<lambda>walletPublicKey.
     bind_res (Hex_from_string (sw_transactionHash serialized)) (\<lambda>transactionHash.
     bind_res (env_BigNumber_from env (sw_value serialized)) (\<lambda>value.
     bind_res (env_BigNumber_from env (sw_walletBTCBalance serialized)) (\<lambda>walletBTCBalance.
     Inr \<lparr>vw_index = sw_index serialized, vw_walletPublicKey = walletPublicKey,
       vw_mainUtxo = \<lparr>op_transactionHash = transactionHash, op_outputIndex = sw_outputIndex serialized, utxo_value = value\<rparr>,
       vw_walletBTCBalance = walletBTCBalance\<rparr>))))"

fun candidateLoop ::
  "'w redemption_env \<Rightarrow> 'w tbtc_contracts \<Rightarrow> int \<Rightarrow> Hex option \<Rightarrow> SerializableWallet list \<Rightarrow> ('w, (Hex \<times> BitcoinUtxo) option) io" where
  "candidateLoop env cs amount script [] = return_io None"
| "candidateLoop env cs amount script (serializableWallet # wallets) =
     bind_io (lift_io (fromSerializableWallet env serializableWallet)) (\<lambda>candidate.
     if vw_walletBTCBalance candidate < amount then candidateLoop env cs amount script wallets
     else
       let found = Some (vw_walletPublicKey candidate, vw_mainUtxo candidate) in
       case script of
         None \<Rightarrow> return_io found
       | Some redeemerOutputScript \<Rightarrow>
           bind_io (pendingRedemptions (tc_bridge cs) (vw_walletPublicKey candidate) redeemerOutputScript) (\<lambda>pendingRedemption.
           if rr_requestedAt pendingRedemption \<noteq> 0 then candidateLoop env cs amount script wallets
           else return_io found))"

definition determineValidRedemptionWallet ::
  "btcjs \<Rightarrow> 'w redemption_env \<Rightarrow> 'w tbtc_contracts \<Rightarrow> 'w bitcoin_client \<Rightarrow> int \<Rightarrow> SerializableWallet list \<Rightarrow> string option \<Rightarrow>
   ('w, RedemptionWallet) io" where
  "determineValidRedemptionWallet lib env cs bitcoinClient amount potentialCandidateWallets redeemerAddressOrScript =
     bind_io (case redeemerAddressOrScript of
         None \<Rightarrow> return_io None
       | Some a \<Rightarrow> if a = [] then return_io None
           else bind_io (resolveRedeemerOutputScript lib bitcoinClient a) (\<lambda>s. return_io (Some s))) (\<lambda>redeemerOutputScript.
     bind_io (candidateLoop env cs amount redeemerOutputScript potentialCandidateWallets) (\<lambda>found.
     case found of
       None \<Rightarrow> throw_io (Error ''Could not find a wallet with enough funds.'')
     | Some (walletPublicKey, mainUtxo) \<Rightarrow>
         return_io \<lparr>rw_walletPublicKey = walletPublicKey, rw_mainUtxo = mainUtxo,
           rw_redeemerOutputScript = redeemerOutputScript\<rparr>))"

subsection \<open>Requests\<close>

definition determineRedemptionData ::
  "btcjs \<Rightarrow> 'w RedemptionsService \<Rightarrow> (nat \<Rightarrow> nat list) \<Rightarrow> string \<Rightarrow> int \<Rightarrow> ('w, Hex \<times> BitcoinUtxo \<times> Hex) io" where
  "determineRedemptionData lib svc schedules bitcoinRedeemerAddress amount =
     bind_io (getRedeemerOutputScript lib (rsvc_bitcoinClient svc) bitcoinRedeemerAddress) (\<lambda>redeemerOutputScript.
     bind_io (lift_io (amountToSatoshi amount)) (\<lambda>satoshis.
     bind_io (findWalletForRedemption lib (rsvc_tbtcContracts svc) (rsvc_bitcoinClient svc) schedules satoshis
       (Some redeemerOutputScript) 50) (\<lambda>(walletPublicKey, mainUtxo).
     return_io (walletPublicKey, mainUtxo, redeemerOutputScript))))"

text \<open>The request with the data in hand.\<close>

definition sendRequest ::
  "'w RedemptionsService \<Rightarrow> Hex \<Rightarrow> BitcoinUtxo \<Rightarrow> Hex \<Rightarrow> int \<Rightarrow> ('w, Hex \<times> Hex) io" where
  "sendRequest svc walletPublicKey mainUtxo redeemerOutputScript amount =
     bind_io (token_requestRedemption (tc_tbtcToken (rsvc_tbtcContracts svc)) walletPublicKey mainUtxo
       redeemerOutputScript amount) (\<lambda>txHash.
     return_io (txHash, walletPublicKey))"

text \<open>The \<open>try\<close> covers the selection and the request; the handler selects on chain and requests
  again.\<close>

definition requestRedemption ::
  "btcjs \<Rightarrow> 'w redemption_env \<Rightarrow> 'w RedemptionsService \<Rightarrow> (nat \<Rightarrow> nat list) \<Rightarrow> string \<Rightarrow> int \<Rightarrow> ('w, Hex \<times> Hex) io" where
  "requestRedemption lib env svc schedules bitcoinRedeemerAddress amount =
     catch_io
      (bind_io (fetchWalletsForRedemption env (rsvc_bitcoinClient svc)) (\<lambda>candidateWallets.
       bind_io (lift_io (amountToSatoshi amount)) (\<lambda>satoshis.
       bind_io (determineValidRedemptionWallet lib env (rsvc_tbtcContracts svc) (rsvc_bitcoinClient svc) satoshis
         candidateWallets (Some bitcoinRedeemerAddress)) (\<lambda>wallet.
       case rw_redeemerOutputScript wallet of
         None \<Rightarrow> throw_io (Error ''Could not find a valid redemption wallet with enough funds'')
       | Some redeemerOutputScript \<Rightarrow>
           sendRequest svc (rw_walletPublicKey wallet) (rw_mainUtxo wallet) redeemerOutputScript amount))))
      (\<lambda>error.
       bind_io (determineRedemptionData lib svc schedules bitcoinRedeemerAddress amount)
         (\<lambda>(walletPublicKey, mainUtxo, redeemerOutputScript).
       sendRequest svc walletPublicKey mainUtxo redeemerOutputScript amount))"

record 'w redeemer_proxy =
  redeemerAddress :: ChainIdentifier
  redeemer_requestRedemption :: "Hex \<Rightarrow> ('w, Hex) io"

definition requestRedemptionWithProxy ::
  "btcjs \<Rightarrow> 'w RedemptionsService \<Rightarrow> (nat \<Rightarrow> nat list) \<Rightarrow> string \<Rightarrow> int \<Rightarrow> 'w redeemer_proxy \<Rightarrow> ('w, Hex \<times> Hex) io" where
  "requestRedemptionWithProxy lib svc schedules bitcoinRedeemerAddress amount redeemerProxy =
     bind_io (determineRedemptionData lib svc schedules bitcoinRedeemerAddress amount)
       (\<lambda>(walletPublicKey, mainUtxo, redeemerOutputScript).
     bind_io (lift_io (buildRequestRedemptionData (tc_tbtcToken (rsvc_tbtcContracts svc)) (redeemerAddress redeemerProxy)
       walletPublicKey mainUtxo redeemerOutputScript)) (\<lambda>redemptionData.
     bind_io (redeemer_requestRedemption redeemerProxy redemptionData) (\<lambda>targetChainTxHash.
     return_io (targetChainTxHash, walletPublicKey))))"

definition requestCrossChainRedemption ::
  "btcjs \<Rightarrow> 'w redemption_env \<Rightarrow> 'w RedemptionsService \<Rightarrow> string \<Rightarrow> int \<Rightarrow> string \<Rightarrow> ('w, Hex) io" where
  "requestCrossChainRedemption lib env svc bitcoinRedeemerAddress amount l2ChainName =
     (case rsvc_crossChainContracts svc l2ChainName of
        Some cc \<Rightarrow> (case l2_requestRedemption cc of
          Some request \<Rightarrow>
            bind_io (getRedeemerOutputScript lib (rsvc_bitcoinClient svc) bitcoinRedeemerAddress) (\<lambda>redeemerOutputScript.
            bind_io (env_Date_now env) (\<lambda>ms.
            request amount redeemerOutputScript (ms div 1000)))
        | None \<Rightarrow> throw_io (Error (''Cross-chain redeemer contracts for '' @ l2ChainName @ '' not initialized'')))
      | None \<Rightarrow> throw_io (Error (''Cross-chain redeemer contracts for '' @ l2ChainName @ '' not initialized'')))"

definition relayRedemptionRequestToL1 ::
  "btcjs \<Rightarrow> 'w redemption_env \<Rightarrow> 'w RedemptionsService \<Rightarrow> (nat \<Rightarrow> nat list) \<Rightarrow> int \<Rightarrow> Hex \<Rightarrow> string \<Rightarrow> string \<Rightarrow> ('w, Hex) io" where
  "relayRedemptionRequestToL1 lib env svc schedules amount encodedVm l2ChainName redeemerOutputScript =
     (case rsvc_crossChainContracts svc l2ChainName of
        Some cc \<Rightarrow> (case l1_requestRedemption cc of
          Some request \<Rightarrow>
            bind_io (resolveRedeemerOutputScript lib (rsvc_bitcoinClient svc) redeemerOutputScript) (\<lambda>resolvedScript.
            bind_io (lift_io (amountToSatoshi amount)) (\<lambda>amountInSatoshi.
            bind_io (catch_io
               (bind_io (fetchWalletsForRedemption env (rsvc_bitcoinClient svc)) (\<lambda>candidateWallets.
                bind_io (determineValidRedemptionWallet lib env (rsvc_tbtcContracts svc) (rsvc_bitcoinClient svc)
                  amountInSatoshi candidateWallets (Some (toString resolvedScript))) (\<lambda>validWallet.
                return_io (rw_walletPublicKey validWallet, rw_mainUtxo validWallet))))
               (\<lambda>error. findWalletForRedemption lib (rsvc_tbtcContracts svc) (rsvc_bitcoinClient svc) schedules
                  amountInSatoshi (Some resolvedScript) 50)) (\<lambda>(walletPublicKey, mainUtxo).
            request walletPublicKey mainUtxo encodedVm)))
        | None \<Rightarrow> throw_io (Error (''Cross-chain contracts for '' @ l2ChainName @ '' not initialized'')))
      | None \<Rightarrow> throw_io (Error (''Cross-chain contracts for '' @ l2ChainName @ '' not initialized'')))"

datatype request_type = PendingType | TimedOutType

definition getRedemptionRequests ::
  "btcjs \<Rightarrow> 'w RedemptionsService \<Rightarrow> string \<Rightarrow> Hex \<Rightarrow> request_type \<Rightarrow> ('w, RedemptionRequest) io" where
  "getRedemptionRequests lib svc bitcoinRedeemerAddress walletPublicKey type =
     bind_io (getRedeemerOutputScript lib (rsvc_bitcoinClient svc) bitcoinRedeemerAddress) (\<lambda>redeemerOutputScript.
     bind_io (case type of
         PendingType \<Rightarrow> pendingRedemptions (tc_bridge (rsvc_tbtcContracts svc)) walletPublicKey redeemerOutputScript
       | TimedOutType \<Rightarrow> timedOutRedemptions (tc_bridge (rsvc_tbtcContracts svc)) walletPublicKey redeemerOutputScript)
       (\<lambda>redemptionRequest.
     if rr_requestedAt redemptionRequest = 0 then throw_io (Error ''Redemption request does not exist'')
     else return_io redemptionRequest))"

end
