(* ===== verification/WalletSearch.thy ===== *)
theory WalletSearch
  imports Redemptions
begin

section \<open>The wallet search and its sequential specification\<close>

text \<open>
  The specification examines one wallet after the other and takes the first that can pay. The
  concurrent search of \<open>Redemptions\<close> refines it under every schedule, provided the reads are
  stable: a question asked twice during the search has one answer and asking changes nothing.
\<close>

subsection \<open>Stable reads\<close>

definition answers :: "('w, 'a) io \<Rightarrow> 'a res \<Rightarrow> bool" where
  "answers m r = (\<forall>w. m w = (r, w))"

lemma answers_app: "answers m r \<Longrightarrow> m w = (r, w)"
  by (simp add: answers_def)

lemma answers_basic [simp]:
  "answers (return_io x) r = (r = Inr x)" "answers (throw_io e) r = (r = Inl e)" "answers (lift_io q) r = (r = q)"
  "answers (Pair q) r = (r = q)"
  by (auto simp: answers_def)

lemma answers_bind: "answers m (Inr x) \<Longrightarrow> answers (bind_io m f) r = answers (f x) r"
  by (simp add: answers_def bind_io_def)

lemma answers_bind_fail: "answers m (Inl e) \<Longrightarrow> answers (bind_io m f) (Inl e)"
  by (simp add: answers_def bind_io_def)

lemma stable_bind:
  assumes "\<exists>r. answers m r" "\<And>x. \<exists>r. answers (f x) r"
  shows "\<exists>r. answers (bind_io m f) r"
proof -
  obtain a where a: "answers m a" using assms(1) by blast
  show ?thesis
  proof (cases a)
    case (Inl e)
    then show ?thesis using a answers_bind_fail by blast
  next
    case (Inr x)
    then show ?thesis using a assms(2)[of x] by (simp add: answers_bind)
  qed
qed

lemma answers_bindD:
  assumes "answers (bind_io m f) (Inr y)" "\<exists>r. answers m r"
  obtains x where "answers m (Inr x)" "answers (f x) (Inr y)"
proof -
  obtain a where a: "answers m a" using assms(2) by blast
  show ?thesis
  proof (cases a)
    case (Inl e)
    then show ?thesis using a assms(1) by (simp add: answers_def bind_io_def)
  next
    case (Inr x)
    then show ?thesis using a assms(1) that by (simp add: answers_bind)
  qed
qed

lemma answers_bind_return:
  assumes "answers (bind_io m (\<lambda>x. return_io (g x))) (Inr y)" "\<exists>r. answers m r"
  shows "\<exists>x. answers m (Inr x) \<and> y = g x"
proof (rule answers_bindD[OF assms])
  fix x
  assume "answers m (Inr x)" "answers (return_io (g x) :: ('a, 'b) io) (Inr y)"
  then show ?thesis by auto
qed

definition stable_chain :: "'w tbtc_contracts \<Rightarrow> 'w bitcoin_client \<Rightarrow> bool" where
  "stable_chain cs bc =
     ((\<forall>h. \<exists>r. answers (bridge_wallets (tc_bridge cs) h) r) \<and>
      (\<forall>k s. \<exists>r. answers (pendingRedemptions (tc_bridge cs) k s) r) \<and>
      (\<forall>h. \<exists>r. answers (getTxHashesForPublicKeyHash bc h) r) \<and>
      (\<forall>t. \<exists>r. answers (getTransaction bc t) r))"

lemma stable_mainUtxoLoop:
  assumes "stable_chain cs bc"
  shows "\<exists>r. answers (mainUtxoLoop cs bc h P ts) r"
proof (induction ts)
  case (Cons t ts)
  have "\<exists>r. answers (getTransaction bc t) r" using assms by (simp add: stable_chain_def)
  then show ?case unfolding mainUtxoLoop.simps Let_def
    by (rule stable_bind) (use Cons in \<open>auto intro!: stable_bind\<close>)
qed simp

lemma stable_determineWalletMainUtxo:
  assumes "stable_chain cs bc"
  shows "\<exists>r. answers (determineWalletMainUtxo lib cs bc h net) r"
  unfolding determineWalletMainUtxo_def
  using assms stable_mainUtxoLoop[OF assms]
  by (intro stable_bind) (auto simp: stable_chain_def intro!: stable_bind)

subsection \<open>Specification\<close>

text \<open>One wallet: whether it is live and, if it may serve the redemption, its key, its main output and
  the balance it has free.\<close>

type_synonym examination = "bool \<times> (Hex \<times> BitcoinUtxo \<times> int) option"

definition examineWallet ::
  "btcjs \<Rightarrow> 'w tbtc_contracts \<Rightarrow> 'w bitcoin_client \<Rightarrow> BitcoinNetwork \<Rightarrow> Hex option \<Rightarrow> Hex \<Rightarrow> ('w, examination) io" where
  "examineWallet lib cs bc net script pkh =
     bind_io (bridge_wallets (tc_bridge cs) pkh) (\<lambda>wallet.
     case w_walletPublicKey wallet of
       None \<Rightarrow> return_io (False, None)
     | Some key \<Rightarrow>
         if w_state wallet \<noteq> WS_Live then return_io (False, None)
         else
         bind_io (case script of
             None \<Rightarrow> return_io True
           | Some s \<Rightarrow> bind_io (pendingRedemptions (tc_bridge cs) key s) (\<lambda>q. return_io (rr_requestedAt q = 0))) (\<lambda>free.
         if \<not> free then return_io (True, None)
         else bind_io (determineWalletMainUtxo lib cs bc pkh net) (\<lambda>u.
           return_io (True, map_option (\<lambda>utxo. (key, utxo, utxo_value utxo - w_pendingRedemptionsValue wallet)) u))))"

definition can_pay :: "int \<Rightarrow> examination \<Rightarrow> bool" where
  "can_pay amount r = (case snd r of None \<Rightarrow> False | Some (k, u, b) \<Rightarrow> amount \<le> b)"

definition free_balances :: "examination list \<Rightarrow> int list" where
  "free_balances rs = map (\<lambda>(k, u, b). b) (List.map_filter snd rs)"

text \<open>The first wallet that can pay.\<close>

definition oldestWallet :: "int \<Rightarrow> examination list \<Rightarrow> (Hex \<times> BitcoinUtxo) res" where
  "oldestWallet amount rs =
     (if \<not> list_ex fst rs then Inl noLiveWallets
      else case find (can_pay amount) rs of
        Some (_, Some (key, utxo, _)) \<Rightarrow> Inr (key, utxo)
      | _ \<Rightarrow> noCandidate (foldr max (free_balances rs) 0))"

definition findWalletSpec ::
  "btcjs \<Rightarrow> 'w tbtc_contracts \<Rightarrow> 'w bitcoin_client \<Rightarrow> int \<Rightarrow> Hex option \<Rightarrow> ('w, Hex \<times> BitcoinUtxo) io" where
  "findWalletSpec lib cs bc amount script =
     bind_io (getNewWalletRegisteredEvents (tc_bridge cs) all_events) (\<lambda>events.
     bind_io (getNetwork bc) (\<lambda>net.
     bind_io (map_io (\<lambda>e. examineWallet lib cs bc net script (nw_walletPublicKeyHash e)) events) (\<lambda>rs.
     lift_io (oldestWallet amount rs))))"

subsection \<open>One resumption\<close>

fun resumptions :: "wallet_task \<Rightarrow> nat" where
  "resumptions (AwaitWallet h) = 3"
| "resumptions (AwaitPending h wal key) = 2"
| "resumptions (AwaitMainUtxo h wal key) = 1"
| "resumptions TaskDone = 0"

fun not_started :: "wallet_task \<Rightarrow> bool" where
  "not_started (AwaitWallet h) = True"
| "not_started _ = False"

lemma resumptions_0 [simp]: "(resumptions t = 0) = (t = TaskDone)"
  by (cases t) simp_all

lemma not_started_iff: "not_started t = (resumptions t = 3)"
  by (cases t) simp_all

fun task_ok :: "'w tbtc_contracts \<Rightarrow> Hex option \<Rightarrow> Hex \<Rightarrow> wallet_task \<Rightarrow> bool" where
  "task_ok cs script h (AwaitWallet p) = (p = h)"
| "task_ok cs script h (AwaitPending p wal key) =
     (p = h \<and> answers (bridge_wallets (tc_bridge cs) h) (Inr wal) \<and> w_walletPublicKey wal = Some key \<and>
      w_state wal = WS_Live \<and> script \<noteq> None)"
| "task_ok cs script h (AwaitMainUtxo p wal key) =
     (p = h \<and> answers (bridge_wallets (tc_bridge cs) h) (Inr wal) \<and> w_walletPublicKey wal = Some key \<and>
      w_state wal = WS_Live \<and>
      (\<forall>s. script = Some s \<longrightarrow> (\<exists>q. answers (pendingRedemptions (tc_bridge cs) key s) (Inr q) \<and> rr_requestedAt q = 0)))"
| "task_ok cs script h TaskDone = True"

text \<open>What a task adds to the shared variables when it starts and when it ends.\<close>

definition on_start :: "examination \<Rightarrow> find_acc \<Rightarrow> find_acc" where
  "on_start r acc = (if fst r then acc\<lparr>fa_liveWallets := Suc (fa_liveWallets acc)\<rparr> else acc)"

definition on_end :: "int \<Rightarrow> nat \<Rightarrow> examination \<Rightarrow> find_acc \<Rightarrow> find_acc" where
  "on_end amount i r acc =
     (case snd r of
        None \<Rightarrow> acc
      | Some (key, utxo, b) \<Rightarrow>
          acc\<lparr>fa_maxAmount := max b (fa_maxAmount acc),
            fa_candidates := fa_candidates acc @ (if amount \<le> b then [(i, key, utxo)] else [])\<rparr>)"

definition resumed :: "int \<Rightarrow> nat \<Rightarrow> examination \<Rightarrow> wallet_task \<Rightarrow> wallet_task \<Rightarrow> find_acc \<Rightarrow> find_acc" where
  "resumed amount i r t t' acc =
     (if t' = TaskDone \<and> t \<noteq> TaskDone then on_end amount i r else id) ((if not_started t then on_start r else id) acc)"

lemma examineWallet_live:
  assumes "stable_chain cs bc" "answers (examineWallet lib cs bc net script h) (Inr r)"
    and wal: "answers (bridge_wallets (tc_bridge cs) h) (Inr wal)"
    and "w_walletPublicKey wal = Some key" "w_state wal = WS_Live"
  shows "fst r"
proof -
  let ?free = "case script of None \<Rightarrow> return_io True
     | Some s \<Rightarrow> bind_io (pendingRedemptions (tc_bridge cs) key s) (\<lambda>q. return_io (rr_requestedAt q = 0))"
  have "answers (bind_io ?free (\<lambda>free. if \<not> free then return_io (True, None)
       else bind_io (determineWalletMainUtxo lib cs bc h net) (\<lambda>u.
         return_io (True, map_option (\<lambda>utxo. (key, utxo, utxo_value utxo - w_pendingRedemptionsValue wal)) u)))) (Inr r)"
    using assms(2) unfolding examineWallet_def answers_bind[OF wal] by (simp add: assms(4,5))
  moreover have "\<exists>q. answers ?free q"
    using assms(1) by (cases script) (auto simp: stable_chain_def intro!: stable_bind)
  ultimately obtain free where f: "answers (if \<not> free then return_io (True, None)
       else bind_io (determineWalletMainUtxo lib cs bc h net) (\<lambda>u.
         return_io (True, map_option (\<lambda>utxo. (key, utxo, utxo_value utxo - w_pendingRedemptionsValue wal)) u))) (Inr r)"
    by (rule answers_bindD)
  show ?thesis
  proof (cases free)
    case True
    then have "answers (bind_io (determineWalletMainUtxo lib cs bc h net) (\<lambda>u.
         return_io (True, map_option (\<lambda>utxo. (key, utxo, utxo_value utxo - w_pendingRedemptionsValue wal)) u))) (Inr r)"
      using f by simp
    from answers_bind_return[OF this stable_determineWalletMainUtxo[OF assms(1)]] show ?thesis by auto
  qed (use f in auto)
qed

lemma step_task_resumes:
  assumes "stable_chain cs bc" "answers (examineWallet lib cs bc net script h) (Inr r)" "task_ok cs script h t"
  shows "\<exists>t'. step_task lib cs bc net amount script i t acc w = (Inr (t', resumed amount i r t t' acc), w) \<and>
     task_ok cs script h t' \<and> resumptions t' \<le> resumptions t - 1"
proof -
  note defs = resumed_def on_start_def on_end_def
  have sp: "\<exists>q. answers (pendingRedemptions (tc_bridge cs) k s) q" for k s using assms(1) by (simp add: stable_chain_def)
  note sm = stable_determineWalletMainUtxo[OF assms(1)]
  show ?thesis
  proof (cases t)
    case (AwaitWallet p)
    then have p: "p = h" using assms(3) by simp
    have "\<exists>q. answers (bridge_wallets (tc_bridge cs) h) q" using assms(1) by (simp add: stable_chain_def)
    then obtain wal where wal: "answers (bridge_wallets (tc_bridge cs) h) (Inr wal)"
      by (rule answers_bindD[OF assms(2)[unfolded examineWallet_def]])
    note ex = assms(2)[unfolded examineWallet_def answers_bind[OF wal]]
    show ?thesis
    proof (cases "w_walletPublicKey wal")
      case None
      then show ?thesis using ex AwaitWallet p by (simp add: defs answers_app[OF wal] bind_io_ok[OF answers_app[OF wal]])
    next
      case (Some key)
      show ?thesis
      proof (cases "w_state wal = WS_Live")
        case False
        then show ?thesis using ex AwaitWallet p Some by (simp add: defs bind_io_ok[OF answers_app[OF wal]])
      next
        case True
        have "fst r" using examineWallet_live[OF assms(1,2) wal Some True] .
        then show ?thesis using AwaitWallet p wal Some True
          by (cases script) (simp_all add: defs bind_io_ok[OF answers_app[OF wal]])
      qed
    qed
  next
    case (AwaitPending p wal key)
    then obtain s where s: "script = Some s" using assms(3) by auto
    have ok: "p = h" "answers (bridge_wallets (tc_bridge cs) h) (Inr wal)" "w_walletPublicKey wal = Some key" "w_state wal = WS_Live"
      using AwaitPending assms(3) by auto
    have "answers (bind_io (bind_io (pendingRedemptions (tc_bridge cs) key s) (\<lambda>q. return_io (rr_requestedAt q = 0))) (\<lambda>free.
         if \<not> free then return_io (True, None)
         else bind_io (determineWalletMainUtxo lib cs bc h net) (\<lambda>u.
           return_io (True, map_option (\<lambda>utxo. (key, utxo, utxo_value utxo - w_pendingRedemptionsValue wal)) u)))) (Inr r)"
      using assms(2) unfolding examineWallet_def answers_bind[OF ok(2)] by (simp add: ok s)
    moreover have "\<exists>q. answers (bind_io (pendingRedemptions (tc_bridge cs) key s) (\<lambda>q. return_io (rr_requestedAt q = 0))) q"
      using sp by (auto intro!: stable_bind)
    ultimately obtain free where f: "answers (bind_io (pendingRedemptions (tc_bridge cs) key s) (\<lambda>q. return_io (rr_requestedAt q = 0))) (Inr free)"
      and r: "answers (if \<not> free then return_io (True, None)
         else bind_io (determineWalletMainUtxo lib cs bc h net) (\<lambda>u.
           return_io (True, map_option (\<lambda>utxo. (key, utxo, utxo_value utxo - w_pendingRedemptionsValue wal)) u))) (Inr r)"
      by (rule answers_bindD)
    obtain q where q: "answers (pendingRedemptions (tc_bridge cs) key s) (Inr q)" "free = (rr_requestedAt q = 0)"
      using answers_bind_return[OF f sp] by blast
    show ?thesis using AwaitPending ok s q r
      by (cases free) (auto simp: defs bind_io_ok[OF answers_app[OF q(1)]])
  next
    case (AwaitMainUtxo p wal key)
    have ok: "p = h" "answers (bridge_wallets (tc_bridge cs) h) (Inr wal)" "w_walletPublicKey wal = Some key" "w_state wal = WS_Live"
      using AwaitMainUtxo assms(3) by auto
    have "answers (bind_io (determineWalletMainUtxo lib cs bc h net) (\<lambda>u.
           return_io (True, map_option (\<lambda>utxo. (key, utxo, utxo_value utxo - w_pendingRedemptionsValue wal)) u))) (Inr r)"
    proof (cases script)
      case None
      then show ?thesis using assms(2) unfolding examineWallet_def answers_bind[OF ok(2)]
        by (simp add: ok answers_bind[where x = True])
    next
      case (Some s)
      then obtain q where "answers (pendingRedemptions (tc_bridge cs) key s) (Inr q)" "rr_requestedAt q = 0"
        using AwaitMainUtxo assms(3) by auto
      then show ?thesis using assms(2) Some unfolding examineWallet_def answers_bind[OF ok(2)]
        by (simp add: ok answers_bind[where x = True] answers_bind[where x = q])
    qed
    from answers_bind_return[OF this sm] obtain u where u: "answers (determineWalletMainUtxo lib cs bc h net) (Inr u)"
      "r = (True, map_option (\<lambda>utxo. (key, utxo, utxo_value utxo - w_pendingRedemptionsValue wal)) u)"
      by blast
    show ?thesis using AwaitMainUtxo ok u
      by (cases u) (auto simp: defs bind_io_ok[OF answers_app[OF u(1)]] Let_def max_def)
  qed (simp add: defs)
qed

subsection \<open>The shared variables\<close>

definition acc_inv :: "int \<Rightarrow> examination list \<Rightarrow> nat set \<Rightarrow> nat set \<Rightarrow> find_acc \<Rightarrow> bool" where
  "acc_inv amount rs S D acc =
     ((0 < fa_liveWallets acc) = (\<exists>i \<in> S. fst (rs ! i)) \<and>
      fa_maxAmount acc = Max (insert 0 {b. \<exists>i \<in> D. \<exists>k u. snd (rs ! i) = Some (k, u, b)}) \<and>
      set (fa_candidates acc) = {(i, k, u). i \<in> D \<and> (\<exists>b. snd (rs ! i) = Some (k, u, b) \<and> amount \<le> b)})"

lemma acc_inv_empty: "acc_inv amount rs {} {} \<lparr>fa_liveWallets = 0, fa_maxAmount = 0, fa_candidates = []\<rparr>"
  by (simp add: acc_inv_def)

lemma acc_inv_start: "acc_inv amount rs S D acc \<Longrightarrow> acc_inv amount rs (insert i S) D (on_start (rs ! i) acc)"
  by (auto simp: acc_inv_def on_start_def)

lemma finite_balances: "finite D \<Longrightarrow> finite {b. \<exists>i \<in> D. \<exists>k u. snd (rs ! i) = Some (k, u, b)}"
  by (rule finite_subset[of _ "(\<lambda>i. snd (snd (the (snd (rs ! i))))) ` D"]) (auto simp: image_iff, force)

lemma acc_inv_end:
  assumes "finite D" "acc_inv amount rs S D acc"
  shows "acc_inv amount rs S (insert i D) (on_end amount i (rs ! i) acc)"
proof (cases "snd (rs ! i)")
  case None
  then show ?thesis using assms(2) by (auto simp: acc_inv_def on_end_def)
next
  case (Some kub)
  obtain k u b where r: "snd (rs ! i) = Some (k, u, b)" using Some by (cases kub) auto
  let ?B = "{b. \<exists>i \<in> D. \<exists>k u. snd (rs ! i) = Some (k, u, b)}"
  have "{b. \<exists>j \<in> insert i D. \<exists>k u. snd (rs ! j) = Some (k, u, b)} = insert b ?B" using r by auto
  moreover have "Max (insert 0 (insert b ?B)) = max b (Max (insert 0 ?B))"
    using finite_balances[OF assms(1), of rs] by (simp add: insert_commute[of 0 b])
  ultimately show ?thesis
    using assms(2) r by (auto simp: acc_inv_def on_end_def)
qed

text \<open>The wallets whose tasks have started, and ended, when the chunk at \<open>b\<close> runs.\<close>

definition started :: "nat \<Rightarrow> wallet_task list \<Rightarrow> nat set" where
  "started b ts = {..<b} \<union> (\<lambda>j. b + j) ` {j. j < length ts \<and> \<not> not_started (ts ! j)}"

definition ended :: "nat \<Rightarrow> wallet_task list \<Rightarrow> nat set" where
  "ended b ts = {..<b} \<union> (\<lambda>j. b + j) ` {j. j < length ts \<and> ts ! j = TaskDone}"

lemma started_step:
  "j < length ts \<Longrightarrow> resumptions t' \<le> resumptions (ts ! j) - 1 \<Longrightarrow>
   started b (ts[j := t']) = (if not_started (ts ! j) then insert (b + j) (started b ts) else started b ts)"
  by (auto simp: started_def nth_list_update image_iff split: if_splits; cases "ts ! j"; cases t'; auto)

lemma ended_step:
  "j < length ts \<Longrightarrow> resumptions t' \<le> resumptions (ts ! j) - 1 \<Longrightarrow>
   ended b (ts[j := t']) = (if t' = TaskDone \<and> ts ! j \<noteq> TaskDone then insert (b + j) (ended b ts) else ended b ts)"
  by (auto simp: ended_def nth_list_update image_iff split: if_splits)

lemma finite_ended [simp]: "finite (ended b ts)"
  by (simp add: ended_def)

definition pool_ok ::
  "'w tbtc_contracts \<Rightarrow> Hex option \<Rightarrow> int \<Rightarrow> Hex list \<Rightarrow> examination list \<Rightarrow> nat \<Rightarrow> wallet_task list \<Rightarrow> find_acc \<Rightarrow> bool" where
  "pool_ok cs script amount hs rs b ts acc =
     ((\<forall>j < length ts. task_ok cs script (hs ! (b + j)) (ts ! j)) \<and> acc_inv amount rs (started b ts) (ended b ts) acc)"

lemma pool_ok_step:
  assumes "pool_ok cs script amount hs rs b ts acc" "j < length ts"
    and "task_ok cs script (hs ! (b + j)) t'" "resumptions t' \<le> resumptions (ts ! j) - 1"
  shows "pool_ok cs script amount hs rs b (ts[j := t']) (resumed amount (b + j) (rs ! (b + j)) (ts ! j) t' acc)"
  using assms acc_inv_end[OF finite_ended]
  by (auto simp: pool_ok_def nth_list_update resumed_def started_step ended_step acc_inv_start)

lemma run_tasks_ok:
  assumes "stable_chain cs bc"
    and "\<And>i. i < length hs \<Longrightarrow> answers (examineWallet lib cs bc net script (hs ! i)) (Inr (rs ! i))"
  shows "pool_ok cs script amount hs rs b ts acc \<Longrightarrow> b + length ts \<le> length hs \<Longrightarrow>
     \<exists>ts' acc'. run_tasks (\<lambda>j. step_task lib cs bc net amount script (b + j)) schedule ts acc w = (Inr (ts', acc'), w) \<and>
       pool_ok cs script amount hs rs b ts' acc' \<and> length ts' = length ts \<and>
       (\<forall>j < length ts. resumptions (ts' ! j) \<le> resumptions (ts ! j) - count_list schedule j)"
proof (induction schedule arbitrary: ts acc)
  case (Cons j schedule)
  show ?case
  proof (cases "j < length ts")
    case True
    then obtain t' where
      st: "step_task lib cs bc net amount script (b + j) (ts ! j) acc w =
        (Inr (t', resumed amount (b + j) (rs ! (b + j)) (ts ! j) t' acc), w)"
      and ok: "task_ok cs script (hs ! (b + j)) t'" "resumptions t' \<le> resumptions (ts ! j) - 1"
      using step_task_resumes[OF assms(1) assms(2)[of "b + j"], of "ts ! j" amount "b + j" acc w] Cons.prems
      by (auto simp: pool_ok_def)
    let ?acc = "resumed amount (b + j) (rs ! (b + j)) (ts ! j) t' acc"
    have len: "b + length (ts[j := t']) \<le> length hs" using Cons.prems(2) by simp
    from Cons.IH[OF pool_ok_step[OF Cons.prems(1) True ok] len] obtain ts' acc' where
      r: "run_tasks (\<lambda>j. step_task lib cs bc net amount script (b + j)) schedule (ts[j := t']) ?acc w = (Inr (ts', acc'), w)"
      "pool_ok cs script amount hs rs b ts' acc'" "length ts' = length ts"
      and m: "\<forall>k < length ts. resumptions (ts' ! k) \<le> resumptions (ts[j := t'] ! k) - count_list schedule k"
      by auto
    have "resumptions (ts' ! k) \<le> resumptions (ts ! k) - count_list (j # schedule) k" if "k < length ts" for k
      using m[rule_format, OF that] ok(2) True by (cases "k = j") (auto simp: that)
    then show ?thesis using r True st by (auto simp: bind_io_def)
  next
    case False
    then show ?thesis using Cons by (auto simp: count_list.simps)
  qed
qed (simp add: exI)

lemma count_list_upt: "j < n \<Longrightarrow> count_list [0..<n] j = 1"
proof (induction n)
  case (Suc n)
  have "count_list [0..<n] n = 0" by (simp add: count_list_0_iff)
  then show ?case using Suc by (cases "j = n") simp_all
qed simp

lemma count_full_schedule: "j < n \<Longrightarrow> 3 \<le> count_list (full_schedule schedule n) j"
  by (simp add: full_schedule_def count_list_upt)

text \<open>After a chunk all its wallets are accounted for.\<close>

lemma run_chunk_ok:
  assumes "stable_chain cs bc"
    and "\<And>i. i < length hs \<Longrightarrow> answers (examineWallet lib cs bc net script (hs ! i)) (Inr (rs ! i))"
    and "acc_inv amount rs {..<b} {..<b} acc" "b + n \<le> length hs"
  shows "\<exists>ts' acc'. run_tasks (\<lambda>j. step_task lib cs bc net amount script (b + j)) (full_schedule schedule n)
       (map AwaitWallet (take n (drop b hs))) acc w = (Inr (ts', acc'), w) \<and>
     acc_inv amount rs {..<b + n} {..<b + n} acc'"
proof -
  let ?ts = "map AwaitWallet (take n (drop b hs))"
  have len: "length ?ts = n" using assms(4) by simp
  have "started b ?ts = {..<b}" "ended b ?ts = {..<b}"
    by (auto simp: started_def ended_def)
  then have pool: "pool_ok cs script amount hs rs b ?ts acc"
    using assms(3,4) by (auto simp: pool_ok_def)
  from run_tasks_ok[OF assms(1,2) pool, where schedule = "full_schedule schedule n" and w = w] obtain ts' acc' where
    r: "run_tasks (\<lambda>j. step_task lib cs bc net amount script (b + j)) (full_schedule schedule n) ?ts acc w = (Inr (ts', acc'), w)"
    and p: "pool_ok cs script amount hs rs b ts' acc'" and l: "length ts' = n"
    and m: "\<forall>j < n. resumptions (ts' ! j) \<le> resumptions (?ts ! j) - count_list (full_schedule schedule n) j"
    using assms(4) len by (auto simp: len)
  have "ts' ! j = TaskDone" if "j < n" for j
  proof -
    have "resumptions (?ts ! j) = 3" using that len by simp
    then have "resumptions (ts' ! j) = 0" using m count_full_schedule[OF that, of schedule] that by fastforce
    then show ?thesis by simp
  qed
  then have "started b ts' = {..<b + n}" "ended b ts' = {..<b + n}"
    using l by (auto simp: started_def ended_def image_iff) (metis add_diff_inverse_nat nat_add_left_cancel_less not_less)+
  then show ?thesis using r p by (auto simp: pool_ok_def)
qed

lemma find_chunks_ok:
  assumes "stable_chain cs bc" "0 < limit" "length rs = length evs"
    and "\<And>i. i < length evs \<Longrightarrow> answers (examineWallet lib cs bc net script (nw_walletPublicKeyHash (evs ! i))) (Inr (rs ! i))"
  shows "acc_inv amount rs {..<min (c * limit) (length evs)} {..<min (c * limit) (length evs)} acc \<Longrightarrow>
     \<exists>acc'. find_chunks (step_task lib cs bc net amount script) schedules limit c (chunk_slices limit (drop (c * limit) evs)) acc w
         = (Inr acc', w) \<and>
       acc_inv amount rs {..<length evs} {..<length evs} acc'"
proof (induction "length evs - c * limit" arbitrary: c acc rule: less_induct)
  case less
  show ?case
  proof (cases "c * limit < length evs")
    case False
    then show ?thesis using less.prems by (subst chunk_slices.simps) (simp add: min_absorb2)
  next
    case True
    let ?hs = "map nw_walletPublicKeyHash evs" and ?b = "c * limit"
    let ?n = "length (take limit (drop ?b evs))"
    have chunks: "chunk_slices limit (drop ?b evs) = take limit (drop ?b evs) # chunk_slices limit (drop (Suc c * limit) evs)"
      using True assms(2) by (subst chunk_slices.simps) (simp add: add.commute)
    have tasks: "map (\<lambda>e. AwaitWallet (nw_walletPublicKeyHash e)) (take limit (drop ?b evs)) =
        map AwaitWallet (take ?n (drop ?b ?hs))"
      by (simp add: take_map drop_map min_def)
    have ex: "answers (examineWallet lib cs bc net script (?hs ! i)) (Inr (rs ! i))" if "i < length ?hs" for i
      using assms(4)[of i] that by simp
    have start: "acc_inv amount rs {..<?b} {..<?b} acc" using less.prems True by (simp add: min_absorb1)
    have fits: "?b + ?n \<le> length ?hs" using True by simp
    obtain ts' acc1 where r: "run_tasks (\<lambda>j. step_task lib cs bc net amount script (?b + j)) (full_schedule (schedules c) ?n)
        (map AwaitWallet (take ?n (drop ?b ?hs))) acc w = (Inr (ts', acc1), w)"
      and i: "acc_inv amount rs {..<?b + ?n} {..<?b + ?n} acc1"
      using run_chunk_ok[OF assms(1) ex start fits, of "schedules c" w] by blast
    have "?b + ?n = min (Suc c * limit) (length evs)" using True by auto
    then have next_inv: "acc_inv amount rs {..<min (Suc c * limit) (length evs)} {..<min (Suc c * limit) (length evs)} acc1"
      using i by simp
    have "length evs - Suc c * limit < length evs - ?b" using True assms(2) by simp
    from less.hyps[OF this next_inv] show ?thesis
      unfolding chunks find_chunks.simps tasks bind_io_def r by (simp only: prod.case sum.case)
  qed
qed

subsection \<open>The choice\<close>

lemma sort_key_hd:
  "xs \<noteq> [] \<Longrightarrow> hd (sort_key f xs) \<in> set xs \<and> (\<forall>x \<in> set xs. f (hd (sort_key f xs)) \<le> (f x :: nat))"
proof -
  assume ne: "xs \<noteq> []"
  let ?s = "sort_key f xs"
  have "?s \<noteq> []" using ne by (metis length_0_conv length_sort)
  then obtain y ys where s: "?s = y # ys" by (cases ?s) auto
  have "sorted (map f ?s)" by simp
  then have "\<forall>x \<in> set ?s. f y \<le> f x" by (auto simp: s)
  moreover have "set xs = insert y (set ys)" using arg_cong[OF s, of set] by simp
  ultimately show ?thesis by (simp add: s)
qed

lemma free_balances_set: "set (free_balances rs) = {b. \<exists>i < length rs. \<exists>k u. snd (rs ! i) = Some (k, u, b)}"
proof -
  have "set (free_balances rs) = {b. \<exists>r \<in> set rs. \<exists>k u. snd r = Some (k, u, b)}"
    by (induction rs) (auto simp: free_balances_def map_filter_simps split: option.splits)
  moreover have "(\<exists>r \<in> set rs. P r) = (\<exists>i < length rs. P (rs ! i))" for P :: "examination \<Rightarrow> bool"
    by (metis in_set_conv_nth)
  ultimately show ?thesis by simp
qed

lemma foldr_max: "foldr max xs (0 :: int) = Max (insert 0 (set xs))"
  by (induction xs) (simp_all add: insert_commute[of 0])

text \<open>What the shared variables determine is what the specification takes from the examinations.\<close>

lemma chooseWallet_oldest:
  assumes "acc_inv amount rs {..<length rs} {..<length rs} acc"
  shows "chooseWallet acc = oldestWallet amount rs"
proof -
  have live: "(fa_liveWallets acc = 0) = (\<not> list_ex fst rs)"
    using assms by (auto simp: acc_inv_def list_ex_length)
  have maxi: "fa_maxAmount acc = foldr max (free_balances rs) 0"
  proof -
    have "{b. \<exists>i \<in> {..<length rs}. \<exists>k u. snd (rs ! i) = Some (k, u, b)} = set (free_balances rs)"
      by (auto simp: free_balances_set)
    then show ?thesis using assms by (simp add: acc_inv_def foldr_max)
  qed
  have cand: "set (fa_candidates acc) = {(i, k, u). i < length rs \<and> (\<exists>b. snd (rs ! i) = Some (k, u, b) \<and> amount \<le> b)}"
    using assms by (simp add: acc_inv_def)
  have pay: "can_pay amount r = (\<exists>k u b. snd r = Some (k, u, b) \<and> amount \<le> b)" for r
    by (auto simp: can_pay_def split: option.splits)
  show ?thesis
  proof (cases "fa_candidates acc = []")
    case True
    then have "find (can_pay amount) rs = None"
      using cand by (auto simp: find_None_iff pay in_set_conv_nth)
    then show ?thesis using True live maxi by (simp add: chooseWallet_def oldestWallet_def)
  next
    case False
    obtain i k u where h: "hd (sort_key fst (fa_candidates acc)) = (i, k, u)" by (cases "hd (sort_key fst (fa_candidates acc))") auto
    have i: "i < length rs" "\<exists>b. snd (rs ! i) = Some (k, u, b) \<and> amount \<le> b"
      and least: "\<And>j k u. (j, k, u) \<in> set (fa_candidates acc) \<Longrightarrow> i \<le> j"
      using sort_key_hd[OF False, of fst] h cand by auto
    have "\<not> can_pay amount (rs ! j)" if "j < i" for j
    proof
      assume "can_pay amount (rs ! j)"
      then obtain k u where "(j, k, u) \<in> set (fa_candidates acc)" using i(1) \<open>j < i\<close> by (auto simp: cand pay)
      then show False using least that by fastforce
    qed
    then have f: "find (can_pay amount) rs = Some (rs ! i)"
      using i by (auto simp: find_Some_iff pay intro!: exI[of _ i])
    obtain rest where "sort_key fst (fa_candidates acc) = (i, k, u) # rest"
      using h False by (cases "sort_key fst (fa_candidates acc)") (auto dest: arg_cong[of _ _ length])
    then show ?thesis using f i live by (cases "rs ! i") (auto simp: chooseWallet_def oldestWallet_def)
  qed
qed

lemma map_io_answers:
  assumes "\<And>x. x \<in> set xs \<Longrightarrow> \<exists>r. answers (f x) r" "map_io f xs w = (Inr ys, w')"
  shows "w' = w \<and> length ys = length xs \<and> (\<forall>i < length xs. answers (f (xs ! i)) (Inr (ys ! i)))"
  using assms
proof (induction xs arbitrary: ys)
  case (Cons x xs)
  obtain a where a: "answers (f x) a" using Cons.prems(1) by auto
  obtain y w1 zs w2 where y: "f x w = (Inr y, w1)" and zs: "map_io f xs w1 = (Inr zs, w2)" "ys = y # zs" "w' = w2"
    using Cons.prems(2) by (auto simp: io_simps)
  have y': "a = Inr y" "w1 = w" using y a by (simp_all add: answers_def)
  have IH: "w2 = w \<and> length zs = length xs \<and> (\<forall>i < length xs. answers (f (xs ! i)) (Inr (zs ! i)))"
    using Cons.IH[of zs] Cons.prems(1) zs y' by simp
  have "answers (f ((x # xs) ! i)) (Inr (ys ! i))" if "i < length (x # xs)" for i
    using that a y' IH zs by (cases i) auto
  then show ?case using IH zs by auto
qed simp

lemma stable_examineWallet:
  assumes "stable_chain cs bc"
  shows "\<exists>r. answers (examineWallet lib cs bc net script h) r"
proof -
  have f: "\<exists>r. answers (case script of None \<Rightarrow> return_io True
      | Some s \<Rightarrow> bind_io (pendingRedemptions (tc_bridge cs) key s) (\<lambda>q. return_io (rr_requestedAt q = 0))) r" for key
    using assms by (cases script) (auto simp: stable_chain_def intro!: stable_bind)
  have m: "\<exists>r. answers (bind_io (determineWalletMainUtxo lib cs bc h net) (\<lambda>u. return_io (g u))) r" for g :: "_ \<Rightarrow> examination"
    by (rule stable_bind[OF stable_determineWalletMainUtxo[OF assms]]) simp
  show ?thesis unfolding examineWallet_def
  proof (rule stable_bind)
    show "\<exists>r. answers (bridge_wallets (tc_bridge cs) h) r" using assms by (simp add: stable_chain_def)
    fix wallet
    have free: "\<exists>r. answers (if \<not> free then return_io (True, None)
       else bind_io (determineWalletMainUtxo lib cs bc h net) (\<lambda>u. return_io (g u))) r" for free and g :: "_ \<Rightarrow> examination"
      using m by (cases free) auto
    show "\<exists>r. answers (case w_walletPublicKey wallet of None \<Rightarrow> return_io (False, None)
      | Some key \<Rightarrow> if w_state wallet \<noteq> WS_Live then return_io (False, None)
         else bind_io (case script of None \<Rightarrow> return_io True
             | Some s \<Rightarrow> bind_io (pendingRedemptions (tc_bridge cs) key s) (\<lambda>q. return_io (rr_requestedAt q = 0))) (\<lambda>free.
           if \<not> free then return_io (True, None)
           else bind_io (determineWalletMainUtxo lib cs bc h net) (\<lambda>u.
             return_io (True, map_option (\<lambda>utxo. (key, utxo, utxo_value utxo - w_pendingRedemptionsValue wallet)) u)))) r"
      using stable_bind[OF f free] by (cases "w_walletPublicKey wallet"; cases "w_state wallet = WS_Live") simp_all
  qed
qed

subsection \<open>A chain for the witnesses\<close>

definition sample_chain :: "'w tbtc_contracts" where
  "sample_chain = sample_contracts\<lparr>tc_bridge := sample_bridge\<lparr>
     getNewWalletRegisteredEvents := (\<lambda>_. return_io (map (\<lambda>i. \<lparr>ev_blockNumber = int i, ev_blockHash = Hex [],
        ev_transactionHash = Hex [], nw_ecdsaWalletID = Hex [], nw_walletPublicKeyHash = Hex (replicate 20 (byte_of i))\<rparr>) [1, 2, 3])),
     bridge_wallets := (\<lambda>h. return_io \<lparr>w_ecdsaWalletID = Hex [], w_walletPublicKey = Some h,
        w_mainUtxoHash = Hex (take 1 (hex_buf h)), w_pendingRedemptionsValue = 10, w_createdAt = 1, w_movingFundsRequestedAt = 0,
        w_closingStartedAt = 0, w_pendingMovedFundsSweepRequestsCount = 0,
        w_state = (if h = Hex (replicate 20 1) then WS_Closing else WS_Live), w_movingFundsTargetWalletsCommitmentHash = Hex []\<rparr>)\<rparr>\<rparr>"

definition sample_history :: "unit bitcoin_client" where
  "sample_history = sample_bitcoin_client\<lparr>
     getTxHashesForPublicKeyHash := (\<lambda>h. return_io [Hex (take 1 (hex_buf h))]),
     getTransaction := (\<lambda>t. return_io \<lparr>bt_transactionHash = t, bt_inputs = [],
       bt_outputs = [\<lparr>txo_outputIndex = 0, txo_value = 100 * int (be_nat (hex_buf t)),
         scriptPubKey = Hex (replicate 20 (hd (hex_buf t)))\<rparr>]\<rparr>)\<rparr>"

lemma stable_sample: "stable_chain sample_chain sample_history"
  by (simp add: stable_chain_def sample_chain_def sample_contracts_def sample_bridge_def sample_history_def)

subsection \<open>Property\<close>

text \<open>C5: the concurrent search for a redemption wallet finds what the sequential specification finds,
  the oldest live wallet without a pending request of the redeemer whose balance suffices, or
  the same error, whatever the chunk size and the order in which the event loop resumes the
  reads, when a read asked twice has one answer.\<close>

theorem findWallet_refines_spec:
  assumes "stable_chain cs bc" "0 < limit"
    and "answers (getNewWalletRegisteredEvents (tc_bridge cs) all_events) (Inr evs)" "answers (getNetwork bc) (Inr net)"
    and "map_io (\<lambda>e. examineWallet lib cs bc net script (nw_walletPublicKeyHash e)) evs w = (Inr rs, w')"
  shows "findWalletForRedemption lib cs bc schedules amount script limit w = findWalletSpec lib cs bc amount script w \<and>
     findWalletSpec lib cs bc amount script w = (oldestWallet amount rs, w)"
proof -
  note rs = map_io_answers[OF stable_examineWallet[OF assms(1)] assms(5)]
  have spec: "findWalletSpec lib cs bc amount script w = (oldestWallet amount rs, w)"
    using assms(5) rs by (simp add: findWalletSpec_def bind_io_def answers_app[OF assms(3)] answers_app[OF assms(4)])
  have lim: "0 < nat limit" using assms(2) by simp
  let ?acc = "\<lparr>fa_liveWallets = 0, fa_maxAmount = 0, fa_candidates = []\<rparr>"
  have ex: "answers (examineWallet lib cs bc net script (nw_walletPublicKeyHash (evs ! i))) (Inr (rs ! i))" if "i < length evs" for i
    using rs that by blast
  have len: "length rs = length evs" using rs by blast
  have inv: "acc_inv amount rs {..<min (0 * nat limit) (length evs)} {..<min (0 * nat limit) (length evs)} ?acc"
    using acc_inv_empty[of amount rs] by simp
  obtain acc where run: "find_chunks (step_task lib cs bc net amount script) schedules (nat limit) 0
       (chunk_slices (nat limit) (drop (0 * nat limit) evs)) ?acc w = (Inr acc, w)"
    and acc: "acc_inv amount rs {..<length evs} {..<length evs} acc"
    using find_chunks_ok[OF assms(1) lim len ex inv, of schedules w] by blast
  have "findWalletForRedemption lib cs bc schedules amount script limit w = (chooseWallet acc, w)"
    using run assms(2)
    by (simp add: findWalletForRedemption_def chunkArray_def bind_io_def answers_app[OF assms(3)] answers_app[OF assms(4)])
  then show ?thesis using spec chooseWallet_oldest[of amount rs acc] acc len by simp
qed

theorem findWallet_refines_spec_witness:
  "\<exists>w. fst (findWalletForRedemption sample_btcjs sample_chain sample_history (\<lambda>_. [1, 0, 1]) 150 (Some (Hex [9])) 2 w) =
     Inr (Hex (replicate 20 2), \<lparr>op_transactionHash = Hex [2], op_outputIndex = 0, utxo_value = 200\<rparr>)"
proof -
  let ?wallet = "\<lambda>i. \<lparr>w_ecdsaWalletID = Hex [], w_walletPublicKey = Some (Hex (replicate 20 i)),
        w_mainUtxoHash = Hex [i], w_pendingRedemptionsValue = 10, w_createdAt = 1, w_movingFundsRequestedAt = 0,
        w_closingStartedAt = 0, w_pendingMovedFundsSweepRequestsCount = 0,
        w_state = (if i = 1 then WS_Closing else WS_Live), w_movingFundsTargetWalletsCommitmentHash = Hex []\<rparr>"
  let ?ev = "\<lambda>i. \<lparr>ev_blockNumber = int i, ev_blockHash = Hex [], ev_transactionHash = Hex [], nw_ecdsaWalletID = Hex [],
      nw_walletPublicKeyHash = Hex (replicate 20 (byte_of i))\<rparr>"
  let ?utxo = "\<lambda>i. \<lparr>op_transactionHash = Hex [i], op_outputIndex = 0, utxo_value = 100 * int (be_nat [i])\<rparr>"
  have wallets: "bridge_wallets (tc_bridge sample_chain) (Hex (replicate 20 i)) = return_io (?wallet i)" for i
    by (simp add: sample_chain_def sample_contracts_def)
  have scripts: "walletOutputScript sample_btcjs (Hex (replicate 20 i)) Testnet b = Inr (Hex (replicate 20 i))" for i b
    by (simp add: walletOutputScript_def publicKeyHashToAddress_def addressToOutputScript_def sample_btcjs_def
        sample_payment_def Let_def Hex_from_buffer_def)
  have ne: "[i] \<noteq> replicate 32 (0 :: byte)" for i by (auto dest: arg_cong[of _ _ length])
  have main: "determineWalletMainUtxo sample_btcjs sample_chain sample_history (Hex (replicate 20 i)) Testnet w =
      (Inr (Some (?utxo i)), w)" for i w
    by (simp add: determineWalletMainUtxo_def wallets scripts bind_io_def sample_history_def isWalletOutput_def Let_def ne)
      (simp add: sample_chain_def sample_contracts_def sample_bridge_def)
  have ex: "examineWallet sample_btcjs sample_chain sample_history Testnet (Some (Hex [9])) (Hex (replicate 20 i)) w =
      (Inr (if i = 1 then (False, None) else (True, Some (Hex (replicate 20 i), ?utxo i, 100 * int (be_nat [i]) - 10))), w)" for i w
    using main by (simp add: examineWallet_def wallets bind_io_def)
      (simp add: sample_chain_def sample_contracts_def sample_bridge_def sample_request_def)
  have evs: "answers (getNewWalletRegisteredEvents (tc_bridge sample_chain) all_events) (Inr (map ?ev [1, 2, 3]))"
    by (simp add: sample_chain_def sample_contracts_def)
  have net: "answers (getNetwork sample_history) (Inr Testnet)"
    by (simp add: sample_history_def sample_bitcoin_client_def)
  have rs: "map_io (\<lambda>e. examineWallet sample_btcjs sample_chain sample_history Testnet (Some (Hex [9])) (nw_walletPublicKeyHash e))
      (map ?ev [1, 2, 3]) () = (Inr [(False, None), (True, Some (Hex (replicate 20 2), ?utxo 2, 190)),
        (True, Some (Hex (replicate 20 3), ?utxo 3, 290))], ())"
    by (simp add: bind_io_def ex be_nat_def byte_of_def)
  have "(0 :: int) < 2" by simp
  from findWallet_refines_spec[OF stable_sample this evs net rs, of "\<lambda>_. [1, 0, 1]" 150]
  show ?thesis by (auto simp: oldestWallet_def can_pay_def be_nat_def)
qed

end
