(* ===== verification/RedemptionRequests.thy ===== *)
theory RedemptionRequests
  imports WalletSearch
begin

section \<open>What a redemption request is made with\<close>

text \<open>
  Lemmas on the operations of \<open>RedemptionsService\<close> that hold whatever the chain, the Bitcoin
  server and the explorer answer, and however their answers change between two reads: the main
  output of a wallet, the candidates of the explorer, the scripts of the redeemer and the
  fallback of \<open>requestRedemption\<close>.
\<close>

lemma findIndex_neg: "(findIndex P xs < 0) = (\<forall>x \<in> set xs. \<not> P x)"
  by (induction xs) (auto simp: Let_def)

lemma findIndex_first:
  "0 \<le> findIndex P xs \<Longrightarrow> nat (findIndex P xs) < length xs \<and> P (xs ! nat (findIndex P xs)) \<and>
     (\<forall>j < nat (findIndex P xs). \<not> P (xs ! j))"
proof (induction xs)
  case (Cons x xs)
  show ?case
  proof (cases "P x")
    case False
    let ?i = "findIndex P xs"
    have i: "0 \<le> ?i" "findIndex P (x # xs) = ?i + 1" using Cons.prems False by (auto simp: Let_def split: if_splits)
    then have n: "nat (findIndex P (x # xs)) = Suc (nat ?i)" by simp
    have "\<not> P ((x # xs) ! j)" if "j < Suc (nat ?i)" for j
      using that Cons.IH[OF i(1)] False by (cases j) auto
    then show ?thesis using Cons.IH[OF i(1)] n by simp
  qed simp
qed simp

text \<open>An output found by the loop belongs to a transaction of the history and has the hash.\<close>

definition wallet_output ::
  "'w tbtc_contracts \<Rightarrow> 'w bitcoin_client \<Rightarrow> Hex \<Rightarrow> (BitcoinTxOutput \<Rightarrow> bool) \<Rightarrow> BitcoinTxHash list \<Rightarrow> BitcoinUtxo \<Rightarrow> bool" where
  "wallet_output cs bc h P ts u =
     (\<exists>t \<in> set ts. \<exists>w1 w2 tx. getTransaction bc t w1 = (Inr tx, w2) \<and> op_transactionHash u = bt_transactionHash tx \<and>
        0 \<le> op_outputIndex u \<and> nat (op_outputIndex u) < length (bt_outputs tx) \<and>
        P (bt_outputs tx ! nat (op_outputIndex u)) \<and> utxo_value u = txo_value (bt_outputs tx ! nat (op_outputIndex u)) \<and>
        (\<exists>k. buildUtxoHash (tc_bridge cs) u = Inr k \<and> hex_equals h k))"

lemma wallet_output_mono: "wallet_output cs bc h P ts u \<Longrightarrow> wallet_output cs bc h P (t # ts) u"
  by (auto simp: wallet_output_def)

lemma mainUtxoLoop_sound:
  "mainUtxoLoop cs bc h P ts w = (Inr (Some u), w') \<Longrightarrow> wallet_output cs bc h P ts u"
proof (induction ts arbitrary: w)
  case (Cons t ts)
  obtain tx w1 where tx: "getTransaction bc t w = (Inr tx, w1)"
    and rest: "(let outputIndex = findIndex P (bt_outputs tx) in
       if outputIndex < 0 then mainUtxoLoop cs bc h P ts
       else let utxo = \<lparr>op_transactionHash = bt_transactionHash tx, op_outputIndex = outputIndex,
             utxo_value = txo_value (bt_outputs tx ! nat outputIndex)\<rparr> in
         bind_io (lift_io (buildUtxoHash (tc_bridge cs) utxo)) (\<lambda>k.
         if hex_equals h k then return_io (Some utxo) else mainUtxoLoop cs bc h P ts)) w1 = (Inr (Some u), w')"
    using Cons.prems unfolding mainUtxoLoop.simps bind_io_Inr by blast
  show ?case
  proof (cases "findIndex P (bt_outputs tx) < 0")
    case True
    then have "mainUtxoLoop cs bc h P ts w1 = (Inr (Some u), w')" using rest by simp
    then show ?thesis using Cons.IH wallet_output_mono by blast
  next
    case False
    then have "0 \<le> findIndex P (bt_outputs tx)" by simp
    note first = findIndex_first[OF this]
    show ?thesis
    proof (cases "mainUtxoLoop cs bc h P ts w1 = (Inr (Some u), w')")
      case True
      then show ?thesis using Cons.IH wallet_output_mono by blast
    next
      case tail: False
      let ?u = "\<lparr>op_transactionHash = bt_transactionHash tx, op_outputIndex = findIndex P (bt_outputs tx),
             utxo_value = txo_value (bt_outputs tx ! nat (findIndex P (bt_outputs tx)))\<rparr>"
      have "u = ?u \<and> (\<exists>k. buildUtxoHash (tc_bridge cs) ?u = Inr k \<and> hex_equals h k)"
        using rest False tail by (auto simp: Let_def io_simps split: if_splits)
      then show ?thesis using first False tx unfolding wallet_output_def by fastforce
    qed
  qed
qed simp

text \<open>A candidate before the chosen one was too poor or already had a request.\<close>

definition passed_over ::
  "'w redemption_env \<Rightarrow> 'w tbtc_contracts \<Rightarrow> int \<Rightarrow> Hex option \<Rightarrow> SerializableWallet \<Rightarrow> bool" where
  "passed_over env cs amount script sw =
     (\<exists>v. fromSerializableWallet env sw = Inr v \<and>
        (vw_walletBTCBalance v < amount \<or>
         (\<exists>s w1 w2 q. script = Some s \<and> pendingRedemptions (tc_bridge cs) (vw_walletPublicKey v) s w1 = (Inr q, w2) \<and>
            rr_requestedAt q \<noteq> 0)))"

definition chosen ::
  "'w redemption_env \<Rightarrow> 'w tbtc_contracts \<Rightarrow> int \<Rightarrow> Hex option \<Rightarrow> SerializableWallet \<Rightarrow> Hex \<Rightarrow> BitcoinUtxo \<Rightarrow> bool" where
  "chosen env cs amount script sw key utxo =
     (\<exists>v. fromSerializableWallet env sw = Inr v \<and> vw_walletPublicKey v = key \<and> vw_mainUtxo v = utxo \<and>
        amount \<le> vw_walletBTCBalance v \<and>
        (\<forall>s. script = Some s \<longrightarrow> (\<exists>w1 w2 q. pendingRedemptions (tc_bridge cs) key s w1 = (Inr q, w2) \<and> rr_requestedAt q = 0)))"

lemma candidateLoop_first:
  "candidateLoop env cs amount script sws w = (Inr (Some (key, utxo)), w') \<Longrightarrow>
     \<exists>pre sw post. sws = pre @ sw # post \<and> chosen env cs amount script sw key utxo \<and>
       (\<forall>x \<in> set pre. passed_over env cs amount script x)"
proof (induction sws arbitrary: w)
  case (Cons sw sws)
  obtain v where v: "fromSerializableWallet env sw = Inr v"
    using Cons.prems by (auto simp: io_simps)
  have skip: ?case if "passed_over env cs amount script sw" "candidateLoop env cs amount script sws w1 = (Inr (Some (key, utxo)), w')" for w1
  proof -
    note p = that
    obtain pre x post where "sws = pre @ x # post" "chosen env cs amount script x key utxo"
      "\<forall>y \<in> set pre. passed_over env cs amount script y"
      using Cons.IH[OF p(2)] by blast
    then show ?thesis using p(1) by (intro exI[of _ "sw # pre"] exI[of _ x] exI[of _ post]) auto
  qed
  have stop: ?case if "chosen env cs amount script sw key utxo"
    using that by (intro exI[of _ "[]"] exI[of _ sw] exI[of _ sws]) simp
  show ?case
  proof (cases "vw_walletBTCBalance v < amount")
    case True
    then show ?thesis using skip[of w] Cons.prems v by (auto simp: passed_over_def bind_io_def)
  next
    case rich: False
    show ?thesis
    proof (cases script)
      case None
      then show ?thesis using stop Cons.prems v rich by (auto simp: chosen_def bind_io_def Let_def)
    next
      case (Some s)
      obtain q w1 where q: "pendingRedemptions (tc_bridge cs) (vw_walletPublicKey v) s w = (Inr q, w1)"
        and r: "(if rr_requestedAt q \<noteq> 0 then candidateLoop env cs amount script sws
          else return_io (Some (vw_walletPublicKey v, vw_mainUtxo v))) w1 = (Inr (Some (key, utxo)), w')"
        using Cons.prems v rich Some by (auto simp: Let_def io_simps)
      show ?thesis
      proof (cases "rr_requestedAt q = 0")
        case True
        then have "chosen env cs amount script sw key utxo"
          using q r v rich Some by (fastforce simp: chosen_def)
        then show ?thesis by (rule stop)
      next
        case False
        then have "passed_over env cs amount script sw" using q v Some unfolding passed_over_def by blast
        then show ?thesis using skip[of w1] r False by simp
      qed
    qed
  qed
qed simp

lemma resolve_hex:
  assumes "2 \<le> length bs"
  shows "resolveRedeemerOutputScript lib bc (bytes_to_hex bs) w = (Inr (Hex bs), w)"
proof -
  have "take 2 (bytes_to_hex bs) \<noteq> ''0x''"
  proof
    assume "take 2 (bytes_to_hex bs) = ''0x''"
    then have "CHR ''x'' \<in> set (bytes_to_hex bs)" by (metis in_set_takeD list.set_intros(1) list.set_intros(2))
    then show False using bytes_to_hex_digits[of bs] by (auto simp: list_all_iff)
  qed
  then have strip: "strip_0x (bytes_to_hex bs) = bytes_to_hex bs" by (simp add: strip_0x_def)
  have ne: "bytes_to_hex bs \<noteq> []" using assms by auto
  have "\<not> list_all is_space (bytes_to_hex bs)"
    using ne bytes_to_hex_digits[of bs] is_space_not_hex by (cases "bytes_to_hex bs") auto
  then show ?thesis using assms ne strip by (simp add: resolveRedeemerOutputScript_def Let_def)
qed

subsection \<open>Properties\<close>

text \<open>the main output the library finds for a wallet is the one registered in the Bridge: its hash
  is the registered hash, it is an output of a transaction of the wallet, locked on the public
  key hash of the wallet, with that output's index and value.\<close>

theorem mainUtxo_is_registered:
  assumes "determineWalletMainUtxo lib cs bc pkh net w = (Inr (Some u), w')"
  shows "\<exists>wallet w1 hashes w2 w3 s1 s2. bridge_wallets (tc_bridge cs) pkh w = (Inr wallet, w1) \<and>
     w_mainUtxoHash wallet \<noteq> Hex (replicate 32 0) \<and>
     getTxHashesForPublicKeyHash bc pkh w2 = (Inr hashes, w3) \<and>
     walletOutputScript lib pkh net False = Inr s1 \<and> walletOutputScript lib pkh net True = Inr s2 \<and>
     wallet_output cs bc (w_mainUtxoHash wallet) (\<lambda>out. scriptPubKey out = s1 \<or> scriptPubKey out = s2) hashes u"
proof -
  obtain wallet w1 where wallet: "bridge_wallets (tc_bridge cs) pkh w = (Inr wallet, w1)"
    and nz: "w_mainUtxoHash wallet \<noteq> Hex (replicate 32 0)"
    and rest: "bind_io (getTxHashesForPublicKeyHash bc pkh) (\<lambda>walletTxHashes.
     bind_io (lift_io (walletOutputScript lib pkh net False)) (\<lambda>walletP2PKH.
     bind_io (lift_io (walletOutputScript lib pkh net True)) (\<lambda>walletP2WPKH.
     mainUtxoLoop cs bc (w_mainUtxoHash wallet) (isWalletOutput walletP2PKH walletP2WPKH) (rev walletTxHashes)))) w1
       = (Inr (Some u), w')"
    using assms by (auto simp: determineWalletMainUtxo_def io_simps split: if_splits)
  obtain hashes w3 s1 s2 where h: "getTxHashesForPublicKeyHash bc pkh w1 = (Inr hashes, w3)"
    and s: "walletOutputScript lib pkh net False = Inr s1" "walletOutputScript lib pkh net True = Inr s2"
    and loop: "mainUtxoLoop cs bc (w_mainUtxoHash wallet) (isWalletOutput s1 s2) (rev hashes) w3 = (Inr (Some u), w')"
    using rest by (auto simp: io_simps)
  have "isWalletOutput s1 s2 = (\<lambda>out. scriptPubKey out = s1 \<or> scriptPubKey out = s2)"
    by (auto simp: isWalletOutput_def)
  then have "wallet_output cs bc (w_mainUtxoHash wallet) (\<lambda>out. scriptPubKey out = s1 \<or> scriptPubKey out = s2) hashes u"
    using mainUtxoLoop_sound[OF loop] by (simp add: wallet_output_def)
  then show ?thesis using wallet nz h s by blast
qed

theorem mainUtxo_is_registered_witness:
  "\<exists>wallet. bridge_wallets (tc_bridge sample_chain) (Hex (replicate 20 2)) () = (Inr wallet, ()) \<and>
     w_mainUtxoHash wallet = Hex [2] \<and>
     wallet_output sample_chain sample_history (Hex [2]) (\<lambda>out. scriptPubKey out = Hex (replicate 20 2)) [Hex [2]]
       \<lparr>op_transactionHash = Hex [2], op_outputIndex = 0, utxo_value = 200\<rparr>"
proof -
  have s: "walletOutputScript sample_btcjs (Hex (replicate 20 2)) Testnet b = Inr (Hex (replicate 20 2))" for b
    by (simp add: walletOutputScript_def publicKeyHashToAddress_def addressToOutputScript_def sample_btcjs_def
        sample_payment_def Let_def Hex_from_buffer_def)
  have "[2] \<noteq> replicate 32 (0 :: byte)" by (auto dest: arg_cong[of _ _ length])
  then have "determineWalletMainUtxo sample_btcjs sample_chain sample_history (Hex (replicate 20 2)) Testnet () =
      (Inr (Some \<lparr>op_transactionHash = Hex [2], op_outputIndex = 0, utxo_value = 200\<rparr>), ())"
    by (simp add: determineWalletMainUtxo_def s bind_io_def sample_history_def sample_chain_def sample_contracts_def
        sample_bridge_def isWalletOutput_def Let_def be_nat_def)
  from mainUtxo_is_registered[OF this] show ?thesis
    by (auto simp: s sample_chain_def sample_contracts_def sample_history_def)
qed

text \<open>of the candidates of the explorer the library uses the first whose balance covers the amount
  and which, when the Bridge was asked, had no pending request for the script of the redeemer;
  every earlier candidate was too poor or had one.\<close>

theorem first_valid_candidate:
  assumes "determineValidRedemptionWallet lib env cs bc amount sws (Some address) w = (Inr rw, w')" "address \<noteq> []"
  shows "\<exists>s w1 pre sw post. resolveRedeemerOutputScript lib bc address w = (Inr s, w1) \<and>
     rw_redeemerOutputScript rw = Some s \<and> sws = pre @ sw # post \<and>
     chosen env cs amount (Some s) sw (rw_walletPublicKey rw) (rw_mainUtxo rw) \<and>
     (\<forall>x \<in> set pre. passed_over env cs amount (Some s) x)"
proof -
  obtain s w1 found w2 where s: "resolveRedeemerOutputScript lib bc address w = (Inr s, w1)"
    and f: "candidateLoop env cs amount (Some s) sws w1 = (Inr found, w2)"
    and r: "(case found of None \<Rightarrow> throw_io (Error ''Could not find a wallet with enough funds.'')
      | Some (walletPublicKey, mainUtxo) \<Rightarrow> return_io \<lparr>rw_walletPublicKey = walletPublicKey, rw_mainUtxo = mainUtxo,
           rw_redeemerOutputScript = Some s\<rparr>) w2 = (Inr rw, w')"
    using assms by (auto simp: determineValidRedemptionWallet_def io_simps)
  obtain key utxo where k: "found = Some (key, utxo)" using r by (cases found) auto
  then have rw: "rw = \<lparr>rw_walletPublicKey = key, rw_mainUtxo = utxo, rw_redeemerOutputScript = Some s\<rparr>" using r by simp
  from candidateLoop_first[OF f[unfolded k]] show ?thesis using s rw by auto
qed

definition sample_env :: "'w redemption_env" where
  "sample_env = \<lparr>env_fetch_ok = return_io True, env_candidateResults = return_io [], env_Date_now = return_io 5000,
     env_BigNumber_from = (\<lambda>s. Inr (int (length s)))\<rparr>"

definition sample_candidate :: "nat \<Rightarrow> SerializableWallet" where
  "sample_candidate n = \<lparr>sw_index = int n, sw_walletPublicKey = bytes_to_hex [byte_of n], sw_transactionHash = bytes_to_hex [7],
     sw_outputIndex = 0, sw_value = replicate n (CHR ''9''), sw_walletBTCBalance = replicate n (CHR ''9'')\<rparr>"

theorem first_valid_candidate_witness:
  "\<exists>rw. fst (determineValidRedemptionWallet sample_btcjs sample_env sample_contracts sample_history 4
       (map sample_candidate [2, 5, 9]) (Some (bytes_to_hex [1, 2])) ()) = Inr rw \<and>
     (\<exists>s sw. sw \<in> set (map sample_candidate [2, 5, 9]) \<and>
        chosen sample_env (sample_contracts :: unit tbtc_contracts) 4 (Some s) sw (rw_walletPublicKey rw) (rw_mainUtxo rw))"
proof -
  let ?rw = "\<lparr>rw_walletPublicKey = Hex [5], rw_mainUtxo = \<lparr>op_transactionHash = Hex [7], op_outputIndex = 0, utxo_value = 5\<rparr>,
    rw_redeemerOutputScript = Some (Hex [1, 2])\<rparr>"
  have v: "fromSerializableWallet sample_env (sample_candidate n) = Inr \<lparr>vw_index = int n, vw_walletPublicKey = Hex [byte_of n],
      vw_mainUtxo = \<lparr>op_transactionHash = Hex [7], op_outputIndex = 0, utxo_value = int n\<rparr>, vw_walletBTCBalance = int n\<rparr>" for n
    by (simp add: fromSerializableWallet_def sample_candidate_def sample_env_def del: bytes_to_hex_simps)
  have r: "determineValidRedemptionWallet sample_btcjs sample_env sample_contracts sample_history 4
       (map sample_candidate [2, 5, 9]) (Some (bytes_to_hex [1, 2])) () = (Inr ?rw, ())"
    using resolve_hex[of "[1, 2]" sample_btcjs sample_history "()"]
    by (simp add: determineValidRedemptionWallet_def bind_io_def v byte_of_def sample_contracts_def sample_bridge_def sample_request_def
        del: bytes_to_hex_simps)
  have "bytes_to_hex [1, 2] \<noteq> []" by (simp add: byte_hex_def)
  from first_valid_candidate[OF r this] obtain s pre sw post where
    "map sample_candidate [2, 5, 9] = pre @ sw # post"
    "chosen sample_env (sample_contracts :: unit tbtc_contracts) 4 (Some s) sw (rw_walletPublicKey ?rw) (rw_mainUtxo ?rw)"
    by blast
  then show ?thesis using r by (intro exI[of _ ?rw] conjI exI[of _ s] exI[of _ sw]) simp_all
qed

text \<open>The script a relayed redemption pays is either the bytes the caller wrote in hexadecimal, at
  least two of them, or the output script of the caller's address on the network of the client,
  of one of the four standard types.\<close>

theorem resolved_script:
  assumes "resolveRedeemerOutputScript lib bc a w = (Inr s, w')"
  shows "(2 \<le> length (hex_buf s) \<and> toString s = toLowerCase (strip_0x a) \<and> w' = w) \<or>
     (\<exists>net w1. getNetwork bc w = (Inr net, w1) \<and> addressToOutputScript lib a net = Inr s \<and>
        (isP2PKHScript lib s \<or> isP2WPKHScript lib s \<or> isP2SHScript lib s \<or> isP2WSHScript lib s))"
proof (cases "strip_0x a \<noteq> [] \<and> list_all is_hex_digit (strip_0x a)")
  case True
  let ?d = "strip_0x a"
  have c: "even (length ?d)" "4 \<le> length ?d" "Hex_from_string a = Inr s" "w' = w"
    using assms True by (auto simp: resolveRedeemerOutputScript_def Let_def split: if_splits)
  have "strip_0xX a = ?d"
  proof (cases "take 2 a = ''0X''")
    case True
    then have "?d = a" by (simp add: strip_0x_def)
    moreover have "CHR ''X'' \<in> set a" using True by (metis in_set_takeD list.set_intros(1) list.set_intros(2))
    ultimately show ?thesis using \<open>?d \<noteq> [] \<and> list_all is_hex_digit ?d\<close> by (auto simp: list_all_iff)
  qed (auto simp: strip_0x_def strip_0xX_def)
  then have s: "s = Hex (hex_to_bytes ?d)"
    using c(3) by (auto simp: Hex_from_string_def split: if_splits)
  have "2 * length (hex_to_bytes ?d) = length ?d" using True c(1) by (simp add: length_hex_to_bytes)
  then show ?thesis using c s True by (auto simp: toString_def bytes_to_hex_to_bytes)
next
  case False
  then show ?thesis using assms
    by (auto simp: resolveRedeemerOutputScript_def getRedeemerOutputScript_def Let_def io_simps split: if_splits)
qed

theorem resolved_script_witness:
  "toString (Hex [0xAB, 1]) = toLowerCase (strip_0x ''0xAB01'') \<and>
   resolveRedeemerOutputScript sample_btcjs sample_history ''0xAB01'' () = (Inr (Hex [0xAB, 1]), ())"
proof -
  have r: "resolveRedeemerOutputScript sample_btcjs sample_history ''0xAB01'' () = (Inr (Hex [0xAB, 1]), ())"
    by (simp add: resolveRedeemerOutputScript_def Let_def strip_0x_def strip_0xX_def is_space_def Hex_from_string_def hex_pattern_def
        is_hex_digit_def hex_val_def hex_digits_def byte_of_def upt_rec)
  from resolved_script[OF r] show ?thesis using r
    by (auto simp: sample_history_def sample_bitcoin_client_def addressToOutputScript_def Hex_from_buffer_def is_hex_digit_def hex_val_def upt_rec sample_btcjs_def strip_0x_def toLowerCase_def lower_char_def
        byte_hex_def hex_digit_def hex_digits_def toString_def)
qed

end
