(* ===== verification/SystemEvents.thy ===== *)
theory SystemEvents
  imports Bridge Backoff
begin

section \<open>System events (monitoring/src/system-event.ts, file-persistence.ts)\<close>

text \<open>
  The monitoring service runs monitors over a window of blocks, gives the events they find to
  receivers, and remembers in a database which receiver handled which event and up to which
  block it looked. \<open>Promise.allSettled\<close> keeps the results in the order of its arguments; its
  calls are modelled in that order. The database is two values of node-json-db, each with the
  operations the code uses; what the persistence promises the manager is a locale, which the
  file persistence implements.
\<close>

subsection \<open>Data\<close>

datatype SystemEventType = Informational | Warning | Critical

record SystemEvent =
  se_title :: string
  se_type :: SystemEventType
  se_data :: "(string \<times> string) list"
  se_block :: int

datatype ack_status = Handled | Ignored

record SystemEventAck =
  ack_receiverId :: string
  ack_systemEvent :: SystemEvent
  ack_status :: ack_status

type_synonym 'w monitor = "int \<Rightarrow> int \<Rightarrow> ('w, SystemEvent list) io"

record 'w event_receiver =
  receiver_id :: string
  receiver_receive :: "SystemEvent \<Rightarrow> ('w, SystemEventAck) io"

type_synonym handled_events = "string \<Rightarrow> SystemEvent list option"

record 'w persistence =
  checkpointBlock :: "('w, int) io"
  updateCheckpointBlock :: "int \<Rightarrow> ('w, unit) io"
  handledSystemEvents :: "('w, handled_events) io"
  storeHandledSystemEvents :: "handled_events \<Rightarrow> ('w, unit) io"

definition BaseReceiver :: "string \<Rightarrow> (SystemEvent \<Rightarrow> bool) \<Rightarrow> (SystemEvent \<Rightarrow> ('w, unit) io) \<Rightarrow> 'w event_receiver" where
  "BaseReceiver rid isSupportedSystemEvent handle = \<lparr>receiver_id = rid, receiver_receive = (\<lambda>systemEvent.
     if \<not> isSupportedSystemEvent systemEvent
     then return_io \<lparr>ack_receiverId = rid, ack_systemEvent = systemEvent, ack_status = Ignored\<rparr>
     else bind_io (handle systemEvent) (\<lambda>_.
       return_io \<lparr>ack_receiverId = rid, ack_systemEvent = systemEvent, ack_status = Handled\<rparr>))\<rparr>"

text \<open>Which events the two receivers support; Discord gets the informational ones, Sentry the rest.\<close>

definition Discord_isSupportedSystemEvent :: "SystemEvent \<Rightarrow> bool" where
  "Discord_isSupportedSystemEvent systemEvent = (se_type systemEvent = Informational)"

definition Sentry_isSupportedSystemEvent :: "SystemEvent \<Rightarrow> bool" where
  "Sentry_isSupportedSystemEvent systemEvent = (se_type systemEvent = Warning \<or> se_type systemEvent = Critical)"

definition DiscordReceiver :: "(SystemEvent \<Rightarrow> ('w, unit) io) \<Rightarrow> 'w event_receiver" where
  "DiscordReceiver post = BaseReceiver ''Discord'' Discord_isSupportedSystemEvent post"

definition SentryReceiver :: "(SystemEvent \<Rightarrow> ('w, unit) io) \<Rightarrow> 'w event_receiver" where
  "SentryReceiver capture = BaseReceiver ''Sentry'' Sentry_isSupportedSystemEvent capture"

subsection \<open>The key of an event\<close>

text \<open>\<open>JSON.stringify\<close> of a string: quotes, backslashes and control characters are escaped.\<close>

definition json_char :: "char \<Rightarrow> string" where
  "json_char c =
     (if c = CHR 0x22 then [CHR 0x5C, CHR 0x22]
      else if c = CHR 0x5C then [CHR 0x5C, CHR 0x5C]
      else if c = CHR 0x08 then [CHR 0x5C, CHR ''b'']
      else if c = CHR 0x0C then [CHR 0x5C, CHR ''f'']
      else if c = CHR 0x0A then [CHR 0x5C, CHR ''n'']
      else if c = CHR 0x0D then [CHR 0x5C, CHR ''r'']
      else if c = CHR 0x09 then [CHR 0x5C, CHR ''t'']
      else if of_char c < (32 :: nat)
      then [CHR 0x5C, CHR ''u'', CHR ''0'', CHR ''0''] @ byte_hex (byte_of (of_char c))
      else [c])"

definition json_string :: "string \<Rightarrow> string" where
  "json_string s = CHR 0x22 # concat (map json_char s) @ [CHR 0x22]"

fun type_text :: "SystemEventType \<Rightarrow> string" where
  "type_text Informational = ''informational''"
| "type_text Warning = ''warning''"
| "type_text Critical = ''critical''"

text \<open>The members of an object, separated by commas, up to the closing brace.\<close>

fun json_members :: "(string \<times> string) list \<Rightarrow> string" where
  "json_members [] = ''}''"
| "json_members [(k, v)] = json_string k @ '':'' @ json_string v @ ''}''"
| "json_members ((k, v) # kv # kvs) = json_string k @ '':'' @ json_string v @ '','' @ json_members (kv # kvs)"

definition systemEventKey :: "SystemEvent \<Rightarrow> string" where
  "systemEventKey e =
     ''{'' @ json_string ''title'' @ '':'' @ json_string (se_title e) @ '','' @
     json_string ''type'' @ '':'' @ json_string (type_text (se_type e)) @ '','' @
     json_string ''data'' @ '':{'' @ json_members (se_data e) @ '','' @
     json_string ''block'' @ '':'' @ show_int (se_block e) @ ''}''"

subsection \<open>The deduplicator\<close>

definition dedup_cache :: "SystemEvent list \<Rightarrow> string \<Rightarrow> bool" where
  "dedup_cache stored = fold (\<lambda>systemEvent group. group(systemEventKey systemEvent := True)) stored (\<lambda>_. False)"

definition Deduplicator_wrap :: "'w event_receiver \<Rightarrow> SystemEvent list \<Rightarrow> 'w event_receiver" where
  "Deduplicator_wrap receiver handled =
     (let cache = dedup_cache handled in
      \<lparr>receiver_id = receiver_id receiver, receiver_receive = (\<lambda>systemEvent.
        if cache (systemEventKey systemEvent)
        then return_io \<lparr>ack_receiverId = receiver_id receiver, ack_systemEvent = systemEvent, ack_status = Ignored\<rparr>
        else receiver_receive receiver systemEvent)\<rparr>)"

subsection \<open>The manager\<close>

datatype report_status = Success | Failure

record ManagerReport =
  rep_fromBlock :: "int option"
  rep_toBlock :: "int option"
  rep_status :: report_status
  rep_errors :: "string list"

definition reorgDepthBlocks :: int where
  "reorgDepthBlocks = 12"

definition settle :: "('w, 'a) io \<Rightarrow> ('w, 'a res) io" where
  "settle m = (\<lambda>w. case m w of (r, w') \<Rightarrow> (Inr r, w'))"

definition allSettled :: "('w, 'a) io list \<Rightarrow> ('w, 'a res list) io" where
  "allSettled ms = map_io settle ms"

definition fulfilled :: "'a res list \<Rightarrow> 'a list" where
  "fulfilled rs = concat (map (\<lambda>r. case r of Inl _ \<Rightarrow> [] | Inr x \<Rightarrow> [x]) rs)"

definition rejected :: "string \<Rightarrow> 'a res list \<Rightarrow> string list" where
  "rejected prefix rs = concat (map (\<lambda>r. case r of Inl e \<Rightarrow> [prefix @ error_text e] | Inr _ \<Rightarrow> []) rs)"

definition events_of :: "handled_events \<Rightarrow> string \<Rightarrow> SystemEvent list" where
  "events_of h rid = (case h rid of None \<Rightarrow> [] | Some es \<Rightarrow> es)"

definition Manager_check ::
  "'w monitor list \<Rightarrow> 'w event_receiver list \<Rightarrow> 'w persistence \<Rightarrow> int \<Rightarrow> int \<Rightarrow> ('w, SystemEventAck list \<times> string list) io" where
  "Manager_check monitors receivers P firstBlock lastBlock =
     bind_io (allSettled (map (\<lambda>m. m firstBlock lastBlock) monitors)) (\<lambda>checks.
     let systemEvents = concat (fulfilled checks);
         errors = rejected ''cannot check system events monitor: '' checks in
     bind_io (handledSystemEvents P) (\<lambda>handled.
     bind_io (allSettled (concat (map (\<lambda>r. map (receiver_receive (Deduplicator_wrap r (events_of handled (receiver_id r))))
         systemEvents) receivers))) (\<lambda>dispatches.
     return_io (fulfilled dispatches, errors @ rejected ''cannot dispatch system event: '' dispatches))))"

definition groupByReceiver :: "SystemEventAck list \<Rightarrow> handled_events" where
  "groupByReceiver acks = fold (\<lambda>ack group. group(ack_receiverId ack \<mapsto>
     events_of group (ack_receiverId ack) @ [ack_systemEvent ack])) acks (\<lambda>_. None)"

text \<open>A block of statements whose error only adds to the list of errors.\<close>

definition record_error :: "string \<Rightarrow> ('w, unit) io \<Rightarrow> string list \<Rightarrow> ('w, string list) io" where
  "record_error prefix m errors =
     catch_io (bind_io m (\<lambda>_. return_io errors)) (\<lambda>e. return_io (errors @ [prefix @ error_text e]))"

definition window_start :: "int \<Rightarrow> int \<Rightarrow> int" where
  "window_start checkpoint latest =
     (let validCheckpoint = checkpoint > 0 \<and> checkpoint < latest;
          start = (if validCheckpoint then checkpoint else latest) in
      if start - reorgDepthBlocks > 0 then start - reorgDepthBlocks else 0)"

text \<open>What follows the check: the handled events are stored and, when nothing went wrong, the
  checkpoint is moved.\<close>

definition Manager_finish ::
  "'w persistence \<Rightarrow> int \<Rightarrow> int \<Rightarrow> SystemEventAck list \<Rightarrow> string list \<Rightarrow> ('w, ManagerReport) io" where
  "Manager_finish P firstBlock lastBlock acks errors =
     (let handledAcks = filter (\<lambda>ack. ack_status ack = Handled) acks in
     bind_io (if length handledAcks \<noteq> 0
         then record_error ''cannot store handled system events: ''
           (storeHandledSystemEvents P (groupByReceiver handledAcks)) errors
         else return_io errors) (\<lambda>errors.
     bind_io (if length errors = 0
         then record_error ''cannot update checkpoint block: '' (updateCheckpointBlock P lastBlock) errors
         else return_io errors) (\<lambda>errors.
     return_io \<lparr>rep_fromBlock = Some firstBlock, rep_toBlock = Some lastBlock,
       rep_status = (if length errors = 0 then Success else Failure), rep_errors = errors\<rparr>)))"

definition Manager_run ::
  "'w monitor list \<Rightarrow> 'w event_receiver list \<Rightarrow> 'w persistence \<Rightarrow> ('w, int) io \<Rightarrow> ('w, ManagerReport) io" where
  "Manager_run monitors receivers P latestBlock =
     bind_io (checkpointBlock P) (\<lambda>checkpoint.
     bind_io latestBlock (\<lambda>latest.
     let firstBlock = window_start checkpoint latest; lastBlock = latest in
     bind_io (Manager_check monitors receivers P firstBlock lastBlock) (\<lambda>(acks, errors).
     Manager_finish P firstBlock lastBlock acks errors)))"

definition Manager_trigger ::
  "'w monitor list \<Rightarrow> 'w event_receiver list \<Rightarrow> 'w persistence \<Rightarrow> ('w, int) io \<Rightarrow> ('w, ManagerReport) io" where
  "Manager_trigger monitors receivers P latestBlock =
     catch_io (Manager_run monitors receivers P latestBlock) (\<lambda>e.
       return_io \<lparr>rep_fromBlock = None, rep_toBlock = None, rep_status = Failure, rep_errors = [error_text e]\<rparr>)"

subsection \<open>The file persistence\<close>

text \<open>A value of the database at one path.\<close>

record ('w, 'a) json_value =
  jv_exists :: "('w, bool) io"
  jv_getObject :: "('w, 'a) io"
  jv_push :: "'a \<Rightarrow> ('w, unit) io"

definition file_handledSystemEvents :: "('w, handled_events) json_value \<Rightarrow> ('w, handled_events) io" where
  "file_handledSystemEvents db =
     bind_io (jv_exists db) (\<lambda>ex. if \<not> ex then return_io (\<lambda>_. None) else jv_getObject db)"

text \<open>The loop over the keys of the new events writes each key once.\<close>

definition append_handled :: "handled_events \<Rightarrow> handled_events \<Rightarrow> handled_events" where
  "append_handled systemEvents handled = (\<lambda>receiverId.
     case systemEvents receiverId of
       None \<Rightarrow> handled receiverId
     | Some es \<Rightarrow> Some (events_of handled receiverId @ es))"

definition SystemEventFilePersistence ::
  "('w, int) json_value \<Rightarrow> ('w, handled_events) json_value \<Rightarrow> 'w persistence" where
  "SystemEventFilePersistence checkpointDb handledDb =
     \<lparr>checkpointBlock = bind_io (jv_exists checkpointDb) (\<lambda>ex. if \<not> ex then return_io 0 else jv_getObject checkpointDb),
      updateCheckpointBlock = jv_push checkpointDb,
      handledSystemEvents = file_handledSystemEvents handledDb,
      storeHandledSystemEvents = (\<lambda>systemEvents.
        bind_io (file_handledSystemEvents handledDb) (\<lambda>handled.
        jv_push handledDb (append_handled systemEvents handled)))\<rparr>"

end
