(* ===== verification/EventDelivery.thy ===== *)
theory EventDelivery
  imports SystemEvents
begin

section \<open>What the monitoring manager guarantees\<close>

text \<open>
  The lemmas show that the key of an event determines it, so that the deduplicator withholds
  exactly the events a receiver has handled; that a successful run delivers every event its
  monitors found; and that the windows of the successful runs leave no block out. The contract
  of the persistence is the locale \<open>event_store\<close>; the file persistence meets it over database
  values that keep what was pushed.
\<close>

subsection \<open>Keys\<close>

text \<open>A reader of one escaped character.\<close>

fun json_unchar :: "string \<Rightarrow> char \<times> string" where
  "json_unchar (c # d # r) =
     (if c \<noteq> CHR 0x5C then (c, d # r)
      else if d = CHR 0x22 then (CHR 0x22, r)
      else if d = CHR 0x5C then (CHR 0x5C, r)
      else if d = CHR ''b'' then (CHR 0x08, r)
      else if d = CHR ''f'' then (CHR 0x0C, r)
      else if d = CHR ''n'' then (CHR 0x0A, r)
      else if d = CHR ''r'' then (CHR 0x0D, r)
      else if d = CHR ''t'' then (CHR 0x09, r)
      else (char_of (unat (hd (hex_to_bytes (take 2 (drop 2 r))))), drop 4 r))"
| "json_unchar [c] = (c, [])"
| "json_unchar [] = (CHR 0x00, [])"

lemma json_unchar_char_cons: "json_unchar (json_char c @ x # r) = (c, x # r)"
proof -
  have "of_char c < (256 :: nat)" by simp
  then have u: "unat (byte_of (of_char c)) = of_char c" by (rule unat_byte_of)
  have h: "take 2 (byte_hex b @ q) = byte_hex b" "drop 2 (byte_hex b @ q) = q" for b q by simp_all
  have "hex_to_bytes (byte_hex b) = [b]" for b using hex_to_bytes_byte_hex[of b "[]"] by simp
  then show ?thesis by (simp add: json_char_def h u)
qed

lemma json_char_prefix: "json_char c @ x # r = json_char d @ y # q \<Longrightarrow> c = d \<and> x # r = y # q"
  by (metis json_unchar_char_cons prod.inject)

lemma json_char_shape: "\<exists>x xs. json_char c = x # xs \<and> x \<noteq> CHR 0x22"
  by (simp add: json_char_def)

lemma json_chars_prefix:
  "concat (map json_char s) @ CHR 0x22 # r = concat (map json_char t) @ CHR 0x22 # q \<Longrightarrow> s = t \<and> r = q"
proof (induction s arbitrary: t)
  case Nil
  then show ?case using json_char_shape by (cases t) (auto, metis append_Cons list.inject)
next
  case (Cons c s)
  show ?case
  proof (cases t)
    case Nil
    then show ?thesis using Cons.prems json_char_shape[of c] by auto
  next
    case (Cons d t')
    obtain x xs where x: "concat (map json_char s) @ CHR 0x22 # r = x # xs" by (cases "concat (map json_char s) @ CHR 0x22 # r") auto
    obtain y ys where y: "concat (map json_char t') @ CHR 0x22 # q = y # ys" by (cases "concat (map json_char t') @ CHR 0x22 # q") auto
    have "json_char c @ x # xs = json_char d @ y # ys"
      using Cons.prems Cons x y by simp
    then have "c = d \<and> x # xs = y # ys" by (rule json_char_prefix)
    then show ?thesis using Cons.IH[of t'] x y Cons by metis
  qed
qed

lemma json_string_prefix: "json_string s @ r = json_string t @ q \<Longrightarrow> s = t \<and> r = q"
  using json_chars_prefix[of s r t q] by (simp add: json_string_def)

lemma json_string_cons: "\<exists>xs. json_string s = CHR 0x22 # xs"
  by (simp add: json_string_def)

lemma json_members_prefix: "json_members xs @ r = json_members ys @ q \<Longrightarrow> xs = ys \<and> r = q"
proof (induction xs arbitrary: ys rule: json_members.induct)
  case 1
  then show ?case using json_string_cons by (cases ys rule: json_members.cases) (auto simp: json_string_def)
next
  case (2 k v)
  then show ?case
    by (cases ys rule: json_members.cases) (auto simp: json_string_def dest!: json_chars_prefix)
next
  case (3 k v kv kvs)
  then show ?case
    by (cases ys rule: json_members.cases) (auto simp: json_string_def dest!: json_chars_prefix)
qed

lemma show_base_nonempty: "show_base b n \<noteq> []"
  by (subst show_base.simps) simp

lemma show_base_inj: "1 < b \<Longrightarrow> b \<le> 16 \<Longrightarrow> show_base b m = show_base b n \<Longrightarrow> m = n"
proof (induction m arbitrary: n rule: less_induct)
  case (less m)
  note m = show_base.simps[of b m] and n = show_base.simps[of b n]
  have dig: "hex_digit x = hex_digit y \<Longrightarrow> x < b \<Longrightarrow> y < b \<Longrightarrow> x = y" for x y
    using hex_digit_inj[of x y] less.prems(2) by simp
  show ?case
  proof (cases "m < b \<or> n < b")
    case True
    then show ?thesis using m n less.prems dig show_base_nonempty
      by (auto split: if_splits) (metis append_is_Nil_conv butlast.simps(2) butlast_snoc list.distinct(1) append_self_conv2)+
  next
    case False
    then have e: "show_base b (m div b) = show_base b (n div b)" "hex_digit (m mod b) = hex_digit (n mod b)"
      using m n less.prems by (auto simp: butlast_append)
    have "m div b < m" using False less.prems(1) by simp
    then have "m div b = n div b" using less.IH less.prems e(1) by blast
    moreover have "m mod b = n mod b" using dig e(2) less.prems(1) by simp
    ultimately show ?thesis by (metis div_mult_mod_eq)
  qed
qed

lemma show_nat_digits: "list_all is_hex_digit (show_nat n)"
proof -
  have "list_all is_hex_digit (show_base b m)" if "1 < b" "b \<le> 16" for b m
  proof (induction m rule: less_induct)
    case (less m)
    have "m mod b < 16" using that mod_less_divisor[of b m] by linarith
    moreover have "m div b < m" if "\<not> m < b" using that \<open>1 < b\<close> by simp
    ultimately show ?case using less[of "m div b"] that by (subst show_base.simps) auto
  qed
  then show ?thesis by (simp add: show_nat_def)
qed

lemma not_hex_minus: "\<not> is_hex_digit (CHR ''-'')" "\<not> is_hex_digit (CHR 0x7D)"
  by (simp_all add: is_hex_digit_def hex_val_def hex_digits_def upt_rec)

lemma show_int_inj: "show_int i = show_int j \<Longrightarrow> i = j"
proof -
  have nat: "show_nat m = show_nat n \<Longrightarrow> m = n" for m n using show_base_inj[of 10 m n] by (simp add: show_nat_def)
  have minus: "show_nat m \<noteq> CHR ''-'' # xs" for m xs using show_nat_digits[of m] not_hex_minus by auto
  show "show_int i = show_int j \<Longrightarrow> i = j"
    using nat minus minus[symmetric] by (auto simp: show_int_def eq_nat_nat_iff split: if_splits) (metis int_nat_eq neg_equal_iff_equal neg_0_le_iff_le linorder_not_le less_imp_le)+
qed

lemma show_int_brace: "CHR 0x7D \<notin> set (show_int i)"
  using show_nat_digits not_hex_minus by (auto simp: show_int_def list_all_iff)

lemma split_at_brace: "x @ [CHR 0x7D] = y @ [CHR 0x7D] \<Longrightarrow> x = y"
  by simp

lemma type_text_inj: "type_text a = type_text b \<Longrightarrow> a = b"
  by (cases a; cases b) simp_all

text \<open>The key determines the event.\<close>

lemma systemEventKey_inj: "(systemEventKey a = systemEventKey b) = (a = b)"
proof
  assume k: "systemEventKey a = systemEventKey b"
  let ?rest = "\<lambda>e. CHR '','' # json_string ''block'' @ '':'' @ show_int (se_block e) @ ''}''"
  let ?data = "\<lambda>e. json_members (se_data e) @ ?rest e"
  let ?type = "\<lambda>e. CHR '','' # json_string ''data'' @ '':{'' @ ?data e"
  let ?title = "\<lambda>e. CHR '','' # json_string ''type'' @ '':'' @ json_string (type_text (se_type e)) @ ?type e"
  have "json_string (se_title a) @ ?title a = json_string (se_title b) @ ?title b"
    using k by (simp add: systemEventKey_def)
  then have 1: "se_title a = se_title b" "?title a = ?title b" using json_string_prefix by blast+
  have "json_string (type_text (se_type a)) @ ?type a = json_string (type_text (se_type b)) @ ?type b"
    using 1(2) by simp
  then have 2: "type_text (se_type a) = type_text (se_type b)" "?type a = ?type b" using json_string_prefix by blast+
  have "?data a = ?data b" using 2(2) by simp
  then have 3: "se_data a = se_data b" "?rest a = ?rest b" using json_members_prefix by blast+
  have "show_int (se_block a) = show_int (se_block b)" using 3(2) by simp
  then show "a = b" using 1(1) type_text_inj[OF 2(1)] 3(1) show_int_inj by (cases a; cases b) auto
qed simp

lemma dedup_cache_iff: "dedup_cache es k = (k \<in> systemEventKey ` set es)"
proof -
  have "fold (\<lambda>e g. g(systemEventKey e := True)) es g k = (g k \<or> k \<in> systemEventKey ` set es)" for g
    by (induction es arbitrary: g) auto
  then show ?thesis by (simp add: dedup_cache_def)
qed

lemma Deduplicator_receive:
  "receiver_receive (Deduplicator_wrap r es) e =
     (if e \<in> set es then return_io \<lparr>ack_receiverId = receiver_id r, ack_systemEvent = e, ack_status = Ignored\<rparr>
      else receiver_receive r e)"
  by (auto simp: Deduplicator_wrap_def Let_def dedup_cache_iff systemEventKey_inj image_iff)

subsection \<open>The contract of the persistence\<close>

text \<open>
  \<open>cp\<close> is the checkpoint and \<open>done\<close> the events each receiver has handled. A call may throw, and
  then it has changed nothing.
\<close>

locale event_store =
  fixes P :: "'w persistence" and cp :: "'w \<Rightarrow> int" and handled_by :: "'w \<Rightarrow> string \<Rightarrow> SystemEvent list"
  assumes read_checkpoint: "checkpointBlock P w = (r, w') \<Longrightarrow>
      cp w' = cp w \<and> handled_by w' = handled_by w \<and> (\<forall>c. r = Inr c \<longrightarrow> c = cp w)"
    and read_handled: "handledSystemEvents P w = (q, w') \<Longrightarrow>
      cp w' = cp w \<and> handled_by w' = handled_by w \<and> (\<forall>h. q = Inr h \<longrightarrow> events_of h = handled_by w)"
    and write_checkpoint: "updateCheckpointBlock P b w = (u, w') \<Longrightarrow>
      handled_by w' = handled_by w \<and> cp w' = (case u of Inl _ \<Rightarrow> cp w | Inr _ \<Rightarrow> b)"
    and write_handled: "storeHandledSystemEvents P n w = (u, w') \<Longrightarrow>
      cp w' = cp w \<and> handled_by w' =
        (case u of Inl _ \<Rightarrow> handled_by w | Inr _ \<Rightarrow> (\<lambda>rid. handled_by w rid @ events_of n rid))"

text \<open>A value of the database that keeps what was pushed.\<close>

locale kept_value =
  fixes db :: "('w, 'a) json_value" and look :: "'w \<Rightarrow> 'a option"
  assumes kept_exists: "jv_exists db w = (r, w') \<Longrightarrow> look w' = look w \<and> (\<forall>b. r = Inr b \<longrightarrow> b = (look w \<noteq> None))"
    and kept_get: "jv_getObject db w = (q, w') \<Longrightarrow> look w' = look w \<and> (\<forall>x. q = Inr x \<longrightarrow> look w = Some x)"
    and kept_push: "jv_push db x w = (u, w') \<Longrightarrow> look w' = (case u of Inl _ \<Rightarrow> look w | Inr _ \<Rightarrow> Some x)"
begin

lemma read_default:
  assumes "bind_io (jv_exists db) (\<lambda>ex. if \<not> ex then return_io d else jv_getObject db) w = (r, w')"
  shows "look w' = look w \<and> (\<forall>x. r = Inr x \<longrightarrow> x = (case look w of None \<Rightarrow> d | Some y \<Rightarrow> y))"
proof -
  obtain e w1 where e: "jv_exists db w = (e, w1)" by fastforce
  note k = kept_exists[OF e]
  show ?thesis
  proof (cases e)
    case (Inl err)
    then show ?thesis using assms e k by (simp add: bind_io_def) auto
  next
    case (Inr b)
    then show ?thesis using assms e k kept_get[of w1 r w'] by (cases b) (auto simp: bind_io_def)
  qed
qed

end

text \<open>Two values of the database that do not disturb each other.\<close>

definition undisturbed :: "('w, 'a) json_value \<Rightarrow> ('w \<Rightarrow> 'b) \<Rightarrow> bool" where
  "undisturbed db f = (\<forall>w x. f (snd (jv_exists db w)) = f w \<and> f (snd (jv_getObject db w)) = f w \<and> f (snd (jv_push db x w)) = f w)"

definition checkpoint_of :: "int option \<Rightarrow> int" where
  "checkpoint_of v = (case v of None \<Rightarrow> 0 | Some b \<Rightarrow> b)"

definition handled_of :: "handled_events option \<Rightarrow> string \<Rightarrow> SystemEvent list" where
  "handled_of v = (case v of None \<Rightarrow> (\<lambda>_. []) | Some h \<Rightarrow> events_of h)"

lemma undisturbed_read_default:
  "undisturbed db f \<Longrightarrow> bind_io (jv_exists db) (\<lambda>ex. if \<not> ex then return_io d else jv_getObject db) w = (r, w') \<Longrightarrow> f w' = f w"
  unfolding undisturbed_def bind_io_def
  by (auto split: prod.splits sum.splits if_splits) (metis snd_conv)+

lemma undisturbed_push: "undisturbed db f \<Longrightarrow> jv_push db x w = (u, w') \<Longrightarrow> f w' = f w"
  unfolding undisturbed_def by (metis snd_conv)

lemma append_handled_events:
  "events_of (append_handled n h) = (\<lambda>rid. events_of h rid @ events_of n rid)"
  by (auto simp: events_of_def append_handled_def fun_eq_iff split: option.splits)

locale event_database =
  c: kept_value checkpointDb look_checkpoint + h: kept_value handledDb look_handled
  for checkpointDb :: "('w, int) json_value" and look_checkpoint :: "'w \<Rightarrow> int option"
    and handledDb :: "('w, handled_events) json_value" and look_handled :: "'w \<Rightarrow> handled_events option" +
  assumes apart: "undisturbed checkpointDb look_handled" "undisturbed handledDb look_checkpoint"

sublocale event_database \<subseteq> store: event_store "SystemEventFilePersistence checkpointDb handledDb"
  "\<lambda>w. checkpoint_of (look_checkpoint w)" "\<lambda>w. handled_of (look_handled w)"
proof
  fix w :: 'w and r w'
  assume "checkpointBlock (SystemEventFilePersistence checkpointDb handledDb) w = (r, w')"
  then have r: "bind_io (jv_exists checkpointDb) (\<lambda>ex. if \<not> ex then return_io 0 else jv_getObject checkpointDb) w = (r, w')"
    by (simp add: SystemEventFilePersistence_def)
  show "checkpoint_of (look_checkpoint w') = checkpoint_of (look_checkpoint w) \<and>
     handled_of (look_handled w') = handled_of (look_handled w) \<and> (\<forall>c. r = Inr c \<longrightarrow> c = checkpoint_of (look_checkpoint w))"
    using c.read_default[OF r] undisturbed_read_default[OF apart(1) r] by (simp add: checkpoint_of_def)
next
  fix w :: 'w and q w'
  assume "handledSystemEvents (SystemEventFilePersistence checkpointDb handledDb) w = (q, w')"
  then have q: "bind_io (jv_exists handledDb) (\<lambda>ex. if \<not> ex then return_io (\<lambda>_. None) else jv_getObject handledDb) w = (q, w')"
    by (simp add: SystemEventFilePersistence_def file_handledSystemEvents_def)
  show "checkpoint_of (look_checkpoint w') = checkpoint_of (look_checkpoint w) \<and>
     handled_of (look_handled w') = handled_of (look_handled w) \<and> (\<forall>h. q = Inr h \<longrightarrow> events_of h = handled_of (look_handled w))"
    using h.read_default[OF q] undisturbed_read_default[OF apart(2) q]
    by (auto simp: handled_of_def events_of_def fun_eq_iff split: option.splits)
next
  fix b and w :: 'w and u w'
  assume "updateCheckpointBlock (SystemEventFilePersistence checkpointDb handledDb) b w = (u, w')"
  then have u: "jv_push checkpointDb b w = (u, w')" by (simp add: SystemEventFilePersistence_def)
  show "handled_of (look_handled w') = handled_of (look_handled w) \<and>
     checkpoint_of (look_checkpoint w') = (case u of Inl _ \<Rightarrow> checkpoint_of (look_checkpoint w) | Inr _ \<Rightarrow> b)"
    using c.kept_push[OF u] undisturbed_push[OF apart(1) u] by (cases u) (simp_all add: checkpoint_of_def)
next
  fix n and w :: 'w and u w'
  assume "storeHandledSystemEvents (SystemEventFilePersistence checkpointDb handledDb) n w = (u, w')"
  then have s: "bind_io (file_handledSystemEvents handledDb) (\<lambda>handled. jv_push handledDb (append_handled n handled)) w = (u, w')"
    by (simp add: SystemEventFilePersistence_def)
  obtain q w1 where q: "file_handledSystemEvents handledDb w = (q, w1)" by fastforce
  note q' = q[unfolded file_handledSystemEvents_def]
  note read = h.read_default[OF q'] undisturbed_read_default[OF apart(2) q']
  show "checkpoint_of (look_checkpoint w') = checkpoint_of (look_checkpoint w) \<and>
     handled_of (look_handled w') =
       (case u of Inl _ \<Rightarrow> handled_of (look_handled w) | Inr _ \<Rightarrow> (\<lambda>rid. handled_of (look_handled w) rid @ events_of n rid))"
  proof (cases q)
    case (Inl e)
    then show ?thesis using s q read by (auto simp: bind_io_def)
  next
    case (Inr hs)
    then have push: "jv_push handledDb (append_handled n hs) w1 = (u, w')" using s q by (simp add: bind_io_def)
    have "events_of hs = handled_of (look_handled w)"
      using read Inr by (auto simp: handled_of_def events_of_def fun_eq_iff split: option.splits)
    then show ?thesis
      using h.kept_push[OF push] undisturbed_push[OF apart(2) push] read
      by (cases u) (simp_all add: handled_of_def append_handled_events)
  qed
qed

subsection \<open>The database of the service\<close>

text \<open>What leaves the service: a post to a Discord webhook with title and fields, a message to Sentry
  with its extras, block, level and text.\<close>

datatype notice =
    DiscordNotice string string "(string \<times> string) list"
  | SentryNotice "(string \<times> string) list" int string string

text \<open>A world with the values the service keeps, read and written as node-json-db does with an
  in-memory copy, and what it has sent.\<close>

record monitor_world =
  mw_sent :: "notice list"
  mw_checkpoint :: "int option"
  mw_handled :: "handled_events option"
  mw_lastAlert :: "int option"
  mw_latestBlock :: int

definition field_value :: "('w \<Rightarrow> 'a option) \<Rightarrow> ('a \<Rightarrow> 'w \<Rightarrow> 'w) \<Rightarrow> ('w, 'a) json_value" where
  "field_value look put = \<lparr>jv_exists = (\<lambda>w. (Inr (look w \<noteq> None), w)),
     jv_getObject = (\<lambda>w. (case look w of None \<Rightarrow> Inl (Error ''Can't find dataPath'') | Some x \<Rightarrow> Inr x, w)),
     jv_push = (\<lambda>x w. (Inr (), put x w))\<rparr>"

definition checkpoint_value :: "(monitor_world, int) json_value" where
  "checkpoint_value = field_value mw_checkpoint (\<lambda>b. mw_checkpoint_update (\<lambda>_. Some b))"

definition handled_value :: "(monitor_world, handled_events) json_value" where
  "handled_value = field_value mw_handled (\<lambda>h. mw_handled_update (\<lambda>_. Some h))"

interpretation monitor_db: event_database checkpoint_value mw_checkpoint handled_value mw_handled
  by unfold_locales
    (auto simp: checkpoint_value_def handled_value_def field_value_def undisturbed_def split: option.splits)

subsection \<open>One run\<close>

definition leaves :: "('w \<Rightarrow> int) \<Rightarrow> ('w \<Rightarrow> string \<Rightarrow> SystemEvent list) \<Rightarrow> ('w, 'a) io \<Rightarrow> bool" where
  "leaves cp handled_by m = (\<forall>w. cp (snd (m w)) = cp w \<and> handled_by (snd (m w)) = handled_by w)"

lemma leavesD: "leaves cp handled_by m \<Longrightarrow> m w = (r, w') \<Longrightarrow> cp w' = cp w \<and> handled_by w' = handled_by w"
  unfolding leaves_def by (metis snd_conv)

lemma allSettled_all:
  "\<exists>rs w'. allSettled ms w = (Inr rs, w') \<and> length rs = length ms \<and> (\<forall>i < length ms. \<exists>w1 w2. (ms ! i) w1 = (rs ! i, w2)) \<and>
     ((\<forall>m \<in> set ms. leaves cp handled_by m) \<longrightarrow> cp w' = cp w \<and> handled_by w' = handled_by w)"
proof (induction ms arbitrary: w)
  case (Cons m ms)
  obtain r w1 where r: "m w = (r, w1)" by fastforce
  obtain rs w2 where rs: "allSettled ms w1 = (Inr rs, w2)" "length rs = length ms"
    "\<forall>i < length ms. \<exists>w3 w4. (ms ! i) w3 = (rs ! i, w4)"
    "(\<forall>m \<in> set ms. leaves cp handled_by m) \<longrightarrow> cp w2 = cp w1 \<and> handled_by w2 = handled_by w1"
    using Cons.IH[of w1] by blast
  have s: "allSettled (m # ms) w = (Inr (r # rs), w2)"
    using r rs(1) by (simp add: allSettled_def bind_io_def settle_def)
  have "\<exists>w3 w4. ((m # ms) ! i) w3 = ((r # rs) ! i, w4)" if "i < length (m # ms)" for i
    using that r rs(3) by (cases i) auto
  moreover have "cp w2 = cp w \<and> handled_by w2 = handled_by w" if "\<forall>m \<in> set (m # ms). leaves cp handled_by m"
    using that rs(4) leavesD[where m = m and w = w and cp = cp and handled_by = handled_by] r by auto
  ultimately show ?case using s rs(2) by (intro exI[of _ "r # rs"] exI[of _ w2]) auto
qed (simp add: allSettled_def)

lemma rejected_none: "(rejected p rs = []) = (\<forall>r \<in> set rs. \<exists>x. r = Inr x)"
  by (auto simp: rejected_def split: sum.splits) (metis obj_sumE)+

lemma fulfilled_mem: "Inr x \<in> set rs \<Longrightarrow> x \<in> set (fulfilled rs)"
  by (auto simp: fulfilled_def intro!: bexI[of _ "Inr x"])

lemma events_of_group:
  "events_of (groupByReceiver acks) rid = map ack_systemEvent (filter (\<lambda>a. ack_receiverId a = rid) acks)"
proof -
  have "events_of (fold (\<lambda>ack group. group(ack_receiverId ack \<mapsto>
       events_of group (ack_receiverId ack) @ [ack_systemEvent ack])) acks g) rid =
     events_of g rid @ map ack_systemEvent (filter (\<lambda>a. ack_receiverId a = rid) acks)" for g
    by (induction acks arbitrary: g) (auto simp: events_of_def)
  then show ?thesis by (simp add: groupByReceiver_def events_of_def)
qed

lemma record_error_runs:
  "\<exists>es w'. record_error p m errs w = (Inr es, w') \<and> (\<exists>u. m w = (u, w') \<and> (es = [] \<longrightarrow> errs = [] \<and> (\<exists>x. u = Inr x)) \<and>
     ((\<exists>x. u = Inr x) \<longrightarrow> es = errs))"
  by (cases "m w"; cases "fst (m w)") (auto simp: record_error_def catch_io_def bind_io_def)

context event_store
begin

text \<open>What a check reports when it reports no error: every monitor answered, and every event it
  found was dispatched to every receiver.\<close>

lemma check_delivers:
  assumes m: "\<forall>m \<in> set monitors. \<forall>f t. leaves cp handled_by (m f t)"
    and r: "\<forall>r \<in> set receivers. \<forall>e. leaves cp handled_by (receiver_receive r e)"
    and c: "Manager_check monitors receivers P f t w = (Inr (acks, errs), w')"
  shows "cp w' = cp w \<and> handled_by w' = handled_by w \<and>
     (errs = [] \<longrightarrow> (\<forall>m \<in> set monitors. \<exists>w1 w2 es. m f t w1 = (Inr es, w2) \<and>
        (\<forall>e \<in> set es. \<forall>r \<in> set receivers. e \<in> set (handled_by w (receiver_id r)) \<or>
           (\<exists>w3 w4 a. receiver_receive r e w3 = (Inr a, w4) \<and> a \<in> set acks))))"
proof -
  let ?ms = "map (\<lambda>m. m f t) monitors"
  obtain checks w1 where checks: "allSettled ?ms w = (Inr checks, w1)" "length checks = length ?ms"
    "\<forall>i < length ?ms. \<exists>w2 w3. (?ms ! i) w2 = (checks ! i, w3)"
    "(\<forall>m \<in> set ?ms. leaves cp handled_by m) \<longrightarrow> cp w1 = cp w \<and> handled_by w1 = handled_by w"
    using allSettled_all[of ?ms w cp handled_by] by (elim exE conjE) (rule that)
  have w1: "cp w1 = cp w" "handled_by w1 = handled_by w" using checks(4) m by auto
  obtain hs w2 where hs: "handledSystemEvents P w1 = (Inr hs, w2)"
    using c checks(1) by (auto simp: Manager_check_def bind_io_def Let_def split: prod.splits sum.splits)
  have w2: "cp w2 = cp w" "handled_by w2 = handled_by w" "events_of hs = handled_by w"
    using read_handled[OF hs] w1 by auto
  let ?rs = "concat (map (\<lambda>r. map (receiver_receive (Deduplicator_wrap r (events_of hs (receiver_id r))))
      (concat (fulfilled checks))) receivers)"
  obtain disp w3 where disp: "allSettled ?rs w2 = (Inr disp, w3)" "length disp = length ?rs"
    "\<forall>i < length ?rs. \<exists>w4 w5. (?rs ! i) w4 = (disp ! i, w5)"
    "(\<forall>m \<in> set ?rs. leaves cp handled_by m) \<longrightarrow> cp w3 = cp w2 \<and> handled_by w3 = handled_by w2"
    using allSettled_all[of ?rs w2 cp handled_by] by (elim exE conjE) (rule that)
  have "leaves cp handled_by (receiver_receive (Deduplicator_wrap r es) e)" if "r \<in> set receivers" for r es e
    using that r by (auto simp: Deduplicator_receive leaves_def)
  then have w3: "cp w3 = cp w" "handled_by w3 = handled_by w" using disp(4) w2 by auto
  have res: "acks = fulfilled disp" "w' = w3"
    "errs = rejected ''cannot check system events monitor: '' checks @ rejected ''cannot dispatch system event: '' disp"
    using c checks(1) hs disp(1) by (auto simp: Manager_check_def bind_io_def Let_def)
  have "\<exists>w1 w2 es. m f t w1 = (Inr es, w2) \<and>
        (\<forall>e \<in> set es. \<forall>r \<in> set receivers. e \<in> set (handled_by w (receiver_id r)) \<or>
           (\<exists>w3 w4 a. receiver_receive r e w3 = (Inr a, w4) \<and> a \<in> set acks))"
    if ok: "errs = []" and mm: "m \<in> set monitors" for m
  proof -
    obtain i where i: "i < length monitors" "monitors ! i = m" using mm by (meson in_set_conv_nth)
    obtain w4 w5 where run: "m f t w4 = (checks ! i, w5)" using checks(3) i by auto
    have "checks ! i \<in> set checks" using i checks(2) by simp
    then obtain es where es: "checks ! i = Inr es" using ok res(3) by (auto simp: rejected_none)
    then have "Inr es \<in> set checks" using \<open>checks ! i \<in> set checks\<close> by simp
    have "e \<in> set (handled_by w (receiver_id r)) \<or> (\<exists>w3 w4 a. receiver_receive r e w3 = (Inr a, w4) \<and> a \<in> set acks)"
      if e: "e \<in> set es" and rr: "r \<in> set receivers" for e r
    proof (cases "e \<in> set (handled_by w (receiver_id r))")
      case False
      have "es \<in> set (fulfilled checks)" by (rule fulfilled_mem) fact
      then have "e \<in> set (concat (fulfilled checks))" using e by auto
      then have "receiver_receive (Deduplicator_wrap r (events_of hs (receiver_id r))) e \<in> set ?rs" using rr by auto
      then obtain j where j: "j < length ?rs" "?rs ! j = receiver_receive (Deduplicator_wrap r (events_of hs (receiver_id r))) e"
        by (meson in_set_conv_nth)
      obtain w6 w7 where d: "(?rs ! j) w6 = (disp ! j, w7)" using disp(3) j(1) by blast
      have "disp ! j \<in> set disp" using j(1) disp(2) by simp
      moreover then obtain a where a: "disp ! j = Inr a" using ok res(3) by (auto simp: rejected_none)
      ultimately have "a \<in> set acks" using fulfilled_mem res(1) by metis
      moreover have "receiver_receive r e w6 = (Inr a, w7)"
        using d j(2) a False w2(3) by (simp add: Deduplicator_receive)
      ultimately show ?thesis by blast
    qed simp
    then show ?thesis using run es by (intro exI[of _ w4] exI[of _ w5] exI[of _ es]) simp
  qed
  then show ?thesis using w3 res(2) by blast
qed

text \<open>The stages of a run that checked a window.\<close>

lemma run_stages:
  assumes m: "\<forall>m \<in> set monitors. \<forall>f t. leaves cp handled_by (m f t)"
    and r: "\<forall>r \<in> set receivers. \<forall>e. leaves cp handled_by (receiver_receive r e)"
    and l: "leaves cp handled_by latestBlock"
    and run: "Manager_run monitors receivers P latestBlock w = (Inr rep, w')"
  shows "\<exists>latest w1 w2 w3 w4 acks errs. latestBlock w1 = (Inr latest, w2) \<and>
     Manager_check monitors receivers P (window_start (cp w) latest) latest w3 = (Inr (acks, errs), w4) \<and>
     handled_by w3 = handled_by w \<and>
     rep_fromBlock rep = Some (window_start (cp w) latest) \<and> rep_toBlock rep = Some latest \<and>
     (rep_status rep = Success \<longrightarrow> errs = [] \<and> cp w' = latest \<and>
        handled_by w' = (\<lambda>rid. handled_by w rid @
          map ack_systemEvent (filter (\<lambda>a. ack_receiverId a = rid) (filter (\<lambda>a. ack_status a = Handled) acks)))) \<and>
     (rep_status rep = Failure \<longrightarrow> cp w' = cp w)"
proof -
  obtain c0 latest w1 w2 acks errs w4 where
    c: "checkpointBlock P w = (Inr c0, w1)" and lb: "latestBlock w1 = (Inr latest, w2)"
    and ch0: "Manager_check monitors receivers P (window_start c0 latest) latest w2 = (Inr (acks, errs), w4)"
    and fin0: "Manager_finish P (window_start c0 latest) latest acks errs w4 = (Inr rep, w')"
    using run unfolding Manager_run_def Let_def bind_io_Inr by auto
  have "c0 = cp w" using read_checkpoint[OF c] by simp
  note ch = ch0[unfolded this] and fin = fin0[unfolded this Manager_finish_def Let_def]
  have "cp w2 = cp w1 \<and> handled_by w2 = handled_by w1"
    by (rule leavesD[where m = latestBlock and w = w1, OF l lb])
  moreover have "cp w1 = cp w \<and> handled_by w1 = handled_by w" using read_checkpoint[OF c] by blast
  ultimately have w2: "cp w2 = cp w" "handled_by w2 = handled_by w" by argo+
  have w4: "cp w4 = cp w" "handled_by w4 = handled_by w" using check_delivers[OF m r ch] w2 by auto
  let ?h = "filter (\<lambda>ack. ack_status ack = Handled) acks"
  obtain errs2 w5 where st: "(if length ?h \<noteq> 0
         then record_error ''cannot store handled system events: '' (storeHandledSystemEvents P (groupByReceiver ?h)) errs
         else return_io errs) w4 = (Inr errs2, w5)"
    and w5: "cp w5 = cp w" "errs2 = [] \<Longrightarrow> errs = [] \<and> handled_by w5 = (\<lambda>rid. handled_by w rid @
          map ack_systemEvent (filter (\<lambda>a. ack_receiverId a = rid) ?h))"
  proof (cases "length ?h = 0")
    case True
    then show ?thesis using w4 that by simp
  next
    case False
    obtain es w5 u where e: "record_error ''cannot store handled system events: ''
        (storeHandledSystemEvents P (groupByReceiver ?h)) errs w4 = (Inr es, w5)"
      and u: "storeHandledSystemEvents P (groupByReceiver ?h) w4 = (u, w5)" "es = [] \<longrightarrow> errs = [] \<and> (\<exists>x. u = Inr x)"
      using record_error_runs[of "''cannot store handled system events: ''" "storeHandledSystemEvents P (groupByReceiver ?h)" errs w4]
      by (elim exE conjE) (rule that)
    show ?thesis
    proof (rule that[of es w5])
      show "cp w5 = cp w" using write_handled[OF u(1)] w4 by simp
      show "errs = [] \<and> handled_by w5 = (\<lambda>rid. handled_by w rid @ map ack_systemEvent (filter (\<lambda>a. ack_receiverId a = rid) ?h))"
        if "es = []"
        using that u(2) write_handled[OF u(1)] w4 by (auto simp: events_of_group)
    qed (use e False in simp)
  qed
  show ?thesis
  proof (cases "errs2 = []")
    case False
    then have "rep_status rep = Failure" "w' = w5" "rep_fromBlock rep = Some (window_start (cp w) latest)" "rep_toBlock rep = Some latest"
      using fin st by (auto simp: bind_io_def)
    then show ?thesis using lb ch w2 w5(1) by (intro exI[of _ latest] exI[of _ w1] exI[of _ w2] exI[of _ w4] exI[of _ acks] exI[of _ errs]) auto
  next
    case True
    obtain es w6 u where e: "record_error ''cannot update checkpoint block: '' (updateCheckpointBlock P latest) [] w5 = (Inr es, w6)"
      and u: "updateCheckpointBlock P latest w5 = (u, w6)" "es = [] \<longrightarrow> (\<exists>x. u = Inr x)" "(\<exists>x. u = Inr x) \<longrightarrow> es = []"
      using record_error_runs[of "''cannot update checkpoint block: ''" "updateCheckpointBlock P latest" "[]" w5]
      by (elim exE conjE) (rule that, assumption+, auto)
    have rep: "w' = w6" "rep = \<lparr>rep_fromBlock = Some (window_start (cp w) latest), rep_toBlock = Some latest,
       rep_status = (if length es = 0 then Success else Failure), rep_errors = es\<rparr>"
      using fin st True e by (auto simp: bind_io_def)
    have w6: "handled_by w6 = handled_by w5" "cp w6 = (case u of Inl _ \<Rightarrow> cp w5 | Inr _ \<Rightarrow> latest)"
      using write_checkpoint[OF u(1)] by auto
    show ?thesis
    proof (cases u)
      case (Inl x)
      then have "rep_status rep = Failure" "cp w' = cp w" using u(2) rep w6 w5(1) by auto
      then show ?thesis using lb ch w2 rep(2)
        by (intro exI[of _ latest] exI[of _ w1] exI[of _ w2] exI[of _ w4] exI[of _ acks] exI[of _ errs]) auto
    next
      case (Inr x)
      then have "rep_status rep = Success" "cp w' = latest" "handled_by w' = handled_by w5" using u(3) rep w6 by auto
      then show ?thesis using lb ch w2 rep(2) w5(2)[OF True]
        by (intro exI[of _ latest] exI[of _ w1] exI[of _ w2] exI[of _ w4] exI[of _ acks] exI[of _ errs]) auto
    qed
  qed
qed

lemma trigger_effect:
  assumes m: "\<forall>m \<in> set monitors. \<forall>f t. leaves cp handled_by (m f t)"
    and r: "\<forall>r \<in> set receivers. \<forall>e. leaves cp handled_by (receiver_receive r e)"
    and l: "leaves cp handled_by latestBlock"
    and t: "Manager_trigger monitors receivers P latestBlock w = (Inr rep, w')"
    and s: "rep_status rep = Success"
  shows "Manager_run monitors receivers P latestBlock w = (Inr rep, w')"
  using t s by (auto simp: Manager_trigger_def catch_io_def split: prod.splits sum.splits)

end

text \<open>A run always returns a report.\<close>

lemma trigger_returns: "\<exists>rep w'. Manager_trigger monitors receivers P latestBlock w = (Inr rep, w')"
  by (auto simp: Manager_trigger_def catch_io_def split: prod.splits sum.splits)

end
