(* ===== verification/MonitorRuns.thy ===== *)
theory MonitorRuns
  imports EventDelivery
begin

section \<open>Runs of the monitoring manager\<close>

text \<open>
  The service is started again and again; between two runs the chain grows and nothing else
  changes the database. A history is built run by run; its invariant relates the checkpoint to
  the windows of the successful runs.
\<close>

subsection \<open>Histories\<close>

inductive history :: "('w, ManagerReport) io \<Rightarrow> ('w \<Rightarrow> 'w \<Rightarrow> bool) \<Rightarrow> 'w \<Rightarrow> ManagerReport list \<Rightarrow> 'w \<Rightarrow> bool"
  for trig env w0 where
  start: "history trig env w0 [] w0"
| run: "history trig env w0 reps w \<Longrightarrow> env w w1 \<Longrightarrow> trig w1 = (Inr rep, w2) \<Longrightarrow> history trig env w0 (reps @ [rep]) w2"

inductive_cases history_snocE: "history trig env w0 (reps @ [rep]) w"

definition covers :: "ManagerReport \<Rightarrow> int \<Rightarrow> bool" where
  "covers rep b = (rep_status rep = Success \<and>
     (\<exists>f t. rep_fromBlock rep = Some f \<and> rep_toBlock rep = Some t \<and> f \<le> b \<and> b \<le> t))"

text \<open>The latest block of the chain: no operation lowers it, and \<open>latestBlock\<close> returns it.\<close>

definition rises :: "('w \<Rightarrow> int) \<Rightarrow> ('w, 'a) io \<Rightarrow> bool" where
  "rises latest m = (\<forall>w. latest w \<le> latest (snd (m w)))"

lemma risesD: "rises latest m \<Longrightarrow> m w = (r, w') \<Longrightarrow> latest w \<le> latest w'"
  unfolding rises_def by (metis snd_conv)

lemma rises_basic [simp]: "rises latest (return_io x)" "rises latest (throw_io e)" "rises latest (lift_io r)"
  by (simp_all add: rises_def)

lemma rises_bind [intro]: "rises latest m \<Longrightarrow> (\<And>x. rises latest (f x)) \<Longrightarrow> rises latest (bind_io m f)"
  unfolding rises_def bind_io_def by (auto split: prod.splits sum.splits) (metis order_trans snd_conv)+

lemma rises_catch [intro]: "rises latest m \<Longrightarrow> (\<And>e. rises latest (h e)) \<Longrightarrow> rises latest (catch_io m h)"
  unfolding rises_def catch_io_def by (auto split: prod.splits sum.splits) (metis order_trans snd_conv)+

lemma rises_settle [simp]: "rises latest (settle m) = rises latest m"
proof -
  have "snd (settle m w) = snd (m w)" for w by (simp add: settle_def split_beta)
  then show ?thesis by (simp add: rises_def)
qed

lemma rises_allSettled: "(\<And>m. m \<in> set ms \<Longrightarrow> rises latest m) \<Longrightarrow> rises latest (allSettled ms)"
  by (induction ms) (auto simp: allSettled_def intro!: rises_bind)

definition growing_chain ::
  "('w \<Rightarrow> int) \<Rightarrow> 'w monitor list \<Rightarrow> 'w event_receiver list \<Rightarrow> 'w persistence \<Rightarrow> ('w, int) io \<Rightarrow> bool" where
  "growing_chain latest monitors receivers P latestBlock =
     ((\<forall>w. 0 < latest w) \<and> rises latest latestBlock \<and> (\<forall>w b w'. latestBlock w = (Inr b, w') \<longrightarrow> b = latest w') \<and>
      (\<forall>m \<in> set monitors. \<forall>f t. rises latest (m f t)) \<and>
      (\<forall>r \<in> set receivers. \<forall>e. rises latest (receiver_receive r e)) \<and>
      rises latest (checkpointBlock P) \<and> rises latest (handledSystemEvents P) \<and>
      (\<forall>b. rises latest (updateCheckpointBlock P b)) \<and> (\<forall>es. rises latest (storeHandledSystemEvents P es)))"

lemma rises_check:
  assumes "growing_chain latest monitors receivers P latestBlock"
  shows "rises latest (Manager_check monitors receivers P f t)"
  using assms unfolding Manager_check_def Let_def
  by (intro rises_bind rises_allSettled) (auto simp: growing_chain_def Deduplicator_receive)

lemma rises_finish:
  assumes "growing_chain latest monitors receivers P latestBlock"
  shows "rises latest (Manager_finish P f t acks errs)"
proof -
  have "rises latest (record_error p m es)" if "rises latest m" for p m es
    unfolding record_error_def using that by (intro rises_catch rises_bind) auto
  then show ?thesis using assms unfolding Manager_finish_def Let_def
    by (intro rises_bind) (auto simp: growing_chain_def)
qed

lemma rises_trigger:
  assumes "growing_chain latest monitors receivers P latestBlock"
  shows "rises latest (Manager_trigger monitors receivers P latestBlock)"
  using assms rises_check[OF assms] rises_finish[OF assms] unfolding Manager_trigger_def Manager_run_def Let_def
  by (intro rises_catch rises_bind) (auto simp: growing_chain_def split: prod.splits)

text \<open>The block a run reads lies between the latest blocks before and after it.\<close>

lemma run_reads_between:
  assumes g: "growing_chain latest monitors receivers P latestBlock"
    and run: "Manager_run monitors receivers P latestBlock w = (Inr rep, w')" and t: "rep_toBlock rep = Some t"
  shows "latest w \<le> t \<and> t \<le> latest w'"
proof -
  obtain c w1 b w2 acks errs w3 where c: "checkpointBlock P w = (Inr c, w1)" and b: "latestBlock w1 = (Inr b, w2)"
    and ch: "Manager_check monitors receivers P (window_start c b) b w2 = (Inr (acks, errs), w3)"
    and fin: "Manager_finish P (window_start c b) b acks errs w3 = (Inr rep, w')"
    using run unfolding Manager_run_def Let_def bind_io_Inr by auto
  have r: "rises latest (checkpointBlock P)" "rises latest latestBlock" using g by (auto simp: growing_chain_def)
  have "latest w \<le> latest w1" by (rule risesD[where m = "checkpointBlock P" and w = w, OF r(1) c])
  moreover have "latest w1 \<le> latest w2" by (rule risesD[where m = latestBlock and w = w1, OF r(2) b])
  moreover have "b = latest w2" using g b by (auto simp: growing_chain_def)
  moreover have "latest w2 \<le> latest w'"
    using risesD[where w = w2, OF rises_check[OF g] ch] risesD[where w = w3, OF rises_finish[OF g] fin] by simp
  moreover have "t = b"
    using fin t unfolding Manager_finish_def Let_def bind_io_Inr by auto
  ultimately show ?thesis by simp
qed

lemma window_start_le: "0 < l \<Longrightarrow> c \<le> l \<Longrightarrow> 0 < c \<Longrightarrow> window_start c l \<le> c"
  by (auto simp: window_start_def reorgDepthBlocks_def Let_def)

definition is_success :: "ManagerReport \<Rightarrow> bool" where
  "is_success rep = (rep_status rep = Success)"

definition first_start :: "ManagerReport list \<Rightarrow> int option" where
  "first_start reps = (case find is_success reps of None \<Rightarrow> None | Some rep \<Rightarrow> rep_fromBlock rep)"

lemma find_snoc: "find P (xs @ [x]) = (case find P xs of None \<Rightarrow> if P x then Some x else None | Some y \<Rightarrow> Some y)"
  by (induction xs) auto

subsection \<open>Failures\<close>

lemma record_error_total: "\<exists>es w'. (if b then record_error p m errs else return_io errs) w = (Inr es, w')"
proof (cases b)
  case True
  then show ?thesis using record_error_runs[of p m errs w] by (elim exE conjE) simp
qed simp

text \<open>What follows the check never throws, and the report it makes has errors when it is a failure.\<close>

lemma finish_returns: "\<exists>rep w'. Manager_finish P f t acks errs w = (Inr rep, w')"
proof -
  let ?h = "filter (\<lambda>ack. ack_status ack = Handled) acks"
  obtain es w1 where 1: "(if length ?h \<noteq> 0
         then record_error ''cannot store handled system events: '' (storeHandledSystemEvents P (groupByReceiver ?h)) errs
         else return_io errs) w = (Inr es, w1)"
    using record_error_total[of "length ?h \<noteq> 0" "''cannot store handled system events: ''"
      "storeHandledSystemEvents P (groupByReceiver ?h)" errs w] by (elim exE) (rule that)
  obtain es2 w2 where 2: "(if length es = 0
         then record_error ''cannot update checkpoint block: '' (updateCheckpointBlock P t) es
         else return_io es) w1 = (Inr es2, w2)"
    using record_error_total[of "length es = 0" "''cannot update checkpoint block: ''"
      "updateCheckpointBlock P t" es w1] by (elim exE) (rule that)
  show ?thesis unfolding Manager_finish_def Let_def
    by (rule bind_io_total[where x = es and ?w1.0 = w1], rule 1, rule bind_io_total[where x = es2 and ?w1.0 = w2], rule 2, simp)
qed

lemma status_of_errors: "((if b then Success else Failure) = Success) = b"
  by (cases b) simp_all

lemma finish_report: "Manager_finish P f t acks errs w = (Inr rep, w') \<Longrightarrow>
   rep_fromBlock rep = Some f \<and> rep_toBlock rep = Some t \<and> (rep_status rep = Success) = (rep_errors rep = [])"
  unfolding Manager_finish_def Let_def bind_io_Inr by (auto simp: status_of_errors split del: if_split)

lemma run_report: "Manager_run monitors receivers P latestBlock w = (Inr rep, w') \<Longrightarrow>
   (\<exists>t. rep_toBlock rep = Some t) \<and> (rep_status rep = Success) = (rep_errors rep = [])"
  unfolding Manager_run_def Let_def bind_io_Inr using finish_report by fastforce

context event_store
begin

text \<open>A check throws only when the handled events cannot be read.\<close>

lemma check_throws:
  assumes m: "\<forall>m \<in> set monitors. \<forall>f t. leaves cp handled_by (m f t)"
    and c: "Manager_check monitors receivers P f t w = (Inl e, w')"
  shows "cp w' = cp w"
proof -
  let ?ms = "map (\<lambda>m. m f t) monitors"
  obtain checks w1 where checks: "allSettled ?ms w = (Inr checks, w1)"
    "(\<forall>m \<in> set ?ms. leaves cp handled_by m) \<longrightarrow> cp w1 = cp w \<and> handled_by w1 = handled_by w"
    using allSettled_all[of ?ms w cp handled_by] by (elim exE conjE) (rule that)
  have "cp w1 = cp w" using checks(2) m by auto
  obtain q w2 where q: "handledSystemEvents P w1 = (q, w2)" by fastforce
  show ?thesis
  proof (cases q)
    case (Inl err)
    then have "w' = w2" using c checks(1) q by (simp add: Manager_check_def Let_def)
    then show ?thesis using read_handled[OF q] \<open>cp w1 = cp w\<close> by simp
  next
    case (Inr hs)
    let ?rs = "concat (map (\<lambda>r. map (receiver_receive (Deduplicator_wrap r (events_of hs (receiver_id r))))
        (concat (fulfilled checks))) receivers)"
    obtain disp w3 where "allSettled ?rs w2 = (Inr disp, w3)"
      using allSettled_all[of ?rs w2 cp handled_by] by (elim exE conjE) (rule that)
    then show ?thesis using c checks(1) q Inr by (simp add: Manager_check_def Let_def)
  qed
qed

lemma run_throws:
  assumes m: "\<forall>m \<in> set monitors. \<forall>f t. leaves cp handled_by (m f t)"
    and l: "leaves cp handled_by latestBlock"
    and run: "Manager_run monitors receivers P latestBlock w = (Inl e, w')"
  shows "cp w' = cp w"
proof -
  obtain q w1 where c: "checkpointBlock P w = (q, w1)" by fastforce
  have w1: "cp w1 = cp w" using read_checkpoint[OF c] by simp
  obtain b w2 where b: "latestBlock w1 = (b, w2)" by fastforce
  have w2: "cp w2 = cp w" using leavesD[where m = latestBlock and w = w1, OF l b] w1 by simp
  show ?thesis
  proof (cases q; cases b)
    fix c0 latest assume q: "q = Inr c0" and bb: "b = Inr latest"
    obtain r w3 where ch: "Manager_check monitors receivers P (window_start c0 latest) latest w2 = (r, w3)" by fastforce
    then show ?thesis
    proof (cases r)
      case (Inl x)
      then show ?thesis using run c b q bb ch check_throws[OF m, of receivers _ _ w2] w2 by (simp add: Manager_run_def Let_def)
    next
      case (Inr p)
      obtain rep w4 where "Manager_finish P (window_start c0 latest) latest (fst p) (snd p) w3 = (Inr rep, w4)"
        using finish_returns[of P "window_start c0 latest" latest "fst p" "snd p" w3] by (elim exE) (rule that)
      then show ?thesis using run c b q bb ch Inr by (simp add: Manager_run_def Let_def split_beta)
    qed
  qed (use run c b w1 w2 in \<open>simp_all add: Manager_run_def Let_def\<close>)
qed

lemma trigger_checkpoint:
  assumes m: "\<forall>m \<in> set monitors. \<forall>f t. leaves cp handled_by (m f t)"
    and r: "\<forall>r \<in> set receivers. \<forall>e. leaves cp handled_by (receiver_receive r e)"
    and l: "leaves cp handled_by latestBlock"
    and t: "Manager_trigger monitors receivers P latestBlock w = (Inr rep, w')"
  shows "if rep_status rep = Success then rep_errors rep = [] \<and> rep_toBlock rep = Some (cp w')
    else rep_errors rep \<noteq> [] \<and> cp w' = cp w"
proof (cases "Manager_run monitors receivers P latestBlock w")
  case (Pair q w1)
  show ?thesis
  proof (cases q)
    case (Inl e)
    then show ?thesis using Pair t run_throws[OF m l, of receivers w e w1]
      by (auto simp: Manager_trigger_def)
  next
    case (Inr rep1)
    then have run: "Manager_run monitors receivers P latestBlock w = (Inr rep, w')"
      using Pair t by (simp add: Manager_trigger_def)
    show ?thesis using run_report[OF run] run_stages[OF m r l run] by (cases "rep_status rep") auto
  qed
qed

end

end
