(* ===== verification/MonitorClaims.thy ===== *)
theory MonitorClaims
  imports MonitorRuns
begin

section \<open>Deliveries, failures and histories of the monitoring service\<close>

text \<open>
  The properties of the manager over the file persistence. The database keeps what was pushed
  (\<open>event_database\<close>); monitors, receivers and the node leave the database alone (\<open>leaves\<close>).
\<close>

definition checkpoint_in :: "('w \<Rightarrow> int option) \<Rightarrow> 'w \<Rightarrow> int" where
  "checkpoint_in look w = checkpoint_of (look w)"

definition handled_in :: "('w \<Rightarrow> handled_events option) \<Rightarrow> 'w \<Rightarrow> string \<Rightarrow> SystemEvent list" where
  "handled_in look w = handled_of (look w)"

definition outside_database ::
  "('w \<Rightarrow> int option) \<Rightarrow> ('w \<Rightarrow> handled_events option) \<Rightarrow> 'w monitor list \<Rightarrow> 'w event_receiver list \<Rightarrow> ('w, int) io \<Rightarrow> bool" where
  "outside_database lookc lookh monitors receivers latestBlock =
     ((\<forall>m \<in> set monitors. \<forall>f t. leaves (checkpoint_in lookc) (handled_in lookh) (m f t)) \<and>
      (\<forall>r \<in> set receivers. \<forall>e. leaves (checkpoint_in lookc) (handled_in lookh) (receiver_receive r e)) \<and>
      leaves (checkpoint_in lookc) (handled_in lookh) latestBlock)"

context event_database
begin

lemma file_event_store:
  "event_store (SystemEventFilePersistence checkpointDb handledDb) (checkpoint_in look_checkpoint) (handled_in look_handled)"
proof -
  have "checkpoint_in look_checkpoint = (\<lambda>w. checkpoint_of (look_checkpoint w))"
    "handled_in look_handled = (\<lambda>w. handled_of (look_handled w))"
    by (simp_all add: checkpoint_in_def handled_in_def fun_eq_iff)
  then show ?thesis using store.event_store_axioms by simp
qed

end

lemmas file_store = event_database.file_event_store

subsection \<open>The deduplicator\<close>

text \<open>Wrapping a receiver in a deduplicator withholds exactly the events stored as handled:
  such an event is acknowledged as ignored and the receiver is not called; every other event
  reaches the receiver, and its answer is returned.\<close>

theorem deduplicator_exact:
  "receiver_receive (Deduplicator_wrap receiver handled) e w =
     (if e \<in> set handled
      then (Inr \<lparr>ack_receiverId = receiver_id receiver, ack_systemEvent = e, ack_status = Ignored\<rparr>, w)
      else receiver_receive receiver e w) \<and>
   receiver_id (Deduplicator_wrap receiver handled) = receiver_id receiver"
  by (simp add: Deduplicator_receive) (simp add: Deduplicator_wrap_def Let_def)

subsection \<open>Deliveries\<close>

lemma BaseReceiver_ack:
  assumes "receiver_receive (BaseReceiver rid supports h) e w = (Inr a, w')"
  shows "ack_receiverId a = rid \<and> ack_systemEvent a = e \<and> (supports e \<longrightarrow> ack_status a = Handled)"
  using assms by (auto simp: BaseReceiver_def bind_io_Inr split: if_splits)

lemma receiver_id_BaseReceiver: "receiver_id (BaseReceiver rid supports h) = rid"
  by (simp add: BaseReceiver_def)

lemma acked_is_handled:
  assumes "ack_status a = Handled" "a \<in> set acks"
  shows "ack_systemEvent a \<in> set (h (ack_receiverId a) @ map ack_systemEvent
    (filter (\<lambda>b. ack_receiverId b = ack_receiverId a) (filter (\<lambda>b. ack_status b = Handled) acks)))"
  using assms by auto

text \<open>The stages of a successful run, put together.\<close>

lemma run_delivers:
  assumes db: "event_database checkpointDb lookc handledDb lookh"
    and out: "outside_database lookc lookh monitors (map (\<lambda>(rid, supports, h). BaseReceiver rid supports h) rs) latestBlock"
    and run: "Manager_trigger monitors (map (\<lambda>(rid, supports, h). BaseReceiver rid supports h) rs)
      (SystemEventFilePersistence checkpointDb handledDb) latestBlock w = (Inr rep, w')"
    and ok: "rep_status rep = Success"
  shows "\<exists>f t. rep_fromBlock rep = Some f \<and> rep_toBlock rep = Some t \<and>
     f = window_start (checkpoint_in lookc w) t \<and> checkpoint_in lookc w' = t \<and>
     (\<forall>m \<in> set monitors. \<exists>w1 w2 es. m f t w1 = (Inr es, w2) \<and>
        (\<forall>e \<in> set es. \<forall>(rid, supports, h) \<in> set rs. supports e \<longrightarrow> e \<in> set (handled_in lookh w' rid)))"
proof -
  let ?R = "map (\<lambda>(rid, supports, h). BaseReceiver rid supports h) rs"
  note st = file_store[OF db]
  note m = out[unfolded outside_database_def, THEN conjunct1]
    and r = out[unfolded outside_database_def, THEN conjunct2, THEN conjunct1]
    and l = out[unfolded outside_database_def, THEN conjunct2, THEN conjunct2]
  obtain t w1 w2 w3 w4 acks errs where "latestBlock w1 = (Inr t, w2)"
    and ch: "Manager_check monitors ?R (SystemEventFilePersistence checkpointDb handledDb)
      (window_start (checkpoint_in lookc w) t) t w3 = (Inr (acks, errs), w4)"
    and h3: "handled_in lookh w3 = handled_in lookh w"
    and f: "rep_fromBlock rep = Some (window_start (checkpoint_in lookc w) t)" "rep_toBlock rep = Some t"
    and s: "rep_status rep = Success \<longrightarrow> errs = [] \<and> checkpoint_in lookc w' = t \<and>
        handled_in lookh w' = (\<lambda>rid. handled_in lookh w rid @
          map ack_systemEvent (filter (\<lambda>a. ack_receiverId a = rid) (filter (\<lambda>a. ack_status a = Handled) acks)))"
    using event_store.run_stages[OF st m r l event_store.trigger_effect[OF st m r l run ok]]
    by (elim exE conjE) (rule that, assumption+)
  have checked: "\<forall>m \<in> set monitors. \<exists>w1 w2 es. m (window_start (checkpoint_in lookc w) t) t w1 = (Inr es, w2) \<and>
        (\<forall>e \<in> set es. \<forall>r \<in> set ?R. e \<in> set (handled_in lookh w (receiver_id r)) \<or>
           (\<exists>w3 w4 a. receiver_receive r e w3 = (Inr a, w4) \<and> a \<in> set acks))"
    using event_store.check_delivers[OF st m r ch] s ok h3 by simp
  have deliver: "e \<in> set (handled_in lookh w' rid)"
    if supports: "supports e" and rr: "(rid, supports, h) \<in> set rs"
      and d: "\<forall>r \<in> set ?R. e \<in> set (handled_in lookh w (receiver_id r)) \<or>
           (\<exists>w3 w4 a. receiver_receive r e w3 = (Inr a, w4) \<and> a \<in> set acks)" for e rid supports h
  proof -
    have "BaseReceiver rid supports h \<in> set ?R" using rr by force
    from bspec[OF d this] consider "e \<in> set (handled_in lookh w rid)"
      | w3 w4 a where "receiver_receive (BaseReceiver rid supports h) e w3 = (Inr a, w4)" "a \<in> set acks"
      by (auto simp: receiver_id_BaseReceiver)
    then show ?thesis
    proof cases
      case 2
      then show ?thesis using BaseReceiver_ack[OF 2(1)] acked_is_handled[of a acks "handled_in lookh w"] s ok supports by auto
    qed (use s ok in simp)
  qed
  have "\<exists>w1 w2 es. m (window_start (checkpoint_in lookc w) t) t w1 = (Inr es, w2) \<and>
        (\<forall>e \<in> set es. \<forall>(rid, supports, h) \<in> set rs. supports e \<longrightarrow> e \<in> set (handled_in lookh w' rid))"
    if "m \<in> set monitors" for m
    using bspec[OF checked that] deliver by (elim exE conjE) (intro exI conjI, assumption, blast)
  then show ?thesis using f s ok by (intro exI[of _ "window_start (checkpoint_in lookc w) t"] exI[of _ t] conjI) simp_all
qed

text \<open>When a run succeeds, every monitor answered for the window from twelve blocks before
  the checkpoint (or before the latest block) up to the latest block, and every event it found
  is stored as handled for every receiver that supports it; the checkpoint is the latest block.\<close>

theorem successful_run_delivers:
  assumes db: "event_database checkpointDb lookc handledDb lookh"
    and out: "outside_database lookc lookh monitors (map (\<lambda>(rid, supports, h). BaseReceiver rid supports h) rs) latestBlock"
    and run: "Manager_trigger monitors (map (\<lambda>(rid, supports, h). BaseReceiver rid supports h) rs)
      (SystemEventFilePersistence checkpointDb handledDb) latestBlock w = (Inr rep, w')"
    and ok: "rep_status rep = Success"
  shows "\<exists>f t. rep_fromBlock rep = Some f \<and> rep_toBlock rep = Some t \<and>
     f = window_start (checkpoint_in lookc w) t \<and> checkpoint_in lookc w' = t \<and>
     (\<forall>m \<in> set monitors. \<exists>w1 w2 es. m f t w1 = (Inr es, w2) \<and>
        (\<forall>e \<in> set es. \<forall>(rid, supports, h) \<in> set rs. supports e \<longrightarrow> e \<in> set (handled_in lookh w' rid)))"
  by (rule run_delivers[OF db out run ok])

text \<open>A service with one monitor, which finds one event, and the Discord receiver.\<close>

definition sample_event :: SystemEvent where
  "sample_event = \<lparr>se_title = ''Large deposit'', se_type = Informational, se_data = [(''amount'', ''10'')], se_block = 95\<rparr>"

definition sample_monitor :: "monitor_world monitor" where
  "sample_monitor = (\<lambda>_ _. return_io [sample_event])"

definition sample_receivers :: "(string \<times> (SystemEvent \<Rightarrow> bool) \<times> (SystemEvent \<Rightarrow> (monitor_world, unit) io)) list" where
  "sample_receivers = [(''Discord'', Discord_isSupportedSystemEvent, \<lambda>_. return_io ())]"

definition sample_latestBlock :: "(monitor_world, int) io" where
  "sample_latestBlock = (\<lambda>w. (Inr (max 1 (mw_latestBlock w)), w))"

definition sample_world :: monitor_world where
  "sample_world = \<lparr>mw_sent = [], mw_checkpoint = None, mw_handled = None, mw_lastAlert = None, mw_latestBlock = 100\<rparr>"

definition sample_trigger :: "(monitor_world, ManagerReport) io" where
  "sample_trigger = Manager_trigger [sample_monitor] (map (\<lambda>(rid, supports, h). BaseReceiver rid supports h) sample_receivers)
     (SystemEventFilePersistence checkpoint_value handled_value) sample_latestBlock"

lemma sample_database: "event_database checkpoint_value mw_checkpoint handled_value mw_handled"
  by (rule monitor_db.event_database_axioms)

lemma sample_outside: "outside_database mw_checkpoint mw_handled [sample_monitor]
    (map (\<lambda>(rid, supports, h). BaseReceiver rid supports h) sample_receivers) sample_latestBlock"
  by (auto simp: outside_database_def leaves_def sample_monitor_def sample_receivers_def sample_latestBlock_def BaseReceiver_def)

lemmas sample_defs = sample_trigger_def Manager_trigger_def Manager_run_def Manager_check_def Manager_finish_def
  SystemEventFilePersistence_def file_handledSystemEvents_def checkpoint_value_def handled_value_def field_value_def
  sample_latestBlock_def sample_world_def sample_monitor_def sample_receivers_def BaseReceiver_def allSettled_def settle_def
  fulfilled_def rejected_def record_error_def Let_def bind_io_def catch_io_def

lemma sample_run: "\<exists>h. sample_trigger sample_world =
    (Inr \<lparr>rep_fromBlock = Some 88, rep_toBlock = Some 100, rep_status = Success, rep_errors = []\<rparr>,
     \<lparr>mw_sent = [], mw_checkpoint = Some 100, mw_handled = Some h, mw_lastAlert = None, mw_latestBlock = 100\<rparr>)"
  by (simp add: sample_defs Deduplicator_receive Discord_isSupportedSystemEvent_def sample_event_def events_of_def
      window_start_def reorgDepthBlocks_def)

lemma successful_run_delivers_witness:
  "\<exists>rep w'. sample_trigger sample_world = (Inr rep, w') \<and> rep_status rep = Success \<and>
     sample_event \<in> set (handled_in mw_handled w' ''Discord'')"
proof -
  obtain rep w' where run: "sample_trigger sample_world = (Inr rep, w')" "rep_status rep = Success"
    using sample_run by auto
  have "\<exists>f t. rep_fromBlock rep = Some f \<and> rep_toBlock rep = Some t \<and>
     f = window_start (checkpoint_in mw_checkpoint sample_world) t \<and> checkpoint_in mw_checkpoint w' = t \<and>
     (\<forall>m \<in> set [sample_monitor]. \<exists>w1 w2 es. m f t w1 = (Inr es, w2) \<and>
        (\<forall>e \<in> set es. \<forall>(rid, supports, h) \<in> set sample_receivers. supports e \<longrightarrow> e \<in> set (handled_in mw_handled w' rid)))"
    by (rule successful_run_delivers[OF sample_database sample_outside run(1)[unfolded sample_trigger_def] run(2)])
  then show ?thesis using run
    by (auto simp: sample_monitor_def sample_receivers_def Discord_isSupportedSystemEvent_def sample_event_def)
qed

subsection \<open>Failures\<close>

text \<open>C38: A run always returns a report, whatever throws inside it. A report of a success has no
  errors, and the checkpoint is the last block of its window; a report of a failure has errors,
  and the checkpoint is the one before the run, so that the window is looked at again.\<close>

theorem trigger_reports:
  assumes db: "event_database checkpointDb lookc handledDb lookh"
    and out: "outside_database lookc lookh monitors receivers latestBlock"
  shows "\<exists>rep w'. Manager_trigger monitors receivers (SystemEventFilePersistence checkpointDb handledDb) latestBlock w = (Inr rep, w') \<and>
     (if rep_status rep = Success then rep_errors rep = [] \<and> rep_toBlock rep = Some (checkpoint_in lookc w')
      else rep_errors rep \<noteq> [] \<and> checkpoint_in lookc w' = checkpoint_in lookc w)"
proof -
  obtain rep w' where t: "Manager_trigger monitors receivers (SystemEventFilePersistence checkpointDb handledDb) latestBlock w = (Inr rep, w')"
    using trigger_returns[of monitors receivers "SystemEventFilePersistence checkpointDb handledDb" latestBlock w]
    by (elim exE) (rule that)
  show ?thesis
    using event_store.trigger_checkpoint[OF file_store[OF db] _ _ _ t] out t unfolding outside_database_def by blast
qed

lemma trigger_reports_witness:
  "\<exists>rep w'. sample_trigger sample_world = (Inr rep, w') \<and>
     (if rep_status rep = Success then rep_errors rep = [] \<and> rep_toBlock rep = Some (checkpoint_in mw_checkpoint w')
      else rep_errors rep \<noteq> [] \<and> checkpoint_in mw_checkpoint w' = checkpoint_in mw_checkpoint sample_world)"
  using trigger_reports[OF sample_database sample_outside] unfolding sample_trigger_def .

subsection \<open>Histories\<close>

text \<open>Between two runs the chain may only grow, and nobody else writes the checkpoint.\<close>

definition chain_grows :: "('w \<Rightarrow> int option) \<Rightarrow> ('w \<Rightarrow> int) \<Rightarrow> ('w \<Rightarrow> 'w \<Rightarrow> bool) \<Rightarrow> bool" where
  "chain_grows lookc latest env =
     (\<forall>w w1. env w w1 \<longrightarrow> checkpoint_in lookc w1 = checkpoint_in lookc w \<and> latest w \<le> latest w1)"

definition covered_up_to :: "ManagerReport list \<Rightarrow> int \<Rightarrow> bool" where
  "covered_up_to reps c = (\<forall>f b. first_start reps = Some f \<longrightarrow> f \<le> b \<longrightarrow> b \<le> c \<longrightarrow> (\<exists>rep \<in> set reps. covers rep b))"

text \<open>One run keeps the invariant of a history: before the first success the checkpoint is unset;
  afterwards it is positive and every block up to it is covered.\<close>

definition history_inv :: "('w \<Rightarrow> int option) \<Rightarrow> ('w \<Rightarrow> int) \<Rightarrow> ManagerReport list \<Rightarrow> 'w \<Rightarrow> bool" where
  "history_inv lookc latest reps w =
     (checkpoint_in lookc w \<le> latest w \<and> covered_up_to reps (checkpoint_in lookc w) \<and>
      (if first_start reps = None then checkpoint_in lookc w = 0 else 0 < checkpoint_in lookc w))"

lemma first_start_snoc:
  "first_start (reps @ [rep]) =
    (case find is_success reps of None \<Rightarrow> (if is_success rep then rep_fromBlock rep else None) | Some r \<Rightarrow> rep_fromBlock r)"
  by (auto simp: first_start_def find_snoc split: option.splits)

lemma success_starts:
  assumes "is_success rep" "rep_fromBlock rep = Some f" "rep_toBlock rep = Some t" "f \<le> b" "b \<le> t"
  shows "covers rep b"
  using assms by (simp add: covers_def is_success_def)

text \<open>One run keeps the invariant: the window of a success starts at or before the checkpoint.\<close>

lemma run_keeps_inv:
  assumes st: "event_store P (checkpoint_in lookc) (handled_in lookh)"
    and out: "outside_database lookc lookh monitors receivers latestBlock"
    and g: "growing_chain latest monitors receivers P latestBlock"
    and inv: "history_inv lookc latest reps w"
    and started: "\<forall>r \<in> set reps. is_success r \<longrightarrow> rep_fromBlock r \<noteq> None"
    and t: "Manager_trigger monitors receivers P latestBlock w = (Inr rep, w')"
  shows "history_inv lookc latest (reps @ [rep]) w' \<and> (is_success rep \<longrightarrow> rep_fromBlock rep \<noteq> None)"
proof -
  note m = out[unfolded outside_database_def, THEN conjunct1]
    and r = out[unfolded outside_database_def, THEN conjunct2, THEN conjunct1]
    and l = out[unfolded outside_database_def, THEN conjunct2, THEN conjunct2]
  note cpt = event_store.trigger_checkpoint[OF st m r l t]
  show ?thesis
  proof (cases "is_success rep")
    case False
    then have "first_start (reps @ [rep]) = first_start reps" by (simp add: first_start_snoc) (simp add: first_start_def)
    moreover have "checkpoint_in lookc w' = checkpoint_in lookc w" using cpt False by (simp add: is_success_def)
    moreover have "latest w \<le> latest w'" using risesD[where w = w, OF rises_trigger[OF g] t] .
    ultimately show ?thesis using inv False by (auto simp: history_inv_def covered_up_to_def)
  next
    case True
    then have ok: "rep_status rep = Success" by (simp add: is_success_def)
    note run = event_store.trigger_effect[OF st m r l t ok]
    obtain b where b: "rep_fromBlock rep = Some (window_start (checkpoint_in lookc w) b)" "rep_toBlock rep = Some b"
      "checkpoint_in lookc w' = b"
      using event_store.run_stages[OF st m r l run] ok by (elim exE conjE) (rule that, assumption+, simp)
    have between: "latest w \<le> b" "b \<le> latest w'" using run_reads_between[OF g run b(2)] by simp_all
    have "0 < latest w" using g by (simp add: growing_chain_def)
    then have pos: "0 < b" using between by simp
    let ?s = "window_start (checkpoint_in lookc w) b"
    have new: "covers rep x" if "?s \<le> x" "x \<le> b" for x by (rule success_starts[OF True b(1,2) that])
    show ?thesis
    proof (cases "find is_success reps")
      case None
      then have "first_start (reps @ [rep]) = Some ?s" using True b(1) by (simp add: first_start_snoc)
      then show ?thesis using b(3) pos between(2) new b(1) by (auto simp: history_inv_def covered_up_to_def)
    next
      case (Some r0)
      then have "r0 \<in> set reps" "is_success r0" by (auto simp: find_Some_iff)
      then obtain f where f: "rep_fromBlock r0 = Some f" using started by blast
      then have old: "first_start reps = Some f" "first_start (reps @ [rep]) = Some f"
        using Some by (simp add: first_start_def, simp add: first_start_snoc)
      have c: "checkpoint_in lookc w \<le> latest w" "0 < checkpoint_in lookc w"
        using inv old(1) by (auto simp: history_inv_def)
      have "?s \<le> checkpoint_in lookc w" using window_start_le[of b "checkpoint_in lookc w"] c between(1) pos by simp
      then have "\<exists>rep' \<in> set (reps @ [rep]). covers rep' x" if "f \<le> x" "x \<le> b" for x
        using that new[of x] inv old(1) by (cases "x \<le> checkpoint_in lookc w") (auto simp: history_inv_def covered_up_to_def)
      then show ?thesis using b(1,3) pos between(2) old by (auto simp: history_inv_def covered_up_to_def)
    qed
  qed
qed

lemma history_keeps_inv:
  assumes st: "event_store P (checkpoint_in lookc) (handled_in lookh)"
    and out: "outside_database lookc lookh monitors receivers latestBlock"
    and g: "growing_chain latest monitors receivers P latestBlock"
    and env: "chain_grows lookc latest env"
    and "checkpoint_in lookc w0 = 0"
    and "history (Manager_trigger monitors receivers P latestBlock) env w0 reps w"
  shows "history_inv lookc latest reps w \<and> (\<forall>r \<in> set reps. is_success r \<longrightarrow> rep_fromBlock r \<noteq> None)"
  using assms(6,5)
proof (induction rule: history.induct)
  case start
  have "0 < latest w0" using g by (simp add: growing_chain_def)
  then show ?case using start by (simp add: history_inv_def covered_up_to_def first_start_def)
next
  case (run reps w w1 rep w2)
  have "checkpoint_in lookc w1 = checkpoint_in lookc w" "latest w \<le> latest w1"
    using env run.hyps(2) by (simp_all add: chain_grows_def)
  then have "history_inv lookc latest reps w1" using run.IH run.prems by (simp add: history_inv_def)
  then show ?case using run_keeps_inv[OF st out g _ _ run.hyps(3)] run.IH run.prems by fastforce
qed

text \<open>C16: No block is left out. Over any history of runs that starts without a checkpoint, every
  block from the start of the first successful window up to the checkpoint lies in the window of
  a successful run, however many runs failed in between.\<close>

theorem no_block_missed:
  assumes db: "event_database checkpointDb lookc handledDb lookh"
    and out: "outside_database lookc lookh monitors receivers latestBlock"
    and g: "growing_chain latest monitors receivers (SystemEventFilePersistence checkpointDb handledDb) latestBlock"
    and env: "chain_grows lookc latest env" "checkpoint_in lookc w0 = 0"
    and h: "history (Manager_trigger monitors receivers (SystemEventFilePersistence checkpointDb handledDb) latestBlock) env w0 reps w"
    and f: "first_start reps = Some f" "f \<le> b" "b \<le> checkpoint_in lookc w"
  shows "\<exists>rep \<in> set reps. covers rep b"
  using history_keeps_inv[OF file_store[OF db] out g env h] f by (auto simp: history_inv_def covered_up_to_def)

definition sample_tip :: "monitor_world \<Rightarrow> int" where
  "sample_tip w = max 1 (mw_latestBlock w)"

lemma sample_growing: "growing_chain sample_tip [sample_monitor]
    (map (\<lambda>(rid, supports, h). BaseReceiver rid supports h) sample_receivers)
    (SystemEventFilePersistence checkpoint_value handled_value) sample_latestBlock"
  by (auto simp: growing_chain_def rises_def sample_tip_def sample_defs split: option.splits)

lemma sample_grows: "chain_grows mw_checkpoint sample_tip (\<lambda>w w1. w1 = w)"
  by (simp add: chain_grows_def)

lemma sample_start: "checkpoint_in mw_checkpoint sample_world = 0"
  by (simp add: checkpoint_in_def checkpoint_of_def sample_world_def)

lemma no_block_missed_witness:
  "\<exists>reps w. history sample_trigger (\<lambda>w w1. w1 = w) sample_world reps w \<and> (\<exists>rep \<in> set reps. covers rep 95)"
proof -
  obtain rep w' where run: "sample_trigger sample_world = (Inr rep, w')" and
    rep: "rep = \<lparr>rep_fromBlock = Some 88, rep_toBlock = Some 100, rep_status = Success, rep_errors = []\<rparr>"
      "mw_checkpoint w' = Some 100"
    using sample_run by auto
  have h: "history sample_trigger (\<lambda>w w1. w1 = w) sample_world [rep] w'"
    using history.run[of sample_trigger "\<lambda>w w1. w1 = w" sample_world "[]" sample_world sample_world rep w'] run
    by (simp add: history.start)
  have "\<exists>rep \<in> set [rep]. covers rep 95"
    by (rule no_block_missed[OF sample_database sample_outside sample_growing sample_grows sample_start h[unfolded sample_trigger_def], where f = 88])
      (use rep in \<open>simp_all add: first_start_def is_success_def checkpoint_in_def checkpoint_of_def\<close>)
  then show ?thesis using h by blast
qed

end
