(* ===== verification/Notices.thy ===== *)
theory Notices
  imports MonitorClaims
begin

section \<open>What the monitoring service sends\<close>

text \<open>
  An event that the database has as handled by a receiver was sent by it. What has been sent is
  observed of the world and only grows; the lemmas follow a notice from the receiver through the
  deduplicator, the check and the run to the database.
\<close>

definition keeps :: "('w \<Rightarrow> 'n set) \<Rightarrow> ('w, 'a) io \<Rightarrow> bool" where
  "keeps sent m = (\<forall>w. sent w \<subseteq> sent (snd (m w)))"

lemma keepsD: "keeps sent m \<Longrightarrow> m w = (r, w') \<Longrightarrow> sent w \<subseteq> sent w'"
  unfolding keeps_def by (metis snd_conv)

lemma keeps_basic [simp]: "keeps sent (return_io x)" "keeps sent (throw_io e)" "keeps sent (lift_io r)"
  by (simp_all add: keeps_def)

lemma keeps_bind [intro]: "keeps sent m \<Longrightarrow> (\<And>x. keeps sent (f x)) \<Longrightarrow> keeps sent (bind_io m f)"
  unfolding keeps_def bind_io_def by (auto split: prod.splits sum.splits) (metis snd_conv subsetD)+

lemma keeps_catch [intro]: "keeps sent m \<Longrightarrow> (\<And>e. keeps sent (h e)) \<Longrightarrow> keeps sent (catch_io m h)"
  unfolding keeps_def catch_io_def by (auto split: prod.splits sum.splits) (metis snd_conv subsetD)+

subsection \<open>The calls of a check\<close>

text \<open>Every call of \<open>allSettled\<close> was made, and what it had sent is there at the end.\<close>

lemma allSettled_keeps:
  "(\<And>m. m \<in> set ms \<Longrightarrow> keeps sent m) \<Longrightarrow> allSettled ms w = (Inr rs, w') \<Longrightarrow>
   sent w \<subseteq> sent w' \<and> (\<forall>r \<in> set rs. \<exists>m \<in> set ms. \<exists>w1 w2. m w1 = (r, w2) \<and> sent w2 \<subseteq> sent w')"
proof (induction ms arbitrary: w rs)
  case (Cons m ms)
  obtain r w1 where r: "m w = (r, w1)" by fastforce
  obtain rs1 where rs1: "allSettled ms w1 = (Inr rs1, w')" "rs = r # rs1"
    using Cons.prems(2) r by (auto simp: allSettled_def bind_io_def settle_def split: prod.splits sum.splits)
  have "sent w \<subseteq> sent w1" using Cons.prems(1) [of m] keepsD r by fastforce
  moreover have "sent w1 \<subseteq> sent w' \<and> (\<forall>r \<in> set rs1. \<exists>m \<in> set ms. \<exists>w1 w2. m w1 = (r, w2) \<and> sent w2 \<subseteq> sent w')"
    by (rule Cons.IH [OF _ rs1(1)]) (use Cons.prems(1) in simp)
  ultimately show ?case using r rs1(2) by (auto intro: exI [of _ w])
qed (simp add: allSettled_def)

lemma fulfilled_in: "a \<in> set (fulfilled rs) \<Longrightarrow> Inr a \<in> set rs"
  by (auto simp: fulfilled_def split: sum.splits)

lemma check_sends:
  assumes m: "\<And>m f t. m \<in> set monitors \<Longrightarrow> keeps sent (m f t)"
    and r: "\<And>r e. r \<in> set receivers \<Longrightarrow> keeps sent (receiver_receive r e)"
    and h: "keeps sent (handledSystemEvents P)"
    and c: "Manager_check monitors receivers P f t w = (Inr (acks, errs), w')"
  shows "sent w \<subseteq> sent w' \<and> (\<forall>a \<in> set acks. \<exists>r \<in> set receivers. \<exists>es e w3 w4.
     receiver_receive (Deduplicator_wrap r es) e w3 = (Inr a, w4) \<and> sent w4 \<subseteq> sent w')"
proof -
  let ?ms = "map (\<lambda>m. m f t) monitors"
  obtain checks w1 hs w2 disp w3 where checks: "allSettled ?ms w = (Inr checks, w1)" "handledSystemEvents P w1 = (Inr hs, w2)"
    and disp: "allSettled (concat (map (\<lambda>r. map (receiver_receive (Deduplicator_wrap r (events_of hs (receiver_id r))))
      (concat (fulfilled checks))) receivers)) w2 = (Inr disp, w3)"
    and res: "acks = fulfilled disp" "w' = w3"
    using c by (auto simp: Manager_check_def bind_io_Inr Let_def)
  have "sent w \<subseteq> sent w1" using allSettled_keeps [OF _ checks(1), of sent] m by auto
  moreover have "sent w1 \<subseteq> sent w2" by (rule keepsD [where m = "handledSystemEvents P" and w = w1, OF h checks(2)])
  moreover have "sent w2 \<subseteq> sent w' \<and> (\<forall>q \<in> set disp. \<exists>m \<in> set (concat (map (\<lambda>r. map (receiver_receive
      (Deduplicator_wrap r (events_of hs (receiver_id r)))) (concat (fulfilled checks))) receivers)).
      \<exists>w1 w2. m w1 = (q, w2) \<and> sent w2 \<subseteq> sent w')"
    unfolding res(2) by (rule allSettled_keeps [OF _ disp]) (auto simp: Deduplicator_receive intro: r)
  ultimately show ?thesis using fulfilled_in unfolding res(1) by fastforce
qed

subsection \<open>The database has only what was sent\<close>

text \<open>What a receiver's handler has to send; what the database has as handled was sent.\<close>

definition handler_sends :: "('w \<Rightarrow> 'n set) \<Rightarrow> (string \<Rightarrow> SystemEvent \<Rightarrow> 'n) \<Rightarrow>
   (string \<times> (SystemEvent \<Rightarrow> bool) \<times> (SystemEvent \<Rightarrow> ('w, unit) io)) list \<Rightarrow> bool" where
  "handler_sends sent notice_of rs =
     (\<forall>(rid, supports, h) \<in> set rs. \<forall>e. keeps sent (h e) \<and> (\<forall>w w'. h e w = (Inr (), w') \<longrightarrow> notice_of rid e \<in> sent w'))"

definition all_sent :: "('w \<Rightarrow> 'n set) \<Rightarrow> (string \<Rightarrow> SystemEvent \<Rightarrow> 'n) \<Rightarrow> string set \<Rightarrow> ('w \<Rightarrow> handled_events option) \<Rightarrow> 'w \<Rightarrow> bool" where
  "all_sent sent notice_of rids lookh w = (\<forall>rid \<in> rids. \<forall>e \<in> set (handled_in lookh w rid). notice_of rid e \<in> sent w)"

definition keeps_sent :: "('w \<Rightarrow> 'n set) \<Rightarrow> 'w monitor list \<Rightarrow> ('w, int) json_value \<Rightarrow> ('w, handled_events) json_value \<Rightarrow> ('w, int) io \<Rightarrow> bool" where
  "keeps_sent sent monitors checkpointDb handledDb latestBlock =
     ((\<forall>m \<in> set monitors. \<forall>f t. keeps sent (m f t)) \<and> keeps sent latestBlock \<and>
      keeps sent (jv_exists checkpointDb) \<and> keeps sent (jv_getObject checkpointDb) \<and> (\<forall>x. keeps sent (jv_push checkpointDb x)) \<and>
      keeps sent (jv_exists handledDb) \<and> keeps sent (jv_getObject handledDb) \<and> (\<forall>x. keeps sent (jv_push handledDb x)))"

lemma keeps_persistence:
  assumes "keeps_sent sent monitors checkpointDb handledDb latestBlock"
  shows "keeps sent (checkpointBlock (SystemEventFilePersistence checkpointDb handledDb))"
    "keeps sent (handledSystemEvents (SystemEventFilePersistence checkpointDb handledDb))"
    "keeps sent (updateCheckpointBlock (SystemEventFilePersistence checkpointDb handledDb) b)"
    "keeps sent (storeHandledSystemEvents (SystemEventFilePersistence checkpointDb handledDb) es)"
  using assms by (auto simp: keeps_sent_def SystemEventFilePersistence_def file_handledSystemEvents_def intro!: keeps_bind)

text \<open>An acknowledgement as handled comes from a handler that returned.\<close>

lemma handled_was_sent:
  assumes "handler_sends sent notice_of rs" "(rid, supports, h) \<in> set rs" "ack_status a = Handled"
    and "receiver_receive (Deduplicator_wrap (BaseReceiver rid supports h) es) e w = (Inr a, w')"
  shows "ack_receiverId a = rid \<and> notice_of rid (ack_systemEvent a) \<in> sent w'"
proof -
  have "receiver_receive (BaseReceiver rid supports h) e w = (Inr a, w')"
    using assms(3,4) by (auto simp: Deduplicator_receive split: if_splits)
  then have "h e w = (Inr (), w')" "ack_receiverId a = rid" "ack_systemEvent a = e"
    using assms(3) by (auto simp: BaseReceiver_def bind_io_Inr split: if_splits)
  then show ?thesis using assms(1,2) unfolding handler_sends_def by fastforce
qed

context event_store
begin

text \<open>After the check, the database gets at most the acknowledged events.\<close>

lemma finish_handled:
  assumes "Manager_finish P f t acks errs w = (Inr rep, w')"
  shows "handled_by w' = handled_by w \<or> handled_by w' = (\<lambda>rid. handled_by w rid @
    map ack_systemEvent (filter (\<lambda>a. ack_receiverId a = rid) (filter (\<lambda>a. ack_status a = Handled) acks)))"
proof -
  let ?h = "filter (\<lambda>ack. ack_status ack = Handled) acks"
  obtain es w1 es2 where st: "(if length ?h \<noteq> 0
         then record_error ''cannot store handled system events: '' (storeHandledSystemEvents P (groupByReceiver ?h)) errs
         else return_io errs) w = (Inr es, w1)"
    and up: "(if length es = 0 then record_error ''cannot update checkpoint block: '' (updateCheckpointBlock P t) es
         else return_io es) w1 = (Inr es2, w')"
    using assms unfolding Manager_finish_def Let_def bind_io_Inr by auto
  have "handled_by w' = handled_by w1"
  proof (cases "length es = 0")
    case True
    obtain u where "updateCheckpointBlock P t w1 = (u, w')"
      using record_error_runs [of "''cannot update checkpoint block: ''" "updateCheckpointBlock P t" es w1] up True by auto
    then show ?thesis using write_checkpoint by simp
  qed (use up in simp)
  moreover have "handled_by w1 = handled_by w \<or> handled_by w1 = (\<lambda>rid. handled_by w rid @
    map ack_systemEvent (filter (\<lambda>a. ack_receiverId a = rid) ?h))"
  proof (cases "length ?h = 0")
    case False
    obtain u where "storeHandledSystemEvents P (groupByReceiver ?h) w = (u, w1)"
      using record_error_runs [of "''cannot store handled system events: ''" "storeHandledSystemEvents P (groupByReceiver ?h)" errs w]
        st False by auto
    then show ?thesis using write_handled [of "groupByReceiver ?h" w u w1] by (cases u) (simp_all add: events_of_group)
  qed (use st in simp)
  ultimately show ?thesis by simp
qed

end

lemma keeps_finish:
  assumes "keeps sent (updateCheckpointBlock P t)" "\<And>es. keeps sent (storeHandledSystemEvents P es)"
  shows "keeps sent (Manager_finish P f t acks errs)"
proof -
  have "keeps sent (record_error p m es)" if "keeps sent m" for p m es
    unfolding record_error_def using that by (intro keeps_catch keeps_bind) auto
  then show ?thesis using assms unfolding Manager_finish_def Let_def by (intro keeps_bind) auto
qed

text \<open>A run that ends with a report, of a success or a failure, keeps the invariant.\<close>

lemma run_sends:
  assumes db: "event_database checkpointDb lookc handledDb lookh"
    and out: "outside_database lookc lookh monitors (map (\<lambda>(rid, supports, h). BaseReceiver rid supports h) rs) latestBlock"
    and k: "keeps_sent sent monitors checkpointDb handledDb latestBlock" "handler_sends sent notice_of rs"
    and run: "Manager_run monitors (map (\<lambda>(rid, supports, h). BaseReceiver rid supports h) rs)
      (SystemEventFilePersistence checkpointDb handledDb) latestBlock w = (Inr rep, w')"
    and inv: "all_sent sent notice_of (fst ` set rs) lookh w"
  shows "all_sent sent notice_of (fst ` set rs) lookh w'"
proof -
  let ?R = "map (\<lambda>(rid, supports, h). BaseReceiver rid supports h) rs"
    and ?P = "SystemEventFilePersistence checkpointDb handledDb"
  note st = file_store [OF db] and kp = keeps_persistence [OF k(1)]
  note out' = out [unfolded outside_database_def]
  have base: "keeps sent (receiver_receive r e)" if "r \<in> set ?R" for r e
    using that k(2) by (fastforce simp: handler_sends_def BaseReceiver_def intro!: keeps_bind)
  obtain c0 w1 t w2 acks errs w3 where c: "checkpointBlock ?P w = (Inr c0, w1)" and lb: "latestBlock w1 = (Inr t, w2)"
    and ch: "Manager_check monitors ?R ?P (window_start c0 t) t w2 = (Inr (acks, errs), w3)"
    and fin: "Manager_finish ?P (window_start c0 t) t acks errs w3 = (Inr rep, w')"
    using run unfolding Manager_run_def Let_def bind_io_Inr by auto
  have sends: "sent w2 \<subseteq> sent w3 \<and> (\<forall>a \<in> set acks. \<exists>r \<in> set ?R. \<exists>es e w4 w5.
     receiver_receive (Deduplicator_wrap r es) e w4 = (Inr a, w5) \<and> sent w5 \<subseteq> sent w3)"
    by (rule check_sends [OF _ base kp(2) ch]) (use k(1) in \<open>simp_all add: keeps_sent_def\<close>)
  have s: "sent w \<subseteq> sent w1" "sent w1 \<subseteq> sent w2" "sent w3 \<subseteq> sent w'"
    using keepsD [OF kp(1) c] keepsD [of sent latestBlock w1, OF _ lb] k(1) keepsD [OF keeps_finish [OF kp(3,4)] fin]
    by (auto simp: keeps_sent_def)
  have h: "handled_in lookh w3 = handled_in lookh w"
    using event_store.check_delivers [OF st conjunct1 [OF out'] conjunct1 [OF conjunct2 [OF out']] ch]
      leavesD [of _ _ latestBlock w1, OF conjunct2 [OF conjunct2 [OF out']] lb] event_store.read_checkpoint [OF st c] by simp
  have new: "notice_of rid (ack_systemEvent a) \<in> sent w'"
    if "a \<in> set acks" "ack_status a = Handled" "ack_receiverId a = rid" for a rid
  proof -
    obtain r es e w4 w5 where r: "r \<in> set ?R" "receiver_receive (Deduplicator_wrap r es) e w4 = (Inr a, w5)" "sent w5 \<subseteq> sent w3"
      using sends \<open>a \<in> set acks\<close> by blast
    obtain rid' supports h where "(rid', supports, h) \<in> set rs" "r = BaseReceiver rid' supports h" using r(1) by auto
    then show ?thesis using handled_was_sent [OF k(2) _ that(2)] r(2,3) s(3) that(3) by blast
  qed
  have "handled_in lookh w' = handled_in lookh w \<or> handled_in lookh w' = (\<lambda>rid. handled_in lookh w rid @
    map ack_systemEvent (filter (\<lambda>a. ack_receiverId a = rid) (filter (\<lambda>a. ack_status a = Handled) acks)))"
    using event_store.finish_handled [OF st fin] unfolding h .
  moreover have "sent w \<subseteq> sent w'" using s sends by blast
  ultimately show ?thesis using inv new by (fastforce simp: all_sent_def)
qed

end
