(* ===== verification/ChainMonitors.thy ===== *)
theory ChainMonitors
  imports SystemEvents
begin

section \<open>The monitors of deposits, redemptions, supply and wallets (monitoring/src)\<close>

text \<open>
  What each monitor reads from the contracts over a window of blocks and which system events it
  makes of it, with the settings of \<open>context.ts\<close> and the links of \<open>block-explorer.ts\<close>. The
  Ethereum node is an operation \<open>getBlock\<close>; the texts written to the console are left out.
\<close>

subsection \<open>Settings (context.ts)\<close>

datatype Environment = EnvMainnet | EnvTestnet

definition resolveEnvironment :: "string option \<Rightarrow> Environment res" where
  "resolveEnvironment ENVIRONMENT =
     (if ENVIRONMENT = Some ''mainnet'' then Inr EnvMainnet
      else if ENVIRONMENT = Some ''testnet'' then Inr EnvTestnet
      else Inl (Error (''unknown environment; ENVIRONMENT env variable must be either '' @
        ''[mainnet] or [testnet]'')))"

text \<open>A setting that is unset or empty is false in a condition.\<close>

fun is_set :: "string option \<Rightarrow> bool" where
  "is_set None = False"
| "is_set (Some s) = (s \<noteq> [])"

definition resolveEthereumUrl :: "string option \<Rightarrow> string res" where
  "resolveEthereumUrl ETHEREUM_URL =
     (if \<not> is_set ETHEREUM_URL then Inl (Error ''ETHEREUM_URL env variable not set'') else Inr (the ETHEREUM_URL))"

definition resolveElectrumUrl :: "string option \<Rightarrow> string res" where
  "resolveElectrumUrl ELECTRUM_URL =
     (if \<not> is_set ELECTRUM_URL then Inl (Error ''ELECTRUM_URL env variable not set'') else Inr (the ELECTRUM_URL))"

record process_env =
  ENVIRONMENT :: "string option"
  ETHEREUM_URL :: "string option"
  ELECTRUM_URL :: "string option"
  LARGE_DEPOSIT_THRESHOLD_SAT :: "string option"
  LARGE_REDEMPTION_THRESHOLD_SAT :: "string option"
  DATA_DIR_PATH :: "string option"
  SENTRY_DSN :: "string option"
  DISCORD_WEBHOOK_URL :: "string option"

datatype threshold = ThresholdText string | ThresholdNumber int

record settings =
  ctx_environment :: Environment
  ctx_ethereumUrl :: string
  ctx_electrumUrl :: string
  largeDepositThresholdSat :: threshold
  largeRedemptionThresholdSat :: threshold
  dataDirPath :: string
  sentryDsn :: "string option"
  discordWebhookUrl :: "string option"

definition or_threshold :: "string option \<Rightarrow> threshold" where
  "or_threshold v = (case v of None \<Rightarrow> ThresholdNumber 1000000000 | Some s \<Rightarrow> ThresholdText s)"

definition make_context :: "process_env \<Rightarrow> settings res" where
  "make_context env =
     bind_res (resolveEnvironment (ENVIRONMENT env)) (\<lambda>environment.
     bind_res (resolveEthereumUrl (ETHEREUM_URL env)) (\<lambda>ethereumUrl.
     bind_res (resolveElectrumUrl (ELECTRUM_URL env)) (\<lambda>electrumUrl.
     Inr \<lparr>ctx_environment = environment, ctx_ethereumUrl = ethereumUrl, ctx_electrumUrl = electrumUrl,
       largeDepositThresholdSat = or_threshold (LARGE_DEPOSIT_THRESHOLD_SAT env),
       largeRedemptionThresholdSat = or_threshold (LARGE_REDEMPTION_THRESHOLD_SAT env),
       dataDirPath = (case DATA_DIR_PATH env of None \<Rightarrow> ''./data'' | Some p \<Rightarrow> p),
       sentryDsn = SENTRY_DSN env, discordWebhookUrl = DISCORD_WEBHOOK_URL env\<rparr>)))"

text \<open>\<open>BigNumber.from\<close> of a setting; the parser of a text is that of ethers, a parameter.\<close>

fun threshold_number :: "(string \<Rightarrow> int res) \<Rightarrow> threshold \<Rightarrow> int res" where
  "threshold_number parse (ThresholdText s) = parse s"
| "threshold_number parse (ThresholdNumber n) = bn_from_number n"

subsection \<open>Links (block-explorer.ts) and blocks (blocks.ts)\<close>

fun ethTxUrlPrefixMapping :: "Environment \<Rightarrow> string" where
  "ethTxUrlPrefixMapping EnvMainnet = ''https://etherscan.io/tx''"
| "ethTxUrlPrefixMapping EnvTestnet = ''https://sepolia.etherscan.io/tx''"

fun btcTxUrlPrefixMapping :: "Environment \<Rightarrow> string" where
  "btcTxUrlPrefixMapping EnvMainnet = ''https://mempool.space/tx''"
| "btcTxUrlPrefixMapping EnvTestnet = ''https://mempool.space/testnet/tx''"

definition createEthTxUrl :: "settings \<Rightarrow> Hex \<Rightarrow> string" where
  "createEthTxUrl ctx txHash = ethTxUrlPrefixMapping (ctx_environment ctx) @ ''/'' @ toPrefixedString txHash"

definition createBtcTxUrl :: "settings \<Rightarrow> BitcoinTxHash \<Rightarrow> string" where
  "createBtcTxUrl ctx txHash = btcTxUrlPrefixMapping (ctx_environment ctx) @ ''/'' @ toString txHash"

datatype block_tag = LatestTag | BlockTag int

record eth_block =
  eb_number :: int
  eb_timestamp :: int

text \<open>The provider answers \<open>null\<close> for a block it does not know.\<close>

definition blocks_latestBlock :: "(block_tag \<Rightarrow> ('w, eth_block option) io) \<Rightarrow> ('w, int) io" where
  "blocks_latestBlock getBlock = bind_io (getBlock LatestTag) (\<lambda>block.
     case block of None \<Rightarrow> throw_io (TypeError ''Cannot read properties of null (reading 'number')'')
     | Some b \<Rightarrow> return_io (eb_number b))"

definition blockTimestamp :: "(block_tag \<Rightarrow> ('w, eth_block option) io) \<Rightarrow> int \<Rightarrow> ('w, int) io" where
  "blockTimestamp getBlock blockNumber = bind_io (getBlock (BlockTag blockNumber)) (\<lambda>block.
     case block of None \<Rightarrow> throw_io (TypeError ''Cannot read properties of null (reading 'timestamp')'')
     | Some b \<Rightarrow> return_io (eb_timestamp b))"

subsection \<open>The deposit monitor (deposit-monitor.ts)\<close>

text \<open>\<open>(n / 100).toFixed(2)\<close>; exact for the amounts a 64-bit contract value can hold, where \<open>n\<close>
  is far below the numbers whose hundredths a double no longer separates.\<close>

definition fixed2 :: "int \<Rightarrow> string" where
  "fixed2 n = (if n < 0 then ''-'' else []) @ show_nat (nat \<bar>n\<bar> div 100) @ ''.'' @
     padStart 2 (CHR ''0'') (show_nat (nat \<bar>n\<bar> mod 100))"

definition satsToRoundedBTC :: "int \<Rightarrow> string res" where
  "satsToRoundedBTC sats =
     bind_res (bn_from_number 1000000) (\<lambda>d. bind_res (bn_div sats d) (\<lambda>q.
     bind_res (bn_toNumber q) (\<lambda>n. Inr (fixed2 n))))"

definition window :: "int \<Rightarrow> int \<Rightarrow> GetEventsOptions" where
  "window f t = \<lparr>fromBlock = Some f, toBlock = Some t, opt_retries = None, batchedQueryBlockInterval = None\<rparr>"

definition deposit_data :: "settings \<Rightarrow> DepositRevealedEvent \<Rightarrow> (string \<times> string) list res" where
  "deposit_data ctx chainEvent =
     bind_res (satsToRoundedBTC (dre_amount chainEvent)) (\<lambda>amountBTC.
     Inr [(''btcFundingTxHash'', toString (fundingTxHash chainEvent)),
       (''btcFundingTxHashURL'', createBtcTxUrl ctx (fundingTxHash chainEvent)),
       (''btcFundingOutputIndex'', show_int (fundingOutputIndex chainEvent)),
       (''amountBTC'', amountBTC),
       (''ethRevealTxHash'', toPrefixedString (ev_transactionHash chainEvent)),
       (''ethRevealTxHashURL'', createEthTxUrl ctx (ev_transactionHash chainEvent))])"

definition DepositRevealed :: "settings \<Rightarrow> DepositRevealedEvent \<Rightarrow> SystemEvent res" where
  "DepositRevealed ctx chainEvent = bind_res (deposit_data ctx chainEvent) (\<lambda>data.
     Inr \<lparr>se_title = ''Deposit revealed'', se_type = Informational, se_data = data,
       se_block = ev_blockNumber chainEvent\<rparr>)"

definition LargeDepositRevealed :: "settings \<Rightarrow> DepositRevealedEvent \<Rightarrow> SystemEvent res" where
  "LargeDepositRevealed ctx chainEvent = bind_res (deposit_data ctx chainEvent) (\<lambda>data.
     Inr \<lparr>se_title = ''Large deposit revealed'', se_type = Warning, se_data = data,
       se_block = ev_blockNumber chainEvent\<rparr>)"

text \<open>One round of the loops of the deposit and the redemption monitor: an event for every chain
  event, and a second one when its amount exceeds the threshold.\<close>

definition report_large ::
  "(string \<Rightarrow> int res) \<Rightarrow> threshold \<Rightarrow> ('e \<Rightarrow> int) \<Rightarrow> ('e \<Rightarrow> SystemEvent res) \<Rightarrow> ('e \<Rightarrow> SystemEvent res) \<Rightarrow> 'e \<Rightarrow> SystemEvent list res" where
  "report_large parse limit amount usual large chainEvent =
     bind_res (usual chainEvent) (\<lambda>se.
     bind_res (threshold_number parse limit) (\<lambda>l.
     if amount chainEvent > l then bind_res (large chainEvent) (\<lambda>se'. Inr [se, se']) else Inr [se]))"

definition DepositMonitor_check :: "(string \<Rightarrow> int res) \<Rightarrow> settings \<Rightarrow> 'w bridge \<Rightarrow> 'w monitor" where
  "DepositMonitor_check parse ctx bridge = (\<lambda>f t.
     bind_io (getDepositRevealedEvents bridge (window f t)) (\<lambda>chainEvents.
     lift_io (bind_res (map_res (report_large parse (largeDepositThresholdSat ctx) dre_amount
         (DepositRevealed ctx) (LargeDepositRevealed ctx)) chainEvents) (\<lambda>ses. Inr (concat ses)))))"

subsection \<open>The redemption monitor (redemption-monitor.ts)\<close>

definition redemptionRequestStaleBlocks :: int where
  "redemptionRequestStaleBlocks = (8 * 60 * 60) div 12"

definition redemption_data :: "settings \<Rightarrow> RedemptionRequestedEvent \<Rightarrow> (string \<times> string) list res" where
  "redemption_data ctx chainEvent =
     bind_res (satsToRoundedBTC (rre_requestedAmount chainEvent)) (\<lambda>amountBTC.
     Inr [(''walletPublicKeyHash'', toString (rre_walletPublicKeyHash chainEvent)),
       (''redeemerOutputScript'', toString (rre_redeemerOutputScript chainEvent)),
       (''requestedAmountBTC'', amountBTC),
       (''ethRequestTxHash'', toPrefixedString (ev_transactionHash chainEvent)),
       (''ethRequestTxHashURL'', createEthTxUrl ctx (ev_transactionHash chainEvent))])"

definition RedemptionRequested :: "settings \<Rightarrow> RedemptionRequestedEvent \<Rightarrow> SystemEvent res" where
  "RedemptionRequested ctx chainEvent = bind_res (redemption_data ctx chainEvent) (\<lambda>data.
     Inr \<lparr>se_title = ''Redemption requested'', se_type = Informational, se_data = data,
       se_block = ev_blockNumber chainEvent\<rparr>)"

definition LargeRedemptionRequested :: "settings \<Rightarrow> RedemptionRequestedEvent \<Rightarrow> SystemEvent res" where
  "LargeRedemptionRequested ctx chainEvent = bind_res (redemption_data ctx chainEvent) (\<lambda>data.
     Inr \<lparr>se_title = ''Large redemption requested'', se_type = Warning, se_data = data,
       se_block = ev_blockNumber chainEvent\<rparr>)"

definition StaleRedemption :: "settings \<Rightarrow> RedemptionRequestedEvent \<Rightarrow> SystemEvent res" where
  "StaleRedemption ctx chainEvent = bind_res (redemption_data ctx chainEvent) (\<lambda>data.
     Inr \<lparr>se_title = ''Stale redemption'', se_type = Warning, se_data = data,
       se_block = ev_blockNumber chainEvent\<rparr>)"

definition checkRequestedRedemptions :: "(string \<Rightarrow> int res) \<Rightarrow> settings \<Rightarrow> 'w bridge \<Rightarrow> 'w monitor" where
  "checkRequestedRedemptions parse ctx bridge = (\<lambda>f t.
     bind_io (getRedemptionRequestedEvents bridge (window f t)) (\<lambda>chainEvents.
     lift_io (bind_res (map_res (report_large parse (largeRedemptionThresholdSat ctx) rre_requestedAmount
         (RedemptionRequested ctx) (LargeRedemptionRequested ctx)) chainEvents) (\<lambda>ses. Inr (concat ses)))))"

definition rewindBlock :: "int \<Rightarrow> int \<Rightarrow> int" where
  "rewindBlock block shift = (if block - shift > 0 then block - shift else 0)"

definition is_stale :: "RedemptionRequest \<Rightarrow> int \<Rightarrow> bool" where
  "is_stale pendingRedemptionRequest chainEventTimestamp =
     (rr_requestedAt pendingRedemptionRequest \<noteq> 0 \<and>
      rr_requestedAt pendingRedemptionRequest = chainEventTimestamp)"

definition checkStaleRedemptions ::
  "(block_tag \<Rightarrow> ('w, eth_block option) io) \<Rightarrow> settings \<Rightarrow> 'w bridge \<Rightarrow> 'w monitor" where
  "checkStaleRedemptions getBlock ctx bridge = (\<lambda>f t.
     bind_io (getRedemptionRequestedEvents bridge
       (window (rewindBlock f redemptionRequestStaleBlocks) (rewindBlock t redemptionRequestStaleBlocks))) (\<lambda>chainEvents.
     bind_io (map_io (\<lambda>ce. blockTimestamp getBlock (ev_blockNumber ce)) chainEvents) (\<lambda>timestamps.
     bind_io (map_io (\<lambda>ce. pendingRedemptionsByWalletPKH bridge (rre_walletPublicKeyHash ce)
         (rre_redeemerOutputScript ce)) chainEvents) (\<lambda>requests.
     lift_io (map_res (\<lambda>(ce, _). StaleRedemption ctx ce)
       (filter (\<lambda>(_, request, timestamp). is_stale request timestamp) (zip chainEvents (zip requests timestamps))))))))"

definition RedemptionMonitor_check ::
  "(string \<Rightarrow> int res) \<Rightarrow> (block_tag \<Rightarrow> ('w, eth_block option) io) \<Rightarrow> settings \<Rightarrow> 'w bridge \<Rightarrow> 'w monitor" where
  "RedemptionMonitor_check parse getBlock ctx bridge = (\<lambda>f t.
     bind_io (checkRequestedRedemptions parse ctx bridge f t) (\<lambda>requested.
     bind_io (checkStaleRedemptions getBlock ctx bridge f t) (\<lambda>stale.
     return_io (requested @ stale))))"

subsection \<open>The supply monitor (supply-monitor.ts, file-persistence.ts)\<close>

definition totalSupplyBlockSpan :: int where
  "totalSupplyBlockSpan = (12 * 60 * 60) div 12"

definition totalSupplyChangeThreshold :: int where
  "totalSupplyChangeThreshold = 10"

definition HighTotalSupplyChange :: "int \<Rightarrow> int \<Rightarrow> int \<Rightarrow> int \<Rightarrow> int \<Rightarrow> SystemEvent" where
  "HighTotalSupplyChange difference change limit referenceBlock currentBlock =
     \<lparr>se_title = ''High TBTC token total supply change'', se_type = Critical,
      se_data = [(''change'', (if difference \<ge> 0 then ''+'' else ''-'') @ show_int change @ ''%''),
        (''threshold'', show_int limit @ ''%''),
        (''referenceBlock'', show_int referenceBlock)],
      se_block = currentBlock\<rparr>"

record 'w supply_persistence =
  lastHighTotalSupplyChangeBlock :: "('w, int) io"
  updateLastHighTotalSupplyChangeBlock :: "int \<Rightarrow> ('w, unit) io"

definition SupplyMonitorFilePersistence :: "('w, int) json_value \<Rightarrow> 'w supply_persistence" where
  "SupplyMonitorFilePersistence db =
     \<lparr>lastHighTotalSupplyChangeBlock =
        bind_io (jv_exists db) (\<lambda>ex. if \<not> ex then return_io 0 else jv_getObject db),
      updateLastHighTotalSupplyChangeBlock = jv_push db\<rparr>"

text \<open>The reference block and the threshold: half the threshold since an alert in the span.\<close>

definition supply_reference :: "int \<Rightarrow> int \<Rightarrow> int \<times> int" where
  "supply_reference currentBlock lastEventBlock =
     (let referenceBlock = (if currentBlock - totalSupplyBlockSpan > 0 then currentBlock - totalSupplyBlockSpan else 0) in
      if lastEventBlock > referenceBlock then (lastEventBlock, totalSupplyChangeThreshold div 2)
      else (referenceBlock, totalSupplyChangeThreshold))"

definition SupplyMonitor_check :: "'w tbtc_token \<Rightarrow> 'w supply_persistence \<Rightarrow> 'w monitor" where
  "SupplyMonitor_check tbtcToken P = (\<lambda>f t.
     let currentBlock = t in
     bind_io (lastHighTotalSupplyChangeBlock P) (\<lambda>lastEventBlock.
     let (referenceBlock, limit) = supply_reference currentBlock lastEventBlock in
     bind_io (totalSupply tbtcToken (Some referenceBlock)) (\<lambda>referenceSupply.
     bind_io (totalSupply tbtcToken (Some currentBlock)) (\<lambda>currentSupply.
     let difference = currentSupply - referenceSupply in
     bind_io (lift_io (bn_div (\<bar>difference\<bar> * 100) referenceSupply)) (\<lambda>change.
     if change \<ge> limit
     then bind_io (updateLastHighTotalSupplyChangeBlock P currentBlock) (\<lambda>_.
       return_io [HighTotalSupplyChange difference change limit referenceBlock currentBlock])
     else return_io [])))))"

subsection \<open>The wallet monitor (wallet-monitor.ts)\<close>

definition WalletRegistered :: "NewWalletRegisteredEvent \<Rightarrow> SystemEvent" where
  "WalletRegistered chainEvent = \<lparr>se_title = ''Wallet registered'', se_type = Informational,
     se_data = [(''ecdsaWalletID'', toPrefixedString (nw_ecdsaWalletID chainEvent)),
       (''walletPublicKeyHash'', toString (nw_walletPublicKeyHash chainEvent)),
       (''ethRegisterTxHash'', toPrefixedString (ev_transactionHash chainEvent))],
     se_block = ev_blockNumber chainEvent\<rparr>"

text \<open>\<open>toString\<close> of an array of numbers.\<close>

fun array_text :: "int list \<Rightarrow> string" where
  "array_text [] = []"
| "array_text [n] = show_int n"
| "array_text (n # m # ns) = show_int n @ '','' @ array_text (m # ns)"

definition DkgResultSubmitted :: "DkgResultSubmittedEvent \<Rightarrow> SystemEvent" where
  "DkgResultSubmitted chainEvent = (let result = dkgs_result chainEvent in
     \<lparr>se_title = ''DKG result submitted'', se_type = Informational,
      se_data = [(''resultHash'', toPrefixedString (dkgs_resultHash chainEvent)),
        (''seed'', toPrefixedString (dkgs_seed chainEvent)),
        (''submitterMemberIndex'', show_int (dkg_submitterMemberIndex result)),
        (''groupPubKey'', toPrefixedString (dkg_groupPubKey result)),
        (''misbehavedMembersIndices'', (let s = array_text (dkg_misbehavedMembersIndices result) in
           if s \<noteq> [] then s else ''none'')),
        (''signingMembersIndices'', array_text (dkg_signingMembersIndices result)),
        (''members'', array_text (dkg_members result)),
        (''membersHash'', toPrefixedString (dkg_membersHash result)),
        (''ethSubmitTxHash'', toPrefixedString (ev_transactionHash chainEvent))],
      se_block = ev_blockNumber chainEvent\<rparr>)"

definition DkgResultApproved :: "DkgResultApprovedEvent \<Rightarrow> SystemEvent" where
  "DkgResultApproved chainEvent = \<lparr>se_title = ''DKG result approved'', se_type = Informational,
     se_data = [(''resultHash'', toPrefixedString (dkga_resultHash chainEvent)),
       (''approver'', ''0x'' @ identifierHex (dkga_approver chainEvent)),
       (''ethApproveTxHash'', toPrefixedString (ev_transactionHash chainEvent))],
     se_block = ev_blockNumber chainEvent\<rparr>"

definition DkgResultChallenged :: "DkgResultChallengedEvent \<Rightarrow> SystemEvent" where
  "DkgResultChallenged chainEvent = \<lparr>se_title = ''DKG result challenged'', se_type = Critical,
     se_data = [(''resultHash'', toPrefixedString (dkgc_resultHash chainEvent)),
       (''challenger'', ''0x'' @ identifierHex (dkgc_challenger chainEvent)),
       (''reason'', dkgc_reason chainEvent),
       (''ethChallengeTxHash'', toPrefixedString (ev_transactionHash chainEvent))],
     se_block = ev_blockNumber chainEvent\<rparr>"

definition checkNewWallets :: "'w bridge \<Rightarrow> 'w monitor" where
  "checkNewWallets bridge = (\<lambda>f t. bind_io (getNewWalletRegisteredEvents bridge (window f t)) (\<lambda>evs.
     return_io (map WalletRegistered evs)))"

definition checkDkgSubmissions :: "'w wallet_registry \<Rightarrow> 'w monitor" where
  "checkDkgSubmissions walletRegistry = (\<lambda>f t. bind_io (getDkgResultSubmittedEvents walletRegistry (window f t)) (\<lambda>evs.
     return_io (map DkgResultSubmitted evs)))"

definition checkDkgApprovals :: "'w wallet_registry \<Rightarrow> 'w monitor" where
  "checkDkgApprovals walletRegistry = (\<lambda>f t. bind_io (getDkgResultApprovedEvents walletRegistry (window f t)) (\<lambda>evs.
     return_io (map DkgResultApproved evs)))"

definition checkDkgChallenges :: "'w wallet_registry \<Rightarrow> 'w monitor" where
  "checkDkgChallenges walletRegistry = (\<lambda>f t. bind_io (getDkgResultChallengedEvents walletRegistry (window f t)) (\<lambda>evs.
     return_io (map DkgResultChallenged evs)))"

definition WalletMonitor_check :: "'w bridge \<Rightarrow> 'w monitor" where
  "WalletMonitor_check bridge = (\<lambda>f t.
     bind_io (bridge_walletRegistry bridge) (\<lambda>walletRegistry.
     bind_io (checkNewWallets bridge f t) (\<lambda>wallets.
     bind_io (checkDkgSubmissions walletRegistry f t) (\<lambda>submissions.
     bind_io (checkDkgApprovals walletRegistry f t) (\<lambda>approvals.
     bind_io (checkDkgChallenges walletRegistry f t) (\<lambda>challenges.
     return_io (wallets @ submissions @ approvals @ challenges)))))))"

end
