(* ===== verification/MintingMonitor.thy ===== *)
theory MintingMonitor
  imports ChainMonitors
begin

section \<open>The minting monitor (monitoring/src/minting-monitor.ts)\<close>

text \<open>
  The monitor of optimistic minting: cancelled requests, requests made too early or for a
  transaction that cannot be read, requests and finalizations by a minter that was not
  designated, and deposits or requests nobody acted on in time. \<open>minters[index]\<close> of an empty
  list is \<open>undefined\<close>, here \<open>None\<close>.
\<close>

subsection \<open>Timeouts\<close>

definition satoshiMultiplier :: int where
  "satoshiMultiplier = 10 ^ 10"

definition mintingRequestTimeoutBlocks :: int where
  "mintingRequestTimeoutBlocks = 600"

text \<open>\<open>optimisticMintingDelay / 12 + 300\<close> need not be whole: the timeout is counted in twelfths of a
  block.\<close>

definition mintingFinalizationTimeoutTwelfths :: "int \<Rightarrow> int" where
  "mintingFinalizationTimeoutTwelfths delay = delay + 300 * 12"

subsection \<open>System events\<close>

definition amountSat_of :: "int \<Rightarrow> string res" where
  "amountSat_of amount = bind_res (bn_div amount satoshiMultiplier) (\<lambda>sat. Inr (show_int sat))"

definition OptimisticMintingCancelled :: "OptimisticMintingCancelledEvent \<Rightarrow> SystemEvent" where
  "OptimisticMintingCancelled chainEvent = \<lparr>se_title = ''Optimistic minting cancelled'', se_type = Warning,
     se_data = [(''guardian'', ''0x'' @ identifierHex (omce_guardian chainEvent)),
       (''depositKey'', toPrefixedString (omce_depositKey chainEvent)),
       (''ethCancelTxHash'', toPrefixedString (ev_transactionHash chainEvent))],
     se_block = ev_blockNumber chainEvent\<rparr>"

definition OptimisticMintingRequestedTooEarly :: "OptimisticMintingRequestedEvent \<Rightarrow> int \<Rightarrow> int \<Rightarrow> SystemEvent res" where
  "OptimisticMintingRequestedTooEarly chainEvent actual required =
     bind_res (amountSat_of (omre_amount chainEvent)) (\<lambda>amountSat.
     Inr \<lparr>se_title = ''Optimistic minting requested too early'', se_type = Critical,
       se_data = [(''minter'', ''0x'' @ identifierHex (omre_minter chainEvent)),
         (''depositKey'', toPrefixedString (omre_depositKey chainEvent)),
         (''depositor'', ''0x'' @ identifierHex (omre_depositor chainEvent)),
         (''amountSat'', amountSat),
         (''btcFundingTxHash'', toString (omre_fundingTxHash chainEvent)),
         (''btcFundingOutputIndex'', show_int (omre_fundingOutputIndex chainEvent)),
         (''btcFundingTxActualConfirmations'', show_int actual),
         (''btcFundingTxRequiredConfirmations'', show_int required),
         (''ethRequestTxHash'', toPrefixedString (ev_transactionHash chainEvent))],
       se_block = ev_blockNumber chainEvent\<rparr>)"

definition OptimisticMintingRequestedForUndeterminedBtcTx :: "OptimisticMintingRequestedEvent \<Rightarrow> string \<Rightarrow> SystemEvent res" where
  "OptimisticMintingRequestedForUndeterminedBtcTx chainEvent btcClientResponse =
     bind_res (amountSat_of (omre_amount chainEvent)) (\<lambda>amountSat.
     Inr \<lparr>se_title = ''Optimistic minting requested for undetermined Bitcoin transaction'', se_type = Critical,
       se_data = [(''minter'', ''0x'' @ identifierHex (omre_minter chainEvent)),
         (''depositKey'', toPrefixedString (omre_depositKey chainEvent)),
         (''depositor'', ''0x'' @ identifierHex (omre_depositor chainEvent)),
         (''amountSat'', amountSat),
         (''btcFundingTxHash'', toString (omre_fundingTxHash chainEvent)),
         (''btcFundingOutputIndex'', show_int (omre_fundingOutputIndex chainEvent)),
         (''btcClientResponse'', btcClientResponse),
         (''ethRequestTxHash'', toPrefixedString (ev_transactionHash chainEvent))],
       se_block = ev_blockNumber chainEvent\<rparr>)"

text \<open>The designated minter may be \<open>undefined\<close>: reading its identifier then throws.\<close>

definition minter_text :: "ChainIdentifier option \<Rightarrow> string res" where
  "minter_text m = (case m of
     None \<Rightarrow> Inl (TypeError ''Cannot read properties of undefined (reading 'identifierHex')'')
   | Some c \<Rightarrow> Inr (''0x'' @ identifierHex c))"

definition OptimisticMintingNotRequestedByDesignatedMinter ::
  "OptimisticMintingRequestedEvent \<Rightarrow> ChainIdentifier option \<Rightarrow> SystemEvent res" where
  "OptimisticMintingNotRequestedByDesignatedMinter chainEvent designatedMinter =
     bind_res (minter_text designatedMinter) (\<lambda>designated.
     bind_res (amountSat_of (omre_amount chainEvent)) (\<lambda>amountSat.
     Inr \<lparr>se_title = ''Optimistic minting not requested by designated minter'', se_type = Warning,
       se_data = [(''actualMinter'', ''0x'' @ identifierHex (omre_minter chainEvent)),
         (''designatedMinter'', designated),
         (''depositKey'', toPrefixedString (omre_depositKey chainEvent)),
         (''depositor'', ''0x'' @ identifierHex (omre_depositor chainEvent)),
         (''amountSat'', amountSat),
         (''btcFundingTxHash'', toString (omre_fundingTxHash chainEvent)),
         (''btcFundingOutputIndex'', show_int (omre_fundingOutputIndex chainEvent)),
         (''ethRequestTxHash'', toPrefixedString (ev_transactionHash chainEvent))],
       se_block = ev_blockNumber chainEvent\<rparr>))"

datatype designated_minter = UnknownMinter | DesignatedMinter "ChainIdentifier option"

definition OptimisticMintingNotFinalizedByDesignatedMinter ::
  "OptimisticMintingFinalizedEvent \<Rightarrow> designated_minter \<Rightarrow> string \<Rightarrow> SystemEvent res" where
  "OptimisticMintingNotFinalizedByDesignatedMinter chainEvent designatedMinter cause =
     bind_res (case designatedMinter of UnknownMinter \<Rightarrow> Inr ''unknown'' | DesignatedMinter m \<Rightarrow> minter_text m) (\<lambda>designated.
     Inr \<lparr>se_title = ''Optimistic minting not finalized by designated minter'', se_type = Warning,
       se_data = [(''actualMinter'', ''0x'' @ identifierHex (omfe_minter chainEvent)),
         (''designatedMinter'', designated),
         (''designatedMinterUnknownCause'', if designatedMinter = UnknownMinter then cause else ''n/a''),
         (''depositKey'', toPrefixedString (omfe_depositKey chainEvent)),
         (''depositor'', ''0x'' @ identifierHex (omfe_depositor chainEvent)),
         (''ethFinalizationTxHash'', toPrefixedString (ev_transactionHash chainEvent))],
       se_block = ev_blockNumber chainEvent\<rparr>)"

definition OptimisticMintingNotRequestedByAnyMinter :: "DepositRevealedEvent \<Rightarrow> SystemEvent" where
  "OptimisticMintingNotRequestedByAnyMinter chainEvent =
     \<lparr>se_title = ''Optimistic minting not requested by any minter'', se_type = Warning,
      se_data = [(''btcFundingTxHash'', toString (fundingTxHash chainEvent)),
        (''btcFundingOutputIndex'', show_int (fundingOutputIndex chainEvent)),
        (''amountSat'', show_int (dre_amount chainEvent)),
        (''ethRevealTxHash'', toPrefixedString (ev_transactionHash chainEvent))],
      se_block = ev_blockNumber chainEvent\<rparr>"

definition OptimisticMintingNotFinalizedByAnyMinter :: "OptimisticMintingRequestedEvent \<Rightarrow> SystemEvent" where
  "OptimisticMintingNotFinalizedByAnyMinter chainEvent =
     \<lparr>se_title = ''Optimistic minting not finalized by any minter'', se_type = Warning,
      se_data = [(''btcFundingTxHash'', toString (omre_fundingTxHash chainEvent)),
        (''btcFundingOutputIndex'', show_int (omre_fundingOutputIndex chainEvent)),
        (''amountSat'', show_int (omre_amount chainEvent)),
        (''ethRequestTxHash'', toPrefixedString (ev_transactionHash chainEvent))],
      se_block = ev_blockNumber chainEvent\<rparr>"

subsection \<open>The data a check works on\<close>

record ChainDataCache =
  mintingCancelledEvents :: "OptimisticMintingCancelledEvent list"
  mintingRequestedEvents :: "OptimisticMintingRequestedEvent list"
  mintingFinalizedEvents :: "OptimisticMintingFinalizedEvent list"
  cache_minters :: "ChainIdentifier list"
  cache_optimisticMintingDelay :: int

definition loadChainDataCache :: "'w tbtc_vault \<Rightarrow> int \<Rightarrow> int \<Rightarrow> ('w, ChainDataCache) io" where
  "loadChainDataCache vault f t =
     bind_io (getOptimisticMintingCancelledEvents vault (window f t)) (\<lambda>cancelled.
     bind_io (getOptimisticMintingRequestedEvents vault (Some (window f t)) []) (\<lambda>requested.
     bind_io (getOptimisticMintingFinalizedEvents vault (window f t)) (\<lambda>finalized.
     bind_io (getMinters vault) (\<lambda>minters.
     bind_io (optimisticMintingDelay vault) (\<lambda>delay.
     return_io \<lparr>mintingCancelledEvents = cancelled, mintingRequestedEvents = requested,
       mintingFinalizedEvents = finalized, cache_minters = minters, cache_optimisticMintingDelay = delay\<rparr>)))))"

definition checkMintingCancels :: "ChainDataCache \<Rightarrow> SystemEvent list" where
  "checkMintingCancels cache = map OptimisticMintingCancelled (mintingCancelledEvents cache)"

subsection \<open>Validity of requests\<close>

definition requiredConfirmations :: "int \<Rightarrow> int" where
  "requiredConfirmations amountSat =
     (if amountSat < 10000000 then 1 else if amountSat < 100000000 then 3 else 6)"

definition request_validity :: "OptimisticMintingRequestedEvent \<Rightarrow> int res \<Rightarrow> SystemEvent list res" where
  "request_validity ce confirmation = (case confirmation of
     Inr actualConfirmations \<Rightarrow>
       bind_res (bn_div (omre_amount ce) satoshiMultiplier) (\<lambda>sat.
       let required = requiredConfirmations sat in
       if actualConfirmations < required
       then bind_res (OptimisticMintingRequestedTooEarly ce actualConfirmations required) (\<lambda>se. Inr [se])
       else Inr [])
   | Inl reason \<Rightarrow> bind_res (OptimisticMintingRequestedForUndeterminedBtcTx ce (error_text reason)) (\<lambda>se. Inr [se]))"

definition checkMintingRequestsValidity :: "'w bitcoin_client \<Rightarrow> ChainDataCache \<Rightarrow> ('w, SystemEvent list) io" where
  "checkMintingRequestsValidity btcClient cache =
     bind_io (allSettled (map (\<lambda>ce. getTransactionConfirmations btcClient (omre_fundingTxHash ce))
       (mintingRequestedEvents cache))) (\<lambda>confirmations.
     lift_io (bind_res (map_res (\<lambda>(ce, c). request_validity ce c) (zip (mintingRequestedEvents cache) confirmations))
       (\<lambda>ses. Inr (concat ses))))"

subsection \<open>Designated minters\<close>

text \<open>\<open>s.slice(-1).charCodeAt(0)\<close> of an empty string is \<open>NaN\<close>, which \<open>^\<close> takes for zero.\<close>

definition last_code :: "string \<Rightarrow> nat" where
  "last_code s = (if s = [] then 0 else of_char (last s))"

definition code_xor :: "nat \<Rightarrow> nat \<Rightarrow> nat" where
  "code_xor a b = unat (semiring_bit_operations_class.xor (word_of_nat a :: 32 word) (word_of_nat b))"

definition getDesignatedMinter :: "ChainIdentifier list \<Rightarrow> ChainIdentifier \<Rightarrow> BitcoinTxHash \<Rightarrow> ChainIdentifier option" where
  "getDesignatedMinter minters depositor txHash =
     (let d = last_code (identifierHex depositor);
          f = last_code (toString txHash)
      in if minters = [] then None else Some (minters ! (code_xor d f mod length minters)))"

text \<open>\<open>minter.equals(designatedMinter)\<close>: Sei and StarkNet addresses test the class first.\<close>

definition minter_equals :: "ChainIdentifier \<Rightarrow> ChainIdentifier option \<Rightarrow> bool res" where
  "minter_equals minter designated = (case designated of
     Some c \<Rightarrow> Inr (chain_equals minter c)
   | None \<Rightarrow> (case minter of SeiAddress _ \<Rightarrow> Inr False | StarkNetAddress _ \<Rightarrow> Inr False
       | _ \<Rightarrow> Inl (TypeError ''Cannot read properties of undefined (reading 'identifierHex')'')))"

text \<open>\<open>filter\<close> with a predicate that may throw.\<close>

definition filter_res :: "('a \<Rightarrow> bool res) \<Rightarrow> 'a list \<Rightarrow> 'a list res" where
  "filter_res p xs = bind_res (map_res p xs) (\<lambda>bs. Inr (map fst (filter snd (zip xs bs))))"

definition checkDesignatedMintersRequests :: "ChainDataCache \<Rightarrow> SystemEvent list res" where
  "checkDesignatedMintersRequests cache =
     bind_res (filter_res (\<lambda>(mre, designated). bind_res (minter_equals (omre_minter mre) designated) (\<lambda>b. Inr (\<not> b)))
       (map (\<lambda>mre. (mre, getDesignatedMinter (cache_minters cache) (omre_depositor mre) (omre_fundingTxHash mre)))
         (mintingRequestedEvents cache)))
     (map_res (\<lambda>(mre, designated). OptimisticMintingNotRequestedByDesignatedMinter mre designated))"

text \<open>The request of a finalization. The text of several fetched events is a parameter: it depends
  on how the vault builds them.\<close>

definition enrichMintingFinalizedEvent ::
  "(OptimisticMintingRequestedEvent list \<Rightarrow> string) \<Rightarrow> 'w tbtc_vault \<Rightarrow> ChainDataCache \<Rightarrow> OptimisticMintingFinalizedEvent \<Rightarrow>
   ('w, OptimisticMintingFinalizedEvent \<times> designated_minter \<times> string) io" where
  "enrichMintingFinalizedEvent stringify vault cache mintingFinalizedEvent =
     catch_io (bind_io (getOptimisticMintingRequestedEvents vault None
         [None, Some (toPrefixedString (omfe_depositKey mintingFinalizedEvent)), None, None, None, None]) (\<lambda>evs.
       case evs of
         [mre] \<Rightarrow> return_io (mintingFinalizedEvent,
           DesignatedMinter (getDesignatedMinter (cache_minters cache) (omre_depositor mre) (omre_fundingTxHash mre)), [])
       | _ \<Rightarrow> return_io (mintingFinalizedEvent, UnknownMinter,
           ''cannot determine a single minting request event; fetched events are '' @ stringify evs)))
     (\<lambda>error. return_io (mintingFinalizedEvent, UnknownMinter,
       ''cannot fetch minting request events: '' @ error_text error))"

definition not_by_designated :: "OptimisticMintingFinalizedEvent \<times> designated_minter \<times> string \<Rightarrow> bool res" where
  "not_by_designated emfe = (case emfe of (mfe, designated, _) \<Rightarrow>
     (case designated of UnknownMinter \<Rightarrow> Inr True
      | DesignatedMinter m \<Rightarrow> bind_res (minter_equals (omfe_minter mfe) m) (\<lambda>b. Inr (\<not> b))))"

definition checkDesignatedMintersFinalizations ::
  "(OptimisticMintingRequestedEvent list \<Rightarrow> string) \<Rightarrow> 'w tbtc_vault \<Rightarrow> ChainDataCache \<Rightarrow> ('w, SystemEvent list) io" where
  "checkDesignatedMintersFinalizations stringify vault cache =
     bind_io (map_io (enrichMintingFinalizedEvent stringify vault cache) (mintingFinalizedEvents cache)) (\<lambda>enriched.
     lift_io (bind_res (filter_res not_by_designated enriched)
       (map_res (\<lambda>(mfe, designated, cause). OptimisticMintingNotFinalizedByDesignatedMinter mfe designated cause))))"

definition checkDesignatedMintersHealth ::
  "(OptimisticMintingRequestedEvent list \<Rightarrow> string) \<Rightarrow> 'w tbtc_vault \<Rightarrow> ChainDataCache \<Rightarrow> ('w, SystemEvent list) io" where
  "checkDesignatedMintersHealth stringify vault cache =
     bind_io (lift_io (checkDesignatedMintersRequests cache)) (\<lambda>requests.
     bind_io (checkDesignatedMintersFinalizations stringify vault cache) (\<lambda>finalizations.
     return_io (requests @ finalizations)))"

subsection \<open>Orphaned minting\<close>

definition request_missing :: "(OptimisticMintingRequest \<Rightarrow> int) \<Rightarrow> OptimisticMintingRequest res \<Rightarrow> bool" where
  "request_missing at request = (case request of Inl _ \<Rightarrow> True | Inr r \<Rightarrow> at r = 0)"

definition checkMintingNotRequested :: "'w bridge \<Rightarrow> 'w tbtc_vault \<Rightarrow> 'w monitor" where
  "checkMintingNotRequested bridge vault = (\<lambda>f t.
     bind_io (getDepositRevealedEvents bridge
       (window (rewindBlock f mintingRequestTimeoutBlocks) (rewindBlock t mintingRequestTimeoutBlocks))) (\<lambda>chainEvents.
     bind_io (allSettled (map (\<lambda>ce. optimisticMintingRequests vault (fundingTxHash ce) (fundingOutputIndex ce)) chainEvents))
       (\<lambda>requests.
     return_io (map (OptimisticMintingNotRequestedByAnyMinter \<circ> fst)
       (filter (\<lambda>(_, request). request_missing omr_requestedAt request) (zip chainEvents requests))))))"

text \<open>The window of the finalization check: a query with whole bounds when the shift leaves them
  whole, else the vault's answer to fractional ones, a parameter that gets them in twelfths.\<close>

definition finalization_query ::
  "'w tbtc_vault \<Rightarrow> (int \<Rightarrow> int \<Rightarrow> ('w, OptimisticMintingRequestedEvent list) io) \<Rightarrow> int \<Rightarrow> int \<Rightarrow> int \<Rightarrow>
   ('w, OptimisticMintingRequestedEvent list) io" where
  "finalization_query vault fractional delay f t =
     (let shift = mintingFinalizationTimeoutTwelfths delay;
          f12 = rewindBlock (12 * f) shift; t12 = rewindBlock (12 * t) shift
      in if f12 mod 12 = 0 \<and> t12 mod 12 = 0
         then getOptimisticMintingRequestedEvents vault (Some (window (f12 div 12) (t12 div 12))) []
         else fractional f12 t12)"

definition checkMintingNotFinalized ::
  "'w tbtc_vault \<Rightarrow> (int \<Rightarrow> int \<Rightarrow> ('w, OptimisticMintingRequestedEvent list) io) \<Rightarrow> ChainDataCache \<Rightarrow> 'w monitor" where
  "checkMintingNotFinalized vault fractional cache = (\<lambda>f t.
     bind_io (finalization_query vault fractional (cache_optimisticMintingDelay cache) f t) (\<lambda>chainEvents.
     bind_io (allSettled (map (\<lambda>ce. optimisticMintingRequests vault (omre_fundingTxHash ce) (omre_fundingOutputIndex ce))
       chainEvents)) (\<lambda>requests.
     return_io (map (OptimisticMintingNotFinalizedByAnyMinter \<circ> fst)
       (filter (\<lambda>(_, request). request_missing omr_finalizedAt request) (zip chainEvents requests))))))"

definition checkOrphanedMinting ::
  "'w bridge \<Rightarrow> 'w tbtc_vault \<Rightarrow> (int \<Rightarrow> int \<Rightarrow> ('w, OptimisticMintingRequestedEvent list) io) \<Rightarrow> ChainDataCache \<Rightarrow> 'w monitor" where
  "checkOrphanedMinting bridge vault fractional cache = (\<lambda>f t.
     bind_io (checkMintingNotRequested bridge vault f t) (\<lambda>notRequested.
     bind_io (checkMintingNotFinalized vault fractional cache f t) (\<lambda>notFinalized.
     return_io (notRequested @ notFinalized))))"

definition MintingMonitor_check ::
  "(OptimisticMintingRequestedEvent list \<Rightarrow> string) \<Rightarrow> (int \<Rightarrow> int \<Rightarrow> ('w, OptimisticMintingRequestedEvent list) io) \<Rightarrow>
   'w bridge \<Rightarrow> 'w tbtc_vault \<Rightarrow> 'w bitcoin_client \<Rightarrow> 'w monitor" where
  "MintingMonitor_check stringify fractional bridge vault btcClient = (\<lambda>f t.
     bind_io (loadChainDataCache vault f t) (\<lambda>cache.
     bind_io (checkMintingRequestsValidity btcClient cache) (\<lambda>validity.
     bind_io (checkDesignatedMintersHealth stringify vault cache) (\<lambda>health.
     bind_io (checkOrphanedMinting bridge vault fractional cache f t) (\<lambda>orphaned.
     return_io (checkMintingCancels cache @ validity @ health @ orphaned))))))"

end
