(* ===== verification/MonitorService.thy ===== *)
theory MonitorService
  imports Notices MintingMonitor
begin

section \<open>The monitoring service (monitoring/src/index.ts, discord-receiver.ts, sentry-receiver.ts)\<close>

text \<open>
  How the service is put together: the receivers post to Discord and to Sentry, the monitors
  are those of the deposits, the minting, the supply, the wallets and the redemptions. The
  lemmas say what each monitor finds; the first property follows an event from the chain
  through the monitor and the manager to the receiver.
\<close>

subsection \<open>Receivers\<close>

text \<open>\<open>post\<close> is the request axios makes, with the title and the fields of the embed.\<close>

definition Discord_handle :: "(string \<Rightarrow> string \<Rightarrow> (string \<times> string) list \<Rightarrow> ('w, unit) io) \<Rightarrow> string \<Rightarrow> SystemEvent \<Rightarrow> ('w, unit) io" where
  "Discord_handle post webhookUrl systemEvent =
     post webhookUrl (se_title systemEvent) (se_data systemEvent @ [(''block'', show_int (se_block systemEvent))])"

definition resolveSeverityLevel :: "SystemEventType \<Rightarrow> string res" where
  "resolveSeverityLevel t = (case t of
     Warning \<Rightarrow> Inr ''warning''
   | Critical \<Rightarrow> Inr ''fatal''
   | Informational \<Rightarrow> Inl (Error (''unsupported system event type: '' @ type_text t)))"

text \<open>\<open>capture\<close> sends a message with its extras and its level; \<open>digest64\<close> is the base64 text of
  SHA-256.\<close>

definition Sentry_handle ::
  "(string \<Rightarrow> string) \<Rightarrow> ((string \<times> string) list \<Rightarrow> int \<Rightarrow> string \<Rightarrow> string \<Rightarrow> ('w, unit) io) \<Rightarrow> SystemEvent \<Rightarrow> ('w, unit) io" where
  "Sentry_handle digest64 capture systemEvent =
     bind_io (lift_io (resolveSeverityLevel (se_type systemEvent))) (\<lambda>level.
     let hash = digest64 (systemEventKey systemEvent) in
     capture (se_data systemEvent) (se_block systemEvent) level (se_title systemEvent @ '' ['' @ hash @ '']''))"

subsection \<open>Setup\<close>

fun bitcoinEnvironmentMapping :: "Environment \<Rightarrow> BitcoinNetwork" where
  "bitcoinEnvironmentMapping EnvMainnet = Mainnet"
| "bitcoinEnvironmentMapping EnvTestnet = Testnet"

text \<open>The contracts are loaded by the library's entry point, an argument here.\<close>

definition setupSDK :: "settings \<Rightarrow> ('w, 'c) io \<Rightarrow> 'w bitcoin_client \<Rightarrow> ('w, 'c \<times> 'w bitcoin_client) io" where
  "setupSDK ctx loadEthereumCoreContracts btcClient =
     bind_io loadEthereumCoreContracts (\<lambda>tbtcContracts.
     bind_io (getNetwork btcClient) (\<lambda>network.
     if network \<noteq> bitcoinEnvironmentMapping (ctx_environment ctx) then throw_io (Error ''Bitcoin network mismatch'')
     else return_io (tbtcContracts, btcClient)))"

record 'w service =
  sv_parse :: "string \<Rightarrow> int res"
  sv_getBlock :: "block_tag \<Rightarrow> ('w, eth_block option) io"
  sv_bridge :: "'w bridge"
  sv_tbtcVault :: "'w tbtc_vault"
  sv_tbtcToken :: "'w tbtc_token"
  sv_btcClient :: "'w bitcoin_client"
  sv_stringify :: "OptimisticMintingRequestedEvent list \<Rightarrow> string"
  sv_fractional :: "int \<Rightarrow> int \<Rightarrow> ('w, OptimisticMintingRequestedEvent list) io"
  sv_supplyDb :: "('w, int) json_value"
  sv_post :: "string \<Rightarrow> string \<Rightarrow> (string \<times> string) list \<Rightarrow> ('w, unit) io"
  sv_digest64 :: "string \<Rightarrow> string"
  sv_capture :: "(string \<times> string) list \<Rightarrow> int \<Rightarrow> string \<Rightarrow> string \<Rightarrow> ('w, unit) io"

definition setup_monitors :: "settings \<Rightarrow> 'w service \<Rightarrow> 'w monitor list" where
  "setup_monitors ctx sv =
     [DepositMonitor_check (sv_parse sv) ctx (sv_bridge sv),
      MintingMonitor_check (sv_stringify sv) (sv_fractional sv) (sv_bridge sv) (sv_tbtcVault sv) (sv_btcClient sv),
      SupplyMonitor_check (sv_tbtcToken sv) (SupplyMonitorFilePersistence (sv_supplyDb sv)),
      WalletMonitor_check (sv_bridge sv),
      RedemptionMonitor_check (sv_parse sv) (sv_getBlock sv) ctx (sv_bridge sv)]"

definition setup_receivers :: "settings \<Rightarrow> 'w service \<Rightarrow> 'w event_receiver list" where
  "setup_receivers ctx sv =
     (if is_set (discordWebhookUrl ctx) then [DiscordReceiver (Discord_handle (sv_post sv) (the (discordWebhookUrl ctx)))] else []) @
     (if is_set (sentryDsn ctx) then [SentryReceiver (Sentry_handle (sv_digest64 sv) (sv_capture sv))] else [])"

definition service_trigger ::
  "settings \<Rightarrow> 'w service \<Rightarrow> ('w, int) json_value \<Rightarrow> ('w, handled_events) json_value \<Rightarrow> ('w, ManagerReport) io" where
  "service_trigger ctx sv checkpointDb handledDb =
     Manager_trigger (setup_monitors ctx sv) (setup_receivers ctx sv)
       (SystemEventFilePersistence checkpointDb handledDb) (blocks_latestBlock (sv_getBlock sv))"

subsection \<open>What the monitors find\<close>

lemma report_large_mem:
  assumes "report_large parse limit amount usual large ce = Inr ses"
  shows "(se \<in> set ses) = (usual ce = Inr se \<or> (\<exists>l. threshold_number parse limit = Inr l \<and> l < amount ce \<and> large ce = Inr se))"
  using assms by (auto simp: report_large_def res_simps split: if_splits)

lemma report_large_ok: "report_large parse limit amount usual large ce = Inr ses \<Longrightarrow> (\<exists>se. usual ce = Inr se) \<and>
    (\<forall>l. threshold_number parse limit = Inr l \<and> l < amount ce \<longrightarrow> (\<exists>se. large ce = Inr se))"
  by (auto simp: report_large_def res_simps split: if_splits)

text \<open>What the loop over the chain events reports.\<close>

lemma report_loop:
  assumes m: "map_res (report_large parse limit amount usual large) evs = Inr yss"
  shows report_usual: "ce \<in> set evs \<Longrightarrow> \<exists>se \<in> set (concat yss). usual ce = Inr se"
    and report_above: "ce \<in> set evs \<Longrightarrow> threshold_number parse limit = Inr l \<Longrightarrow> l < amount ce \<Longrightarrow>
      \<exists>se \<in> set (concat yss). large ce = Inr se"
    and report_sound: "se \<in> set (concat yss) \<Longrightarrow> \<exists>ce \<in> set evs. usual ce = Inr se \<or>
      (\<exists>l. threshold_number parse limit = Inr l \<and> l < amount ce \<and> large ce = Inr se)"
proof -
  assume c: "ce \<in> set evs"
  obtain ys where ys: "report_large parse limit amount usual large ce = Inr ys" "ys \<in> set yss"
    using map_res_mem[OF m c] by (elim exE conjE) (rule that)
  obtain se where se: "usual ce = Inr se" using report_large_ok[OF ys(1)] by (elim conjE exE) (rule that)
  have "se \<in> set ys" using report_large_mem[OF ys(1)] se by simp
  then show "\<exists>se \<in> set (concat yss). usual ce = Inr se" using se ys(2) by (intro bexI[of _ se]) auto
next
  assume c: "ce \<in> set evs" and l: "threshold_number parse limit = Inr l" "l < amount ce"
  obtain ys where ys: "report_large parse limit amount usual large ce = Inr ys" "ys \<in> set yss"
    using map_res_mem[OF m c] by (elim exE conjE) (rule that)
  obtain se where se: "large ce = Inr se" using report_large_ok[OF ys(1)] l by auto
  have "se \<in> set ys" using report_large_mem[OF ys(1)] se l by simp
  then show "\<exists>se \<in> set (concat yss). large ce = Inr se" using se ys(2) by (intro bexI[of _ se]) auto
next
  assume "se \<in> set (concat yss)"
  then have "\<exists>ce \<in> set evs. \<exists>ys. report_large parse limit amount usual large ce = Inr ys \<and> se \<in> set ys"
    by (rule iffD1[OF map_res_concat_mem[OF m]])
  then obtain ce ys where c: "ce \<in> set evs" "report_large parse limit amount usual large ce = Inr ys" "se \<in> set ys"
    by (elim bexE exE conjE) (rule that)
  then show "\<exists>ce \<in> set evs. usual ce = Inr se \<or> (\<exists>l. threshold_number parse limit = Inr l \<and> l < amount ce \<and> large ce = Inr se)"
    using report_large_mem[OF c(2)] by (intro bexI[of _ ce]) simp_all
qed

lemma deposit_check:
  assumes "DepositMonitor_check parse ctx bridge f t w = (Inr ses, w')"
  shows "\<exists>evs yss. getDepositRevealedEvents bridge (window f t) w = (Inr evs, w') \<and> ses = concat yss \<and>
     map_res (report_large parse (largeDepositThresholdSat ctx) dre_amount (DepositRevealed ctx) (LargeDepositRevealed ctx)) evs = Inr yss"
  using assms by (auto simp: DepositMonitor_check_def bind_io_Inr res_simps)

definition receiver_specs :: "settings \<Rightarrow> 'w service \<Rightarrow> (string \<times> (SystemEvent \<Rightarrow> bool) \<times> (SystemEvent \<Rightarrow> ('w, unit) io)) list" where
  "receiver_specs ctx sv =
     (if is_set (discordWebhookUrl ctx) then [(''Discord'', Discord_isSupportedSystemEvent,
        Discord_handle (sv_post sv) (the (discordWebhookUrl ctx)))] else []) @
     (if is_set (sentryDsn ctx) then [(''Sentry'', Sentry_isSupportedSystemEvent,
        Sentry_handle (sv_digest64 sv) (sv_capture sv))] else [])"

lemma setup_receivers_base: "setup_receivers ctx sv = map (\<lambda>(rid, supports, h). BaseReceiver rid supports h) (receiver_specs ctx sv)"
  by (simp add: setup_receivers_def receiver_specs_def DiscordReceiver_def SentryReceiver_def)

lemma deposit_event_types:
  "DepositRevealed ctx ce = Inr se \<Longrightarrow> se_type se = Informational"
  "LargeDepositRevealed ctx ce = Inr se \<Longrightarrow> se_type se = Warning"
  by (auto simp: DepositRevealed_def LargeDepositRevealed_def res_simps)

text \<open>What the two receivers send for an event.\<close>

definition Discord_notice :: "settings \<Rightarrow> SystemEvent \<Rightarrow> notice" where
  "Discord_notice ctx e = DiscordNotice (the (discordWebhookUrl ctx)) (se_title e)
     (se_data e @ [(''block'', show_int (se_block e))])"

definition Sentry_notice :: "'w service \<Rightarrow> SystemEvent \<Rightarrow> notice" where
  "Sentry_notice sv e = SentryNotice (se_data e) (se_block e) (if se_type e = Critical then ''fatal'' else ''warning'')
     (se_title e @ '' ['' @ sv_digest64 sv (systemEventKey e) @ '']'')"

definition notice_of :: "settings \<Rightarrow> 'w service \<Rightarrow> string \<Rightarrow> SystemEvent \<Rightarrow> notice" where
  "notice_of ctx sv rid e = (if rid = ''Discord'' then Discord_notice ctx e else Sentry_notice sv e)"

text \<open>A request that axios resolves has been posted, and a message that Sentry captures has been
  captured; nothing takes a notice back.\<close>

definition posts :: "('w \<Rightarrow> notice set) \<Rightarrow> 'w service \<Rightarrow> bool" where
  "posts sent sv =
     ((\<forall>url title fields. keeps sent (sv_post sv url title fields) \<and>
         (\<forall>w w'. sv_post sv url title fields w = (Inr (), w') \<longrightarrow> DiscordNotice url title fields \<in> sent w')) \<and>
      (\<forall>extras block level message. keeps sent (sv_capture sv extras block level message) \<and>
         (\<forall>w w'. sv_capture sv extras block level message w = (Inr (), w') \<longrightarrow>
            SentryNotice extras block level message \<in> sent w')))"

lemma service_handlers_send:
  assumes "posts sent sv"
  shows "handler_sends sent (notice_of ctx sv) (receiver_specs ctx sv)"
proof -
  have d: "keeps sent (Discord_handle (sv_post sv) url e)" for url e
    using assms by (simp add: posts_def Discord_handle_def)
  have s: "keeps sent (Sentry_handle (sv_digest64 sv) (sv_capture sv) e)" for e
    using assms unfolding Sentry_handle_def Let_def by (intro keeps_bind) (simp_all add: posts_def)
  have dn: "Discord_notice ctx e \<in> sent w'"
    if "Discord_handle (sv_post sv) (the (discordWebhookUrl ctx)) e w = (Inr (), w')" for e w w'
    using assms that unfolding posts_def Discord_handle_def Discord_notice_def by blast
  have sn: "Sentry_notice sv e \<in> sent w'" if "Sentry_handle (sv_digest64 sv) (sv_capture sv) e w = (Inr (), w')" for e w w'
  proof -
    have "sv_capture sv (se_data e) (se_block e) (if se_type e = Critical then ''fatal'' else ''warning'')
        (se_title e @ '' ['' @ sv_digest64 sv (systemEventKey e) @ '']'') w = (Inr (), w')"
      using that by (cases "se_type e") (simp_all add: Sentry_handle_def resolveSeverityLevel_def Let_def bind_io_def)
    then show ?thesis using assms unfolding posts_def Sentry_notice_def by blast
  qed
  show ?thesis using d s dn sn by (auto simp: handler_sends_def receiver_specs_def notice_of_def)
qed

text \<open>C17: From the chain to Discord and Sentry. After a successful run of the service, for every deposit
  revealed in the window of the run, the notice of it with its title, fields and block has been
  posted to the Discord webhook, when one is configured, and for every deposit above the
  threshold the message of it, with level and hash, has been captured by Sentry, when Sentry is configured; both are
  stored as handled. The window ends at the checkpoint the run leaves. What the database has as handled
  has been sent, before the run and after it.\<close>

theorem deposits_reported:
  assumes db: "event_database checkpointDb lookc handledDb lookh"
    and out: "outside_database lookc lookh (setup_monitors ctx sv) (setup_receivers ctx sv) (blocks_latestBlock (sv_getBlock sv))"
    and sends: "posts sent sv" "keeps_sent sent (setup_monitors ctx sv) checkpointDb handledDb (blocks_latestBlock (sv_getBlock sv))"
    and inv: "all_sent sent (notice_of ctx sv) (set (map receiver_id (setup_receivers ctx sv))) lookh w"
    and run: "service_trigger ctx sv checkpointDb handledDb w = (Inr rep, w')"
    and ok: "rep_status rep = Success"
    and limit: "threshold_number (sv_parse sv) (largeDepositThresholdSat ctx) = Inr limit"
  shows "all_sent sent (notice_of ctx sv) (set (map receiver_id (setup_receivers ctx sv))) lookh w' \<and>
    (\<exists>f w1 w2 evs. rep_fromBlock rep = Some f \<and> f = window_start (checkpoint_in lookc w) (checkpoint_in lookc w') \<and>
     getDepositRevealedEvents (sv_bridge sv) (window f (checkpoint_in lookc w')) w1 = (Inr evs, w2) \<and>
     (\<forall>ce \<in> set evs.
        (is_set (discordWebhookUrl ctx) \<longrightarrow>
           (\<exists>se \<in> set (handled_in lookh w' ''Discord''). DepositRevealed ctx ce = Inr se \<and> Discord_notice ctx se \<in> sent w')) \<and>
        (limit < dre_amount ce \<longrightarrow> is_set (sentryDsn ctx) \<longrightarrow>
           (\<exists>se \<in> set (handled_in lookh w' ''Sentry''). LargeDepositRevealed ctx ce = Inr se \<and> Sentry_notice sv se \<in> sent w'))))"
proof -
  let ?d = "DepositMonitor_check (sv_parse sv) ctx (sv_bridge sv)"
  obtain f t where ft: "rep_fromBlock rep = Some f" "f = window_start (checkpoint_in lookc w) t" "checkpoint_in lookc w' = t"
    and all: "\<forall>m \<in> set (setup_monitors ctx sv). \<exists>w1 w2 es. m f t w1 = (Inr es, w2) \<and>
        (\<forall>e \<in> set es. \<forall>(rid, supports, h) \<in> set (receiver_specs ctx sv). supports e \<longrightarrow> e \<in> set (handled_in lookh w' rid))"
    using run_delivers[OF db out[unfolded setup_receivers_base] run[unfolded service_trigger_def setup_receivers_base] ok]
    by (elim exE conjE) (rule that)
  have ids: "set (map receiver_id (setup_receivers ctx sv)) = fst ` set (receiver_specs ctx sv)"
    unfolding setup_receivers_base set_map image_image by (rule image_cong) (auto simp: receiver_id_BaseReceiver)
  have "Manager_run (setup_monitors ctx sv) (map (\<lambda>(rid, supports, h). BaseReceiver rid supports h) (receiver_specs ctx sv))
      (SystemEventFilePersistence checkpointDb handledDb) (blocks_latestBlock (sv_getBlock sv)) w = (Inr rep, w')"
    using run ok unfolding service_trigger_def setup_receivers_base Manager_trigger_def
    by (auto simp: catch_io_def split: prod.splits sum.splits)
  from run_sends[OF db out[unfolded setup_receivers_base] sends(2) service_handlers_send[OF sends(1)] this inv[unfolded ids]]
  have cached: "all_sent sent (notice_of ctx sv) (fst ` set (receiver_specs ctx sv)) lookh w'" .
  have "?d \<in> set (setup_monitors ctx sv)" by (simp add: setup_monitors_def)
  then obtain w1 w2 es where es: "?d f t w1 = (Inr es, w2)"
    and h: "\<forall>e \<in> set es. \<forall>(rid, supports, h) \<in> set (receiver_specs ctx sv). supports e \<longrightarrow> e \<in> set (handled_in lookh w' rid)"
    using all by blast
  have discord: "se \<in> set (handled_in lookh w' ''Discord'') \<and> Discord_notice ctx se \<in> sent w'"
    if "se \<in> set es" "se_type se = Informational" "is_set (discordWebhookUrl ctx)" for se
  proof -
    have "se \<in> set (handled_in lookh w' ''Discord'')"
      using h that by (fastforce simp: receiver_specs_def Discord_isSupportedSystemEvent_def)
    then show ?thesis using cached that(3) by (fastforce simp: all_sent_def receiver_specs_def notice_of_def)
  qed
  have sentry: "se \<in> set (handled_in lookh w' ''Sentry'') \<and> Sentry_notice sv se \<in> sent w'"
    if "se \<in> set es" "se_type se = Warning" "is_set (sentryDsn ctx)" for se
  proof -
    have "se \<in> set (handled_in lookh w' ''Sentry'')"
      using h that by (fastforce simp: receiver_specs_def Sentry_isSupportedSystemEvent_def)
    then show ?thesis using cached that(3) by (fastforce simp: all_sent_def receiver_specs_def notice_of_def)
  qed
  obtain evs yss where evs: "getDepositRevealedEvents (sv_bridge sv) (window f t) w1 = (Inr evs, w2)" and yss: "es = concat yss"
    and loop: "map_res (report_large (sv_parse sv) (largeDepositThresholdSat ctx) dre_amount (DepositRevealed ctx) (LargeDepositRevealed ctx)) evs = Inr yss"
    using deposit_check[OF es] by (elim exE conjE) (rule that)
  have "\<exists>se \<in> set (handled_in lookh w' ''Discord''). DepositRevealed ctx ce = Inr se \<and> Discord_notice ctx se \<in> sent w'"
    if "ce \<in> set evs" "is_set (discordWebhookUrl ctx)" for ce
    using report_usual[OF loop that(1)] discord that(2) deposit_event_types(1) unfolding yss by fast
  moreover have "\<exists>se \<in> set (handled_in lookh w' ''Sentry''). LargeDepositRevealed ctx ce = Inr se \<and> Sentry_notice sv se \<in> sent w'"
    if "ce \<in> set evs" "limit < dre_amount ce" "is_set (sentryDsn ctx)" for ce
    using report_above[OF loop that(1) limit that(2)] sentry that(3) deposit_event_types(2) unfolding yss by fast
  ultimately show ?thesis using ft evs cached unfolding ids by (intro conjI exI[of _ f] exI[of _ w1] exI[of _ w2] exI[of _ evs]) simp_all
qed

subsection \<open>A service for the witnesses\<close>

text \<open>One deposit of 20 BTC was revealed at block 95; nothing else happened.\<close>

definition sample_deposit_event :: DepositRevealedEvent where
  "sample_deposit_event = \<lparr>ev_blockNumber = 95, ev_blockHash = Hex [9], ev_transactionHash = Hex [7],
     dre_receipt = \<lparr>dr_depositor = sample_owner, dr_blindingFactor = Hex [1], dr_walletPublicKeyHash = Hex [2],
       dr_refundPublicKeyHash = Hex [3], dr_refundLocktime = Hex [4], dr_extraData = None\<rparr>,
     dre_amount = 2000000000, dre_vault = None, fundingTxHash = Hex [5], fundingOutputIndex = 0\<rparr>"

definition sample_registry :: "'w wallet_registry" where
  "sample_registry = \<lparr>registry_getChainIdentifier = sample_owner, getWalletPublicKey = (\<lambda>h. return_io h),
     getDkgResultSubmittedEvents = (\<lambda>_. return_io []), getDkgResultApprovedEvents = (\<lambda>_. return_io []),
     getDkgResultChallengedEvents = (\<lambda>_. return_io [])\<rparr>"

definition sample_vault :: "'w tbtc_vault" where
  "sample_vault = \<lparr>vault_getChainIdentifier = sample_owner, optimisticMintingDelay = return_io 10800,
     getMinters = return_io [sample_owner], isMinter = (\<lambda>_. return_io True), isGuardian = (\<lambda>_. return_io False),
     requestOptimisticMint = (\<lambda>_ _. return_io (Hex [1])), cancelOptimisticMint = (\<lambda>_ _. return_io (Hex [1])),
     finalizeOptimisticMint = (\<lambda>_ _. return_io (Hex [1])),
     optimisticMintingRequests = (\<lambda>_ _. return_io \<lparr>omr_requestedAt = 5, omr_finalizedAt = 6\<rparr>),
     getOptimisticMintingRequestedEvents = (\<lambda>_ _. return_io []),
     getOptimisticMintingCancelledEvents = (\<lambda>_. return_io []),
     getOptimisticMintingFinalizedEvents = (\<lambda>_. return_io [])\<rparr>"

definition sample_lastAlert :: "(monitor_world, int) json_value" where
  "sample_lastAlert = field_value mw_lastAlert (\<lambda>b. mw_lastAlert_update (\<lambda>_. Some b))"

definition sample_getBlock :: "block_tag \<Rightarrow> (monitor_world, eth_block option) io" where
  "sample_getBlock tag = (\<lambda>w. (Inr (Some \<lparr>eb_number = (case tag of LatestTag \<Rightarrow> max 1 (mw_latestBlock w) | BlockTag b \<Rightarrow> b),
     eb_timestamp = 1700000000\<rparr>), w))"

definition sample_btc :: "monitor_world bitcoin_client" where
  "sample_btc = \<lparr>getNetwork = return_io Testnet,
     findAllUnspentTransactionOutputs = (\<lambda>_. return_io []),
     getTransactionHistory = (\<lambda>_ _. return_io []),
     getTransaction = (\<lambda>_. throw_io (Error ''unknown'')),
     getRawTransaction = (\<lambda>_. throw_io (Error ''unknown'')),
     getTransactionConfirmations = (\<lambda>_. return_io 2),
     getTxHashesForPublicKeyHash = (\<lambda>_. return_io []),
     latestBlockHeight = return_io 100,
     getHeadersChain = (\<lambda>_ _. throw_io (Error ''unknown'')),
     getTransactionMerkle = (\<lambda>_ _. throw_io (Error ''unknown'')),
     broadcast = (\<lambda>_. return_io ()),
     getCoinbaseTxHash = (\<lambda>_. throw_io (Error ''unknown''))\<rparr>"

definition sample_service :: "monitor_world service" where
  "sample_service = \<lparr>sv_parse = (\<lambda>_. Inl (Error ''invalid'')), sv_getBlock = sample_getBlock,
     sv_bridge = sample_bridge\<lparr>getDepositRevealedEvents := (\<lambda>_. return_io [sample_deposit_event]),
       bridge_walletRegistry := return_io sample_registry\<rparr>,
     sv_tbtcVault = sample_vault, sv_tbtcToken = sample_token\<lparr>totalSupply := (\<lambda>_. return_io 1000)\<rparr>,
     sv_btcClient = sample_btc, sv_stringify = (\<lambda>_. []), sv_fractional = (\<lambda>_ _. throw_io (Error ''fraction'')),
     sv_supplyDb = sample_lastAlert, sv_post = (\<lambda>u t fs w. (Inr (), w\<lparr>mw_sent := DiscordNotice u t fs # mw_sent w\<rparr>)), sv_digest64 = (\<lambda>_. []),
     sv_capture = (\<lambda>d b l m w. (Inr (), w\<lparr>mw_sent := SentryNotice d b l m # mw_sent w\<rparr>))\<rparr>"

definition sample_settings :: settings where
  "sample_settings = \<lparr>ctx_environment = EnvTestnet, ctx_ethereumUrl = ''e'', ctx_electrumUrl = ''b'',
     largeDepositThresholdSat = ThresholdNumber 1000000000, largeRedemptionThresholdSat = ThresholdNumber 1000000000,
     dataDirPath = ''d'', sentryDsn = Some ''s'', discordWebhookUrl = None\<rparr>"

lemma sample_amount: "satsToRoundedBTC 2000000000 = Inr ''20.00''"
  by (simp add: satsToRoundedBTC_def bn_from_number_def bn_div_def bn_toNumber_def MAX_SAFE_def fixed2_def show_nat_def
      show_base.simps hex_digit_def hex_digits_def padStart_def)

lemma sample_large: "\<exists>a b. DepositRevealed sample_settings sample_deposit_event = Inr a \<and>
   LargeDepositRevealed sample_settings sample_deposit_event = Inr b \<and> se_type a = Informational \<and> se_type b = Warning"
  by (simp add: DepositRevealed_def LargeDepositRevealed_def deposit_data_def sample_deposit_event_def sample_amount)

lemma sample_deposit_check: "\<exists>a b. DepositMonitor_check (sv_parse sample_service) sample_settings (sv_bridge sample_service) f t w = (Inr [a, b], w)
    \<and> se_type a = Informational \<and> se_type b = Warning"
proof -
  obtain a b where "DepositRevealed sample_settings sample_deposit_event = Inr a"
   "LargeDepositRevealed sample_settings sample_deposit_event = Inr b" "se_type a = Informational" "se_type b = Warning"
    using sample_large by blast
  then show ?thesis
    by (simp add: DepositMonitor_check_def sample_service_def report_large_def bind_io_def sample_settings_def
        bn_from_number_def MAX_SAFE_def sample_deposit_event_def)
qed

lemma sample_minting_check: "MintingMonitor_check (sv_stringify sample_service) (sv_fractional sample_service) (sv_bridge sample_service)
    (sv_tbtcVault sample_service) (sv_btcClient sample_service) f t w = (Inr [], w)"
  by (simp add: MintingMonitor_check_def loadChainDataCache_def checkMintingRequestsValidity_def checkDesignatedMintersHealth_def
      checkDesignatedMintersRequests_def checkDesignatedMintersFinalizations_def filter_res_def checkOrphanedMinting_def
      checkMintingNotRequested_def checkMintingNotFinalized_def finalization_query_def checkMintingCancels_def request_missing_def
      sample_service_def sample_vault_def bind_io_def allSettled_def settle_def Let_def mintingFinalizationTimeoutTwelfths_def rewindBlock_def)

lemma sample_other_checks:
  "SupplyMonitor_check (sv_tbtcToken sample_service) (SupplyMonitorFilePersistence (sv_supplyDb sample_service)) f t w = (Inr [], w)"
  "WalletMonitor_check (sv_bridge sample_service) f t w = (Inr [], w)"
  "RedemptionMonitor_check (sv_parse sample_service) (sv_getBlock sample_service) sample_settings (sv_bridge sample_service) f t w = (Inr [], w)"
  by (cases "mw_lastAlert w")
    (simp_all add: SupplyMonitor_check_def SupplyMonitorFilePersistence_def sample_service_def sample_lastAlert_def field_value_def
      sample_token_def bind_io_def bn_div_def supply_reference_def totalSupplyChangeThreshold_def Let_def
      WalletMonitor_check_def checkNewWallets_def checkDkgSubmissions_def checkDkgApprovals_def checkDkgChallenges_def
      sample_registry_def sample_bridge_def RedemptionMonitor_check_def checkRequestedRedemptions_def checkStaleRedemptions_def split: prod.splits)

lemma sample_service_outside: "outside_database mw_checkpoint mw_handled (setup_monitors sample_settings sample_service)
    (setup_receivers sample_settings sample_service) (blocks_latestBlock (sv_getBlock sample_service))"
proof -
  have l: "leaves cp hb m" if "\<And>w. snd (m w) = w" for cp :: "monitor_world \<Rightarrow> int" and hb and m :: "(monitor_world, 'a) io"
    using that by (simp add: leaves_def)
  have d: "snd (DepositMonitor_check (sv_parse sample_service) sample_settings (sv_bridge sample_service) f t w) = w" for f t w
    using sample_deposit_check[of f t w] by auto
  have "leaves (checkpoint_in mw_checkpoint) (handled_in mw_handled) (m f t)" if "m \<in> set (setup_monitors sample_settings sample_service)" for m f t
    using that unfolding setup_monitors_def by (auto intro!: l simp: d sample_minting_check sample_other_checks)
  moreover have "leaves (checkpoint_in mw_checkpoint) (handled_in mw_handled) (receiver_receive r e)"
    if "r \<in> set (setup_receivers sample_settings sample_service)" for r e
    using that by (cases "se_type e") (auto simp: setup_receivers_def sample_settings_def SentryReceiver_def BaseReceiver_def
        Sentry_isSupportedSystemEvent_def Sentry_handle_def resolveSeverityLevel_def sample_service_def bind_io_def Let_def leaves_def
        checkpoint_in_def handled_in_def)
  moreover have "leaves (checkpoint_in mw_checkpoint) (handled_in mw_handled) (blocks_latestBlock (sv_getBlock sample_service))"
    by (simp add: leaves_def blocks_latestBlock_def sample_service_def sample_getBlock_def bind_io_def)
  ultimately show ?thesis unfolding outside_database_def by blast
qed

text \<open>The Sentry receiver of the sample, and the check of the window: one message is sent.\<close>

lemma sample_sentry: "SentryReceiver (Sentry_handle (sv_digest64 sample_service) (sv_capture sample_service)) =
     \<lparr>receiver_id = ''Sentry'', receiver_receive = (\<lambda>e w. (Inr \<lparr>ack_receiverId = ''Sentry'', ack_systemEvent = e,
       ack_status = (if se_type e = Informational then Ignored else Handled)\<rparr>,
       if se_type e = Informational then w else w\<lparr>mw_sent := Sentry_notice sample_service e # mw_sent w\<rparr>))\<rparr>"
proof -
  have "receiver_receive (SentryReceiver (Sentry_handle (sv_digest64 sample_service) (sv_capture sample_service))) e w =
     (Inr \<lparr>ack_receiverId = ''Sentry'', ack_systemEvent = e, ack_status = (if se_type e = Informational then Ignored else Handled)\<rparr>,
       if se_type e = Informational then w else w\<lparr>mw_sent := Sentry_notice sample_service e # mw_sent w\<rparr>)" for e w
    by (cases "se_type e") (simp_all add: SentryReceiver_def BaseReceiver_def Sentry_isSupportedSystemEvent_def Sentry_handle_def
        resolveSeverityLevel_def sample_service_def bind_io_def Let_def Sentry_notice_def)
  then show ?thesis by (intro event_receiver.equality) (auto simp: fun_eq_iff SentryReceiver_def BaseReceiver_def)
qed

lemma sample_service_check:
  "\<exists>a b. se_type b = Warning \<and>
     Manager_check (setup_monitors sample_settings sample_service) (setup_receivers sample_settings sample_service)
      (SystemEventFilePersistence checkpoint_value handled_value) 88 100 sample_world =
      (Inr ([\<lparr>ack_receiverId = ''Sentry'', ack_systemEvent = a, ack_status = Ignored\<rparr>,
             \<lparr>ack_receiverId = ''Sentry'', ack_systemEvent = b, ack_status = Handled\<rparr>], []),
       sample_world\<lparr>mw_sent := [Sentry_notice sample_service b]\<rparr>)"
proof -
  obtain a b where d: "DepositMonitor_check (sv_parse sample_service) sample_settings (sv_bridge sample_service) 88 100 sample_world = (Inr [a, b], sample_world)"
    "se_type a = Informational" "se_type b = Warning" using sample_deposit_check by blast
  have r: "setup_receivers sample_settings sample_service =
      [SentryReceiver (Sentry_handle (sv_digest64 sample_service) (sv_capture sample_service))]"
    by (simp add: setup_receivers_def sample_settings_def)
  have h: "handledSystemEvents (SystemEventFilePersistence checkpoint_value handled_value) sample_world = (Inr (\<lambda>_. None), sample_world)"
    by (simp add: SystemEventFilePersistence_def file_handledSystemEvents_def handled_value_def field_value_def sample_world_def bind_io_def)
  have "mw_sent sample_world = []" by (simp add: sample_world_def)
  then show ?thesis unfolding r sample_sentry Manager_check_def setup_monitors_def
    by (intro exI[of _ a] exI[of _ b])
      (simp add: allSettled_def settle_def bind_io_def d sample_minting_check sample_other_checks fulfilled_def rejected_def
        h Let_def Deduplicator_receive events_of_def)
qed

lemma sample_service_run: "\<exists>h b. service_trigger sample_settings sample_service checkpoint_value handled_value sample_world =
    (Inr \<lparr>rep_fromBlock = Some 88, rep_toBlock = Some 100, rep_status = Success, rep_errors = []\<rparr>,
     \<lparr>mw_sent = [Sentry_notice sample_service b], mw_checkpoint = Some 100, mw_handled = Some h, mw_lastAlert = None, mw_latestBlock = 100\<rparr>)"
proof -
  obtain a b where ch: "Manager_check (setup_monitors sample_settings sample_service) (setup_receivers sample_settings sample_service)
      (SystemEventFilePersistence checkpoint_value handled_value) 88 100 sample_world =
      (Inr ([\<lparr>ack_receiverId = ''Sentry'', ack_systemEvent = a, ack_status = Ignored\<rparr>,
             \<lparr>ack_receiverId = ''Sentry'', ack_systemEvent = b, ack_status = Handled\<rparr>], []),
       sample_world\<lparr>mw_sent := [Sentry_notice sample_service b]\<rparr>)"
    using sample_service_check by blast
  have c: "checkpointBlock (SystemEventFilePersistence checkpoint_value handled_value) sample_world = (Inr 0, sample_world)"
    by (simp add: SystemEventFilePersistence_def checkpoint_value_def field_value_def sample_world_def bind_io_def)
  have lb: "blocks_latestBlock (sv_getBlock sample_service) sample_world = (Inr 100, sample_world)"
    by (simp add: blocks_latestBlock_def sample_service_def sample_getBlock_def sample_world_def bind_io_def)
  have w: "window_start 0 100 = 88" by (simp add: window_start_def reorgDepthBlocks_def)
  have run: "Manager_run (setup_monitors sample_settings sample_service) (setup_receivers sample_settings sample_service)
      (SystemEventFilePersistence checkpoint_value handled_value) (blocks_latestBlock (sv_getBlock sample_service)) sample_world =
      Manager_finish (SystemEventFilePersistence checkpoint_value handled_value) 88 100
        [\<lparr>ack_receiverId = ''Sentry'', ack_systemEvent = a, ack_status = Ignored\<rparr>,
         \<lparr>ack_receiverId = ''Sentry'', ack_systemEvent = b, ack_status = Handled\<rparr>] []
        (sample_world\<lparr>mw_sent := [Sentry_notice sample_service b]\<rparr>)"
    unfolding Manager_run_def using c lb ch w by (simp add: Let_def)
  have "\<exists>h. Manager_finish (SystemEventFilePersistence checkpoint_value handled_value) 88 100
        [\<lparr>ack_receiverId = ''Sentry'', ack_systemEvent = a, ack_status = Ignored\<rparr>,
         \<lparr>ack_receiverId = ''Sentry'', ack_systemEvent = b, ack_status = Handled\<rparr>] []
        (sample_world\<lparr>mw_sent := [Sentry_notice sample_service b]\<rparr>) =
    (Inr \<lparr>rep_fromBlock = Some 88, rep_toBlock = Some 100, rep_status = Success, rep_errors = []\<rparr>,
     \<lparr>mw_sent = [Sentry_notice sample_service b], mw_checkpoint = Some 100, mw_handled = Some h, mw_lastAlert = None, mw_latestBlock = 100\<rparr>)"
    by (simp add: Manager_finish_def bind_io_def catch_io_def record_error_def Let_def
        SystemEventFilePersistence_def file_handledSystemEvents_def checkpoint_value_def handled_value_def field_value_def sample_world_def)
  then show ?thesis unfolding service_trigger_def Manager_trigger_def using run by auto
qed

definition sample_sent :: "monitor_world \<Rightarrow> notice set" where
  "sample_sent w = set (mw_sent w)"

lemma sample_posts: "posts sample_sent sample_service"
  by (auto simp: posts_def keeps_def sample_sent_def sample_service_def)

lemma sample_keeps_sent: "keeps_sent sample_sent (setup_monitors sample_settings sample_service) checkpoint_value handled_value
    (blocks_latestBlock (sv_getBlock sample_service))"
proof -
  have k: "keeps sample_sent m" if "\<And>w. snd (m w) = w" for m :: "(monitor_world, 'a) io"
    using that by (simp add: keeps_def)
  have d: "snd (DepositMonitor_check (sv_parse sample_service) sample_settings (sv_bridge sample_service) f t w) = w" for f t w
    using sample_deposit_check[of f t w] by auto
  have "keeps sample_sent (m f t)" if "m \<in> set (setup_monitors sample_settings sample_service)" for m f t
    using that unfolding setup_monitors_def by (auto intro!: k simp: d sample_minting_check sample_other_checks)
  moreover have "keeps sample_sent (blocks_latestBlock (sv_getBlock sample_service))"
    by (simp add: keeps_def blocks_latestBlock_def sample_service_def sample_getBlock_def bind_io_def)
  moreover have "keeps sample_sent (jv_exists checkpoint_value)" "keeps sample_sent (jv_getObject checkpoint_value)"
    "keeps sample_sent (jv_push checkpoint_value x)" "keeps sample_sent (jv_exists handled_value)"
    "keeps sample_sent (jv_getObject handled_value)" "keeps sample_sent (jv_push handled_value y)" for x y
    by (simp_all add: keeps_def checkpoint_value_def handled_value_def field_value_def sample_sent_def)
  ultimately show ?thesis unfolding keeps_sent_def by blast
qed

lemma sample_all_sent: "all_sent sample_sent f rids mw_handled sample_world"
  by (simp add: all_sent_def handled_in_def handled_of_def sample_world_def)

lemma deposits_reported_witness:
  "\<exists>rep w' se. service_trigger sample_settings sample_service checkpoint_value handled_value sample_world = (Inr rep, w') \<and>
     LargeDepositRevealed sample_settings sample_deposit_event = Inr se \<and> Sentry_notice sample_service se \<in> set (mw_sent w')"
proof -
  obtain rep w' where run: "service_trigger sample_settings sample_service checkpoint_value handled_value sample_world = (Inr rep, w')"
    "rep_status rep = Success" using sample_service_run by auto
  have limit: "threshold_number (sv_parse sample_service) (largeDepositThresholdSat sample_settings) = Inr 1000000000"
    by (simp add: sample_settings_def bn_from_number_def MAX_SAFE_def)
  have d: "getDepositRevealedEvents (sv_bridge sample_service) q w = (Inr [sample_deposit_event], w)" for q w
    by (simp add: sample_service_def)
  show ?thesis using deposits_reported[OF sample_database sample_service_outside sample_posts sample_keeps_sent sample_all_sent run limit] run(1)
    by (auto simp: d sample_deposit_event_def sample_settings_def sample_sent_def)
qed

end
