(* ===== verification/MonitorAlerts.thy ===== *)
theory MonitorAlerts
  imports MonitorService
begin

section \<open>What the monitors alert about\<close>

text \<open>
  The alerts of the redemption, supply and minting monitors are characterised by what the
  contracts and the Bitcoin server answered. The windows the monitors rewind leave no block out
  either.
\<close>

subsection \<open>Stale redemptions\<close>

text \<open>The redemption monitor calls a redemption stale exactly when its request was made at
  least the staleness period (2400 blocks) before the window's end and is still pending: the
  request stored for the wallet and the script has the time stamp of the block of the event, so
  that a later request for the same pair does not count.\<close>

theorem stale_redemptions_exact:
  assumes "checkStaleRedemptions getBlock ctx bridge f t w = (Inr ses, w')"
  shows "\<exists>evs stamps reqs w1.
     getRedemptionRequestedEvents bridge (window (max 0 (f - 2400)) (max 0 (t - 2400))) w = (Inr evs, w1) \<and>
     length stamps = length evs \<and> length reqs = length evs \<and>
     (\<forall>i < length evs. \<exists>v v'. blockTimestamp getBlock (ev_blockNumber (evs ! i)) v = (Inr (stamps ! i), v')) \<and>
     (\<forall>i < length evs. \<exists>v v'. pendingRedemptionsByWalletPKH bridge (rre_walletPublicKeyHash (evs ! i))
        (rre_redeemerOutputScript (evs ! i)) v = (Inr (reqs ! i), v')) \<and>
     (\<forall>se. se \<in> set ses \<longleftrightarrow> (\<exists>i < length evs. rr_requestedAt (reqs ! i) \<noteq> 0 \<and> rr_requestedAt (reqs ! i) = stamps ! i \<and>
        StaleRedemption ctx (evs ! i) = Inr se))"
proof -
  have rw: "rewindBlock b redemptionRequestStaleBlocks = max 0 (b - 2400)" for b
    by (simp add: rewindBlock_def redemptionRequestStaleBlocks_def)
  obtain evs stamps reqs w1 w2 where e: "getRedemptionRequestedEvents bridge (window (max 0 (f - 2400)) (max 0 (t - 2400))) w = (Inr evs, w1)"
    and s: "map_io (\<lambda>ce. blockTimestamp getBlock (ev_blockNumber ce)) evs w1 = (Inr stamps, w2)"
    and r: "map_io (\<lambda>ce. pendingRedemptionsByWalletPKH bridge (rre_walletPublicKeyHash ce) (rre_redeemerOutputScript ce)) evs w2 = (Inr reqs, w')"
    and m: "map_res (\<lambda>(ce, _). StaleRedemption ctx ce)
       (filter (\<lambda>(_, request, timestamp). is_stale request timestamp) (zip evs (zip reqs stamps))) = Inr ses"
    using assms unfolding checkStaleRedemptions_def bind_io_Inr rw by (auto split: prod.splits)
  note ls = map_io_reads[OF s] and lr = map_io_reads[OF r]
  have "se \<in> set ses \<longleftrightarrow> (\<exists>i < length evs. rr_requestedAt (reqs ! i) \<noteq> 0 \<and> rr_requestedAt (reqs ! i) = stamps ! i \<and>
        StaleRedemption ctx (evs ! i) = Inr se)" for se
  proof -
    have "(se \<in> set ses) = (\<exists>p \<in> set (filter (\<lambda>(_, request, timestamp). is_stale request timestamp) (zip evs (zip reqs stamps))).
        StaleRedemption ctx (fst p) = Inr se)"
      using map_res_values[OF m] by (simp add: split_beta)
    also have "\<dots> = (\<exists>i < length evs. is_stale (reqs ! i) (stamps ! i) \<and> StaleRedemption ctx (evs ! i) = Inr se)"
      by (rule filter_zip_mem) (use ls lr in simp_all)
    finally show ?thesis by (auto simp: is_stale_def)
  qed
  then show ?thesis using e ls lr by (intro exI[of _ evs] exI[of _ stamps] exI[of _ reqs] exI[of _ w1]) blast
qed

definition sample_redemption_event :: RedemptionRequestedEvent where
  "sample_redemption_event = \<lparr>ev_blockNumber = 90, ev_blockHash = Hex [9], ev_transactionHash = Hex [7],
     rre_redeemer = sample_owner, rre_redeemerOutputScript = Hex [1, 2], rre_requestedAmount = 2000000000, rre_treasuryFee = 0,
     rre_txMaxFee = 0, rre_walletPublicKeyHash = Hex [3]\<rparr>"

definition stale_bridge :: "monitor_world bridge" where
  "stale_bridge = sample_bridge\<lparr>getRedemptionRequestedEvents := (\<lambda>_. return_io [sample_redemption_event]),
     pendingRedemptionsByWalletPKH := (\<lambda>_ _. return_io (sample_request 1700000000))\<rparr>"

lemma sample_stale: "\<exists>se. StaleRedemption sample_settings sample_redemption_event = Inr se \<and>
   checkStaleRedemptions sample_getBlock sample_settings stale_bridge 2480 2500 w = (Inr [se], w)"
  by (simp add: StaleRedemption_def redemption_data_def sample_redemption_event_def sample_amount checkStaleRedemptions_def
      stale_bridge_def bind_io_def blockTimestamp_def sample_getBlock_def is_stale_def sample_request_def)

lemma stale_redemptions_exact_witness:
  "\<exists>ses. checkStaleRedemptions sample_getBlock sample_settings stale_bridge 2480 2500 sample_world = (Inr ses, sample_world) \<and>
     (\<exists>evs w1. getRedemptionRequestedEvents stale_bridge (window 80 100) sample_world = (Inr evs, w1) \<and>
       (\<exists>i < length evs. \<exists>se \<in> set ses. StaleRedemption sample_settings (evs ! i) = Inr se))"
proof -
  obtain se where se: "checkStaleRedemptions sample_getBlock sample_settings stale_bridge 2480 2500 sample_world = (Inr [se], sample_world)"
    using sample_stale by blast
  show ?thesis using stale_redemptions_exact[OF se] se by fastforce
qed

subsection \<open>Supply alerts\<close>

text \<open>A token whose supply is a function of the block.\<close>

definition supply_of :: "'w tbtc_token \<Rightarrow> (int \<Rightarrow> int) \<Rightarrow> bool" where
  "supply_of tok S = (\<forall>b w. totalSupply tok (Some b) w = (Inr (S b), w))"

lemma floor_bound: "0 < s \<Longrightarrow> (k \<le> x div s) = (k * s \<le> x)" for k x s :: int
proof
  assume s: "0 < s" and "k \<le> x div s"
  then have "k * s \<le> x div s * s" by (simp add: mult_right_mono)
  also have "\<dots> \<le> x" using s by (simp add: minus_mod_eq_div_mult [symmetric])
  finally show "k * s \<le> x" .
next
  assume s: "0 < s" and "k * s \<le> x"
  then have "k * s div s \<le> x div s" by (intro zdiv_mono1)
  then show "k \<le> x div s" using s by simp
qed

lemma supply_reference_cases:
  "supply_reference t ev = (if max 0 (t - 3600) < ev then (ev, 5) else (max 0 (t - 3600), 10))"
  by (auto simp: supply_reference_def totalSupplyBlockSpan_def totalSupplyChangeThreshold_def Let_def)

text \<open>A check step by step.\<close>

lemma supply_check:
  assumes S: "supply_of tok S" "0 < S r" and k: "kept_value db look"
    and r: "(r, limit) = supply_reference t (checkpoint_of (look w))"
    and c: "SupplyMonitor_check tok (SupplyMonitorFilePersistence db) f t w = (Inr ses, w')"
  shows "if limit * S r \<le> \<bar>S t - S r\<bar> * 100
     then look w' = Some t \<and> ses = [HighTotalSupplyChange (S t - S r) (\<bar>S t - S r\<bar> * 100 div S r) limit r t]
     else look w' = look w \<and> ses = []"
proof -
  let ?P = "SupplyMonitorFilePersistence db"
  obtain ev w1 where l: "lastHighTotalSupplyChangeBlock ?P w = (Inr ev, w1)"
    using c by (auto simp: SupplyMonitor_check_def Let_def bind_io_Inr)
  then have l': "look w1 = look w" "ev = checkpoint_of (look w)"
    using kept_value.read_default[OF k, of 0 w "Inr ev" w1] by (auto simp: SupplyMonitorFilePersistence_def checkpoint_of_def)
  have div: "bn_div (\<bar>S t - S r\<bar> * 100) (S r) = Inr (\<bar>S t - S r\<bar> * 100 div S r)"
    using S(2) by (simp add: bn_div_nonneg)
  have tot: "totalSupply tok (Some b) v = (Inr (S b), v)" for b v using S(1) by (simp add: supply_of_def)
  have b1: "bind_io (lastHighTotalSupplyChangeBlock ?P) g w = g ev w1" for g :: "int \<Rightarrow> ('a, SystemEvent list) io"
    by (rule bind_io_ok) (rule l)
  have b2: "bind_io (totalSupply tok (Some b)) g v = g (S b) v" for b v and g :: "int \<Rightarrow> ('a, SystemEvent list) io"
    by (rule bind_io_ok) (rule tot)
  have b3: "bind_io (lift_io (Inr x)) g v = g x v" for x v and g :: "int \<Rightarrow> ('a, SystemEvent list) io" by simp
  let ?alert = "HighTotalSupplyChange (S t - S r) (\<bar>S t - S r\<bar> * 100 div S r) limit r t"
  have run: "(if limit \<le> \<bar>S t - S r\<bar> * 100 div S r
     then bind_io (updateLastHighTotalSupplyChangeBlock ?P t) (\<lambda>_. return_io [?alert])
     else return_io []) w1 = (Inr ses, w')"
    using c unfolding SupplyMonitor_check_def Let_def
    by (simp only: b1 l'(2) r[symmetric] prod.case b2 div b3)
  show ?thesis
  proof (cases "limit \<le> \<bar>S t - S r\<bar> * 100 div S r")
    case True
    then obtain u where "jv_push db t w1 = (Inr u, w')" "ses = [?alert]"
      using run by (auto simp: bind_io_Inr SupplyMonitorFilePersistence_def)
    then show ?thesis using kept_value.kept_push[OF k] True floor_bound[OF S(2)] by (auto simp: sum.case)
  next
    case False
    then show ?thesis using run l'(1) floor_bound[OF S(2)] by auto
  qed
qed

text \<open>The supply monitor raises its alert exactly when the supply at the end of the window
  differs from the reference supply by at least the threshold, with no rounding lost: 10 percent
  over the last 3600 blocks, or 5 percent since the last alert when that is more recent. It then
  records the block of the alert, and otherwise records nothing.\<close>

theorem supply_alert_exact:
  assumes "supply_of tok S" "\<forall>b. 0 < S b" "kept_value db look"
    and "SupplyMonitor_check tok (SupplyMonitorFilePersistence db) f t w = (Inr ses, w')"
  shows "let recent = max 0 (t - 3600) < checkpoint_of (look w);
       r = (if recent then checkpoint_of (look w) else max 0 (t - 3600));
       limit = (if recent then 5 else 10)
     in if limit * S r \<le> \<bar>S t - S r\<bar> * 100
        then ses = [HighTotalSupplyChange (S t - S r) (\<bar>S t - S r\<bar> * 100 div S r) limit r t] \<and> look w' = Some t
        else ses = [] \<and> look w' = look w"
proof (cases "max 0 (t - 3600) < checkpoint_of (look w)")
  case True
  then have "(checkpoint_of (look w), 5) = supply_reference t (checkpoint_of (look w))" by (simp add: supply_reference_cases)
  from supply_check[OF assms(1) _ assms(3) this assms(4)] show ?thesis using assms(2) True by (simp add: Let_def del: max_less_iff_conj split: if_splits)
next
  case False
  then have "(max 0 (t - 3600), 10) = supply_reference t (checkpoint_of (look w))" by (simp add: supply_reference_cases)
  from supply_check[OF assms(1) _ assms(3) this assms(4)] show ?thesis using assms(2) False by (simp add: Let_def del: max_less_iff_conj split: if_splits)
qed

lemma kept_lastAlert: "kept_value sample_lastAlert mw_lastAlert"
  by unfold_locales (auto simp: sample_lastAlert_def field_value_def split: option.splits)

text \<open>A supply that grew by a fifth after block 50.\<close>

definition grown_supply :: "int \<Rightarrow> int" where
  "grown_supply b = (if b \<le> 50 then 1000 else 1200)"

definition grown_token :: "monitor_world tbtc_token" where
  "grown_token = sample_token\<lparr>totalSupply := (\<lambda>b. return_io (grown_supply (the b)))\<rparr>"

lemma grown_supply_of: "supply_of grown_token grown_supply" "\<forall>b. 0 < grown_supply b"
  by (simp_all add: supply_of_def grown_token_def grown_supply_def)

lemma grown_check: "SupplyMonitor_check grown_token (SupplyMonitorFilePersistence sample_lastAlert) f 100 sample_world =
   (Inr [HighTotalSupplyChange 200 20 10 0 100], sample_world\<lparr>mw_lastAlert := Some 100\<rparr>)"
  by (simp add: SupplyMonitor_check_def SupplyMonitorFilePersistence_def sample_lastAlert_def field_value_def sample_world_def
      grown_token_def grown_supply_def bind_io_def bn_div_def supply_reference_cases Let_def)

lemma supply_alert_exact_witness:
  "\<exists>ses w'. SupplyMonitor_check grown_token (SupplyMonitorFilePersistence sample_lastAlert) 88 100 sample_world = (Inr ses, w') \<and>
     ses = [HighTotalSupplyChange 200 20 10 0 100] \<and> mw_lastAlert w' = Some 100"
  using supply_alert_exact[OF grown_supply_of kept_lastAlert grown_check] grown_check
  by (simp add: sample_world_def grown_supply_def checkpoint_of_def Let_def)

text \<open>After an alert the same window raises none again: whatever happened to the alert in
  between, a second check up to the same block finds no change since the recorded block.\<close>

theorem supply_alert_not_repeated:
  assumes S: "supply_of tok S" "\<forall>b. 0 < S b" and k: "kept_value db look" and t: "0 < t"
    and first: "SupplyMonitor_check tok (SupplyMonitorFilePersistence db) f t w = (Inr ses, w')" "ses \<noteq> []"
    and again: "look w2 = look w'" "SupplyMonitor_check tok (SupplyMonitorFilePersistence db) f2 t w2 = (Inr ses2, w3)"
  shows "ses2 = [] \<and> look w3 = Some t"
proof -
  let ?q = "\<lambda>w. supply_reference t (checkpoint_of (look w))"
  have "look w' = Some t"
    using supply_check[OF S(1) _ k _ first(1), of "fst (?q w)" "snd (?q w)"] S(2) first(2)
    by (auto split: if_splits)
  then have l: "look w2 = Some t" using again(1) by simp
  then have "supply_reference t (checkpoint_of (look w2)) = (t, 5)"
    using t by (simp add: supply_reference_cases checkpoint_of_def)
  then show ?thesis using supply_check[OF S(1) _ k _ again(2), of t 5] S(2) l
    by (auto simp: not_le split: if_splits)
qed

lemma supply_alert_not_repeated_witness:
  "\<exists>ses w3. SupplyMonitor_check grown_token (SupplyMonitorFilePersistence sample_lastAlert) 88 100
       (sample_world\<lparr>mw_lastAlert := Some 100\<rparr>) = (Inr ses, w3) \<and> ses = []"
proof -
  have again: "SupplyMonitor_check grown_token (SupplyMonitorFilePersistence sample_lastAlert) 88 100
       (sample_world\<lparr>mw_lastAlert := Some 100\<rparr>) = (Inr [], sample_world\<lparr>mw_lastAlert := Some 100\<rparr>)"
    by (simp add: SupplyMonitor_check_def SupplyMonitorFilePersistence_def sample_lastAlert_def field_value_def sample_world_def
      grown_token_def grown_supply_def bind_io_def bn_div_def supply_reference_cases Let_def)
  show ?thesis
    using supply_alert_not_repeated[OF grown_supply_of kept_lastAlert _ grown_check _ _ again] again by blast
qed

subsection \<open>Minting requests\<close>

lemma amountSat_total: "\<exists>s. amountSat_of a = Inr s" "\<exists>q. bn_div a satoshiMultiplier = Inr q"
  by (simp_all add: amountSat_of_def bn_div_def satoshiMultiplier_def)

lemma early_total: "\<exists>se. OptimisticMintingRequestedTooEarly ce a r = Inr se"
  using amountSat_total(1)[of "omre_amount ce"] by (auto simp: OptimisticMintingRequestedTooEarly_def)

lemma undetermined_total: "\<exists>se. OptimisticMintingRequestedForUndeterminedBtcTx ce m = Inr se"
  using amountSat_total(1)[of "omre_amount ce"] by (auto simp: OptimisticMintingRequestedForUndeterminedBtcTx_def)

text \<open>The confirmations a request needs, by its amount in satoshis.\<close>

definition confirmations_needed :: "OptimisticMintingRequestedEvent \<Rightarrow> int" where
  "confirmations_needed ce = (let sat = sgn (omre_amount ce) * (\<bar>omre_amount ce\<bar> div 10 ^ 10) in requiredConfirmations sat)"

lemma request_validity_total: "\<exists>ses. request_validity ce c = Inr ses"
proof (cases c)
  case (Inl e)
  then show ?thesis using undetermined_total[of ce "error_text e"] by (elim exE) (simp add: request_validity_def)
next
  case (Inr n)
  obtain q where q: "bn_div (omre_amount ce) satoshiMultiplier = Inr q" using amountSat_total(2)[of "omre_amount ce"] by (elim exE) (rule that)
  obtain se where "OptimisticMintingRequestedTooEarly ce n (requiredConfirmations q) = Inr se"
    using early_total[of ce n "requiredConfirmations q"] by (elim exE) (rule that)
  then show ?thesis using Inr q by (simp add: request_validity_def Let_def)
qed

lemma request_validity_mem:
  assumes "request_validity ce c = Inr ses"
  shows "se \<in> set ses \<longleftrightarrow> (case c of
      Inr n \<Rightarrow> n < confirmations_needed ce \<and> OptimisticMintingRequestedTooEarly ce n (confirmations_needed ce) = Inr se
    | Inl e \<Rightarrow> OptimisticMintingRequestedForUndeterminedBtcTx ce (error_text e) = Inr se)"
  using assms
  by (cases c) (auto simp: request_validity_def res_simps Let_def confirmations_needed_def bn_div_def satoshiMultiplier_def split: if_splits)

lemma request_validity_reports:
  "(\<exists>ys. request_validity ce c = Inr ys \<and> se \<in> set ys) \<longleftrightarrow> (case c of
      Inr n \<Rightarrow> n < confirmations_needed ce \<and> OptimisticMintingRequestedTooEarly ce n (confirmations_needed ce) = Inr se
    | Inl e \<Rightarrow> OptimisticMintingRequestedForUndeterminedBtcTx ce (error_text e) = Inr se)"
proof -
  obtain ses where ses: "request_validity ce c = Inr ses" using request_validity_total[of ce c] by (elim exE) (rule that)
  then show ?thesis using request_validity_mem[OF ses, of se] by simp
qed

text \<open>The check of the minting requests never throws, whatever the Bitcoin server does, and
  reports exactly the requests whose funding transaction has fewer confirmations than the amount
  requires, and those whose confirmations the server could not tell.\<close>

theorem minting_requests_checked:
  "\<exists>ses w' confs. checkMintingRequestsValidity btcClient cache w = (Inr ses, w') \<and>
     length confs = length (mintingRequestedEvents cache) \<and>
     (\<forall>i < length confs. \<exists>v v'. getTransactionConfirmations btcClient (omre_fundingTxHash (mintingRequestedEvents cache ! i)) v = (confs ! i, v')) \<and>
     (\<forall>se. se \<in> set ses \<longleftrightarrow> (\<exists>i < length confs. case confs ! i of
        Inr n \<Rightarrow> n < confirmations_needed (mintingRequestedEvents cache ! i) \<and>
          OptimisticMintingRequestedTooEarly (mintingRequestedEvents cache ! i) n (confirmations_needed (mintingRequestedEvents cache ! i)) = Inr se
      | Inl e \<Rightarrow> OptimisticMintingRequestedForUndeterminedBtcTx (mintingRequestedEvents cache ! i) (error_text e) = Inr se))"
proof -
  let ?evs = "mintingRequestedEvents cache"
  let ?ms = "map (\<lambda>ce. getTransactionConfirmations btcClient (omre_fundingTxHash ce)) ?evs"
  obtain confs w' where c: "allSettled ?ms w = (Inr confs, w')" "length confs = length ?ms"
    "\<forall>i < length ?ms. \<exists>v v'. (?ms ! i) v = (confs ! i, v')"
    using allSettled_all[of ?ms w "\<lambda>_. 0" "\<lambda>_ _. []"] by (elim exE conjE) (rule that)
  obtain yss where y: "map_res (\<lambda>(ce, c). request_validity ce c) (zip ?evs confs) = Inr yss"
    using map_res_ok[of "zip ?evs confs" "\<lambda>(ce, c). request_validity ce c"] request_validity_total by (auto split: prod.splits)
  have run: "checkMintingRequestsValidity btcClient cache w = (Inr (concat yss), w')"
    using c(1) y by (simp add: checkMintingRequestsValidity_def)
  have mem: "se \<in> set (concat yss) \<longleftrightarrow> (\<exists>i < length confs. case confs ! i of
        Inr n \<Rightarrow> n < confirmations_needed (?evs ! i) \<and>
          OptimisticMintingRequestedTooEarly (?evs ! i) n (confirmations_needed (?evs ! i)) = Inr se
      | Inl e \<Rightarrow> OptimisticMintingRequestedForUndeterminedBtcTx (?evs ! i) (error_text e) = Inr se)" for se
  proof -
    let ?Q = "\<lambda>ce c. case c of
        Inr n \<Rightarrow> n < confirmations_needed ce \<and> OptimisticMintingRequestedTooEarly ce n (confirmations_needed ce) = Inr se
      | Inl e \<Rightarrow> OptimisticMintingRequestedForUndeterminedBtcTx ce (error_text e) = Inr se"
    have "(se \<in> set (concat yss)) = (\<exists>p \<in> set (zip ?evs confs). ?Q (fst p) (snd p))"
      unfolding map_res_concat_mem[OF y]
      by (simp only: split_beta request_validity_reports)
    also have "\<dots> = (\<exists>i < length ?evs. ?Q (?evs ! i) (confs ! i))" using c(2) by (intro zip_mem_nth) simp
    finally show ?thesis using c(2) by simp
  qed
  show ?thesis using run c(2,3) mem by (intro exI[of _ "concat yss"] exI[of _ w'] exI[of _ confs]) simp
qed

definition sample_minting_request :: OptimisticMintingRequestedEvent where
  "sample_minting_request = \<lparr>ev_blockNumber = 90, ev_blockHash = Hex [9], ev_transactionHash = Hex [7],
     omre_minter = sample_owner, omre_depositKey = Hex [1], omre_depositor = sample_owner, omre_amount = 10 ^ 18,
     omre_fundingTxHash = Hex [5], omre_fundingOutputIndex = 0\<rparr>"

definition sample_cache :: ChainDataCache where
  "sample_cache = \<lparr>mintingCancelledEvents = [], mintingRequestedEvents = [sample_minting_request],
     mintingFinalizedEvents = [], cache_minters = [EthereumAddress ''ab''], cache_optimisticMintingDelay = 10800\<rparr>"

text \<open>A request of one bitcoin, whose transaction has two confirmations of six.\<close>

lemma minting_requests_checked_witness:
  "\<exists>ses w' se. checkMintingRequestsValidity sample_btc sample_cache sample_world = (Inr ses, w') \<and> se \<in> set ses \<and>
     OptimisticMintingRequestedTooEarly sample_minting_request 2 6 = Inr se"
proof -
  have n: "confirmations_needed sample_minting_request = 6"
    by (simp add: confirmations_needed_def sample_minting_request_def requiredConfirmations_def Let_def)
  obtain se where se: "OptimisticMintingRequestedTooEarly sample_minting_request 2 6 = Inr se"
    using early_total[of sample_minting_request 2 6] by (elim exE) (rule that)
  have g: "getTransactionConfirmations sample_btc h v = (c, v') \<Longrightarrow> c = Inr 2" for h v c v'
    by (simp add: sample_btc_def)
  have e: "mintingRequestedEvents sample_cache = [sample_minting_request]" by (simp add: sample_cache_def)
  obtain ses w' confs where r: "checkMintingRequestsValidity sample_btc sample_cache sample_world = (Inr ses, w')"
    and len: "length confs = 1" and c: "\<forall>i < length confs. \<exists>v v'. getTransactionConfirmations sample_btc
       (omre_fundingTxHash (mintingRequestedEvents sample_cache ! i)) v = (confs ! i, v')"
    and m: "\<forall>se. se \<in> set ses \<longleftrightarrow> (\<exists>i < length confs. case confs ! i of
        Inr n \<Rightarrow> n < confirmations_needed (mintingRequestedEvents sample_cache ! i) \<and>
          OptimisticMintingRequestedTooEarly (mintingRequestedEvents sample_cache ! i) n
            (confirmations_needed (mintingRequestedEvents sample_cache ! i)) = Inr se
      | Inl er \<Rightarrow> OptimisticMintingRequestedForUndeterminedBtcTx (mintingRequestedEvents sample_cache ! i) (error_text er) = Inr se)"
    using minting_requests_checked[of sample_btc sample_cache sample_world] e by (elim exE conjE) (rule that, assumption, simp, assumption+)
  have "confs ! 0 = Inr 2" using c len g by (metis zero_less_one)
  then have "se \<in> set ses" using m len se n e by simp
  then show ?thesis using r se by blast
qed

subsection \<open>Designated minters\<close>

lemma designated_member: "minters \<noteq> [] \<Longrightarrow> \<exists>m \<in> set minters. getDesignatedMinter minters depositor h = Some m"
  by (simp add: getDesignatedMinter_def Let_def)

lemma filter_res_pure: "filter_res (\<lambda>x. Inr (q x)) xs = Inr (filter q xs)"
proof -
  have m: "map_res (\<lambda>x. Inr (q x)) xs = Inr (map q xs)" by (rule map_res_total) simp
  have "map fst (filter snd (zip xs (map q xs))) = filter q xs" by (induction xs) auto
  then show ?thesis by (simp add: filter_res_def m)
qed

lemma filter_res_cong: "(\<And>x. x \<in> set xs \<Longrightarrow> p x = p' x) \<Longrightarrow> filter_res p xs = filter_res p' xs"
proof -
  assume "\<And>x. x \<in> set xs \<Longrightarrow> p x = p' x"
  then have "map_res p xs = map_res p' xs" by (induction xs) auto
  then show ?thesis by (simp add: filter_res_def)
qed

lemma not_designated_total:
  "\<exists>se. OptimisticMintingNotRequestedByDesignatedMinter ce (Some m) = Inr se"
  using amountSat_total(1)[of "omre_amount ce"] by (auto simp: OptimisticMintingNotRequestedByDesignatedMinter_def minter_text_def)

text \<open>With at least one minter registered the check of the designated minters answers without
  throwing, and it reports exactly the requests made by another minter than the designated one,
  which is a registered minter picked by the last digits of the depositor and of the funding
  transaction.\<close>

theorem designated_minters_checked:
  assumes "cache_minters cache \<noteq> []"
  shows "\<exists>ses. checkDesignatedMintersRequests cache = Inr ses \<and>
     (\<forall>se. se \<in> set ses \<longleftrightarrow> (\<exists>mre \<in> set (mintingRequestedEvents cache). \<exists>m \<in> set (cache_minters cache).
        m = cache_minters cache ! (code_xor (last_code (identifierHex (omre_depositor mre)))
          (last_code (toString (omre_fundingTxHash mre))) mod length (cache_minters cache)) \<and>
        \<not> chain_equals (omre_minter mre) m \<and>
        OptimisticMintingNotRequestedByDesignatedMinter mre (Some m) = Inr se))"
proof -
  let ?n = "\<lambda>mre. cache_minters cache ! (code_xor (last_code (identifierHex (omre_depositor mre)))
          (last_code (toString (omre_fundingTxHash mre))) mod length (cache_minters cache))"
  have n: "?n mre \<in> set (cache_minters cache)" for mre using assms by simp
  let ?xs = "map (\<lambda>mre. (mre, Some (?n mre))) (mintingRequestedEvents cache)"
  have xs: "map (\<lambda>mre. (mre, getDesignatedMinter (cache_minters cache) (omre_depositor mre) (omre_fundingTxHash mre)))
         (mintingRequestedEvents cache) = ?xs"
    using assms by (simp add: getDesignatedMinter_def Let_def)
  have "filter_res (\<lambda>(mre, designated). bind_res (minter_equals (omre_minter mre) designated) (\<lambda>b. Inr (\<not> b))) ?xs =
      filter_res (\<lambda>p. Inr (\<not> chain_equals (omre_minter (fst p)) (the (snd p)))) ?xs"
    by (rule filter_res_cong) (auto simp: minter_equals_def)
  then have f: "filter_res (\<lambda>(mre, designated). bind_res (minter_equals (omre_minter mre) designated) (\<lambda>b. Inr (\<not> b))) ?xs =
      Inr (filter (\<lambda>p. \<not> chain_equals (omre_minter (fst p)) (the (snd p))) ?xs)"
    by (simp only: filter_res_pure)
  obtain ses where m: "map_res (\<lambda>(mre, designated). OptimisticMintingNotRequestedByDesignatedMinter mre designated)
      (filter (\<lambda>p. \<not> chain_equals (omre_minter (fst p)) (the (snd p))) ?xs) = Inr ses"
    using map_res_ok[of "filter (\<lambda>p. \<not> chain_equals (omre_minter (fst p)) (the (snd p))) ?xs"
        "\<lambda>(mre, designated). OptimisticMintingNotRequestedByDesignatedMinter mre designated"] not_designated_total by auto
  have "checkDesignatedMintersRequests cache = Inr ses"
    by (simp only: checkDesignatedMintersRequests_def xs f bind_res_simps(2) m)
  moreover have "se \<in> set ses \<longleftrightarrow> (\<exists>mre \<in> set (mintingRequestedEvents cache). \<exists>m \<in> set (cache_minters cache).
        m = ?n mre \<and> \<not> chain_equals (omre_minter mre) m \<and> OptimisticMintingNotRequestedByDesignatedMinter mre (Some m) = Inr se)" for se
    unfolding map_res_values[OF m] using n by auto
  ultimately show ?thesis by blast
qed

lemma designated_minters_checked_witness:
  "\<exists>ses se. checkDesignatedMintersRequests sample_cache = Inr ses \<and> se \<in> set ses \<and>
     OptimisticMintingNotRequestedByDesignatedMinter sample_minting_request (Some (EthereumAddress ''ab'')) = Inr se"
proof -
  have c: "cache_minters sample_cache \<noteq> []" by (simp add: sample_cache_def)
  obtain se where se: "OptimisticMintingNotRequestedByDesignatedMinter sample_minting_request (Some (EthereumAddress ''ab'')) = Inr se"
    using not_designated_total[of sample_minting_request "EthereumAddress ''ab''"] by (elim exE) (rule that)
  have "\<not> chain_equals (omre_minter sample_minting_request) (EthereumAddress ''ab'')"
    by (auto simp: sample_minting_request_def sample_owner_def dest!: arg_cong[where f = length])
  then show ?thesis using designated_minters_checked[OF c] se
    by (simp add: sample_cache_def) blast
qed

text \<open>With no minter registered the designated minter is \<open>undefined\<close> and the whole check throws.\<close>

lemma no_minters_throws:
  assumes "cache_minters cache = []" "mintingRequestedEvents cache = mre # mres" "omre_minter mre = EthereumAddress a"
  shows "\<exists>e. checkDesignatedMintersRequests cache = Inl e"
  using assms by (simp add: checkDesignatedMintersRequests_def getDesignatedMinter_def filter_res_def minter_equals_def)

text \<open>The alert about a request nobody finalized shows the amount as the contract counts it, with
  18 decimals, where the other alerts of requests show satoshis.\<close>

lemma not_finalized_amount_unscaled:
  assumes "0 < omre_amount ce"
  shows "map_of (se_data (OptimisticMintingNotFinalizedByAnyMinter ce)) ''amountSat'' = Some (show_int (omre_amount ce)) \<and>
     amountSat_of (omre_amount ce) \<noteq> Inr (show_int (omre_amount ce))"
proof -
  have "omre_amount ce div 10 ^ 10 < omre_amount ce" using assms by (intro int_div_less_self) simp_all
  moreover have "amountSat_of (omre_amount ce) = Inr (show_int (omre_amount ce div 10 ^ 10))"
    using assms by (simp add: amountSat_of_def satoshiMultiplier_def bn_div_nonneg)
  ultimately have "amountSat_of (omre_amount ce) \<noteq> Inr (show_int (omre_amount ce))"
    using show_int_inj[of "omre_amount ce div 10 ^ 10" "omre_amount ce"] by auto
  then show ?thesis by (simp add: OptimisticMintingNotFinalizedByAnyMinter_def)
qed

subsection \<open>Rewound windows\<close>

lemma rewound: "f \<le> b + s \<Longrightarrow> b + s \<le> t \<Longrightarrow> 0 \<le> b \<Longrightarrow> rewindBlock f s \<le> b \<and> b \<le> rewindBlock t s"
  by (auto simp: rewindBlock_def)

text \<open>The checks of what is overdue leave no block out. They look at the window of the run moved
  back by their timeout (2400 blocks for redemptions, 600 for minting requests); over any
  history of runs, every block at least the timeout before the checkpoint, from the first
  window on, lies in the moved window of a successful run.\<close>

theorem no_overdue_block_missed:
  assumes db: "event_database checkpointDb lookc handledDb lookh"
    and out: "outside_database lookc lookh monitors receivers latestBlock"
    and g: "growing_chain latest monitors receivers (SystemEventFilePersistence checkpointDb handledDb) latestBlock"
    and env: "chain_grows lookc latest env" "checkpoint_in lookc w0 = 0"
    and h: "history (Manager_trigger monitors receivers (SystemEventFilePersistence checkpointDb handledDb) latestBlock) env w0 reps w"
    and f: "first_start reps = Some f" "0 \<le> b" "f \<le> b + timeout" "b + timeout \<le> checkpoint_in lookc w"
  shows "\<exists>rep \<in> set reps. \<exists>from to. rep_status rep = Success \<and> rep_fromBlock rep = Some from \<and> rep_toBlock rep = Some to \<and>
     rewindBlock from timeout \<le> b \<and> b \<le> rewindBlock to timeout"
proof -
  have "\<exists>rep \<in> set reps. covers rep (b + timeout)"
    using history_keeps_inv[OF file_store[OF db] out g env h] f by (auto simp: history_inv_def covered_up_to_def)
  then show ?thesis using rewound[OF _ _ f(2)] unfolding covers_def by blast
qed

lemma no_overdue_block_missed_witness:
  "\<exists>reps w. history sample_trigger (\<lambda>w w1. w1 = w) sample_world reps w \<and>
     (\<exists>rep \<in> set reps. \<exists>from to. rep_fromBlock rep = Some from \<and> rep_toBlock rep = Some to \<and>
        rewindBlock from 60 \<le> 35 \<and> 35 \<le> rewindBlock to 60)"
proof -
  obtain rep w' where run: "sample_trigger sample_world = (Inr rep, w')" and
    rep: "rep = \<lparr>rep_fromBlock = Some 88, rep_toBlock = Some 100, rep_status = Success, rep_errors = []\<rparr>"
      "mw_checkpoint w' = Some 100"
    using sample_run by auto
  have h: "history sample_trigger (\<lambda>w w1. w1 = w) sample_world [rep] w'"
    using history.run[of sample_trigger "\<lambda>w w1. w1 = w" sample_world "[]" sample_world sample_world rep w'] run
    by (simp add: history.start)
  have "\<exists>rep \<in> set [rep]. \<exists>from to. rep_status rep = Success \<and> rep_fromBlock rep = Some from \<and> rep_toBlock rep = Some to \<and>
        rewindBlock from 60 \<le> 35 \<and> 35 \<le> rewindBlock to 60"
    by (rule no_overdue_block_missed[OF sample_database sample_outside sample_growing sample_grows sample_start h[unfolded sample_trigger_def], where f = 88])
      (use rep in \<open>simp_all add: first_start_def is_success_def checkpoint_in_def checkpoint_of_def\<close>)
  then show ?thesis using h by blast
qed

end
