(* ===== verification/Electrum.thy ===== *)
theory Electrum
  imports Spv Backoff
begin

section \<open>The Electrum client (typescript/src/lib/electrum/client.ts)\<close>

text \<open>
  The Bitcoin client over the Electrum protocol. The protocol library, the timeout wrapper and
  the URL parser of the platform are parameters, and so are the clock and the random numbers of
  the retries. Every operation opens a connection, retries its request and closes the
  connection again. A buffer that a retried function reverses in place is a cell next to the
  world, kept from one attempt to the next.
\<close>

subsection \<open>The protocol library\<close>

record ElectrumCredentials =
  ec_host :: string
  ec_port :: int
  ec_protocol :: string
  ec_path :: "string option"

record UnspentOutput =
  uo_tx_pos :: int
  uo_value :: int
  uo_tx_hash :: string

record HistoryItem =
  hi_height :: int
  hi_tx_hash :: string

record ElectrumMerkle =
  em_block_height :: int
  em_merkle :: "string list"
  em_pos :: int

text \<open>A connection of electrum-client-js; an absent \<open>genesis_hash\<close> is an empty text.\<close>

record 'w electrum =
  el_connect :: "string \<Rightarrow> string \<Rightarrow> ('w, unit) io"
  el_server_ping :: "('w, unit) io"
  el_close :: "'w \<Rightarrow> 'w"
  el_server_features :: "('w, string) io"
  el_scripthash_listunspent :: "string \<Rightarrow> ('w, UnspentOutput list) io"
  el_scripthash_getHistory :: "string \<Rightarrow> ('w, HistoryItem list) io"
  el_transaction_get :: "string \<Rightarrow> bool \<Rightarrow> ('w, string) io"
  el_headers_subscribe :: "('w, int) io"
  el_block_headers :: "int \<Rightarrow> int \<Rightarrow> ('w, string) io"
  el_transaction_getMerkle :: "string \<Rightarrow> int \<Rightarrow> ('w, ElectrumMerkle) io"
  el_transaction_broadcast :: "string \<Rightarrow> ('w, string) io"
  el_transaction_id_from_pos :: "int \<Rightarrow> int \<Rightarrow> bool \<Rightarrow> ('w, string) io"

record url_parts =
  url_protocol :: string
  url_hostname :: string
  url_port :: string
  url_pathname :: string

record 'w electrum_env =
  new_electrum :: "ElectrumCredentials \<Rightarrow> 'w electrum res"
  pTimeout :: "('w, unit) io \<Rightarrow> int \<Rightarrow> string \<Rightarrow> ('w, unit) io"
  parse_url :: "string \<Rightarrow> url_parts res"
  el_runtime :: "'w runtime"
  el_logger :: "string \<Rightarrow> ('w, unit) io"
  el_crypto :: crypto
  el_btcjs :: btcjs

subsection \<open>Construction\<close>

record ElectrumClient =
  ec_credentials :: "ElectrumCredentials list"
  totalRetryAttempts :: int
  retryBackoffStep :: int
  connectionTimeout :: int

definition defaultPorts :: "string \<Rightarrow> int option" where
  "defaultPorts = map_of [(''wss:'', 443), (''ws:'', 80), (''ssl:'', 443), (''tls:'', 443), (''tcp:'', 50001)]"

definition is_digit10 :: "char \<Rightarrow> bool" where
  "is_digit10 c = (case hex_val c of None \<Rightarrow> False | Some v \<Rightarrow> v < 10)"

text \<open>\<open>Number.parseInt(s, 10)\<close>: the digits after spaces and a sign; \<open>None\<close> is \<open>NaN\<close>.\<close>

definition parseInt10 :: "string \<Rightarrow> int option" where
  "parseInt10 s =
     (let t = dropWhile is_space s;
          neg = (t \<noteq> [] \<and> hd t = CHR ''-'');
          u = (if t \<noteq> [] \<and> (hd t = CHR ''-'' \<or> hd t = CHR ''+'') then tl t else t);
          ds = takeWhile is_digit10 u;
          n = foldl (\<lambda>a c. 10 * a + int (the (hex_val c))) 0 ds
      in if ds = [] then None else Some (if neg then - n else n))"

text \<open>\<open>s.replace(":", "")\<close> removes the first colon.\<close>

fun remove_colon :: "string \<Rightarrow> string" where
  "remove_colon [] = []"
| "remove_colon (c # cs) = (if c = CHR '':'' then cs else c # remove_colon cs)"

definition parseElectrumCredentials :: "(string \<Rightarrow> url_parts res) \<Rightarrow> string \<Rightarrow> ElectrumCredentials res" where
  "parseElectrumCredentials parse url =
     bind_res (parse url) (\<lambda>urlObj.
     let port = (if url_port urlObj \<noteq> [] then parseInt10 (url_port urlObj) else defaultPorts (url_protocol urlObj)) in
     if port = None \<or> port = Some 0 then Inl (Error (''missing or invalid port in Electrum URL: '' @ url))
     else Inr \<lparr>ec_host = url_hostname urlObj, ec_port = the port, ec_protocol = remove_colon (url_protocol urlObj),
       ec_path = (if url_pathname urlObj \<noteq> [] \<and> url_pathname urlObj \<noteq> ''/'' then Some (url_pathname urlObj) else None)\<rparr>)"

definition Electrum_fromUrl :: "(string \<Rightarrow> url_parts res) \<Rightarrow> string list \<Rightarrow> ElectrumClient res" where
  "Electrum_fromUrl parse urls =
     bind_res (map_res (parseElectrumCredentials parse) urls) (\<lambda>credentials.
     Inr \<lparr>ec_credentials = credentials, totalRetryAttempts = 3, retryBackoffStep = 1000, connectionTimeout = 20000\<rparr>)"

text \<open>The two lists of servers are the library's JSON files.\<close>

definition Electrum_fromDefaultConfig :: "(string \<Rightarrow> url_parts res) \<Rightarrow> BitcoinNetwork \<Rightarrow> ElectrumClient res" where
  "Electrum_fromDefaultConfig parse network = (case network of
     Mainnet \<Rightarrow> Electrum_fromUrl parse [''wss://electrum.boar.network:2083'']
   | Testnet \<Rightarrow> Electrum_fromUrl parse [''wss://electrum.testnet.boar.network:443/QxbJgaSLUHqrgAa9BW7bDpnGPxrlhnCa'']
   | Unknown \<Rightarrow> Inl (Error ''No default Electrum for given network''))"

subsection \<open>Connections\<close>

definition withBackoffRetrier :: "'w electrum_env \<Rightarrow> ElectrumClient \<Rightarrow> ('w, 'a) io \<Rightarrow> ('w, 'a) io" where
  "withBackoffRetrier env cl fn =
     backoffRetrier (el_runtime env) (totalRetryAttempts cl) (retryBackoffStep cl) (el_logger env) retryAll fn"

definition connect_attempt :: "'w electrum \<Rightarrow> ('w, unit) io" where
  "connect_attempt el =
     catch_io (bind_io (el_connect el ''tbtc-v2'' ''1.4.2'') (\<lambda>_. el_server_ping el))
       (\<lambda>error. throw_io (Error (''Electrum server connection failure: ['' @ error_text error @ '']'')))"

definition electrum_connect :: "'w electrum_env \<Rightarrow> ElectrumClient \<Rightarrow> ElectrumCredentials \<Rightarrow> ('w, 'w electrum) io" where
  "electrum_connect env cl credentials =
     bind_io (lift_io (new_electrum env credentials)) (\<lambda>el.
     bind_io (withBackoffRetrier env cl (pTimeout env (connect_attempt el) (connectionTimeout cl)
         (''timed out on electrum connect after '' @ show_int (connectionTimeout cl) @ '' ms''))) (\<lambda>_.
     return_io el))"

text \<open>The loop over the servers stops at the first that answers.\<close>

fun connect_any :: "'w electrum_env \<Rightarrow> ElectrumClient \<Rightarrow> ElectrumCredentials list \<Rightarrow> ('w, 'w electrum option) io" where
  "connect_any env cl [] = return_io None"
| "connect_any env cl (c # cs) =
     catch_io (bind_io (electrum_connect env cl c) (\<lambda>el. return_io (Some el))) (\<lambda>_. connect_any env cl cs)"

definition withElectrum :: "'w electrum_env \<Rightarrow> ElectrumClient \<Rightarrow> ('w electrum \<Rightarrow> ('w, 'a) io) \<Rightarrow> ('w, 'a) io" where
  "withElectrum env cl action =
     bind_io (connect_any env cl (ec_credentials cl)) (\<lambda>electrum.
     case electrum of
       None \<Rightarrow> throw_io (Error ''failed to connect to any of defined electrum servers'')
     | Some el \<Rightarrow> finally_io (catch_io (action el)
         (\<lambda>error. throw_io (Error (''Electrum action failure: ['' @ error_text error @ '']'')))) (el_close el))"

subsection \<open>Requests\<close>

definition computeElectrumScriptHash :: "crypto \<Rightarrow> Hex \<Rightarrow> string res" where
  "computeElectrumScriptHash c script = bind_res (computeSha256 c script) (\<lambda>h. Inr (toString (hex_reverse h)))"

definition Electrum_getNetwork :: "'w electrum_env \<Rightarrow> ElectrumClient \<Rightarrow> ('w, BitcoinNetwork) io" where
  "Electrum_getNetwork env cl = withElectrum env cl (\<lambda>el.
     bind_io (withBackoffRetrier env cl (el_server_features el)) (\<lambda>genesisHash.
     if genesisHash = []
     then throw_io (Error ''server didn't return the 'genesis_hash' property from `server.features` request'')
     else bind_io (lift_io (Hex_from_string genesisHash)) (\<lambda>h. return_io (fromGenesisHash h))))"

definition toUtxo :: "UnspentOutput \<Rightarrow> BitcoinUtxo res" where
  "toUtxo tx = bind_res (Hex_from_string (uo_tx_hash tx)) (\<lambda>h.
     bind_res (bn_from_number (uo_value tx)) (\<lambda>v.
     Inr \<lparr>op_transactionHash = h, op_outputIndex = uo_tx_pos tx, utxo_value = v\<rparr>))"

definition Electrum_findAllUnspentTransactionOutputs ::
  "'w electrum_env \<Rightarrow> ElectrumClient \<Rightarrow> string \<Rightarrow> ('w, BitcoinUtxo list) io" where
  "Electrum_findAllUnspentTransactionOutputs env cl address = withElectrum env cl (\<lambda>el.
     bind_io (Electrum_getNetwork env cl) (\<lambda>bitcoinNetwork.
     bind_io (lift_io (addressToOutputScript (el_btcjs env) address bitcoinNetwork)) (\<lambda>script.
     bind_io (withBackoffRetrier env cl (bind_io (lift_io (computeElectrumScriptHash (el_crypto env) script))
       (el_scripthash_listunspent el))) (\<lambda>unspentTransactions.
     lift_io (map_res toUtxo (rev unspentTransactions))))))"

text \<open>Confirmed items, by ascending height; \<open>sort\<close> is stable.\<close>

definition confirmedHistory :: "HistoryItem list \<Rightarrow> HistoryItem list" where
  "confirmedHistory historyItems = sort_key hi_height (filter (\<lambda>item. hi_height item > 0) historyItems)"

definition limitHistory :: "int option \<Rightarrow> HistoryItem list \<Rightarrow> HistoryItem list" where
  "limitHistory limit historyItems = (case limit of
     None \<Rightarrow> historyItems
   | Some l \<Rightarrow> if l > 0 \<and> int (length historyItems) > l then drop (length historyItems - nat l) historyItems else historyItems)"

definition scriptHistory :: "'w electrum_env \<Rightarrow> ElectrumClient \<Rightarrow> 'w electrum \<Rightarrow> Hex \<Rightarrow> ('w, HistoryItem list) io" where
  "scriptHistory env cl el script =
     withBackoffRetrier env cl (bind_io (lift_io (computeElectrumScriptHash (el_crypto env) script)) (el_scripthash_getHistory el))"

fun toTxInput :: "js_tx_in \<Rightarrow> BitcoinTxInput" where
  "toTxInput input = \<lparr>op_transactionHash = hex_reverse (Hex_from_buffer (in_hash input)),
     op_outputIndex = in_index input, scriptSig = Hex_from_buffer (in_script input)\<rparr>"

definition toTxOutput :: "nat \<times> js_tx_out \<Rightarrow> BitcoinTxOutput res" where
  "toTxOutput io = bind_res (bn_from_number (out_value (snd io))) (\<lambda>v.
     Inr \<lparr>txo_outputIndex = int (fst io), txo_value = v, scriptPubKey = Hex_from_buffer (out_script (snd io))\<rparr>)"

definition Electrum_getTransaction :: "'w electrum_env \<Rightarrow> ElectrumClient \<Rightarrow> BitcoinTxHash \<Rightarrow> ('w, BitcoinTx) io" where
  "Electrum_getTransaction env cl transactionHash = withElectrum env cl (\<lambda>el.
     bind_io (withBackoffRetrier env cl (el_transaction_get el (toString transactionHash) False)) (\<lambda>rawTransaction.
     if rawTransaction = [] then throw_io (Error ''Transaction not found'')
     else bind_io (lift_io (tx_fromBuffer (el_btcjs env) (hex_to_bytes rawTransaction))) (\<lambda>transaction.
     let inputs = map toTxInput (tx_ins transaction) in
     bind_io (lift_io (map_res toTxOutput (enumerate 0 (tx_outs transaction)))) (\<lambda>outputs.
     bind_io (lift_io (Hex_from_string (tx_getId (el_btcjs env) transaction))) (\<lambda>h.
     return_io \<lparr>bt_transactionHash = h, bt_inputs = inputs, bt_outputs = outputs\<rparr>)))))"

definition Electrum_getTransactionHistory ::
  "'w electrum_env \<Rightarrow> ElectrumClient \<Rightarrow> string \<Rightarrow> int option \<Rightarrow> ('w, BitcoinTx list) io" where
  "Electrum_getTransactionHistory env cl address limit = withElectrum env cl (\<lambda>el.
     bind_io (Electrum_getNetwork env cl) (\<lambda>bitcoinNetwork.
     bind_io (lift_io (addressToOutputScript (el_btcjs env) address bitcoinNetwork)) (\<lambda>script.
     bind_io (scriptHistory env cl el script) (\<lambda>historyItems.
     bind_io (lift_io (map_res (\<lambda>item. Hex_from_string (hi_tx_hash item))
       (limitHistory limit (confirmedHistory historyItems)))) (\<lambda>hashes.
     map_io (Electrum_getTransaction env cl) hashes)))))"

definition Electrum_getRawTransaction :: "'w electrum_env \<Rightarrow> ElectrumClient \<Rightarrow> BitcoinTxHash \<Rightarrow> ('w, BitcoinRawTx) io" where
  "Electrum_getRawTransaction env cl transactionHash = withElectrum env cl (\<lambda>el.
     bind_io (withBackoffRetrier env cl (el_transaction_get el (toString transactionHash) False)) (\<lambda>transaction.
     return_io \<lparr>transactionHex = transaction\<rparr>))"

definition Electrum_latestBlockHeight :: "'w electrum_env \<Rightarrow> ElectrumClient \<Rightarrow> ('w, int) io" where
  "Electrum_latestBlockHeight env cl = withElectrum env cl (\<lambda>el. withBackoffRetrier env cl (el_headers_subscribe el))"

subsection \<open>Confirmations\<close>

text \<open>A function over a world and a cell, from one over the world.\<close>

definition with_cell :: "('w, 'a) io \<Rightarrow> ('w \<times> 'c, 'a) io" where
  "with_cell m = (\<lambda>(w, cell). case m w of (r, w') \<Rightarrow> (r, (w', cell)))"

definition cell_runtime :: "'w runtime \<Rightarrow> ('w \<times> 'c) runtime" where
  "cell_runtime rt = \<lparr>random100 = (\<lambda>(w, cell). case random100 rt w of (j, w') \<Rightarrow> (j, (w', cell))),
     sleep = (\<lambda>ms (w, cell). (sleep rt ms w, cell))\<rparr>"

text \<open>\<open>scriptHash.reverse()\<close> reverses the buffer in place, in every attempt.\<close>

definition reversingQuery :: "'w electrum \<Rightarrow> ('w \<times> byte list, HistoryItem list) io" where
  "reversingQuery el = (\<lambda>(w, scriptHash).
     let reversed = rev scriptHash in
     case el_scripthash_getHistory el (bytes_to_hex reversed) w of (r, w') \<Rightarrow> (r, (w', reversed)))"

definition outputHistory :: "'w electrum_env \<Rightarrow> ElectrumClient \<Rightarrow> 'w electrum \<Rightarrow> byte list \<Rightarrow> ('w, HistoryItem list) io" where
  "outputHistory env cl el scriptHash = (\<lambda>w.
     case backoffRetrier (cell_runtime (el_runtime env)) (totalRetryAttempts cl) (retryBackoffStep cl)
       (\<lambda>m. with_cell (el_logger env m)) retryAll (reversingQuery el) (w, scriptHash) of
     (r, (w', _)) \<Rightarrow> (r, w'))"

text \<open>The loop over the outputs; \<open>None\<close> is the initial height \<open>Math.min()\<close>, which is infinity.\<close>

fun findTxBlockHeight ::
  "'w electrum_env \<Rightarrow> ElectrumClient \<Rightarrow> 'w electrum \<Rightarrow> BitcoinTxHash \<Rightarrow> js_tx_out list \<Rightarrow> ('w, int option) io" where
  "findTxBlockHeight env cl el transactionHash [] = return_io None"
| "findTxBlockHeight env cl el transactionHash (output # outputs) =
     bind_io (lift_io (computeSha256 (el_crypto env) (Hex_from_buffer (out_script output)))) (\<lambda>h.
     bind_io (outputHistory env cl el (toBuffer h)) (\<lambda>scriptHashHistory.
     case find (\<lambda>t. hi_tx_hash t = toString transactionHash) scriptHashHistory of
       Some tx \<Rightarrow> return_io (Some (hi_height tx))
     | None \<Rightarrow> findTxBlockHeight env cl el transactionHash outputs))"

definition Electrum_getTransactionConfirmations ::
  "'w electrum_env \<Rightarrow> ElectrumClient \<Rightarrow> BitcoinTxHash \<Rightarrow> ('w, int) io" where
  "Electrum_getTransactionConfirmations env cl transactionHash = withElectrum env cl (\<lambda>el.
     bind_io (withBackoffRetrier env cl (el_transaction_get el (toString transactionHash) False)) (\<lambda>rawTransaction.
     bind_io (lift_io (tx_fromBuffer (el_btcjs env) (hex_to_bytes rawTransaction))) (\<lambda>transaction.
     bind_io (findTxBlockHeight env cl el transactionHash (tx_outs transaction)) (\<lambda>txBlockHeight.
     case txBlockHeight of
       None \<Rightarrow> throw_io (Error ''failed to find the transaction block height in script hashes' histories'')
     | Some height \<Rightarrow>
         if height > 0
         then bind_io (Electrum_latestBlockHeight env cl) (\<lambda>latest.
           if latest \<ge> height then return_io (latest - height + 1) else return_io 0)
         else return_io 0))))"

subsection \<open>Histories of a wallet, headers, proofs, broadcast\<close>

definition getConfirmedHistory ::
  "'w electrum_env \<Rightarrow> ElectrumClient \<Rightarrow> 'w electrum \<Rightarrow> Hex \<Rightarrow> BitcoinNetwork \<Rightarrow> bool \<Rightarrow> ('w, HistoryItem list) io" where
  "getConfirmedHistory env cl el publicKeyHash bitcoinNetwork witnessAddress =
     bind_io (lift_io (publicKeyHashToAddress (el_btcjs env) publicKeyHash witnessAddress bitcoinNetwork)) (\<lambda>address.
     bind_io (lift_io (addressToOutputScript (el_btcjs env) address bitcoinNetwork)) (\<lambda>script.
     bind_io (scriptHistory env cl el script) (\<lambda>historyItems.
     return_io (confirmedHistory historyItems))))"

definition Electrum_getTxHashesForPublicKeyHash ::
  "'w electrum_env \<Rightarrow> ElectrumClient \<Rightarrow> Hex \<Rightarrow> ('w, BitcoinTxHash list) io" where
  "Electrum_getTxHashesForPublicKeyHash env cl publicKeyHash = withElectrum env cl (\<lambda>el.
     bind_io (Electrum_getNetwork env cl) (\<lambda>bitcoinNetwork.
     bind_io (getConfirmedHistory env cl el publicKeyHash bitcoinNetwork False) (\<lambda>p2pkhItems.
     bind_io (getConfirmedHistory env cl el publicKeyHash bitcoinNetwork True) (\<lambda>p2wpkhItems.
     lift_io (map_res (\<lambda>item. Hex_from_string (hi_tx_hash item)) (sort_key hi_height (p2pkhItems @ p2wpkhItems)))))))"

definition Electrum_getHeadersChain :: "'w electrum_env \<Rightarrow> ElectrumClient \<Rightarrow> int \<Rightarrow> int \<Rightarrow> ('w, Hex) io" where
  "Electrum_getHeadersChain env cl blockHeight chainLength = withElectrum env cl (\<lambda>el.
     bind_io (withBackoffRetrier env cl (el_block_headers el blockHeight (chainLength + 1))) (\<lambda>hex.
     lift_io (Hex_from_string hex)))"

definition Electrum_getTransactionMerkle ::
  "'w electrum_env \<Rightarrow> ElectrumClient \<Rightarrow> BitcoinTxHash \<Rightarrow> int \<Rightarrow> ('w, BitcoinTxMerkleBranch) io" where
  "Electrum_getTransactionMerkle env cl transactionHash blockHeight = withElectrum env cl (\<lambda>el.
     bind_io (withBackoffRetrier env cl (el_transaction_getMerkle el (toString transactionHash) blockHeight)) (\<lambda>merkle.
     bind_io (lift_io (map_res Hex_from_string (em_merkle merkle))) (\<lambda>nodes.
     return_io \<lparr>mb_blockHeight = em_block_height merkle, mb_merkle = nodes, mb_position = em_pos merkle\<rparr>)))"

definition Electrum_broadcast :: "'w electrum_env \<Rightarrow> ElectrumClient \<Rightarrow> BitcoinRawTx \<Rightarrow> ('w, unit) io" where
  "Electrum_broadcast env cl transaction = withElectrum env cl (\<lambda>el.
     bind_io (withBackoffRetrier env cl (el_transaction_broadcast el (transactionHex transaction))) (\<lambda>_. return_io ()))"

definition Electrum_getCoinbaseTxHash :: "'w electrum_env \<Rightarrow> ElectrumClient \<Rightarrow> int \<Rightarrow> ('w, BitcoinTxHash) io" where
  "Electrum_getCoinbaseTxHash env cl blockHeight = withElectrum env cl (\<lambda>el.
     bind_io (withBackoffRetrier env cl (el_transaction_id_from_pos el blockHeight 0 False)) (\<lambda>txHash.
     lift_io (Hex_from_string txHash)))"

definition electrum_bitcoin_client :: "'w electrum_env \<Rightarrow> ElectrumClient \<Rightarrow> 'w bitcoin_client" where
  "electrum_bitcoin_client env cl = \<lparr>getNetwork = Electrum_getNetwork env cl,
     findAllUnspentTransactionOutputs = Electrum_findAllUnspentTransactionOutputs env cl,
     getTransactionHistory = Electrum_getTransactionHistory env cl,
     getTransaction = Electrum_getTransaction env cl,
     getRawTransaction = Electrum_getRawTransaction env cl,
     getTransactionConfirmations = Electrum_getTransactionConfirmations env cl,
     getTxHashesForPublicKeyHash = Electrum_getTxHashesForPublicKeyHash env cl,
     latestBlockHeight = Electrum_latestBlockHeight env cl,
     getHeadersChain = Electrum_getHeadersChain env cl,
     getTransactionMerkle = Electrum_getTransactionMerkle env cl,
     broadcast = Electrum_broadcast env cl,
     getCoinbaseTxHash = Electrum_getCoinbaseTxHash env cl\<rparr>"

end
