(* ===== verification/ElectrumClaims.thy ===== *)
theory ElectrumClaims
  imports Electrum
begin

section \<open>What the Electrum client guarantees\<close>

text \<open>
  The lemmas follow a request through the connection and the retries. A server that answers the
  same at any time is described by \<open>steady\<close>; the properties show which server is used and that
  its connection is closed, what the confirmations are, and which script hash each attempt of a
  retried request asks for.
\<close>

subsection \<open>A server for the witnesses\<close>

text \<open>Its chain has 100 blocks; every script has one transaction, at height 95.\<close>

definition sample_electrum :: "unit electrum" where
  "sample_electrum = \<lparr>el_connect = (\<lambda>_ _. return_io ()), el_server_ping = return_io (), el_close = (\<lambda>w. w),
     el_server_features = return_io ''00'', el_scripthash_listunspent = (\<lambda>_. return_io []),
     el_scripthash_getHistory = (\<lambda>_. return_io [\<lparr>hi_height = 95, hi_tx_hash = ''05''\<rparr>]),
     el_transaction_get = (\<lambda>_ _. return_io ''00''), el_headers_subscribe = return_io 100,
     el_block_headers = (\<lambda>_ _. return_io ''00''),
     el_transaction_getMerkle = (\<lambda>_ _. throw_io (Error ''unknown'')),
     el_transaction_broadcast = (\<lambda>h. return_io h), el_transaction_id_from_pos = (\<lambda>_ _ _. return_io ''05'')\<rparr>"

definition sample_electrum_env :: "unit electrum_env" where
  "sample_electrum_env = \<lparr>new_electrum = (\<lambda>_. Inr sample_electrum), pTimeout = (\<lambda>m _ _. m),
     parse_url = (\<lambda>_. Inl (Error ''Invalid URL'')),
     el_runtime = \<lparr>random100 = (\<lambda>w. (7, w)), sleep = (\<lambda>_ w. w)\<rparr>, el_logger = silent, el_crypto = sample_crypto,
     el_btcjs = sample_btcjs\<lparr>tx_fromBuffer := (\<lambda>b. Inr \<lparr>tx_version = 1, tx_ins = [],
       tx_outs = [\<lparr>out_value = 5, out_script = [1, 2]\<rparr>], tx_locktime = 0\<rparr>)\<rparr>\<rparr>"

definition sample_electrum_client :: ElectrumClient where
  "sample_electrum_client = \<lparr>ec_credentials = [\<lparr>ec_host = ''h'', ec_port = 443, ec_protocol = ''wss'', ec_path = None\<rparr>],
     totalRetryAttempts = 3, retryBackoffStep = 1000, connectionTimeout = 20000\<rparr>"

lemma sample_logger: "logger_total (el_logger sample_electrum_env)"
  by (simp add: sample_electrum_env_def logger_total_def silent_def)

subsection \<open>Connections\<close>

lemma connect_any_cases:
  "connect_any env cl cs w = (r, w') \<Longrightarrow>
   (r = Inr None \<and> (\<forall>c \<in> set cs. \<exists>v e v'. electrum_connect env cl c v = (Inl e, v'))) \<or>
   (\<exists>i el v. i < length cs \<and> r = Inr (Some el) \<and> electrum_connect env cl (cs ! i) v = (Inr el, w') \<and>
      (\<forall>j < i. \<exists>u e u'. electrum_connect env cl (cs ! j) u = (Inl e, u')))"
proof (induction cs arbitrary: w)
  case (Cons c cs)
  obtain q w1 where q: "electrum_connect env cl c w = (q, w1)" by fastforce
  show ?case
  proof (cases q)
    case (Inr el)
    then have "r = Inr (Some el)" "w' = w1" using Cons.prems q by simp_all
    then show ?thesis using q Inr by (intro disjI2 exI[of _ 0] exI[of _ el] exI[of _ w]) simp
  next
    case (Inl e)
    then have "connect_any env cl cs w1 = (r, w')" using Cons.prems q by simp
    from Cons.IH[OF this] show ?thesis
    proof (elim disjE exE conjE)
      assume "r = Inr None" "\<forall>c \<in> set cs. \<exists>v e v'. electrum_connect env cl c v = (Inl e, v')"
      then show ?thesis using q Inl by auto
    next
      fix i el v
      assume i: "i < length cs" "r = Inr (Some el)" "electrum_connect env cl (cs ! i) v = (Inr el, w')"
        "\<forall>j < i. \<exists>u e u'. electrum_connect env cl (cs ! j) u = (Inl e, u')"
      have "\<exists>u e u'. electrum_connect env cl ((c # cs) ! j) u = (Inl e, u')" if "j < Suc i" for j
        using that i(4) q Inl by (cases j) auto
      then show ?thesis using i(1-3) by (intro disjI2 exI[of _ "Suc i"] exI[of _ el] exI[of _ v]) simp
    qed
  qed
qed simp

text \<open>C34: An operation of the client uses the first server that answers and closes the connection
  whatever becomes of the operation: the world it ends in is the one its action left, closed. An
  error of the action is wrapped; when no server answers the action is not run at all.\<close>

theorem withElectrum_closes:
  assumes "withElectrum env cl action w = (r, w')"
  shows "(r = Inl (Error ''failed to connect to any of defined electrum servers'') \<and>
       (\<forall>c \<in> set (ec_credentials cl). \<exists>v e v'. electrum_connect env cl c v = (Inl e, v'))) \<or>
     (\<exists>i el v v1 q v2. i < length (ec_credentials cl) \<and>
       (\<forall>j < i. \<exists>u e u'. electrum_connect env cl (ec_credentials cl ! j) u = (Inl e, u')) \<and>
       electrum_connect env cl (ec_credentials cl ! i) v = (Inr el, v1) \<and> action el v1 = (q, v2) \<and>
       w' = el_close el v2 \<and>
       r = (case q of Inr x \<Rightarrow> Inr x | Inl e \<Rightarrow> Inl (Error (''Electrum action failure: ['' @ error_text e @ '']''))))"
proof -
  obtain q w1 where c: "connect_any env cl (ec_credentials cl) w = (q, w1)" by fastforce
  from connect_any_cases[OF c] show ?thesis
  proof (elim disjE exE conjE)
    assume "q = Inr None" "\<forall>c \<in> set (ec_credentials cl). \<exists>v e v'. electrum_connect env cl c v = (Inl e, v')"
    then show ?thesis using assms c by (simp add: withElectrum_def)
  next
    fix i el v
    assume i: "i < length (ec_credentials cl)" "q = Inr (Some el)" "electrum_connect env cl (ec_credentials cl ! i) v = (Inr el, w1)"
      "\<forall>j < i. \<exists>u e u'. electrum_connect env cl (ec_credentials cl ! j) u = (Inl e, u')"
    obtain x v2 where x: "action el w1 = (x, v2)" by fastforce
    have "w' = el_close el v2 \<and>
       r = (case x of Inr x \<Rightarrow> Inr x | Inl e \<Rightarrow> Inl (Error (''Electrum action failure: ['' @ error_text e @ '']'')))"
      using assms c i(2) x by (cases x) (auto simp add: withElectrum_def finally_io_app)
    then show ?thesis using i(1,3,4) x
      by (intro disjI2 exI[of _ i] exI[of _ el] exI[of _ v] exI[of _ w1] exI[of _ x] exI[of _ v2]) simp
  qed
qed

lemma withElectrum_closes_witness:
  "\<exists>v1 q v2. withElectrum sample_electrum_env sample_electrum_client el_headers_subscribe () = (Inr 100, ()) \<and>
     el_headers_subscribe sample_electrum v1 = (q, v2) \<and> q = Inr 100"
proof -
  have c: "electrum_connect sample_electrum_env sample_electrum_client c () = (Inr sample_electrum, ())" for c
    by (simp add: electrum_connect_def withBackoffRetrier_def backoffRetrier_def sample_electrum_client_def sample_electrum_env_def
        connect_attempt_def sample_electrum_def guardedAttempt_def silent_def bind_io_def catch_io_def numeral_3_eq_3)
  have w: "withElectrum sample_electrum_env sample_electrum_client el_headers_subscribe () = (Inr 100, ())"
  proof -
    obtain cr where cr: "ec_credentials sample_electrum_client = [cr]" by (simp add: sample_electrum_client_def)
    show ?thesis unfolding withElectrum_def cr by (simp add: c bind_io_def catch_io_def finally_io_def) (simp add: sample_electrum_def)
  qed
  show ?thesis using withElectrum_closes[OF w] w c by (auto simp: sample_electrum_client_def sample_electrum_def)
qed

subsection \<open>Retried histories\<close>

text \<open>The retries of a history request, attempt by attempt: the even ones ask for the reversed hash,
  the odd ones for the hash as it is.\<close>

definition asked_hash :: "byte list \<Rightarrow> nat \<Rightarrow> string" where
  "asked_hash scriptHash attempt = bytes_to_hex (if even attempt then rev scriptHash else scriptHash)"

fun historyAttempts ::
  "'w electrum_env \<Rightarrow> ElectrumClient \<Rightarrow> 'w electrum \<Rightarrow> byte list \<Rightarrow> nat \<Rightarrow> nat \<Rightarrow> ('w, HistoryItem list) io" where
  "historyAttempts env cl el scriptHash attempt 0 = el_scripthash_getHistory el (asked_hash scriptHash attempt)"
| "historyAttempts env cl el scriptHash attempt (Suc left) =
     catch_io (guardedAttempt (el_logger env) (el_scripthash_getHistory el (asked_hash scriptHash attempt)) attempt) (\<lambda>error.
       bind_io (backoffWait (el_runtime env) (el_logger env) (retryBackoffStep cl) attempt error)
         (\<lambda>_. historyAttempts env cl el scriptHash (Suc attempt) left))"

lemma guarded_cell:
  assumes "logger msg w = (Inr (), w1)" "msg = ''making attempt number '' @ show_nat a"
  shows "guardedAttempt (\<lambda>m. with_cell (logger m)) fn a (w, cell) = fn (w1, cell)" "guardedAttempt logger fn' a w = fn' w1"
  using assms by (simp_all add: guardedAttempt_def with_cell_def bind_io_def)

lemma backoffWait_cell:
  "backoffWait (cell_runtime rt) (\<lambda>m. with_cell (logger m)) step a e (w, cell) =
     (case backoffWait rt logger step a e w of (r, w') \<Rightarrow> (r, (w', cell)))"
  by (auto simp: backoffWait_def cell_runtime_def with_cell_def bind_io_def Let_def split: prod.splits sum.splits)

definition cell_before :: "byte list \<Rightarrow> nat \<Rightarrow> byte list" where
  "cell_before scriptHash attempt = (if even attempt then scriptHash else rev scriptHash)"

lemma reversingQuery_at:
  "reversingQuery el (w, cell_before h a) =
     (case el_scripthash_getHistory el (asked_hash h a) w of (r, w') \<Rightarrow> (r, (w', cell_before h (Suc a))))"
  by (simp add: reversingQuery_def cell_before_def asked_hash_def split: prod.splits)

lemma backoffLoop_cell:
  assumes l: "logger_total (el_logger env)"
  shows "(case backoffLoop (cell_runtime (el_runtime env)) (retryBackoffStep cl) (\<lambda>m. with_cell (el_logger env m)) retryAll
      (reversingQuery el) a n (w, cell_before h a) of (r, (w', _)) \<Rightarrow> (r, w')) = historyAttempts env cl el h a n w"
proof (induction n arbitrary: a w)
  case 0
  then show ?case by (simp add: reversingQuery_at split: prod.splits)
next
  case (Suc n)
  let ?m = "''making attempt number '' @ show_nat a"
  let ?get = "el_scripthash_getHistory el (asked_hash h a)"
  obtain w1 where w1: "el_logger env ?m w = (Inr (), w1)" using l by (auto simp: logger_total_def)
  obtain r w2 where g: "?get w1 = (r, w2)" by fastforce
  note guard = guarded_cell[where logger = "el_logger env", OF w1 refl]
  have g1: "guardedAttempt (\<lambda>m. with_cell (el_logger env m)) (reversingQuery el) a (w, cell_before h a) = (r, (w2, cell_before h (Suc a)))"
    unfolding guard(1) reversingQuery_at g by simp
  have g2: "guardedAttempt (el_logger env) ?get a w = (r, w2)" unfolding guard(2) g by simp
  show ?case
  proof (cases r)
    case (Inr x)
    then show ?thesis using g1 g2 by simp
  next
    case (Inl e)
    obtain q w3 where b: "backoffWait (el_runtime env) (el_logger env) (retryBackoffStep cl) a e w2 = (q, w3)" by fastforce
    have b1: "backoffWait (cell_runtime (el_runtime env)) (\<lambda>m. with_cell (el_logger env m)) (retryBackoffStep cl) a e (w2, cell_before h (Suc a)) =
        (q, (w3, cell_before h (Suc a)))" using b by (simp add: backoffWait_cell)
    show ?thesis
    proof (cases q)
      case (Inl e')
      then show ?thesis using g1 g2 b b1 \<open>r = Inl e\<close> by (simp add: retryAll_def)
    next
      case (Inr u)
      then show ?thesis using g1 g2 b b1 \<open>r = Inl e\<close> Suc.IH[of "Suc a" w3] by (simp add: retryAll_def)
    qed
  qed
qed

lemma retried_loop:
  assumes "logger_total (el_logger env)"
  shows "outputHistory env cl el scriptHash w = historyAttempts env cl el scriptHash 0 (nat (totalRetryAttempts cl)) w"
  using backoffLoop_cell[OF assms, of cl el 0 "nat (totalRetryAttempts cl)" w scriptHash]
  by (simp add: outputHistory_def backoffRetrier_def cell_before_def split: prod.splits)

text \<open>C35: The history request of the confirmations reverses its script hash in place, in every
  attempt: run with its buffer it behaves like a loop whose first attempt asks for the reversed
  hash, as Electrum wants it, the second for the hash unreversed, and so on in turn.\<close>

theorem retried_history_alternates:
  assumes "logger_total (el_logger env)"
  shows "outputHistory env cl el scriptHash w = historyAttempts env cl el scriptHash 0 (nat (totalRetryAttempts cl)) w"
  by (rule retried_loop[OF assms])

lemma retried_history_alternates_witness:
  "outputHistory sample_electrum_env sample_electrum_client sample_electrum [1, 2] () =
     historyAttempts sample_electrum_env sample_electrum_client sample_electrum [1, 2] 0 3 ()"
  using retried_history_alternates[OF sample_logger, of sample_electrum_client sample_electrum "[1, 2]" "()"]
  by (simp add: sample_electrum_client_def)

text \<open>A hash that is not a palindrome is asked for in two different ways.\<close>

lemma second_attempt_asks_another_hash: "rev scriptHash \<noteq> scriptHash \<Longrightarrow> asked_hash scriptHash 1 \<noteq> asked_hash scriptHash 0"
  by (auto simp: asked_hash_def)

subsection \<open>A server that answers\<close>

text \<open>An operation that gives the same answer in every world.\<close>

definition steady :: "('w, 'a) io \<Rightarrow> 'a \<Rightarrow> bool" where
  "steady m x = (\<forall>w. \<exists>w'. m w = (Inr x, w'))"

lemma steadyE: "steady m x \<Longrightarrow> (\<And>w'. m w = (Inr x, w') \<Longrightarrow> thesis) \<Longrightarrow> thesis"
  unfolding steady_def by blast

lemma steady_basic [simp]: "steady (return_io x) x" "steady (lift_io (Inr x)) x"
  by (simp_all add: steady_def)

lemma steady_bind: "steady m x \<Longrightarrow> steady (f x) y \<Longrightarrow> steady (bind_io m f) y"
  unfolding steady_def bind_io_Inr by blast

lemma steady_catch: "steady m x \<Longrightarrow> steady (catch_io m h) x"
  unfolding steady_def by (metis catch_io_ok)

lemma steady_finally: "steady m x \<Longrightarrow> steady (finally_io m k) x"
  unfolding steady_def by (simp add: finally_io_app) (metis fst_conv)

lemma steady_guarded: "logger_total logger \<Longrightarrow> steady fn x \<Longrightarrow> steady (guardedAttempt logger fn a) x"
  unfolding guardedAttempt_def by (rule steady_bind[where x = "()"]) (simp_all add: steady_def logger_total_def)

lemma steady_retried: "logger_total logger \<Longrightarrow> steady fn x \<Longrightarrow> steady (backoffRetrier rt n step logger matcher fn) x"
  unfolding backoffRetrier_def by (cases "nat n") (simp_all add: steady_catch steady_guarded)

text \<open>The first of the servers can be reached.\<close>

definition reachable :: "'w electrum_env \<Rightarrow> ElectrumClient \<Rightarrow> 'w electrum \<Rightarrow> bool" where
  "reachable env cl el = (logger_total (el_logger env) \<and>
     (\<exists>c cs. ec_credentials cl = c # cs \<and> new_electrum env c = Inr el) \<and>
     steady (pTimeout env (connect_attempt el) (connectionTimeout cl)
       (''timed out on electrum connect after '' @ show_int (connectionTimeout cl) @ '' ms'')) ())"

lemma steady_request: "reachable env cl el \<Longrightarrow> steady fn x \<Longrightarrow> steady (withBackoffRetrier env cl fn) x"
  unfolding withBackoffRetrier_def reachable_def by (simp add: steady_retried)

lemma steady_connect: "reachable env cl el \<Longrightarrow> steady (connect_any env cl (ec_credentials cl)) (Some el)"
proof -
  assume r: "reachable env cl el"
  then obtain c cs where c: "ec_credentials cl = c # cs" "new_electrum env c = Inr el" by (auto simp: reachable_def)
  have "steady (electrum_connect env cl c) el"
    unfolding electrum_connect_def
    by (rule steady_bind[where x = el], simp add: c(2), rule steady_bind[where x = "()"], rule steady_request[OF r])
      (use r in \<open>simp_all add: reachable_def\<close>)
  then show ?thesis using c(1) by (simp add: steady_catch steady_bind)
qed

lemma steady_withElectrum: "reachable env cl el \<Longrightarrow> steady (action el) x \<Longrightarrow> steady (withElectrum env cl action) x"
  unfolding withElectrum_def
  by (rule steady_bind[where x = "Some el"]) (simp_all add: steady_connect steady_finally steady_catch)

lemma steady_outputHistory:
  assumes r: "reachable env cl el" and h: "steady (el_scripthash_getHistory el (bytes_to_hex (rev scriptHash))) x"
  shows "steady (outputHistory env cl el scriptHash) x"
proof -
  have l: "logger_total (el_logger env)" using r by (simp add: reachable_def)
  have "steady (historyAttempts env cl el scriptHash 0 n) x" for n
    using h by (cases n) (simp_all add: asked_hash_def steady_catch steady_guarded[OF l])
  then show ?thesis using retried_loop[OF l] by (simp add: steady_def)
qed

subsection \<open>Confirmations\<close>

text \<open>The first entry for the transaction in the histories of its outputs.\<close>

definition recorded :: "crypto \<Rightarrow> (string \<Rightarrow> HistoryItem list) \<Rightarrow> BitcoinTxHash \<Rightarrow> js_tx_out list \<Rightarrow> HistoryItem option" where
  "recorded c H h outs = find (\<lambda>item. hi_tx_hash item = toString h)
     (concat (map (\<lambda>out. H (bytes_to_hex (rev (digest (sha256 c) (out_script out))))) outs))"

lemma find_append: "find P (xs @ ys) = (case find P xs of None \<Rightarrow> find P ys | Some x \<Rightarrow> Some x)"
  by (induction xs) auto

lemma steady_height:
  assumes r: "reachable env cl el" and c: "hash_function (sha256 (el_crypto env)) 32"
    and H: "\<forall>s. steady (el_scripthash_getHistory el s) (H s)" and outs: "\<forall>out \<in> set outs. out_script out \<noteq> []"
  shows "steady (findTxBlockHeight env cl el h outs) (map_option hi_height (recorded (el_crypto env) H h outs))"
  using outs
proof (induction outs)
  case (Cons out outs)
  let ?d = "digest (sha256 (el_crypto env)) (out_script out)"
  let ?hist = "H (bytes_to_hex (rev ?d))"
  have s: "computeSha256 (el_crypto env) (Hex_from_buffer (out_script out)) = Inr (Hex ?d)"
    using Cons.prems computeSha256_bytes[OF c] by (simp add: Hex_from_buffer_def)
  have o: "steady (outputHistory env cl el (toBuffer (Hex ?d))) ?hist"
    using steady_outputHistory[OF r] H by simp
  have rest: "steady (case find (\<lambda>t. hi_tx_hash t = toString h) ?hist of
       Some tx \<Rightarrow> return_io (Some (hi_height tx)) | None \<Rightarrow> findTxBlockHeight env cl el h outs)
     (map_option hi_height (recorded (el_crypto env) H h (out # outs)))"
    using Cons by (cases "find (\<lambda>t. hi_tx_hash t = toString h) ?hist") (simp_all add: recorded_def find_append)
  show ?case unfolding findTxBlockHeight.simps
    by (rule steady_bind[where x = "Hex ?d"], simp add: s, rule steady_bind[where x = ?hist], rule o, rule rest)
qed (simp add: recorded_def)

text \<open>C33: When the server answers, the confirmations of a transaction are counted from the height
  that the histories of its output scripts record and the height of the chain: one for the
  latest block, none for a transaction in the memory pool or above the chain. When no history
  knows the transaction the operation fails.\<close>

theorem confirmations_counted:
  assumes r: "reachable env cl el" and c: "hash_function (sha256 (el_crypto env)) 32"
    and raw: "steady (el_transaction_get el (toString h) False) raw"
    and tx: "tx_fromBuffer (el_btcjs env) (hex_to_bytes raw) = Inr t" "\<forall>out \<in> set (tx_outs t). out_script out \<noteq> []"
    and H: "\<forall>s. steady (el_scripthash_getHistory el s) (H s)" and L: "steady (el_headers_subscribe el) latest"
  shows "case recorded (el_crypto env) H h (tx_outs t) of
     Some item \<Rightarrow> steady (Electrum_getTransactionConfirmations env cl h)
       (if 0 < hi_height item \<and> hi_height item \<le> latest then latest - hi_height item + 1 else 0)
   | None \<Rightarrow> (\<forall>w. \<exists>e w'. Electrum_getTransactionConfirmations env cl h w = (Inl e, w'))"
proof (cases "recorded (el_crypto env) H h (tx_outs t)")
  case (Some item)
  note height = steady_height[OF r c H tx(2), of h]
  have latest: "steady (Electrum_latestBlockHeight env cl) latest"
    unfolding Electrum_latestBlockHeight_def by (rule steady_withElectrum[OF r], rule steady_request[OF r L])
  have "steady (Electrum_getTransactionConfirmations env cl h)
       (if 0 < hi_height item \<and> hi_height item \<le> latest then latest - hi_height item + 1 else 0)"
    unfolding Electrum_getTransactionConfirmations_def
    by (rule steady_withElectrum[OF r], rule steady_bind[OF steady_request[OF r raw]], rule steady_bind[where x = t], simp add: tx(1),
        rule steady_bind[OF height]) (use Some in \<open>auto intro!: steady_bind[OF latest]\<close>)
  then show ?thesis using Some by simp
next
  case None
  have "\<exists>e w'. Electrum_getTransactionConfirmations env cl h w = (Inl e, w')" for w
  proof -
    obtain w1 where 1: "connect_any env cl (ec_credentials cl) w = (Inr (Some el), w1)" using steady_connect[OF r] by (rule steadyE)
    obtain w2 where 2: "withBackoffRetrier env cl (el_transaction_get el (toString h) False) w1 = (Inr raw, w2)"
      using steady_request[OF r raw] by (rule steadyE)
    obtain w3 where 3: "findTxBlockHeight env cl el h (tx_outs t) w2 = (Inr None, w3)"
      using steady_height[OF r c H tx(2), of h] None by (auto elim: steadyE)
    show ?thesis unfolding Electrum_getTransactionConfirmations_def withElectrum_def
      using 1 2 3 by (simp add: finally_io_app tx(1))
  qed
  then show ?thesis using None by simp
qed

lemma confirmations_counted_witness:
  "steady (Electrum_getTransactionConfirmations sample_electrum_env sample_electrum_client (Hex [5])) 6"
proof -
  have r: "reachable sample_electrum_env sample_electrum_client sample_electrum"
    using sample_logger by (simp add: reachable_def sample_electrum_client_def sample_electrum_env_def connect_attempt_def
        sample_electrum_def steady_def catch_io_def bind_io_def)
  have c: "hash_function (sha256 (el_crypto sample_electrum_env)) 32"
    using crypto_ok_sample by (simp add: crypto_ok_def sample_electrum_env_def)
  have s: "toString (Hex [5]) = ''05''" by (simp add: byte_hex_def hex_digit_def hex_digits_def)
  have raw: "steady (el_transaction_get sample_electrum (toString (Hex [5])) False) ''00''"
    and H: "\<forall>s. steady (el_scripthash_getHistory sample_electrum s) [\<lparr>hi_height = 95, hi_tx_hash = ''05''\<rparr>]"
    and L: "steady (el_headers_subscribe sample_electrum) 100" by (simp_all add: sample_electrum_def)
  have tx: "tx_fromBuffer (el_btcjs sample_electrum_env) (hex_to_bytes ''00'') = Inr \<lparr>tx_version = 1, tx_ins = [],
       tx_outs = [\<lparr>out_value = 5, out_script = [1, 2]\<rparr>], tx_locktime = 0\<rparr>" by (simp add: sample_electrum_env_def)
  show ?thesis using confirmations_counted[OF r c raw tx _ H L] by (simp add: recorded_def byte_hex_def hex_digit_def hex_digits_def)
qed

end
