(* ===== verification/EthersAdapter.thy ===== *)
theory EthersAdapter
  imports Bridge Backoff
begin

section \<open>The ethers adapter (typescript/src/lib/ethereum/adapter.ts)\<close>

text \<open>
  How contract handles read events and send transactions: events come from one query or, when
  that fails, from queries of batches of blocks; transactions are retried unless they revert
  with one of the given messages. The contract is a parameter: its event filter of one name,
  with the blocks of a query. The loop over the batches gets fuel; with a non-negative interval
  one round per block is enough, with a negative one the code does not return.
\<close>

subsection \<open>Handles\<close>

record EthersContractDeployment =
  deployment_address :: string
  deployment_blockNumber :: int

record EthersContractConfig =
  config_address :: "string option"
  config_deployedAtBlockNumber :: "int option"

record EthersContractHandle =
  handle_address :: string
  deployedAtBlockNumber :: int
  handle_totalRetryAttempts :: int

definition make_handle :: "(string \<Rightarrow> string res) \<Rightarrow> EthersContractConfig \<Rightarrow> EthersContractDeployment \<Rightarrow> EthersContractHandle res" where
  "make_handle getAddress config deployment =
     bind_res (case config_address config of Some a \<Rightarrow> Inr a | None \<Rightarrow> getAddress (deployment_address deployment)) (\<lambda>address.
     Inr \<lparr>handle_address = address,
       deployedAtBlockNumber = (case config_deployedAtBlockNumber config of Some b \<Rightarrow> b | None \<Rightarrow> deployment_blockNumber deployment),
       handle_totalRetryAttempts = 3\<rparr>)"

definition handle_getAddress :: "(string \<Rightarrow> string res) \<Rightarrow> EthersContractHandle \<Rightarrow> ChainIdentifier res" where
  "handle_getAddress getAddress h = EthereumAddress_from getAddress (handle_address h)"

subsection \<open>Events\<close>

text \<open>The end of a query: a block, or the latest one.\<close>

datatype query_end = Latest | UpTo int

type_synonym ('w, 'e) event_filter = "int \<Rightarrow> query_end \<Rightarrow> ('w, 'e list) io"

definition GET_EVENTS_BLOCK_INTERVAL :: int where
  "GET_EVENTS_BLOCK_INTERVAL = 10000"

fun end_text :: "query_end \<Rightarrow> string" where
  "end_text Latest = ''latest''"
| "end_text (UpTo b) = show_int b"

fun batchLoop ::
  "nat \<Rightarrow> string \<Rightarrow> ('w, 'e) event_filter \<Rightarrow> (string \<Rightarrow> ('w, unit) io) \<Rightarrow> int \<Rightarrow> int \<Rightarrow> int \<Rightarrow> 'e list \<Rightarrow> ('w, 'e list) io" where
  "batchLoop 0 address queryFilter logger interval batchStartBlock lastBlock resultEvents =
     (if batchStartBlock \<le> lastBlock then throw_io (Thrown ''does not return'') else return_io resultEvents)"
| "batchLoop (Suc fuel) address queryFilter logger interval batchStartBlock lastBlock resultEvents =
     (if batchStartBlock \<le> lastBlock
      then let batchEndBlock = (if batchStartBlock + interval > lastBlock then lastBlock else batchStartBlock + interval) in
        bind_io (logger (''executing partial events pull from contract: ['' @ address @ ''], fromBlock: ['' @
            show_int batchStartBlock @ ''], toBlock: ['' @ show_int batchEndBlock @ '']'')) (\<lambda>_.
        bind_io (queryFilter batchStartBlock (UpTo batchEndBlock)) (\<lambda>foundEvents.
        bind_io (logger (''fetched ['' @ show_nat (length foundEvents) @ ''] events, has ['' @
            show_nat (length (resultEvents @ foundEvents)) @ ''] total'')) (\<lambda>_.
        batchLoop fuel address queryFilter logger interval (batchEndBlock + 1) lastBlock (resultEvents @ foundEvents))))
      else return_io resultEvents)"

definition rounds :: "int \<Rightarrow> int \<Rightarrow> nat" where
  "rounds firstBlock lastBlock = nat (lastBlock + 1 - firstBlock)"

text \<open>An error of the first call of the logger leaves the executor of the promise, which then never
  settles.\<close>

definition never_settles :: "('w, 'a) io \<Rightarrow> ('w, 'a) io" where
  "never_settles m = catch_io m (\<lambda>_. throw_io (Thrown ''does not return''))"

text \<open>\<open>latestNumber\<close> is the number of \<open>provider.getBlock("latest")\<close>.\<close>

definition EthersEventUtils_getEvents ::
  "string \<Rightarrow> ('w, 'e) event_filter \<Rightarrow> ('w, int) io \<Rightarrow> int option \<Rightarrow> int option \<Rightarrow> int option \<Rightarrow> (string \<Rightarrow> ('w, unit) io) \<Rightarrow> ('w, 'e list) io" where
  "EthersEventUtils_getEvents address queryFilter latestNumber from to batched logger =
     (let firstBlock = (case from of None \<Rightarrow> 0 | Some b \<Rightarrow> b);
          lastBlock = (case to of None \<Rightarrow> Latest | Some b \<Rightarrow> UpTo b);
          interval = (case batched of None \<Rightarrow> GET_EVENTS_BLOCK_INTERVAL | Some i \<Rightarrow> i)
      in catch_io (queryFilter firstBlock lastBlock) (\<lambda>err.
        bind_io (never_settles (logger (''switching to partial events pulls; failed to get events in one request from contract: ['' @ address @
            ''], fromBlock: ['' @ show_int firstBlock @ ''], toBlock: ['' @ end_text lastBlock @ '']: ['' @ error_text err @ '']''))) (\<lambda>_.
        bind_io (case lastBlock of Latest \<Rightarrow> latestNumber | UpTo b \<Rightarrow> return_io b) (\<lambda>last.
        batchLoop (rounds firstBlock last) address queryFilter logger interval firstBlock last []))))"

text \<open>\<open>logger\<close> is the logger of the options, \<open>debug\<close> the default of the retrier, which the options do
  not replace.\<close>

definition handle_getEvents ::
  "'w runtime \<Rightarrow> (string \<Rightarrow> ('w, unit) io) \<Rightarrow> (string \<Rightarrow> ('w, unit) io) \<Rightarrow> EthersContractHandle \<Rightarrow> ('w, int) io \<Rightarrow>
   ('w, 'e) event_filter \<Rightarrow> GetEventsOptions option \<Rightarrow> ('w, 'e list) io" where
  "handle_getEvents rt debug logger h latestNumber queryFilter options =
     backoffRetrier rt (case Option.bind options opt_retries of None \<Rightarrow> handle_totalRetryAttempts h | Some r \<Rightarrow> r)
       1000 debug retryAll
       (EthersEventUtils_getEvents (handle_address h) queryFilter latestNumber
         (Some (case Option.bind options fromBlock of None \<Rightarrow> deployedAtBlockNumber h | Some b \<Rightarrow> b))
         (Option.bind options toBlock) (Option.bind options batchedQueryBlockInterval) logger)"

subsection \<open>Transactions\<close>

text \<open>What a thrown value is for the adapter: not an object, an object without the three fields of
  an ethers error, or an ethers error with its code and its nested error.\<close>

datatype nested_error = NestedPrimitive string | NestedReason string | NestedOther

datatype thrown_shape = NotAnObject | PlainObject | EthersError string nested_error

text \<open>\<open>typeof isEthersError(err["error"])\<close> is never empty: the test of the nested error is lost. For
  \<open>null\<close> and other values without properties the operator \<open>in\<close> of that test throws; the reason of an
  object without one is undefined and the new error has no message.\<close>

definition resolveEthersError :: "(js_error \<Rightarrow> thrown_shape) \<Rightarrow> js_error \<Rightarrow> js_error" where
  "resolveEthersError shape err = (case shape err of
     NotAnObject \<Rightarrow> TypeError (''Cannot use 'in' operator to search for 'reason' in '' @ error_message err)
   | PlainObject \<Rightarrow> err
   | EthersError code nested \<Rightarrow>
       if code = ''UNPREDICTABLE_GAS_LIMIT''
       then (case nested of
           NestedPrimitive v \<Rightarrow> TypeError (''Cannot use 'in' operator to search for 'reason' in '' @ v)
         | NestedReason reason \<Rightarrow> Error reason
         | NestedOther \<Rightarrow> Error [])
       else err)"

definition sendWithRetry ::
  "'w runtime \<Rightarrow> (js_error \<Rightarrow> thrown_shape) \<Rightarrow> ('w, 'a) io \<Rightarrow> int \<Rightarrow> (string \<Rightarrow> ('w, unit) io) \<Rightarrow> (string \<Rightarrow> bool) list option \<Rightarrow> ('w, 'a) io" where
  "sendWithRetry rt shape fn retries logger nonRetryableErrors =
     backoffRetrier rt retries 1000 logger
       (case nonRetryableErrors of None \<Rightarrow> retryAll | Some ms \<Rightarrow> skipRetryWhenMatched ms)
       (catch_io fn (\<lambda>err. throw_io (resolveEthersError shape err)))"

subsection \<open>Lemmas\<close>

text \<open>A source of the events of a log: a query gives the events of its blocks, or fails when it
  spans more blocks than the provider allows.\<close>

definition in_blocks :: "('e \<Rightarrow> int) \<Rightarrow> int \<Rightarrow> int \<Rightarrow> 'e list \<Rightarrow> 'e list" where
  "in_blocks blk a b log = filter (\<lambda>e. a \<le> blk e \<and> blk e \<le> b) log"

definition serves :: "('w, 'e) event_filter \<Rightarrow> ('e \<Rightarrow> int) \<Rightarrow> 'e list \<Rightarrow> int \<Rightarrow> int \<Rightarrow> bool" where
  "serves queryFilter blk log latest limit = (\<forall>a q w. \<exists>w'.
     let b = (case q of Latest \<Rightarrow> latest | UpTo b \<Rightarrow> b) in
     queryFilter a q w = (Inr (in_blocks blk a b log), w') \<or>
     (limit < b - a \<and> (\<exists>e. queryFilter a q w = (Inl e, w'))))"

lemma in_blocks_split:
  assumes "sorted (map blk log)" "a \<le> b" "b < c"
  shows "in_blocks blk a b log @ in_blocks blk (b + 1) c log = in_blocks blk a c log"
  using assms(1)
proof (induction log)
  case (Cons e log)
  then have later: "blk e \<le> blk x" if "x \<in> set log" for x using that by simp
  have "in_blocks blk a b log = []" if "b < blk e"
    using later that unfolding in_blocks_def by (auto simp: filter_empty_conv) (metis order_trans not_le)
  then show ?case using Cons assms(2,3) by (auto simp: in_blocks_def)
qed (simp add: in_blocks_def)

lemma in_blocks_empty: "b < a \<Longrightarrow> in_blocks blk a b log = []"
  by (auto simp: in_blocks_def)

text \<open>The batches put together are the events of the whole range, and the fuel is enough.\<close>

lemma batchLoop_all:
  assumes s: "serves queryFilter blk log latest limit" and l: "logger_total logger" and sorted: "sorted (map blk log)"
    and i: "0 \<le> interval" "interval \<le> limit"
  shows "rounds a b \<le> fuel \<Longrightarrow>
     \<exists>w'. batchLoop fuel address queryFilter logger interval a b acc w = (Inr (acc @ in_blocks blk a b log), w')"
proof (induction fuel arbitrary: a acc w)
  case 0
  then have "b < a" by (simp add: rounds_def)
  then show ?case by (simp add: in_blocks_empty)
next
  case (Suc fuel)
  show ?case
  proof (cases "a \<le> b")
    case False
    then show ?thesis by (simp add: in_blocks_empty)
  next
    case True
    let ?e = "if a + interval > b then b else a + interval"
    have e: "a \<le> ?e" "?e \<le> b" "?e - a \<le> limit" using True i by auto
    let ?m1 = "''executing partial events pull from contract: ['' @ address @ ''], fromBlock: ['' @
            show_int a @ ''], toBlock: ['' @ show_int ?e @ '']''"
    let ?m2 = "''fetched ['' @ show_nat (length (in_blocks blk a ?e log)) @ ''] events, has ['' @
            show_nat (length (acc @ in_blocks blk a ?e log)) @ ''] total''"
    obtain w1 where w1: "logger ?m1 w = (Inr (), w1)"
      using l by (auto simp: logger_total_def)
    obtain w2 where w2: "queryFilter a (UpTo ?e) w1 = (Inr (in_blocks blk a ?e log), w2)"
      using s[unfolded serves_def Let_def, rule_format, of a "UpTo ?e" w1] e(3) by (auto simp del: if_split)
    obtain w3 where w3: "logger ?m2 w2 = (Inr (), w3)" using l by (auto simp: logger_total_def)
    have "rounds (?e + 1) b \<le> fuel" using Suc.prems e True by (auto simp: rounds_def)
    then obtain w4 where w4: "batchLoop fuel address queryFilter logger interval (?e + 1) b (acc @ in_blocks blk a ?e log) w3 =
        (Inr ((acc @ in_blocks blk a ?e log) @ in_blocks blk (?e + 1) b log), w4)" 
      using Suc.IH[of "?e + 1" "acc @ in_blocks blk a ?e log" w3] by blast
    have j: "in_blocks blk a ?e log @ in_blocks blk (?e + 1) b log = in_blocks blk a b log"
    proof (cases "?e = b")
      case True
      then show ?thesis by (simp add: in_blocks_empty del: if_split)
    next
      case False
      then show ?thesis using e by (intro in_blocks_split[OF sorted]) auto
    qed
    have "batchLoop (Suc fuel) address queryFilter logger interval a b acc w =
        (Inr ((acc @ in_blocks blk a ?e log) @ in_blocks blk (?e + 1) b log), w4)"
      using True by (simp only: batchLoop.simps Let_def if_True bind_io_def w1 w2 w3 w4 prod.case sum.case)
    then show ?thesis using j by (metis append_assoc)
  qed
qed

lemma getEvents_range:
  assumes s: "serves queryFilter blk log latest limit" and l: "logger_total logger" and sorted: "sorted (map blk log)"
    and i: "0 \<le> (case batched of None \<Rightarrow> 10000 | Some i \<Rightarrow> i)" "(case batched of None \<Rightarrow> 10000 | Some i \<Rightarrow> i) \<le> limit"
    and n: "\<forall>w. \<exists>w'. latestNumber w = (Inr latest, w')"
  shows "\<exists>w'. EthersEventUtils_getEvents address queryFilter latestNumber from to batched logger w =
     (Inr (in_blocks blk (case from of None \<Rightarrow> 0 | Some b \<Rightarrow> b) (case to of None \<Rightarrow> latest | Some b \<Rightarrow> b) log), w')"
proof -
  let ?a = "case from of None \<Rightarrow> 0 | Some b \<Rightarrow> b" and ?q = "case to of None \<Rightarrow> Latest | Some b \<Rightarrow> UpTo b"
  let ?b = "case to of None \<Rightarrow> latest | Some b \<Rightarrow> b"
  have b: "(case ?q of Latest \<Rightarrow> latest | UpTo b \<Rightarrow> b) = ?b" by (cases to) simp_all
  obtain r w1 where q: "queryFilter ?a ?q w = (r, w1)" by fastforce
  show ?thesis
  proof (cases r)
    case (Inr es)
    then have "es = in_blocks blk ?a ?b log"
      using s[unfolded serves_def Let_def, rule_format, of ?a ?q w] q b by auto
    then show ?thesis
      using q Inr by (simp add: EthersEventUtils_getEvents_def Let_def catch_io_def)
  next
    case (Inl e)
    let ?m = "''switching to partial events pulls; failed to get events in one request from contract: ['' @ address @
            ''], fromBlock: ['' @ show_int ?a @ ''], toBlock: ['' @ end_text ?q @ '']: ['' @ error_text e @ '']''"
    obtain w2 where w2: "logger ?m w1 = (Inr (), w2)" using l by (auto simp: logger_total_def)
    have "\<exists>w'. (case ?q of Latest \<Rightarrow> latestNumber | UpTo b \<Rightarrow> return_io b) w2 = (Inr ?b, w')"
      using n by (cases to) (auto simp: return_io_def)
    then obtain w3 where w3: "(case ?q of Latest \<Rightarrow> latestNumber | UpTo b \<Rightarrow> return_io b) w2 = (Inr ?b, w3)" by blast
    let ?i = "case batched of None \<Rightarrow> GET_EVENTS_BLOCK_INTERVAL | Some i \<Rightarrow> i"
    have "0 \<le> ?i" "?i \<le> limit" unfolding GET_EVENTS_BLOCK_INTERVAL_def by (rule i)+
    from batchLoop_all[OF s l sorted this order_refl, of ?a ?b address "[]" w3]
    obtain w4 where "batchLoop (rounds ?a ?b) address queryFilter logger ?i ?a ?b [] w3 = (Inr ([] @ in_blocks blk ?a ?b log), w4)"
      by blast
    then show ?thesis
      using q Inl w2 w3
      by (simp add: EthersEventUtils_getEvents_def Let_def catch_io_def bind_io_def never_settles_def)
  qed
qed

subsection \<open>Properties\<close>

text \<open>C31: A provider that refuses queries of too many blocks does not change what is read: the query
  returns the events of the requested blocks, each of them once and in the order of the chain, whether
  the single query or the batches answer, provided that a batch stays within what the provider
  allows and the interval is not negative.\<close>

theorem getEvents_complete:
  assumes "serves queryFilter blk log latest limit" "logger_total logger" "sorted (map blk log)"
    and "0 \<le> (case batched of None \<Rightarrow> 10000 | Some i \<Rightarrow> i)" "(case batched of None \<Rightarrow> 10000 | Some i \<Rightarrow> i) \<le> limit"
    and "\<forall>w. \<exists>w'. latestNumber w = (Inr latest, w')"
  shows "\<exists>w'. EthersEventUtils_getEvents address queryFilter latestNumber from to batched logger w =
     (Inr (in_blocks blk (case from of None \<Rightarrow> 0 | Some b \<Rightarrow> b) (case to of None \<Rightarrow> latest | Some b \<Rightarrow> b) log), w')"
  using assms by (rule getEvents_range)

text \<open>A provider with a limit of three blocks: ten blocks are read in batches of two.\<close>

definition limited_filter :: "(nat, int) event_filter" where
  "limited_filter a q w = (let b = (case q of Latest \<Rightarrow> 9 | UpTo b \<Rightarrow> b) in
     if 3 < b - a then (Inl (Error ''too many blocks''), w + 1)
     else (Inr (in_blocks (\<lambda>e. e) a b [1, 2, 2, 5, 9]), w + 1))"

theorem getEvents_complete_witness:
  "\<exists>w'. EthersEventUtils_getEvents ''0x'' limited_filter (\<lambda>w. (Inr 9, w)) (Some 2) None (Some 1) (\<lambda>_ w. (Inr (), w)) (0 :: nat) =
     (Inr [2, 2, 5, 9], w')"
proof -
  have "serves limited_filter (\<lambda>e. e) [1, 2, 2, 5, 9] 9 3" by (auto simp: serves_def limited_filter_def Let_def)
  from getEvents_complete[OF this, of "\<lambda>_ w. (Inr (), w)" "Some 1" "\<lambda>w. (Inr 9, w)" "''0x''" "Some 2" None 0]
  show ?thesis by (simp add: logger_total_def in_blocks_def)
qed

text \<open>A nested error without a reason replaces the error of the call by one without a message.\<close>

lemma resolveEthersError_drops_message:
  "shape err = EthersError ''UNPREDICTABLE_GAS_LIMIT'' NestedOther \<Longrightarrow> resolveEthersError shape err = Error []"
  by (simp add: resolveEthersError_def)

end
