(* ===== verification/EthereumHandles.thy ===== *)
theory EthereumHandles
  imports EthersAdapter BitcoinPrimitives "HOL-Library.Sublist"
begin

section \<open>Ethereum handles: shared parts and the wallet registry (typescript/src/lib/ethereum)\<close>

text \<open>
  What every Ethereum handle is made of: the choice of a deployment, the call that is retried, the
  parsing of an event. Then the handle of the wallet registry (\<open>wallet-registry.ts\<close>). The ethers
  library is a parameter: the checksumming of addresses, the hash and the encoding of ABI values,
  the number of the latest block; so are the deployments, which are JSON files, and the contract a
  handle talks to, a record with one operation per contract function.
\<close>

subsection \<open>The library\<close>

datatype abi_value = AbiText string | AbiInt int

record 'w ethers =
  ethers_runtime :: "'w runtime"
  console_debug :: "string \<Rightarrow> ('w, unit) io"
  console_log :: "string \<Rightarrow> ('w, unit) io"
  error_shape :: "js_error \<Rightarrow> thrown_shape"
  utils_getAddress :: "string \<Rightarrow> string res"
  solidityKeccak256 :: "(string \<times> abi_value) list \<Rightarrow> string res"
  abi_encode :: "(string \<times> abi_value) list \<Rightarrow> string res"
  hash_functions :: crypto
  latestNumber :: "('w, int) io"

text \<open>The calls of \<open>backoffRetrier\<close> and \<open>sendWithRetry\<close> of the handles, with the default logger and
  the wait of one second.\<close>

definition retried :: "'w ethers \<Rightarrow> EthersContractHandle \<Rightarrow> ('w, 'a) io \<Rightarrow> ('w, 'a) io" where
  "retried lib h fn = backoffRetrier (ethers_runtime lib) (handle_totalRetryAttempts h) 1000 (console_debug lib) retryAll fn"

definition sent :: "'w ethers \<Rightarrow> EthersContractHandle \<Rightarrow> string list option \<Rightarrow> ('w, string) io \<Rightarrow> ('w, Hex) io" where
  "sent lib h nonRetryableErrors fn =
     bind_io (sendWithRetry (ethers_runtime lib) (error_shape lib) fn (handle_totalRetryAttempts h) (console_debug lib)
       (map_option (map sublist) nonRetryableErrors)) (\<lambda>hash. lift_io (Hex_from_string hash))"

subsection \<open>Deployments\<close>

definition Ethereum_Mainnet :: string where "Ethereum_Mainnet = ''1''"
definition Ethereum_Sepolia :: string where "Ethereum_Sepolia = ''11155111''"
definition Ethereum_Local :: string where "Ethereum_Local = ''1101''"

record deployments =
  local_deployment :: EthersContractDeployment
  sepolia_deployment :: EthersContractDeployment
  mainnet_deployment :: EthersContractDeployment

definition new_handle :: "'w ethers \<Rightarrow> deployments \<Rightarrow> EthersContractConfig \<Rightarrow> string option \<Rightarrow> EthersContractHandle res" where
  "new_handle lib deps config chain =
     (let chainId = (case chain of None \<Rightarrow> Ethereum_Local | Some c \<Rightarrow> c) in
      if chainId = Ethereum_Local then make_handle (utils_getAddress lib) config (local_deployment deps)
      else if chainId = Ethereum_Sepolia then make_handle (utils_getAddress lib) config (sepolia_deployment deps)
      else if chainId = Ethereum_Mainnet then make_handle (utils_getAddress lib) config (mainnet_deployment deps)
      else Inl (Error ''Unsupported deployment type''))"

subsection \<open>Events\<close>

text \<open>An event as ethers gives it: where it was emitted, then its arguments in the extensions.\<close>

record ethers_event =
  raw_blockNumber :: int
  raw_blockHash :: string
  raw_transactionHash :: string

definition chain_event :: "'a ethers_event_scheme \<Rightarrow> ChainEvent res" where
  "chain_event event =
     bind_res (bind_res (bn_from_number (raw_blockNumber event)) bn_toNumber) (\<lambda>number.
     bind_res (Hex_from_string (raw_blockHash event)) (\<lambda>blockHash.
     bind_res (Hex_from_string (raw_transactionHash event)) (\<lambda>hash.
     Inr \<lparr>ev_blockNumber = number, ev_blockHash = blockHash, ev_transactionHash = hash\<rparr>)))"

text \<open>A contract's events of one name and filter, pulled and parsed.\<close>

definition parsed_events ::
  "'w ethers \<Rightarrow> EthersContractHandle \<Rightarrow> ('w, 'r) event_filter \<Rightarrow> ('r \<Rightarrow> 'e res) \<Rightarrow> GetEventsOptions option \<Rightarrow> ('w, 'e list) io" where
  "parsed_events lib h queryFilter parse options =
     bind_io (handle_getEvents (ethers_runtime lib) (console_debug lib) (console_debug lib) h (latestNumber lib) queryFilter options)
       (\<lambda>events. lift_io (map_res parse events))"

text \<open>A number of a contract (\<open>uint256\<close>) as hexadecimal digits: leading zero bytes are lost.\<close>

definition number_hex :: "int \<Rightarrow> Hex res" where
  "number_hex v = Hex_from_string (bn_toHexString v)"

definition small_number :: "int \<Rightarrow> int res" where
  "small_number v = bn_toNumber v"

definition AddressZero :: string where
  "AddressZero = ''0x'' @ replicate 40 (CHR ''0'')"

definition parse_vault :: "'w ethers \<Rightarrow> string \<Rightarrow> ChainIdentifier option res" where
  "parse_vault lib vault =
     (if vault = AddressZero then Inr None
      else bind_res (EthereumAddress_from (utils_getAddress lib) vault) (\<lambda>a. Inr (Some a)))"

subsection \<open>The wallet registry\<close>

record raw_dkg_result =
  raw_submitterMemberIndex :: int
  raw_groupPubKey :: string
  raw_misbehavedMembersIndices :: "int list"
  raw_signatures :: string
  raw_signingMembersIndices :: "int list"
  raw_members :: "int list"
  raw_membersHash :: string

record raw_dkg_submitted = ethers_event +
  raw_submitted_resultHash :: string
  raw_seed :: int
  raw_result :: raw_dkg_result

record raw_dkg_approved = ethers_event +
  raw_approved_resultHash :: string
  raw_approver :: string

record raw_dkg_challenged = ethers_event +
  raw_challenged_resultHash :: string
  raw_challenger :: string
  raw_reason :: string

record 'w registry_contract =
  rc_getWalletPublicKey :: "string \<Rightarrow> ('w, string) io"
  rc_DkgResultSubmitted :: "('w, raw_dkg_submitted) event_filter"
  rc_DkgResultApproved :: "('w, raw_dkg_approved) event_filter"
  rc_DkgResultChallenged :: "('w, raw_dkg_challenged) event_filter"

definition new_EthereumWalletRegistry :: "'w ethers \<Rightarrow> deployments \<Rightarrow> EthersContractConfig \<Rightarrow> string option \<Rightarrow> EthersContractHandle res" where
  "new_EthereumWalletRegistry lib deps config chainId = new_handle lib deps config chainId"

definition Registry_getChainIdentifier :: "'w ethers \<Rightarrow> EthersContractHandle \<Rightarrow> ChainIdentifier res" where
  "Registry_getChainIdentifier lib h = EthereumAddress_from (utils_getAddress lib) (handle_address h)"

definition Registry_getWalletPublicKey :: "'w ethers \<Rightarrow> EthersContractHandle \<Rightarrow> 'w registry_contract \<Rightarrow> Hex \<Rightarrow> ('w, Hex) io" where
  "Registry_getWalletPublicKey lib h i walletID =
     bind_io (retried lib h (rc_getWalletPublicKey i (toPrefixedString walletID))) (\<lambda>publicKey.
     lift_io (Hex_from_string (drop 2 publicKey)))"

definition parse_dkg_result :: "raw_dkg_result \<Rightarrow> DkgResult res" where
  "parse_dkg_result r =
     bind_res (Hex_from_string (raw_groupPubKey r)) (\<lambda>groupPubKey.
     bind_res (map_res small_number (raw_misbehavedMembersIndices r)) (\<lambda>misbehaved.
     bind_res (Hex_from_string (raw_signatures r)) (\<lambda>signatures.
     bind_res (map_res small_number (raw_members r)) (\<lambda>members.
     bind_res (Hex_from_string (raw_membersHash r)) (\<lambda>membersHash.
     Inr \<lparr>dkg_submitterMemberIndex = raw_submitterMemberIndex r, dkg_groupPubKey = groupPubKey,
       dkg_misbehavedMembersIndices = misbehaved, dkg_signatures = signatures,
       dkg_signingMembersIndices = raw_signingMembersIndices r, dkg_members = members, dkg_membersHash = membersHash\<rparr>)))))"

definition parse_dkg_submitted :: "raw_dkg_submitted \<Rightarrow> DkgResultSubmittedEvent res" where
  "parse_dkg_submitted event =
     bind_res (chain_event event) (\<lambda>ev.
     bind_res (Hex_from_string (raw_submitted_resultHash event)) (\<lambda>resultHash.
     bind_res (number_hex (raw_seed event)) (\<lambda>seed.
     bind_res (parse_dkg_result (raw_result event)) (\<lambda>result.
     Inr (ChainEvent.extend ev (DkgResultSubmittedEvent.fields resultHash seed result))))))"

definition parse_dkg_approved :: "'w ethers \<Rightarrow> raw_dkg_approved \<Rightarrow> DkgResultApprovedEvent res" where
  "parse_dkg_approved lib event =
     bind_res (chain_event event) (\<lambda>ev.
     bind_res (Hex_from_string (raw_approved_resultHash event)) (\<lambda>resultHash.
     bind_res (EthereumAddress_from (utils_getAddress lib) (raw_approver event)) (\<lambda>approver.
     Inr (ChainEvent.extend ev (DkgResultApprovedEvent.fields resultHash approver)))))"

definition parse_dkg_challenged :: "'w ethers \<Rightarrow> raw_dkg_challenged \<Rightarrow> DkgResultChallengedEvent res" where
  "parse_dkg_challenged lib event =
     bind_res (chain_event event) (\<lambda>ev.
     bind_res (Hex_from_string (raw_challenged_resultHash event)) (\<lambda>resultHash.
     bind_res (EthereumAddress_from (utils_getAddress lib) (raw_challenger event)) (\<lambda>challenger.
     Inr (ChainEvent.extend ev (DkgResultChallengedEvent.fields resultHash challenger (raw_reason event))))))"

definition EthereumWalletRegistry :: "'w ethers \<Rightarrow> EthersContractHandle \<Rightarrow> 'w registry_contract \<Rightarrow> 'w wallet_registry res" where
  "EthereumWalletRegistry lib h i =
     bind_res (Registry_getChainIdentifier lib h) (\<lambda>identifier.
     Inr \<lparr>registry_getChainIdentifier = identifier,
       getWalletPublicKey = Registry_getWalletPublicKey lib h i,
       getDkgResultSubmittedEvents = (\<lambda>options. parsed_events lib h (rc_DkgResultSubmitted i) parse_dkg_submitted (Some options)),
       getDkgResultApprovedEvents = (\<lambda>options. parsed_events lib h (rc_DkgResultApproved i) (parse_dkg_approved lib) (Some options)),
       getDkgResultChallengedEvents = (\<lambda>options. parsed_events lib h (rc_DkgResultChallenged i) (parse_dkg_challenged lib) (Some options))\<rparr>)"

end
