(* ===== verification/EthereumBridge.thy ===== *)
theory EthereumBridge
  imports EthereumHandles
begin

section \<open>The Ethereum Bridge handle (typescript/src/lib/ethereum/bridge.ts)\<close>

text \<open>
  The handle translates between the library's data and the parameters, results and events of the
  Bridge contract: keys of redemptions and deposits, the packing of a revealed deposit, the
  parsing of what the contract answers. The contract is a parameter, a record with one operation
  per function; a function that sends a transaction gives the transaction's hash.
\<close>

subsection \<open>Parameters and results of the contract\<close>

record tx_param =
  p_version :: string
  p_inputVector :: string
  p_outputVector :: string
  p_locktime :: string

record reveal_param =
  p_fundingOutputIndex :: int
  p_blindingFactor :: string
  p_walletPubKeyHash :: string
  p_refundPubKeyHash :: string
  p_refundLocktime :: string
  p_vault :: string

record proof_param =
  p_merkleProof :: string
  p_txIndexInBlock :: int
  p_bitcoinHeaders :: string
  p_coinbasePreimage :: string
  p_coinbaseProof :: string

record utxo_param =
  p_txHash :: string
  p_txOutputIndex :: int
  p_txOutputValue :: int

record raw_redemption =
  raw_redeemer :: string
  raw_requestedAmount :: int
  raw_treasuryFee :: int
  raw_txMaxFee :: int
  raw_requestedAt :: int

record raw_deposit =
  raw_depositor :: string
  raw_amount :: int
  raw_vault :: string
  raw_revealedAt :: int
  raw_sweptAt :: int
  raw_deposit_treasuryFee :: int

record raw_wallet =
  raw_ecdsaWalletID :: string
  raw_mainUtxoHash :: string
  raw_pendingRedemptionsValue :: int
  raw_createdAt :: int
  raw_movingFundsRequestedAt :: int
  raw_closingStartedAt :: int
  raw_pendingMovedFundsSweepRequestsCount :: int
  raw_state :: int
  raw_movingFundsTargetWalletsCommitmentHash :: string

record raw_deposit_revealed = ethers_event +
  rd_fundingTxHash :: string
  rd_fundingOutputIndex :: int
  rd_depositor :: string
  rd_amount :: int
  rd_blindingFactor :: string
  rd_walletPubKeyHash :: string
  rd_refundPubKeyHash :: string
  rd_refundLocktime :: string
  rd_vault :: string

record raw_new_wallet = ethers_event +
  rn_ecdsaWalletID :: string
  rn_walletPubKeyHash :: string

record raw_redemption_requested = ethers_event +
  rq_walletPubKeyHash :: string
  rq_redeemer :: string
  rq_redeemerOutputScript :: string
  rq_requestedAmount :: int
  rq_treasuryFee :: int
  rq_txMaxFee :: int

record 'w bridge_contract =
  bc_DepositRevealed :: "('w, raw_deposit_revealed) event_filter"
  bc_NewWalletRegistered :: "('w, raw_new_wallet) event_filter"
  bc_RedemptionRequested :: "('w, raw_redemption_requested) event_filter"
  bc_pendingRedemptions :: "string \<Rightarrow> ('w, raw_redemption) io"
  bc_timedOutRedemptions :: "string \<Rightarrow> ('w, raw_redemption) io"
  bc_revealDeposit :: "tx_param \<Rightarrow> reveal_param \<Rightarrow> ('w, string) io"
  bc_revealDepositWithExtraData :: "tx_param \<Rightarrow> reveal_param \<Rightarrow> string \<Rightarrow> ('w, string) io"
  bc_submitDepositSweepProof :: "tx_param \<Rightarrow> proof_param \<Rightarrow> utxo_param \<Rightarrow> string \<Rightarrow> ('w, string) io"
  bc_txProofDifficultyFactor :: "('w, int) io"
  bc_requestRedemption :: "string \<Rightarrow> utxo_param \<Rightarrow> string \<Rightarrow> int \<Rightarrow> ('w, string) io"
  bc_submitRedemptionProof :: "tx_param \<Rightarrow> proof_param \<Rightarrow> utxo_param \<Rightarrow> string \<Rightarrow> ('w, string) io"
  bc_deposits :: "string \<Rightarrow> ('w, raw_deposit) io"
  bc_activeWalletPubKeyHash :: "('w, string) io"
  bc_contractReferences :: "('w, string) io"
  bc_wallets :: "string \<Rightarrow> ('w, raw_wallet) io"

subsection \<open>Keys and packing\<close>

definition prefixed_script :: "Hex \<Rightarrow> string" where
  "prefixed_script redeemerOutputScript =
     (let rawRedeemerOutputScript = toBuffer redeemerOutputScript
      in ''0x'' @ bytes_to_hex (byte_of (length rawRedeemerOutputScript) # rawRedeemerOutputScript))"

definition buildRedemptionKey :: "'w ethers \<Rightarrow> Hex \<Rightarrow> Hex \<Rightarrow> string res" where
  "buildRedemptionKey lib walletPublicKeyHash redeemerOutputScript =
     bind_res (solidityKeccak256 lib [(''bytes'', AbiText (prefixed_script redeemerOutputScript))]) (\<lambda>scriptHash.
     solidityKeccak256 lib [(''bytes32'', AbiText scriptHash), (''bytes20'', AbiText (''0x'' @ toString walletPublicKeyHash))])"

definition buildDepositKey :: "'w ethers \<Rightarrow> BitcoinTxHash \<Rightarrow> int \<Rightarrow> string res" where
  "buildDepositKey lib depositTxHash depositOutputIndex =
     solidityKeccak256 lib [(''bytes32'', AbiText (toPrefixedString (hex_reverse depositTxHash))), (''uint32'', AbiInt depositOutputIndex)]"

definition utxo_of :: "BitcoinUtxo \<Rightarrow> utxo_param" where
  "utxo_of mainUtxo = \<lparr>p_txHash = toPrefixedString (hex_reverse (op_transactionHash mainUtxo)),
     p_txOutputIndex = op_outputIndex mainUtxo, p_txOutputValue = utxo_value mainUtxo\<rparr>"

definition Bridge_buildUtxoHash :: "'w ethers \<Rightarrow> BitcoinUtxo \<Rightarrow> Hex res" where
  "Bridge_buildUtxoHash lib utxo =
     bind_res (solidityKeccak256 lib
       [(''bytes32'', AbiText (toPrefixedString (hex_reverse (op_transactionHash utxo)))),
        (''uint32'', AbiInt (op_outputIndex utxo)), (''uint64'', AbiInt (utxo_value utxo))]) Hex_from_string"

definition vault_of :: "ChainIdentifier option \<Rightarrow> string" where
  "vault_of vault = (case vault of None \<Rightarrow> AddressZero | Some v \<Rightarrow> ''0x'' @ identifierHex v)"

definition packRevealDepositParameters ::
  "BitcoinRawTxVectors \<Rightarrow> int \<Rightarrow> DepositReceipt \<Rightarrow> ChainIdentifier option \<Rightarrow> tx_param \<times> reveal_param \<times> string option" where
  "packRevealDepositParameters depositTx depositOutputIndex deposit vault =
     (\<lparr>p_version = toPrefixedString (vec_version depositTx), p_inputVector = toPrefixedString (vec_inputs depositTx),
        p_outputVector = toPrefixedString (vec_outputs depositTx), p_locktime = toPrefixedString (vec_locktime depositTx)\<rparr>,
      \<lparr>p_fundingOutputIndex = depositOutputIndex, p_blindingFactor = toPrefixedString (dr_blindingFactor deposit),
        p_walletPubKeyHash = toPrefixedString (dr_walletPublicKeyHash deposit),
        p_refundPubKeyHash = toPrefixedString (dr_refundPublicKeyHash deposit),
        p_refundLocktime = toPrefixedString (dr_refundLocktime deposit), p_vault = vault_of vault\<rparr>,
      map_option toPrefixedString (dr_extraData deposit))"

text \<open>The transactions and proofs of the two SPV functions.\<close>

definition tx_of :: "BitcoinRawTxVectors \<Rightarrow> tx_param" where
  "tx_of tx = \<lparr>p_version = ''0x'' @ toString (vec_version tx), p_inputVector = ''0x'' @ toString (vec_inputs tx),
     p_outputVector = ''0x'' @ toString (vec_outputs tx), p_locktime = ''0x'' @ toString (vec_locktime tx)\<rparr>"

definition proof_of :: "BitcoinSpvProof \<Rightarrow> proof_param" where
  "proof_of prf = \<lparr>p_merkleProof = toPrefixedString (merkleProof prf), p_txIndexInBlock = txIndexInBlock prf,
     p_bitcoinHeaders = toPrefixedString (bitcoinHeaders prf), p_coinbasePreimage = toPrefixedString (coinbasePreimage prf),
     p_coinbaseProof = toPrefixedString (coinbaseProof prf)\<rparr>"

subsection \<open>Parsing\<close>

definition parseRedemptionRequest :: "'w ethers \<Rightarrow> raw_redemption \<Rightarrow> Hex \<Rightarrow> RedemptionRequest res" where
  "parseRedemptionRequest lib request redeemerOutputScript =
     bind_res (EthereumAddress_from (utils_getAddress lib) (raw_redeemer request)) (\<lambda>redeemer.
     bind_res (small_number (raw_requestedAt request)) (\<lambda>requestedAt.
     Inr \<lparr>rr_redeemer = redeemer, rr_redeemerOutputScript = redeemerOutputScript,
       rr_requestedAmount = raw_requestedAmount request, rr_treasuryFee = raw_treasuryFee request,
       rr_txMaxFee = raw_txMaxFee request, rr_requestedAt = requestedAt\<rparr>))"

definition parseDepositRequest :: "'w ethers \<Rightarrow> raw_deposit \<Rightarrow> DepositRequest res" where
  "parseDepositRequest lib deposit =
     bind_res (EthereumAddress_from (utils_getAddress lib) (raw_depositor deposit)) (\<lambda>depositor.
     bind_res (parse_vault lib (raw_vault deposit)) (\<lambda>vault.
     bind_res (small_number (raw_revealedAt deposit)) (\<lambda>revealedAt.
     bind_res (small_number (raw_sweptAt deposit)) (\<lambda>sweptAt.
     Inr \<lparr>dq_depositor = depositor, dq_amount = raw_amount deposit, dq_vault = vault, dq_revealedAt = revealedAt,
       dq_sweptAt = sweptAt, dq_treasuryFee = raw_deposit_treasuryFee deposit\<rparr>))))"

definition parse_deposit_revealed :: "'w ethers \<Rightarrow> raw_deposit_revealed \<Rightarrow> DepositRevealedEvent res" where
  "parse_deposit_revealed lib event =
     bind_res (chain_event event) (\<lambda>ev.
     bind_res (Hex_from_string (rd_fundingTxHash event)) (\<lambda>fundingTxHash.
     bind_res (small_number (rd_fundingOutputIndex event)) (\<lambda>fundingOutputIndex.
     bind_res (EthereumAddress_from (utils_getAddress lib) (rd_depositor event)) (\<lambda>depositor.
     bind_res (Hex_from_string (rd_blindingFactor event)) (\<lambda>blindingFactor.
     bind_res (Hex_from_string (rd_walletPubKeyHash event)) (\<lambda>walletPublicKeyHash.
     bind_res (Hex_from_string (rd_refundPubKeyHash event)) (\<lambda>refundPublicKeyHash.
     bind_res (Hex_from_string (rd_refundLocktime event)) (\<lambda>refundLocktime.
     bind_res (parse_vault lib (rd_vault event)) (\<lambda>vault.
     Inr (ChainEvent.extend ev (DepositRevealedEvent.fields
       \<lparr>dr_depositor = depositor, dr_blindingFactor = blindingFactor, dr_walletPublicKeyHash = walletPublicKeyHash,
        dr_refundPublicKeyHash = refundPublicKeyHash, dr_refundLocktime = refundLocktime, dr_extraData = None\<rparr>
       (rd_amount event) vault (hex_reverse fundingTxHash) fundingOutputIndex)))))))))))"

definition parse_new_wallet :: "raw_new_wallet \<Rightarrow> NewWalletRegisteredEvent res" where
  "parse_new_wallet event =
     bind_res (chain_event event) (\<lambda>ev.
     bind_res (Hex_from_string (rn_ecdsaWalletID event)) (\<lambda>ecdsaWalletID.
     bind_res (Hex_from_string (rn_walletPubKeyHash event)) (\<lambda>walletPublicKeyHash.
     Inr (ChainEvent.extend ev (NewWalletRegisteredEvent.fields ecdsaWalletID walletPublicKeyHash)))))"

text \<open>The script comes with its length in front, which is cut off.\<close>

definition parse_redemption_requested :: "'w ethers \<Rightarrow> raw_redemption_requested \<Rightarrow> RedemptionRequestedEvent res" where
  "parse_redemption_requested lib event =
     bind_res (Hex_from_string (rq_redeemerOutputScript event)) (\<lambda>prefixedRedeemerOutputScript.
     bind_res (readCompactSizeUint prefixedRedeemerOutputScript) (\<lambda>size.
     let redeemerOutputScript = drop (cs_byteLength size * 2) (toString prefixedRedeemerOutputScript) in
     bind_res (chain_event event) (\<lambda>ev.
     bind_res (Hex_from_string (rq_walletPubKeyHash event)) (\<lambda>walletPublicKeyHash.
     bind_res (EthereumAddress_from (utils_getAddress lib) (rq_redeemer event)) (\<lambda>redeemer.
     bind_res (Hex_from_string redeemerOutputScript) (\<lambda>script.
     Inr (ChainEvent.extend ev (RedemptionRequestedEvent.fields redeemer script (rq_requestedAmount event)
       (rq_treasuryFee event) (rq_txMaxFee event) walletPublicKeyHash))))))))"

subsection \<open>Operations\<close>

text \<open>A handle of the bridge: the ethers handle, its contract, and what \<open>walletRegistry\<close> makes of an
  address: the contract there. Its deployments are those of the wallet registry.\<close>

record 'w bridge_handle =
  bh_ethers :: "'w ethers"
  bh_handle :: EthersContractHandle
  bh_contract :: "'w bridge_contract"
  bh_registry_at :: "string \<Rightarrow> 'w registry_contract"
  bh_registry_deployments :: deployments

definition new_EthereumBridge :: "'w ethers \<Rightarrow> deployments \<Rightarrow> EthersContractConfig \<Rightarrow> string option \<Rightarrow> EthersContractHandle res" where
  "new_EthereumBridge lib deps config chainId = new_handle lib deps config chainId"

definition Bridge_getChainIdentifier :: "'w bridge_handle \<Rightarrow> ChainIdentifier res" where
  "Bridge_getChainIdentifier b = EthereumAddress_from (utils_getAddress (bh_ethers b)) (handle_address (bh_handle b))"

definition Bridge_pendingRedemptionsByWalletPKH :: "'w bridge_handle \<Rightarrow> Hex \<Rightarrow> Hex \<Rightarrow> ('w, RedemptionRequest) io" where
  "Bridge_pendingRedemptionsByWalletPKH b walletPublicKeyHash redeemerOutputScript =
     bind_io (lift_io (buildRedemptionKey (bh_ethers b) walletPublicKeyHash redeemerOutputScript)) (\<lambda>redemptionKey.
     bind_io (retried (bh_ethers b) (bh_handle b) (bc_pendingRedemptions (bh_contract b) redemptionKey)) (\<lambda>request.
     lift_io (parseRedemptionRequest (bh_ethers b) request redeemerOutputScript)))"

definition Bridge_pendingRedemptions :: "'w bridge_handle \<Rightarrow> Hex \<Rightarrow> Hex \<Rightarrow> ('w, RedemptionRequest) io" where
  "Bridge_pendingRedemptions b walletPublicKey redeemerOutputScript =
     bind_io (lift_io (computeHash160 (hash_functions (bh_ethers b)) walletPublicKey)) (\<lambda>walletPublicKeyHash.
     Bridge_pendingRedemptionsByWalletPKH b walletPublicKeyHash redeemerOutputScript)"

definition Bridge_timedOutRedemptions :: "'w bridge_handle \<Rightarrow> Hex \<Rightarrow> Hex \<Rightarrow> ('w, RedemptionRequest) io" where
  "Bridge_timedOutRedemptions b walletPublicKey redeemerOutputScript =
     bind_io (lift_io (computeHash160 (hash_functions (bh_ethers b)) walletPublicKey)) (\<lambda>walletPublicKeyHash.
     bind_io (lift_io (buildRedemptionKey (bh_ethers b) walletPublicKeyHash redeemerOutputScript)) (\<lambda>redemptionKey.
     bind_io (retried (bh_ethers b) (bh_handle b) (bc_timedOutRedemptions (bh_contract b) redemptionKey)) (\<lambda>request.
     lift_io (parseRedemptionRequest (bh_ethers b) request redeemerOutputScript))))"

definition Bridge_revealDeposit ::
  "'w bridge_handle \<Rightarrow> BitcoinRawTxVectors \<Rightarrow> int \<Rightarrow> DepositReceipt \<Rightarrow> ChainIdentifier option \<Rightarrow> ('w, Hex) io" where
  "Bridge_revealDeposit b depositTx depositOutputIndex deposit vault =
     (case packRevealDepositParameters depositTx depositOutputIndex deposit vault of (fundingTx, reveal, extraData) \<Rightarrow>
        sent (bh_ethers b) (bh_handle b) (Some [''Deposit already revealed''])
          (case extraData of
             Some e \<Rightarrow> bc_revealDepositWithExtraData (bh_contract b) fundingTx reveal e
           | None \<Rightarrow> bc_revealDeposit (bh_contract b) fundingTx reveal))"

definition Bridge_submitDepositSweepProof ::
  "'w bridge_handle \<Rightarrow> BitcoinRawTxVectors \<Rightarrow> BitcoinSpvProof \<Rightarrow> BitcoinUtxo \<Rightarrow> ChainIdentifier option \<Rightarrow> ('w, Hex) io" where
  "Bridge_submitDepositSweepProof b sweepTx sweepProof mainUtxo vault =
     sent (bh_ethers b) (bh_handle b) None
       (bc_submitDepositSweepProof (bh_contract b) (tx_of sweepTx) (proof_of sweepProof) (utxo_of mainUtxo) (vault_of vault))"

definition Bridge_txProofDifficultyFactor :: "'w bridge_handle \<Rightarrow> ('w, int) io" where
  "Bridge_txProofDifficultyFactor b =
     bind_io (retried (bh_ethers b) (bh_handle b) (bc_txProofDifficultyFactor (bh_contract b))) (\<lambda>f. lift_io (bn_toNumber f))"

definition Bridge_requestRedemption :: "'w bridge_handle \<Rightarrow> Hex \<Rightarrow> BitcoinUtxo \<Rightarrow> Hex \<Rightarrow> int \<Rightarrow> ('w, Hex) io" where
  "Bridge_requestRedemption b walletPublicKey mainUtxo redeemerOutputScript amount =
     bind_io (lift_io (computeHash160 (hash_functions (bh_ethers b)) walletPublicKey)) (\<lambda>walletPublicKeyHash.
     sent (bh_ethers b) (bh_handle b) None
       (bc_requestRedemption (bh_contract b) (toPrefixedString walletPublicKeyHash) (utxo_of mainUtxo)
         (prefixed_script redeemerOutputScript) amount))"

definition Bridge_submitRedemptionProof ::
  "'w bridge_handle \<Rightarrow> BitcoinRawTxVectors \<Rightarrow> BitcoinSpvProof \<Rightarrow> BitcoinUtxo \<Rightarrow> Hex \<Rightarrow> ('w, Hex) io" where
  "Bridge_submitRedemptionProof b redemptionTx redemptionProof mainUtxo walletPublicKey =
     bind_io (lift_io (computeHash160 (hash_functions (bh_ethers b)) walletPublicKey)) (\<lambda>walletPublicKeyHash.
     sent (bh_ethers b) (bh_handle b) None
       (bc_submitRedemptionProof (bh_contract b) (tx_of redemptionTx) (proof_of redemptionProof) (utxo_of mainUtxo)
         (toPrefixedString walletPublicKeyHash)))"

definition Bridge_deposits :: "'w bridge_handle \<Rightarrow> BitcoinTxHash \<Rightarrow> int \<Rightarrow> ('w, DepositRequest) io" where
  "Bridge_deposits b depositTxHash depositOutputIndex =
     bind_io (lift_io (buildDepositKey (bh_ethers b) depositTxHash depositOutputIndex)) (\<lambda>depositKey.
     bind_io (retried (bh_ethers b) (bh_handle b) (bc_deposits (bh_contract b) depositKey)) (\<lambda>deposit.
     lift_io (parseDepositRequest (bh_ethers b) deposit)))"

text \<open>The registry is read with the default chain of its constructor, whatever chain the bridge is on.\<close>

definition Bridge_registry :: "'w bridge_handle \<Rightarrow> ('w, EthersContractHandle \<times> 'w registry_contract) io" where
  "Bridge_registry b =
     bind_io (retried (bh_ethers b) (bh_handle b) (bc_contractReferences (bh_contract b))) (\<lambda>ecdsaWalletRegistry.
     bind_io (lift_io (new_EthereumWalletRegistry (bh_ethers b) (bh_registry_deployments b)
       \<lparr>config_address = Some ecdsaWalletRegistry, config_deployedAtBlockNumber = None\<rparr> None)) (\<lambda>h.
     return_io (h, bh_registry_at b ecdsaWalletRegistry)))"

definition Bridge_walletRegistry :: "'w bridge_handle \<Rightarrow> ('w, 'w wallet_registry) io" where
  "Bridge_walletRegistry b = bind_io (Bridge_registry b) (\<lambda>(h, i). lift_io (EthereumWalletRegistry (bh_ethers b) h i))"

definition getWalletCompressedPublicKey :: "'w bridge_handle \<Rightarrow> Hex \<Rightarrow> ('w, Hex option) io" where
  "getWalletCompressedPublicKey b ecdsaWalletID =
     bind_io (Bridge_registry b) (\<lambda>(h, i).
     catch_io
       (bind_io (Registry_getWalletPublicKey (bh_ethers b) h i ecdsaWalletID) (\<lambda>uncompressedPublicKey.
        bind_io (lift_io (bind_res (compressPublicKey uncompressedPublicKey) Hex_from_string)) (\<lambda>k. return_io (Some k))))
       (\<lambda>error. bind_io (console_log (bh_ethers b) (''cannot get wallet public key for '' @ toString ecdsaWalletID @
           ''; error: '' @ error_text error)) (\<lambda>_. return_io None)))"

definition parseWalletDetails :: "'w bridge_handle \<Rightarrow> raw_wallet \<Rightarrow> ('w, Wallet) io" where
  "parseWalletDetails b wallet =
     bind_io (lift_io (Hex_from_string (raw_ecdsaWalletID wallet))) (\<lambda>ecdsaWalletID.
     bind_io (getWalletCompressedPublicKey b ecdsaWalletID) (\<lambda>walletPublicKey.
     bind_io (lift_io (Hex_from_string (raw_mainUtxoHash wallet))) (\<lambda>mainUtxoHash.
     bind_io (lift_io (Hex_from_string (raw_movingFundsTargetWalletsCommitmentHash wallet))) (\<lambda>commitmentHash.
     return_io \<lparr>w_ecdsaWalletID = ecdsaWalletID, w_walletPublicKey = walletPublicKey, w_mainUtxoHash = mainUtxoHash,
       w_pendingRedemptionsValue = raw_pendingRedemptionsValue wallet, w_createdAt = raw_createdAt wallet,
       w_movingFundsRequestedAt = raw_movingFundsRequestedAt wallet, w_closingStartedAt = raw_closingStartedAt wallet,
       w_pendingMovedFundsSweepRequestsCount = raw_pendingMovedFundsSweepRequestsCount wallet,
       w_state = WalletState_parse (raw_state wallet), w_movingFundsTargetWalletsCommitmentHash = commitmentHash\<rparr>))))"

definition Bridge_wallets :: "'w bridge_handle \<Rightarrow> Hex \<Rightarrow> ('w, Wallet) io" where
  "Bridge_wallets b walletPublicKeyHash =
     bind_io (retried (bh_ethers b) (bh_handle b) (bc_wallets (bh_contract b) (toPrefixedString walletPublicKeyHash)))
       (parseWalletDetails b)"

definition Bridge_activeWalletPublicKey :: "'w bridge_handle \<Rightarrow> ('w, Hex option) io" where
  "Bridge_activeWalletPublicKey b =
     bind_io (retried (bh_ethers b) (bh_handle b) (bc_activeWalletPubKeyHash (bh_contract b))) (\<lambda>activeWalletPublicKeyHash.
     if activeWalletPublicKeyHash = ''0x0000000000000000000000000000000000000000'' then return_io None
     else bind_io (lift_io (Hex_from_string activeWalletPublicKeyHash)) (\<lambda>h.
       bind_io (Bridge_wallets b h) (\<lambda>wallet. return_io (w_walletPublicKey wallet))))"

definition Bridge_getDepositRevealedEvents :: "'w bridge_handle \<Rightarrow> GetEventsOptions \<Rightarrow> ('w, DepositRevealedEvent list) io" where
  "Bridge_getDepositRevealedEvents b options =
     parsed_events (bh_ethers b) (bh_handle b) (bc_DepositRevealed (bh_contract b)) (parse_deposit_revealed (bh_ethers b)) (Some options)"

definition Bridge_getNewWalletRegisteredEvents :: "'w bridge_handle \<Rightarrow> GetEventsOptions \<Rightarrow> ('w, NewWalletRegisteredEvent list) io" where
  "Bridge_getNewWalletRegisteredEvents b options =
     parsed_events (bh_ethers b) (bh_handle b) (bc_NewWalletRegistered (bh_contract b)) parse_new_wallet (Some options)"

definition Bridge_getRedemptionRequestedEvents :: "'w bridge_handle \<Rightarrow> GetEventsOptions \<Rightarrow> ('w, RedemptionRequestedEvent list) io" where
  "Bridge_getRedemptionRequestedEvents b options =
     parsed_events (bh_ethers b) (bh_handle b) (bc_RedemptionRequested (bh_contract b)) (parse_redemption_requested (bh_ethers b)) (Some options)"

definition EthereumBridge :: "'w bridge_handle \<Rightarrow> 'w bridge res" where
  "EthereumBridge b =
     bind_res (Bridge_getChainIdentifier b) (\<lambda>identifier.
     Inr \<lparr>bridge_getChainIdentifier = identifier,
       getDepositRevealedEvents = Bridge_getDepositRevealedEvents b,
       submitDepositSweepProof = Bridge_submitDepositSweepProof b,
       bridge_revealDeposit = Bridge_revealDeposit b,
       bridge_deposits = Bridge_deposits b,
       bridge_requestRedemption = Bridge_requestRedemption b,
       submitRedemptionProof = Bridge_submitRedemptionProof b,
       txProofDifficultyFactor = Bridge_txProofDifficultyFactor b,
       pendingRedemptions = Bridge_pendingRedemptions b,
       pendingRedemptionsByWalletPKH = Bridge_pendingRedemptionsByWalletPKH b,
       timedOutRedemptions = Bridge_timedOutRedemptions b,
       activeWalletPublicKey = Bridge_activeWalletPublicKey b,
       getNewWalletRegisteredEvents = Bridge_getNewWalletRegisteredEvents b,
       bridge_walletRegistry = Bridge_walletRegistry b,
       bridge_wallets = Bridge_wallets b,
       buildUtxoHash = Bridge_buildUtxoHash (bh_ethers b),
       getRedemptionRequestedEvents = Bridge_getRedemptionRequestedEvents b\<rparr>)"

subsection \<open>Lemmas\<close>

lemma byte_text_large: "bytes_to_hex [0xfd] = ''fd''" "bytes_to_hex [0xfe] = ''fe''" "bytes_to_hex [0xff] = ''ff''"
  by (simp_all add: byte_hex_def hex_digit_def hex_digits_def)

lemma take_byte_text: "take 2 (bytes_to_hex (b # bs)) = bytes_to_hex [b]"
  by (simp add: byte_hex_def)

lemma byte_text_small:
  assumes "n \<le> 252"
  shows "bytes_to_hex [byte_of n] \<notin> {''fd'', ''fe'', ''ff''}"
proof -
  have "byte_of n \<noteq> 0xfd" "byte_of n \<noteq> 0xfe" "byte_of n \<noteq> 0xff"
    using assms by (auto simp: byte_of_def dest!: arg_cong[where f = unat] simp: unat_of_nat)
  then show ?thesis using byte_text_large by (metis bytes_to_hex_inj insertE list.inject singletonD)
qed

lemma script_size:
  assumes "n \<le> 252"
  shows "\<exists>v. readCompactSizeUint (Hex (byte_of n # s)) = Inr \<lparr>cs_value = v, cs_byteLength = 1\<rparr>"
  using byte_text_small[OF assms] take_byte_text[of "byte_of n" s]
  by (simp add: readCompactSizeUint_def Let_def)

lemma script_size_large:
  assumes "n \<in> {253, 254, 255}"
  shows "\<exists>m. readCompactSizeUint (Hex (byte_of n # s)) = Inl (Error m)"
proof -
  have "bytes_to_hex [byte_of n] \<in> {''fd'', ''fe'', ''ff''}" using assms byte_text_large by (auto simp: byte_of_def)
  then show ?thesis using take_byte_text[of "byte_of n" s] by (auto simp: readCompactSizeUint_def Let_def)
qed

subsection \<open>Properties\<close>

text \<open>C29: A redemption's key can be recomputed from its event: of a request whose script has at most 252
  bytes, the event gives the script without the length in front and the hash of the wallet, and the
  key built from them, under which pending and timed-out requests are read, is the hash that the
  contract makes of the bytes it emitted.\<close>

theorem redemption_event_key:
  assumes "rq_redeemerOutputScript event = ''0x'' @ bytes_to_hex (byte_of (length s) # s)" "length s \<le> 252"
    and "rq_walletPubKeyHash event = ''0x'' @ bytes_to_hex p"
    and "chain_event event = Inr ev" "EthereumAddress_from (utils_getAddress lib) (rq_redeemer event) = Inr a"
  shows "\<exists>r. parse_redemption_requested lib event = Inr r \<and>
     rre_redeemerOutputScript r = Hex s \<and> rre_walletPublicKeyHash r = Hex p \<and>
     buildRedemptionKey lib (rre_walletPublicKeyHash r) (rre_redeemerOutputScript r) =
       bind_res (solidityKeccak256 lib [(''bytes'', AbiText (rq_redeemerOutputScript event))]) (\<lambda>h.
       solidityKeccak256 lib [(''bytes32'', AbiText h), (''bytes20'', AbiText (rq_walletPubKeyHash event))])"
proof -
  obtain v where v: "readCompactSizeUint (Hex (byte_of (length s) # s)) = Inr \<lparr>cs_value = v, cs_byteLength = 1\<rparr>"
    using script_size[OF assms(2)] by blast
  have h: "Hex_from_string (rq_redeemerOutputScript event) = Inr (Hex (byte_of (length s) # s))"
    unfolding assms(1) using Hex_from_prefixed_hex_string[of "byte_of (length s) # s"] by simp
  have d: "drop 2 (bytes_to_hex (byte_of (length s) # s)) = bytes_to_hex s" by (simp add: byte_hex_def)
  let ?r = "ChainEvent.extend ev (RedemptionRequestedEvent.fields a (Hex s) (rq_requestedAmount event)
      (rq_treasuryFee event) (rq_txMaxFee event) (Hex p))"
  have "parse_redemption_requested lib event = Inr ?r"
    unfolding parse_redemption_requested_def h v bind_res_simps Let_def
    using assms(3-5) d by (simp del: bytes_to_hex_simps)
  moreover have "rre_redeemerOutputScript ?r = Hex s" "rre_walletPublicKeyHash ?r = Hex p"
    by (simp_all add: ChainEvent.defs RedemptionRequestedEvent.defs)
  moreover have "buildRedemptionKey lib (Hex p) (Hex s) =
       bind_res (solidityKeccak256 lib [(''bytes'', AbiText (rq_redeemerOutputScript event))]) (\<lambda>h.
       solidityKeccak256 lib [(''bytes32'', AbiText h), (''bytes20'', AbiText (rq_walletPubKeyHash event))])"
    unfolding assms(1,3) buildRedemptionKey_def prefixed_script_def by simp
  ultimately show ?thesis by metis
qed

text \<open>A library whose hash is the text itself, and an event of a script of two bytes.\<close>

definition sample_ethers :: "nat ethers" where
  "sample_ethers = \<lparr>ethers_runtime = \<lparr>random100 = (\<lambda>w. (0, w)), sleep = (\<lambda>_ w. w)\<rparr>, console_debug = (\<lambda>_. return_io ()),
     console_log = (\<lambda>_. return_io ()), error_shape = (\<lambda>_. PlainObject), utils_getAddress = sample_getAddress,
     solidityKeccak256 = (\<lambda>vs. Inr (concat (map (\<lambda>(t, v). case v of AbiText s \<Rightarrow> s | AbiInt i \<Rightarrow> show_int i) vs))),
     abi_encode = (\<lambda>_. Inr ''0x''), hash_functions = sample_crypto, latestNumber = return_io 9\<rparr>"

definition sample_redemption_event :: raw_redemption_requested where
  "sample_redemption_event = \<lparr>raw_blockNumber = 7, raw_blockHash = ''0x01'', raw_transactionHash = ''0x02'',
     rq_walletPubKeyHash = ''0x'' @ bytes_to_hex (replicate 20 3), rq_redeemer = ''0x'' @ bytes_to_hex (replicate 20 4),
     rq_redeemerOutputScript = ''0x020102'', rq_requestedAmount = 10, rq_treasuryFee = 1, rq_txMaxFee = 1\<rparr>"

theorem redemption_event_key_witness:
  "\<exists>r. parse_redemption_requested sample_ethers sample_redemption_event = Inr r \<and> rre_redeemerOutputScript r = Hex [1, 2]"
proof -
  have s: "rq_redeemerOutputScript sample_redemption_event = ''0x'' @ bytes_to_hex (byte_of (length [1, 2 :: byte]) # [1, 2])"
    by (simp add: sample_redemption_event_def byte_of_def byte_hex_def hex_digit_def hex_digits_def)
  have w: "rq_walletPubKeyHash sample_redemption_event = ''0x'' @ bytes_to_hex (replicate 20 3)"
    by (simp add: sample_redemption_event_def)
  have "Hex_from_string ''0x01'' = Inr (Hex [1])" "Hex_from_string ''0x02'' = Inr (Hex [2])" by code_simp+
  then have c: "chain_event sample_redemption_event = Inr \<lparr>ev_blockNumber = 7, ev_blockHash = Hex [1], ev_transactionHash = Hex [2]\<rparr>"
    by (simp add: chain_event_def sample_redemption_event_def bn_from_number_def bn_toNumber_def MAX_SAFE_def)
  have "sample_getAddress (''0x'' @ bytes_to_hex (replicate 20 4)) = Inr (''0x'' @ bytes_to_hex (replicate 20 4))"
    using strip_0x_prefixed(2)[of "bytes_to_hex (replicate 20 4)"] bytes_to_hex_digits[of "replicate 20 4"]
    by (simp add: sample_getAddress_def Let_def)
  then have a: "EthereumAddress_from (utils_getAddress sample_ethers) (rq_redeemer sample_redemption_event) =
      Inr (EthereumAddress (bytes_to_hex (replicate 20 4)))"
    by (simp add: EthereumAddress_from_def sample_ethers_def sample_redemption_event_def)
  show ?thesis using redemption_event_key[OF s _ w c a] by auto
qed

end
