(* ===== verification/EthereumContracts.thy ===== *)
theory EthereumContracts
  imports EthereumBridge
begin

section \<open>The vault and the token (typescript/src/lib/ethereum)\<close>

text \<open>
  The handles of \<open>tbtc-vault.ts\<close> and \<open>tbtc-token.ts\<close>. Again the contracts are parameters. The key of a
  deposit is read from the events of the vault as a number; what that does to its digits is shown.
\<close>

subsection \<open>The vault\<close>

record raw_minting_request =
  rm_requestedAt :: int
  rm_finalizedAt :: int

record raw_minting_requested = ethers_event +
  rmr_minter :: string
  rmr_depositKey :: int
  rmr_depositor :: string
  rmr_amount :: int
  rmr_fundingTxHash :: string
  rmr_fundingOutputIndex :: int

record raw_minting_cancelled = ethers_event +
  rmc_guardian :: string
  rmc_depositKey :: int

record raw_minting_finalized = ethers_event +
  rmf_minter :: string
  rmf_depositKey :: int
  rmf_depositor :: string
  rmf_optimisticMintingDebt :: int

text \<open>The requested events take filter arguments: the minter and the key.\<close>

record 'w vault_contract =
  vc_optimisticMintingDelay :: "('w, int) io"
  vc_getMinters :: "('w, string list) io"
  vc_isMinter :: "string \<Rightarrow> ('w, bool) io"
  vc_isGuardian :: "string \<Rightarrow> ('w, bool) io"
  vc_requestOptimisticMint :: "string \<Rightarrow> int \<Rightarrow> ('w, string) io"
  vc_cancelOptimisticMint :: "string \<Rightarrow> int \<Rightarrow> ('w, string) io"
  vc_finalizeOptimisticMint :: "string \<Rightarrow> int \<Rightarrow> ('w, string) io"
  vc_optimisticMintingRequests :: "string \<Rightarrow> ('w, raw_minting_request) io"
  vc_OptimisticMintingRequested :: "string option list \<Rightarrow> ('w, raw_minting_requested) event_filter"
  vc_OptimisticMintingCancelled :: "('w, raw_minting_cancelled) event_filter"
  vc_OptimisticMintingFinalized :: "('w, raw_minting_finalized) event_filter"

definition new_EthereumTBTCVault :: "'w ethers \<Rightarrow> deployments \<Rightarrow> EthersContractConfig \<Rightarrow> string option \<Rightarrow> EthersContractHandle res" where
  "new_EthereumTBTCVault lib deps config chainId = new_handle lib deps config chainId"

definition Vault_getChainIdentifier :: "'w ethers \<Rightarrow> EthersContractHandle \<Rightarrow> ChainIdentifier res" where
  "Vault_getChainIdentifier lib h = EthereumAddress_from (utils_getAddress lib) (handle_address h)"

definition Vault_optimisticMintingDelay :: "'w ethers \<Rightarrow> EthersContractHandle \<Rightarrow> 'w vault_contract \<Rightarrow> ('w, int) io" where
  "Vault_optimisticMintingDelay lib h i =
     bind_io (retried lib h (vc_optimisticMintingDelay i)) (\<lambda>delaySeconds. lift_io (small_number delaySeconds))"

definition Vault_getMinters :: "'w ethers \<Rightarrow> EthersContractHandle \<Rightarrow> 'w vault_contract \<Rightarrow> ('w, ChainIdentifier list) io" where
  "Vault_getMinters lib h i =
     bind_io (retried lib h (vc_getMinters i)) (\<lambda>minters. lift_io (map_res (EthereumAddress_from (utils_getAddress lib)) minters))"

definition Vault_isMinter :: "'w ethers \<Rightarrow> EthersContractHandle \<Rightarrow> 'w vault_contract \<Rightarrow> ChainIdentifier \<Rightarrow> ('w, bool) io" where
  "Vault_isMinter lib h i address = retried lib h (vc_isMinter i (''0x'' @ identifierHex address))"

definition Vault_isGuardian :: "'w ethers \<Rightarrow> EthersContractHandle \<Rightarrow> 'w vault_contract \<Rightarrow> ChainIdentifier \<Rightarrow> ('w, bool) io" where
  "Vault_isGuardian lib h i address = retried lib h (vc_isGuardian i (''0x'' @ identifierHex address))"

definition Vault_requestOptimisticMint ::
  "'w ethers \<Rightarrow> EthersContractHandle \<Rightarrow> 'w vault_contract \<Rightarrow> BitcoinTxHash \<Rightarrow> int \<Rightarrow> ('w, Hex) io" where
  "Vault_requestOptimisticMint lib h i depositTxHash depositOutputIndex =
     sent lib h (Some [''Optimistic minting already requested for the deposit'', ''The deposit is already swept''])
       (vc_requestOptimisticMint i (toPrefixedString (hex_reverse depositTxHash)) depositOutputIndex)"

definition Vault_cancelOptimisticMint ::
  "'w ethers \<Rightarrow> EthersContractHandle \<Rightarrow> 'w vault_contract \<Rightarrow> BitcoinTxHash \<Rightarrow> int \<Rightarrow> ('w, Hex) io" where
  "Vault_cancelOptimisticMint lib h i depositTxHash depositOutputIndex =
     sent lib h (Some [''Optimistic minting already finalized for the deposit''])
       (vc_cancelOptimisticMint i (toPrefixedString (hex_reverse depositTxHash)) depositOutputIndex)"

definition Vault_finalizeOptimisticMint ::
  "'w ethers \<Rightarrow> EthersContractHandle \<Rightarrow> 'w vault_contract \<Rightarrow> BitcoinTxHash \<Rightarrow> int \<Rightarrow> ('w, Hex) io" where
  "Vault_finalizeOptimisticMint lib h i depositTxHash depositOutputIndex =
     sent lib h (Some [''Optimistic minting already finalized for the deposit'', ''The deposit is already swept''])
       (vc_finalizeOptimisticMint i (toPrefixedString (hex_reverse depositTxHash)) depositOutputIndex)"

definition parseOptimisticMintingRequest :: "raw_minting_request \<Rightarrow> OptimisticMintingRequest res" where
  "parseOptimisticMintingRequest request =
     bind_res (small_number (rm_requestedAt request)) (\<lambda>requestedAt.
     bind_res (small_number (rm_finalizedAt request)) (\<lambda>finalizedAt.
     Inr \<lparr>omr_requestedAt = requestedAt, omr_finalizedAt = finalizedAt\<rparr>))"

definition Vault_optimisticMintingRequests ::
  "'w ethers \<Rightarrow> EthersContractHandle \<Rightarrow> 'w vault_contract \<Rightarrow> BitcoinTxHash \<Rightarrow> int \<Rightarrow> ('w, OptimisticMintingRequest) io" where
  "Vault_optimisticMintingRequests lib h i depositTxHash depositOutputIndex =
     bind_io (lift_io (buildDepositKey lib depositTxHash depositOutputIndex)) (\<lambda>depositKey.
     bind_io (retried lib h (vc_optimisticMintingRequests i depositKey)) (\<lambda>request.
     lift_io (parseOptimisticMintingRequest request)))"

definition parse_minting_requested :: "'w ethers \<Rightarrow> raw_minting_requested \<Rightarrow> OptimisticMintingRequestedEvent res" where
  "parse_minting_requested lib event =
     bind_res (chain_event event) (\<lambda>ev.
     bind_res (EthereumAddress_from (utils_getAddress lib) (rmr_minter event)) (\<lambda>minter.
     bind_res (number_hex (rmr_depositKey event)) (\<lambda>depositKey.
     bind_res (EthereumAddress_from (utils_getAddress lib) (rmr_depositor event)) (\<lambda>depositor.
     bind_res (Hex_from_string (rmr_fundingTxHash event)) (\<lambda>hash.
     bind_res (small_number (rmr_fundingOutputIndex event)) (\<lambda>outputIndex.
     Inr (ChainEvent.extend ev (OptimisticMintingRequestedEvent.fields minter depositKey depositor (rmr_amount event)
       (hex_reverse hash) outputIndex))))))))"

definition parse_minting_cancelled :: "'w ethers \<Rightarrow> raw_minting_cancelled \<Rightarrow> OptimisticMintingCancelledEvent res" where
  "parse_minting_cancelled lib event =
     bind_res (chain_event event) (\<lambda>ev.
     bind_res (EthereumAddress_from (utils_getAddress lib) (rmc_guardian event)) (\<lambda>guardian.
     bind_res (number_hex (rmc_depositKey event)) (\<lambda>depositKey.
     Inr (ChainEvent.extend ev (OptimisticMintingCancelledEvent.fields guardian depositKey)))))"

definition parse_minting_finalized :: "'w ethers \<Rightarrow> raw_minting_finalized \<Rightarrow> OptimisticMintingFinalizedEvent res" where
  "parse_minting_finalized lib event =
     bind_res (chain_event event) (\<lambda>ev.
     bind_res (EthereumAddress_from (utils_getAddress lib) (rmf_minter event)) (\<lambda>minter.
     bind_res (number_hex (rmf_depositKey event)) (\<lambda>depositKey.
     bind_res (EthereumAddress_from (utils_getAddress lib) (rmf_depositor event)) (\<lambda>depositor.
     Inr (ChainEvent.extend ev (OptimisticMintingFinalizedEvent.fields minter depositKey depositor
       (rmf_optimisticMintingDebt event)))))))"

definition EthereumTBTCVault :: "'w ethers \<Rightarrow> EthersContractHandle \<Rightarrow> 'w vault_contract \<Rightarrow> 'w tbtc_vault res" where
  "EthereumTBTCVault lib h i =
     bind_res (Vault_getChainIdentifier lib h) (\<lambda>identifier.
     Inr \<lparr>vault_getChainIdentifier = identifier,
       optimisticMintingDelay = Vault_optimisticMintingDelay lib h i,
       getMinters = Vault_getMinters lib h i,
       isMinter = Vault_isMinter lib h i,
       isGuardian = Vault_isGuardian lib h i,
       requestOptimisticMint = Vault_requestOptimisticMint lib h i,
       cancelOptimisticMint = Vault_cancelOptimisticMint lib h i,
       finalizeOptimisticMint = Vault_finalizeOptimisticMint lib h i,
       optimisticMintingRequests = Vault_optimisticMintingRequests lib h i,
       getOptimisticMintingRequestedEvents = (\<lambda>options filterArgs.
         parsed_events lib h (vc_OptimisticMintingRequested i filterArgs) (parse_minting_requested lib) options),
       getOptimisticMintingCancelledEvents = (\<lambda>options.
         parsed_events lib h (vc_OptimisticMintingCancelled i) (parse_minting_cancelled lib) (Some options)),
       getOptimisticMintingFinalizedEvents = (\<lambda>options.
         parsed_events lib h (vc_OptimisticMintingFinalized i) (parse_minting_finalized lib) (Some options))\<rparr>)"

subsection \<open>The token\<close>

record 'w token_contract =
  tk_signer_getAddress :: "('w, string) io option"
  tk_owner :: "('w, string) io"
  tk_totalSupply :: "query_end \<Rightarrow> ('w, int) io"
  tk_approveAndCall :: "string \<Rightarrow> int \<Rightarrow> string \<Rightarrow> ('w, string) io"

definition new_EthereumTBTCToken :: "'w ethers \<Rightarrow> deployments \<Rightarrow> EthersContractConfig \<Rightarrow> string option \<Rightarrow> EthersContractHandle res" where
  "new_EthereumTBTCToken lib deps config chainId = new_handle lib deps config chainId"

definition Token_getChainIdentifier :: "'w ethers \<Rightarrow> EthersContractHandle \<Rightarrow> ChainIdentifier res" where
  "Token_getChainIdentifier lib h = EthereumAddress_from (utils_getAddress lib) (handle_address h)"

definition Token_totalSupply :: "'w token_contract \<Rightarrow> int option \<Rightarrow> ('w, int) io" where
  "Token_totalSupply i blockNumber = tk_totalSupply i (case blockNumber of None \<Rightarrow> Latest | Some n \<Rightarrow> UpTo n)"

definition buildBridgeRequestRedemptionData ::
  "'w ethers \<Rightarrow> Hex \<Rightarrow> BitcoinUtxo \<Rightarrow> Hex \<Rightarrow> (string \<times> utxo_param \<times> string) res" where
  "buildBridgeRequestRedemptionData lib walletPublicKey mainUtxo redeemerOutputScript =
     bind_res (computeHash160 (hash_functions lib) walletPublicKey) (\<lambda>h.
     Inr (toPrefixedString h, utxo_of mainUtxo, prefixed_script redeemerOutputScript))"

definition Token_buildRequestRedemptionData ::
  "'w ethers \<Rightarrow> ChainIdentifier \<Rightarrow> Hex \<Rightarrow> BitcoinUtxo \<Rightarrow> Hex \<Rightarrow> Hex res" where
  "Token_buildRequestRedemptionData lib redeemer walletPublicKey mainUtxo redeemerOutputScript =
     bind_res (buildBridgeRequestRedemptionData lib walletPublicKey mainUtxo redeemerOutputScript)
       (\<lambda>(walletPublicKeyHash, utxo, prefixedRawRedeemerOutputScript).
     bind_res (abi_encode lib
       [(''address'', AbiText (identifierHex redeemer)), (''bytes20'', AbiText walletPublicKeyHash),
        (''bytes32'', AbiText (p_txHash utxo)), (''uint32'', AbiInt (p_txOutputIndex utxo)),
        (''uint64'', AbiInt (p_txOutputValue utxo)), (''bytes'', AbiText prefixedRawRedeemerOutputScript)]) Hex_from_string)"

definition Token_requestRedemption ::
  "'w ethers \<Rightarrow> EthersContractHandle \<Rightarrow> 'w token_contract \<Rightarrow> Hex \<Rightarrow> BitcoinUtxo \<Rightarrow> Hex \<Rightarrow> int \<Rightarrow> ('w, Hex) io" where
  "Token_requestRedemption lib h i walletPublicKey mainUtxo redeemerOutputScript amount =
     bind_io (case tk_signer_getAddress i of None \<Rightarrow> return_io [] | Some a \<Rightarrow> a) (\<lambda>redeemer.
     if redeemer = [] then throw_io (Error ''Signer not provided'')
     else bind_io (tk_owner i) (\<lambda>vault.
       bind_io (lift_io (EthereumAddress_from (utils_getAddress lib) redeemer)) (\<lambda>address.
       bind_io (lift_io (Token_buildRequestRedemptionData lib address walletPublicKey mainUtxo redeemerOutputScript)) (\<lambda>extraData.
       sent lib h None (tk_approveAndCall i vault amount (toPrefixedString extraData))))))"

definition EthereumTBTCToken :: "'w ethers \<Rightarrow> EthersContractHandle \<Rightarrow> 'w token_contract \<Rightarrow> 'w tbtc_token res" where
  "EthereumTBTCToken lib h i =
     bind_res (Token_getChainIdentifier lib h) (\<lambda>identifier.
     Inr \<lparr>token_getChainIdentifier = identifier, totalSupply = Token_totalSupply i,
       token_requestRedemption = Token_requestRedemption lib h i,
       buildRequestRedemptionData = Token_buildRequestRedemptionData lib\<rparr>)"

subsection \<open>Depositor proxies (depositor-proxy.ts)\<close>

text \<open>The class is abstract: \<open>reveal\<close> is the operation of a subclass.\<close>

datatype address_arg = AddressText string | AddressValue ChainIdentifier

definition new_EthereumDepositorProxy ::
  "'w ethers \<Rightarrow> (BitcoinRawTxVectors \<Rightarrow> int \<Rightarrow> DepositReceipt \<Rightarrow> ChainIdentifier option \<Rightarrow> ('w, tx_result) io) \<Rightarrow> address_arg \<Rightarrow>
   'w depositor_proxy res" where
  "new_EthereumDepositorProxy lib reveal address =
     bind_res (case address of AddressText s \<Rightarrow> EthereumAddress_from (utils_getAddress lib) s | AddressValue a \<Rightarrow> Inr a) (\<lambda>a.
     Inr \<lparr>proxy_getChainIdentifier = a, proxy_revealDeposit = reveal\<rparr>)"

definition proxy_packRevealDepositParameters ::
  "BitcoinRawTxVectors \<Rightarrow> int \<Rightarrow> DepositReceipt \<Rightarrow> ChainIdentifier option \<Rightarrow> tx_param \<times> reveal_param \<times> string option" where
  "proxy_packRevealDepositParameters depositTx depositOutputIndex deposit vault =
     packRevealDepositParameters depositTx depositOutputIndex deposit vault"

subsection \<open>Lemmas\<close>

lemma be_nat_Cons: "be_nat (b # bs) = unat b * 256 ^ length bs + be_nat bs"
  using be_nat_append[of "[b]" bs] be_nat_snoc[of "[]" b] by simp

lemma number_hex_length:
  assumes "0 \<le> v" "number_hex v = Inr (Hex bs)"
  shows "length (bn_toHexString v) = 2 + 2 * length bs"
proof -
  let ?h = "show_base 16 (nat v)"
  let ?d = "if odd (length ?h) then CHR ''0'' # ?h else ?h"
  have "is_hex_digit (CHR ''0'')" by (simp add: is_hex_digit_def hex_val_def hex_digits_def upt_rec)
  then have d: "list_all is_hex_digit ?d" "even (length ?d)" using show_base_hex_digits[of "nat v"] by simp_all
  have b: "bn_toHexString v = ''0x'' @ ?d" using assms(1) by (simp add: bn_toHexString_def Let_def)
  have "bs = hex_to_bytes ?d"
    using assms(2) strip_0x_prefixed(1)[of ?d] unfolding number_hex_def b Hex_from_string_Inr by (simp only: Hex.inject)
  then show ?thesis using length_hex_to_bytes[OF d] unfolding b by simp
qed

text \<open>A number of 32 bytes keeps its digits exactly when the first byte is not zero.\<close>

lemma number_hex_key:
  assumes "length k = 32"
  shows "(number_hex (int (be_nat k)) = Inr (Hex k)) = (k ! 0 \<noteq> 0)"
proof (cases k)
  case (Cons b bs)
  have len: "length bs = 31" using assms Cons by simp
  show ?thesis
  proof (cases "b = 0")
    case True
    have "\<not> number_hex (int (be_nat k)) = Inr (Hex k)"
    proof
      assume "number_hex (int (be_nat k)) = Inr (Hex k)"
      then have "length (bn_toHexString (int (be_nat k))) = 2 + 2 * 32"
        using number_hex_length[of "int (be_nat k)" k] assms by simp
      from length_bn_toHexString[OF _ this] have "256 ^ 31 \<le> int (be_nat k)" by simp
      then have "int (256 ^ 31) \<le> int (be_nat k)" by simp
      then have "256 ^ 31 \<le> be_nat k" unfolding of_nat_le_iff .
      moreover have "be_nat k < 256 ^ 31" using be_nat_lt[of bs] len True Cons by (simp add: be_nat_Cons)
      ultimately show False by simp
    qed
    then show ?thesis using True Cons by simp
  next
    case False
    then have "1 \<le> unat b" by (simp add: Suc_le_eq unat_gt_0)
    then have "1 * 256 ^ 31 \<le> unat b * 256 ^ 31" by (rule mult_le_mono1)
    then have "256 ^ 31 \<le> be_nat k" unfolding Cons be_nat_Cons len by linarith
    moreover have "be_nat k < 256 ^ 32" using be_nat_lt[of k] assms by simp
    moreover have "be_bytes 32 (be_nat k) = k" using be_bytes_be_nat[of k] unfolding assms .
    ultimately have "bn_toHexString (int (be_nat k)) = ''0x'' @ bytes_to_hex k"
      using bn_toHexString_bytes[of 32 "int (be_nat k)"] by simp
    then have "number_hex (int (be_nat k)) = Inr (Hex k)" by (simp add: number_hex_def)
    then show ?thesis using False Cons by simp
  qed
qed (use assms in simp)

subsection \<open>Properties\<close>

text \<open>C37: The key of a deposit in an event of the vault is not always the key that identifies the deposit:
  the 32 bytes of the hash come back exactly when the first of them is not zero, since the number's
  digits are printed without the leading ones.\<close>

theorem minting_event_deposit_key:
  assumes "buildDepositKey lib depositTxHash i = Inr (''0x'' @ bytes_to_hex k)" "length k = 32"
    and "rmr_depositKey event = int (be_nat k)" "parse_minting_requested lib event = Inr r"
  shows "(buildDepositKey lib depositTxHash i = Inr (toPrefixedString (omre_depositKey r))) = (k ! 0 \<noteq> 0)"
proof -
  obtain h where h: "number_hex (int (be_nat k)) = Inr h" "omre_depositKey r = h"
    using assms(3,4) by (auto simp: parse_minting_requested_def bind_res_Inr ChainEvent.defs OptimisticMintingRequestedEvent.defs)
  have "(''0x'' @ bytes_to_hex k = toPrefixedString h) = (h = Hex k)"
    using assms(2) by (cases h) (auto simp: toPrefixedString_def Let_def)
  then show ?thesis using number_hex_key[OF assms(2)] h assms(1) by auto
qed

definition zero_key_event :: raw_minting_requested where
  "zero_key_event = \<lparr>raw_blockNumber = 7, raw_blockHash = ''0x01'', raw_transactionHash = ''0x02'',
     rmr_minter = ''0x'' @ bytes_to_hex (replicate 20 3), rmr_depositKey = 1,
     rmr_depositor = ''0x'' @ bytes_to_hex (replicate 20 3), rmr_amount = 5, rmr_fundingTxHash = ''0x01'',
     rmr_fundingOutputIndex = 0\<rparr>"

definition one_key_ethers :: "nat ethers" where
  "one_key_ethers = sample_ethers\<lparr>solidityKeccak256 := (\<lambda>_. Inr (''0x'' @ bytes_to_hex (replicate 31 0 @ [1])))\<rparr>"

theorem minting_event_deposit_key_witness:
  "\<exists>r. parse_minting_requested one_key_ethers zero_key_event = Inr r \<and>
     buildDepositKey one_key_ethers (Hex [1]) 0 \<noteq> Inr (toPrefixedString (omre_depositKey r))"
proof -
  have k: "buildDepositKey one_key_ethers (Hex [1]) 0 = Inr (''0x'' @ bytes_to_hex (replicate 31 0 @ [1]))"
    by (simp add: buildDepositKey_def one_key_ethers_def)
  have n: "rmr_depositKey zero_key_event = int (be_nat (replicate 31 0 @ [1]))"
    by (simp add: zero_key_event_def)
  have h: "Hex_from_string ''0x01'' = Inr (Hex [1])" "Hex_from_string ''0x02'' = Inr (Hex [2])" "number_hex 1 = Inr (Hex [1])"
    by code_simp+
  have "sample_getAddress (''0x'' @ bytes_to_hex (replicate 20 3)) = Inr (''0x'' @ bytes_to_hex (replicate 20 3))"
    using strip_0x_prefixed(2)[of "bytes_to_hex (replicate 20 3)"] bytes_to_hex_digits[of "replicate 20 3"]
    by (simp add: sample_getAddress_def Let_def)
  then have a: "EthereumAddress_from (utils_getAddress one_key_ethers) (''0x'' @ bytes_to_hex (replicate 20 3)) =
      Inr (EthereumAddress (bytes_to_hex (replicate 20 3)))"
    by (simp add: EthereumAddress_from_def one_key_ethers_def sample_ethers_def)
  have "\<exists>r. parse_minting_requested one_key_ethers zero_key_event = Inr r"
    using a by (simp add: parse_minting_requested_def chain_event_def zero_key_event_def bn_from_number_def bn_toNumber_def
        MAX_SAFE_def h small_number_def)
  then obtain r where r: "parse_minting_requested one_key_ethers zero_key_event = Inr r" ..
  from minting_event_deposit_key[OF k _ n r] show ?thesis using r by (auto simp: nth_append)
qed

end
