(* ===== verification/RelayerDepositors.thy ===== *)
theory RelayerDepositors
  imports EthereumBridge
begin

section \<open>Depositors behind a relayer (StarkNet, Sei, Solana)\<close>

text \<open>
  \<open>starknet/starknet-depositor.ts\<close>, \<open>sei/sei-depositor.ts\<close> and
  \<open>solana/solana-depositor-interface.ts\<close> under typescript/src/lib: a deposit is revealed by a
  request to a relayer. The first two retry failed requests after fixed delays and have the same
  code but for the names, the address format and the address of the relayer; the model has each
  common function once. The HTTP client is a parameter, and so is the console.
\<close>

subsection \<open>Requests, replies and failures\<close>

record reveal_request =
  rv_fundingTx :: tx_param
  rv_reveal :: reveal_param
  rv_l2DepositOwner :: string
  rv_l2Sender :: string

text \<open>The body of a reply. A receipt may have no transaction hash. \<open>rly_json\<close> is the text of the whole
  body and \<open>rly_details\<close> that of its details; a reply without a body has no field.\<close>

record relayer_data =
  rly_success :: "bool option"
  rly_depositId :: "string option"
  rly_message :: "string option"
  rly_receipt :: "string option option"
  rly_error :: "string option"
  rly_details :: "string option"
  rly_json :: string

text \<open>What is thrown while a request is made: an error of the HTTP client, or one of the code's own,
  which has only a message.\<close>

record failure =
  fl_isAxiosError :: bool
  fl_code :: "string option"
  fl_response :: "(int \<times> relayer_data) option"
  fl_message :: string

definition own_failure :: "string \<Rightarrow> failure" where
  "own_failure m = \<lparr>fl_isAxiosError = False, fl_code = None, fl_response = None, fl_message = m\<rparr>"

definition fl_status :: "failure \<Rightarrow> int option" where
  "fl_status f = map_option fst (fl_response f)"

record 'w relayer_env =
  axios_post :: "string \<Rightarrow> reveal_request \<Rightarrow> 'w \<Rightarrow> (failure + int \<times> relayer_data) \<times> 'w"
  say :: "string \<Rightarrow> 'w \<Rightarrow> 'w"
  wait :: "int \<Rightarrow> 'w \<Rightarrow> 'w"
  keccak256 :: "string \<Rightarrow> string res"
  packed_keccak256 :: "(string \<times> abi_value) list \<Rightarrow> string res"

subsection \<open>JavaScript values\<close>

text \<open>An optional text is true when it is there and not empty.\<close>

definition truthy :: "string option \<Rightarrow> bool" where
  "truthy s = (case s of None \<Rightarrow> False | Some t \<Rightarrow> t \<noteq> [])"

definition or_else :: "string option \<Rightarrow> string \<Rightarrow> string" where
  "or_else s d = (if truthy s then the s else d)"

text \<open>\<open>BigInt\<close> of a text: white space around it is dropped; the empty text is 0; a base prefix, or a
  sign and decimal digits.\<close>

definition base_digit :: "nat \<Rightarrow> char \<Rightarrow> bool" where
  "base_digit b c = (case hex_val c of None \<Rightarrow> False | Some d \<Rightarrow> d < b)"

definition base_int :: "string \<Rightarrow> nat \<Rightarrow> string \<Rightarrow> int res" where
  "base_int text b d =
     (if d \<noteq> [] \<and> list_all (base_digit b) d then Inr (int (foldl (\<lambda>a c. b * a + the (hex_val c)) 0 d))
      else Inl (Error (''SyntaxError: Cannot convert '' @ text @ '' to a BigInt'')))"

definition BigInt_text :: "string \<Rightarrow> int res" where
  "BigInt_text text = (let t = trimEnd (dropWhile is_space text) in
     if t = [] then Inr 0
     else if take 2 t \<in> {''0x'', ''0X''} then base_int text 16 (drop 2 t)
     else if take 2 t \<in> {''0o'', ''0O''} then base_int text 8 (drop 2 t)
     else if take 2 t \<in> {''0b'', ''0B''} then base_int text 2 (drop 2 t)
     else if take 1 t = ''-'' then bind_res (base_int text 10 (drop 1 t)) (\<lambda>n. Inr (- n))
     else if take 1 t = ''+'' then base_int text 10 (drop 1 t)
     else base_int text 10 t)"

definition int_hex :: "int \<Rightarrow> string" where
  "int_hex n = (if n < 0 then CHR ''-'' # show_base 16 (nat (- n)) else show_base 16 (nat n))"

subsection \<open>One request\<close>

text \<open>The identifier of the deposit, computed for the log only.\<close>

definition relayer_depositId :: "'w relayer_env \<Rightarrow> BitcoinRawTxVectors \<Rightarrow> int \<Rightarrow> string res" where
  "relayer_depositId env depositTx depositOutputIndex =
     (let fundingTxComponents = toString (vec_version depositTx) @ toString (vec_inputs depositTx) @
            toString (vec_outputs depositTx) @ toString (vec_locktime depositTx) in
      bind_res (keccak256 env (''0x'' @ fundingTxComponents)) (\<lambda>once.
      bind_res (keccak256 env once) (\<lambda>fundingTxHash.
      bind_res (packed_keccak256 env [(''bytes32'', AbiText fundingTxHash), (''uint256'', AbiInt depositOutputIndex)]) (\<lambda>depositIdHash.
      bind_res (bn_from_hex depositIdHash) (\<lambda>n. Inr (show_int n))))))"

definition check_reply :: "relayer_data \<Rightarrow> failure + string" where
  "check_reply data =
     (if rly_success data \<noteq> Some True
      then Inl (own_failure (or_else (rly_error data)
        (''Relayer returned unsuccessful response: '' @ or_else (rly_message data) ''Unknown error'')))
      else if \<not> truthy (Option.bind (rly_receipt data) (\<lambda>h. h))
      then Inl (own_failure (''Invalid response from relayer: missing receipt or transactionHash. Response: '' @ rly_json data))
      else Inr (the (Option.bind (rly_receipt data) (\<lambda>h. h))))"

definition reveal_attempt ::
  "'w relayer_env \<Rightarrow> string \<Rightarrow> reveal_request \<Rightarrow> BitcoinRawTxVectors \<Rightarrow> int \<Rightarrow> nat \<Rightarrow> 'w \<Rightarrow> (failure + string) \<times> 'w" where
  "reveal_attempt env relayerUrl requestPayload depositTx depositOutputIndex attempt w =
     (case axios_post env relayerUrl requestPayload
        (say env (''Sending reveal request to relayer (attempt '' @ show_nat (attempt + 1) @ ''/4):'') w) of
        (Inl f, w1) \<Rightarrow> (Inl f, w1)
      | (Inr (status, data), w1) \<Rightarrow>
          let w2 = say env ''Relayer response:'' w1;
              depositId = relayer_depositId env depositTx depositOutputIndex;
              w3 = (case depositId of Inr _ \<Rightarrow> w2 | Inl _ \<Rightarrow> say env ''Failed to calculate deposit ID:'' w2)
          in case check_reply data of
               Inl f \<Rightarrow> (Inl f, w3)
             | Inr hash \<Rightarrow> (Inr hash, case depositId of
                 Inr d \<Rightarrow> if d = [] then w3 else say env (''Deposit initialized with ID: '' @ d) w3
               | Inl _ \<Rightarrow> w3))"

subsection \<open>Failures\<close>

text \<open>A conflict whose reply names the deposit gives its number as the result.\<close>

definition conflict_result :: "'w relayer_env \<Rightarrow> failure \<Rightarrow> 'w \<Rightarrow> Hex option \<times> 'w" where
  "conflict_result env f w =
     (case fl_response f of
        None \<Rightarrow> (None, w)
      | Some (status, errorData) \<Rightarrow>
          if status \<noteq> 409 then (None, w)
          else let w1 = say env ''Deposit already exists, checking response data:'' w in
            if truthy (rly_depositId errorData) \<and> rly_success errorData = Some False
            then (case BigInt_text (the (rly_depositId errorData)) of
                Inl _ \<Rightarrow> (None, say env ''Failed to convert deposit ID:'' w1)
              | Inr depositIdBigInt \<Rightarrow>
                  let depositIdHex = ''0x'' @ int_hex depositIdBigInt;
                      w2 = say env (''Converted deposit ID to hex: '' @ depositIdHex) w1
                  in case Hex_from_string depositIdHex of
                       Inr h \<Rightarrow> (Some h, w2)
                     | Inl _ \<Rightarrow> (None, say env ''Failed to convert deposit ID:'' w2))
            else (None, w1))"

definition isRetryableError :: "failure \<Rightarrow> bool" where
  "isRetryableError error =
     (if fl_code error \<in> {Some ''ECONNABORTED'', Some ''ECONNREFUSED'', Some ''ENOTFOUND''} then True
      else (case fl_status error of
          None \<Rightarrow> False
        | Some status \<Rightarrow> if status = 409 then False else if 500 \<le> status \<and> status < 600 then True else False))"

definition http_error_text :: "failure \<Rightarrow> int \<Rightarrow> relayer_data \<Rightarrow> string option" where
  "http_error_text error status data =
     (if status = 500
      then Some (''Relayer service error: '' @ or_else (rly_error data) (or_else (rly_message data) ''Internal server error'') @
        ''. Please try again in a few moments.'')
      else if status = 400
      then Some (''Relayer error: '' @ or_else (rly_error data) (or_else (rly_message data)
        (case rly_details data of Some d \<Rightarrow> ''Invalid request: '' @ d | None \<Rightarrow> ''Invalid request'')))
      else if status = 401 then Some ''Relayer request failed: Unauthorized''
      else if status = 403 then Some ''Relayer request failed: Forbidden''
      else if status = 404 then Some ''Relayer request failed: Not Found''
      else if status = 409
      then Some (''This deposit has already been initialized'' @
        (if truthy (rly_depositId data) then '' (ID: '' @ the (rly_depositId data) @ '')'' else []) @
        ''. You can check the transaction status on Etherscan or wait for the bridging to complete (15-30 minutes).'')
      else if 502 \<le> status \<and> status < 600 then Some (''Network error: '' @ fl_message error)
      else None)"

definition formatRelayerError :: "failure \<Rightarrow> string" where
  "formatRelayerError error =
     (let default = ''Failed to initialize deposit through relayer: '' @ fl_message error;
          network = (if fl_code error \<in> {Some ''ECONNREFUSED'', Some ''ENOTFOUND''}
            then ''Network error: '' @ fl_message error else default)
      in if fl_isAxiosError error \<or> fl_code error = Some ''ECONNABORTED''
         then if fl_code error = Some ''ECONNABORTED'' then ''Relayer request timed out. Please try again.''
           else (case fl_response error of
               None \<Rightarrow> network
             | Some (status, data) \<Rightarrow> (case http_error_text error status data of Some t \<Rightarrow> t | None \<Rightarrow> network))
         else default)"

subsection \<open>The loop\<close>

text \<open>The recursion is over the delays that are left, one for each retry.\<close>

definition reveal_delays :: "int list" where
  "reveal_delays = [3000, 6000, 12000]"

fun reveal_loop ::
  "'w relayer_env \<Rightarrow> string \<Rightarrow> string \<Rightarrow> reveal_request \<Rightarrow> BitcoinRawTxVectors \<Rightarrow> int \<Rightarrow> nat \<Rightarrow> int list \<Rightarrow> ('w, tx_result) io" where
  "reveal_loop env chain relayerUrl requestPayload depositTx depositOutputIndex attempt delays w =
     (case reveal_attempt env relayerUrl requestPayload depositTx depositOutputIndex attempt w of
        (Inr hash, w1) \<Rightarrow> (Inr (TransactionReceipt hash), w1)
      | (Inl error, w1) \<Rightarrow>
          (case conflict_result env error w1 of
             (Some h, w2) \<Rightarrow> (Inr (HexResult h), w2)
           | (None, w2) \<Rightarrow>
               let stop = (Inl (Error (formatRelayerError error)),
                     say env (chain @ '' depositor throwing error: '' @ formatRelayerError error) w2)
               in case delays of
                    [] \<Rightarrow> stop
                  | delay # later \<Rightarrow>
                      if isRetryableError error
                      then reveal_loop env chain relayerUrl requestPayload depositTx depositOutputIndex (attempt + 1) later
                        (wait env delay (say env (''Retryable error on attempt '' @ show_nat (attempt + 1) @
                          '', retrying in '' @ show_int delay @ ''ms:'') w2))
                      else stop))"

declare reveal_loop.simps [simp del]

subsection \<open>Depositors\<close>

record 'p relayer_depositor =
  rel_url :: string
  rel_chainName :: string
  rel_provider :: 'p
  rel_depositOwner :: "ChainIdentifier option"

definition StarkNet_relayerUrl :: "string \<Rightarrow> string \<Rightarrow> string" where
  "StarkNet_relayerUrl chainId relayerUrl =
     (if relayerUrl \<noteq> [] then relayerUrl
      else ''https://tbtc-crosschain-relayer-swmku.ondigitalocean.app/api/'' @
        (if chainId = ''0x534e5f474f45524c49'' then ''StarknetTestnet''
         else if chainId = ''0x534e5f5345504f4c4941'' then ''StarknetTestnet''
         else if chainId = ''0x534e5f4d41494e'' then ''StarknetMainnet'' else ''StarknetTestnet'') @ ''/reveal'')"

definition new_StarkNetBitcoinDepositor :: "string \<Rightarrow> string option \<Rightarrow> string \<Rightarrow> 'p option \<Rightarrow> 'p relayer_depositor res" where
  "new_StarkNetBitcoinDepositor chainId relayerUrl chainName provider =
     (case provider of
        None \<Rightarrow> Inl (Error ''Provider is required for StarkNet depositor'')
      | Some p \<Rightarrow> Inr \<lparr>rel_url = StarkNet_relayerUrl chainId (case relayerUrl of None \<Rightarrow> [] | Some u \<Rightarrow> u),
          rel_chainName = chainName, rel_provider = p, rel_depositOwner = None\<rparr>)"

text \<open>In a browser the host of the page tells a development setup, elsewhere \<open>NODE_ENV\<close>.\<close>

definition Sei_relayerUrl :: "string option \<Rightarrow> string option \<Rightarrow> string \<Rightarrow> string \<Rightarrow> string" where
  "Sei_relayerUrl hostname nodeEnv chainId relayerUrl =
     (if relayerUrl \<noteq> [] then relayerUrl
      else let isDevelopment = (hostname \<in> {Some ''localhost'', Some ''127.0.0.1''} \<or> nodeEnv = Some ''development'');
               chainName = (if chainId = ''1329'' then ''SeiMainnet'' else if chainId = ''1328'' then ''SeiTestnet'' else ''SeiTestnet'')
           in if isDevelopment then ''http://localhost:3001/api/'' @ chainName @ ''/reveal''
              else ''https://tbtc-crosschain-relayer-swmku.ondigitalocean.app/api/'' @ chainName @ ''/reveal'')"

definition new_SeiBitcoinDepositor ::
  "string option \<Rightarrow> string option \<Rightarrow> string \<Rightarrow> string option \<Rightarrow> string \<Rightarrow> 'p option \<Rightarrow> 'p relayer_depositor res" where
  "new_SeiBitcoinDepositor hostname nodeEnv chainId relayerUrl chainName provider =
     (case provider of
        None \<Rightarrow> Inl (Error ''Provider is required for Sei depositor'')
      | Some p \<Rightarrow> Inr \<lparr>rel_url = Sei_relayerUrl hostname nodeEnv chainId (case relayerUrl of None \<Rightarrow> [] | Some u \<Rightarrow> u),
          rel_chainName = chainName, rel_provider = p, rel_depositOwner = None\<rparr>)"

definition StarkNet_setDepositOwner :: "ChainIdentifier option \<Rightarrow> 'p relayer_depositor \<Rightarrow> 'p relayer_depositor res" where
  "StarkNet_setDepositOwner depositOwner d = (case depositOwner of
     None \<Rightarrow> Inr (d\<lparr>rel_depositOwner := None\<rparr>)
   | Some (StarkNetAddress a) \<Rightarrow> Inr (d\<lparr>rel_depositOwner := depositOwner\<rparr>)
   | Some _ \<Rightarrow> Inl (Error ''Deposit owner must be a StarkNet address''))"

definition Sei_setDepositOwner :: "ChainIdentifier option \<Rightarrow> 'p relayer_depositor \<Rightarrow> 'p relayer_depositor res" where
  "Sei_setDepositOwner depositOwner d = (case depositOwner of
     None \<Rightarrow> Inr (d\<lparr>rel_depositOwner := None\<rparr>)
   | Some (SeiAddress a) \<Rightarrow> Inr (d\<lparr>rel_depositOwner := depositOwner\<rparr>)
   | Some _ \<Rightarrow> Inl (Error ''Deposit owner must be a Sei address''))"

definition StarkNet_depositor_getChainIdentifier :: "ChainIdentifier res" where
  "StarkNet_depositor_getChainIdentifier =
     Inl (Error ''StarkNet depositor has no chain identifier. Deposits are handled via L1 StarkNet Bitcoin Depositor.'')"

definition Sei_depositor_getChainIdentifier :: "ChainIdentifier res" where
  "Sei_depositor_getChainIdentifier =
     Inl (Error ''Sei depositor has no chain identifier. Deposits are handled via L1 Sei Bitcoin Depositor (L1BTCDepositorNttWithExecutor).'')"

definition with_0x :: "string \<Rightarrow> string" where
  "with_0x address = (if take 2 address = ''0x'' then address else ''0x'' @ address)"

definition formatStarkNetAddressAsBytes32 :: "string \<Rightarrow> string res" where
  "formatStarkNetAddressAsBytes32 text =
     (let address = with_0x text in
      if length address \<noteq> 66
      then Inl (Error (''Invalid StarkNet address length: '' @ show_nat (length address) @ ''. Expected 66 characters (0x + 64 hex).''))
      else if \<not> (take 2 address = ''0x'' \<and> list_all is_hex_digit (drop 2 address))
      then Inl (Error (''Invalid StarkNet address format: '' @ address @ ''. Must be 0x followed by 64 hexadecimal characters.''))
      else Inr (toLowerCase address))"

definition formatSeiAddressAsBytes32 :: "string \<Rightarrow> string res" where
  "formatSeiAddressAsBytes32 text =
     (let address = with_0x text in
      if \<not> evm_address_pattern address
      then Inl (Error (''Invalid Sei address format: '' @ address @ ''. Must be a valid EVM address (0x + 40 hex characters).''))
      else Inr (toLowerCase (''0x'' @ padStart 64 (CHR ''0'') (drop 2 address))))"

text \<open>What the two \<open>initializeDeposit\<close> do, with the format of the chain.\<close>

definition relayer_initializeDeposit ::
  "string \<Rightarrow> (string \<Rightarrow> string res) \<Rightarrow> 'w relayer_env \<Rightarrow> 'p relayer_depositor \<Rightarrow>
   BitcoinRawTxVectors \<Rightarrow> int \<Rightarrow> DepositReceipt \<Rightarrow> ChainIdentifier option \<Rightarrow> ('w, tx_result) io" where
  "relayer_initializeDeposit chain formatAddress env d depositTx depositOutputIndex deposit vault =
     (case rel_depositOwner d of
        None \<Rightarrow> throw_io (Error ''L2 deposit owner must be set before initializing deposit'')
      | Some owner \<Rightarrow>
          (case packRevealDepositParameters depositTx depositOutputIndex deposit vault of (fundingTx, reveal, _) \<Rightarrow>
           let l2DepositOwner = (case dr_extraData deposit of Some e \<Rightarrow> toString e | None \<Rightarrow> ''0x'' @ identifierHex owner);
               l2Sender = ''0x'' @ identifierHex owner in
           bind_io (lift_io (formatAddress l2DepositOwner)) (\<lambda>formattedL2DepositOwner.
           bind_io (lift_io (formatAddress l2Sender)) (\<lambda>formattedL2Sender.
           reveal_loop env chain (rel_url d)
             \<lparr>rv_fundingTx = fundingTx, rv_reveal = reveal, rv_l2DepositOwner = formattedL2DepositOwner,
              rv_l2Sender = formattedL2Sender\<rparr> depositTx depositOutputIndex 0 reveal_delays))))"

definition StarkNet_initializeDeposit ::
  "'w relayer_env \<Rightarrow> 'p relayer_depositor \<Rightarrow> BitcoinRawTxVectors \<Rightarrow> int \<Rightarrow> DepositReceipt \<Rightarrow> ChainIdentifier option \<Rightarrow> ('w, tx_result) io" where
  "StarkNet_initializeDeposit = relayer_initializeDeposit ''StarkNet'' formatStarkNetAddressAsBytes32"

definition Sei_initializeDeposit ::
  "'w relayer_env \<Rightarrow> 'p relayer_depositor \<Rightarrow> BitcoinRawTxVectors \<Rightarrow> int \<Rightarrow> DepositReceipt \<Rightarrow> ChainIdentifier option \<Rightarrow> ('w, tx_result) io" where
  "Sei_initializeDeposit = relayer_initializeDeposit ''Sei'' formatSeiAddressAsBytes32"

text \<open>The Solana interface makes one request and passes errors on. The result is the hash of the receipt,
  if it has one.\<close>

definition Solana_initializeDeposit ::
  "'w relayer_env \<Rightarrow> ChainIdentifier option \<Rightarrow> BitcoinRawTxVectors \<Rightarrow> int \<Rightarrow> DepositReceipt \<Rightarrow> ChainIdentifier option \<Rightarrow> ('w, string option) io" where
  "Solana_initializeDeposit env depositOwner depositTx depositOutputIndex deposit vault w =
     (case packRevealDepositParameters depositTx depositOutputIndex deposit vault of (fundingTx, reveal, extraData) \<Rightarrow>
        if \<not> truthy extraData then (Inl (Error ''Extra data is required.''), w)
        else (case axios_post env ''http://relayer.tbtcscan.com/api/reveal''
            \<lparr>rv_fundingTx = fundingTx, rv_reveal = reveal, rv_l2DepositOwner = the extraData,
             rv_l2Sender = ''0x'' @ (case depositOwner of Some x \<Rightarrow> identifierHex x | None \<Rightarrow> ''undefined'')\<rparr> w of
            (Inl f, w1) \<Rightarrow> (Inl (Error (fl_message f)), say env ''Error calling /api/reveal endpoint:'' w1)
          | (Inr (status, data), w1) \<Rightarrow> (case rly_receipt data of
              None \<Rightarrow> (Inl (Error (''Unexpected response from /api/reveal: '' @ rly_json data)),
                say env ''Error calling /api/reveal endpoint:'' w1)
            | Some h \<Rightarrow> (Inr h, w1))))"

end
