(* ===== verification/RelayerClaims.thy ===== *)
theory RelayerClaims
  imports RelayerDepositors
begin

section \<open>What the relayer depositors do with the relayer's answers\<close>

text \<open>
  The loop of requests against its specification: which of the relayer's answers decides, how many
  requests are made and how long they wait. The deposits of Sei are shown never to reach the
  relayer when they carry extra data.
\<close>

subsection \<open>The specification\<close>

text \<open>What one answer means: a hash, or a failure.\<close>

definition answer :: "failure + int \<times> relayer_data \<Rightarrow> failure + string" where
  "answer r = (case r of Inl f \<Rightarrow> Inl f | Inr (status, data) \<Rightarrow> check_reply data)"

definition conflict_hex :: "failure \<Rightarrow> Hex option" where
  "conflict_hex f = (case fl_response f of
     None \<Rightarrow> None
   | Some (status, data) \<Rightarrow>
       if status = 409 \<and> truthy (rly_depositId data) \<and> rly_success data = Some False
       then (case bind_res (BigInt_text (the (rly_depositId data))) (\<lambda>n. Hex_from_string (''0x'' @ int_hex n)) of
           Inr h \<Rightarrow> Some h | Inl _ \<Rightarrow> None)
       else None)"

definition again :: "failure + int \<times> relayer_data \<Rightarrow> bool" where
  "again r = (case answer r of Inl f \<Rightarrow> conflict_hex f = None \<and> isRetryableError f | Inr _ \<Rightarrow> False)"

definition verdict :: "failure + int \<times> relayer_data \<Rightarrow> tx_result res" where
  "verdict r = (case answer r of
     Inr hash \<Rightarrow> Inr (TransactionReceipt hash)
   | Inl f \<Rightarrow> (case conflict_hex f of Some h \<Rightarrow> Inr (HexResult h) | None \<Rightarrow> Inl (Error (formatRelayerError f))))"

text \<open>A world in which the request of number \<open>k\<close> is answered by \<open>f k\<close>, and only requests and waiting
  move the number of requests and the clock.\<close>

definition replies :: "'w relayer_env \<Rightarrow> (nat \<Rightarrow> failure + int \<times> relayer_data) \<Rightarrow> ('w \<Rightarrow> nat) \<Rightarrow> ('w \<Rightarrow> int) \<Rightarrow> bool" where
  "replies env f posts clock =
     ((\<forall>u r w. fst (axios_post env u r w) = f (posts w) \<and> posts (snd (axios_post env u r w)) = posts w + 1 \<and>
        clock (snd (axios_post env u r w)) = clock w) \<and>
      (\<forall>m w. posts (say env m w) = posts w \<and> clock (say env m w) = clock w) \<and>
      (\<forall>t w. posts (wait env t w) = posts w \<and> clock (wait env t w) = clock w + t))"

subsection \<open>Lemmas\<close>

lemma reveal_attempt_answer:
  assumes "replies env f posts clock"
  shows "\<exists>w'. reveal_attempt env u r tx i k w = (answer (f (posts w)), w') \<and> posts w' = posts w + 1 \<and> clock w' = clock w"
proof -
  let ?s = "say env (''Sending reveal request to relayer (attempt '' @ show_nat (k + 1) @ ''/4):'') w"
  have say: "posts (say env m w) = posts w" "clock (say env m w) = clock w" for m w
    using assms by (simp_all add: replies_def)
  have "fst (axios_post env u r v) = f (posts v) \<and> posts (snd (axios_post env u r v)) = posts v + 1 \<and>
      clock (snd (axios_post env u r v)) = clock v" for v
    using assms by (simp add: replies_def)
  from this[of ?s] obtain w1 where p: "axios_post env u r ?s = (f (posts w), w1)" "posts w1 = posts w + 1" "clock w1 = clock w"
    unfolding say by (metis prod.collapse)
  show ?thesis
    using p(2,3) unfolding reveal_attempt_def p(1)
    by (auto simp: answer_def say Let_def split: sum.splits prod.splits)
qed

lemma conflict_result_hex:
  assumes "replies env f posts clock"
  shows "\<exists>w'. conflict_result env e w = (conflict_hex e, w') \<and> posts w' = posts w \<and> clock w' = clock w"
proof -
  have say: "posts (say env m w) = posts w" "clock (say env m w) = clock w" for m w
    using assms by (simp_all add: replies_def)
  show ?thesis
    by (auto simp: conflict_result_def conflict_hex_def bind_res_def say Let_def split: option.splits sum.splits prod.splits)
qed

lemma reveal_loop_verdict:
  assumes a: "replies env f posts clock"
  shows "\<exists>w'. reveal_loop env chain u r tx i k delays w =
       (verdict (f (posts w + length (takeWhile again (map (\<lambda>j. f (posts w + j)) [0..<length delays])))), w') \<and>
     posts w' = posts w + length (takeWhile again (map (\<lambda>j. f (posts w + j)) [0..<length delays])) + 1 \<and>
     clock w' = clock w + sum_list (take (length (takeWhile again (map (\<lambda>j. f (posts w + j)) [0..<length delays]))) delays)"
proof (induction delays arbitrary: k w)
  case Nil
  obtain w1 where w1: "reveal_attempt env u r tx i k w = (answer (f (posts w)), w1)" "posts w1 = posts w + 1" "clock w1 = clock w"
    using reveal_attempt_answer[OF a] by blast
  show ?case
  proof (cases "answer (f (posts w))")
    case (Inl e)
    obtain w2 where w2: "conflict_result env e w1 = (conflict_hex e, w2)" "posts w2 = posts w1" "clock w2 = clock w1"
      using conflict_result_hex[OF a] by blast
    then show ?thesis using w1 Inl a
      by (subst reveal_loop.simps) (auto simp: verdict_def Let_def replies_def split: option.splits)
  qed (use w1 in \<open>subst reveal_loop.simps, simp add: verdict_def\<close>)
next
  case (Cons d ds)
  obtain w1 where w1: "reveal_attempt env u r tx i k w = (answer (f (posts w)), w1)" "posts w1 = posts w + 1" "clock w1 = clock w"
    using reveal_attempt_answer[OF a] by blast
  have upt: "map (\<lambda>j. f (posts w + j)) [0..<length (d # ds)] =
      f (posts w) # map (\<lambda>j. f (posts w + 1 + j)) [0..<length ds]"
    by (simp add: upt_conv_Cons map_Suc_upt[symmetric] del: upt_Suc)
  show ?case
  proof (cases "answer (f (posts w))")
    case (Inl e)
    obtain w2 where w2: "conflict_result env e w1 = (conflict_hex e, w2)" "posts w2 = posts w1" "clock w2 = clock w1"
      using conflict_result_hex[OF a] by blast
    show ?thesis
    proof (cases "again (f (posts w))")
      case True
      let ?w3 = "wait env d (say env (''Retryable error on attempt '' @ show_nat (k + 1) @
          '', retrying in '' @ show_int d @ ''ms:'') w2)"
      have w3: "posts ?w3 = posts w + 1" "clock ?w3 = clock w + d"
        using a w1 w2 by (simp_all add: replies_def)
      have "reveal_loop env chain u r tx i k (d # ds) w = reveal_loop env chain u r tx i (k + 1) ds ?w3"
        using True Inl w1 w2 by (subst reveal_loop.simps) (simp add: again_def)
      then show ?thesis using Cons[of "k + 1" ?w3] True unfolding upt w3 by (auto simp: add.assoc)
    next
      case False
      then show ?thesis using w1 w2 Inl a unfolding upt
        by (subst reveal_loop.simps) (auto simp: verdict_def again_def Let_def replies_def split: option.splits)
    qed
  next
    case (Inr h)
    then have "\<not> again (f (posts w))" by (simp add: again_def)
    then show ?thesis using w1 Inr unfolding upt by (subst reveal_loop.simps) (simp add: verdict_def)
  qed
qed

text \<open>Addresses that were made by \<open>from\<close>, and texts of 32 bytes, pass the format of StarkNet.\<close>

lemma formatStarkNet_ok:
  "list_all is_hex_digit s \<Longrightarrow> length s = 64 \<Longrightarrow> formatStarkNetAddressAsBytes32 (''0x'' @ s) = Inr (''0x'' @ toLowerCase s)"
  by (simp add: formatStarkNetAddressAsBytes32_def with_0x_def Let_def lower_0x)

lemma with_0x_bytes: "with_0x (bytes_to_hex bs) = ''0x'' @ bytes_to_hex bs"
proof -
  have "take 2 (bytes_to_hex bs) \<noteq> ''0x''"
  proof
    assume "take 2 (bytes_to_hex bs) = ''0x''"
    then have "CHR ''x'' \<in> set (bytes_to_hex bs)" by (metis in_set_takeD list.set_intros)
    then show False using bytes_to_hex_digits[of bs] is_hex_digit_not_x by (auto simp: list_all_iff)
  qed
  then show ?thesis by (simp add: with_0x_def)
qed

lemma formatStarkNet_bytes:
  assumes "length bs = 32"
  shows "formatStarkNetAddressAsBytes32 (bytes_to_hex bs) = Inr (''0x'' @ bytes_to_hex bs)"
  using assms bytes_to_hex_digits[of bs] lower_hex_list[OF bytes_to_hex_lower[of bs]] with_0x_bytes[of bs]
  by (simp add: formatStarkNetAddressAsBytes32_def Let_def lower_0x)

subsection \<open>Properties\<close>

text \<open>C32: A StarkNet deposit is decided by the relayer's first answer that is not worth a retry, the
  fourth at the latest: the depositor makes one request for it and for every answer
  before it, waits as many of 3, 6 and 12 seconds as there are answers before it, and returns the hash of the receipt, the number of a deposit already
  initialized, or the error of that answer.\<close>

theorem starknet_deposit_verdict:
  assumes "replies env f posts clock" "rel_depositOwner d = Some owner" "StarkNetAddress_from s = Inr owner"
    and "\<forall>e. dr_extraData deposit = Some e \<longrightarrow> length (hex_buf e) = 32"
  shows "let n = length (takeWhile again [f (posts w), f (posts w + 1), f (posts w + 2)]) in
     \<exists>w'. StarkNet_initializeDeposit env d tx i deposit vault w = (verdict (f (posts w + n)), w') \<and>
       posts w' = posts w + n + 1 \<and> clock w' = clock w + sum_list (take n [3000, 6000, 12000])"
proof -
  obtain bs where bs: "length bs = 32" "owner = StarkNetAddress (bytes_to_hex bs)"
    using StarkNetAddress_from_owner[OF assms(3)] by (auto simp: starknet_owner_def hex_text_def)
  define a where "a = bytes_to_hex bs"
  have a: "owner = StarkNetAddress a" "length a = 64" "list_all is_hex_digit a"
    using bs bytes_to_hex_digits[of bs] by (simp_all add: a_def)
  have sender: "formatStarkNetAddressAsBytes32 (''0x'' @ identifierHex owner) = Inr (''0x'' @ toLowerCase a)"
    using formatStarkNet_ok[OF a(3,2)] a(1) by simp
  obtain o1 where own: "formatStarkNetAddressAsBytes32 (case dr_extraData deposit of Some e \<Rightarrow> toString e
      | None \<Rightarrow> ''0x'' @ identifierHex owner) = Inr o1"
  proof (cases "dr_extraData deposit")
    case (Some e)
    then show thesis using that formatStarkNet_bytes[of "hex_buf e"] assms(4) by (cases e) simp
  qed (use sender that in simp)
  obtain fundingTx reveal x where p: "packRevealDepositParameters tx i deposit vault = (fundingTx, reveal, x)"
    by (metis prod_cases3)
  let ?r = "\<lparr>rv_fundingTx = fundingTx, rv_reveal = reveal, rv_l2DepositOwner = o1, rv_l2Sender = ''0x'' @ toLowerCase a\<rparr>"
  have run: "StarkNet_initializeDeposit env d tx i deposit vault w =
      reveal_loop env ''StarkNet'' (rel_url d) ?r tx i 0 [3000, 6000, 12000] w"
    unfolding StarkNet_initializeDeposit_def relayer_initializeDeposit_def assms(2) option.case p prod.case Let_def
    by (simp add: own[simplified] sender[simplified] bind_io_def lift_io_def reveal_delays_def)
  have "map (\<lambda>j. f (posts w + j)) [0..<length [3000, 6000, 12000 :: int]] = [f (posts w), f (posts w + 1), f (posts w + 2)]"
    by (simp add: upt_rec)
  then show ?thesis
    using reveal_loop_verdict[OF assms(1), of "''StarkNet''" "rel_url d" ?r tx i 0 "[3000, 6000, 12000]" w]
    unfolding run Let_def by presburger
qed

text \<open>C36: A Sei deposit with 32 bytes of extra data, which is what the encoder of the same chain makes of
  an owner, is always rejected: the data is taken for an address of 20 bytes, and no request is made.\<close>

theorem sei_deposit_with_extra_data_rejected:
  assumes "rel_depositOwner d = Some owner" "dr_extraData deposit = Some e" "length (hex_buf e) = 32"
  shows "Sei_initializeDeposit env d tx i deposit vault w =
     (Inl (Error (''Invalid Sei address format: 0x'' @ toString e @ ''. Must be a valid EVM address (0x + 40 hex characters).'')), w)"
proof -
  obtain fundingTx reveal x where p: "packRevealDepositParameters tx i deposit vault = (fundingTx, reveal, x)"
    by (metis prod_cases3)
  have "formatSeiAddressAsBytes32 (toString e) =
      Inl (Error (''Invalid Sei address format: 0x'' @ toString e @ ''. Must be a valid EVM address (0x + 40 hex characters).''))"
    using assms(3) with_0x_bytes[of "hex_buf e"]
    by (cases e) (simp add: formatSeiAddressAsBytes32_def Let_def evm_address_pattern_def)
  then show ?thesis
    unfolding Sei_initializeDeposit_def relayer_initializeDeposit_def assms(1,2) option.case p prod.case Let_def
    by (simp add: bind_io_def lift_io_def)
qed

text \<open>A relayer that refuses the connection, then fails, then answers, and a world of two counters.\<close>

definition relayer_script :: "nat \<Rightarrow> failure + int \<times> relayer_data" where
  "relayer_script k =
     (let none = \<lparr>rly_success = None, rly_depositId = None, rly_message = None, rly_receipt = None, rly_error = None,
        rly_details = None, rly_json = ''{}''\<rparr> in
      if k = 0 then Inl \<lparr>fl_isAxiosError = True, fl_code = Some ''ECONNREFUSED'', fl_response = None, fl_message = ''refused''\<rparr>
      else if k = 1 then Inl \<lparr>fl_isAxiosError = True, fl_code = None, fl_response = Some (500, none), fl_message = ''failed''\<rparr>
      else Inr (200, none\<lparr>rly_success := Some True, rly_receipt := Some (Some ''0x12'')\<rparr>))"

definition script_env :: "(nat \<times> int) relayer_env" where
  "script_env = \<lparr>axios_post = (\<lambda>_ _ w. (relayer_script (fst w), (fst w + 1, snd w))), say = (\<lambda>_ w. w),
     wait = (\<lambda>t w. (fst w, snd w + t)), keccak256 = (\<lambda>_. Inr ''0x01''), packed_keccak256 = (\<lambda>_. Inr ''0x02'')\<rparr>"

definition relayer_receipt :: DepositReceipt where
  "relayer_receipt = \<lparr>dr_depositor = sample_owner, dr_blindingFactor = Hex (replicate 8 1),
     dr_walletPublicKeyHash = Hex (replicate 20 2), dr_refundPublicKeyHash = Hex (replicate 20 3),
     dr_refundLocktime = Hex (replicate 4 4), dr_extraData = Some (Hex (replicate 32 5))\<rparr>"

definition relayer_tx :: BitcoinRawTxVectors where
  "relayer_tx = \<lparr>vec_version = Hex [1], vec_inputs = Hex [2], vec_outputs = Hex [3], vec_locktime = Hex [4]\<rparr>"

definition relayer_sample :: "ChainIdentifier \<Rightarrow> unit relayer_depositor" where
  "relayer_sample owner = \<lparr>rel_url = ''u'', rel_chainName = ''c'', rel_provider = (), rel_depositOwner = Some owner\<rparr>"

lemma script_env_replies: "replies script_env relayer_script fst snd"
  by (simp add: replies_def script_env_def)

theorem starknet_deposit_verdict_witness:
  "\<exists>w'. StarkNet_initializeDeposit script_env (relayer_sample (StarkNetAddress (bytes_to_hex (replicate 32 0))))
     relayer_tx 0 relayer_receipt None (0, 0) = (Inr (TransactionReceipt ''0x12''), w') \<and> fst w' = 3 \<and> snd w' = 9000"
proof -
  have s: "StarkNetAddress_from (bytes_to_hex (replicate 32 0)) = Inr (StarkNetAddress (bytes_to_hex (replicate 32 0)))"
    by (rule StarkNetAddress_from_bytes) simp
  have e: "\<forall>e. dr_extraData relayer_receipt = Some e \<longrightarrow> length (hex_buf e) = 32" by (simp add: relayer_receipt_def)
  have o: "rel_depositOwner (relayer_sample x) = Some x" for x by (simp add: relayer_sample_def)
  have r: "again (relayer_script 0)" "again (relayer_script 1)" "\<not> again (relayer_script 2)"
    by (simp_all add: again_def answer_def relayer_script_def Let_def conflict_hex_def isRetryableError_def fl_status_def
        check_reply_def truthy_def)
  have v: "verdict (relayer_script 2) = Inr (TransactionReceipt ''0x12'')"
    by (simp add: verdict_def answer_def relayer_script_def Let_def check_reply_def truthy_def)
  show ?thesis
    using starknet_deposit_verdict[OF script_env_replies o s e, of "(0, 0)" relayer_tx 0 None]
    by (simp add: r[unfolded numeral_2_eq_2 One_nat_def] r v v[unfolded numeral_2_eq_2])
qed

theorem sei_deposit_with_extra_data_rejected_witness:
  "\<exists>m. Sei_initializeDeposit script_env (relayer_sample (SeiAddress (bytes_to_hex (replicate 20 0)))) relayer_tx 0 relayer_receipt None (0, 0) =
     (Inl (Error m), (0, 0))"
  using sei_deposit_with_extra_data_rejected[of "relayer_sample (SeiAddress (bytes_to_hex (replicate 20 0)))"
      "SeiAddress (bytes_to_hex (replicate 20 0))" relayer_receipt "Hex (replicate 32 5)" script_env relayer_tx 0 None "(0, 0)"]
  by (simp add: relayer_sample_def relayer_receipt_def)

end
