(* ===== verification/CrossChainHandles.thy ===== *)
theory CrossChainHandles
  imports EthereumContracts
begin

section \<open>Depositors, redeemers and tokens of the EVM chains\<close>

text \<open>
  The handles of the L1 depositor and redeemer of every destination chain
  (\<open>ethereum/l1-bitcoin-depositor.ts\<close>, \<open>ethereum/l1-bitcoin-redeemer.ts\<close>), the depositors,
  redeemers and tokens on Base and Arbitrum, the token on Sei, the mapping of chains
  (\<open>contracts/chain.ts\<close>) and the loaders, all under typescript/src/lib. The owner of the deposits
  is a field of a depositor that \<open>setDepositOwner\<close> replaces.
\<close>

subsection \<open>Chains\<close>

datatype DestinationChainName = Base | Arbitrum | Solana | StarkNet | Sui | Sei

record ChainMapping =
  cm_ethereum :: string
  cm_base :: string
  cm_arbitrum :: string
  cm_solana :: string
  cm_starknet :: string
  cm_sui :: string
  cm_sei :: string

definition ChainMappings :: "ChainMapping list" where
  "ChainMappings =
     [\<lparr>cm_ethereum = ''1'', cm_base = ''8453'', cm_arbitrum = ''42161'',
        cm_solana = ''5eykt4UsFv8P8NJdTREpY1vzqKqZKvdpKuc147dw2N9d'', cm_starknet = ''0x534e5f4d41494e'',
        cm_sui = ''sui:mainnet'', cm_sei = ''1329''\<rparr>,
      \<lparr>cm_ethereum = ''11155111'', cm_base = ''84532'', cm_arbitrum = ''421614'',
        cm_solana = ''EtWTRABZaYq6iMfeYKouRu166VU2xqa1wcaWoxPkrZBG'', cm_starknet = ''0x534e5f5345504f4c4941'',
        cm_sui = ''sui:testnet'', cm_sei = ''1328''\<rparr>]"

definition loadChainMapping :: "string \<Rightarrow> ChainMapping option" where
  "loadChainMapping chainId = find (\<lambda>ecm. cm_ethereum ecm = chainId) ChainMappings"

subsection \<open>Signers\<close>

datatype 'w ethereum_signer =
    Signer (signer_chainId: "('w, int) io") (signer_address: "('w, string) io")
  | Provider (provider_chainId: "('w, int) io")

definition chainIdFromSigner :: "'w ethereum_signer \<Rightarrow> ('w, string) io" where
  "chainIdFromSigner signer =
     bind_io (case signer of Signer c a \<Rightarrow> c | Provider c \<Rightarrow> c) (\<lambda>chainId. return_io (show_int chainId))"

definition ethereumAddressFromSigner :: "'w ethers \<Rightarrow> 'w ethereum_signer \<Rightarrow> ('w, ChainIdentifier option) io" where
  "ethereumAddressFromSigner lib signer = (case signer of
     Signer c a \<Rightarrow> bind_io a (\<lambda>s. bind_io (lift_io (EthereumAddress_from (utils_getAddress lib) s)) (\<lambda>x. return_io (Some x)))
   | Provider c \<Rightarrow> return_io None)"

record core_handles =
  core_bridge :: EthersContractHandle
  core_tbtcToken :: EthersContractHandle
  core_tbtcVault :: EthersContractHandle
  core_walletRegistry :: EthersContractHandle

record core_deployments =
  dep_bridge :: deployments
  dep_token :: deployments
  dep_vault :: deployments
  dep_registry :: deployments

definition no_config :: EthersContractConfig where
  "no_config = \<lparr>config_address = None, config_deployedAtBlockNumber = None\<rparr>"

definition loadEthereumCoreContracts ::
  "'w ethers \<Rightarrow> core_deployments \<Rightarrow> 'w ethereum_signer \<Rightarrow> string \<Rightarrow> ('w, core_handles) io" where
  "loadEthereumCoreContracts lib deps signer chainId =
     bind_io (chainIdFromSigner signer) (\<lambda>signerChainId.
     if signerChainId \<noteq> chainId then throw_io (Error ''Signer uses different chain than Ethereum core contracts'')
     else lift_io (
       bind_res (new_EthereumBridge lib (dep_bridge deps) no_config (Some chainId)) (\<lambda>bridge.
       bind_res (new_EthereumTBTCToken lib (dep_token deps) no_config (Some chainId)) (\<lambda>token.
       bind_res (new_EthereumTBTCVault lib (dep_vault deps) no_config (Some chainId)) (\<lambda>vault.
       bind_res (new_EthereumWalletRegistry lib (dep_registry deps) no_config (Some chainId)) (\<lambda>registry.
       Inr \<lparr>core_bridge = bridge, core_tbtcToken = token, core_tbtcVault = vault, core_walletRegistry = registry\<rparr>))))))"

subsection \<open>The L1 depositor\<close>

record 'w l1_depositor_contract =
  ld_deposits :: "string \<Rightarrow> ('w, int) io"
  ld_initializeDeposit :: "tx_param \<Rightarrow> reveal_param \<Rightarrow> string \<Rightarrow> ('w, string) io"

record evm_depositor =
  ed_handle :: EthersContractHandle
  ed_encoder :: extra_data_encoder
  ed_depositOwner :: "ChainIdentifier option"

definition setDepositOwner_evm :: "ChainIdentifier option \<Rightarrow> evm_depositor \<Rightarrow> evm_depositor" where
  "setDepositOwner_evm depositOwner d = d\<lparr>ed_depositOwner := depositOwner\<rparr>"

text \<open>The deployments of the depositors, by network and chain: the table may lack an entry.\<close>

type_synonym artifacts = "DestinationChainName \<Rightarrow> EthersContractDeployment option"

definition artifactLoaders :: "artifacts \<Rightarrow> artifacts \<Rightarrow> string \<Rightarrow> artifacts option" where
  "artifactLoaders mainnetArtifacts sepoliaArtifacts chainId =
     (if chainId = Ethereum_Mainnet then Some mainnetArtifacts
      else if chainId = Ethereum_Sepolia then Some sepoliaArtifacts else None)"

definition extraDataEncoders :: "(string \<Rightarrow> string res) \<Rightarrow> (string \<Rightarrow> byte list res) \<Rightarrow> DestinationChainName \<Rightarrow> extra_data_encoder" where
  "extraDataEncoders getAddress publicKey name = (case name of
     Solana \<Rightarrow> \<lparr>encodeDepositOwner = Solana_encodeDepositOwner, decodeDepositOwner = Solana_decodeDepositOwner publicKey\<rparr>
   | StarkNet \<Rightarrow> \<lparr>encodeDepositOwner = StarkNet_encodeDepositOwner, decodeDepositOwner = StarkNet_decodeDepositOwner\<rparr>
   | Sui \<Rightarrow> \<lparr>encodeDepositOwner = Sui_encodeDepositOwner, decodeDepositOwner = Sui_decodeDepositOwner\<rparr>
   | Sei \<Rightarrow> \<lparr>encodeDepositOwner = Sei_encodeDepositOwner, decodeDepositOwner = Sei_decodeDepositOwner\<rparr>
   | _ \<Rightarrow> \<lparr>encodeDepositOwner = Ethereum_encodeDepositOwner getAddress, decodeDepositOwner = Ethereum_decodeDepositOwner getAddress\<rparr>)"

definition new_EthereumL1BitcoinDepositor ::
  "'w ethers \<Rightarrow> (string \<Rightarrow> byte list res) \<Rightarrow> artifacts \<Rightarrow> artifacts \<Rightarrow> EthersContractConfig \<Rightarrow> string \<Rightarrow>
   DestinationChainName \<Rightarrow> evm_depositor res" where
  "new_EthereumL1BitcoinDepositor lib publicKey mainnet sepolia config chainId destinationChainName =
     (case artifactLoaders mainnet sepolia chainId of
        None \<Rightarrow> Inl (Error ''Unsupported deployment type'')
      | Some deploymentArtifacts \<Rightarrow> (case deploymentArtifacts destinationChainName of
          None \<Rightarrow> Inl (Error ''Unsupported destination chain'')
        | Some deployment \<Rightarrow>
            bind_res (make_handle (utils_getAddress lib) config deployment) (\<lambda>h.
            Inr \<lparr>ed_handle = h, ed_encoder = extraDataEncoders (utils_getAddress lib) publicKey destinationChainName,
              ed_depositOwner = None\<rparr>)))"

definition L1_getDepositState :: "'w l1_depositor_contract \<Rightarrow> string \<Rightarrow> ('w, int) io" where
  "L1_getDepositState i depositId = ld_deposits i depositId"

definition evm_getChainIdentifier :: "'w ethers \<Rightarrow> evm_depositor \<Rightarrow> ChainIdentifier res" where
  "evm_getChainIdentifier lib d = EthereumAddress_from (utils_getAddress lib) (handle_address (ed_handle d))"

definition L1_initializeDeposit ::
  "'w l1_depositor_contract \<Rightarrow> BitcoinRawTxVectors \<Rightarrow> int \<Rightarrow> DepositReceipt \<Rightarrow> ChainIdentifier option \<Rightarrow> ('w, Hex) io" where
  "L1_initializeDeposit i depositTx depositOutputIndex deposit vault =
     (case packRevealDepositParameters depositTx depositOutputIndex deposit vault of (fundingTx, reveal, _) \<Rightarrow>
        (case dr_extraData deposit of
           None \<Rightarrow> throw_io (Error ''Extra data is required'')
         | Some extraData \<Rightarrow>
             bind_io (ld_initializeDeposit i fundingTx reveal (toPrefixedString extraData)) (\<lambda>hash. lift_io (Hex_from_string hash))))"

subsection \<open>The L1 redeemer\<close>

record 'w l1_redeemer_contract =
  lr_requestRedemption :: "string \<Rightarrow> utxo_param \<Rightarrow> string \<Rightarrow> ('w, string) io"

record redeemer_deployments =
  red_mainnetBase :: EthersContractDeployment
  red_mainnetArbitrum :: EthersContractDeployment
  red_sepolia :: EthersContractDeployment

definition redeemer_getMainnet :: "redeemer_deployments \<Rightarrow> DestinationChainName \<Rightarrow> EthersContractDeployment res" where
  "redeemer_getMainnet deps l2ChainName = (case l2ChainName of
     Base \<Rightarrow> Inr (red_mainnetBase deps)
   | Arbitrum \<Rightarrow> Inr (red_mainnetArbitrum deps)
   | _ \<Rightarrow> Inl (Error ''Unsupported destination chain''))"

definition redeemer_getSepolia :: "redeemer_deployments \<Rightarrow> DestinationChainName \<Rightarrow> EthersContractDeployment res" where
  "redeemer_getSepolia deps l2ChainName =
     (if l2ChainName = Base \<or> l2ChainName = Arbitrum then Inr (red_sepolia deps)
      else Inl (Error ''Unsupported destination chain''))"

definition new_EthereumL1BitcoinRedeemer ::
  "'w ethers \<Rightarrow> redeemer_deployments \<Rightarrow> EthersContractConfig \<Rightarrow> string \<Rightarrow> DestinationChainName \<Rightarrow> EthersContractHandle res" where
  "new_EthereumL1BitcoinRedeemer lib deps config chainId l2ChainName =
     bind_res (if chainId = Ethereum_Sepolia then redeemer_getSepolia deps l2ChainName
       else if chainId = Ethereum_Mainnet then redeemer_getMainnet deps l2ChainName
       else Inl (Error ''Unsupported deployment type'')) (\<lambda>deployment.
     make_handle (utils_getAddress lib) config deployment)"

definition L1_redeemer_requestRedemption ::
  "'w ethers \<Rightarrow> 'w l1_redeemer_contract \<Rightarrow> Hex \<Rightarrow> BitcoinUtxo \<Rightarrow> string \<Rightarrow> ('w, Hex) io" where
  "L1_redeemer_requestRedemption lib i walletPublicKey mainUtxo encodedVm =
     bind_io (lift_io (computeHash160 (hash_functions lib) walletPublicKey)) (\<lambda>walletPublicKeyHash.
     bind_io (lr_requestRedemption i (toPrefixedString walletPublicKeyHash) (utxo_of mainUtxo) encodedVm) (\<lambda>hash.
     lift_io (Hex_from_string hash)))"

subsection \<open>Base and Arbitrum\<close>

text \<open>The classes of the two chains have the same code with their own two networks.\<close>

record l2_network =
  l2_testnet :: string
  l2_mainnet :: string

definition Base_network :: l2_network where
  "Base_network = \<lparr>l2_testnet = ''84532'', l2_mainnet = ''8453''\<rparr>"

definition Arbitrum_network :: l2_network where
  "Arbitrum_network = \<lparr>l2_testnet = ''421614'', l2_mainnet = ''42161''\<rparr>"

record l2_deployments =
  l2_test_deployment :: EthersContractDeployment
  l2_main_deployment :: EthersContractDeployment

definition l2_handle :: "'w ethers \<Rightarrow> l2_network \<Rightarrow> l2_deployments \<Rightarrow> EthersContractConfig \<Rightarrow> string \<Rightarrow> EthersContractHandle res" where
  "l2_handle lib net deps config chainId =
     (if chainId = l2_testnet net then make_handle (utils_getAddress lib) config (l2_test_deployment deps)
      else if chainId = l2_mainnet net then make_handle (utils_getAddress lib) config (l2_main_deployment deps)
      else Inl (Error ''Unsupported deployment type''))"

record 'w l2_depositor_contract =
  l2d_initializeDeposit :: "tx_param \<Rightarrow> reveal_param \<Rightarrow> string \<Rightarrow> ('w, string) io"

definition new_BaseBitcoinDepositor :: "'w ethers \<Rightarrow> l2_deployments \<Rightarrow> EthersContractConfig \<Rightarrow> string \<Rightarrow> evm_depositor res" where
  "new_BaseBitcoinDepositor lib deps config chainId =
     bind_res (l2_handle lib Base_network deps config chainId) (\<lambda>h.
     Inr \<lparr>ed_handle = h, ed_encoder = \<lparr>encodeDepositOwner = Ethereum_encodeDepositOwner (utils_getAddress lib),
       decodeDepositOwner = Ethereum_decodeDepositOwner (utils_getAddress lib)\<rparr>, ed_depositOwner = None\<rparr>)"

definition new_ArbitrumBitcoinDepositor :: "'w ethers \<Rightarrow> l2_deployments \<Rightarrow> EthersContractConfig \<Rightarrow> string \<Rightarrow> evm_depositor res" where
  "new_ArbitrumBitcoinDepositor lib deps config chainId =
     bind_res (l2_handle lib Arbitrum_network deps config chainId) (\<lambda>h.
     Inr \<lparr>ed_handle = h, ed_encoder = \<lparr>encodeDepositOwner = Arbitrum_encodeDepositOwner (utils_getAddress lib),
       decodeDepositOwner = Arbitrum_decodeDepositOwner (utils_getAddress lib)\<rparr>, ed_depositOwner = None\<rparr>)"

text \<open>The owner is read back from the extra data; the contract gets its address.\<close>

definition L2_initializeDeposit ::
  "evm_depositor \<Rightarrow> 'w l2_depositor_contract \<Rightarrow> BitcoinRawTxVectors \<Rightarrow> int \<Rightarrow> DepositReceipt \<Rightarrow> ChainIdentifier option \<Rightarrow> ('w, Hex) io" where
  "L2_initializeDeposit d i depositTx depositOutputIndex deposit vault =
     (case packRevealDepositParameters depositTx depositOutputIndex deposit vault of (fundingTx, reveal, _) \<Rightarrow>
        (case dr_extraData deposit of
           None \<Rightarrow> throw_io (Error ''Extra data is required'')
         | Some extraData \<Rightarrow>
             bind_io (lift_io (decodeDepositOwner (ed_encoder d) extraData)) (\<lambda>l2DepositOwner.
             bind_io (l2d_initializeDeposit i fundingTx reveal (''0x'' @ identifierHex l2DepositOwner)) (\<lambda>hash.
             lift_io (Hex_from_string hash)))))"

record 'w l2_redeemer_contract =
  l2r_messageFee :: "('w, int) io"
  l2r_requestRedemption :: "int \<Rightarrow> int \<Rightarrow> string \<Rightarrow> int \<Rightarrow> int \<Rightarrow> ('w, string) io"

record l2_redeemer =
  lre_handle :: EthersContractHandle
  lre_recipientChain :: int

definition new_L2BitcoinRedeemer ::
  "'w ethers \<Rightarrow> l2_network \<Rightarrow> l2_deployments \<Rightarrow> EthersContractConfig \<Rightarrow> string \<Rightarrow> l2_redeemer res" where
  "new_L2BitcoinRedeemer lib net deps config chainId =
     bind_res (l2_handle lib net deps config chainId) (\<lambda>h.
     Inr \<lparr>lre_handle = h, lre_recipientChain = (if chainId = l2_testnet net then WORMHOLE_SEPOLIA else WORMHOLE_ETHEREUM)\<rparr>)"

definition L2_requestRedemption :: "l2_redeemer \<Rightarrow> 'w l2_redeemer_contract \<Rightarrow> int \<Rightarrow> Hex \<Rightarrow> int \<Rightarrow> ('w, Hex) io" where
  "L2_requestRedemption r i amount redeemerOutputScript nonce =
     bind_io (l2r_messageFee i) (\<lambda>messageFee.
     bind_io (l2r_requestRedemption i amount (lre_recipientChain r) (prefixed_script redeemerOutputScript) nonce messageFee) (\<lambda>hash.
     lift_io (Hex_from_string hash)))"

definition new_SeiTBTCToken :: "'w ethers \<Rightarrow> l2_deployments \<Rightarrow> EthersContractConfig \<Rightarrow> string \<Rightarrow> EthersContractHandle res" where
  "new_SeiTBTCToken lib deps config chainId =
     (if chainId = ''1328'' then make_handle (utils_getAddress lib) config (l2_test_deployment deps)
      else if chainId = ''1329'' then make_handle (utils_getAddress lib) config (l2_main_deployment deps)
      else Inl (Error (''Unsupported Sei chainId: '' @ chainId)))"

definition L2_balanceOf :: "(string \<Rightarrow> ('w, int) io) \<Rightarrow> ChainIdentifier \<Rightarrow> ('w, int) io" where
  "L2_balanceOf balanceOf identifier = balanceOf (''0x'' @ identifierHex identifier)"

subsection \<open>Loaders\<close>

record l2_interfaces =
  li_depositor :: evm_depositor
  li_redeemer :: l2_redeemer
  li_token :: EthersContractHandle

record l2_artifacts =
  la_depositor :: l2_deployments
  la_redeemer :: l2_deployments
  la_token :: l2_deployments

definition loadBaseCrossChainInterfaces ::
  "'w ethers \<Rightarrow> l2_artifacts \<Rightarrow> 'w ethereum_signer \<Rightarrow> string \<Rightarrow> ('w, l2_interfaces) io" where
  "loadBaseCrossChainInterfaces lib deps signer chainId =
     bind_io (chainIdFromSigner signer) (\<lambda>signerChainId.
     if signerChainId \<noteq> chainId then throw_io (Error ''Signer uses different chain than Base cross-chain contracts'')
     else bind_io (lift_io (new_BaseBitcoinDepositor lib (la_depositor deps) no_config chainId)) (\<lambda>depositor.
       bind_io (ethereumAddressFromSigner lib signer) (\<lambda>owner.
       bind_io (lift_io (new_L2BitcoinRedeemer lib Base_network (la_redeemer deps) no_config chainId)) (\<lambda>redeemer.
       bind_io (lift_io (l2_handle lib Base_network (la_token deps) no_config chainId)) (\<lambda>token.
       return_io \<lparr>li_depositor = setDepositOwner_evm owner depositor, li_redeemer = redeemer, li_token = token\<rparr>)))))"

definition loadArbitrumCrossChainInterfaces ::
  "'w ethers \<Rightarrow> l2_artifacts \<Rightarrow> 'w ethereum_signer \<Rightarrow> string \<Rightarrow> ('w, l2_interfaces) io" where
  "loadArbitrumCrossChainInterfaces lib deps signer chainId =
     bind_io (chainIdFromSigner signer) (\<lambda>signerChainId.
     if signerChainId \<noteq> chainId then throw_io (Error ''Signer uses different chain than Arbitrum cross-chain contracts'')
     else bind_io (lift_io (new_ArbitrumBitcoinDepositor lib (la_depositor deps) no_config chainId)) (\<lambda>depositor.
       bind_io (ethereumAddressFromSigner lib signer) (\<lambda>owner.
       bind_io (lift_io (new_L2BitcoinRedeemer lib Arbitrum_network (la_redeemer deps) no_config chainId)) (\<lambda>redeemer.
       bind_io (lift_io (l2_handle lib Arbitrum_network (la_token deps) no_config chainId)) (\<lambda>token.
       return_io \<lparr>li_depositor = setDepositOwner_evm owner depositor, li_redeemer = redeemer, li_token = token\<rparr>)))))"

record l1_contracts =
  l1c_depositor :: evm_depositor
  l1c_redeemer :: "EthersContractHandle option"

text \<open>The loader of the L1 contracts: it exists only for a signer of the right chain.\<close>

definition loadL1Contracts ::
  "'w ethers \<Rightarrow> (string \<Rightarrow> byte list res) \<Rightarrow> artifacts \<Rightarrow> artifacts \<Rightarrow> redeemer_deployments \<Rightarrow> string \<Rightarrow> DestinationChainName \<Rightarrow> l1_contracts res" where
  "loadL1Contracts lib publicKey mainnet sepolia deps chainId destinationChainName =
     bind_res (if destinationChainName = Base \<or> destinationChainName = Arbitrum
       then bind_res (new_EthereumL1BitcoinRedeemer lib deps no_config chainId destinationChainName) (\<lambda>r. Inr (Some r))
       else Inr None) (\<lambda>l1BitcoinRedeemer.
     bind_res (new_EthereumL1BitcoinDepositor lib publicKey mainnet sepolia no_config chainId destinationChainName) (\<lambda>depositor.
     Inr \<lparr>l1c_depositor = depositor, l1c_redeemer = l1BitcoinRedeemer\<rparr>))"

definition ethereumCrossChainContractsLoader ::
  "'w ethers \<Rightarrow> (string \<Rightarrow> byte list res) \<Rightarrow> artifacts \<Rightarrow> artifacts \<Rightarrow> redeemer_deployments \<Rightarrow> 'w ethereum_signer \<Rightarrow> string \<Rightarrow>
   ('w, ChainMapping option \<times> (DestinationChainName \<Rightarrow> l1_contracts res)) io" where
  "ethereumCrossChainContractsLoader lib publicKey mainnet sepolia deps signer chainId =
     bind_io (chainIdFromSigner signer) (\<lambda>signerChainId.
     if signerChainId \<noteq> chainId then throw_io (Error ''Signer uses different chain than Ethereum cross-chain contracts'')
     else return_io (loadChainMapping chainId, loadL1Contracts lib publicKey mainnet sepolia deps chainId))"

subsection \<open>Deposit owners\<close>

text \<open>The address class of each chain, from which its deposit owners come.\<close>

definition chain_address ::
  "(string \<Rightarrow> string res) \<Rightarrow> (string \<Rightarrow> byte list res) \<Rightarrow> DestinationChainName \<Rightarrow> string \<Rightarrow> ChainIdentifier res" where
  "chain_address getAddress publicKey name = (case name of
     Solana \<Rightarrow> SolanaAddress_from publicKey | StarkNet \<Rightarrow> StarkNetAddress_from | Sui \<Rightarrow> SuiAddress_from | Sei \<Rightarrow> SeiAddress_from
   | _ \<Rightarrow> EthereumAddress_from getAddress)"

text \<open>An encoder reads back the owner it has written into 32 bytes.\<close>

definition owner_kept :: "extra_data_encoder \<Rightarrow> ChainIdentifier \<Rightarrow> bool" where
  "owner_kept enc x =
     (case encodeDepositOwner enc x of Inl _ \<Rightarrow> False
      | Inr h \<Rightarrow> length (hex_buf h) = 32 \<and> decodeDepositOwner enc h = Inr x)"

lemma owner_kept_encoder:
  "deposit_owner_encoder f g owner \<Longrightarrow> owner x \<Longrightarrow> owner_kept \<lparr>encodeDepositOwner = f, decodeDepositOwner = g\<rparr> x"
  using deposit_owner_encoder.encode_decode[of f g owner x] by (auto simp: owner_kept_def)

lemma chain_owner_kept:
  assumes "getAddress_ok ga" "name \<noteq> Solana" "chain_address ga publicKey name a = Inr x"
  shows "owner_kept (extraDataEncoders ga publicKey name) x"
    and "name = Arbitrum \<Longrightarrow>
      owner_kept \<lparr>encodeDepositOwner = Arbitrum_encodeDepositOwner ga, decodeDepositOwner = Arbitrum_decodeDepositOwner ga\<rparr> x"
proof -
  have eth: "owner_kept \<lparr>encodeDepositOwner = Ethereum_encodeDepositOwner ga, decodeDepositOwner = Ethereum_decodeDepositOwner ga\<rparr> y"
    if "EthereumAddress_from ga b = Inr y" for b y
    by (rule owner_kept_encoder[OF ethereum_encoder[OF assms(1)] EthereumAddress_from_owner[OF assms(1) that]])
  show "owner_kept (extraDataEncoders ga publicKey name) x"
    using assms(2,3) eth owner_kept_encoder[OF sei.deposit_owner_encoder_axioms SeiAddress_from_owner]
      owner_kept_encoder[OF starknet.deposit_owner_encoder_axioms StarkNetAddress_from_owner]
      owner_kept_encoder[OF sui.deposit_owner_encoder_axioms SuiAddress_from_owner]
    by (cases name) (simp_all add: chain_address_def extraDataEncoders_def)
  show "owner_kept \<lparr>encodeDepositOwner = Arbitrum_encodeDepositOwner ga, decodeDepositOwner = Arbitrum_decodeDepositOwner ga\<rparr> x"
    if "name = Arbitrum"
    using assms(3) eth that by (simp add: chain_address_def arbitrum_is_ethereum)
qed

text \<open>C40: for every destination chain except Solana - Base, Arbitrum, StarkNet, Sui and Sei - every address that the
  class of the chain constructs is encoded into 32 bytes of extra data, and decoding returns the
  address. It holds of the encoder in the table of the L1 depositors, and of that of every depositor
  that can be made for the chain: the L1 depositor, and on Base and Arbitrum the one of the chain itself.\<close>

theorem deposit_owner_roundtrip:
  assumes "getAddress_ok (utils_getAddress lib)" "name \<noteq> Solana"
    and "chain_address (utils_getAddress lib) publicKey name a = Inr x"
  shows "owner_kept (extraDataEncoders (utils_getAddress lib) publicKey name) x \<and>
    (\<forall>d. new_EthereumL1BitcoinDepositor lib publicKey mainnet sepolia config chainId name = Inr d \<or>
       name = Base \<and> new_BaseBitcoinDepositor lib deps config chainId = Inr d \<or>
       name = Arbitrum \<and> new_ArbitrumBitcoinDepositor lib deps config chainId = Inr d \<longrightarrow>
       owner_kept (ed_encoder d) x)"
proof (intro conjI allI impI)
  note kept = chain_owner_kept[OF assms]
  show "owner_kept (extraDataEncoders (utils_getAddress lib) publicKey name) x" by (rule kept(1))
  fix d
  assume "new_EthereumL1BitcoinDepositor lib publicKey mainnet sepolia config chainId name = Inr d \<or>
     name = Base \<and> new_BaseBitcoinDepositor lib deps config chainId = Inr d \<or>
     name = Arbitrum \<and> new_ArbitrumBitcoinDepositor lib deps config chainId = Inr d"
  then consider "ed_encoder d = extraDataEncoders (utils_getAddress lib) publicKey name"
    | "name = Arbitrum" "ed_encoder d = \<lparr>encodeDepositOwner = Arbitrum_encodeDepositOwner (utils_getAddress lib),
        decodeDepositOwner = Arbitrum_decodeDepositOwner (utils_getAddress lib)\<rparr>"
    by (auto simp: new_EthereumL1BitcoinDepositor_def new_BaseBitcoinDepositor_def new_ArbitrumBitcoinDepositor_def
        res_simps extraDataEncoders_def split: option.splits)
  then show "owner_kept (ed_encoder d) x" using kept by cases simp_all
qed

text \<open>An address on Arbitrum, with the depositor of the chain.\<close>

definition sample_deployments :: l2_deployments where
  "sample_deployments = (let d = \<lparr>deployment_address = ''0x00'', deployment_blockNumber = 1\<rparr> in
     \<lparr>l2_test_deployment = d, l2_main_deployment = d\<rparr>)"

theorem deposit_owner_roundtrip_witness:
  "\<exists>d h. new_ArbitrumBitcoinDepositor sample_ethers sample_deployments \<lparr>config_address = Some ''0x00'', config_deployedAtBlockNumber = None\<rparr> ''42161'' = Inr d \<and>
     encodeDepositOwner (ed_encoder d) (EthereumAddress (bytes_to_hex (replicate 20 4))) = Inr h \<and> length (hex_buf h) = 32 \<and>
     decodeDepositOwner (ed_encoder d) h = Inr (EthereumAddress (bytes_to_hex (replicate 20 4)))"
proof -
  let ?config = "\<lparr>config_address = Some ''0x00'', config_deployedAtBlockNumber = None\<rparr>"
  have ga: "getAddress_ok (utils_getAddress sample_ethers)" using getAddress_ok_sample by (simp add: sample_ethers_def)
  have x: "chain_address (utils_getAddress sample_ethers) pk Arbitrum (''0x'' @ bytes_to_hex (replicate 20 4)) =
      Inr (EthereumAddress (bytes_to_hex (replicate 20 4)))" for pk
    using strip_0x_prefixed(2)[of "bytes_to_hex (replicate 20 4)"] bytes_to_hex_digits[of "replicate 20 4"]
    by (simp add: chain_address_def EthereumAddress_from_def sample_ethers_def sample_getAddress_def Let_def)
  obtain d where d: "new_ArbitrumBitcoinDepositor sample_ethers sample_deployments ?config ''42161'' = Inr d"
    by (simp add: new_ArbitrumBitcoinDepositor_def l2_handle_def Arbitrum_network_def make_handle_def)
  have "owner_kept (ed_encoder d) (EthereumAddress (bytes_to_hex (replicate 20 4)))"
    using deposit_owner_roundtrip[OF ga _ x[of "\<lambda>_. Inl (Error [])"], of "\<lambda>_. None" "\<lambda>_. None" ?config "''42161''" sample_deployments] d by simp
  then show ?thesis using d by (auto simp: owner_kept_def split: sum.splits)
qed

end
