(* ===== verification/EntryPoints.thy ===== *)
theory EntryPoints
  imports CrossChainHandles RelayerDepositors
begin

section \<open>Sui and StarkNet interfaces, maintenance and the entry point\<close>

text \<open>
  The Sui depositor, token and loader (\<open>sui/\<close>), the StarkNet token and loader
  (\<open>starknet/\<close>), the services of maintainers (\<open>services/maintenance/\<close>) and the entry point that
  prepares the contracts of a destination chain (\<open>services/tbtc.ts\<close>), under typescript/src. The
  SDKs of the chains are parameters.
\<close>

subsection \<open>The Sui depositor (sui/bitcoin-depositor.ts)\<close>

record sui_call =
  sui_target :: string
  sui_arguments :: "byte list list"

text \<open>An indexed transaction: its digest, the status of its effects with an error, the types of its
  events.\<close>

record sui_transaction =
  st_digest :: string
  st_status :: "string option"
  st_error :: "string option"
  st_event_types :: "string list option"

record 'w sui_env =
  sui_import :: "('w, unit) io"
  sui_signAndExecute :: "sui_call \<Rightarrow> ('w, string) io"
  sui_waitForTransaction :: "string \<Rightarrow> ('w, sui_transaction) io"
  sui_getBalance :: "string \<Rightarrow> string \<Rightarrow> ('w, int) io"
  sui_warn :: "string \<Rightarrow> 'w \<Rightarrow> 'w"

record sui_depositor =
  sd_packageId :: string
  sd_depositOwner :: "ChainIdentifier option"

definition Sui_depositor_getChainIdentifier :: "sui_depositor \<Rightarrow> ChainIdentifier res" where
  "Sui_depositor_getChainIdentifier d = SuiAddress_from (sd_packageId d)"

definition Sui_setDepositOwner :: "ChainIdentifier \<Rightarrow> sui_depositor \<Rightarrow> sui_depositor" where
  "Sui_setDepositOwner depositOwner d = d\<lparr>sd_depositOwner := Some depositOwner\<rparr>"

definition serializeFundingTx :: "BitcoinRawTxVectors \<Rightarrow> byte list" where
  "serializeFundingTx tx = hex_to_bytes (toString (vec_version tx)) @ hex_to_bytes (toString (vec_inputs tx)) @
     hex_to_bytes (toString (vec_outputs tx)) @ hex_to_bytes (toString (vec_locktime tx))"

definition writeUInt32BE :: "int \<Rightarrow> byte list res" where
  "writeUInt32BE v = (if 0 \<le> v \<and> v < 2 ^ 32 then Inr (be_bytes 4 (nat v))
     else Inl (RangeError ''ERR_OUT_OF_RANGE''))"

definition serializeDepositReveal :: "DepositReceipt \<Rightarrow> int \<Rightarrow> byte list res" where
  "serializeDepositReveal deposit depositOutputIndex =
     bind_res (writeUInt32BE depositOutputIndex) (\<lambda>outputIndexBuffer.
     Inr (concat [outputIndexBuffer, hex_to_bytes (toString (dr_blindingFactor deposit)),
       hex_to_bytes (toString (dr_walletPublicKeyHash deposit)), hex_to_bytes (toString (dr_refundPublicKeyHash deposit)),
       hex_to_bytes (toString (dr_refundLocktime deposit))]))"

text \<open>A failed transaction is an error of its own; any other error of the execution is wrapped.\<close>

definition Sui_initializeDeposit ::
  "'w sui_env \<Rightarrow> sui_depositor \<Rightarrow> BitcoinRawTxVectors \<Rightarrow> int \<Rightarrow> DepositReceipt \<Rightarrow> ChainIdentifier option \<Rightarrow> ('w, tx_result) io" where
  "Sui_initializeDeposit env d depositTx depositOutputIndex deposit vault =
     bind_io (catch_io (sui_import env)
       (\<lambda>_. throw_io (Error ''Failed to load SUI SDK. Please ensure @mysten/sui is installed.''))) (\<lambda>_.
     bind_io (lift_io (serializeDepositReveal deposit depositOutputIndex)) (\<lambda>depositReveal.
     bind_io (lift_io (case dr_extraData deposit of
         Some e \<Rightarrow> bind_res (Sui_decodeDepositOwner e) (\<lambda>x. Inr (identifierHex x))
       | None \<Rightarrow> Inr (case sd_depositOwner d of Some x \<Rightarrow> identifierHex x | None \<Rightarrow> []))) (\<lambda>depositOwner.
     bind_io (catch_io
       (bind_io (sui_signAndExecute env
          \<lparr>sui_target = sd_packageId d @ ''::BitcoinDepositor::initialize_deposit'',
           sui_arguments = [serializeFundingTx depositTx, depositReveal, hex_to_bytes depositOwner]\<rparr>)
        (sui_waitForTransaction env))
       (\<lambda>_. throw_io (Error ''Failed to execute deposit initialization on SUI''))) (\<lambda>indexedTransaction.
     if st_status indexedTransaction \<noteq> Some ''success''
     then throw_io (Error (''Transaction failed: '' @ or_else (st_error indexedTransaction) ''Unknown error''))
     else (\<lambda>w. (Inr (SuiResponse (st_digest indexedTransaction)),
       if sd_packageId d @ ''::BitcoinDepositor::DepositInitialized'' \<in>
            set (case st_event_types indexedTransaction of None \<Rightarrow> [] | Some ts \<Rightarrow> ts) then w
       else sui_warn env ''DepositInitialized event not found in transaction. The relayer may not process this deposit.'' w))))))"

subsection \<open>The Sui token and loader (sui/tbtc-token.ts, sui/index.ts)\<close>

record sui_token =
  su_coinType :: string
  su_contractAddress :: ChainIdentifier

definition new_SuiTBTCToken :: "string \<Rightarrow> string \<Rightarrow> sui_token res" where
  "new_SuiTBTCToken coinType contractAddress =
     bind_res (SuiAddress_from contractAddress) (\<lambda>a. Inr \<lparr>su_coinType = coinType, su_contractAddress = a\<rparr>)"

definition Sui_balanceOf :: "'w sui_env \<Rightarrow> sui_token \<Rightarrow> ChainIdentifier \<Rightarrow> ('w, int) io" where
  "Sui_balanceOf env token identifier =
     catch_io (bind_io (sui_getBalance env (''0x'' @ identifierHex identifier) (su_coinType token)) (\<lambda>balance.
       bind_io (lift_io (bn_pow 10 10)) (\<lambda>scale. return_io (balance * scale))))
       (\<lambda>_. throw_io (Error (''Failed to fetch tBTC balance for '' @ identifierHex identifier)))"

datatype 'w sui_signer =
    Keypair string
  | AddressGetter "('w, string) io"
  | AddressField string
  | NoAddress

definition sui_signer_address :: "'w sui_signer \<Rightarrow> ('w, string) io" where
  "sui_signer_address signer = (case signer of
     Keypair a \<Rightarrow> return_io a
   | AddressGetter g \<Rightarrow> g
   | AddressField a \<Rightarrow> if a = [] then throw_io (Error ''Cannot determine signer address'') else return_io a
   | NoAddress \<Rightarrow> throw_io (Error ''Cannot determine signer address''))"

definition sui_full_address :: "string \<Rightarrow> string" where
  "sui_full_address signerAddress =
     (let prefixed = with_0x signerAddress in
      if length prefixed < 66 then ''0x'' @ padStart 64 (CHR ''0'') (drop 2 prefixed) else prefixed)"

record SuiArtifacts =
  art_packageId :: string
  art_tbtcCoinType :: string

definition MAINNET_CONFIG :: SuiArtifacts where
  "MAINNET_CONFIG =
     \<lparr>art_packageId = ''0x77045f1b9f811a7a8fb9ebd085b5b0c55c5cb0d1520ff55f7037f89b5da9f5f1'',
      art_tbtcCoinType = ''0x77045f1b9f811a7a8fb9ebd085b5b0c55c5cb0d1520ff55f7037f89b5da9f5f1::TBTC::TBTC''\<rparr>"

definition isMainnetConfigured :: bool where
  "isMainnetConfigured =
     (art_packageId MAINNET_CONFIG \<noteq> ''0x0000000000000000000000000000000000000000000000000000000000000000'')"

definition loadSuiArtifacts :: "string \<Rightarrow> SuiArtifacts res" where
  "loadSuiArtifacts chainId =
     (if chainId = ''sui:mainnet''
      then if \<not> isMainnetConfigured
        then Inl (Error ''SUI mainnet configuration not available yet. Please use testnet or wait for mainnet deployment.'')
        else Inr MAINNET_CONFIG
      else if chainId = ''sui:testnet''
      then Inr \<lparr>art_packageId = ''0x3d78316ce8ee3fe48d7ff85cdc2d0df9d459f43d802d96f58f7b59984c2dd3ae'',
        art_tbtcCoinType = ''0x3d78316ce8ee3fe48d7ff85cdc2d0df9d459f43d802d96f58f7b59984c2dd3ae::TBTC::TBTC''\<rparr>
      else Inl (Error ''Unsupported SUI network''))"

definition loadSuiCrossChainInterfaces :: "'w sui_env \<Rightarrow> 'w sui_signer \<Rightarrow> string \<Rightarrow> ('w, sui_depositor \<times> sui_token) io" where
  "loadSuiCrossChainInterfaces env signer chainId =
     bind_io (catch_io (sui_import env)
       (\<lambda>_. throw_io (Error ''Failed to load SUI SDK. Please ensure @mysten/sui is installed.''))) (\<lambda>_.
     bind_io (\<lambda>w. (Inr (), sui_warn env (''Using public SUI RPC endpoint ('' @
         (if chainId = ''sui:mainnet'' then ''https://fullnode.mainnet.sui.io:443'' else ''https://fullnode.testnet.sui.io:443'') @
         ''). Public endpoints are rate-limited to 100 requests per 30 seconds. '' @
         ''Consider using a dedicated node or RPC service for production applications.'') w)) (\<lambda>_.
     bind_io (catch_io (sui_signer_address signer) (\<lambda>_. throw_io (Error ''Failed to get signer address''))) (\<lambda>signerAddress.
     bind_io (lift_io (loadSuiArtifacts chainId)) (\<lambda>artifacts.
     bind_io (lift_io (SuiAddress_from (sui_full_address signerAddress))) (\<lambda>owner.
     bind_io (lift_io (new_SuiTBTCToken (art_tbtcCoinType artifacts) (art_packageId artifacts))) (\<lambda>token.
     return_io (Sui_setDepositOwner owner \<lparr>sd_packageId = art_packageId artifacts, sd_depositOwner = None\<rparr>, token)))))))"

subsection \<open>The StarkNet token and loader (starknet/)\<close>

record starknet_token =
  stk_chainId :: string
  stk_tokenContract :: string

definition new_StarkNetTBTCToken :: "string \<Rightarrow> string \<Rightarrow> 'p option \<Rightarrow> starknet_token res" where
  "new_StarkNetTBTCToken chainId tokenContract provider =
     (if provider = None then Inl (Error ''Provider is required for balance queries'')
      else if tokenContract = [] then Inl (Error ''Token contract address is required'')
      else Inr \<lparr>stk_chainId = chainId, stk_tokenContract = tokenContract\<rparr>)"

fun StarkNet_balanceOf :: "ChainIdentifier \<Rightarrow> int res" where
  "StarkNet_balanceOf (StarkNetAddress a) = Inl (Error ''Token operations are not supported on StarkNet yet.'')"
| "StarkNet_balanceOf _ = Inl (Error ''Address must be a StarkNet address'')"

text \<open>\<open>call\<close> is the contract's view function: the first element of its answer, or the answer.\<close>

definition StarkNet_getBalance :: "(string \<Rightarrow> ('w, int) io) \<Rightarrow> ChainIdentifier \<Rightarrow> ('w, int) io" where
  "StarkNet_getBalance call identifier = (case identifier of
     StarkNetAddress a \<Rightarrow> catch_io (call (''0x'' @ a)) (\<lambda>error. throw_io (Error (''Failed to get balance: '' @ error_text error)))
   | _ \<Rightarrow> throw_io (Error ''Address must be a StarkNet address''))"

definition TBTC_CONTRACT_ADDRESSES :: "string \<Rightarrow> string option" where
  "TBTC_CONTRACT_ADDRESSES chainId =
     (if chainId = ''0x534e5f4d41494e'' then Some ''0x04a909347487d909a6629b56880e6e03ad3859e772048c4481f3fba88ea02c32f''
      else if chainId \<in> {''0x534e5f5345504f4c4941'', ''0x534e5f544553544e4554''}
      then Some ''0x04e3bc49f130f9d0379082c24efd397a0eddfccdc6023a2f02a74d8527140276'' else None)"

definition loadStarkNetCrossChainInterfaces ::
  "string option \<Rightarrow> 'p \<Rightarrow> string \<Rightarrow> 'p option \<Rightarrow> string option \<Rightarrow> ('p relayer_depositor \<times> starknet_token) res" where
  "loadStarkNetCrossChainInterfaces relayerUrl mockProvider walletAddress provider chain =
     (let chainId = (case chain of None \<Rightarrow> ''0x534e5f5345504f4c4941'' | Some c \<Rightarrow> c);
          actualProvider = (case provider of None \<Rightarrow> mockProvider | Some p \<Rightarrow> p) in
      bind_res (new_StarkNetBitcoinDepositor chainId relayerUrl ''StarkNet'' (Some actualProvider)) (\<lambda>depositor.
      bind_res (StarkNetAddress_from walletAddress) (\<lambda>owner.
      bind_res (StarkNet_setDepositOwner (Some owner) depositor) (\<lambda>depositor'.
      bind_res (case provider of
          None \<Rightarrow> new_StarkNetTBTCToken chainId ''0x0'' (Some mockProvider)
        | Some p \<Rightarrow> (case TBTC_CONTRACT_ADDRESSES chainId of
            None \<Rightarrow> Inl (Error (''No tBTC contract address for chain '' @ chainId))
          | Some tokenContract \<Rightarrow> new_StarkNetTBTCToken chainId tokenContract provider)) (\<lambda>token.
      Inr (depositor', token))))))"

subsection \<open>Maintenance (services/maintenance)\<close>

definition requestMint :: "'w tbtc_vault \<Rightarrow> BitcoinTxHash \<Rightarrow> int \<Rightarrow> ('w, Hex) io" where
  "requestMint vault depositTxHash depositOutputIndex = requestOptimisticMint vault depositTxHash depositOutputIndex"

definition cancelMint :: "'w tbtc_vault \<Rightarrow> BitcoinTxHash \<Rightarrow> int \<Rightarrow> ('w, Hex) io" where
  "cancelMint vault depositTxHash depositOutputIndex = cancelOptimisticMint vault depositTxHash depositOutputIndex"

definition finalizeMint :: "'w tbtc_vault \<Rightarrow> BitcoinTxHash \<Rightarrow> int \<Rightarrow> ('w, Hex) io" where
  "finalizeMint vault depositTxHash depositOutputIndex = finalizeOptimisticMint vault depositTxHash depositOutputIndex"

definition getMintingRequest :: "'w tbtc_vault \<Rightarrow> BitcoinTxHash \<Rightarrow> int \<Rightarrow> ('w, OptimisticMintingRequest) io" where
  "getMintingRequest vault depositTxHash depositOutputIndex = optimisticMintingRequests vault depositTxHash depositOutputIndex"

definition Spv_submitDepositSweepProof ::
  "crypto \<Rightarrow> btcjs \<Rightarrow> bufio \<Rightarrow> 'w bridge \<Rightarrow> 'w bitcoin_client \<Rightarrow> BitcoinTxHash \<Rightarrow> BitcoinUtxo \<Rightarrow> ChainIdentifier option \<Rightarrow> ('w, unit) io" where
  "Spv_submitDepositSweepProof c lib wr b bitcoinClient transactionHash mainUtxo vault =
     bind_io (txProofDifficultyFactor b) (\<lambda>confirmations.
     bind_io (assembleBitcoinSpvProof c lib wr transactionHash confirmations bitcoinClient) (\<lambda>(_, prf).
     bind_io (getRawTransaction bitcoinClient transactionHash) (\<lambda>rawTransaction.
     bind_io (lift_io (extractBitcoinRawTxVectors lib wr rawTransaction)) (\<lambda>rawTransactionVectors.
     bind_io (submitDepositSweepProof b rawTransactionVectors prf mainUtxo vault) (\<lambda>_. return_io ())))))"

definition Spv_submitRedemptionProof ::
  "crypto \<Rightarrow> btcjs \<Rightarrow> bufio \<Rightarrow> 'w bridge \<Rightarrow> 'w bitcoin_client \<Rightarrow> BitcoinTxHash \<Rightarrow> BitcoinUtxo \<Rightarrow> Hex \<Rightarrow> ('w, unit) io" where
  "Spv_submitRedemptionProof c lib wr b bitcoinClient transactionHash mainUtxo walletPublicKey =
     bind_io (txProofDifficultyFactor b) (\<lambda>confirmations.
     bind_io (assembleBitcoinSpvProof c lib wr transactionHash confirmations bitcoinClient) (\<lambda>(_, prf).
     bind_io (getRawTransaction bitcoinClient transactionHash) (\<lambda>rawTransaction.
     bind_io (lift_io (extractBitcoinRawTxVectors lib wr rawTransaction)) (\<lambda>rawTransactionVectors.
     bind_io (submitRedemptionProof b rawTransactionVectors prf mainUtxo walletPublicKey) (\<lambda>_. return_io ())))))"

subsection \<open>The entry point (services/tbtc.ts)\<close>

text \<open>What the code asks of a StarkNet provider: a property that is there may not be a text.\<close>

record starknet_provider =
  sp_address :: "string option option"
  sp_account :: "string option option"
  sp_getChainId :: bool

definition extractStarkNetAddress :: "starknet_provider option \<Rightarrow> string res" where
  "extractStarkNetAddress provider = (case provider of
     None \<Rightarrow> Inl (Error ''StarkNet provider is required'')
   | Some p \<Rightarrow>
       let address = (case sp_address p of
           Some (Some a) \<Rightarrow> Some a
         | _ \<Rightarrow> (case sp_account p of Some (Some a) \<Rightarrow> Some a | _ \<Rightarrow> None)) in
       if \<not> truthy address
       then Inl (Error (''StarkNet provider must be an Account object or Provider with connected account. '' @
         ''Ensure your StarkNet wallet is connected.''))
       else if \<not> (take 2 (the address) = ''0x'' \<and> drop 2 (the address) \<noteq> [] \<and> list_all is_hex_digit (drop 2 (the address)))
       then Inl (Error ''Invalid StarkNet address format'')
       else Inr (toLowerCase (the address)))"

text \<open>The wallet of a provider without an account is the address zero.\<close>

definition starknet_wallet :: "starknet_provider \<Rightarrow> string res" where
  "starknet_wallet p = (case extractStarkNetAddress (Some p) of
     Inr a \<Rightarrow> Inr a
   | Inl error \<Rightarrow> if sp_address p = None \<and> sp_account p = None \<and> sp_getChainId p then Inr ''0x0'' else Inl error)"

text \<open>The loaders of the chains, each a dynamic import; \<open>'s\<close> is a signer, \<open>'i\<close> what a chain provides,
  \<open>'l\<close> the L1 contracts.\<close>

record ('w, 's, 'i) l2_loaders =
  ll_base :: "'s option \<Rightarrow> string \<Rightarrow> ('w, 'i) io"
  ll_arbitrum :: "'s option \<Rightarrow> string \<Rightarrow> ('w, 'i) io"
  ll_starknet :: "string \<Rightarrow> 's \<Rightarrow> string \<Rightarrow> ('w, 'i) io"
  ll_sui :: "'s option \<Rightarrow> string \<Rightarrow> ('w, 'i) io"
  ll_solana :: "'s \<Rightarrow> ('w, 'i) io"
  ll_starknet_provider :: "'s \<Rightarrow> starknet_provider"

record ('w, 's, 'i, 'l) tbtc_entry =
  tb_loader :: "(ChainMapping option \<times> (DestinationChainName \<Rightarrow> ('w, 'l) io)) option"
  tb_l2Signer :: "'s option"
  tb_crossChainContracts :: "DestinationChainName \<Rightarrow> ('l \<times> 'i) option"

definition loadDestination ::
  "('w, 's, 'i) l2_loaders \<Rightarrow> ChainMapping \<Rightarrow> DestinationChainName \<Rightarrow> 's option \<Rightarrow> ('w, 'i) io" where
  "loadDestination ll chainMapping l2ChainName signer = (case l2ChainName of
     Base \<Rightarrow> ll_base ll signer (cm_base chainMapping)
   | Arbitrum \<Rightarrow> ll_arbitrum ll signer (cm_arbitrum chainMapping)
   | StarkNet \<Rightarrow> (case signer of
         None \<Rightarrow> throw_io (Error ''StarkNet provider is required'')
       | Some s \<Rightarrow> bind_io (lift_io (starknet_wallet (ll_starknet_provider ll s)))
           (\<lambda>walletAddressHex. ll_starknet ll walletAddressHex s (cm_starknet chainMapping)))
   | Sui \<Rightarrow> ll_sui ll signer (cm_sui chainMapping)
   | Solana \<Rightarrow> (case signer of
         None \<Rightarrow> throw_io (Error ''Solana provider is required'')
       | Some s \<Rightarrow> ll_solana ll s)
   | Sei \<Rightarrow> throw_io (Error ''Unsupported destination chain''))"

text \<open>The signer is remembered before the chain is loaded, the contracts after it. StarkNet providers
  are not remembered.\<close>

definition remember_signer ::
  "DestinationChainName \<Rightarrow> 's option \<Rightarrow> ('w, 's, 'i, 'l) tbtc_entry \<Rightarrow> ('w, 's, 'i, 'l) tbtc_entry" where
  "remember_signer l2ChainName signer t =
     (if l2ChainName \<in> {Base, Arbitrum, Sui} \<or> l2ChainName = Solana \<and> signer \<noteq> None then t\<lparr>tb_l2Signer := signer\<rparr> else t)"

definition initializeCrossChain ::
  "('w, 's, 'i) l2_loaders \<Rightarrow> DestinationChainName \<Rightarrow> 's option \<Rightarrow> ('w, 's, 'i, 'l) tbtc_entry \<Rightarrow> 'w \<Rightarrow>
   unit res \<times> ('w, 's, 'i, 'l) tbtc_entry \<times> 'w" where
  "initializeCrossChain ll l2ChainName signer t w =
     (case tb_loader t of
        None \<Rightarrow> (Inl (Error ''L1 Cross-chain contracts loader not available for this instance''), t, w)
      | Some (None, _) \<Rightarrow> (Inl (Error ''Chain mapping between L1 and L2 chains not defined''), t, w)
      | Some (Some chainMapping, loadL1) \<Rightarrow>
          (case loadL1 l2ChainName w of
             (Inl e, w1) \<Rightarrow> (Inl e, t, w1)
           | (Inr l1, w1) \<Rightarrow>
               let t1 = remember_signer l2ChainName signer t in
               (case loadDestination ll chainMapping l2ChainName signer w1 of
                  (Inl e, w2) \<Rightarrow> (Inl e, t1, w2)
                | (Inr l2, w2) \<Rightarrow>
                    (Inr (), t1\<lparr>tb_crossChainContracts := (tb_crossChainContracts t1)(l2ChainName \<mapsto> (l1, l2))\<rparr>, w2))))"

definition crossChainContracts :: "('w, 's, 'i, 'l) tbtc_entry \<Rightarrow> DestinationChainName \<Rightarrow> ('l \<times> 'i) option" where
  "crossChainContracts t l2ChainName = tb_crossChainContracts t l2ChainName"

subsection \<open>Lemmas\<close>

lemma tb_remember [simp]: "tb_crossChainContracts (remember_signer n s t) = tb_crossChainContracts t"
  by (simp add: remember_signer_def)

lemma initializeCrossChain_contracts:
  "initializeCrossChain ll n s t w = (r, t', w') \<Longrightarrow>
   (\<forall>m. m \<noteq> n \<longrightarrow> tb_crossChainContracts t' m = tb_crossChainContracts t m) \<and>
   (\<forall>e. r = Inl e \<longrightarrow> tb_crossChainContracts t' = tb_crossChainContracts t) \<and>
   (\<forall>u. r = Inr u \<longrightarrow> n \<noteq> Sei \<and> tb_crossChainContracts t' n \<noteq> None)"
  by (auto simp: initializeCrossChain_def loadDestination_def Let_def split: option.splits prod.splits sum.splits)

text \<open>What the Move contract gets: the parts of the reveal one after another.\<close>

lemma serializeDepositReveal_bytes:
  assumes "receipt_ok r" "0 \<le> i" "i < 2 ^ 32"
  shows "\<exists>bs. serializeDepositReveal r i = Inr bs \<and> length bs = 56 \<and>
     nat i = be_nat (take 4 bs) \<and> hex_buf (dr_blindingFactor r) = take 8 (drop 4 bs) \<and>
     hex_buf (dr_walletPublicKeyHash r) = take 20 (drop 12 bs) \<and>
     hex_buf (dr_refundPublicKeyHash r) = take 20 (drop 32 bs) \<and> hex_buf (dr_refundLocktime r) = drop 52 bs"
proof -
  define b where "b = be_bytes 4 (nat i)"
  have "length b = 4" by (simp add: b_def)
  moreover have "be_nat b = nat i" using assms(3) unfolding b_def be_nat_be_bytes by simp
  moreover have "serializeDepositReveal r i = Inr (b @ hex_buf (dr_blindingFactor r) @ hex_buf (dr_walletPublicKeyHash r) @
      hex_buf (dr_refundPublicKeyHash r) @ hex_buf (dr_refundLocktime r))"
    using assms(2,3) by (simp add: serializeDepositReveal_def writeUInt32BE_def b_def toString_def del: be_bytes.simps)
  ultimately show ?thesis using assms(1) by (intro exI conjI) (auto simp: receipt_ok_def)
qed

subsection \<open>Properties\<close>

text \<open>Preparing a destination chain changes the contracts of that chain only: on success they are
  there, on any error every chain keeps what it had. Sei, although a destination chain with an entry
  in the chain mapping, can never be prepared.\<close>

theorem initializeCrossChain_frame:
  assumes "initializeCrossChain ll n s t w = (r, t', w')"
  shows "(m \<noteq> n \<longrightarrow> crossChainContracts t' m = crossChainContracts t m) \<and>
     (case r of Inr _ \<Rightarrow> n \<noteq> Sei \<and> crossChainContracts t' n \<noteq> None
      | Inl _ \<Rightarrow> crossChainContracts t' n = crossChainContracts t n)"
  using initializeCrossChain_contracts[OF assms] unfolding crossChainContracts_def
  by (cases r) auto

definition sample_loaders :: "(nat, unit, nat) l2_loaders" where
  "sample_loaders = \<lparr>ll_base = (\<lambda>_ _. return_io 1), ll_arbitrum = (\<lambda>_ _. return_io 2), ll_starknet = (\<lambda>_ _ _. return_io 3),
     ll_sui = (\<lambda>_ _. return_io 4), ll_solana = (\<lambda>_. return_io 5),
     ll_starknet_provider = (\<lambda>_. \<lparr>sp_address = None, sp_account = None, sp_getChainId = True\<rparr>)\<rparr>"

definition sample_entry :: "(nat, unit, nat, nat) tbtc_entry" where
  "sample_entry = \<lparr>tb_loader = Some (loadChainMapping ''1'', \<lambda>_. return_io 0), tb_l2Signer = None,
     tb_crossChainContracts = (\<lambda>_. None)\<rparr>"

theorem initializeCrossChain_frame_witness:
  "\<exists>r t' w'. initializeCrossChain sample_loaders Base (Some ()) sample_entry 0 = (r, t', w') \<and> r = Inr () \<and>
     crossChainContracts t' Base \<noteq> None \<and> crossChainContracts t' Sui = None"
proof -
  obtain r t' w' where i: "initializeCrossChain sample_loaders Base (Some ()) sample_entry 0 = (r, t', w')" by (metis prod_cases3)
  moreover have "r = Inr ()"
    using i by (simp add: initializeCrossChain_def sample_loaders_def sample_entry_def loadChainMapping_def ChainMappings_def
        loadDestination_def Let_def)
  ultimately show ?thesis
    using initializeCrossChain_frame[OF i, of Sui] by (auto simp: crossChainContracts_def sample_entry_def)
qed

end
