(* ===== verification/TbtcCore.thy ===== *)
theory TbtcCore
  imports EntryPoints Redemptions ElectrumClaims
begin

section \<open>The construction of the entry point\<close>

text \<open>
  The entry points \<open>services/tbtc-core.ts\<close> and \<open>services/tbtc.ts\<close> under typescript/src: the loading
  of the contracts and of the Electrum client, the services built on them, the default depositor, and
  the wiring of the services to the contracts of destination chains. The class of tbtc.ts extends the
  one of tbtc-core.ts, so does the record. What a loaded contract answers is a parameter.
\<close>

subsection \<open>The core entry point (tbtc-core.ts)\<close>

record 'w MaintenanceService =
  ms_optimisticMinting :: "'w tbtc_contracts"
  ms_spv :: "'w tbtc_contracts \<times> 'w bitcoin_client"

definition new_MaintenanceService :: "'w tbtc_contracts \<Rightarrow> 'w bitcoin_client \<Rightarrow> 'w MaintenanceService" where
  "new_MaintenanceService contracts client = \<lparr>ms_optimisticMinting = contracts, ms_spv = (contracts, client)\<rparr>"

record 'w TBTC_core =
  tbtc_deposits :: "'w DepositsService"
  tbtc_maintenance :: "'w MaintenanceService"
  tbtc_redemptions :: "'w RedemptionsService"
  tbtc_tbtcContracts :: "'w tbtc_contracts"
  tbtc_bitcoinClient :: "'w bitcoin_client"

text \<open>The constructor; its argument \<open>extend\<close> is the rest of the object, which a subclass adds.\<close>

definition new_TBTC_core :: "'w tbtc_contracts \<Rightarrow> 'w bitcoin_client \<Rightarrow> 'z \<Rightarrow> ('w, 'z) TBTC_core_scheme" where
  "new_TBTC_core contracts client rest =
     \<lparr>tbtc_deposits = new_DepositsService contracts client None,
      tbtc_maintenance = new_MaintenanceService contracts client,
      tbtc_redemptions = new_RedemptionsService contracts client None,
      tbtc_tbtcContracts = contracts, tbtc_bitcoinClient = client, \<dots> = rest\<rparr>"

text \<open>What the initializers use of the outside: the Ethereum library, the deployments, the contract
  behind a loaded handle, and what the Electrum client uses, the URL parser included.\<close>

record 'w tbtc_env =
  te_ethers :: "'w ethers"
  te_core :: core_deployments
  te_contracts :: "core_handles \<Rightarrow> 'w tbtc_contracts"
  te_electrum :: "'w electrum_env"
  te_publicKey :: "string \<Rightarrow> byte list res"
  te_mainnet_artifacts :: artifacts
  te_sepolia_artifacts :: artifacts
  te_redeemers :: redeemer_deployments

definition initializeEthereum_core ::
  "'w tbtc_env \<Rightarrow> 'w ethereum_signer \<Rightarrow> string \<Rightarrow> BitcoinNetwork \<Rightarrow> 'z \<Rightarrow> ('w, ('w, 'z) TBTC_core_scheme) io" where
  "initializeEthereum_core env ethereumSignerOrProvider ethereumChainId bitcoinNetwork rest =
     bind_io (ethereumAddressFromSigner (te_ethers env) ethereumSignerOrProvider) (\<lambda>signerAddress.
     bind_io (loadEthereumCoreContracts (te_ethers env) (te_core env) ethereumSignerOrProvider ethereumChainId) (\<lambda>handles.
     bind_io (lift_io (Electrum_fromDefaultConfig (parse_url (te_electrum env)) bitcoinNetwork)) (\<lambda>electrumClient.
     let tbtc = new_TBTC_core (te_contracts env handles) (electrum_bitcoin_client (te_electrum env) electrumClient) rest in
     return_io (case signerAddress of None \<Rightarrow> tbtc
       | Some a \<Rightarrow> tbtc\<lparr>tbtc_deposits := setDefaultDepositor a (tbtc_deposits tbtc)\<rparr>))))"

definition initializeMainnet_core :: "'w tbtc_env \<Rightarrow> 'w ethereum_signer \<Rightarrow> ('w, 'w TBTC_core) io" where
  "initializeMainnet_core env signer = initializeEthereum_core env signer Ethereum_Mainnet Mainnet ()"

definition initializeSepolia_core :: "'w tbtc_env \<Rightarrow> 'w ethereum_signer \<Rightarrow> ('w, 'w TBTC_core) io" where
  "initializeSepolia_core env signer = initializeEthereum_core env signer Ethereum_Sepolia Testnet ()"

definition initializeCustom_core :: "'w tbtc_contracts \<Rightarrow> 'w bitcoin_client \<Rightarrow> ('w, 'w TBTC_core) io" where
  "initializeCustom_core contracts client = return_io (new_TBTC_core contracts client ())"

subsection \<open>The entry point with destination chains (tbtc.ts)\<close>

text \<open>The class adds the loader, the signer and the contracts of \<open>tbtc_entry\<close>. The resolver that
  the initializer gives to the services is a closure over the object: it reads the contracts the object
  has when a service asks. \<open>tbtc_resolving\<close> says that the services have it.\<close>

record ('w, 's, 'i) TBTC = "'w TBTC_core" +
  tbtc_entry :: "('w, 's, 'i, l1_contracts) tbtc_entry"
  tbtc_resolving :: bool

definition new_TBTC ::
  "'w tbtc_contracts \<Rightarrow> 'w bitcoin_client \<Rightarrow>
   (ChainMapping option \<times> (DestinationChainName \<Rightarrow> ('w, l1_contracts) io)) option \<Rightarrow> ('w, 's, 'i) TBTC" where
  "new_TBTC contracts client crossChainContractsLoader =
     new_TBTC_core contracts client \<lparr>tbtc_entry = \<lparr>tb_loader = crossChainContractsLoader, tb_l2Signer = None,
       tb_crossChainContracts = (\<lambda>_. None)\<rparr>, tbtc_resolving = False\<rparr>"

definition initializeEthereum ::
  "'w tbtc_env \<Rightarrow> 'w ethereum_signer \<Rightarrow> string \<Rightarrow> BitcoinNetwork \<Rightarrow> bool \<Rightarrow> ('w, ('w, 's, 'i) TBTC) io" where
  "initializeEthereum env ethereumSignerOrProvider ethereumChainId bitcoinNetwork crossChainSupport =
     bind_io (initializeEthereum_core env ethereumSignerOrProvider ethereumChainId bitcoinNetwork
       \<lparr>tbtc_entry = \<lparr>tb_loader = None, tb_l2Signer = None, tb_crossChainContracts = (\<lambda>_. None)\<rparr>,
        tbtc_resolving = False\<rparr>) (\<lambda>tbtc.
     if \<not> crossChainSupport then return_io tbtc
     else bind_io (ethereumCrossChainContractsLoader (te_ethers env) (te_publicKey env) (te_mainnet_artifacts env)
         (te_sepolia_artifacts env) (te_redeemers env) ethereumSignerOrProvider ethereumChainId) (\<lambda>(chainMapping, loadL1).
       return_io (tbtc\<lparr>tbtc_entry := (tbtc_entry tbtc)\<lparr>tb_loader := Some (chainMapping, \<lambda>name. lift_io (loadL1 name))\<rparr>,
         tbtc_resolving := True\<rparr>)))"

definition initializeMainnet :: "'w tbtc_env \<Rightarrow> 'w ethereum_signer \<Rightarrow> bool \<Rightarrow> ('w, ('w, 's, 'i) TBTC) io" where
  "initializeMainnet env signer crossChainSupport = initializeEthereum env signer Ethereum_Mainnet Mainnet crossChainSupport"

definition initializeSepolia :: "'w tbtc_env \<Rightarrow> 'w ethereum_signer \<Rightarrow> bool \<Rightarrow> ('w, ('w, 's, 'i) TBTC) io" where
  "initializeSepolia env signer crossChainSupport = initializeEthereum env signer Ethereum_Sepolia Testnet crossChainSupport"

definition initializeCustom :: "'w tbtc_contracts \<Rightarrow> 'w bitcoin_client \<Rightarrow> ('w, ('w, 's, 'i) TBTC) io" where
  "initializeCustom contracts client = return_io (new_TBTC contracts client None)"

text \<open>The services name a chain by a text. \<open>merge\<close> is the object of the L1 and destination contracts,
  \<open>{...l1, ...l2}\<close>, as the services use it.\<close>

definition chain_text :: "DestinationChainName \<Rightarrow> string" where
  "chain_text name = (case name of Base \<Rightarrow> ''Base'' | Arbitrum \<Rightarrow> ''Arbitrum'' | Solana \<Rightarrow> ''Solana''
     | StarkNet \<Rightarrow> ''StarkNet'' | Sui \<Rightarrow> ''Sui'' | Sei \<Rightarrow> ''Sei'')"

definition chain_named :: "string \<Rightarrow> DestinationChainName option" where
  "chain_named t = find (\<lambda>name. chain_text name = t) [Base, Arbitrum, Solana, StarkNet, Sui, Sei]"

definition resolver ::
  "(l1_contracts \<times> 'i \<Rightarrow> 'w cross_chain_interfaces) \<Rightarrow> ('w, 's, 'i) TBTC \<Rightarrow> string \<Rightarrow> 'w cross_chain_interfaces option" where
  "resolver merge tbtc name =
     Option.bind (chain_named name) (\<lambda>n. map_option merge (crossChainContracts (tbtc_entry tbtc) n))"

definition deposits_of :: "(l1_contracts \<times> 'i \<Rightarrow> 'w cross_chain_interfaces) \<Rightarrow> ('w, 's, 'i) TBTC \<Rightarrow> 'w DepositsService" where
  "deposits_of merge tbtc = (if tbtc_resolving tbtc
     then setCrossChainContractsResolver (resolver merge tbtc) (tbtc_deposits tbtc) else tbtc_deposits tbtc)"

definition redemptions_of :: "(l1_contracts \<times> 'i \<Rightarrow> 'w cross_chain_interfaces) \<Rightarrow> ('w, 's, 'i) TBTC \<Rightarrow> 'w RedemptionsService" where
  "redemptions_of merge tbtc = (if tbtc_resolving tbtc
     then rsvc_setCrossChainContractsResolver (resolver merge tbtc) (tbtc_redemptions tbtc) else tbtc_redemptions tbtc)"

text \<open>The calls of \<open>initializeCrossChain\<close> a client makes one after another, whatever each returns.\<close>

fun prepare_chains ::
  "('w, 's, 'i) l2_loaders \<Rightarrow> (DestinationChainName \<times> 's option) list \<Rightarrow> ('w, 's, 'i) TBTC \<Rightarrow> 'w \<Rightarrow>
   unit res list \<times> ('w, 's, 'i) TBTC \<times> 'w" where
  "prepare_chains ll [] tbtc w = ([], tbtc, w)"
| "prepare_chains ll ((name, signer) # asked) tbtc w =
     (let (r, t, w1) = initializeCrossChain ll name signer (tbtc_entry tbtc) w;
          (rs, tbtc', w2) = prepare_chains ll asked (tbtc\<lparr>tbtc_entry := t\<rparr>) w1
      in (r # rs, tbtc', w2))"

subsection \<open>Lemmas\<close>

lemma initializeEthereum_core_parts:
  assumes "initializeEthereum_core env signer chain network rest w = (Inr tbtc, w')"
  shows "\<exists>contracts client owner u u' v v'. chainIdFromSigner signer u = (Inr chain, u') \<and>
     ethereumAddressFromSigner (te_ethers env) signer v = (Inr owner, v') \<and>
     tbtc = (new_TBTC_core contracts client rest)\<lparr>tbtc_deposits :=
       (new_DepositsService contracts client None)\<lparr>svc_defaultDepositor := owner\<rparr>\<rparr>"
proof -
  obtain owner w1 handles w2 cl where o: "ethereumAddressFromSigner (te_ethers env) signer w = (Inr owner, w1)"
    and h: "loadEthereumCoreContracts (te_ethers env) (te_core env) signer chain w1 = (Inr handles, w2)"
    and t: "tbtc = (let t = new_TBTC_core (te_contracts env handles) (electrum_bitcoin_client (te_electrum env) cl) rest in
       case owner of None \<Rightarrow> t | Some a \<Rightarrow> t\<lparr>tbtc_deposits := setDefaultDepositor a (tbtc_deposits t)\<rparr>)"
    using assms by (auto simp: initializeEthereum_core_def bind_io_Inr Let_def)
  obtain w3 where "chainIdFromSigner signer w1 = (Inr chain, w3)"
    using h by (auto simp: loadEthereumCoreContracts_def bind_io_Inr split: if_splits)
  moreover have "tbtc = (new_TBTC_core (te_contracts env handles) (electrum_bitcoin_client (te_electrum env) cl) rest)
      \<lparr>tbtc_deposits := (new_DepositsService (te_contracts env handles) (electrum_bitcoin_client (te_electrum env) cl) None)
         \<lparr>svc_defaultDepositor := owner\<rparr>\<rparr>"
    unfolding t Let_def
    by (simp split: option.split add: new_TBTC_core_def setDefaultDepositor_def new_DepositsService_def)
  ultimately show ?thesis using o by blast
qed

lemma initializeEthereum_parts:
  assumes "initializeEthereum env signer chain network support w = (Inr tbtc, w')"
  shows "\<exists>contracts client owner u u' v v'. chainIdFromSigner signer u = (Inr chain, u') \<and>
     ethereumAddressFromSigner (te_ethers env) signer v = (Inr owner, v') \<and>
     tbtc_deposits tbtc = (new_DepositsService contracts client None)\<lparr>svc_defaultDepositor := owner\<rparr> \<and>
     tbtc_redemptions tbtc = new_RedemptionsService contracts client None \<and>
     tbtc_resolving tbtc = support \<and> (tb_loader (tbtc_entry tbtc) = None) = (\<not> support) \<and>
     tb_crossChainContracts (tbtc_entry tbtc) = (\<lambda>_. None)"
proof -
  define rest where "rest = \<lparr>tbtc_entry = (\<lparr>tb_loader = None, tb_l2Signer = None, tb_crossChainContracts = (\<lambda>_. None)\<rparr> ::
     ('a, 'b, 'c, l1_contracts) tbtc_entry), tbtc_resolving = False\<rparr>"
  obtain core w1 where c: "initializeEthereum_core env signer chain network rest w = (Inr core, w1)"
    and r: "(if \<not> support then return_io core
      else bind_io (ethereumCrossChainContractsLoader (te_ethers env) (te_publicKey env) (te_mainnet_artifacts env)
         (te_sepolia_artifacts env) (te_redeemers env) signer chain) (\<lambda>(chainMapping, loadL1).
       return_io (core\<lparr>tbtc_entry := (tbtc_entry core)\<lparr>tb_loader := Some (chainMapping, \<lambda>name. lift_io (loadL1 name))\<rparr>,
         tbtc_resolving := True\<rparr>))) w1 = (Inr tbtc, w')"
    using assms unfolding initializeEthereum_def rest_def bind_io_Inr by auto
  have "\<exists>ms f. tbtc = (if support then core\<lparr>tbtc_entry := (tbtc_entry core)\<lparr>tb_loader := Some (ms, f)\<rparr>, tbtc_resolving := True\<rparr>
      else core)"
    using r by (cases support) (simp_all add: bind_io_Inr split: prod.splits, blast)
  then obtain ms f where final: "tbtc = (if support then core\<lparr>tbtc_entry := (tbtc_entry core)\<lparr>tb_loader := Some (ms, f)\<rparr>,
      tbtc_resolving := True\<rparr> else core)" by blast
  obtain contracts client owner u u' v v' where ids: "chainIdFromSigner signer u = (Inr chain, u')"
      "ethereumAddressFromSigner (te_ethers env) signer v = (Inr owner, v')"
    and core: "core = (new_TBTC_core contracts client rest)
       \<lparr>tbtc_deposits := (new_DepositsService contracts client None)\<lparr>svc_defaultDepositor := owner\<rparr>\<rparr>"
    using initializeEthereum_core_parts [OF c] by (elim exE conjE) (rule that)
  show ?thesis
    by (intro exI conjI, rule ids, rule ids) (cases support; simp add: final core new_TBTC_core_def rest_def)+
qed

text \<open>A preparation keeps the loader, and without one it fails.\<close>

lemma initializeCrossChain_loader:
  "initializeCrossChain ll n s t w = (r, t', w') \<Longrightarrow>
   tb_loader t' = tb_loader t \<and> (tb_loader t = None \<longrightarrow> r \<noteq> Inr ())"
  by (auto simp: initializeCrossChain_def Let_def remember_signer_def split: option.splits prod.splits sum.splits if_splits)

lemma prepare_chains_spec:
  assumes "prepare_chains ll asked tbtc w = (results, tbtc', w')"
  shows "length results = length asked \<and> (\<exists>t. tbtc' = tbtc\<lparr>tbtc_entry := t\<rparr>) \<and>
     (crossChainContracts (tbtc_entry tbtc') m \<noteq> None) =
       (crossChainContracts (tbtc_entry tbtc) m \<noteq> None \<or> (\<exists>s. ((m, s), Inr ()) \<in> set (zip asked results))) \<and>
     (tb_loader (tbtc_entry tbtc) = None \<longrightarrow> Inr () \<notin> set results)"
  using assms
proof (induction asked arbitrary: tbtc w results)
  case Nil
  then show ?case by (auto intro: exI [of _ "tbtc_entry tbtc"])
next
  case (Cons a asked)
  obtain n s where a: "a = (n, s)" by force
  obtain r t w1 where one: "initializeCrossChain ll n s (tbtc_entry tbtc) w = (r, t, w1)" by (metis prod_cases3)
  obtain rs where rest: "prepare_chains ll asked (tbtc\<lparr>tbtc_entry := t\<rparr>) w1 = (rs, tbtc', w')" and results: "results = r # rs"
    using Cons.prems one by (auto simp: a split: prod.splits)
  note ih = Cons.IH [OF rest]
  have "(tb_crossChainContracts t m \<noteq> None) = (tb_crossChainContracts (tbtc_entry tbtc) m \<noteq> None \<or> m = n \<and> r = Inr ())"
    using initializeCrossChain_contracts [OF one] by (cases r; cases "m = n") auto
  then show ?case
    using ih initializeCrossChain_loader [OF one] by (auto simp: results a crossChainContracts_def)
qed

lemma chain_named_text [simp]: "chain_named (chain_text n) = Some n"
  by (cases n) (simp_all add: chain_named_def chain_text_def)

subsection \<open>Properties\<close>

text \<open>The chain whose contracts one of the calls has prepared.\<close>

definition prepared :: "(DestinationChainName \<times> 's option) list \<Rightarrow> unit res list \<Rightarrow> DestinationChainName \<Rightarrow> bool" where
  "prepared asked results m = (\<exists>(call, r) \<in> set (zip asked results). fst call = m \<and> r = Inr ())"

lemma prepared_iff: "prepared asked results m = (\<exists>s. ((m, s), Inr ()) \<in> set (zip asked results))"
  unfolding prepared_def by force

text \<open>C22: An initialized entry point stands on the chain it was asked for, and its default depositor is
  the address of the signer, or none for a provider. After any calls of initializeCrossChain, in any
  order and whatever they returned, the deposits and the redemptions service know a destination chain
  exactly when cross-chain support was enabled and one of the calls for the chain succeeded; a deposit
  to a chain they do not know is refused before anything is read.\<close>

theorem prepared_chains_are_usable:
  assumes init: "initializeEthereum env signer chain network support w = (Inr tbtc, w1)"
    and prep: "prepare_chains ll asked tbtc w2 = (results, tbtc', w3)"
  shows "(\<exists>u u'. chainIdFromSigner signer u = (Inr chain, u')) \<and>
     (\<exists>v v'. ethereumAddressFromSigner (te_ethers env) signer v =
        (Inr (svc_defaultDepositor (deposits_of merge tbtc')), v')) \<and>
     (svc_crossChainContracts (deposits_of merge tbtc') (chain_text m) \<noteq> None) = (support \<and> prepared asked results m) \<and>
     (rsvc_crossChainContracts (redemptions_of merge tbtc') (chain_text m) \<noteq> None) = (support \<and> prepared asked results m) \<and>
     ((support \<and> prepared asked results m) \<or> initiateCrossChainDeposit c lib sys (deposits_of merge tbtc') address (chain_text m) w4 =
        (Inl (Error (''Cross-chain contracts for '' @ chain_text m @ '' not initialized'')), w4))"
proof -
  obtain contracts client owner u u' v v' where ids: "chainIdFromSigner signer u = (Inr chain, u')"
      "ethereumAddressFromSigner (te_ethers env) signer v = (Inr owner, v')"
    and svc: "tbtc_deposits tbtc = (new_DepositsService contracts client None)\<lparr>svc_defaultDepositor := owner\<rparr>"
      "tbtc_redemptions tbtc = new_RedemptionsService contracts client None"
    and fresh: "tbtc_resolving tbtc = support" "(tb_loader (tbtc_entry tbtc) = None) = (\<not> support)"
      "tb_crossChainContracts (tbtc_entry tbtc) = (\<lambda>_. None)"
    using initializeEthereum_parts [OF init] by (elim exE conjE) (rule that)
  note spec = prepare_chains_spec [OF prep, of m]
  have known: "(crossChainContracts (tbtc_entry tbtc') m \<noteq> None) = (support \<and> prepared asked results m)"
    using spec fresh by (auto simp: prepared_iff crossChainContracts_def dest: set_zip_rightD)
  have services: "svc_crossChainContracts (deposits_of merge tbtc') (chain_text m) =
       (if support then map_option merge (crossChainContracts (tbtc_entry tbtc') m) else None)"
     "rsvc_crossChainContracts (redemptions_of merge tbtc') (chain_text m) =
       (if support then map_option merge (crossChainContracts (tbtc_entry tbtc') m) else None)"
     "svc_defaultDepositor (deposits_of merge tbtc') = owner"
    using spec svc fresh by (auto simp: deposits_of_def redemptions_of_def resolver_def setCrossChainContractsResolver_def
        rsvc_setCrossChainContractsResolver_def new_DepositsService_def new_RedemptionsService_def)
  have "(support \<and> prepared asked results m) \<or> svc_crossChainContracts (deposits_of merge tbtc') (chain_text m) = None"
    using known services(1) by auto
  then show ?thesis
    using known services ids by (auto simp: initiateCrossChainDeposit_def)
qed

text \<open>A signer of mainnet; Base can be prepared, Sei cannot, StarkNet not without a provider.\<close>

definition core_ethers :: "unit ethers" where
  "core_ethers = \<lparr>ethers_runtime = \<lparr>random100 = (\<lambda>w. (0, w)), sleep = (\<lambda>_ w. w)\<rparr>, console_debug = (\<lambda>_. return_io ()),
     console_log = (\<lambda>_. return_io ()), error_shape = (\<lambda>_. PlainObject), utils_getAddress = Inr,
     solidityKeccak256 = (\<lambda>_. Inr ''0x''), abi_encode = (\<lambda>_. Inr ''0x''), hash_functions = sample_crypto,
     latestNumber = return_io 9\<rparr>"

definition core_env :: "unit tbtc_env" where
  "core_env = (let d = \<lparr>deployment_address = ''0x02'', deployment_blockNumber = 0\<rparr>;
       ds = \<lparr>local_deployment = d, sepolia_deployment = d, mainnet_deployment = d\<rparr>
     in \<lparr>te_ethers = core_ethers,
      te_core = \<lparr>dep_bridge = ds, dep_token = ds, dep_vault = ds, dep_registry = ds\<rparr>,
      te_contracts = (\<lambda>_. sample_contracts),
      te_electrum = sample_electrum_env\<lparr>parse_url := (\<lambda>_. Inr \<lparr>url_protocol = ''wss:'', url_hostname = ''h'', url_port = [],
        url_pathname = ''/''\<rparr>)\<rparr>,
      te_publicKey = (\<lambda>_. Inr []), te_mainnet_artifacts = (\<lambda>_. Some d), te_sepolia_artifacts = (\<lambda>_. None),
      te_redeemers = \<lparr>red_mainnetBase = d, red_mainnetArbitrum = d, red_sepolia = d\<rparr>\<rparr>)"

definition core_signer :: "unit ethereum_signer" where
  "core_signer = Signer (return_io 1) (return_io ''0x03'')"

definition core_loaders :: "(unit, unit, unit) l2_loaders" where
  "core_loaders = \<lparr>ll_base = (\<lambda>_ _. return_io ()), ll_arbitrum = (\<lambda>_ _. throw_io (Error ''offline'')),
     ll_starknet = (\<lambda>_ _ _. return_io ()), ll_sui = (\<lambda>_ _. return_io ()), ll_solana = (\<lambda>_. return_io ()),
     ll_starknet_provider = (\<lambda>_. \<lparr>sp_address = None, sp_account = None, sp_getChainId = True\<rparr>)\<rparr>"

definition core_calls :: "(DestinationChainName \<times> unit option) list" where
  "core_calls = [(Arbitrum, Some ()), (Base, Some ()), (StarkNet, None)]"

lemma core_chain: "chainIdFromSigner core_signer () = (Inr Ethereum_Mainnet, ())"
  by (simp add: chainIdFromSigner_def core_signer_def Ethereum_Mainnet_def show_int_def show_nat_def
      show_base.simps hex_digit_def hex_digits_def bind_io_def)

lemma core_address: "ethereumAddressFromSigner core_ethers core_signer () = (Inr (Some (EthereumAddress ''03'')), ())"
  by (simp add: ethereumAddressFromSigner_def core_signer_def EthereumAddress_from_def core_ethers_def toLowerCase_def
      lower_char_def bind_io_def)

lemma core_contracts: "\<exists>h. loadEthereumCoreContracts core_ethers (te_core core_env) core_signer Ethereum_Mainnet () = (Inr h, ())"
  by (simp add: loadEthereumCoreContracts_def core_chain core_env_def Let_def new_EthereumBridge_def
      new_EthereumTBTCToken_def new_EthereumTBTCVault_def new_EthereumWalletRegistry_def new_handle_def make_handle_def
      no_config_def core_ethers_def Ethereum_Mainnet_def Ethereum_Sepolia_def Ethereum_Local_def)

lemma core_electrum: "\<exists>cl. Electrum_fromDefaultConfig (parse_url (te_electrum core_env)) Mainnet = Inr cl"
  by (simp add: Electrum_fromDefaultConfig_def Electrum_fromUrl_def core_env_def Let_def parseElectrumCredentials_def
      defaultPorts_def)

lemma core_parts: "te_ethers core_env = core_ethers"
  by (simp add: core_env_def Let_def)

lemma core_initialized:
  "\<exists>tbtc :: (unit, unit, unit) TBTC. initializeMainnet core_env core_signer True () = (Inr tbtc, ()) \<and>
     tb_loader (tbtc_entry tbtc) = Some (loadChainMapping Ethereum_Mainnet, \<lambda>name. lift_io (loadL1Contracts core_ethers
        (te_publicKey core_env) (te_mainnet_artifacts core_env) (te_sepolia_artifacts core_env) (te_redeemers core_env)
        Ethereum_Mainnet name))"
  using core_contracts core_electrum
  by (auto simp: initializeMainnet_def initializeEthereum_def initializeEthereum_core_def core_parts core_address
      ethereumCrossChainContractsLoader_def core_chain Let_def new_TBTC_core_def)

theorem prepared_chains_are_usable_witness:
  "\<exists>(tbtc :: (unit, unit, unit) TBTC) results tbtc'.
     initializeMainnet core_env core_signer True () = (Inr tbtc, ()) \<and>
     prepare_chains core_loaders core_calls tbtc () = (results, tbtc', ()) \<and>
     svc_crossChainContracts (deposits_of (\<lambda>_. sample_cross_chain) tbtc') ''Base'' \<noteq> None \<and>
     svc_crossChainContracts (deposits_of (\<lambda>_. sample_cross_chain) tbtc') ''Arbitrum'' = None"
proof -
  obtain tbtc :: "(unit, unit, unit) TBTC" where init: "initializeMainnet core_env core_signer True () = (Inr tbtc, ())"
    and loader: "tb_loader (tbtc_entry tbtc) = Some (loadChainMapping Ethereum_Mainnet, \<lambda>name. lift_io (loadL1Contracts core_ethers
        (te_publicKey core_env) (te_mainnet_artifacts core_env) (te_sepolia_artifacts core_env) (te_redeemers core_env)
        Ethereum_Mainnet name))"
    using core_initialized by blast
  obtain results tbtc' where prep: "prepare_chains core_loaders core_calls tbtc () = (results, tbtc', ())"
    by (metis prod_cases3 unit.exhaust)
  have "results = [Inl (Error ''offline''), Inr (), Inl (Error ''StarkNet provider is required'')]"
    using prep
    by (simp add: core_calls_def initializeCrossChain_def loader loadChainMapping_def ChainMappings_def Ethereum_Mainnet_def
        Ethereum_Sepolia_def loadL1Contracts_def new_EthereumL1BitcoinRedeemer_def redeemer_getMainnet_def
        new_EthereumL1BitcoinDepositor_def artifactLoaders_def make_handle_def no_config_def core_env_def core_ethers_def
        loadDestination_def core_loaders_def remember_signer_def Let_def split: prod.splits)
  then have r: "prepared core_calls results Base" "\<not> prepared core_calls results Arbitrum"
    by (simp_all add: prepared_def core_calls_def)
  note usable = prepared_chains_are_usable [OF init [unfolded initializeMainnet_def] prep, where merge = "\<lambda>_. sample_cross_chain"]
  show ?thesis
    using init prep r usable [of Base] usable [of Arbitrum] by (auto simp: chain_text_def)
qed

end
