(* ===== verification/SolanaToken.thy ===== *)
theory SolanaToken
  imports RelayerDepositors
begin

section \<open>The Solana token and loader\<close>

text \<open>
  \<open>solana/solana-tbtc-token.ts\<close> and \<open>solana/index.ts\<close> under typescript/src/lib: the token behind the
  SPL accounts of Solana, whose balance query opens the account of the user when there is none, and
  the loader of the chain. Anchor, web3.js and the SPL library are parameters.
\<close>

subsection \<open>Parameters\<close>

text \<open>An Anchor provider: the public key of its wallet in base58, if a wallet is connected, and its
  connection. An account is named by its address.\<close>

record account_instruction =
  ai_payer :: string
  ai_account :: string
  ai_owner :: string
  ai_mint :: string

record 'w anchor_provider =
  an_publicKey :: "string option"
  an_getAccountInfo :: "string \<Rightarrow> ('w, bool) io"
  an_sendAndConfirm :: "account_instruction \<Rightarrow> ('w, unit) io"
  an_getTokenAccountBalance :: "string \<Rightarrow> ('w, string) io"
  an_getMintSupply :: "string \<Rightarrow> ('w, int) io"

text \<open>\<open>new PublicKey\<close> and the derived addresses, \<open>toBase58\<close> of the program, and \<open>BigNumber.from\<close> of a
  text. \<open>sl_decode\<close> is the buffer of a public key.\<close>

record solana_sdk =
  sl_PublicKey :: "string \<Rightarrow> string res"
  sl_decode :: "string \<Rightarrow> byte list res"
  sl_findProgramAddress :: "string \<Rightarrow> string \<Rightarrow> string res"
  sl_associatedAddress :: "string \<Rightarrow> string \<Rightarrow> string res"
  sl_programId :: string
  sl_bigNumber :: "string \<Rightarrow> int res"

subsection \<open>The token (solana-tbtc-token.ts)\<close>

record 'w solana_token =
  so_provider :: "'w anchor_provider"
  so_programId :: string
  so_tbtcMint :: string

definition new_SolanaTBTCToken :: "solana_sdk \<Rightarrow> 'w anchor_provider \<Rightarrow> 'w solana_token res" where
  "new_SolanaTBTCToken sdk provider = (case an_publicKey provider of
     None \<Rightarrow> Inl (Error ''SolanaTBTCToken requires a connected wallet with a public key.'')
   | Some _ \<Rightarrow>
       bind_res (sl_PublicKey sdk ''Gj93RRt6QB7FjmyokAD5rcMAku7pq3Fk2Aa8y6nNbwsV'') (\<lambda>programId.
       bind_res (sl_findProgramAddress sdk ''tbtc-mint'' programId) (\<lambda>tbtcMint.
       Inr \<lparr>so_provider = provider, so_programId = sl_programId sdk, so_tbtcMint = tbtcMint\<rparr>)))"

definition Solana_getChainIdentifier :: "solana_sdk \<Rightarrow> 'w solana_token \<Rightarrow> ChainIdentifier res" where
  "Solana_getChainIdentifier sdk token = SolanaAddress_from (sl_decode sdk) (so_programId token)"

definition Solana_balanceOf :: "solana_sdk \<Rightarrow> 'w solana_token \<Rightarrow> ChainIdentifier \<Rightarrow> ('w, int) io" where
  "Solana_balanceOf sdk token identifier = (let provider = so_provider token in
     case an_publicKey provider of
       None \<Rightarrow> throw_io (Error ''No wallet connected.'')
     | Some payer \<Rightarrow>
         bind_io (lift_io (sl_PublicKey sdk (identifierHex identifier))) (\<lambda>userPubkey.
         bind_io (lift_io (sl_associatedAddress sdk (so_tbtcMint token) userPubkey)) (\<lambda>ataAddr.
         bind_io (an_getAccountInfo provider ataAddr) (\<lambda>ataInfo.
         bind_io (if \<not> ataInfo
             then an_sendAndConfirm provider \<lparr>ai_payer = payer, ai_account = ataAddr, ai_owner = userPubkey, ai_mint = so_tbtcMint token\<rparr>
             else return_io ()) (\<lambda>_.
         bind_io (an_getTokenAccountBalance provider ataAddr) (\<lambda>amount.
         lift_io (sl_bigNumber sdk amount)))))))"

definition Solana_totalSupply :: "'w solana_token \<Rightarrow> ('w, int) io" where
  "Solana_totalSupply token = an_getMintSupply (so_provider token) (so_tbtcMint token)"

subsection \<open>The loader (index.ts)\<close>

record 'w solana_interfaces =
  si_depositOwner :: "ChainIdentifier option"
  si_token :: "'w solana_token"

definition loadSolanaCrossChainInterfaces :: "solana_sdk \<Rightarrow> 'w anchor_provider \<Rightarrow> ('w, 'w solana_interfaces) io" where
  "loadSolanaCrossChainInterfaces sdk solanaProvider = lift_io (case an_publicKey solanaProvider of
     None \<Rightarrow> Inl (Error ''No connected wallet found in the provided AnchorProvider.'')
   | Some publicKey \<Rightarrow>
       bind_res (SolanaAddress_from (sl_decode sdk) publicKey) (\<lambda>depositOwner.
       bind_res (new_SolanaTBTCToken sdk solanaProvider) (\<lambda>solanaTbtcToken.
       Inr \<lparr>si_depositOwner = Some depositOwner, si_token = solanaTbtcToken\<rparr>)))"

subsection \<open>Lemmas\<close>

text \<open>A query for a user without an account spends the wallet's money: the account is created before
  the balance is read, with the wallet as payer.\<close>

lemma balanceOf_creates_account:
  assumes "an_publicKey (so_provider t) = Some payer" "sl_PublicKey sdk (identifierHex user) = Inr key"
    and "sl_associatedAddress sdk (so_tbtcMint t) key = Inr account"
    and "an_getAccountInfo (so_provider t) account w = (Inr False, w1)"
  shows "Solana_balanceOf sdk t user w =
     bind_io (an_sendAndConfirm (so_provider t)
        \<lparr>ai_payer = payer, ai_account = account, ai_owner = key, ai_mint = so_tbtcMint t\<rparr>) (\<lambda>_.
     bind_io (an_getTokenAccountBalance (so_provider t) account) (\<lambda>amount. lift_io (sl_bigNumber sdk amount))) w1"
  using assms by (simp add: Solana_balanceOf_def Let_def bind_io_def)

end
