(* ===== verification/BridgeContract.thy ===== *)
theory BridgeContract
  imports JsText
begin

section \<open>The Bridge contract\<close>

text \<open>
  The two entry points of the smart contract that the client of the repository calls on behalf of
  its users: \<open>revealDeposit\<close>, \<open>revealDepositWithExtraData\<close> (\<open>Deposit.sol\<close>) and
  \<open>requestRedemption\<close> (\<open>Redemption.sol\<close>). Values of \<open>bytesN\<close> and \<open>address\<close> types are lists of
  that many bytes, unsigned integers are natural numbers with the checks of Solidity 0.8 written
  out. A failed \<open>require\<close> is the error on the left, and the state of a call that fails is dropped
  by its caller, as the EVM does. The precompiled hash functions, the libraries BTCUtils and
  BytesLib of bitcoin-spv-sol and the contracts that are called from here (the rebate staking, the
  redemption watchtower and the bank) are parameters. Of the storage and of the wallets the records
  hold the fields that these functions read or write, and of the events what they emit.
\<close>

type_synonym bytes = "byte list"

subsection \<open>Parameters\<close>

record evm =
  evm_sha256 :: "bytes \<Rightarrow> bytes"
  evm_hash160 :: "bytes \<Rightarrow> bytes"
  evm_hash256 :: "bytes \<Rightarrow> bytes"
  evm_keccak256 :: "bytes \<Rightarrow> bytes"

record btc_utils =
  extractOutputAtIndex :: "bytes \<Rightarrow> nat \<Rightarrow> bytes res"
  extractHash :: "bytes \<Rightarrow> bytes"
  extractHashAt :: "bytes \<Rightarrow> nat \<Rightarrow> nat \<Rightarrow> bytes"
  extractValue :: "bytes \<Rightarrow> nat"
  reverseUint32 :: "nat \<Rightarrow> nat"
  bytes_slice :: "nat \<Rightarrow> bytes \<Rightarrow> nat \<Rightarrow> bytes"

datatype TreasuryFeeType = FeeOfDeposit | FeeOfRedemption

text \<open>The other contracts, with their common state: they are named by their address first.\<close>

record 'x contracts =
  applyForRebate :: "bytes \<Rightarrow> bytes \<Rightarrow> nat \<Rightarrow> TreasuryFeeType \<Rightarrow> 'x \<Rightarrow> (nat \<times> 'x) res"
  isSafeRedemption :: "bytes \<Rightarrow> bytes \<Rightarrow> bytes \<Rightarrow> bytes \<Rightarrow> bytes \<Rightarrow> 'x \<Rightarrow> bool res"
  transferBalanceFrom :: "bytes \<Rightarrow> nat \<Rightarrow> 'x \<Rightarrow> 'x res"

subsection \<open>State\<close>

record sol_tx =
  sol_version :: bytes
  sol_inputVector :: bytes
  sol_outputVector :: bytes
  sol_locktime :: bytes

record sol_utxo =
  sol_txHash :: bytes
  sol_txOutputIndex :: nat
  sol_txOutputValue :: nat

record sol_reveal =
  rev_fundingOutputIndex :: nat
  rev_blindingFactor :: bytes
  rev_walletPubKeyHash :: bytes
  rev_refundPubKeyHash :: bytes
  rev_refundLocktime :: bytes
  rev_vault :: bytes

record sol_deposit =
  dep_depositor :: bytes
  dep_amount :: nat
  dep_revealedAt :: nat
  dep_vault :: bytes
  dep_treasuryFee :: nat
  dep_sweptAt :: nat
  dep_extraData :: bytes

record sol_redemption =
  red_redeemer :: bytes
  red_requestedAmount :: nat
  red_treasuryFee :: nat
  red_txMaxFee :: nat
  red_requestedAt :: nat

text \<open>The states of a wallet, in the order of the enumeration.\<close>

datatype sol_wallet_state = Sol_Unknown | Sol_Live | Sol_MovingFunds | Sol_Closing | Sol_Closed | Sol_Terminated

record sol_wallet =
  wal_mainUtxoHash :: bytes
  wal_pendingRedemptionsValue :: nat
  wal_state :: sol_wallet_state

record sol_deposit_revealed =
  sdr_fundingTxHash :: bytes
  sdr_reveal :: sol_reveal
  sdr_depositor :: bytes
  sdr_amount :: nat

record sol_redemption_requested =
  srr_walletPubKeyHash :: bytes
  srr_redeemerOutputScript :: bytes
  srr_redeemer :: bytes
  srr_requestedAmount :: nat
  srr_treasuryFee :: nat
  srr_txMaxFee :: nat

record 'x bridge_state =
  st_depositDustThreshold :: nat
  st_depositTreasuryFeeDivisor :: nat
  st_depositRevealAheadPeriod :: nat
  st_redemptionDustThreshold :: nat
  st_redemptionTreasuryFeeDivisor :: nat
  st_redemptionTxMaxFee :: nat
  st_deposits :: "bytes \<Rightarrow> sol_deposit"
  st_isVaultTrusted :: "bytes \<Rightarrow> bool"
  st_pendingRedemptions :: "bytes \<Rightarrow> sol_redemption"
  st_registeredWallets :: "bytes \<Rightarrow> sol_wallet"
  st_redemptionWatchtower :: bytes
  st_rebateStaking :: bytes
  st_depositEvents :: "sol_deposit_revealed list"
  st_redemptionEvents :: "sol_redemption_requested list"
  st_contracts :: 'x

definition address0 :: bytes where
  "address0 = replicate 20 0"

definition bytes32_0 :: bytes where
  "bytes32_0 = replicate 32 0"

text \<open>Checked arithmetic.\<close>

definition panic :: js_error where
  "panic = Error ''Panic(0x11)''"

definition checked_add64 :: "nat \<Rightarrow> nat \<Rightarrow> nat res" where
  "checked_add64 a b = (if a + b < 2 ^ 64 then Inr (a + b) else Inl panic)"

definition checked_sub :: "nat \<Rightarrow> nat \<Rightarrow> nat res" where
  "checked_sub a b = (if b \<le> a then Inr (a - b) else Inl panic)"

definition sol_require :: "bool \<Rightarrow> string \<Rightarrow> unit res" where
  "sol_require b msg = guard_res b (Error msg)"

lemma sol_require_Inr [simp]: "(sol_require b m = Inr x) = b"
  by (simp add: sol_require_def)

lemma bind_require: "bind_res (sol_require b m) f = (if b then f () else Inl (Error m))"
  by (simp add: sol_require_def guard_res_def)

subsection \<open>Deposits\<close>

definition validateDepositRefundLocktime :: "btc_utils \<Rightarrow> nat \<Rightarrow> nat \<Rightarrow> bytes \<Rightarrow> unit res" where
  "validateDepositRefundLocktime u now aheadPeriod refundLocktime =
    (let depositRefundableTimestamp = reverseUint32 u (be_nat refundLocktime)
     in bind_res (sol_require (500 * 10 ^ 6 \<le> depositRefundableTimestamp) ''Refund locktime must be a value >= 500M'') (\<lambda>_.
        sol_require (now + aheadPeriod \<le> depositRefundableTimestamp) ''Deposit refund locktime is too close''))"

definition expectedScript :: "bytes \<Rightarrow> sol_reveal \<Rightarrow> bytes \<Rightarrow> bytes" where
  "expectedScript sender reveal extraData =
    (if extraData = bytes32_0
     then [0x14] @ sender @ [0x75] @
          [0x08] @ rev_blindingFactor reveal @ [0x75] @
          [0x76, 0xa9, 0x14] @ rev_walletPubKeyHash reveal @ [0x87, 0x63, 0xac, 0x67] @
          [0x76, 0xa9, 0x14] @ rev_refundPubKeyHash reveal @ [0x88] @
          [0x04] @ rev_refundLocktime reveal @ [0xb1, 0x75, 0xac, 0x68]
     else [0x14] @ sender @ [0x75] @
          [0x20] @ extraData @ [0x75] @
          [0x08] @ rev_blindingFactor reveal @ [0x75] @
          [0x76, 0xa9, 0x14] @ rev_walletPubKeyHash reveal @ [0x87, 0x63, 0xac, 0x67] @
          [0x76, 0xa9, 0x14] @ rev_refundPubKeyHash reveal @ [0x88] @
          [0x04] @ rev_refundLocktime reveal @ [0xb1, 0x75, 0xac, 0x68])"

definition checkFundingOutput :: "evm \<Rightarrow> btc_utils \<Rightarrow> bytes \<Rightarrow> bytes \<Rightarrow> unit res" where
  "checkFundingOutput e u fundingOutput script =
    (let fundingOutputHash = extractHash u fundingOutput
     in if length fundingOutputHash = 20
        then bind_res (sol_require (bytes_slice u 3 fundingOutput 8 = [0x17, 0xa9, 0x14]) ''Output must be P2SH'') (\<lambda>_.
             sol_require (bytes_slice u 20 fundingOutputHash 0 = evm_hash160 e script) ''Wrong 20-byte script hash'')
        else if length fundingOutputHash = 32
        then sol_require (bytes_slice u 32 fundingOutputHash 0 = evm_sha256 e script) ''Wrong 32-byte script hash''
        else Inl (Error ''Wrong script hash length''))"

definition sol_txid :: "evm \<Rightarrow> sol_tx \<Rightarrow> bytes" where
  "sol_txid e tx = evm_hash256 e (sol_version tx @ sol_inputVector tx @ sol_outputVector tx @ sol_locktime tx)"

definition sol_deposit_key :: "evm \<Rightarrow> bytes \<Rightarrow> nat \<Rightarrow> bytes" where
  "sol_deposit_key e fundingTxHash fundingOutputIndex = evm_keccak256 e (fundingTxHash @ be_bytes 4 fundingOutputIndex)"

text \<open>The treasury fee, reduced by the rebate of the depositor or redeemer.\<close>

definition treasury_fee ::
  "'x contracts \<Rightarrow> bytes \<Rightarrow> bytes \<Rightarrow> TreasuryFeeType \<Rightarrow> nat \<Rightarrow> nat \<Rightarrow> 'x \<Rightarrow> (nat \<times> 'x) res" where
  "treasury_fee ext rebateStaking user feeType amount divisor x =
    (let treasuryFee = (if 0 < divisor then amount div divisor else 0)
     in if 0 < treasuryFee \<and> rebateStaking \<noteq> address0
        then applyForRebate ext rebateStaking user treasuryFee feeType x
        else Inr (treasuryFee, x))"

definition sol_reveal_deposit ::
  "evm \<Rightarrow> btc_utils \<Rightarrow> 'x contracts \<Rightarrow> bytes \<Rightarrow> nat \<Rightarrow> sol_tx \<Rightarrow> sol_reveal \<Rightarrow> bytes \<Rightarrow> 'x bridge_state \<Rightarrow> 'x bridge_state res" where
  "sol_reveal_deposit e u ext sender now fundingTx reveal extraData st =
    bind_res (sol_require (wal_state (st_registeredWallets st (rev_walletPubKeyHash reveal)) = Sol_Live)
        ''Wallet must be in Live state'') (\<lambda>_.
    bind_res (sol_require (rev_vault reveal = address0 \<or> st_isVaultTrusted st (rev_vault reveal))
        ''Vault is not trusted'') (\<lambda>_.
    bind_res (if 0 < st_depositRevealAheadPeriod st
        then validateDepositRefundLocktime u now (st_depositRevealAheadPeriod st) (rev_refundLocktime reveal)
        else Inr ()) (\<lambda>_.
    bind_res (extractOutputAtIndex u (sol_outputVector fundingTx) (rev_fundingOutputIndex reveal)) (\<lambda>fundingOutput.
    bind_res (checkFundingOutput e u fundingOutput (expectedScript sender reveal extraData)) (\<lambda>_.
    let fundingTxHash = sol_txid e fundingTx;
        key = sol_deposit_key e fundingTxHash (rev_fundingOutputIndex reveal);
        deposit = st_deposits st key
    in
    bind_res (sol_require (dep_revealedAt deposit = 0) ''Deposit already revealed'') (\<lambda>_.
    let fundingOutputAmount = extractValue u fundingOutput in
    bind_res (sol_require (st_depositDustThreshold st \<le> fundingOutputAmount) ''Deposit amount too small'') (\<lambda>_.
    bind_res (treasury_fee ext (st_rebateStaking st) sender FeeOfDeposit fundingOutputAmount
        (st_depositTreasuryFeeDivisor st) (st_contracts st)) (\<lambda>(treasuryFee, x).
    Inr (st\<lparr>st_deposits := (st_deposits st)(key :=
               deposit\<lparr>dep_amount := fundingOutputAmount, dep_depositor := sender, dep_revealedAt := now mod 2 ^ 32,
                 dep_vault := rev_vault reveal, dep_treasuryFee := treasuryFee, dep_extraData := extraData\<rparr>),
            st_contracts := x,
            st_depositEvents := st_depositEvents st @
              [\<lparr>sdr_fundingTxHash = fundingTxHash, sdr_reveal = reveal, sdr_depositor = sender,
                sdr_amount = fundingOutputAmount\<rparr>]\<rparr>)))))))))"

definition sol_revealDeposit ::
  "evm \<Rightarrow> btc_utils \<Rightarrow> 'x contracts \<Rightarrow> bytes \<Rightarrow> nat \<Rightarrow> sol_tx \<Rightarrow> sol_reveal \<Rightarrow> 'x bridge_state \<Rightarrow> 'x bridge_state res" where
  "sol_revealDeposit e u ext sender now fundingTx reveal st =
    sol_reveal_deposit e u ext sender now fundingTx reveal bytes32_0 st"

definition sol_revealDepositWithExtraData ::
  "evm \<Rightarrow> btc_utils \<Rightarrow> 'x contracts \<Rightarrow> bytes \<Rightarrow> nat \<Rightarrow> sol_tx \<Rightarrow> sol_reveal \<Rightarrow> bytes \<Rightarrow> 'x bridge_state \<Rightarrow> 'x bridge_state res" where
  "sol_revealDepositWithExtraData e u ext sender now fundingTx reveal extraData st =
    bind_res (sol_require (extraData \<noteq> bytes32_0) ''Extra data must not be empty'') (\<lambda>_.
    sol_reveal_deposit e u ext sender now fundingTx reveal extraData st)"

subsection \<open>Redemptions\<close>

definition sol_redemption_key :: "evm \<Rightarrow> bytes \<Rightarrow> bytes \<Rightarrow> bytes" where
  "sol_redemption_key e walletPubKeyHash script = evm_keccak256 e (evm_keccak256 e script @ walletPubKeyHash)"

definition sol_requestRedemption ::
  "evm \<Rightarrow> btc_utils \<Rightarrow> 'x contracts \<Rightarrow> nat \<Rightarrow> bytes \<Rightarrow> sol_utxo \<Rightarrow> bytes \<Rightarrow> bytes \<Rightarrow> bytes \<Rightarrow> nat \<Rightarrow>
   'x bridge_state \<Rightarrow> 'x bridge_state res" where
  "sol_requestRedemption e u ext now walletPubKeyHash mainUtxo balanceOwner redeemer redeemerOutputScript amount st =
    bind_res (sol_require (redeemer \<noteq> address0) ''Redeemer must not be the zero address'') (\<lambda>_.
    bind_res (if st_redemptionWatchtower st \<noteq> address0
        then bind_res (isSafeRedemption ext (st_redemptionWatchtower st) walletPubKeyHash redeemerOutputScript
               balanceOwner redeemer (st_contracts st)) (\<lambda>safe.
             sol_require safe ''Redemption request rejected by the watchtower'')
        else Inr ()) (\<lambda>_.
    let wallet = st_registeredWallets st walletPubKeyHash in
    bind_res (sol_require (wal_state wallet = Sol_Live) ''Wallet must be in Live state'') (\<lambda>_.
    bind_res (sol_require (wal_mainUtxoHash wallet \<noteq> bytes32_0) ''No main UTXO for the given wallet'') (\<lambda>_.
    bind_res (sol_require (evm_keccak256 e (sol_txHash mainUtxo @ be_bytes 4 (sol_txOutputIndex mainUtxo) @
        be_bytes 8 (sol_txOutputValue mainUtxo)) = wal_mainUtxoHash wallet) ''Invalid main UTXO data'') (\<lambda>_.
    let payload = extractHashAt u redeemerOutputScript 0 (length redeemerOutputScript) in
    bind_res (sol_require (0 < length payload) ''Redeemer output script must be a standard type'') (\<lambda>_.
    bind_res (sol_require (length payload \<noteq> 20 \<or> walletPubKeyHash \<noteq> bytes_slice u 20 payload 0)
        ''Redeemer output script must not point to the wallet PKH'') (\<lambda>_.
    bind_res (sol_require (st_redemptionDustThreshold st \<le> amount) ''Redemption amount too small'') (\<lambda>_.
    let key = sol_redemption_key e walletPubKeyHash redeemerOutputScript in
    bind_res (sol_require (red_requestedAt (st_pendingRedemptions st key) = 0)
        ''There is a pending redemption request from this wallet to the same address'') (\<lambda>_.
    bind_res (treasury_fee ext (st_rebateStaking st) redeemer FeeOfRedemption amount
        (st_redemptionTreasuryFeeDivisor st) (st_contracts st)) (\<lambda>(treasuryFee, x).
    let txMaxFee = st_redemptionTxMaxFee st in
    bind_res (checked_sub amount treasuryFee) (\<lambda>redeemable.
    bind_res (checked_add64 (wal_pendingRedemptionsValue wallet) redeemable) (\<lambda>pendingRedemptionsValue.
    bind_res (sol_require (pendingRedemptionsValue \<le> sol_txOutputValue mainUtxo) ''Insufficient wallet funds'') (\<lambda>_.
    let request = \<lparr>red_redeemer = redeemer, red_requestedAmount = amount, red_treasuryFee = treasuryFee,
          red_txMaxFee = txMaxFee, red_requestedAt = now mod 2 ^ 32\<rparr>
    in bind_res (transferBalanceFrom ext balanceOwner amount x) (\<lambda>x.
    Inr (st\<lparr>st_registeredWallets := (st_registeredWallets st)(walletPubKeyHash :=
               wallet\<lparr>wal_pendingRedemptionsValue := pendingRedemptionsValue\<rparr>),
            st_pendingRedemptions := (st_pendingRedemptions st)(key := request),
            st_redemptionEvents := st_redemptionEvents st @
              [\<lparr>srr_walletPubKeyHash = walletPubKeyHash, srr_redeemerOutputScript = redeemerOutputScript,
                srr_redeemer = redeemer, srr_requestedAmount = amount, srr_treasuryFee = treasuryFee,
                srr_txMaxFee = txMaxFee\<rparr>],
            st_contracts := x\<rparr>)))))))))))))))"

subsection \<open>The Bitcoin libraries\<close>

text \<open>What the Bitcoin libraries of the contract read from a vector of outputs and from an output: a
  vector is the number of outputs and the outputs, an output its value, the length of its script and
  the script.\<close>

definition output_bytes :: "nat \<times> bytes \<Rightarrow> bytes" where
  "output_bytes out = le_bytes 8 (fst out) @ byte_of (length (snd out)) # snd out"

definition reads :: "btc_utils \<Rightarrow> bool" where
  "reads u =
    ((\<forall>outs i. length outs < 253 \<and> list_all (\<lambda>out. length (snd out) < 253) outs \<and> i < length outs \<longrightarrow>
        extractOutputAtIndex u (byte_of (length outs) # concat (map output_bytes outs)) i = Inr (output_bytes (outs ! i))) \<and>
     (\<forall>v h. length h = 32 \<longrightarrow> extractHash u (output_bytes (v, [0x00, 0x20] @ h)) = h) \<and>
     (\<forall>v h. length h = 20 \<longrightarrow> extractHash u (output_bytes (v, [0xa9, 0x14] @ h @ [0x87])) = h) \<and>
     (\<forall>v s. v < 2 ^ 64 \<longrightarrow> extractValue u (output_bytes (v, s)) = v) \<and>
     (\<forall>n bs i. i + n \<le> length bs \<longrightarrow> bytes_slice u n bs i = take n (drop i bs)) \<and>
     (\<forall>bs. length bs = 4 \<longrightarrow> reverseUint32 u (be_nat bs) = le_nat bs))"

lemma readsD:
  assumes "reads u"
  shows "length outs < 253 \<Longrightarrow> list_all (\<lambda>out. length (snd out) < 253) outs \<Longrightarrow> i < length outs \<Longrightarrow>
      extractOutputAtIndex u (byte_of (length outs) # concat (map output_bytes outs)) i = Inr (output_bytes (outs ! i))"
    and "length h = 32 \<Longrightarrow> extractHash u (output_bytes (v, [0x00, 0x20] @ h)) = h"
    and "length h = 20 \<Longrightarrow> extractHash u (output_bytes (v, [0xa9, 0x14] @ h @ [0x87])) = h"
    and "v < 2 ^ 64 \<Longrightarrow> extractValue u (output_bytes (v, s)) = v"
    and "j + n \<le> length bs \<Longrightarrow> bytes_slice u n bs j = take n (drop j bs)"
    and "length bs = 4 \<Longrightarrow> reverseUint32 u (be_nat bs) = le_nat bs"
  using assms unfolding reads_def by blast+

end
