(* ===== verification/OnChain.thy ===== *)
theory OnChain
  imports BridgeContract EthereumBridge Deposits
begin

section \<open>The client on the contract\<close>

text \<open>
  The Ethereum handle of the client, put on the model of the Bridge contract: the arguments that
  the handle packs as text are decoded as the ABI encoder of ethers and the EVM do, the contract
  runs, and its mappings are read back as text and numbers. What is proved here spans the deposit
  service, the transaction codec, the handle and the contract.
\<close>

subsection \<open>Arguments and results\<close>

definition hex_arg :: "string \<Rightarrow> bytes res" where
  "hex_arg s = (if take 2 s = ''0x'' \<and> even (length s) \<and> list_all is_hex_digit (drop 2 s)
     then Inr (hex_to_bytes (drop 2 s)) else Inl (Error ''invalid arrayify value''))"

definition fixed_arg :: "nat \<Rightarrow> string \<Rightarrow> bytes res" where
  "fixed_arg n s = bind_res (hex_arg s) (\<lambda>b. if length b = n then Inr b else Inl (Error ''incorrect data length''))"

definition uint_arg :: "nat \<Rightarrow> int \<Rightarrow> nat res" where
  "uint_arg n v = (if 0 \<le> v \<and> v < 2 ^ n then Inr (nat v) else Inl (Error ''value out-of-bounds''))"

definition tx_arg :: "tx_param \<Rightarrow> sol_tx res" where
  "tx_arg p =
    bind_res (fixed_arg 4 (p_version p)) (\<lambda>version.
    bind_res (hex_arg (p_inputVector p)) (\<lambda>inputVector.
    bind_res (hex_arg (p_outputVector p)) (\<lambda>outputVector.
    bind_res (fixed_arg 4 (p_locktime p)) (\<lambda>locktime.
    Inr \<lparr>sol_version = version, sol_inputVector = inputVector, sol_outputVector = outputVector, sol_locktime = locktime\<rparr>))))"

definition reveal_arg :: "reveal_param \<Rightarrow> sol_reveal res" where
  "reveal_arg p =
    bind_res (uint_arg 32 (p_fundingOutputIndex p)) (\<lambda>fundingOutputIndex.
    bind_res (fixed_arg 8 (p_blindingFactor p)) (\<lambda>blindingFactor.
    bind_res (fixed_arg 20 (p_walletPubKeyHash p)) (\<lambda>walletPubKeyHash.
    bind_res (fixed_arg 20 (p_refundPubKeyHash p)) (\<lambda>refundPubKeyHash.
    bind_res (fixed_arg 4 (p_refundLocktime p)) (\<lambda>refundLocktime.
    bind_res (fixed_arg 20 (p_vault p)) (\<lambda>vault.
    Inr \<lparr>rev_fundingOutputIndex = fundingOutputIndex, rev_blindingFactor = blindingFactor,
      rev_walletPubKeyHash = walletPubKeyHash, rev_refundPubKeyHash = refundPubKeyHash,
      rev_refundLocktime = refundLocktime, rev_vault = vault\<rparr>))))))"

definition utxo_arg :: "utxo_param \<Rightarrow> sol_utxo res" where
  "utxo_arg p =
    bind_res (fixed_arg 32 (p_txHash p)) (\<lambda>txHash.
    bind_res (uint_arg 32 (p_txOutputIndex p)) (\<lambda>txOutputIndex.
    bind_res (uint_arg 64 (p_txOutputValue p)) (\<lambda>txOutputValue.
    Inr \<lparr>sol_txHash = txHash, sol_txOutputIndex = txOutputIndex, sol_txOutputValue = txOutputValue\<rparr>)))"

text \<open>An address as ethers prints it, but for the checksum in the case of its letters.\<close>

definition address_text :: "bytes \<Rightarrow> string" where
  "address_text a = ''0x'' @ bytes_to_hex a"

definition raw_deposit_of :: "sol_deposit \<Rightarrow> raw_deposit" where
  "raw_deposit_of d = \<lparr>raw_depositor = address_text (dep_depositor d), raw_amount = int (dep_amount d),
     raw_vault = address_text (dep_vault d), raw_revealedAt = int (dep_revealedAt d),
     raw_sweptAt = int (dep_sweptAt d), raw_deposit_treasuryFee = int (dep_treasuryFee d)\<rparr>"

definition raw_redemption_of :: "sol_redemption \<Rightarrow> raw_redemption" where
  "raw_redemption_of r = \<lparr>raw_redeemer = address_text (red_redeemer r), raw_requestedAmount = int (red_requestedAmount r),
     raw_treasuryFee = int (red_treasuryFee r), raw_txMaxFee = int (red_txMaxFee r), raw_requestedAt = int (red_requestedAt r)\<rparr>"

subsection \<open>A chain\<close>

text \<open>The contract's state and the time of the block in which the next transaction is mined.\<close>

record 'x chain =
  ch_bridge :: "'x bridge_state"
  ch_time :: nat

text \<open>A transaction: a call that fails leaves the state as it was; one that succeeds is named by
  the hash that the chain gives it.\<close>

definition transact :: "('x chain \<Rightarrow> bytes) \<Rightarrow> ('x chain \<Rightarrow> 'x bridge_state res) \<Rightarrow> ('x chain, string) io" where
  "transact txHash call w =
    (case call w of
       Inl e \<Rightarrow> (Inl e, w)
     | Inr st \<Rightarrow> (Inr (''0x'' @ bytes_to_hex (txHash w)), w\<lparr>ch_bridge := st\<rparr>))"

definition read :: "('x bridge_state \<Rightarrow> 'a res) \<Rightarrow> ('x chain, 'a) io" where
  "read f w = (f (ch_bridge w), w)"

text \<open>The contract on the chain, called by the account \<open>signer\<close>. The functions that are not modelled
  are those of \<open>other\<close>.\<close>

definition deployed ::
  "evm \<Rightarrow> btc_utils \<Rightarrow> 'x contracts \<Rightarrow> ('x chain \<Rightarrow> bytes) \<Rightarrow> bytes \<Rightarrow> 'x chain bridge_contract \<Rightarrow> 'x chain bridge_contract" where
  "deployed e u ext txHash signer other = other\<lparr>
     bc_revealDeposit := (\<lambda>fundingTx reveal. transact txHash (\<lambda>w.
       bind_res (tx_arg fundingTx) (\<lambda>t. bind_res (reveal_arg reveal) (\<lambda>r.
       sol_revealDeposit e u ext signer (ch_time w) t r (ch_bridge w))))),
     bc_revealDepositWithExtraData := (\<lambda>fundingTx reveal extraData. transact txHash (\<lambda>w.
       bind_res (tx_arg fundingTx) (\<lambda>t. bind_res (reveal_arg reveal) (\<lambda>r. bind_res (fixed_arg 32 extraData) (\<lambda>x.
       sol_revealDepositWithExtraData e u ext signer (ch_time w) t r x (ch_bridge w)))))),
     bc_requestRedemption := (\<lambda>walletPubKeyHash mainUtxo script amount. transact txHash (\<lambda>w.
       bind_res (fixed_arg 20 walletPubKeyHash) (\<lambda>p. bind_res (utxo_arg mainUtxo) (\<lambda>m.
       bind_res (hex_arg script) (\<lambda>s. bind_res (uint_arg 64 amount) (\<lambda>a.
       sol_requestRedemption e u ext (ch_time w) p m signer signer s a (ch_bridge w))))))),
     bc_deposits := (\<lambda>key. read (\<lambda>st. bind_res (fixed_arg 32 key) (\<lambda>k. Inr (raw_deposit_of (st_deposits st k))))),
     bc_pendingRedemptions := (\<lambda>key. read (\<lambda>st. bind_res (fixed_arg 32 key) (\<lambda>k.
       Inr (raw_redemption_of (st_pendingRedemptions st k)))))\<rparr>"

subsection \<open>Hypotheses\<close>

text \<open>The hash functions of ethers and of the EVM are the same functions.\<close>

definition same_hashes :: "evm \<Rightarrow> crypto \<Rightarrow> bool" where
  "same_hashes e c =
    (\<forall>bs. bs \<noteq> [] \<longrightarrow> digest (sha256 c) bs = evm_sha256 e bs \<and>
       digest (ripemd160 c) (digest (sha256 c) bs) = evm_hash160 e bs \<and>
       evm_hash256 e bs = evm_sha256 e (evm_sha256 e bs))"

text \<open>\<open>solidityKeccak256\<close> of ethers hashes its arguments packed as Solidity packs them.\<close>

fun packed :: "string \<times> abi_value \<Rightarrow> bytes option" where
  "packed (t, AbiText s) =
    (case hex_arg s of
       Inl _ \<Rightarrow> None
     | Inr b \<Rightarrow>
         if t = ''bytes'' \<or> t = ''bytes32'' \<and> length b = 32 \<or> t = ''bytes20'' \<and> length b = 20 then Some b else None)"
| "packed (t, AbiInt v) =
    (if t = ''uint32'' \<and> 0 \<le> v \<and> v < 2 ^ 32 then Some (be_bytes 4 (nat v))
     else if t = ''uint64'' \<and> 0 \<le> v \<and> v < 2 ^ 64 then Some (be_bytes 8 (nat v)) else None)"

fun packed_all :: "(string \<times> abi_value) list \<Rightarrow> bytes option" where
  "packed_all [] = Some []"
| "packed_all (a # as) = Option.bind (packed a) (\<lambda>b. Option.bind (packed_all as) (\<lambda>bs. Some (b @ bs)))"

definition keccak_ok :: "evm \<Rightarrow> 'w ethers \<Rightarrow> bool" where
  "keccak_ok e lib =
    ((\<forall>args bs. packed_all args = Some bs \<longrightarrow> solidityKeccak256 lib args = Inr (''0x'' @ bytes_to_hex (evm_keccak256 e bs))) \<and>
     (\<forall>bs. length (evm_keccak256 e bs) = 32))"

text \<open>The script compiler writes an opcode as its byte and data of 2 to 75 bytes after its length.\<close>

fun opcode_byte :: "opcode \<Rightarrow> byte" where
  "opcode_byte OP_0 = 0x00" | "opcode_byte OP_DROP = 0x75" | "opcode_byte OP_DUP = 0x76"
| "opcode_byte OP_HASH160 = 0xa9" | "opcode_byte OP_EQUAL = 0x87" | "opcode_byte OP_IF = 0x63"
| "opcode_byte OP_CHECKSIG = 0xac" | "opcode_byte OP_ELSE = 0x67" | "opcode_byte OP_EQUALVERIFY = 0x88"
| "opcode_byte OP_CHECKLOCKTIMEVERIFY = 0xb1" | "opcode_byte OP_ENDIF = 0x68"

fun chunk_bytes :: "chunk \<Rightarrow> bytes" where
  "chunk_bytes (Push b) = byte_of (length b) # b"
| "chunk_bytes (Op opc) = [opcode_byte opc]"

fun plain_chunk :: "chunk \<Rightarrow> bool" where
  "plain_chunk (Push b) = (2 \<le> length b \<and> length b \<le> 75)"
| "plain_chunk (Op opc) = True"

definition compiles :: "btcjs \<Rightarrow> bool" where
  "compiles lib = (\<forall>cs. list_all plain_chunk cs \<longrightarrow> script_compile lib cs = concat (map chunk_bytes cs))"

text \<open>The buffer writer writes 64-bit values in little-endian order and short data after its length, a
  version or locktime takes four bytes.\<close>

definition writes :: "bufio \<Rightarrow> bool" where
  "writes wr =
    ((\<forall>v. 0 \<le> v \<and> v < 2 ^ 63 \<longrightarrow> writeI64 wr v = le_bytes 8 (nat v)) \<and>
     (\<forall>bs. length bs < 253 \<longrightarrow> writeVarBytes wr bs = byte_of (length bs) # bs) \<and>
     (\<forall>n. 0 \<le> n \<and> n < 253 \<longrightarrow> writeVarint wr n = [byte_of (nat n)]) \<and>
     (\<forall>v. length (writeU32 wr v) = 4))"

text \<open>The address library reads what ethers prints; loggers leave the chain alone.\<close>

definition addresses_ok :: "'w ethers \<Rightarrow> bool" where
  "addresses_ok lib = (\<forall>a. length a = 20 \<longrightarrow>
     EthereumAddress_from (utils_getAddress lib) (address_text a) = Inr (EthereumAddress (bytes_to_hex a)))"

definition quiet :: "'w ethers \<Rightarrow> bool" where
  "quiet lib = (\<forall>m w. console_debug lib m w = (Inr (), w))"

subsection \<open>Lemmas\<close>

lemma prefixed_take [simp]: "take 2 (''0x'' @ s) = ''0x''" "drop 2 (''0x'' @ s) = s"
  by simp_all

lemma hex_arg_bytes [simp]: "hex_arg (''0x'' @ bytes_to_hex bs) = Inr bs"
  by (simp add: hex_arg_def bytes_to_hex_digits)

lemma hex_arg_bytes' [simp]: "hex_arg (CHR ''0'' # CHR ''x'' # bytes_to_hex bs) = Inr bs"
  using hex_arg_bytes by simp

lemma fixed_arg_bytes [simp]: "length bs = n \<Longrightarrow> fixed_arg n (''0x'' @ bytes_to_hex bs) = Inr bs"
  by (simp add: fixed_arg_def)

lemma fixed_arg_bytes' [simp]: "length bs = n \<Longrightarrow> fixed_arg n (CHR ''0'' # CHR ''x'' # bytes_to_hex bs) = Inr bs"
  using fixed_arg_bytes [of bs n] by simp

lemma fixed_arg_prefixed [simp]: "length (hex_buf h) = n \<Longrightarrow> 0 < n \<Longrightarrow> fixed_arg n (toPrefixedString h) = Inr (hex_buf h)"
  using toPrefixedString_Hex [of "hex_buf h"] fixed_arg_bytes [of "hex_buf h" n] by (cases h) auto

lemma quiet_retried: "quiet lib \<Longrightarrow> fn w = (Inr x, w') \<Longrightarrow> retried lib h fn w = (Inr x, w')"
  by (cases "nat (handle_totalRetryAttempts h)")
    (simp_all add: retried_def backoffRetrier_def guardedAttempt_def catch_io_def bind_io_def quiet_def)

lemma quiet_sent:
  "quiet lib \<Longrightarrow> fn w = (Inr (''0x'' @ bytes_to_hex t), w') \<Longrightarrow> sent lib h ms fn w = (Inr (Hex t), w')"
  using Hex_from_prefixed_hex_string [of t]
  by (cases "nat (handle_totalRetryAttempts h)")
    (simp_all add: sent_def sendWithRetry_def backoffRetrier_def guardedAttempt_def catch_io_def bind_io_def quiet_def lift_io_def)

subsection \<open>Reveals\<close>

text \<open>What a receipt tells the contract.\<close>

definition reveal_of :: "DepositReceipt \<Rightarrow> nat \<Rightarrow> bytes \<Rightarrow> sol_reveal" where
  "reveal_of r i vault = \<lparr>rev_fundingOutputIndex = i, rev_blindingFactor = hex_buf (dr_blindingFactor r),
     rev_walletPubKeyHash = hex_buf (dr_walletPublicKeyHash r), rev_refundPubKeyHash = hex_buf (dr_refundPublicKeyHash r),
     rev_refundLocktime = hex_buf (dr_refundLocktime r), rev_vault = vault\<rparr>"

definition extra_of :: "DepositReceipt \<Rightarrow> bytes" where
  "extra_of r = (case dr_extraData r of None \<Rightarrow> bytes32_0 | Some x \<Rightarrow> hex_buf x)"

definition extra_ok :: "DepositReceipt \<Rightarrow> bool" where
  "extra_ok r = (\<forall>x. dr_extraData r = Some x \<longrightarrow> hex_buf x \<noteq> bytes32_0)"

definition deposited_by :: "DepositReceipt \<Rightarrow> bytes \<Rightarrow> bool" where
  "deposited_by r a = (length a = 20 \<and> identifierHex (dr_depositor r) = bytes_to_hex a)"

text \<open>An output that pays to the deposit script of a receipt, as the client derives its address.\<close>

definition pays_to :: "crypto \<Rightarrow> btcjs \<Rightarrow> DepositScript \<Rightarrow> bytes \<Rightarrow> bool" where
  "pays_to c lib ds out =
    (\<exists>h. getHash c lib ds = Inr h \<and>
      out = (if ds_witness ds then [0x00, 0x20] @ h else [0xa9, 0x14] @ h @ [0x87]))"

lemma byte_of_sizes: "byte_of 20 = 0x14" "byte_of 32 = 0x20" "byte_of 8 = 0x08" "byte_of 4 = 0x04"
  by (simp_all add: byte_of_def)

lemma client_script:
  assumes "compiles lib" "receipt_ok r" "extra_ok r" "deposited_by r a"
  shows "script_compile lib (deposit_chunks r) = expectedScript a (reveal_of r i v) (extra_of r)"
proof -
  have l: "length (hex_buf (dr_blindingFactor r)) = 8" "length (hex_buf (dr_walletPublicKeyHash r)) = 20"
    "length (hex_buf (dr_refundPublicKeyHash r)) = 20" "length (hex_buf (dr_refundLocktime r)) = 4"
    "\<And>x. dr_extraData r = Some x \<Longrightarrow> length (hex_buf x) = 32"
    using assms(2) by (auto simp: receipt_ok_def)
  have a: "length a = 20" "hex_to_bytes (identifierHex (dr_depositor r)) = a"
    using assms(4) by (simp_all add: deposited_by_def)
  have "list_all plain_chunk (deposit_chunks r)"
    using l a by (auto simp: deposit_chunks_def toBuffer_def split: option.split)
  then have "script_compile lib (deposit_chunks r) = concat (map chunk_bytes (deposit_chunks r))"
    using assms(1) by (simp add: compiles_def)
  also have "\<dots> = expectedScript a (reveal_of r i v) (extra_of r)"
    using assms(3) l a
    by (auto simp: deposit_chunks_def expectedScript_def reveal_of_def extra_of_def extra_ok_def byte_of_sizes toBuffer_def
        split: option.split)
  finally show ?thesis .
qed

lemma same_hash:
  assumes "same_hashes e c" "bs \<noteq> []"
  shows "digest (sha256 c) bs = evm_sha256 e bs" "digest (ripemd160 c) (evm_sha256 e bs) = evm_hash160 e bs"
  using assms unfolding same_hashes_def by metis+

lemma expectedScript_nonempty: "expectedScript a rv x \<noteq> []"
  by (simp add: expectedScript_def)

lemma pays_to_bytes:
  assumes "crypto_ok c" "same_hashes e c" "compiles lib" "receipt_ok r" "extra_ok r" "deposited_by r a"
  shows "pays_to c lib \<lparr>ds_receipt = r, ds_witness = wit\<rparr> out =
    (out = (let scr = expectedScript a (reveal_of r i v) (extra_of r)
            in if wit then [0x00, 0x20] @ evm_sha256 e scr else [0xa9, 0x14] @ evm_hash160 e scr @ [0x87]))"
proof -
  let ?s = "expectedScript a (reveal_of r i v) (extra_of r)"
  have c: "script_compile lib (deposit_chunks r) = ?s" by (rule client_script) (fact assms)+
  have h: "computeSha256 c (Hex ?s) = Inr (Hex (evm_sha256 e ?s))" "computeHash160 c (Hex ?s) = Inr (Hex (evm_hash160 e ?s))"
    using computeSha256_bytes [OF _ expectedScript_nonempty, of c] computeHash160_bytes [OF assms(1) expectedScript_nonempty]
      assms(1) same_hash [OF assms(2) expectedScript_nonempty] by (simp_all add: crypto_ok_def)
  show ?thesis
    by (simp add: pays_to_def getHash_def getPlainText_def c h Hex_from_buffer_def Let_def)
qed

lemma hash_sizes:
  assumes "crypto_ok c" "same_hashes e c" "bs \<noteq> []"
  shows "length (evm_sha256 e bs) = 32" "length (evm_hash160 e bs) = 20"
proof -
  show "length (evm_sha256 e bs) = 32"
    using assms(1,3) hash_function_digest(2) [of "sha256 c" 32 bs] same_hash [OF assms(2,3)] by (simp add: crypto_ok_def)
  show "length (evm_hash160 e bs) = 20"
    using computeHash160_bytes(2) [OF assms(1,3)] same_hash [OF assms(2,3)] by simp
qed

text \<open>The contract's check of an output that has the form of a script hash.\<close>

lemma checkFundingOutput_ok:
  assumes "reads u" "crypto_ok c" "same_hashes e c" "scr \<noteq> []"
    and "out = (if wit then [0x00, 0x20] @ h else [0xa9, 0x14] @ h @ [0x87])" "length h = (if wit then 32 else 20)"
  shows "(checkFundingOutput e u (output_bytes (v, out)) scr = Inr ()) =
    (out = (if wit then [0x00, 0x20] @ evm_sha256 e scr else [0xa9, 0x14] @ evm_hash160 e scr @ [0x87]))"
proof (cases wit)
  case True
  then have "extractHash u (output_bytes (v, out)) = h" "bytes_slice u 32 h 0 = h"
    using assms(1,5,6) by (auto simp: reads_def)
  then show ?thesis using True assms(5,6) by (simp add: checkFundingOutput_def sol_require_def)
next
  case False
  then have o: "out = [0xa9, 0x14] @ h @ [0x87]" "length h = 20" using assms(5,6) by auto
  have "extractHash u (output_bytes (v, out)) = h" "bytes_slice u 20 h 0 = h"
    using assms(1) o by (auto simp: reads_def)
  moreover have "bytes_slice u 3 (output_bytes (v, out)) 8 = take 3 (drop 8 (output_bytes (v, out)))"
    using assms(1) o unfolding reads_def by (simp add: output_bytes_def)
  then have "bytes_slice u 3 (output_bytes (v, out)) 8 = [0x17, 0xa9, 0x14]"
    using o by (simp add: output_bytes_def byte_of_def)
  ultimately show ?thesis using False o by (simp add: checkFundingOutput_def sol_require_def)
qed

text \<open>Whether the contract accepts a reveal.\<close>

definition accepts :: "nat \<Rightarrow> 'x bridge_state \<Rightarrow> DepositReceipt \<Rightarrow> bytes \<Rightarrow> nat \<Rightarrow> bytes \<Rightarrow> bool" where
  "accepts time st r vault amount key =
    (wal_state (st_registeredWallets st (hex_buf (dr_walletPublicKeyHash r))) = Sol_Live \<and>
     (vault = address0 \<or> st_isVaultTrusted st vault) \<and>
     (0 < st_depositRevealAheadPeriod st \<longrightarrow>
        500000000 \<le> le_nat (hex_buf (dr_refundLocktime r)) \<and>
        time + st_depositRevealAheadPeriod st \<le> le_nat (hex_buf (dr_refundLocktime r))) \<and>
     dep_revealedAt (st_deposits st key) = 0 \<and> st_depositDustThreshold st \<le> amount)"

lemma locktime_check:
  assumes "reads u" "length bs = 4"
  shows "(validateDepositRefundLocktime u time period bs = Inr ()) =
    (500000000 \<le> le_nat bs \<and> time + period \<le> le_nat bs)"
  using assms by (auto simp: validateDepositRefundLocktime_def reads_def bind_require Let_def)

lemma bind_unit: "bind_res m (\<lambda>_. g) = (if m = Inr () then g else (case m of Inl e \<Rightarrow> Inl e | Inr _ \<Rightarrow> g))"
  by (cases m) simp_all

lemma reveal_accepted:
  assumes "reads u" "crypto_ok c" "same_hashes e c" "compiles lib"
    and "receipt_ok r" "extra_ok r" "deposited_by r a"
    and out: "out = (if wit then [0x00, 0x20] @ h else [0xa9, 0x14] @ h @ [0x87])" "length h = (if wit then 32 else 20)"
    and ext: "extractOutputAtIndex u (sol_outputVector tx) i = Inr (output_bytes (amount, out))" "amount < 2 ^ 64"
    and fee: "treasury_fee ext (st_rebateStaking st) a FeeOfDeposit amount (st_depositTreasuryFeeDivisor st) (st_contracts st) = Inr (fee, x)"
  defines "key \<equiv> sol_deposit_key e (sol_txid e tx) i"
  shows "sol_reveal_deposit e u ext a time tx (reveal_of r i vault) (extra_of r) st =
      Inr (st\<lparr>st_deposits := (st_deposits st)(key :=
             (st_deposits st key)\<lparr>dep_amount := amount, dep_depositor := a, dep_revealedAt := time mod 2 ^ 32,
               dep_vault := vault, dep_treasuryFee := fee, dep_extraData := extra_of r\<rparr>),
           st_contracts := x,
           st_depositEvents := st_depositEvents st @
             [\<lparr>sdr_fundingTxHash = sol_txid e tx, sdr_reveal = reveal_of r i vault, sdr_depositor = a, sdr_amount = amount\<rparr>]\<rparr>)
      \<longleftrightarrow> accepts time st r vault amount key \<and> pays_to c lib \<lparr>ds_receipt = r, ds_witness = wit\<rparr> out"
    and "(\<exists>st'. sol_reveal_deposit e u ext a time tx (reveal_of r i vault) (extra_of r) st = Inr st')
      \<longleftrightarrow> accepts time st r vault amount key \<and> pays_to c lib \<lparr>ds_receipt = r, ds_witness = wit\<rparr> out"
proof -
  let ?scr = "expectedScript a (reveal_of r i vault) (extra_of r)"
  have out_ok: "(checkFundingOutput e u (output_bytes (amount, out)) ?scr = Inr ()) =
      pays_to c lib \<lparr>ds_receipt = r, ds_witness = wit\<rparr> out"
    unfolding checkFundingOutput_ok [OF assms(1-3) expectedScript_nonempty out]
    using pays_to_bytes [OF assms(2-7), of wit out i vault] by (simp add: Let_def)
  have val: "extractValue u (output_bytes (amount, out)) = amount" using assms(1) ext(2) by (simp add: reads_def)
  have l: "length (hex_buf (dr_refundLocktime r)) = 4" using assms(5) by (simp add: receipt_ok_def)
  let ?res = "Inr (st\<lparr>st_deposits := (st_deposits st)(key :=
             (st_deposits st key)\<lparr>dep_amount := amount, dep_depositor := a, dep_revealedAt := time mod 2 ^ 32,
               dep_vault := vault, dep_treasuryFee := fee, dep_extraData := extra_of r\<rparr>),
           st_contracts := x,
           st_depositEvents := st_depositEvents st @
             [\<lparr>sdr_fundingTxHash = sol_txid e tx, sdr_reveal = reveal_of r i vault, sdr_depositor = a, sdr_amount = amount\<rparr>]\<rparr>)"
  have proj: "rev_walletPubKeyHash (reveal_of r i vault) = hex_buf (dr_walletPublicKeyHash r)"
    "rev_vault (reveal_of r i vault) = vault" "rev_refundLocktime (reveal_of r i vault) = hex_buf (dr_refundLocktime r)"
    "rev_fundingOutputIndex (reveal_of r i vault) = i"
    by (simp_all add: reveal_of_def)
  have go: "sol_reveal_deposit e u ext a time tx (reveal_of r i vault) (extra_of r) st = ?res"
    if "accepts time st r vault amount key" "pays_to c lib \<lparr>ds_receipt = r, ds_witness = wit\<rparr> out"
  proof -
    have "checkFundingOutput e u (output_bytes (amount, out)) ?scr = Inr ()" using that(2) out_ok by simp
    moreover have "(if 0 < st_depositRevealAheadPeriod st
        then validateDepositRefundLocktime u time (st_depositRevealAheadPeriod st) (hex_buf (dr_refundLocktime r))
        else Inr ()) = Inr ()"
      using that(1) locktime_check [OF assms(1) l] by (simp add: accepts_def)
    ultimately show ?thesis
      using that(1) ext(1) fee val
      unfolding sol_reveal_deposit_def proj
      by (simp add: accepts_def bind_require Let_def flip: key_def)
  qed
  have stop: "accepts time st r vault amount key \<and> pays_to c lib \<lparr>ds_receipt = r, ds_witness = wit\<rparr> out"
    if "sol_reveal_deposit e u ext a time tx (reveal_of r i vault) (extra_of r) st = Inr st'" for st'
    using that ext(1) val out_ok locktime_check [OF assms(1) l]
    unfolding sol_reveal_deposit_def proj
    by (auto simp: accepts_def bind_res_Inr Let_def split: if_splits simp flip: key_def)
  show "sol_reveal_deposit e u ext a time tx (reveal_of r i vault) (extra_of r) st = ?res
      \<longleftrightarrow> accepts time st r vault amount key \<and> pays_to c lib \<lparr>ds_receipt = r, ds_witness = wit\<rparr> out"
    and "(\<exists>st'. sol_reveal_deposit e u ext a time tx (reveal_of r i vault) (extra_of r) st = Inr st')
      \<longleftrightarrow> accepts time st r vault amount key \<and> pays_to c lib \<lparr>ds_receipt = r, ds_witness = wit\<rparr> out"
    using go stop by blast+
qed

subsection \<open>A reveal through the handle\<close>

text \<open>The vectors the client extracts from a transaction, and what the contract makes of them.\<close>

definition vectors_of :: "bufio \<Rightarrow> js_tx \<Rightarrow> BitcoinRawTxVectors" where
  "vectors_of wr t = \<lparr>vec_version = getTxVersion wr t, vec_inputs = getTxInputVector wr t,
     vec_outputs = getTxOutputVector wr t, vec_locktime = getTxLocktime wr t\<rparr>"

definition sol_tx_of :: "bufio \<Rightarrow> js_tx \<Rightarrow> sol_tx" where
  "sol_tx_of wr t = \<lparr>sol_version = hex_buf (getTxVersion wr t), sol_inputVector = hex_buf (getTxInputVector wr t),
     sol_outputVector = hex_buf (getTxOutputVector wr t), sol_locktime = hex_buf (getTxLocktime wr t)\<rparr>"

definition vault_id :: "bytes \<Rightarrow> ChainIdentifier option" where
  "vault_id v = (if v = address0 then None else Some (EthereumAddress (bytes_to_hex v)))"

text \<open>The identifier of a transaction, as Bitcoin explorers and the client show it.\<close>

definition txid_of :: "evm \<Rightarrow> bufio \<Rightarrow> js_tx \<Rightarrow> BitcoinTxHash" where
  "txid_of e wr t = Hex (rev (sol_txid e (sol_tx_of wr t)))"

text \<open>A transaction with few inputs and few outputs of short scripts.\<close>

definition small_tx :: "js_tx \<Rightarrow> bool" where
  "small_tx t = (length (tx_ins t) < 253 \<and> length (tx_outs t) < 253 \<and>
     (\<forall>out \<in> set (tx_outs t). length (out_script out) < 253 \<and> 0 \<le> out_value out \<and> out_value out < 2 ^ 63))"

lemma extractBitcoinRawTxVectors_of:
  "tx_fromBuffer lib (hex_to_bytes (transactionHex raw)) = Inr t \<Longrightarrow>
   extractBitcoinRawTxVectors lib wr raw = Inr (vectors_of wr t)"
  by (simp add: extractBitcoinRawTxVectors_def vectors_of_def)

lemma address_text_zero: "address_text address0 = AddressZero"
  unfolding address_text_def address0_def AddressZero_def by code_simp

lemma vault_text:
  "length v = 20 \<Longrightarrow> vault_of (vault_id v) = address_text v"
  by (simp add: vault_of_def vault_id_def address_text_zero) (simp add: address_text_def)

lemma parse_vault_text:
  assumes "addresses_ok lib" "length v = 20"
  shows "parse_vault lib (address_text v) = Inr (vault_id v)"
proof -
  have "address_text v = AddressZero \<longleftrightarrow> v = address0"
    using bytes_to_hex_inj [of v address0] by (auto simp: address_text_def simp flip: address_text_zero)
  then show ?thesis using assms by (simp add: parse_vault_def vault_id_def addresses_ok_def)
qed

lemma outputs_read:
  assumes "writes wr" "reads u" "small_tx t" "i < length (tx_outs t)"
  shows "extractOutputAtIndex u (hex_buf (getTxOutputVector wr t)) i =
    Inr (output_bytes (nat (out_value (tx_outs t ! i)), out_script (tx_outs t ! i)))"
proof -
  let ?outs = "map (\<lambda>out. (nat (out_value out), out_script out)) (tx_outs t)"
  have "writeI64 wr (out_value out) @ writeVarBytes wr (out_script out) = output_bytes (nat (out_value out), out_script out)"
    if "out \<in> set (tx_outs t)" for out
    using assms(1,3) that by (simp add: writes_def small_tx_def output_bytes_def)
  then have "map (\<lambda>out. writeI64 wr (out_value out) @ writeVarBytes wr (out_script out)) (tx_outs t) = map output_bytes ?outs"
    by simp
  moreover have "writeVarint wr (int (length (tx_outs t))) = [byte_of (length ?outs)]"
    using assms(1,3) by (simp add: writes_def small_tx_def)
  ultimately have v: "hex_buf (getTxOutputVector wr t) = byte_of (length ?outs) # concat (map output_bytes ?outs)"
    by (simp only: getTxOutputVector_def Hex_from_buffer_def Hex.sel append_Cons append_Nil)
  have "length ?outs < 253" "list_all (\<lambda>out. length (snd out) < 253) ?outs" "i < length ?outs"
    using assms(3,4) by (auto simp: small_tx_def list_all_iff)
  then have "extractOutputAtIndex u (hex_buf (getTxOutputVector wr t)) i = Inr (output_bytes (?outs ! i))"
    using assms(2) unfolding v reads_def by blast
  then show ?thesis using assms(4) by simp
qed

text \<open>The packed arguments decode to the receipt's reveal and the transaction.\<close>

lemma reveal_arguments:
  assumes "writes wr" "small_tx t" "receipt_ok r" "length v = 20" "i < 2 ^ 32"
    and "packRevealDepositParameters (vectors_of wr t) (int i) r (vault_id v) = (p, rv, x)"
  shows "tx_arg p = Inr (sol_tx_of wr t)" "reveal_arg rv = Inr (reveal_of r i v)"
    "x = map_option toPrefixedString (dr_extraData r)"
proof -
  have four: "length (hex_buf (getTxVersion wr t)) = 4" "length (hex_buf (getTxLocktime wr t)) = 4"
    using assms(1) by (simp_all add: writes_def getTxVersion_def getTxLocktime_def Hex_from_buffer_def)
  have vec: "hex_arg (toPrefixedString h) = Inr (hex_buf h)" if "hex_buf h \<noteq> []" for h
    using toPrefixedString_Hex [OF that] by (cases h) simp
  have "hex_buf (getTxOutputVector wr t) \<noteq> []" "hex_buf (getTxInputVector wr t) \<noteq> []"
    using assms(1,2) by (simp_all add: writes_def small_tx_def getTxOutputVector_def getTxInputVector_def Hex_from_buffer_def)
  then show "tx_arg p = Inr (sol_tx_of wr t)"
    using assms(6) four vec by (auto simp: packRevealDepositParameters_def tx_arg_def vectors_of_def sol_tx_of_def)
  show "reveal_arg rv = Inr (reveal_of r i v)"
    using assms(3-6) vault_text [OF assms(4)]
    by (auto simp: packRevealDepositParameters_def reveal_arg_def reveal_of_def uint_arg_def receipt_ok_def address_text_def)
  show "x = map_option toPrefixedString (dr_extraData r)"
    using assms(6) by (simp add: packRevealDepositParameters_def)
qed

end
