(* ===== verification/BridgeSample.thy ===== *)
theory BridgeSample
  imports BridgeContract BitcoinLib
begin

section \<open>An instance of the contract's environment\<close>

text \<open>
  Hash functions, Bitcoin libraries and a state of the Bridge contract for the witnesses: the hash
  functions are those of the client's instance, the libraries parse outputs of short scripts, and in
  the state every wallet is live and no vault is trusted.
\<close>

definition sample_evm :: evm where
  "sample_evm = \<lparr>evm_sha256 = fold_bytes (replicate 32 0),
     evm_hash160 = (\<lambda>bs. fold_bytes (replicate 20 0) (fold_bytes (replicate 32 0) bs)),
     evm_hash256 = (\<lambda>bs. fold_bytes (replicate 32 0) (fold_bytes (replicate 32 0) bs)),
     evm_keccak256 = fold_bytes (replicate 32 0)\<rparr>"

fun sample_output_at :: "bytes \<Rightarrow> nat \<Rightarrow> bytes" where
  "sample_output_at bs 0 = take (9 + unat (bs ! 8)) bs"
| "sample_output_at bs (Suc i) = sample_output_at (drop (9 + unat (bs ! 8)) bs) i"

definition sample_utils :: btc_utils where
  "sample_utils = \<lparr>extractOutputAtIndex = (\<lambda>bs i. if i < unat (hd bs) then Inr (sample_output_at (tl bs) i)
       else Inl (Error ''Vin read overrun'')),
     extractHash = (\<lambda>bs. let s = drop 9 bs in
       if take 2 s = [0x00, 0x20] then drop 2 s else if take 2 s = [0xa9, 0x14] then take 20 (drop 2 s) else []),
     extractHashAt = (\<lambda>bs _ _. drop 3 bs), extractValue = (\<lambda>bs. le_nat (take 8 bs)),
     reverseUint32 = (\<lambda>n. le_nat (be_bytes 4 n)), bytes_slice = (\<lambda>n bs i. take n (drop i bs))\<rparr>"

definition sample_ext :: "unit contracts" where
  "sample_ext = \<lparr>applyForRebate = (\<lambda>_ _ fee _ x. Inr (fee, x)), isSafeRedemption = (\<lambda>_ _ _ _ _ _. Inr True),
     transferBalanceFrom = (\<lambda>_ _ x. Inr x)\<rparr>"

definition sample_state :: "bytes \<Rightarrow> unit bridge_state" where
  "sample_state utxoHash = \<lparr>st_depositDustThreshold = 100, st_depositTreasuryFeeDivisor = 2000,
     st_depositRevealAheadPeriod = 500, st_redemptionDustThreshold = 100, st_redemptionTreasuryFeeDivisor = 2000,
     st_redemptionTxMaxFee = 10,
     st_deposits = (\<lambda>_. \<lparr>dep_depositor = address0, dep_amount = 0, dep_revealedAt = 0, dep_vault = address0,
       dep_treasuryFee = 0, dep_sweptAt = 0, dep_extraData = bytes32_0\<rparr>),
     st_isVaultTrusted = (\<lambda>_. False),
     st_pendingRedemptions = (\<lambda>_. \<lparr>red_redeemer = address0, red_requestedAmount = 0, red_treasuryFee = 0,
       red_txMaxFee = 0, red_requestedAt = 0\<rparr>),
     st_registeredWallets = (\<lambda>_. \<lparr>wal_mainUtxoHash = utxoHash, wal_pendingRedemptionsValue = 0, wal_state = Sol_Live\<rparr>),
     st_redemptionWatchtower = address0, st_rebateStaking = address0, st_depositEvents = [], st_redemptionEvents = [],
     st_contracts = ()\<rparr>"

lemma output_bytes_length: "length (output_bytes (v, s)) = 9 + length s"
  by (simp add: output_bytes_def)

lemma output_bytes_size: "length s < 253 \<Longrightarrow> unat ((output_bytes (v, s) @ rest) ! 8) = length s"
  by (simp add: output_bytes_def nth_append unat_byte_of)

lemma sample_output_at_nth:
  "list_all (\<lambda>out. length (snd out) < 253) outs \<Longrightarrow> i < length outs \<Longrightarrow>
   sample_output_at (concat (map output_bytes outs)) i = output_bytes (outs ! i)"
proof (induction outs arbitrary: i)
  case (Cons out outs)
  obtain v s where o: "out = (v, s)" by (cases out)
  then have n: "unat ((output_bytes (v, s) @ concat (map output_bytes outs)) ! 8) = length s"
    using Cons.prems(1) by (simp add: output_bytes_size)
  show ?case using Cons o n by (cases i) (simp_all add: output_bytes_length)
qed simp

lemma reads_sample: "reads sample_utils"
proof -
  have "extractOutputAtIndex sample_utils (byte_of (length outs) # concat (map output_bytes outs)) i = Inr (output_bytes (outs ! i))"
    if "length outs < 253" "list_all (\<lambda>out. length (snd out) < 253) outs" "i < length outs" for outs i
    using that sample_output_at_nth by (simp add: sample_utils_def unat_byte_of)
  moreover have "reverseUint32 sample_utils (be_nat bs) = le_nat bs" if "length bs = 4" for bs
    using be_bytes_be_nat [of bs] that by (simp add: sample_utils_def)
  moreover have "extractValue sample_utils (output_bytes (v, s)) = v" if "v < 2 ^ 64" for v s
    using that by (simp add: sample_utils_def output_bytes_def le_nat_le_bytes)
  ultimately show ?thesis
    unfolding reads_def by (simp add: sample_utils_def output_bytes_def Let_def)
qed

text \<open>A reveal whose funding output is a P2WSH output of the deposit script, and its transaction.\<close>

definition sample_reveal :: sol_reveal where
  "sample_reveal = \<lparr>rev_fundingOutputIndex = 0, rev_blindingFactor = replicate 8 1, rev_walletPubKeyHash = replicate 20 2,
     rev_refundPubKeyHash = replicate 20 3, rev_refundLocktime = [1, 2, 3, 0x70], rev_vault = address0\<rparr>"

definition sample_witness_output :: "bytes \<Rightarrow> bytes" where
  "sample_witness_output sender = [0x00, 0x20] @ evm_sha256 sample_evm (expectedScript sender sample_reveal bytes32_0)"

definition sample_sol_tx :: "bytes \<Rightarrow> sol_tx" where
  "sample_sol_tx sender = \<lparr>sol_version = [1, 0, 0, 0], sol_inputVector = [0],
     sol_outputVector = byte_of 1 # output_bytes (100000, sample_witness_output sender), sol_locktime = [0, 0, 0, 0]\<rparr>"

lemma sample_hash_sizes: "length (evm_sha256 sample_evm bs) = 32" "length (evm_hash160 sample_evm bs) = 20"
  "length (evm_keccak256 sample_evm bs) = 32"
  by (simp_all add: sample_evm_def length_fold_bytes)

lemma sample_locktime: "reverseUint32 sample_utils (be_nat (rev_refundLocktime sample_reveal)) = 1879245313"
proof -
  have "reverseUint32 sample_utils (be_nat (rev_refundLocktime sample_reveal)) = le_nat (rev_refundLocktime sample_reveal)"
    by (rule readsD(6) [OF reads_sample]) (simp add: sample_reveal_def)
  also have "\<dots> = 1879245313" by (simp add: sample_reveal_def le_nat_def be_nat_def)
  finally show ?thesis .
qed

lemma sample_revealed:
  "\<exists>st. sol_revealDeposit sample_evm sample_utils sample_ext sender 1000 (sample_sol_tx sender) sample_reveal (sample_state h) = Inr st"
proof -
  let ?out = "output_bytes (100000, sample_witness_output sender)" and ?tx = "sample_sol_tx sender"
  have "extractOutputAtIndex sample_utils (byte_of (length [(100000 :: nat, sample_witness_output sender)]) #
      concat (map output_bytes [(100000, sample_witness_output sender)])) 0 = Inr (output_bytes ([(100000, sample_witness_output sender)] ! 0))"
    by (rule readsD(1) [OF reads_sample]) (simp_all add: sample_hash_sizes sample_witness_output_def)
  then have o: "extractOutputAtIndex sample_utils (sol_outputVector ?tx) (rev_fundingOutputIndex sample_reveal) = Inr ?out"
    by (simp add: sample_sol_tx_def sample_reveal_def)
  have "extractHash sample_utils ?out = evm_sha256 sample_evm (expectedScript sender sample_reveal bytes32_0)"
    unfolding sample_witness_output_def by (rule readsD(2) [OF reads_sample]) (simp add: sample_hash_sizes)
  then have h: "checkFundingOutput sample_evm sample_utils ?out (expectedScript sender sample_reveal bytes32_0) = Inr ()"
    by (simp add: checkFundingOutput_def Let_def sample_hash_sizes readsD(5) [OF reads_sample])
  have l: "validateDepositRefundLocktime sample_utils 1000 500 (rev_refundLocktime sample_reveal) = Inr ()"
    using sample_locktime by (simp add: validateDepositRefundLocktime_def bind_require)
  have v: "extractValue sample_utils ?out = 100000" by (rule readsD(4) [OF reads_sample]) simp
  show ?thesis
    unfolding sol_revealDeposit_def sol_reveal_deposit_def
    using o h l v by (simp add: sample_state_def bind_require Let_def treasury_fee_def sample_reveal_def)
qed

end
