(* ===== verification/OnChainSample.thy ===== *)
theory OnChainSample
  imports OnChain BridgeSample Spv
begin

section \<open>A handle on the instance of the contract\<close>

text \<open>
  The libraries of the client for the witnesses of the properties that span the client and the
  contract, with the contract of the instance deployed behind the handle.
\<close>

definition sample_chain_ethers :: "unit chain ethers" where
  "sample_chain_ethers = \<lparr>ethers_runtime = \<lparr>random100 = (\<lambda>w. (0, w)), sleep = (\<lambda>_ w. w)\<rparr>, console_debug = (\<lambda>_. return_io ()),
     console_log = (\<lambda>_. return_io ()), error_shape = (\<lambda>_. PlainObject), utils_getAddress = sample_getAddress,
     solidityKeccak256 = (\<lambda>args. case packed_all args of None \<Rightarrow> Inl (Error ''invalid value'')
       | Some bs \<Rightarrow> Inr (''0x'' @ bytes_to_hex (evm_keccak256 sample_evm bs))),
     abi_encode = (\<lambda>_. Inr ''0x''), hash_functions = sample_crypto, latestNumber = return_io 9\<rparr>"

text \<open>The functions of the contract that are not modelled: those that read the active wallet and its key
  answer, the others fail.\<close>

definition missing :: "('w, 'a) io" where
  "missing = throw_io (Error ''not deployed'')"

definition sample_raw_wallet :: raw_wallet where
  "sample_raw_wallet = \<lparr>raw_ecdsaWalletID = ''0x'' @ bytes_to_hex (replicate 32 5),
     raw_mainUtxoHash = ''0x'' @ bytes_to_hex bytes32_0, raw_pendingRedemptionsValue = 0, raw_createdAt = 0,
     raw_movingFundsRequestedAt = 0, raw_closingStartedAt = 0, raw_pendingMovedFundsSweepRequestsCount = 0, raw_state = 1,
     raw_movingFundsTargetWalletsCommitmentHash = ''0x'' @ bytes_to_hex bytes32_0\<rparr>"

definition sample_rest :: "'w bridge_contract" where
  "sample_rest = \<lparr>bc_DepositRevealed = (\<lambda>_ _. missing), bc_NewWalletRegistered = (\<lambda>_ _. missing),
     bc_RedemptionRequested = (\<lambda>_ _. missing), bc_pendingRedemptions = (\<lambda>_. missing), bc_timedOutRedemptions = (\<lambda>_. missing),
     bc_revealDeposit = (\<lambda>_ _. missing), bc_revealDepositWithExtraData = (\<lambda>_ _ _. missing),
     bc_submitDepositSweepProof = (\<lambda>_ _ _ _. missing), bc_txProofDifficultyFactor = missing,
     bc_requestRedemption = (\<lambda>_ _ _ _. missing), bc_submitRedemptionProof = (\<lambda>_ _ _ _. missing),
     bc_deposits = (\<lambda>_. missing), bc_activeWalletPubKeyHash = return_io (address_text (replicate 20 2)),
     bc_contractReferences = return_io (address_text (replicate 20 6)),
     bc_wallets = (\<lambda>_. return_io sample_raw_wallet)\<rparr>"

definition sample_account :: bytes where
  "sample_account = replicate 20 0x11"

definition sample_tx_hash :: "unit chain \<Rightarrow> bytes" where
  "sample_tx_hash w = be_bytes 32 (ch_time w)"

definition sample_bridge_handle :: "unit chain bridge_handle" where
  "sample_bridge_handle = \<lparr>bh_ethers = sample_chain_ethers,
     bh_handle = \<lparr>handle_address = address_text (replicate 20 1), deployedAtBlockNumber = 0, handle_totalRetryAttempts = 3\<rparr>,
     bh_contract = deployed sample_evm sample_utils sample_ext sample_tx_hash sample_account sample_rest,
     bh_registry_at = (\<lambda>_. \<lparr>rc_getWalletPublicKey = (\<lambda>_. return_io (''0x'' @ bytes_to_hex (replicate 32 1 @ replicate 32 2))),
       rc_DkgResultSubmitted = (\<lambda>_ _. missing),
       rc_DkgResultApproved = (\<lambda>_ _. missing), rc_DkgResultChallenged = (\<lambda>_ _. missing)\<rparr>),
     bh_registry_deployments = (let d = \<lparr>deployment_address = ''0x02'', deployment_blockNumber = 0\<rparr>
       in \<lparr>local_deployment = d, sepolia_deployment = d, mainnet_deployment = d\<rparr>)\<rparr>"

lemma digest_sample: "bs \<noteq> [] \<Longrightarrow> digest (sample_hash n) bs = fold_bytes (replicate n 0) bs"
  by (simp add: digest_def sample_hash_def bytes_to_hex_digits)

lemma same_hashes_sample: "same_hashes sample_evm sample_crypto"
proof -
  have "fold_bytes (replicate 32 0) bs \<noteq> []" for bs
    using length_fold_bytes [of "replicate 32 0" bs] by auto
  then show ?thesis by (simp add: same_hashes_def sample_crypto_def sample_evm_def digest_sample)
qed

lemma keccak_ok_sample: "keccak_ok sample_evm sample_chain_ethers"
  by (simp add: keccak_ok_def sample_chain_ethers_def sample_hash_sizes)

lemma addresses_ok_sample: "addresses_ok sample_chain_ethers"
  unfolding addresses_ok_def
proof (intro allI impI)
  fix a :: bytes
  assume "length a = 20"
  then have "sample_getAddress (address_text a) = Inr (''0x'' @ bytes_to_hex a)"
    by (simp add: sample_getAddress_def address_text_def Let_def bytes_to_hex_digits strip_0x_def)
  then show "EthereumAddress_from (utils_getAddress sample_chain_ethers) (address_text a) = Inr (EthereumAddress (bytes_to_hex a))"
    by (simp add: EthereumAddress_from_def sample_chain_ethers_def)
qed

lemma quiet_sample: "quiet sample_chain_ethers"
  by (simp add: quiet_def sample_chain_ethers_def return_io_def)

lemma writes_sample: "writes sample_bufio"
  by (simp add: writes_def sample_bufio_def)

lemma compiles_sample: "compiles sample_btcjs"
proof -
  have "sample_chunk_bytes ch = chunk_bytes ch" for ch
    by (cases ch rule: chunk_bytes.cases) (auto split: opcode.split)
  then have "sample_chunk_bytes = chunk_bytes" by (rule ext)
  then show ?thesis by (simp add: compiles_def sample_btcjs_def)
qed

text \<open>The receipt of the reveal, and a Bitcoin transaction that pays to it.\<close>

definition sample_receipt :: DepositReceipt where
  "sample_receipt = \<lparr>dr_depositor = sample_owner, dr_blindingFactor = Hex (replicate 8 1),
     dr_walletPublicKeyHash = Hex (replicate 20 2), dr_refundPublicKeyHash = Hex (replicate 20 3),
     dr_refundLocktime = Hex [1, 2, 3, 0x70], dr_extraData = None\<rparr>"

definition sample_deposit_tx :: js_tx where
  "sample_deposit_tx = \<lparr>tx_version = 1, tx_ins = [], tx_outs = [\<lparr>out_value = 100000,
     out_script = sample_witness_output sample_account\<rparr>], tx_locktime = 0\<rparr>"

lemma sample_receipt_ok: "receipt_ok sample_receipt" "extra_ok sample_receipt" "deposited_by sample_receipt sample_account"
  "reveal_of sample_receipt 0 address0 = sample_reveal" "extra_of sample_receipt = bytes32_0"
  by (simp_all add: sample_receipt_def receipt_ok_def extra_ok_def deposited_by_def sample_account_def sample_owner_def
      reveal_of_def sample_reveal_def extra_of_def)

lemma sample_pays_to:
  "pays_to sample_crypto sample_btcjs \<lparr>ds_receipt = sample_receipt, ds_witness = True\<rparr> (sample_witness_output sample_account)"
  using pays_to_bytes [OF crypto_ok_sample same_hashes_sample compiles_sample sample_receipt_ok(1-3),
      of True "sample_witness_output sample_account" 0 address0]
  by (simp add: sample_receipt_ok sample_witness_output_def)

lemma sample_accepts: "accepts 1000 (sample_state h) sample_receipt address0 100000 k"
  by (simp add: accepts_def sample_state_def sample_receipt_def le_nat_def be_nat_def)

lemma sample_small_tx: "small_tx sample_deposit_tx"
  by (simp add: small_tx_def sample_deposit_tx_def sample_witness_output_def sample_hash_sizes)

end
