(* ===== verification/OnChainClaims.thy ===== *)
theory OnChainClaims
  imports OnChainSample
begin

section \<open>What the client finds on the contract\<close>

text \<open>
  The properties that span the client and the Bridge contract: which outputs the contract accepts,
  that a revealed deposit and a requested redemption are found again under the keys the client
  computes, and the ledger that every sequence of calls keeps.
\<close>

lemma txid_length:
  assumes "crypto_ok c" "same_hashes e c" "length (sol_version tx) = 4"
  shows "length (sol_txid e tx) = 32"
proof -
  let ?bs = "sol_version tx @ sol_inputVector tx @ sol_outputVector tx @ sol_locktime tx"
  have n: "?bs \<noteq> []" using assms(3) by auto
  then have "evm_sha256 e ?bs \<noteq> []" using hash_sizes(1) [OF assms(1,2) n] by auto
  then show ?thesis
    using assms(2) n hash_sizes(1) [OF assms(1,2)] by (simp add: sol_txid_def same_hashes_def)
qed

lemma keccak_text:
  "keccak_ok e lib \<Longrightarrow> packed_all args = Some bs \<Longrightarrow>
   solidityKeccak256 lib args = Inr (''0x'' @ bytes_to_hex (evm_keccak256 e bs))"
  by (simp add: keccak_ok_def)

lemma deposit_key:
  assumes "keccak_ok e lib" "length h = 32" "i < 2 ^ 32"
  shows "buildDepositKey lib (Hex (rev h)) (int i) = Inr (''0x'' @ bytes_to_hex (sol_deposit_key e h i))"
proof -
  have "toPrefixedString (hex_reverse (Hex (rev h))) = ''0x'' @ bytes_to_hex h"
    using assms(2) by (subst toPrefixedString_Hex [symmetric]) (auto simp: hex_reverse_def toBuffer_def Hex_from_buffer_def)
  then show ?thesis
    using assms(2,3) unfolding buildDepositKey_def sol_deposit_key_def
    by (intro keccak_text [OF assms(1)]) simp
qed

lemma small_uint32: "n < 2 ^ 32 \<Longrightarrow> small_number (int n) = Inr (int n)"
  by (simp add: small_number_def bn_toNumber_def MAX_SAFE_def)

lemma reveal_sent:
  assumes "reads u" "crypto_ok c" "same_hashes e c" "compiles lib"
    and "receipt_ok r" "extra_ok r" "deposited_by r a"
    and "extractOutputAtIndex u (sol_outputVector tx) i = Inr (output_bytes (amount, out))" "amount < 2 ^ 64"
    and "treasury_fee ext (st_rebateStaking st) a FeeOfDeposit amount (st_depositTreasuryFeeDivisor st) (st_contracts st) = Inr (fee, x)"
    and "pays_to c lib \<lparr>ds_receipt = r, ds_witness = wit\<rparr> out"
    and "accepts time st r vault amount (sol_deposit_key e (sol_txid e tx) i)"
  shows "sol_reveal_deposit e u ext a time tx (reveal_of r i vault) (extra_of r) st =
    Inr (st\<lparr>st_deposits := (st_deposits st)(sol_deposit_key e (sol_txid e tx) i :=
           (st_deposits st (sol_deposit_key e (sol_txid e tx) i))\<lparr>dep_amount := amount, dep_depositor := a,
             dep_revealedAt := time mod 2 ^ 32, dep_vault := vault, dep_treasuryFee := fee, dep_extraData := extra_of r\<rparr>),
         st_contracts := x,
         st_depositEvents := st_depositEvents st @
           [\<lparr>sdr_fundingTxHash = sol_txid e tx, sdr_reveal = reveal_of r i vault, sdr_depositor = a, sdr_amount = amount\<rparr>]\<rparr>)"
proof -
  let ?scr = "expectedScript a (reveal_of r i vault) (extra_of r)"
  let ?h = "if wit then evm_sha256 e ?scr else evm_hash160 e ?scr"
  have "out = (if wit then [0x00, 0x20] @ ?h else [0xa9, 0x14] @ ?h @ [0x87])"
    using pays_to_bytes [OF assms(2-7), of wit out i vault] assms(11) by (simp add: Let_def)
  moreover have "length ?h = (if wit then 32 else 20)"
    using hash_sizes [OF assms(2,3) expectedScript_nonempty] by simp
  ultimately show ?thesis using reveal_accepted(1) [OF assms(1-7) _ _ assms(8-10)] assms(11,12) by blast
qed

lemma small_mod: "small_number (int (n mod 4294967296)) = Inr (int (n mod 4294967296))"
  using small_uint32 [of "n mod 2 ^ 32"] by simp

text \<open>C6: The contract accepts exactly the outputs that the client derives. For a valid receipt of a
  depositor, an output of a script hash (P2WSH or P2SH) and a transaction, the reveal succeeds if and only
  if the contract's conditions of the wallet, the vault, the locktime, the value and the key hold and the
  output pays to the hash of the deposit script as the client compiles it for this receipt: the two
  programs assemble the same script byte for byte, with and without extra data.\<close>

theorem contract_accepts_derived_script:
  assumes libs: "reads u" "crypto_ok c" "same_hashes e c" "compiles lib"
    and receipt: "receipt_ok r" "extra_ok r" "deposited_by r a"
    and out: "out = (if wit then [0x00, 0x20] @ h else [0xa9, 0x14] @ h @ [0x87])" "length h = (if wit then 32 else 20)"
      "extractOutputAtIndex u (sol_outputVector tx) i = Inr (output_bytes (amount, out))" "amount < 2 ^ 64"
    and fee: "treasury_fee ext (st_rebateStaking st) a FeeOfDeposit amount (st_depositTreasuryFeeDivisor st)
      (st_contracts st) = Inr (fee, x)"
  shows "(\<exists>st'. sol_reveal_deposit e u ext a time tx (reveal_of r i vault) (extra_of r) st = Inr st') \<longleftrightarrow>
    accepts time st r vault amount (sol_deposit_key e (sol_txid e tx) i) \<and>
    pays_to c lib \<lparr>ds_receipt = r, ds_witness = wit\<rparr> out"
  by (rule reveal_accepted(2)) (fact assms)+

theorem contract_accepts_derived_script_witness:
  "\<exists>st'. sol_reveal_deposit sample_evm sample_utils sample_ext sample_account 1000 (sample_sol_tx sample_account)
     sample_reveal bytes32_0 (sample_state bytes32_0) = Inr st'"
proof -
  let ?out = "sample_witness_output sample_account" and ?tx = "sample_sol_tx sample_account"
  let ?h = "evm_sha256 sample_evm (expectedScript sample_account sample_reveal bytes32_0)"
  have o: "?out = (if True then [0x00, 0x20] @ ?h else [0xa9, 0x14] @ ?h @ [0x87])" "length ?h = (if True then 32 else 20)"
    by (simp_all add: sample_witness_output_def sample_hash_sizes)
  have "extractOutputAtIndex sample_utils (byte_of (length [(100000 :: nat, ?out)]) # concat (map output_bytes [(100000, ?out)])) 0 =
      Inr (output_bytes ([(100000, ?out)] ! 0))"
    by (rule readsD(1) [OF reads_sample]) (simp_all add: sample_hash_sizes sample_witness_output_def)
  then have x: "extractOutputAtIndex sample_utils (sol_outputVector ?tx) 0 = Inr (output_bytes (100000, ?out))"
    by (simp add: sample_sol_tx_def)
  have f: "treasury_fee sample_ext (st_rebateStaking (sample_state bytes32_0)) sample_account FeeOfDeposit 100000
      (st_depositTreasuryFeeDivisor (sample_state bytes32_0)) (st_contracts (sample_state bytes32_0)) = Inr (50, ())"
    by (simp add: treasury_fee_def sample_state_def)
  show ?thesis
    using contract_accepts_derived_script [OF reads_sample crypto_ok_sample same_hashes_sample compiles_sample
        sample_receipt_ok(1-3) o x _ f, of 1000 address0] sample_accepts sample_pays_to
    by (simp add: sample_receipt_ok)
qed

subsection \<open>The script determines the receipt\<close>

text \<open>The bytes of a script can be read back: data of 2 to 75 bytes begins with its length, which is no
  opcode of the deposit script.\<close>

lemma opcode_byte_range: "unat (opcode_byte p) = 0 \<or> 75 < unat (opcode_byte p)"
  by (cases p) simp_all

lemma opcode_byte_inj: "opcode_byte p = opcode_byte q \<Longrightarrow> p = q"
  by (cases p; cases q) simp_all

lemma push_is_no_opcode: "2 \<le> n \<Longrightarrow> n \<le> 75 \<Longrightarrow> byte_of n \<noteq> opcode_byte p"
  using opcode_byte_range [of p] by (auto simp: unat_byte_of dest!: arg_cong [of "byte_of n" _ unat])

lemma chunk_bytes_prefix:
  assumes "plain_chunk c" "plain_chunk d" "chunk_bytes c @ xs = chunk_bytes d @ ys"
  shows "c = d \<and> xs = ys"
proof (cases c; cases d)
  fix a b assume cd: "c = Push a" "d = Push b"
  then have "unat (byte_of (length a)) = unat (byte_of (length b))" using assms(3) by simp
  then have "length a = length b" using assms(1,2) cd by (simp add: unat_byte_of)
  then show ?thesis using assms(3) cd by simp
next
  fix a p assume "c = Push a" "d = Op p"
  then show ?thesis using assms push_is_no_opcode [of "length a" p] by simp
next
  fix p b assume "c = Op p" "d = Push b"
  then show ?thesis using assms push_is_no_opcode [of "length b" p] by simp
next
  fix p q assume "c = Op p" "d = Op q"
  then show ?thesis using assms opcode_byte_inj by simp
qed

lemma chunks_bytes_inj:
  "list_all plain_chunk cs \<Longrightarrow> list_all plain_chunk ds \<Longrightarrow> concat (map chunk_bytes cs) = concat (map chunk_bytes ds) \<Longrightarrow> cs = ds"
proof (induction cs arbitrary: ds)
  case Nil
  then show ?case by (cases ds) (auto elim: chunk_bytes.elims)
next
  case (Cons c cs)
  show ?case
  proof (cases ds)
    case Nil
    then show ?thesis using Cons.prems(3) by (cases c) simp_all
  next
    case (Cons d ds')
    then have "c = d \<and> concat (map chunk_bytes cs) = concat (map chunk_bytes ds')"
      using Cons.prems by (intro chunk_bytes_prefix) simp_all
    then show ?thesis using Cons Cons.IH [of ds'] Cons.prems by simp
  qed
qed

lemma deposit_chunks_plain:
  assumes "receipt_ok r" "hex_text n (identifierHex (dr_depositor r))" "2 \<le> n" "n \<le> 75"
  shows "list_all plain_chunk (deposit_chunks r)"
  using assms by (auto simp: deposit_chunks_def receipt_ok_def toBuffer_def hex_text_def split: option.splits)

definition same_receipt :: "DepositReceipt \<Rightarrow> DepositReceipt \<Rightarrow> bool" where
  "same_receipt r r' = (identifierHex (dr_depositor r) = identifierHex (dr_depositor r') \<and> r' = r\<lparr>dr_depositor := dr_depositor r'\<rparr>)"

text \<open>C20: The compiled deposit script commits to every field of the receipt. The bytes of the scripts of two valid
  receipts, whose depositors are identifiers of 2 to 75 bytes, are equal exactly when the receipts agree in every field, the
  depositors in their hexadecimal identifiers, also when one has extra data and the other none.
  An output that pays to both scripts is one for receipts that agree, or the hash of its kind maps two
  different scripts, these two, to the same value.\<close>

theorem deposit_script_determines_receipt:
  assumes "compiles lib" "DepositScript_fromReceipt r wit = Inr s" "DepositScript_fromReceipt r' wit' = Inr s'"
    and "hex_text n (identifierHex (dr_depositor r))" "2 \<le> n" "n \<le> 75"
    and "hex_text n' (identifierHex (dr_depositor r'))" "2 \<le> n'" "n' \<le> 75"
  shows "(getPlainText lib s = getPlainText lib s') = same_receipt r r' \<and>
    (pays_to c lib s out \<longrightarrow> pays_to c lib s' out \<longrightarrow>
       same_receipt r r' \<or> getPlainText lib s \<noteq> getPlainText lib s' \<and> wit = wit' \<and> getHash c lib s = getHash c lib s')"
proof -
  have s: "s = \<lparr>ds_receipt = r, ds_witness = wit\<rparr>" "s' = \<lparr>ds_receipt = r', ds_witness = wit'\<rparr>" "receipt_ok r" "receipt_ok r'"
    using assms(2,3) by (auto simp: DepositScript_fromReceipt_def res_simps validateDepositReceipt_iff)
  note plain = deposit_chunks_plain [OF s(3) assms(4-6)] deposit_chunks_plain [OF s(4) assms(7-9)]
  have same: "deposit_chunks r = deposit_chunks r' \<longleftrightarrow> same_receipt r r'"
  proof
    assume "same_receipt r r'"
    then show "deposit_chunks r = deposit_chunks r'"
      by (cases r; cases r') (simp add: deposit_chunks_def same_receipt_def)
  qed (use deposit_chunks_inj [OF _ assms(4,7)] in \<open>unfold same_receipt_def, blast\<close>)
  have text_eq: "getPlainText lib s = getPlainText lib s' \<longleftrightarrow> same_receipt r r'"
    using assms(1) plain chunks_bytes_inj [OF plain] same
    by (auto simp: s(1,2) getPlainText_def compiles_def Hex_from_buffer_def)
  have "wit = wit' \<and> getHash c lib s = getHash c lib s'" if "pays_to c lib s out" "pays_to c lib s' out"
    using that by (cases wit; cases wit') (auto simp: pays_to_def s(1,2))
  then show ?thesis using text_eq by blast
qed

text \<open>A receipt and the one with the next locktime.\<close>

theorem deposit_script_determines_receipt_witness:
  "let r = \<lparr>dr_depositor = sample_owner, dr_blindingFactor = Hex (replicate 8 1), dr_walletPublicKeyHash = Hex (replicate 20 2),
       dr_refundPublicKeyHash = Hex (replicate 20 3), dr_refundLocktime = Hex [1, 2, 3, 4], dr_extraData = None\<rparr>
   in getPlainText sample_btcjs \<lparr>ds_receipt = r, ds_witness = True\<rparr> \<noteq>
      getPlainText sample_btcjs \<lparr>ds_receipt = r\<lparr>dr_refundLocktime := Hex [1, 2, 3, 5]\<rparr>, ds_witness = True\<rparr>"
proof -
  let ?r = "\<lparr>dr_depositor = sample_owner, dr_blindingFactor = Hex (replicate 8 1), dr_walletPublicKeyHash = Hex (replicate 20 2),
       dr_refundPublicKeyHash = Hex (replicate 20 3), dr_refundLocktime = Hex [1, 2, 3, 4], dr_extraData = None\<rparr>"
  let ?q = "?r\<lparr>dr_refundLocktime := Hex [1, 2, 3, 5]\<rparr>"
  have h: "hex_text 20 (identifierHex sample_owner)" by (auto simp: hex_text_def sample_owner_def)
  have s: "DepositScript_fromReceipt ?r True = Inr \<lparr>ds_receipt = ?r, ds_witness = True\<rparr>"
    "DepositScript_fromReceipt ?q True = Inr \<lparr>ds_receipt = ?q, ds_witness = True\<rparr>"
    by (rule receipt_ok_script; simp add: receipt_ok_def)+
  show ?thesis unfolding Let_def
    using deposit_script_determines_receipt [OF compiles_sample s, of 20 20 sample_crypto "[]"] h by (simp add: same_receipt_def)
qed

subsection \<open>What was sent is found\<close>

text \<open>A deposit that the client reveals is found again. Let an output of a small Bitcoin transaction
  pay to the script that the client derives for a valid receipt of the depositor, as a P2WSH or a P2SH
  output, and let the contract accept it. Then the reveal through the handle, with or without extra
  data, sends the transaction, and the deposit is read back under the transaction hash in the order
  in which the client shows it; no other deposit is touched.\<close>

lemma revealed_deposit_is_found:
  assumes libs: "writes wr" "reads u" "compiles lib" "crypto_ok c" "same_hashes e c"
      "keccak_ok e (bh_ethers b)" "addresses_ok (bh_ethers b)" "quiet (bh_ethers b)"
    and b: "bh_contract b = deployed e u ext txHash a other"
    and receipt: "receipt_ok r" "extra_ok r" "deposited_by r a" "length v = 20"
    and tx: "small_tx t" "i < length (tx_outs t)" "amount = nat (out_value (tx_outs t ! i))"
      "pays_to c lib \<lparr>ds_receipt = r, ds_witness = wit\<rparr> (out_script (tx_outs t ! i))"
    and key: "key = sol_deposit_key e (sol_txid e (sol_tx_of wr t)) i"
    and ok: "accepts (ch_time w) (ch_bridge w) r v amount key" "dep_sweptAt (st_deposits (ch_bridge w) key) < 2 ^ 32"
    and fee: "treasury_fee ext (st_rebateStaking (ch_bridge w)) a FeeOfDeposit amount
      (st_depositTreasuryFeeDivisor (ch_bridge w)) (st_contracts (ch_bridge w)) = Inr (fee, x)"
  shows "\<exists>w'. Bridge_revealDeposit b (vectors_of wr t) (int i) r (vault_id v) w = (Inr (Hex (txHash w)), w') \<and>
    Bridge_deposits b (txid_of e wr t) (int i) w' =
      (Inr \<lparr>dq_depositor = EthereumAddress (bytes_to_hex a), dq_amount = int amount, dq_vault = vault_id v,
         dq_revealedAt = int (ch_time w mod 2 ^ 32), dq_sweptAt = int (dep_sweptAt (st_deposits (ch_bridge w) key)),
         dq_treasuryFee = int fee\<rparr>, w') \<and>
    (st_deposits (ch_bridge w'))(key := st_deposits (ch_bridge w) key) = st_deposits (ch_bridge w)"
proof -
  let ?st = "ch_bridge w" and ?tx = "sol_tx_of wr t" and ?out = "tx_outs t ! i"
  let ?d = "(st_deposits ?st key)\<lparr>dep_amount := amount, dep_depositor := a, dep_revealedAt := ch_time w mod 2 ^ 32,
    dep_vault := v, dep_treasuryFee := fee, dep_extraData := extra_of r\<rparr>"
  let ?st' = "?st\<lparr>st_deposits := (st_deposits ?st)(key := ?d), st_contracts := x,
    st_depositEvents := st_depositEvents ?st @
      [\<lparr>sdr_fundingTxHash = sol_txid e ?tx, sdr_reveal = reveal_of r i v, sdr_depositor = a, sdr_amount = amount\<rparr>]\<rparr>"
  obtain p rv y where pk: "packRevealDepositParameters (vectors_of wr t) (int i) r (vault_id v) = (p, rv, y)"
    by (metis prod_cases3)
  have i: "i < 2 ^ 32" using tx(1,2) by (simp add: small_tx_def)
  have four: "length (sol_version ?tx) = 4"
    using libs(1) by (simp add: sol_tx_of_def writes_def getTxVersion_def Hex_from_buffer_def)
  note args = reveal_arguments [OF libs(1) tx(1) receipt(1,4) i pk]
  have out: "extractOutputAtIndex u (sol_outputVector ?tx) i = Inr (output_bytes (amount, out_script ?out))"
    using outputs_read [OF libs(1,2) tx(1,2)] tx(3) by (simp add: sol_tx_of_def)
  have small: "amount < 2 ^ 64" using tx(1,2,3) by (auto simp: small_tx_def dest!: nth_mem)
  have rev: "sol_reveal_deposit e u ext a (ch_time w) ?tx (reveal_of r i v) (extra_of r) ?st = Inr ?st'"
    using reveal_sent [OF libs(2,4,5,3) receipt(1-3) out small fee tx(4)] ok(1) unfolding key by blast
  have call: "(case y of Some x \<Rightarrow> bc_revealDepositWithExtraData (bh_contract b) p rv x
      | None \<Rightarrow> bc_revealDeposit (bh_contract b) p rv) w = (Inr (''0x'' @ bytes_to_hex (txHash w)), w\<lparr>ch_bridge := ?st'\<rparr>)"
  proof (cases "dr_extraData r")
    case None
    then show ?thesis using rev args by (simp add: b deployed_def transact_def sol_revealDeposit_def extra_of_def)
  next
    case (Some z)
    then have "length (hex_buf z) = 32" "hex_buf z \<noteq> bytes32_0"
      using receipt(1,2) by (auto simp: receipt_ok_def extra_ok_def)
    then show ?thesis
      using rev args Some
      by (simp add: b deployed_def transact_def sol_revealDepositWithExtraData_def extra_of_def bind_require)
  qed
  have "Bridge_revealDeposit b (vectors_of wr t) (int i) r (vault_id v) w = (Inr (Hex (txHash w)), w\<lparr>ch_bridge := ?st'\<rparr>)"
    unfolding Bridge_revealDeposit_def pk prod.case by (rule quiet_sent, rule libs(8), rule call)
  moreover have "retried (bh_ethers b) (bh_handle b) (bc_deposits (bh_contract b) (''0x'' @ bytes_to_hex key))
      (w\<lparr>ch_bridge := ?st'\<rparr>) = (Inr (raw_deposit_of ?d), w\<lparr>ch_bridge := ?st'\<rparr>)"
    using libs(6) by (intro quiet_retried [OF libs(8)]) (simp add: b deployed_def read_def key sol_deposit_key_def keccak_ok_def)
  then have "Bridge_deposits b (txid_of e wr t) (int i) (w\<lparr>ch_bridge := ?st'\<rparr>) =
      (parseDepositRequest (bh_ethers b) (raw_deposit_of ?d), w\<lparr>ch_bridge := ?st'\<rparr>)"
    using deposit_key [OF libs(6) txid_length [OF libs(4,5)] i, of ?tx] four
    by (simp add: Bridge_deposits_def txid_of_def key)
  moreover have "parseDepositRequest (bh_ethers b) (raw_deposit_of ?d) = Inr \<lparr>dq_depositor = EthereumAddress (bytes_to_hex a),
      dq_amount = int amount, dq_vault = vault_id v, dq_revealedAt = int (ch_time w mod 2 ^ 32),
      dq_sweptAt = int (dep_sweptAt (st_deposits ?st key)), dq_treasuryFee = int fee\<rparr>"
    using libs(7) receipt(3,4) parse_vault_text [OF libs(7) receipt(4)] small_uint32 [OF ok(2)]
    by (simp add: parseDepositRequest_def raw_deposit_of_def addresses_ok_def deposited_by_def small_mod)
  ultimately show ?thesis by (intro exI [of _ "w\<lparr>ch_bridge := ?st'\<rparr>"]) simp
qed

subsection \<open>Redemptions\<close>

text \<open>What the contract asks of a request besides the main UTXO of the wallet: \<open>fee\<close> is the
  treasury fee and \<open>x\<close> the state of the other contracts after it was computed, \<open>x'\<close> after the
  balance was transferred.\<close>

definition redeemable ::
  "btc_utils \<Rightarrow> 'x contracts \<Rightarrow> bytes \<Rightarrow> bytes \<Rightarrow> bytes \<Rightarrow> nat \<Rightarrow> nat \<Rightarrow> bytes \<Rightarrow> nat \<Rightarrow> 'x \<Rightarrow> 'x \<Rightarrow> 'x bridge_state \<Rightarrow> bool" where
  "redeemable u ext user pkh scr amount utxoValue key fee x x' st =
    (user \<noteq> address0 \<and>
     (st_redemptionWatchtower st = address0 \<or>
        isSafeRedemption ext (st_redemptionWatchtower st) pkh scr user user (st_contracts st) = Inr True) \<and>
     wal_state (st_registeredWallets st pkh) = Sol_Live \<and>
     (let payload = extractHashAt u scr 0 (length scr)
      in 0 < length payload \<and> (length payload \<noteq> 20 \<or> pkh \<noteq> bytes_slice u 20 payload 0)) \<and>
     st_redemptionDustThreshold st \<le> amount \<and> red_requestedAt (st_pendingRedemptions st key) = 0 \<and>
     treasury_fee ext (st_rebateStaking st) user FeeOfRedemption amount (st_redemptionTreasuryFeeDivisor st)
       (st_contracts st) = Inr (fee, x) \<and>
     fee \<le> amount \<and> wal_pendingRedemptionsValue (st_registeredWallets st pkh) + (amount - fee) \<le> utxoValue \<and>
     transferBalanceFrom ext user amount x = Inr x')"

text \<open>The request that such a call stores.\<close>

definition new_request :: "bytes \<Rightarrow> nat \<Rightarrow> nat \<Rightarrow> nat \<Rightarrow> 'x bridge_state \<Rightarrow> sol_redemption" where
  "new_request user time amount fee st = \<lparr>red_redeemer = user, red_requestedAmount = amount, red_treasuryFee = fee,
     red_txMaxFee = st_redemptionTxMaxFee st, red_requestedAt = time mod 2 ^ 32\<rparr>"

lemma request_sent:
  assumes "redeemable u ext user pkh scr amount (sol_txOutputValue m) (sol_redemption_key e pkh scr) fee x x' st"
    and "sol_txOutputValue m < 2 ^ 64" "wal_mainUtxoHash (st_registeredWallets st pkh) \<noteq> bytes32_0"
    and "evm_keccak256 e (sol_txHash m @ be_bytes 4 (sol_txOutputIndex m) @ be_bytes 8 (sol_txOutputValue m)) =
      wal_mainUtxoHash (st_registeredWallets st pkh)"
  shows "sol_requestRedemption e u ext time pkh m user user scr amount st =
    Inr (st\<lparr>st_registeredWallets := (st_registeredWallets st)(pkh := (st_registeredWallets st pkh)
             \<lparr>wal_pendingRedemptionsValue := wal_pendingRedemptionsValue (st_registeredWallets st pkh) + (amount - fee)\<rparr>),
           st_pendingRedemptions := (st_pendingRedemptions st)(sol_redemption_key e pkh scr := new_request user time amount fee st),
           st_redemptionEvents := st_redemptionEvents st @
             [\<lparr>srr_walletPubKeyHash = pkh, srr_redeemerOutputScript = scr, srr_redeemer = user, srr_requestedAmount = amount,
                srr_treasuryFee = fee, srr_txMaxFee = st_redemptionTxMaxFee st\<rparr>],
           st_contracts := x'\<rparr>)"
proof -
  have "(if st_redemptionWatchtower st \<noteq> address0
      then bind_res (isSafeRedemption ext (st_redemptionWatchtower st) pkh scr user user (st_contracts st)) (\<lambda>safe.
        sol_require safe ''Redemption request rejected by the watchtower'') else Inr ()) = Inr ()"
    using assms(1) by (auto simp: redeemable_def)
  then show ?thesis
    using assms unfolding sol_requestRedemption_def
    by (simp add: redeemable_def bind_require Let_def new_request_def checked_sub_def checked_add64_def
        del: Nat.add_diff_assoc)
qed

lemma utxo_hash:
  assumes "keccak_ok e lib" "length (hex_buf (op_transactionHash m)) = 32"
    and "op_outputIndex m = int i" "i < 2 ^ 32" "utxo_value m = int v" "v < 2 ^ 64"
  shows "Bridge_buildUtxoHash lib m = Inr (Hex (evm_keccak256 e (rev (hex_buf (op_transactionHash m)) @ be_bytes 4 i @ be_bytes 8 v)))"
    and "utxo_arg (utxo_of m) = Inr \<lparr>sol_txHash = rev (hex_buf (op_transactionHash m)), sol_txOutputIndex = i, sol_txOutputValue = v\<rparr>"
proof -
  let ?h = "rev (hex_buf (op_transactionHash m))"
  have h: "toPrefixedString (hex_reverse (op_transactionHash m)) = ''0x'' @ bytes_to_hex ?h"
    using assms(2) by (cases "op_transactionHash m", subst toPrefixedString_Hex [symmetric])
      (auto simp: hex_reverse_def toBuffer_def Hex_from_buffer_def)
  have "solidityKeccak256 lib [(''bytes32'', AbiText (''0x'' @ bytes_to_hex ?h)), (''uint32'', AbiInt (int i)), (''uint64'', AbiInt (int v))] =
      Inr (''0x'' @ bytes_to_hex (evm_keccak256 e (?h @ be_bytes 4 i @ be_bytes 8 v)))"
    using assms(2,4,6) by (intro keccak_text [OF assms(1)]) simp
  then show "Bridge_buildUtxoHash lib m = Inr (Hex (evm_keccak256 e (?h @ be_bytes 4 i @ be_bytes 8 v)))"
    using h assms(3,5) Hex_from_prefixed_hex_string by (simp add: Bridge_buildUtxoHash_def)
  show "utxo_arg (utxo_of m) = Inr \<lparr>sol_txHash = ?h, sol_txOutputIndex = i, sol_txOutputValue = v\<rparr>"
    using h assms by (simp add: utxo_arg_def utxo_of_def uint_arg_def)
qed

lemma redemption_key:
  assumes "keccak_ok e lib" "length pkh = 20"
  shows "buildRedemptionKey lib (Hex pkh) (Hex s) =
    Inr (''0x'' @ bytes_to_hex (sol_redemption_key e pkh (byte_of (length s) # s)))"
proof -
  let ?scr = "byte_of (length s) # s"
  have "solidityKeccak256 lib [(''bytes'', AbiText (prefixed_script (Hex s)))] = Inr (''0x'' @ bytes_to_hex (evm_keccak256 e ?scr))"
    by (intro keccak_text [OF assms(1)]) (simp add: prefixed_script_def toBuffer_def del: bytes_to_hex_simps)
  moreover have "solidityKeccak256 lib [(''bytes32'', AbiText (''0x'' @ bytes_to_hex (evm_keccak256 e ?scr))),
      (''bytes20'', AbiText (''0x'' @ bytes_to_hex pkh))] = Inr (''0x'' @ bytes_to_hex (sol_redemption_key e pkh ?scr))"
    using assms unfolding sol_redemption_key_def by (intro keccak_text [OF assms(1)]) (simp add: keccak_ok_def)
  ultimately show ?thesis by (simp add: buildRedemptionKey_def toString_def)
qed

text \<open>C8: A redemption that the client requests is found again. The main UTXO is the one the
  contract has on file for the wallet, by the hash that the client itself computes for it, and the
  contract's other conditions hold. Then requestRedemption of the handle sends the transaction, and
  pendingRedemptions for the same wallet key and output script returns the request: the account
  as the redeemer, the script, the amount, the fees of that moment and the time of the block. The
  value pending on the wallet has grown by the amount less the fee, and no other request and no other
  wallet is touched.\<close>

theorem requested_redemption_is_found:
  assumes libs: "crypto_ok (hash_functions (bh_ethers b))" "keccak_ok e (bh_ethers b)" "addresses_ok (bh_ethers b)"
      "quiet (bh_ethers b)"
    and b: "bh_contract b = deployed e u ext txHash a other" "length a = 20"
    and pkh: "pk \<noteq> []" "computeHash160 (hash_functions (bh_ethers b)) (Hex pk) = Inr (Hex pkh)"
    and utxo: "length (hex_buf (op_transactionHash m)) = 32" "op_outputIndex m = int i" "i < 2 ^ 32"
      "utxo_value m = int v" "v < 2 ^ 64"
      "Bridge_buildUtxoHash (bh_ethers b) m = Inr (Hex (wal_mainUtxoHash (st_registeredWallets (ch_bridge w) pkh)))"
      "wal_mainUtxoHash (st_registeredWallets (ch_bridge w) pkh) \<noteq> bytes32_0"
    and key: "key = sol_redemption_key e pkh (byte_of (length s) # s)"
    and ok: "redeemable u ext a pkh (byte_of (length s) # s) amount v key fee x x' (ch_bridge w)" "amount < 2 ^ 64"
  shows "\<exists>w'. Bridge_requestRedemption b (Hex pk) m (Hex s) (int amount) w = (Inr (Hex (txHash w)), w') \<and>
    Bridge_pendingRedemptions b (Hex pk) (Hex s) w' =
      (Inr \<lparr>rr_redeemer = EthereumAddress (bytes_to_hex a), rr_redeemerOutputScript = Hex s, rr_requestedAmount = int amount,
         rr_treasuryFee = int fee, rr_txMaxFee = int (st_redemptionTxMaxFee (ch_bridge w)),
         rr_requestedAt = int (ch_time w mod 2 ^ 32)\<rparr>, w') \<and>
    st_registeredWallets (ch_bridge w') = (st_registeredWallets (ch_bridge w))(pkh := (st_registeredWallets (ch_bridge w) pkh)
      \<lparr>wal_pendingRedemptionsValue := wal_pendingRedemptionsValue (st_registeredWallets (ch_bridge w) pkh) + (amount - fee)\<rparr>) \<and>
    (st_pendingRedemptions (ch_bridge w'))(key := st_pendingRedemptions (ch_bridge w) key) = st_pendingRedemptions (ch_bridge w)"
proof -
  let ?st = "ch_bridge w" and ?scr = "byte_of (length s) # s" and ?lib = "bh_ethers b"
  let ?m = "\<lparr>sol_txHash = rev (hex_buf (op_transactionHash m)), sol_txOutputIndex = i, sol_txOutputValue = v\<rparr>"
  let ?req = "new_request a (ch_time w) amount fee ?st"
  have l: "length pkh = 20" using computeHash160_bytes [OF libs(1) pkh(1)] pkh(2) by simp
  have pre: "toPrefixedString (Hex pkh) = ''0x'' @ bytes_to_hex pkh" by (rule toPrefixedString_Hex) (use l in auto)
  note hash = utxo_hash [OF libs(2) utxo(1-5)]
  let ?st' = "?st\<lparr>st_registeredWallets := (st_registeredWallets ?st)(pkh := (st_registeredWallets ?st pkh)
        \<lparr>wal_pendingRedemptionsValue := wal_pendingRedemptionsValue (st_registeredWallets ?st pkh) + (amount - fee)\<rparr>),
      st_pendingRedemptions := (st_pendingRedemptions ?st)(key := ?req),
      st_redemptionEvents := st_redemptionEvents ?st @
        [\<lparr>srr_walletPubKeyHash = pkh, srr_redeemerOutputScript = ?scr, srr_redeemer = a, srr_requestedAmount = amount,
          srr_treasuryFee = fee, srr_txMaxFee = st_redemptionTxMaxFee ?st\<rparr>],
      st_contracts := x'\<rparr>"
  have "sol_requestRedemption e u ext (ch_time w) pkh ?m a a ?scr amount ?st = Inr ?st'"
    using request_sent [of u ext a pkh ?scr amount ?m e fee x x' ?st "ch_time w"] ok(1) utxo(5-7) hash(1) by (simp add: key)
  then have call: "bc_requestRedemption (bh_contract b) (toPrefixedString (Hex pkh)) (utxo_of m) (prefixed_script (Hex s)) (int amount) w =
      (Inr (''0x'' @ bytes_to_hex (txHash w)), w\<lparr>ch_bridge := ?st'\<rparr>)"
    using hash(2) pre l ok(2)
    by (simp add: b(1) deployed_def transact_def prefixed_script_def toBuffer_def uint_arg_def del: bytes_to_hex_simps)
  have "sent ?lib (bh_handle b) None (bc_requestRedemption (bh_contract b) (toPrefixedString (Hex pkh)) (utxo_of m)
      (prefixed_script (Hex s)) (int amount)) w = (Inr (Hex (txHash w)), w\<lparr>ch_bridge := ?st'\<rparr>)"
    by (rule quiet_sent, rule libs(4), rule call)
  then have "Bridge_requestRedemption b (Hex pk) m (Hex s) (int amount) w = (Inr (Hex (txHash w)), w\<lparr>ch_bridge := ?st'\<rparr>)"
    by (simp add: Bridge_requestRedemption_def pkh(2))
  moreover have "retried ?lib (bh_handle b) (bc_pendingRedemptions (bh_contract b) (''0x'' @ bytes_to_hex key))
      (w\<lparr>ch_bridge := ?st'\<rparr>) = (Inr (raw_redemption_of ?req), w\<lparr>ch_bridge := ?st'\<rparr>)"
    using libs(2) by (intro quiet_retried [OF libs(4)]) (simp add: b(1) deployed_def read_def key sol_redemption_key_def keccak_ok_def)
  then have "Bridge_pendingRedemptions b (Hex pk) (Hex s) (w\<lparr>ch_bridge := ?st'\<rparr>) =
      (parseRedemptionRequest ?lib (raw_redemption_of ?req) (Hex s), w\<lparr>ch_bridge := ?st'\<rparr>)"
    using redemption_key [OF libs(2) l, of s]
    by (simp add: Bridge_pendingRedemptions_def Bridge_pendingRedemptionsByWalletPKH_def pkh(2) key)
  moreover have "parseRedemptionRequest ?lib (raw_redemption_of ?req) (Hex s) = Inr \<lparr>rr_redeemer = EthereumAddress (bytes_to_hex a),
      rr_redeemerOutputScript = Hex s, rr_requestedAmount = int amount, rr_treasuryFee = int fee,
      rr_txMaxFee = int (st_redemptionTxMaxFee ?st), rr_requestedAt = int (ch_time w mod 2 ^ 32)\<rparr>"
    using libs(3) b(2) by (simp add: parseRedemptionRequest_def raw_redemption_of_def new_request_def addresses_ok_def small_mod)
  ultimately show ?thesis by (intro exI [of _ "w\<lparr>ch_bridge := ?st'\<rparr>"]) simp
qed

text \<open>A redemption to a P2WSH script, from a wallet whose main UTXO is the one on file.\<close>

definition sample_main_utxo :: BitcoinUtxo where
  "sample_main_utxo = \<lparr>op_transactionHash = Hex (replicate 32 9), op_outputIndex = 0, utxo_value = 500000\<rparr>"

definition sample_redeemer_script :: bytes where
  "sample_redeemer_script = [0x00, 0x20] @ replicate 32 7"

definition sample_utxo_hash :: bytes where
  "sample_utxo_hash = evm_keccak256 sample_evm (replicate 32 9 @ be_bytes 4 0 @ be_bytes 8 500000)"

lemma be_bytes_known: "length bs = n \<Longrightarrow> be_nat bs = x \<Longrightarrow> be_bytes n x = bs"
  using be_bytes_be_nat [of bs] by simp

lemma sample_utxo_hash_nonzero: "sample_utxo_hash \<noteq> bytes32_0"
proof -
  have z: "replicate 32 (0 :: byte) = [0, 0, 0, 0, 0, 0, 0, 0, 0, 0, 0, 0, 0, 0, 0, 0, 0, 0, 0, 0, 0, 0, 0, 0, 0, 0, 0, 0, 0, 0, 0, 0]"
    "replicate 32 (9 :: byte) = [9, 9, 9, 9, 9, 9, 9, 9, 9, 9, 9, 9, 9, 9, 9, 9, 9, 9, 9, 9, 9, 9, 9, 9, 9, 9, 9, 9, 9, 9, 9, 9]"
    by (simp_all add: numeral_eq_Suc)
  have "be_bytes 4 0 = [0, 0, 0, 0]" "be_bytes 8 500000 = [0, 0, 0, 0, 0, 7, 161, 32]"
    by (rule be_bytes_known; simp add: be_nat_def)+
  then have "hd sample_utxo_hash = 10" unfolding sample_utxo_hash_def sample_evm_def evm.simps z by simp
  moreover have "hd bytes32_0 = 0" unfolding bytes32_0_def z by simp
  ultimately show ?thesis by auto
qed

theorem requested_redemption_is_found_witness:
  "\<exists>w'. Bridge_requestRedemption sample_bridge_handle sample_wallet_key sample_main_utxo (Hex sample_redeemer_script) 10000
       \<lparr>ch_bridge = sample_state sample_utxo_hash, ch_time = 1000\<rparr> = (Inr (Hex (be_bytes 32 1000)), w') \<and>
     Bridge_pendingRedemptions sample_bridge_handle sample_wallet_key (Hex sample_redeemer_script) w' =
       (Inr \<lparr>rr_redeemer = sample_owner, rr_redeemerOutputScript = Hex sample_redeemer_script, rr_requestedAmount = 10000,
          rr_treasuryFee = 5, rr_txMaxFee = 10, rr_requestedAt = 1000\<rparr>, w')"
proof -
  let ?w = "\<lparr>ch_bridge = sample_state sample_utxo_hash, ch_time = 1000\<rparr>" and ?pk = "2 # replicate 32 1 :: bytes"
  let ?scr = "byte_of (length sample_redeemer_script) # sample_redeemer_script"
  have b: "bh_ethers sample_bridge_handle = sample_chain_ethers"
    "bh_contract sample_bridge_handle = deployed sample_evm sample_utils sample_ext sample_tx_hash sample_account sample_rest"
    by (simp_all add: sample_bridge_handle_def)
  have c: "hash_functions sample_chain_ethers = sample_crypto" by (simp add: sample_chain_ethers_def)
  have a: "length sample_account = 20" "?pk \<noteq> []" by (simp_all add: sample_account_def)
  obtain pkh where pkh: "computeHash160 sample_crypto (Hex ?pk) = Inr (Hex pkh)"
    using computeHash160_bytes(1) [OF crypto_ok_sample a(2)] by blast
  have u: "length (hex_buf (op_transactionHash sample_main_utxo)) = 32" "op_outputIndex sample_main_utxo = int 0"
    "(0 :: nat) < 2 ^ 32" "utxo_value sample_main_utxo = int 500000" "(500000 :: nat) < 2 ^ 64"
    by (simp_all add: sample_main_utxo_def)
  have h: "Bridge_buildUtxoHash sample_chain_ethers sample_main_utxo =
      Inr (Hex (wal_mainUtxoHash (st_registeredWallets (ch_bridge ?w) pkh)))"
    "wal_mainUtxoHash (st_registeredWallets (ch_bridge ?w) pkh) \<noteq> bytes32_0"
    using utxo_hash(1) [OF keccak_ok_sample u] sample_utxo_hash_nonzero
    by (simp_all add: sample_state_def sample_utxo_hash_def sample_main_utxo_def)
  have ok: "redeemable sample_utils sample_ext sample_account pkh ?scr 10000 500000
      (sol_redemption_key sample_evm pkh ?scr) 5 () () (ch_bridge ?w)" "(10000 :: nat) < 2 ^ 64"
    by (simp_all add: redeemable_def sample_state_def sample_utils_def sample_ext_def treasury_fee_def sample_account_def
        address0_def sample_redeemer_script_def)
  have v: "sample_wallet_key = Hex ?pk" "sample_tx_hash ?w = be_bytes 32 1000"
    "EthereumAddress (bytes_to_hex sample_account) = sample_owner" "st_redemptionTxMaxFee (ch_bridge ?w) = 10"
    by (simp_all add: sample_wallet_key_def sample_tx_hash_def sample_account_def sample_owner_def sample_state_def)
  show ?thesis
    using requested_redemption_is_found [of sample_bridge_handle, unfolded b(1) c, OF crypto_ok_sample keccak_ok_sample
        addresses_ok_sample quiet_sample b(2) a pkh u h refl ok]
    unfolding v by simp blast
qed

end
