(* ===== verification/EndToEnd.thy ===== *)
theory EndToEnd
  imports OnChainClaims
begin

section \<open>A deposit from the receipt to the contract\<close>

text \<open>
  The parts of the library composed: the deposit service makes a receipt and an address, somebody
  pays to the address on Bitcoin, the deposit object finds the output, takes the transaction apart
  and reveals it through the Ethereum handle to the contract, where the handle finds it again.
\<close>

subsection \<open>Hypotheses\<close>

text \<open>The output script of the address of a P2WSH output is that output; the clock has passed a time.\<close>

definition addresses_pay :: "btcjs \<Rightarrow> bool" where
  "addresses_pay lib = (\<forall>out n p. p2wsh lib (OutputNetArg out n) = Inr p \<longrightarrow>
     address_toOutputScript lib (pay_address p) n = Inr out)"

definition clock_after :: "'w system \<Rightarrow> int \<Rightarrow> bool" where
  "clock_after sys t = (\<forall>w s w'. getTime sys w = (Inr s, w') \<longrightarrow> t \<le> s)"

subsection \<open>The deposit object\<close>

text \<open>What a deposit of the service consists of.\<close>

lemma initiated_deposit:
  assumes "crypto_ok c" "payment_hashes_ok lib" "random_ok sys" "active_wallet_ok (tc_bridge (svc_tbtcContracts svc))"
    and "svc_defaultDepositor svc = Some depositor"
    and "initiateDeposit c lib sys svc addr extra w = (Inr d, w')"
  shows "receipt_ok (getReceipt d)" "extra_ok (getReceipt d)" "dr_depositor (getReceipt d) = depositor"
    "d_script d = \<lparr>ds_receipt = getReceipt d, ds_witness = True\<rparr>" "d_depositorProxy d = None"
    "d_tbtcContracts d = svc_tbtcContracts svc" "d_bitcoinClient d = svc_bitcoinClient svc"
    "\<exists>t w1 w2. getTime sys w1 = (Inr t, w2) \<and> t div 1000 + 23328000 < 2 ^ 32 \<and> 0 \<le> t div 1000 + 23328000 \<and>
       dr_refundLocktime (getReceipt d) = Hex (le_bytes 4 (nat (t div 1000 + 23328000)))"
proof -
  obtain r w1 where g: "generateDepositReceipt c lib sys svc addr depositor extra w = (Inr r, w1)"
    and f: "Deposit_fromReceipt r (svc_tbtcContracts svc) (svc_bitcoinClient svc) None w1 = (Inr d, w')"
    using assms(5,6) by (auto simp: initiateDeposit_def bind_io_Inr)
  have r: "getReceipt d = r" using Deposit_fromReceipt_receipt [OF f] by simp
  note ok = generated_receipt_ok [OF assms(1-4) g]
  show "receipt_ok (getReceipt d)" "extra_ok (getReceipt d)" "dr_depositor (getReceipt d) = depositor"
    using ok by (auto simp: r extra_ok_def bytes32_0_def)
  show "\<exists>t w1 w2. getTime sys w1 = (Inr t, w2) \<and> t div 1000 + 23328000 < 2 ^ 32 \<and> 0 \<le> t div 1000 + 23328000 \<and>
      dr_refundLocktime (getReceipt d) = Hex (le_bytes 4 (nat (t div 1000 + 23328000)))"
    unfolding r by (rule generated_locktime [OF g])
  show "d_script d = \<lparr>ds_receipt = getReceipt d, ds_witness = True\<rparr>" "d_depositorProxy d = None"
    "d_tbtcContracts d = svc_tbtcContracts svc" "d_bitcoinClient d = svc_bitcoinClient svc"
    using f ok receipt_ok_script [of r True] by (auto simp: Deposit_fromReceipt_def bind_io_Inr getReceipt_def)
qed

text \<open>An output of its address pays to its script.\<close>

lemma address_pays:
  assumes "addresses_pay lib" "d_script d = \<lparr>ds_receipt = r, ds_witness = True\<rparr>"
    and "getBitcoinAddress c lib d = Inr address" "addressToOutputScript lib address (d_bitcoinNetwork d) = Inr script"
  shows "pays_to c lib \<lparr>ds_receipt = r, ds_witness = True\<rparr> (hex_buf script)"
proof -
  obtain h n p where p: "getHash c lib \<lparr>ds_receipt = r, ds_witness = True\<rparr> = Inr h"
    "toBitcoinJsLibNetwork (d_bitcoinNetwork d) = Inr n" "p2wsh lib (OutputNetArg ([0x00, 0x20] @ h) n) = Inr p"
    "address = pay_address p"
    using assms(2,3) by (auto simp: getBitcoinAddress_def deriveAddress_def res_simps)
  have "address_toOutputScript lib address n = Inr ([0x00, 0x20] @ h)"
    using assms(1) p(3,4) unfolding addresses_pay_def by blast
  then have "hex_buf script = [0x00, 0x20] @ h"
    using assms(4) p(2) by (auto simp: addressToOutputScript_def Hex_from_buffer_def)
  then show ?thesis using p(1) by (simp add: pays_to_def)
qed

subsection \<open>From the receipt to the contract\<close>

text \<open>The contract takes a reveal whose locktime lies far enough ahead.\<close>

lemma accepts_in_time:
  assumes "dr_refundLocktime r = Hex (le_bytes 4 (nat locktime))" "500000000 \<le> locktime" "locktime < 2 ^ 32"
    and "int (time + st_depositRevealAheadPeriod st) \<le> locktime"
    and "wal_state (st_registeredWallets st (hex_buf (dr_walletPublicKeyHash r))) = Sol_Live"
    and "v = address0 \<or> st_isVaultTrusted st v" "dep_revealedAt (st_deposits st key) = 0"
    and "st_depositDustThreshold st \<le> amount"
  shows "accepts time st r v amount key"
  using assms by (auto simp: accepts_def le_nat_le_bytes)

lemma EthereumBridge_operations:
  assumes "EthereumBridge b = Inr br"
  shows "bridge_revealDeposit br = Bridge_revealDeposit b" "bridge_deposits br = Bridge_deposits b"
  using assms by (auto simp: EthereumBridge_def res_simps)

text \<open>C2: A deposit goes from the service to the contract. The service makes a deposit for its default
  depositor, the account that signs, while its clock is past 1985; somebody pays to the address of the
  deposit; the Bitcoin client reports the output and its transaction under the identifier of that
  transaction. If then the wallet of the receipt is live, the vault of the contracts is trusted, less
  than nine months are left out by the contract's period for reveals since the receipt was made, the
  value is not dust and the output was not revealed, initiateMinting without an outpoint detects the
  output and reveals it, and the bridge returns the deposit for the output: the account, the value,
  the vault, the time of the block and the fee.\<close>

theorem initiated_deposit_reaches_contract:
  assumes libs: "writes wr" "reads u" "compiles lib" "addresses_pay lib" "payment_hashes_ok lib" "crypto_ok c"
      "same_hashes e c" "keccak_ok e (bh_ethers b)" "addresses_ok (bh_ethers b)" "quiet (bh_ethers b)"
    and service: "random_ok sys" "clock_after sys clock" "500000000000 \<le> clock"
      "active_wallet_ok (tc_bridge (svc_tbtcContracts svc))" "EthereumBridge b = Inr (tc_bridge (svc_tbtcContracts svc))"
      "svc_defaultDepositor svc = Some (EthereumAddress (bytes_to_hex a))"
      "tc_vaultIdentifier (svc_tbtcContracts svc) = EthereumAddress (bytes_to_hex v)" "length v = 20" "v \<noteq> address0"
    and contract: "bh_contract b = deployed e u ext txHash a other" "length a = 20"
    and initiated: "initiateDeposit c lib sys svc recovery extra w0 = (Inr d, w1)"
    and funded: "getBitcoinAddress c lib d = Inr address" "small_tx t" "i < length (tx_outs t)"
      "addressToOutputScript lib address (d_bitcoinNetwork d) = Inr (Hex (out_script (tx_outs t ! i)))"
      "amount = nat (out_value (tx_outs t ! i))"
    and reported: "findAllUnspentTransactionOutputs (svc_bitcoinClient svc) address w = (Inr (utxo # others), w2)"
      "op_transactionHash utxo = txid_of e wr t" "op_outputIndex utxo = int i"
      "getRawTransaction (svc_bitcoinClient svc) (op_transactionHash utxo) w2 = (Inr raw, w3)"
      "tx_fromBuffer lib (hex_to_bytes (transactionHex raw)) = Inr t"
    and key: "key = sol_deposit_key e (sol_txid e (sol_tx_of wr t)) i"
    and ready: "wal_state (st_registeredWallets (ch_bridge w3) (hex_buf (dr_walletPublicKeyHash (getReceipt d)))) = Sol_Live"
      "st_isVaultTrusted (ch_bridge w3) v"
      "int (ch_time w3 + st_depositRevealAheadPeriod (ch_bridge w3)) \<le> clock div 1000 + 9 * 30 * 24 * 60 * 60"
      "st_depositDustThreshold (ch_bridge w3) \<le> amount" "dep_revealedAt (st_deposits (ch_bridge w3) key) = 0"
      "dep_sweptAt (st_deposits (ch_bridge w3) key) < 2 ^ 32"
    and fee: "treasury_fee ext (st_rebateStaking (ch_bridge w3)) a FeeOfDeposit amount
      (st_depositTreasuryFeeDivisor (ch_bridge w3)) (st_contracts (ch_bridge w3)) = Inr (fee, x)"
  shows "\<exists>w4. initiateMinting c lib wr d None w = (Inr (HexResult (Hex (txHash w3))), w4) \<and>
    bridge_deposits (tc_bridge (svc_tbtcContracts svc)) (op_transactionHash utxo) (op_outputIndex utxo) w4 =
      (Inr \<lparr>dq_depositor = EthereumAddress (bytes_to_hex a), dq_amount = int amount,
         dq_vault = Some (EthereumAddress (bytes_to_hex v)), dq_revealedAt = int (ch_time w3 mod 2 ^ 32),
         dq_sweptAt = int (dep_sweptAt (st_deposits (ch_bridge w3) key)), dq_treasuryFee = int fee\<rparr>, w4)"
proof -
  let ?r = "getReceipt d"
  note made = initiated_deposit [OF libs(6,5) service(1,4,6) initiated]
  note ops = EthereumBridge_operations [OF service(5)]
  obtain s x1 x2 where s: "getTime sys x1 = (Inr s, x2)" "s div 1000 + 23328000 < 2 ^ 32"
    "dr_refundLocktime ?r = Hex (le_bytes 4 (nat (s div 1000 + 23328000)))"
    using made(8) by blast
  have "clock \<le> s" using service(2) s(1) by (auto simp: clock_after_def)
  then have "clock div 1000 \<le> s div 1000" "500000000 \<le> s div 1000" using service(3) by (auto intro: zdiv_mono1)
  then have ok: "accepts (ch_time w3) (ch_bridge w3) ?r v amount key"
    using ready(1-5) s(2) by (intro accepts_in_time [OF s(3)]) auto
  have by_a: "deposited_by ?r a" using made(3) contract(2) by (simp add: deposited_by_def)
  have pays: "pays_to c lib \<lparr>ds_receipt = ?r, ds_witness = True\<rparr> (out_script (tx_outs t ! i))"
    using address_pays [OF libs(4) made(4) funded(1,4)] by simp
  have vid: "vault_id v = Some (EthereumAddress (bytes_to_hex v))" using service(9) by (simp add: vault_id_def)
  obtain w4 where w4: "Bridge_revealDeposit b (vectors_of wr t) (int i) ?r (vault_id v) w3 = (Inr (Hex (txHash w3)), w4)"
    "Bridge_deposits b (txid_of e wr t) (int i) w4 = (Inr \<lparr>dq_depositor = EthereumAddress (bytes_to_hex a), dq_amount = int amount,
       dq_vault = vault_id v, dq_revealedAt = int (ch_time w3 mod 2 ^ 32),
       dq_sweptAt = int (dep_sweptAt (st_deposits (ch_bridge w3) key)), dq_treasuryFee = int fee\<rparr>, w4)"
    using revealed_deposit_is_found [OF libs(1-3,6-10) contract(1) made(1,2) by_a service(8) funded(2,3,5) pays key ok ready(6) fee]
    by blast
  have "detectFunding c lib d w = (Inr (utxo # others), w2)"
    using funded(1) reported(1) made(7) by (simp add: detectFunding_def bind_io_def)
  then have "initiateMinting c lib wr d None w = (Inr (HexResult (Hex (txHash w3))), w4)"
    using reported(2-5) made(5-7) extractBitcoinRawTxVectors_of [OF reported(5)] w4(1) ops(1) service(7) vid
    by (simp add: initiateMinting_def bind_io_def BitcoinTxOutpoint.defs)
  then show ?thesis using w4(2) reported(2,3) ops(2) vid by simp
qed

subsection \<open>An instance\<close>

lemma retried_return: "quiet lib \<Longrightarrow> retried lib h (return_io x) w = (Inr x, w)"
  by (rule quiet_retried) (simp_all add: return_io_def)

lemmas sample_retried = retried_return [OF quiet_sample]

lemma sample_registry:
  "Bridge_registry sample_bridge_handle w = (Inr (\<lparr>handle_address = address_text (replicate 20 6), deployedAtBlockNumber = 0,
     handle_totalRetryAttempts = 3\<rparr>, bh_registry_at sample_bridge_handle (address_text (replicate 20 6))), w)"
  by (simp add: Bridge_registry_def sample_bridge_handle_def deployed_def sample_rest_def new_EthereumWalletRegistry_def
      new_handle_def make_handle_def Ethereum_Local_def Let_def bind_io_def sample_retried)

lemma sample_parts:
  "bh_ethers sample_bridge_handle = sample_chain_ethers"
  "bc_activeWalletPubKeyHash (bh_contract sample_bridge_handle) = return_io (address_text (replicate 20 2))"
  "bc_wallets (bh_contract sample_bridge_handle) hash = return_io sample_raw_wallet"
  "rc_getWalletPublicKey (bh_registry_at sample_bridge_handle addr) key =
     return_io (''0x'' @ bytes_to_hex (replicate 32 1 @ replicate 32 2))"
  by (simp_all add: sample_bridge_handle_def deployed_def sample_rest_def)

lemma sample_key: "getWalletCompressedPublicKey sample_bridge_handle (Hex (replicate 32 5)) w = (Inr (Some sample_wallet_key), w)"
proof -
  have c: "compressPublicKey (Hex (replicate 32 1 @ replicate 32 2)) = Inr (bytes_to_hex (2 # replicate 32 1))"
    by (subst compressPublicKey_xy) simp_all
  have "Hex_from_string (drop 2 (''0x'' @ bytes_to_hex (replicate 32 1 @ replicate 32 2))) =
      Inr (Hex (replicate 32 1 @ replicate 32 2))"
    using Hex_from_hex_string [of "replicate 32 1 @ replicate 32 2"] by simp
  then have "Registry_getWalletPublicKey sample_chain_ethers h (bh_registry_at sample_bridge_handle addr) key w =
      (Inr (Hex (replicate 32 1 @ replicate 32 2)), w)" for h addr key
    by (simp add: Registry_getWalletPublicKey_def sample_parts sample_retried bind_io_def lift_io_def del: bytes_to_hex_simps)
  then show ?thesis
    using Hex_from_hex_string [of "2 # replicate 32 1"]
    by (simp add: getWalletCompressedPublicKey_def sample_registry sample_parts bind_io_def catch_io_def c lift_io_def
        sample_wallet_key_def del: bytes_to_hex_simps)
qed

lemma sample_wallet: "\<exists>wallet. Bridge_wallets sample_bridge_handle h w = (Inr wallet, w) \<and> w_walletPublicKey wallet = Some sample_wallet_key"
  using sample_key Hex_from_prefixed_hex_string
  by (simp add: Bridge_wallets_def parseWalletDetails_def sample_parts sample_retried sample_raw_wallet_def bind_io_def lift_io_def)

lemma sample_active: "Bridge_activeWalletPublicKey sample_bridge_handle w = (Inr (Some sample_wallet_key), w)"
proof -
  let ?a = "address_text (replicate 20 2)"
  have n: "?a \<noteq> ''0x0000000000000000000000000000000000000000''"
    unfolding address_text_def by code_simp
  have h: "Hex_from_string ?a = Inr (Hex (replicate 20 2))"
    using Hex_from_prefixed_hex_string by (simp add: address_text_def)
  obtain wallet where wallet: "Bridge_wallets sample_bridge_handle (Hex (replicate 20 2)) w = (Inr wallet, w)"
    "w_walletPublicKey wallet = Some sample_wallet_key"
    using sample_wallet by blast
  have "retried (bh_ethers sample_bridge_handle) (bh_handle sample_bridge_handle)
      (bc_activeWalletPubKeyHash (bh_contract sample_bridge_handle)) w = (Inr ?a, w)"
    unfolding sample_parts by (rule sample_retried)
  then show ?thesis
    using n h wallet by (simp only: Bridge_activeWalletPublicKey_def bind_io_def lift_io_def prod.case sum.case if_False return_io_app)
qed

text \<open>The receipt that the service makes, a transaction that pays to it and a Bitcoin client that knows
  the transaction.\<close>

definition deposit_receipt :: DepositReceipt where
  "deposit_receipt = \<lparr>dr_depositor = EthereumAddress (bytes_to_hex sample_account), dr_blindingFactor = Hex (replicate 8 7),
     dr_walletPublicKeyHash = Hex (evm_hash160 sample_evm (2 # replicate 32 1)),
     dr_refundPublicKeyHash = Hex (replicate 20 3), dr_refundLocktime = Hex (le_bytes 4 1723328000), dr_extraData = None\<rparr>"

definition deposit_output :: bytes where
  "deposit_output = [0x00, 0x20] @ evm_sha256 sample_evm (script_compile sample_btcjs (deposit_chunks deposit_receipt))"

definition deposit_tx :: js_tx where
  "deposit_tx = \<lparr>tx_version = 1, tx_ins = [], tx_outs = [\<lparr>out_value = 100000, out_script = deposit_output\<rparr>], tx_locktime = 0\<rparr>"

definition deposit_lib :: btcjs where
  "deposit_lib = sample_btcjs\<lparr>tx_fromBuffer := (\<lambda>_. Inr deposit_tx)\<rparr>"

definition deposit_utxo :: BitcoinUtxo where
  "deposit_utxo = \<lparr>op_transactionHash = txid_of sample_evm sample_bufio deposit_tx, op_outputIndex = 0, utxo_value = 100000\<rparr>"

definition deposit_client :: "'w bitcoin_client" where
  "deposit_client = \<lparr>getNetwork = return_io Testnet,
     findAllUnspentTransactionOutputs = (\<lambda>_. return_io [deposit_utxo]),
     getTransactionHistory = (\<lambda>_ _. missing), getTransaction = (\<lambda>_. missing),
     getRawTransaction = (\<lambda>_. return_io \<lparr>transactionHex = ''00''\<rparr>),
     getTransactionConfirmations = (\<lambda>_. missing), getTxHashesForPublicKeyHash = (\<lambda>_. missing),
     latestBlockHeight = missing, getHeadersChain = (\<lambda>_ _. missing), getTransactionMerkle = (\<lambda>_ _. missing),
     broadcast = (\<lambda>_. missing), getCoinbaseTxHash = (\<lambda>_. missing)\<rparr>"

definition deposit_vault :: bytes where
  "deposit_vault = replicate 20 8"

definition deposit_service :: "unit chain bridge \<Rightarrow> unit chain DepositsService" where
  "deposit_service br = setDefaultDepositor (EthereumAddress (bytes_to_hex sample_account))
     (new_DepositsService \<lparr>tc_bridge = br, tc_tbtcToken = sample_token,
       tc_vaultIdentifier = EthereumAddress (bytes_to_hex deposit_vault)\<rparr> deposit_client None)"

definition deposit_world :: "unit chain" where
  "deposit_world = \<lparr>ch_bridge = (sample_state bytes32_0)\<lparr>st_isVaultTrusted := (\<lambda>_. True)\<rparr>, ch_time = 1700000500\<rparr>"

definition deposit_object :: "unit chain bridge \<Rightarrow> unit chain Deposit" where
  "deposit_object br = \<lparr>d_script = \<lparr>ds_receipt = deposit_receipt, ds_witness = True\<rparr>,
     d_tbtcContracts = svc_tbtcContracts (deposit_service br), d_bitcoinClient = deposit_client,
     d_depositorProxy = None, d_bitcoinNetwork = Testnet\<rparr>"

lemma deposit_lib_ok: "compiles deposit_lib" "addresses_pay deposit_lib" "payment_hashes_ok deposit_lib"
proof -
  show "compiles deposit_lib" using compiles_sample by (simp add: compiles_def deposit_lib_def)
  show "addresses_pay deposit_lib"
    by (auto simp: addresses_pay_def deposit_lib_def sample_btcjs_def sample_payment_def Let_def)
  show "payment_hashes_ok deposit_lib"
    using sample_environment_ok(1) by (simp add: payment_hashes_ok_def deposit_lib_def sample_btcjs_def)
qed

lemma clock_sample: "clock_after sample_system 1700000000123"
  by (simp add: clock_after_def sample_system_def)

lemma deposit_wallet_hash: "computeHash160 sample_crypto sample_wallet_key = Inr (Hex (evm_hash160 sample_evm (2 # replicate 32 1)))"
  using computeHash160_bytes(1) [OF crypto_ok_sample, of "2 # replicate 32 1"]
    same_hash [OF same_hashes_sample, of "2 # replicate 32 1"] by (simp add: sample_wallet_key_def)

lemma deposit_receipt_ok: "receipt_ok deposit_receipt"
  by (simp add: receipt_ok_def deposit_receipt_def sample_hash_sizes)

lemma deposit_initiated:
  assumes "EthereumBridge sample_bridge_handle = Inr br"
  shows "initiateDeposit sample_crypto deposit_lib sample_system (deposit_service br) sample_recovery_address None w =
    (Inr (deposit_object br), w)"
proof -
  have a: "activeWalletPublicKey br w = (Inr (Some sample_wallet_key), w)" for w
    using assms sample_active by (auto simp: EthereumBridge_def res_simps)
  have l: "calculateLocktime 1700000000 23328000 = Inr (Hex (le_bytes 4 1723328000))"
    by (simp add: calculateLocktime_iff)
  have "generateDepositReceipt sample_crypto deposit_lib sample_system (deposit_service br) sample_recovery_address
      (EthereumAddress (bytes_to_hex sample_account)) None w = (Inr deposit_receipt, w)"
    using a l deposit_wallet_hash
    by (simp add: generateDepositReceipt_def deposit_service_def new_DepositsService_def setDefaultDepositor_def
        sample_system_def deposit_client_def bind_io_def isP2PKHScript_def deposit_lib_def sample_btcjs_def
        sample_payment_def addressToOutputScript_def addressToPublicKeyHash_def sample_recovery_address_def
        depositRefundLocktimeDuration_def Let_def deposit_receipt_def checkExtraData_def Hex_from_buffer_def lift_io_def)
  then show ?thesis
    using receipt_ok_script [OF deposit_receipt_ok]
    by (simp add: initiateDeposit_def deposit_service_def setDefaultDepositor_def new_DepositsService_def bind_io_def
        Deposit_fromReceipt_def deposit_client_def lift_io_def deposit_object_def)
qed

lemma deposit_address:
  "getBitcoinAddress sample_crypto deposit_lib (deposit_object br) = Inr (bytes_to_hex deposit_output)"
  "addressToOutputScript deposit_lib (bytes_to_hex deposit_output) Testnet = Inr (Hex deposit_output)"
proof -
  let ?s = "script_compile sample_btcjs (deposit_chunks deposit_receipt)"
  have n: "?s \<noteq> []" by (simp add: sample_btcjs_def deposit_chunks_def)
  have "computeSha256 sample_crypto (Hex ?s) = Inr (Hex (evm_sha256 sample_evm ?s))"
    using computeSha256_bytes [OF _ n, of sample_crypto] crypto_ok_sample same_hash(1) [OF same_hashes_sample n]
    by (simp add: crypto_ok_def)
  moreover have "script_compile deposit_lib = script_compile sample_btcjs" "p2wsh deposit_lib = sample_payment"
    by (simp_all add: deposit_lib_def sample_btcjs_def)
  ultimately show "getBitcoinAddress sample_crypto deposit_lib (deposit_object br) = Inr (bytes_to_hex deposit_output)"
    by (simp add: getBitcoinAddress_def deriveAddress_def getHash_def getPlainText_def deposit_object_def deposit_output_def
        sample_payment_def Let_def Hex_from_buffer_def)
  show "addressToOutputScript deposit_lib (bytes_to_hex deposit_output) Testnet = Inr (Hex deposit_output)"
    by (simp add: addressToOutputScript_def deposit_lib_def sample_btcjs_def Hex_from_buffer_def)
qed

lemma deposit_tx_parts:
  "small_tx deposit_tx" "0 < length (tx_outs deposit_tx)" "tx_outs deposit_tx ! 0 = \<lparr>out_value = 100000, out_script = deposit_output\<rparr>"
  by (simp_all add: deposit_tx_def small_tx_def deposit_output_def sample_hash_sizes)

lemma deposit_vault_ok: "length deposit_vault = 20" "deposit_vault \<noteq> address0"
  by (simp_all add: deposit_vault_def address0_def replicate_eq_replicate)

theorem initiated_deposit_reaches_contract_witness:
  "\<exists>br w4. EthereumBridge sample_bridge_handle = Inr br \<and>
     initiateDeposit sample_crypto deposit_lib sample_system (deposit_service br) sample_recovery_address None deposit_world =
       (Inr (deposit_object br), deposit_world) \<and>
     initiateMinting sample_crypto deposit_lib sample_bufio (deposit_object br) None deposit_world =
       (Inr (HexResult (Hex (be_bytes 32 1700000500))), w4) \<and>
     bridge_deposits br (op_transactionHash deposit_utxo) 0 w4 =
       (Inr \<lparr>dq_depositor = EthereumAddress (bytes_to_hex sample_account), dq_amount = 100000,
          dq_vault = Some (EthereumAddress (bytes_to_hex deposit_vault)), dq_revealedAt = 1700000500, dq_sweptAt = 0,
          dq_treasuryFee = 50\<rparr>, w4)"
proof -
  let ?w = deposit_world
  obtain ident where "Bridge_getChainIdentifier sample_bridge_handle = Inr ident"
    using addresses_ok_sample by (auto simp: Bridge_getChainIdentifier_def addresses_ok_def sample_bridge_handle_def)
  then obtain br where br: "EthereumBridge sample_bridge_handle = Inr br" by (simp add: EthereumBridge_def)
  let ?svc = "deposit_service br" and ?d = "deposit_object br"
  let ?key = "sol_deposit_key sample_evm (sol_txid sample_evm (sol_tx_of sample_bufio deposit_tx)) 0"
  have b: "bh_ethers sample_bridge_handle = sample_chain_ethers"
    "bh_contract sample_bridge_handle = deployed sample_evm sample_utils sample_ext sample_tx_hash sample_account sample_rest"
    "length sample_account = 20"
    by (simp_all add: sample_bridge_handle_def sample_account_def)
  have svc: "active_wallet_ok (tc_bridge (svc_tbtcContracts ?svc))" "EthereumBridge sample_bridge_handle = Inr (tc_bridge (svc_tbtcContracts ?svc))"
    "svc_defaultDepositor ?svc = Some (EthereumAddress (bytes_to_hex sample_account))"
    "tc_vaultIdentifier (svc_tbtcContracts ?svc) = EthereumAddress (bytes_to_hex deposit_vault)"
    using br sample_active
    by (auto simp: deposit_service_def setDefaultDepositor_def new_DepositsService_def active_wallet_ok_def
        EthereumBridge_def res_simps sample_wallet_key_def)
  have cl: "svc_bitcoinClient ?svc = deposit_client" "d_bitcoinNetwork ?d = Testnet" "getReceipt ?d = deposit_receipt"
    by (simp_all add: deposit_service_def setDefaultDepositor_def new_DepositsService_def deposit_object_def getReceipt_def)
  have funded: "addressToOutputScript deposit_lib (bytes_to_hex deposit_output) (d_bitcoinNetwork ?d) =
      Inr (Hex (out_script (tx_outs deposit_tx ! 0)))" "100000 = nat (out_value (tx_outs deposit_tx ! 0))"
    using deposit_address(2) deposit_tx_parts(3) by (simp_all add: cl)
  have reported: "findAllUnspentTransactionOutputs (svc_bitcoinClient ?svc) (bytes_to_hex deposit_output) ?w = (Inr [deposit_utxo], ?w)"
    "op_transactionHash deposit_utxo = txid_of sample_evm sample_bufio deposit_tx" "op_outputIndex deposit_utxo = int 0"
    "getRawTransaction (svc_bitcoinClient ?svc) (op_transactionHash deposit_utxo) ?w = (Inr \<lparr>transactionHex = ''00''\<rparr>, ?w)"
    "tx_fromBuffer deposit_lib (hex_to_bytes (transactionHex \<lparr>transactionHex = ''00''\<rparr>)) = Inr deposit_tx"
    by (simp_all add: cl deposit_client_def deposit_utxo_def deposit_lib_def)
  have ready: "wal_state (st_registeredWallets (ch_bridge ?w) (hex_buf (dr_walletPublicKeyHash (getReceipt ?d)))) = Sol_Live"
    "st_isVaultTrusted (ch_bridge ?w) deposit_vault"
    "int (ch_time ?w + st_depositRevealAheadPeriod (ch_bridge ?w)) \<le> 1700000000123 div 1000 + 9 * 30 * 24 * 60 * 60"
    "st_depositDustThreshold (ch_bridge ?w) \<le> 100000" "dep_revealedAt (st_deposits (ch_bridge ?w) ?key) = 0"
    "dep_sweptAt (st_deposits (ch_bridge ?w) ?key) < 2 ^ 32"
    by (simp_all add: deposit_world_def sample_state_def)
  have fee: "treasury_fee sample_ext (st_rebateStaking (ch_bridge ?w)) sample_account FeeOfDeposit 100000
      (st_depositTreasuryFeeDivisor (ch_bridge ?w)) (st_contracts (ch_bridge ?w)) = Inr (50, ())"
    by (simp add: treasury_fee_def deposit_world_def sample_state_def)
  have v: "sample_tx_hash ?w = be_bytes 32 1700000500" "ch_time ?w = 1700000500" "dep_sweptAt (st_deposits (ch_bridge ?w) ?key) = 0"
    "tc_bridge (svc_tbtcContracts ?svc) = br"
    using svc(2) br by (simp_all add: sample_tx_hash_def deposit_world_def sample_state_def)
  have "500000000000 \<le> (1700000000123 :: int)" by simp
  from initiated_deposit_reaches_contract [OF writes_sample reads_sample deposit_lib_ok crypto_ok_sample same_hashes_sample,
      of sample_bridge_handle, unfolded b(1), OF keccak_ok_sample addresses_ok_sample quiet_sample
      sample_environment_ok(2) clock_sample this svc deposit_vault_ok b(2,3) deposit_initiated [OF br]
      deposit_address(1) deposit_tx_parts(1,2) funded reported refl ready fee]
  show ?thesis using br deposit_initiated [OF br] unfolding v reported(3) by simp
qed

end
