(* ===== verification/Journal.thy ===== *)
theory Journal
  imports Prelude "HOL-Library.Sublist"
begin

section \<open>Mappings that are written once under each key\<close>

text \<open>
  The contract of a store that a log of events describes: a step either leaves both alone or appends
  an event and writes the value it describes under a key that was not in use. Every such store stays
  the one that its log describes, and what it holds is never overwritten.
\<close>

text \<open>The store holds exactly the values of the log, one under each key.\<close>

definition recorded :: "('v \<Rightarrow> bool) \<Rightarrow> ('v \<Rightarrow> 'ev \<Rightarrow> bool) \<Rightarrow> ('ev \<Rightarrow> 'k) \<Rightarrow> ('k \<Rightarrow> 'v) \<Rightarrow> 'ev list \<Rightarrow> bool" where
  "recorded used matches key store evs =
    (distinct (map key evs) \<and> (\<forall>ev \<in> set evs. matches (store (key ev)) ev) \<and> {k. used (store k)} = key ` set evs)"

text \<open>What was in use has not changed.\<close>

definition kept :: "('v \<Rightarrow> bool) \<Rightarrow> ('k \<Rightarrow> 'v) \<Rightarrow> ('k \<Rightarrow> 'v) \<Rightarrow> bool" where
  "kept used store store' = (\<forall>k. used (store k) \<longrightarrow> store' k = store k)"

lemma kept_refl [simp]: "kept used store store"
  by (simp add: kept_def)

lemma kept_trans: "kept used s1 s2 \<Longrightarrow> kept used s2 s3 \<Longrightarrow> kept used s1 s3"
  unfolding kept_def by metis

lemma recorded_Nil: "(\<And>k. \<not> used (store k)) \<Longrightarrow> recorded used matches key store []"
  by (simp add: recorded_def)

lemma recorded_append:
  assumes "recorded used matches key store evs" "\<not> used (store (key ev))" "used v" "matches v ev"
  shows "recorded used matches key (store(key ev := v)) (evs @ [ev])"
proof -
  have new: "key ev \<notin> key ` set evs" using assms(1,2) by (auto simp: recorded_def)
  then have "key x \<noteq> key ev" if "x \<in> set evs" for x using that by (metis image_eqI)
  with new show ?thesis using assms by (auto simp: recorded_def)
qed

locale journal =
  fixes store :: "'s \<Rightarrow> 'k \<Rightarrow> 'v"
    and log :: "'s \<Rightarrow> 'ev list"
    and key :: "'ev \<Rightarrow> 'k"
    and used :: "'v \<Rightarrow> bool"
    and matches :: "'v \<Rightarrow> 'ev \<Rightarrow> bool"
    and step :: "'s \<Rightarrow> 's \<Rightarrow> bool"
  assumes step_cases: "step s s' \<Longrightarrow> store s' = store s \<and> log s' = log s \<or>
    (\<exists>ev v. \<not> used (store s (key ev)) \<and> used v \<and> matches v ev \<and> store s' = (store s)(key ev := v) \<and> log s' = log s @ [ev])"
begin

lemma step_recorded:
  assumes "step s s'" "recorded used matches key (store s) (log s)"
  shows "recorded used matches key (store s') (log s')"
  using step_cases [OF assms(1)] assms(2) by (auto intro: recorded_append)

lemma step_kept: "step s s' \<Longrightarrow> kept used (store s) (store s')"
  using step_cases [of s s'] by (auto simp: kept_def)

lemma step_log: "step s s' \<Longrightarrow> prefix (log s) (log s')"
  using step_cases [of s s'] by auto

lemma steps_recorded:
  "step\<^sup>*\<^sup>* s s' \<Longrightarrow> recorded used matches key (store s) (log s) \<Longrightarrow> recorded used matches key (store s') (log s')"
  by (induction rule: rtranclp_induct) (auto intro: step_recorded)

lemma steps_kept: "step\<^sup>*\<^sup>* s s' \<Longrightarrow> kept used (store s) (store s')"
proof (induction rule: rtranclp_induct)
  case (step s1 s2)
  show ?case by (rule kept_trans [OF step.IH step_kept [OF step.hyps(2)]])
qed simp

lemma steps_log: "step\<^sup>*\<^sup>* s s' \<Longrightarrow> prefix (log s) (log s')"
proof (induction rule: rtranclp_induct)
  case (step s1 s2)
  then show ?case using step_log [of s1 s2] by (blast intro: prefix_order.trans)
qed simp

end

end
