(* ===== verification/BridgeLedger.thy ===== *)
theory BridgeLedger
  imports BridgeSample Journal
begin

section \<open>The ledger of the Bridge contract\<close>

text \<open>
  What every sequence of reveals and redemption requests, of any accounts in any order, keeps of the
  contract's state: its mappings are those of its events, nothing that was stored is overwritten,
  and the value pending on a wallet is the sum of its requests.
\<close>

subsection \<open>Steps\<close>

text \<open>One successful call. The time is a time of 32 bits, as the contract stores it; a call that fails
  has no step. The balance of a redemption may belong to another account than the redeemer.\<close>

inductive bridge_step :: "evm \<Rightarrow> btc_utils \<Rightarrow> 'x contracts \<Rightarrow> 'x bridge_state \<Rightarrow> 'x bridge_state \<Rightarrow> bool"
  for e u ext where
  step_reveal: "sol_revealDeposit e u ext sender time tx rv st = Inr st' \<Longrightarrow> 0 < time \<Longrightarrow> time < 2 ^ 32 \<Longrightarrow>
    bridge_step e u ext st st'"
| step_revealWithExtraData: "sol_revealDepositWithExtraData e u ext sender time tx rv extraData st = Inr st' \<Longrightarrow>
    0 < time \<Longrightarrow> time < 2 ^ 32 \<Longrightarrow> bridge_step e u ext st st'"
| step_request: "sol_requestRedemption e u ext time pkh utxo owner redeemer scr amount st = Inr st' \<Longrightarrow>
    0 < time \<Longrightarrow> time < 2 ^ 32 \<Longrightarrow> bridge_step e u ext st st'"

inductive_cases bridge_stepE: "bridge_step e u ext st st'"

text \<open>A contract on which nothing has happened.\<close>

definition genesis :: "'x bridge_state \<Rightarrow> bool" where
  "genesis st = (st_depositEvents st = [] \<and> st_redemptionEvents st = [] \<and>
     (\<forall>k. dep_revealedAt (st_deposits st k) = 0) \<and> (\<forall>k. red_requestedAt (st_pendingRedemptions st k) = 0) \<and>
     (\<forall>p. wal_pendingRedemptionsValue (st_registeredWallets st p) = 0))"

subsection \<open>The invariant\<close>

definition event_key :: "evm \<Rightarrow> sol_deposit_revealed \<Rightarrow> bytes" where
  "event_key e ev = sol_deposit_key e (sdr_fundingTxHash ev) (rev_fundingOutputIndex (sdr_reveal ev))"

definition request_key :: "evm \<Rightarrow> sol_redemption_requested \<Rightarrow> bytes" where
  "request_key e ev = sol_redemption_key e (srr_walletPubKeyHash ev) (srr_redeemerOutputScript ev)"

definition deposit_matches :: "sol_deposit \<Rightarrow> sol_deposit_revealed \<Rightarrow> bool" where
  "deposit_matches d ev = (dep_depositor d = sdr_depositor ev \<and> dep_amount d = sdr_amount ev \<and>
     dep_vault d = rev_vault (sdr_reveal ev))"

definition request_matches :: "sol_redemption \<Rightarrow> sol_redemption_requested \<Rightarrow> bool" where
  "request_matches r ev = (red_redeemer r = srr_redeemer ev \<and> red_requestedAmount r = srr_requestedAmount ev \<and>
     red_treasuryFee r = srr_treasuryFee ev \<and> red_txMaxFee r = srr_txMaxFee ev)"

definition deposits_ledger :: "evm \<Rightarrow> 'x bridge_state \<Rightarrow> bool" where
  "deposits_ledger e st =
    recorded (\<lambda>d. dep_revealedAt d \<noteq> 0) deposit_matches (event_key e) (st_deposits st) (st_depositEvents st)"

definition redemptions_ledger :: "evm \<Rightarrow> 'x bridge_state \<Rightarrow> bool" where
  "redemptions_ledger e st =
    recorded (\<lambda>r. red_requestedAt r \<noteq> 0) request_matches (request_key e) (st_pendingRedemptions st) (st_redemptionEvents st)"

definition redeemable_of :: "sol_redemption_requested \<Rightarrow> nat" where
  "redeemable_of ev = srr_requestedAmount ev - srr_treasuryFee ev"

definition requested_of :: "bytes \<Rightarrow> sol_redemption_requested list \<Rightarrow> nat" where
  "requested_of p evs = sum_list (map redeemable_of (filter (\<lambda>ev. srr_walletPubKeyHash ev = p) evs))"

lemma requested_of_simps [simp]:
  "requested_of p [] = 0"
  "requested_of p (evs @ [ev]) = requested_of p evs + (if srr_walletPubKeyHash ev = p then redeemable_of ev else 0)"
  by (simp_all add: requested_of_def)

definition wallets_ledger :: "'x bridge_state \<Rightarrow> bool" where
  "wallets_ledger st = (\<forall>p. requested_of p (st_redemptionEvents st) < 2 ^ 64 \<and>
     wal_pendingRedemptionsValue (st_registeredWallets st p) = requested_of p (st_redemptionEvents st))"

definition ledger :: "evm \<Rightarrow> 'x bridge_state \<Rightarrow> bool" where
  "ledger e st = (deposits_ledger e st \<and> redemptions_ledger e st \<and> wallets_ledger st)"

lemma genesis_ledger: "genesis st \<Longrightarrow> ledger e st"
  by (simp add: genesis_def ledger_def deposits_ledger_def redemptions_ledger_def wallets_ledger_def recorded_Nil)

subsection \<open>What a successful call did\<close>

lemma reveal_result:
  assumes "sol_reveal_deposit e u ext sender time tx rv xd st = Inr st'"
  shows "\<exists>d ev x. dep_revealedAt (st_deposits st (event_key e ev)) = 0 \<and> deposit_matches d ev \<and>
    dep_revealedAt d = time mod 2 ^ 32 \<and>
    st' = st\<lparr>st_deposits := (st_deposits st)(event_key e ev := d), st_contracts := x,
      st_depositEvents := st_depositEvents st @ [ev]\<rparr>"
proof -
  let ?key = "sol_deposit_key e (sol_txid e tx) (rev_fundingOutputIndex rv)"
  obtain amount fee x where r: "dep_revealedAt (st_deposits st ?key) = 0"
    "st' = st\<lparr>st_deposits := (st_deposits st)(?key := (st_deposits st ?key)\<lparr>dep_amount := amount, dep_depositor := sender,
         dep_revealedAt := time mod 2 ^ 32, dep_vault := rev_vault rv, dep_treasuryFee := fee, dep_extraData := xd\<rparr>),
       st_contracts := x, st_depositEvents := st_depositEvents st @
         [\<lparr>sdr_fundingTxHash = sol_txid e tx, sdr_reveal = rv, sdr_depositor = sender, sdr_amount = amount\<rparr>]\<rparr>"
    using assms unfolding sol_reveal_deposit_def Let_def by (auto simp: bind_res_Inr)
  let ?ev = "\<lparr>sdr_fundingTxHash = sol_txid e tx, sdr_reveal = rv, sdr_depositor = sender, sdr_amount = amount\<rparr>"
  let ?d = "(st_deposits st ?key)\<lparr>dep_amount := amount, dep_depositor := sender, dep_revealedAt := time mod 2 ^ 32,
    dep_vault := rev_vault rv, dep_treasuryFee := fee, dep_extraData := xd\<rparr>"
  show ?thesis
    by (rule exI [of _ ?d], rule exI [of _ ?ev], rule exI [of _ x]) (simp add: r event_key_def deposit_matches_def)
qed

lemma request_result:
  assumes "sol_requestRedemption e u ext time pkh utxo owner redeemer scr amount st = Inr st'"
  shows "\<exists>ev r x. red_requestedAt (st_pendingRedemptions st (request_key e ev)) = 0 \<and> request_matches r ev \<and>
    red_requestedAt r = time mod 2 ^ 32 \<and> srr_walletPubKeyHash ev = pkh \<and>
    wal_pendingRedemptionsValue (st_registeredWallets st pkh) + redeemable_of ev < 2 ^ 64 \<and>
    st' = st\<lparr>st_registeredWallets := (st_registeredWallets st)(pkh := (st_registeredWallets st pkh)
        \<lparr>wal_pendingRedemptionsValue := wal_pendingRedemptionsValue (st_registeredWallets st pkh) + redeemable_of ev\<rparr>),
      st_pendingRedemptions := (st_pendingRedemptions st)(request_key e ev := r),
      st_redemptionEvents := st_redemptionEvents st @ [ev], st_contracts := x\<rparr>"
proof -
  let ?key = "sol_redemption_key e pkh scr" and ?wal = "st_registeredWallets st pkh"
  let ?req = "\<lambda>fee. \<lparr>red_redeemer = redeemer, red_requestedAmount = amount, red_treasuryFee = fee,
    red_txMaxFee = st_redemptionTxMaxFee st, red_requestedAt = time mod 2 ^ 32\<rparr>"
  let ?ev = "\<lambda>fee. \<lparr>srr_walletPubKeyHash = pkh, srr_redeemerOutputScript = scr, srr_redeemer = redeemer,
    srr_requestedAmount = amount, srr_treasuryFee = fee, srr_txMaxFee = st_redemptionTxMaxFee st\<rparr>"
  obtain fee v x where r: "red_requestedAt (st_pendingRedemptions st ?key) = 0" "checked_sub amount fee = Inr v"
    "wal_pendingRedemptionsValue ?wal + v < 2 ^ 64"
    "st' = st\<lparr>st_registeredWallets := (st_registeredWallets st)(pkh := ?wal
        \<lparr>wal_pendingRedemptionsValue := wal_pendingRedemptionsValue ?wal + v\<rparr>),
      st_pendingRedemptions := (st_pendingRedemptions st)(?key := ?req fee),
      st_redemptionEvents := st_redemptionEvents st @ [?ev fee], st_contracts := x\<rparr>"
    using assms unfolding sol_requestRedemption_def Let_def by (auto simp: bind_res_Inr checked_add64_def split: if_splits)
  have "v = redeemable_of (?ev fee)" using r(2) by (simp add: checked_sub_def redeemable_of_def split: if_splits)
  then show ?thesis
    by (intro exI [of _ "?ev fee"] exI [of _ "?req fee"] exI [of _ x]) (use r in \<open>simp add: request_key_def request_matches_def\<close>)
qed

subsection \<open>Preservation\<close>

text \<open>Both mappings of the contract are written once under each key.\<close>

lemma reveal_step:
  assumes "sol_reveal_deposit e u ext sender time tx rv xd st = Inr st'" "0 < time" "time < 2 ^ 32"
  shows "\<exists>ev d. \<not> dep_revealedAt (st_deposits st (event_key e ev)) \<noteq> 0 \<and> dep_revealedAt d \<noteq> 0 \<and> deposit_matches d ev \<and>
    st_deposits st' = (st_deposits st)(event_key e ev := d) \<and> st_depositEvents st' = st_depositEvents st @ [ev]"
    and "st_pendingRedemptions st' = st_pendingRedemptions st" "st_redemptionEvents st' = st_redemptionEvents st"
    "st_registeredWallets st' = st_registeredWallets st"
  using reveal_result [OF assms(1)] assms(2,3) by force+

lemma request_step:
  assumes "sol_requestRedemption e u ext time pkh utxo owner redeemer scr amount st = Inr st'" "0 < time" "time < 2 ^ 32"
  shows "\<exists>ev r. \<not> red_requestedAt (st_pendingRedemptions st (request_key e ev)) \<noteq> 0 \<and> red_requestedAt r \<noteq> 0 \<and>
    request_matches r ev \<and> st_pendingRedemptions st' = (st_pendingRedemptions st)(request_key e ev := r) \<and>
    st_redemptionEvents st' = st_redemptionEvents st @ [ev]"
    and "st_deposits st' = st_deposits st" "st_depositEvents st' = st_depositEvents st"
    and "wallets_ledger st \<Longrightarrow> wallets_ledger st'"
  using request_result [OF assms(1)] assms(2,3) by (force simp: wallets_ledger_def)+

lemma bridge_call:
  assumes "bridge_step e u ext st st'"
  obtains (reveal) sender time tx rv xd where "sol_reveal_deposit e u ext sender time tx rv xd st = Inr st'" "0 < time" "time < 2 ^ 32"
  | (request) time pkh utxo owner redeemer scr amount
    where "sol_requestRedemption e u ext time pkh utxo owner redeemer scr amount st = Inr st'" "0 < time" "time < 2 ^ 32"
  using assms
  by (rule bridge_stepE) (auto simp: sol_revealDeposit_def sol_revealDepositWithExtraData_def bind_res_Inr)

interpretation deposits: journal st_deposits st_depositEvents "event_key e" "\<lambda>d. dep_revealedAt d \<noteq> 0" deposit_matches
  "bridge_step e u ext" for e u and ext :: "'x contracts"
proof
  fix st st' :: "'x bridge_state"
  assume "bridge_step e u ext st st'"
  then show "st_deposits st' = st_deposits st \<and> st_depositEvents st' = st_depositEvents st \<or>
    (\<exists>ev d. \<not> dep_revealedAt (st_deposits st (event_key e ev)) \<noteq> 0 \<and> dep_revealedAt d \<noteq> 0 \<and> deposit_matches d ev \<and>
      st_deposits st' = (st_deposits st)(event_key e ev := d) \<and> st_depositEvents st' = st_depositEvents st @ [ev])"
  proof (cases rule: bridge_call)
    case reveal
    show ?thesis by (rule disjI2, rule reveal_step(1) [OF reveal])
  next
    case request
    show ?thesis using request_step(2,3) [OF request] by simp
  qed
qed

interpretation requests: journal st_pendingRedemptions st_redemptionEvents "request_key e" "\<lambda>r. red_requestedAt r \<noteq> 0"
  request_matches "bridge_step e u ext" for e u and ext :: "'x contracts"
proof
  fix st st' :: "'x bridge_state"
  assume "bridge_step e u ext st st'"
  then show "st_pendingRedemptions st' = st_pendingRedemptions st \<and> st_redemptionEvents st' = st_redemptionEvents st \<or>
    (\<exists>ev r. \<not> red_requestedAt (st_pendingRedemptions st (request_key e ev)) \<noteq> 0 \<and> red_requestedAt r \<noteq> 0 \<and>
      request_matches r ev \<and> st_pendingRedemptions st' = (st_pendingRedemptions st)(request_key e ev := r) \<and>
      st_redemptionEvents st' = st_redemptionEvents st @ [ev])"
  proof (cases rule: bridge_call)
    case reveal
    show ?thesis using reveal_step(2,3) [OF reveal] by simp
  next
    case request
    show ?thesis by (rule disjI2, rule request_step(1) [OF request])
  qed
qed

lemma step_wallets:
  assumes "bridge_step e u ext st st'" "wallets_ledger st"
  shows "wallets_ledger st'"
  using assms(1)
proof (cases rule: bridge_call)
  case reveal
  show ?thesis using reveal_step(3,4) [OF reveal] assms(2) by (simp add: wallets_ledger_def)
next
  case request
  show ?thesis by (rule request_step(4) [OF request assms(2)])
qed

lemma steps_keep: "(bridge_step e u ext)\<^sup>*\<^sup>* st st' \<Longrightarrow> ledger e st \<Longrightarrow> ledger e st'"
proof -
  assume s: "(bridge_step e u ext)\<^sup>*\<^sup>* st st'" and l: "ledger e st"
  have "wallets_ledger st \<Longrightarrow> wallets_ledger st'"
    using s by (induction rule: rtranclp_induct) (auto intro: step_wallets)
  then show "ledger e st'"
    using deposits.steps_recorded [OF s] requests.steps_recorded [OF s] l
    by (simp add: ledger_def deposits_ledger_def redemptions_ledger_def)
qed

text \<open>Nothing that is on record is written again, and events are only added.\<close>

definition stored :: "'x bridge_state \<Rightarrow> 'x bridge_state \<Rightarrow> bool" where
  "stored st st' =
    (kept (\<lambda>d. dep_revealedAt d \<noteq> 0) (st_deposits st) (st_deposits st') \<and>
     kept (\<lambda>r. red_requestedAt r \<noteq> 0) (st_pendingRedemptions st) (st_pendingRedemptions st') \<and>
     prefix (st_depositEvents st) (st_depositEvents st') \<and> prefix (st_redemptionEvents st) (st_redemptionEvents st'))"

lemma steps_store: "(bridge_step e u ext)\<^sup>*\<^sup>* st st' \<Longrightarrow> stored st st'"
  unfolding stored_def by (intro conjI deposits.steps_kept requests.steps_kept deposits.steps_log requests.steps_log)

text \<open>C9: The ledger of the Bridge contract. In every state that reveals and redemption requests, of any
  accounts, in any order and at any 32-bit times, lead to from a fresh contract: the deposits on record
  are exactly those of the reveal events, one under each key, with the depositor, amount and vault of
  their event; the pending redemptions are exactly those of the request events, with the redeemer, amount and fees
  of their event; the value pending on
  each wallet is the sum of its requests less their fees, in 64 bits. And whatever is on record then is
  unchanged after any further such calls, which only add events: a deposit cannot be revealed again by
  someone else. No
  assumption about the hash functions is made.\<close>

theorem bridge_ledger:
  assumes "genesis st0" "(bridge_step e u ext)\<^sup>*\<^sup>* st0 st" "(bridge_step e u ext)\<^sup>*\<^sup>* st st'"
  shows "ledger e st \<and> stored st st'"
  using steps_keep [OF assms(2) genesis_ledger [OF assms(1)]] steps_store [OF assms(3)] by blast

theorem bridge_ledger_witness:
  "\<exists>st. bridge_step sample_evm sample_utils sample_ext (sample_state bytes32_0) st \<and> ledger sample_evm st \<and>
     stored (sample_state bytes32_0) st"
proof -
  obtain st where "sol_revealDeposit sample_evm sample_utils sample_ext (replicate 20 5) 1000
      (sample_sol_tx (replicate 20 5)) sample_reveal (sample_state bytes32_0) = Inr st"
    using sample_revealed by blast
  then have st: "bridge_step sample_evm sample_utils sample_ext (sample_state bytes32_0) st"
    by (rule step_reveal) simp_all
  have g: "genesis (sample_state bytes32_0)" by (simp add: genesis_def sample_state_def)
  have "(bridge_step sample_evm sample_utils sample_ext)\<^sup>*\<^sup>* (sample_state bytes32_0) st"
    by (rule r_into_rtranclp) (rule st)
  then show ?thesis
    using st bridge_ledger [OF g _ rtranclp.rtrancl_refl] bridge_ledger [OF g rtranclp.rtrancl_refl] by blast
qed

end
