(* ===== verification/NttContract.thy ===== *)
theory NttContract
  imports BridgeContract Ntt "HOL-Library.Word"
begin

section \<open>The depositor contract of the Wormhole bridge\<close>

text \<open>
  The smart contract \<open>L1BTCDepositorNtt\<close>
  (\<open>solidity/contracts/cross-chain/wormhole/L1BTCDepositorNtt.sol\<close>): the chains it supports, its NTT
  manager, the layout of receivers and the transfer of minted tBTC to the chain of a receiver. The
  manager and the token are parameters, and so is the rest of the chain. Conventions are those of
  \<open>BridgeContract\<close>; a \<open>uint16\<close> is a word. The owner check is the modifier \<open>onlyOwner\<close> of OpenZeppelin.
\<close>

unbundle bit_operations_syntax

subsection \<open>State\<close>

type_synonym chain_id = "16 word"

datatype ntt_event =
    TokensTransferredNTT nat chain_id bytes nat bytes
  | SupportedChainUpdated chain_id bool
  | NttManagerUpdated bytes bytes
  | DefaultSupportedChainUpdated chain_id

record ntt_state =
  ntt_owner :: bytes
  ntt_manager :: bytes
  ntt_supportedChains :: "chain_id \<Rightarrow> bool"
  ntt_defaultSupportedChain :: chain_id
  ntt_events :: "ntt_event list"

text \<open>The calls of the manager and the token: a quote of the fee, the allowance of the manager, and the
  transfer with the payment attached, which returns its sequence number.\<close>

record 'x ntt_contracts =
  quoteDeliveryPrice :: "bytes \<Rightarrow> chain_id \<Rightarrow> 'x \<Rightarrow> nat res"
  safeIncreaseAllowance :: "bytes \<Rightarrow> nat \<Rightarrow> 'x \<Rightarrow> 'x res"
  ntt_transfer :: "bytes \<Rightarrow> nat \<Rightarrow> nat \<Rightarrow> chain_id \<Rightarrow> bytes \<Rightarrow> 'x \<Rightarrow> (nat \<times> 'x) res"

definition emit :: "ntt_event \<Rightarrow> ntt_state \<Rightarrow> ntt_state" where
  "emit event s = s\<lparr>ntt_events := ntt_events s @ [event]\<rparr>"

definition onlyOwner :: "bytes \<Rightarrow> ntt_state \<Rightarrow> unit res" where
  "onlyOwner sender s = sol_require (sender = ntt_owner s) ''Ownable: caller is not the owner''"

subsection \<open>Configuration\<close>

definition sol_setDefaultSupportedChain :: "bytes \<Rightarrow> chain_id \<Rightarrow> ntt_state \<Rightarrow> ntt_state res" where
  "sol_setDefaultSupportedChain sender chainId s =
     bind_res (onlyOwner sender s) (\<lambda>_.
     bind_res (sol_require (chainId \<noteq> 0) ''Chain ID cannot be zero'') (\<lambda>_.
     bind_res (sol_require (ntt_supportedChains s chainId) ''Chain must be supported before setting as default'') (\<lambda>_.
     Inr (emit (DefaultSupportedChainUpdated chainId) (s\<lparr>ntt_defaultSupportedChain := chainId\<rparr>)))))"

definition sol_setSupportedChain :: "bytes \<Rightarrow> chain_id \<Rightarrow> bool \<Rightarrow> ntt_state \<Rightarrow> ntt_state res" where
  "sol_setSupportedChain sender chainId supported s =
     bind_res (onlyOwner sender s) (\<lambda>_.
     bind_res (sol_require (chainId \<noteq> 0) ''Chain ID cannot be zero'') (\<lambda>_.
     Inr (emit (SupportedChainUpdated chainId supported)
       (s\<lparr>ntt_supportedChains := (ntt_supportedChains s)(chainId := supported)\<rparr>))))"

definition sol_updateNttManager :: "bytes \<Rightarrow> bytes \<Rightarrow> ntt_state \<Rightarrow> ntt_state res" where
  "sol_updateNttManager sender newNttManager s =
     bind_res (onlyOwner sender s) (\<lambda>_.
     bind_res (sol_require (newNttManager \<noteq> address0) ''NTT Manager address cannot be zero'') (\<lambda>_.
     Inr (emit (NttManagerUpdated (ntt_manager s) newNttManager) (s\<lparr>ntt_manager := newNttManager\<rparr>))))"

definition sol_quoteFinalizeDeposit :: "'x ntt_contracts \<Rightarrow> chain_id \<Rightarrow> ntt_state \<Rightarrow> 'x \<Rightarrow> nat res" where
  "sol_quoteFinalizeDeposit x destinationChain s ext =
     bind_res (sol_require (ntt_supportedChains s destinationChain) ''Destination chain not supported'') (\<lambda>_.
     quoteDeliveryPrice x (ntt_manager s) destinationChain ext)"

definition sol_quoteFinalizeDeposit_default :: "'x ntt_contracts \<Rightarrow> ntt_state \<Rightarrow> 'x \<Rightarrow> nat res" where
  "sol_quoteFinalizeDeposit_default x s ext =
     bind_res (sol_require (ntt_defaultSupportedChain s \<noteq> 0) ''No supported chains configured'') (\<lambda>_.
     quoteDeliveryPrice x (ntt_manager s) (ntt_defaultSupportedChain s) ext)"

subsection \<open>Receivers\<close>

text \<open>\<open>uint16(bytes2(x))\<close>, and the value of 32 bytes without its first two.\<close>

definition leading_chain :: "bytes \<Rightarrow> chain_id" where
  "leading_chain receiver = of_nat (be_nat (take 2 receiver))"

definition sol_recipient :: "bytes \<Rightarrow> bytes" where
  "sol_recipient receiver = be_bytes 32 (nat (int (be_nat receiver) AND
     0x0000FFFFFFFFFFFFFFFFFFFFFFFFFFFFFFFFFFFFFFFFFFFFFFFFFFFFFFFFFFFF))"

definition sol_encodeDestinationReceiver :: "chain_id \<Rightarrow> bytes \<Rightarrow> bytes" where
  "sol_encodeDestinationReceiver chainId recipient =
     be_bytes 32 (nat (push_bit 240 (uint chainId) OR int (be_nat recipient)))"

definition sol_decodeDestinationReceiver :: "bytes \<Rightarrow> chain_id \<times> bytes" where
  "sol_decodeDestinationReceiver encodedReceiver =
     (leading_chain encodedReceiver, drop 12 (sol_recipient encodedReceiver))"

definition sol_destinationChain :: "ntt_state \<Rightarrow> bytes \<Rightarrow> chain_id res" where
  "sol_destinationChain s receiver =
     (let chainId = leading_chain receiver in
      if chainId = 0 then Inl (Error ''Chain ID cannot be zero'')
      else if \<not> ntt_supportedChains s chainId then Inl (Error ''Destination chain not supported'')
      else Inr chainId)"

subsection \<open>Transfers\<close>

definition sol_transferTbtc ::
  "'x ntt_contracts \<Rightarrow> nat \<Rightarrow> nat \<Rightarrow> bytes \<Rightarrow> ntt_state \<Rightarrow> 'x \<Rightarrow> (ntt_state \<times> 'x) res" where
  "sol_transferTbtc x msgValue amount destinationChainReceiver s ext =
     bind_res (sol_require (0 < amount) ''Amount must be greater than 0'') (\<lambda>_.
     bind_res (sol_destinationChain s destinationChainReceiver) (\<lambda>destinationChain.
     bind_res (sol_require (ntt_supportedChains s destinationChain) ''Destination chain not supported'') (\<lambda>_.
     let actualRecipient = sol_recipient destinationChainReceiver in
     bind_res (quoteDeliveryPrice x (ntt_manager s) destinationChain ext) (\<lambda>requiredFee.
     bind_res (sol_require (requiredFee \<le> msgValue) ''Payment for Wormhole NTT is too low'') (\<lambda>_.
     bind_res (safeIncreaseAllowance x (ntt_manager s) amount ext) (\<lambda>ext1.
     bind_res (ntt_transfer x (ntt_manager s) msgValue amount destinationChain actualRecipient ext1) (\<lambda>(sequence, ext2).
     Inr (emit (TokensTransferredNTT amount destinationChain actualRecipient sequence destinationChainReceiver) s, ext2))))))))"

subsection \<open>Lemmas\<close>

lemma leading_chain_bytes [simp]: "leading_chain (be_bytes 2 n @ bs) = of_nat n"
proof -
  have "leading_chain (be_bytes 2 n @ bs) = of_nat (n mod 2 ^ LENGTH(16))"
    unfolding leading_chain_def be_nat_be_bytes by (simp add: be_nat_be_bytes del: be_bytes.simps)
  then show ?thesis by (metis of_nat_mod word_of_nat_eq_iff take_bit_eq_mod mod_mod_trivial)
qed

text \<open>A receiver of 32 bytes splits into the chain and a recipient.\<close>

lemma sol_recipient_bytes:
  assumes "length receiver = 32"
  shows "sol_recipient receiver = replicate 2 0 @ drop 2 receiver"
proof -
  have "be_nat (drop 2 receiver) = be_nat (replicate 2 0 @ drop 2 receiver)" by (simp add: be_nat_append)
  then have "be_bytes 32 (be_nat (drop 2 receiver)) = replicate 2 0 @ drop 2 receiver"
    using be_bytes_be_nat [of "replicate 2 0 @ drop 2 receiver"] assms by simp
  then show ?thesis
    using split_32_bytes(2) [OF assms] by (simp add: sol_recipient_def recipientMask_def del: be_bytes.simps)
qed

text \<open>The library and the contract lay a receiver out in the same way.\<close>

lemma sol_encode_bytes:
  assumes "length r = 20"
  shows "sol_encodeDestinationReceiver chainId r = be_bytes 2 (unat chainId) @ replicate 10 0 @ r"
proof -
  have "uint chainId \<le> 65535" using uint_lt2p [of chainId] by simp
  then have "nat (push_bit 240 (uint chainId) OR int (be_nat r)) = be_nat (be_bytes 2 (unat chainId) @ replicate 10 0 @ r)"
    using receiver_number [of "uint chainId" r] assms by (simp del: be_bytes.simps)
  then show ?thesis
    using be_bytes_be_nat [of "be_bytes 2 (unat chainId) @ replicate 10 0 @ r"] assms
    by (simp add: sol_encodeDestinationReceiver_def del: be_bytes.simps)
qed

lemma sol_encode_parts:
  assumes "length r = 20"
  shows "leading_chain (sol_encodeDestinationReceiver chainId r) = chainId"
    and "sol_recipient (sol_encodeDestinationReceiver chainId r) = replicate 12 0 @ r"
proof -
  show "leading_chain (sol_encodeDestinationReceiver chainId r) = chainId"
    unfolding sol_encode_bytes [OF assms] by simp
  have "sol_recipient (be_bytes 2 (unat chainId) @ replicate 10 0 @ r) = replicate 2 0 @ replicate 10 0 @ r"
    by (subst sol_recipient_bytes) (simp_all add: assms)
  then show "sol_recipient (sol_encodeDestinationReceiver chainId r) = replicate 12 0 @ r"
    unfolding sol_encode_bytes [OF assms] by (simp add: replicate_add [symmetric] flip: append_assoc)
qed

end
