(* ===== verification/NttConfiguration.thy ===== *)
theory NttConfiguration
  imports NttContract "HOL-Library.Sublist"
begin

section \<open>The configuration of the depositor contract\<close>

text \<open>
  The script \<open>solidity/scripts/configure-l1-btc-depositor-ntt.ts\<close>, which sets the destination chains
  of a deployed \<open>L1BTCDepositorNtt\<close>: its table of networks, its calls of the contract with their error
  handling, and what it tells its user, reduced from console output to a report. Hardhat, the signer
  and the contract object of ethers are parameters.
\<close>

subsection \<open>The table\<close>

record ChainConfig =
  cfg_chainId :: int
  cfg_name :: string
  cfg_enabled :: bool
  cfg_peerAddress :: "string option"
  cfg_rateLimitAmount :: "string option"
  cfg_rateLimitDuration :: "int option"

record NetworkConfiguration =
  net_networkName :: string
  net_contractAddress :: "string option"
  net_nttManagerAddress :: "string option"
  net_supportedChains :: "ChainConfig list"
  net_defaultRateLimit :: "string \<times> int"

text \<open>\<open>ethers.utils.parseEther(n).toString()\<close>\<close>

definition parseEther :: "nat \<Rightarrow> string" where
  "parseEther n = show_nat (n * 10 ^ 18)"

definition zero_address :: string where
  "zero_address = ''0x0000000000000000000000000000000000000000''"

definition chain_config :: "int \<Rightarrow> string \<Rightarrow> string \<Rightarrow> nat \<Rightarrow> int \<Rightarrow> ChainConfig" where
  "chain_config chainId name peer amount duration = \<lparr>cfg_chainId = chainId, cfg_name = name, cfg_enabled = True,
     cfg_peerAddress = Some peer, cfg_rateLimitAmount = Some (parseEther amount), cfg_rateLimitDuration = Some duration\<rparr>"

definition network_config :: "string \<Rightarrow> ChainConfig list \<Rightarrow> nat \<Rightarrow> int \<Rightarrow> NetworkConfiguration" where
  "network_config name supported amount duration = \<lparr>net_networkName = name, net_contractAddress = None,
     net_nttManagerAddress = None, net_supportedChains = supported, net_defaultRateLimit = (parseEther amount, duration)\<rparr>"

definition NETWORK_CONFIGURATIONS :: "string \<Rightarrow> NetworkConfiguration option" where
  "NETWORK_CONFIGURATIONS = map_of
     [(''baseSepolia'', network_config ''Base Sepolia''
         [chain_config 32 ''Sei'' zero_address 100 3600,
          chain_config 10002 ''Ethereum Sepolia'' ''0x06413c42e913327Bc9a08B7C1E362BAE7C0b9598'' 1000 3600] 500 3600),
      (''sepolia'', network_config ''Ethereum Sepolia''
         [chain_config 10004 ''Base Sepolia'' ''0x8b9E328bE1b1Bc7501B413d04EBf7479B110775c'' 1000 3600,
          chain_config 32 ''Sei'' zero_address 500 3600] 2000 3600),
      (''seiTestnet'', network_config ''Sei Testnet''
         [chain_config 10002 ''Ethereum Sepolia'' ''0x06413c42e913327Bc9a08B7C1E362BAE7C0b9598'' 1000 3600] 500 3600),
      (''seiMainnet'', network_config ''Sei Mainnet''
         [chain_config 2 ''Ethereum Mainnet'' zero_address 10000 86400] 5000 86400),
      (''mainnet'', network_config ''Ethereum Mainnet''
         [chain_config 32 ''Sei Mainnet'' zero_address 50000 86400,
          chain_config 8453 ''Base Mainnet'' zero_address 100000 86400] 25000 86400)]"

subsection \<open>The script\<close>

text \<open>What the script calls of the contract object.\<close>

record 'w ntt_handle =
  nh_supportedChains :: "int \<Rightarrow> ('w, bool) io"
  nh_setSupportedChain :: "int \<Rightarrow> bool \<Rightarrow> ('w, string) io"
  nh_wait :: "string \<Rightarrow> ('w, unit) io"
  nh_nttManager :: "('w, string) io"
  nh_getSupportedChains :: "('w, int list) io"

record 'w ntt_script =
  ns_env_address :: "string option"
  ns_getContractAt :: "string \<Rightarrow> ('w, 'w ntt_handle) io"
  ns_getBalance :: "('w, int) io"

record configuration_report =
  rep_chains :: "(string \<times> int \<times> bool option) list"
  rep_nttManager :: "string option"
  rep_list :: "int list option"
  rep_steps :: "string list"

definition configureChain :: "'w ntt_handle \<Rightarrow> ChainConfig \<Rightarrow> ('w, unit) io" where
  "configureChain h chain =
     bind_io (nh_supportedChains h (cfg_chainId chain)) (\<lambda>isCurrentlySupported.
     if isCurrentlySupported \<noteq> cfg_enabled chain
     then bind_io (nh_setSupportedChain h (cfg_chainId chain) (cfg_enabled chain)) (\<lambda>tx. nh_wait h tx)
     else return_io ())"

fun configureChains :: "'w ntt_handle \<Rightarrow> ChainConfig list \<Rightarrow> ('w, unit) io" where
  "configureChains h [] = return_io ()"
| "configureChains h (chain # rest) =
     bind_io (catch_io (configureChain h chain) (\<lambda>error. return_io ())) (\<lambda>_. configureChains h rest)"

text \<open>A value that could not be read is reported as such.\<close>

definition or_unknown :: "('w, 'a) io \<Rightarrow> ('w, 'a option) io" where
  "or_unknown m = catch_io (bind_io m (\<lambda>x. return_io (Some x))) (\<lambda>error. return_io None)"

definition showChains :: "'w ntt_handle \<Rightarrow> ChainConfig list \<Rightarrow> ('w, (string \<times> int \<times> bool option) list) io" where
  "showChains h listed = map_io (\<lambda>chain.
     bind_io (or_unknown (nh_supportedChains h (cfg_chainId chain))) (\<lambda>isSupported.
     return_io (cfg_name chain, cfg_chainId chain, isSupported))) listed"

definition setPeer_line :: "ChainConfig \<Rightarrow> string" where
  "setPeer_line chain = (case cfg_peerAddress chain of
     Some peer \<Rightarrow>
       if peer \<noteq> [] \<and> peer \<noteq> zero_address
       then ''await nttManager.setPeer('' @ show_int (cfg_chainId chain) @ '', \"'' @ peer @ ''\");''
       else ''// TODO: Set peer for '' @ cfg_name chain @ '' ('' @ show_int (cfg_chainId chain) @ '') when NTT Manager is deployed''
   | None \<Rightarrow> ''// TODO: Set peer for '' @ cfg_name chain @ '' ('' @ show_int (cfg_chainId chain) @ '') when NTT Manager is deployed'')"

definition limit_lines :: "ChainConfig \<Rightarrow> string list" where
  "limit_lines chain = (case (cfg_rateLimitAmount chain, cfg_rateLimitDuration chain) of
     (Some amount, Some duration) \<Rightarrow>
       if amount \<noteq> [] \<and> duration \<noteq> 0
       then [''await nttManager.setOutboundLimit('' @ show_int (cfg_chainId chain) @ '', \"'' @ amount @ ''\", '' @ show_int duration @ '');'']
       else []
   | _ \<Rightarrow> [])"

definition next_steps :: "NetworkConfiguration \<Rightarrow> string option \<Rightarrow> string list" where
  "next_steps config nttManagerAddress =
     (if nttManagerAddress \<notin> {None, Some [], Some zero_address}
      then map setPeer_line (net_supportedChains config) @ concat (map limit_lines (net_supportedChains config))
      else [])"

definition configure_main :: "'w ntt_script \<Rightarrow> string \<Rightarrow> ('w, configuration_report) io" where
  "configure_main env networkName = (case NETWORK_CONFIGURATIONS networkName of
     None \<Rightarrow> throw_io (Error (''No configuration found for network: '' @ networkName))
   | Some config \<Rightarrow>
       let contractAddress = (if ns_env_address env \<in> {None, Some []} then net_contractAddress config else ns_env_address env) in
       if contractAddress \<in> {None, Some []}
       then throw_io (Error (''Contract address not provided. Set L1_BTC_DEPOSITOR_NTT_ADDRESS environment variable '' @
              ''or run deployment script first.''))
       else bind_io (ns_getContractAt env (the contractAddress)) (\<lambda>h.
         bind_io (ns_getBalance env) (\<lambda>balance.
         bind_io (configureChains h (net_supportedChains config)) (\<lambda>_.
         bind_io (or_unknown (nh_nttManager h)) (\<lambda>nttManagerAddress.
         bind_io (showChains h (net_supportedChains config)) (\<lambda>shown.
         bind_io (or_unknown (nh_getSupportedChains h)) (\<lambda>supportedChainsList.
         return_io \<lparr>rep_chains = shown, rep_nttManager = nttManagerAddress, rep_list = supportedChainsList,
           rep_steps = next_steps config nttManagerAddress\<rparr>)))))))"

subsection \<open>The contract behind the handle\<close>

text \<open>\<open>state_of\<close> reads the contract's state off the world, \<open>pending\<close> the transactions that the signer sent and
  that no block holds yet, in the order of their nonces. While a call runs blocks may be made: the first of the
  transactions, those that were pending and those that the call sends, leave the queue, and each of them was
  executed or was dropped or reverted.\<close>

definition valid_chain :: "int \<Rightarrow> bool" where
  "valid_chain c = (0 < c \<and> c < 65536)"

definition executed :: "bytes \<Rightarrow> (int \<times> bool) list \<Rightarrow> ntt_state \<Rightarrow> ntt_state" where
  "executed deployer = fold (\<lambda>(c, b) s. case sol_setSupportedChain deployer (of_int c) b s of Inl e \<Rightarrow> s | Inr s' \<Rightarrow> s')"

definition advances ::
  "('w \<Rightarrow> ntt_state) \<Rightarrow> ('w \<Rightarrow> (int \<times> bool) list) \<Rightarrow> bytes \<Rightarrow> (int \<times> bool) list \<Rightarrow> 'w \<Rightarrow> 'w \<Rightarrow> bool" where
  "advances state_of pending deployer sent w w' = (\<exists>k mined. subseq mined (take k (pending w @ sent)) \<and>
     pending w' = drop k (pending w @ sent) \<and> state_of w' = executed deployer mined (state_of w))"

text \<open>What ethers promises. A read answers with the state before or after it. A call of
  \<open>setSupportedChain\<close> that returns has sent its transaction, one that fails may have sent it too; neither
  says that a block holds it. This is what \<open>wait\<close> says, called on the transaction just sent: when it
  returns, the transaction was executed without reverting, and by the nonces nothing before it is
  pending any more. A \<open>wait\<close> that fails leaves it open.\<close>

definition serves_contract ::
  "('w \<Rightarrow> ntt_state) \<Rightarrow> ('w \<Rightarrow> (int \<times> bool) list) \<Rightarrow> bytes \<Rightarrow> 'w ntt_handle \<Rightarrow> bool" where
  "serves_contract state_of pending deployer h = (\<forall>w w'.
     (\<forall>c r. valid_chain c \<and> nh_supportedChains h c w = (r, w') \<longrightarrow> advances state_of pending deployer [] w w' \<and>
        (\<forall>b. r = Inr b \<longrightarrow> b = ntt_supportedChains (state_of w) (of_int c) \<or> b = ntt_supportedChains (state_of w') (of_int c))) \<and>
     (\<forall>c b e. valid_chain c \<and> nh_setSupportedChain h c b w = (Inl e, w') \<longrightarrow>
        advances state_of pending deployer [] w w' \<or> advances state_of pending deployer [(c, b)] w w') \<and>
     (\<forall>c b tx. valid_chain c \<and> nh_setSupportedChain h c b w = (Inr tx, w') \<longrightarrow>
        advances state_of pending deployer [(c, b)] w w' \<and>
        (\<forall>w''. nh_wait h tx w' = (Inr (), w'') \<longrightarrow> pending w'' = [] \<and> (\<exists>mined. subseq mined (pending w) \<and>
           sol_setSupportedChain deployer (of_int c) b (executed deployer mined (state_of w)) = Inr (state_of w'')))) \<and>
     (\<forall>tx r. nh_wait h tx w = (r, w') \<longrightarrow> advances state_of pending deployer [] w w') \<and>
     (\<forall>r. nh_nttManager h w = (r, w') \<longrightarrow> advances state_of pending deployer [] w w') \<and>
     (\<forall>r. nh_getSupportedChains h w = (r, w') \<longrightarrow> advances state_of pending deployer [] w w'))"

text \<open>The script starts with nothing pending.\<close>

definition script_serves :: "('w \<Rightarrow> ntt_state) \<Rightarrow> bytes \<Rightarrow> 'w ntt_script \<Rightarrow> 'w \<Rightarrow> bool" where
  "script_serves state_of deployer env w0 = (\<exists>pending. pending w0 = [] \<and> (\<forall>w w'.
     (\<forall>a r. ns_getContractAt env a w = (r, w') \<longrightarrow> advances state_of pending deployer [] w w' \<and>
        (\<forall>h. r = Inr h \<longrightarrow> serves_contract state_of pending deployer h)) \<and>
     (\<forall>r. ns_getBalance env w = (r, w') \<longrightarrow> advances state_of pending deployer [] w w')))"

text \<open>A handle whose calls succeed whenever the contract allows them.\<close>

definition handle_reliable :: "('w \<Rightarrow> ntt_state) \<Rightarrow> bytes \<Rightarrow> 'w ntt_handle \<Rightarrow> bool" where
  "handle_reliable state_of deployer h = (\<forall>w.
     (\<forall>c. valid_chain c \<longrightarrow> is_ok (fst (nh_supportedChains h c w))) \<and>
     (\<forall>c b. valid_chain c \<and> is_ok (sol_setSupportedChain deployer (of_int c) b (state_of w)) \<longrightarrow>
        (\<exists>tx w'. nh_setSupportedChain h c b w = (Inr tx, w') \<and> is_ok (fst (nh_wait h tx w')))))"

definition script_reliable :: "('w \<Rightarrow> ntt_state) \<Rightarrow> bytes \<Rightarrow> 'w ntt_script \<Rightarrow> bool" where
  "script_reliable state_of deployer env =
     (\<forall>a w w' h. ns_getContractAt env a w = (Inr h, w') \<longrightarrow> handle_reliable state_of deployer h)"

text \<open>The chains of a configuration that the contract has otherwise, and what setting one does.\<close>

definition differing :: "ntt_state \<Rightarrow> ChainConfig list \<Rightarrow> ChainConfig list" where
  "differing s listed = filter (\<lambda>c. ntt_supportedChains s (of_int (cfg_chainId c)) \<noteq> cfg_enabled c) listed"

definition set_chain :: "ChainConfig \<Rightarrow> ntt_state \<Rightarrow> ntt_state" where
  "set_chain c s = emit (SupportedChainUpdated (of_int (cfg_chainId c)) (cfg_enabled c))
     (s\<lparr>ntt_supportedChains := (ntt_supportedChains s)(of_int (cfg_chainId c) := cfg_enabled c)\<rparr>)"

definition config_ok :: "ChainConfig list \<Rightarrow> bool" where
  "config_ok listed = (distinct (map cfg_chainId listed) \<and> (\<forall>c \<in> set listed. valid_chain (cfg_chainId c)))"

subsection \<open>Lemmas\<close>

lemma networks_ok: "NETWORK_CONFIGURATIONS name = Some config \<Longrightarrow> config_ok (net_supportedChains config)"
  by (auto simp: NETWORK_CONFIGURATIONS_def network_config_def chain_config_def config_ok_def valid_chain_def split: if_splits)

lemma valid_chain_uint: "valid_chain a \<Longrightarrow> uint (of_int a :: chain_id) = a"
  by (simp add: valid_chain_def uint_word_of_int)

lemma valid_chain_words:
  assumes "valid_chain a" "valid_chain b"
  shows "(of_int a :: chain_id) \<noteq> 0" and "((of_int a :: chain_id) = of_int b) = (a = b)"
proof -
  have "0 < a" using assms(1) by (simp add: valid_chain_def)
  then show "(of_int a :: chain_id) \<noteq> 0" using valid_chain_uint [OF assms(1)] by auto
  show "((of_int a :: chain_id) = of_int b) = (a = b)"
    using valid_chain_uint [OF assms(1)] valid_chain_uint [OF assms(2)] by metis
qed

lemma set_chain_simps [simp]:
  "ntt_owner (set_chain c s) = ntt_owner s"
  "ntt_supportedChains (set_chain c s) = (ntt_supportedChains s)(of_int (cfg_chainId c) := cfg_enabled c)"
  "ntt_manager (set_chain c s) = ntt_manager s"
  by (simp_all add: set_chain_def emit_def)

lemma sol_set_owner:
  assumes "ntt_owner s = deployer" "valid_chain (cfg_chainId c)"
  shows "sol_setSupportedChain deployer (of_int (cfg_chainId c)) (cfg_enabled c) s = Inr (set_chain c s)"
  using assms valid_chain_words(1) [OF assms(2,2)]
  by (simp add: sol_setSupportedChain_def onlyOwner_def bind_require set_chain_def)

lemma servesD:
  assumes "serves_contract state_of pending deployer h"
  shows "valid_chain c \<Longrightarrow> nh_supportedChains h c w = (r, w') \<Longrightarrow> advances state_of pending deployer [] w w' \<and>
      (\<forall>b. r = Inr b \<longrightarrow> b = ntt_supportedChains (state_of w) (of_int c) \<or> b = ntt_supportedChains (state_of w') (of_int c))"
    and "valid_chain c \<Longrightarrow> nh_setSupportedChain h c b w = (Inl e, w') \<Longrightarrow>
      advances state_of pending deployer [] w w' \<or> advances state_of pending deployer [(c, b)] w w'"
    and "valid_chain c \<Longrightarrow> nh_setSupportedChain h c b w = (Inr tx, w') \<Longrightarrow> advances state_of pending deployer [(c, b)] w w'"
    and "valid_chain c \<Longrightarrow> nh_setSupportedChain h c b w = (Inr tx, w') \<Longrightarrow> nh_wait h tx w' = (Inr (), w'') \<Longrightarrow>
      pending w'' = [] \<and> (\<exists>mined. subseq mined (pending w) \<and>
        sol_setSupportedChain deployer (of_int c) b (executed deployer mined (state_of w)) = Inr (state_of w''))"
    and "nh_wait h tx w = (r3, w') \<Longrightarrow> advances state_of pending deployer [] w w'"
    and "nh_nttManager h w = (r4, w') \<Longrightarrow> advances state_of pending deployer [] w w'"
    and "nh_getSupportedChains h w = (r5, w') \<Longrightarrow> advances state_of pending deployer [] w w'"
  using assms unfolding serves_contract_def by blast+

lemma reliable_reads:
  assumes "handle_reliable state_of deployer h" "valid_chain c" "nh_supportedChains h c w = (q, w')"
  shows "is_ok q"
proof -
  have "is_ok (fst (nh_supportedChains h c w))" using assms(1,2) unfolding handle_reliable_def by blast
  then show ?thesis by (simp add: assms(3))
qed

lemma fold_set_chain_other:
  "\<forall>c \<in> set done. of_int (cfg_chainId c) \<noteq> x \<Longrightarrow>
   ntt_supportedChains (fold set_chain done s) x = ntt_supportedChains s x"
  by (induction "done" arbitrary: s) auto

lemma fold_set_chain_owner [simp]:
  "ntt_owner (fold set_chain done s) = ntt_owner s" "ntt_manager (fold set_chain done s) = ntt_manager s"
  by (induction "done" arbitrary: s) auto

lemma config_ok_words:
  assumes "config_ok listed" "c \<in> set listed" "d \<in> set listed"
  shows "((of_int (cfg_chainId c) :: chain_id) = of_int (cfg_chainId d)) = (c = d)"
  using assms valid_chain_words(2) [of "cfg_chainId c" "cfg_chainId d"]
  unfolding config_ok_def distinct_map by (metis inj_onD)

lemma config_ok_differing: "config_ok listed \<Longrightarrow> config_ok (differing s listed)"
  by (simp add: config_ok_def differing_def distinct_map_filter)

lemma fold_set_chain_in:
  assumes "config_ok done" "c \<in> set done"
  shows "ntt_supportedChains (fold set_chain done s) (of_int (cfg_chainId c)) = cfg_enabled c"
  using assms
proof (induction "done" arbitrary: s)
  case (Cons d ds)
  have ok: "config_ok ds" using Cons.prems(1) by (simp add: config_ok_def)
  show ?case
  proof (cases "c = d")
    case True
    have "of_int (cfg_chainId e) \<noteq> (of_int (cfg_chainId c) :: chain_id)" if "e \<in> set ds" for e
      using config_ok_words [OF Cons.prems(1), of e c] that Cons.prems(1) True by (auto simp: config_ok_def)
    then have "ntt_supportedChains (fold set_chain ds (set_chain d s)) (of_int (cfg_chainId c)) =
        ntt_supportedChains (set_chain d s) (of_int (cfg_chainId c))"
      by (intro fold_set_chain_other) auto
    then show ?thesis using True by simp
  qed (use Cons.IH [OF ok] Cons.prems(2) in auto)
qed simp

text \<open>After a complete configuration no listed chain differs.\<close>

lemma configured:
  assumes "config_ok listed" "c \<in> set listed"
  shows "ntt_supportedChains (fold set_chain (differing s listed) s) (of_int (cfg_chainId c)) = cfg_enabled c"
proof (cases "c \<in> set (differing s listed)")
  case True
  then show ?thesis by (rule fold_set_chain_in [OF config_ok_differing [OF assms(1)]])
next
  case False
  have "\<forall>d \<in> set (differing s listed). of_int (cfg_chainId d) \<noteq> (of_int (cfg_chainId c) :: chain_id)"
    using config_ok_words [OF assms(1)] assms(2) False by (auto simp: differing_def)
  then show ?thesis using fold_set_chain_other False assms(2) by (simp add: differing_def)
qed

lemma configured_all: "config_ok listed \<Longrightarrow> differing (fold set_chain (differing s listed) s) listed = []"
  unfolding differing_def [of "fold set_chain (differing s listed) s"] filter_empty_conv using configured by blast

text \<open>A world follows the requests for some chains when it comes about by sending them in that order: some were
  executed, some are pending, the others were lost. It has settled them when all were executed.\<close>

definition requested :: "ChainConfig \<Rightarrow> int \<times> bool" where
  "requested c = (cfg_chainId c, cfg_enabled c)"

definition follows ::
  "('w \<Rightarrow> ntt_state) \<Rightarrow> ('w \<Rightarrow> (int \<times> bool) list) \<Rightarrow> ntt_state \<Rightarrow> ChainConfig list \<Rightarrow> 'w \<Rightarrow> bool" where
  "follows state_of pending s sent_for w = (\<exists>mined queue. state_of w = fold set_chain mined s \<and>
     pending w = map requested queue \<and> subseq (mined @ queue) sent_for)"

definition settled ::
  "('w \<Rightarrow> ntt_state) \<Rightarrow> ('w \<Rightarrow> (int \<times> bool) list) \<Rightarrow> ntt_state \<Rightarrow> ChainConfig list \<Rightarrow> 'w \<Rightarrow> bool" where
  "settled state_of pending s sent_for w = (state_of w = fold set_chain sent_for s \<and> pending w = [])"

abbreviation valid_chains :: "ChainConfig list \<Rightarrow> bool" where
  "valid_chains sent_for \<equiv> (\<forall>c \<in> set sent_for. valid_chain (cfg_chainId c))"

lemma subseq_in: "subseq xs ys \<Longrightarrow> x \<in> set xs \<Longrightarrow> x \<in> set ys"
  by (erule list_emb_set, assumption) simp

lemma executed_requests:
  assumes "ntt_owner s = deployer" "valid_chains cs"
  shows "executed deployer (map requested cs) s = fold set_chain cs s"
  using assms
proof (induction cs arbitrary: s)
  case (Cons c cs)
  then show ?case using sol_set_owner [of s deployer c] by (simp add: executed_def requested_def)
qed (simp add: executed_def)

lemma subseq_map_inv: "subseq xs (map f ys) \<Longrightarrow> \<exists>zs. xs = map f zs \<and> subseq zs ys"
  by (auto simp: subseq_conv_nths nths_map)

lemma executed_follows:
  assumes "subseq took (map requested sent_for)" "ntt_owner s = deployer" "valid_chains sent_for"
  shows "\<exists>new. subseq new sent_for \<and> executed deployer took s = fold set_chain new s"
proof -
  obtain new where new: "took = map requested new" "subseq new sent_for" using subseq_map_inv [OF assms(1)] by blast
  then have "valid_chains new" using assms(3) subseq_in [OF new(2)] by blast
  then show ?thesis using executed_requests [OF assms(2)] new by blast
qed

lemma follows_settled: "settled state_of pending s sent_for w \<Longrightarrow> follows state_of pending s sent_for w"
  unfolding settled_def follows_def by (intro exI [of _ sent_for] exI [of _ "[]"]) simp

lemma follows_mono: "follows state_of pending s sent_for w \<Longrightarrow> subseq sent_for listed \<Longrightarrow> follows state_of pending s listed w"
  unfolding follows_def by (meson subseq_order.order_trans)

lemma follows_state:
  assumes "follows state_of pending s sent_for w"
  shows "\<exists>took. subseq took sent_for \<and> state_of w = fold set_chain took s" and "ntt_owner (state_of w) = ntt_owner s"
proof -
  obtain mined queue where m: "state_of w = fold set_chain mined s" "subseq (mined @ queue) sent_for"
    using assms unfolding follows_def by blast
  then have "subseq mined sent_for" by (meson subseq_order.order_refl subseq_order.order_trans subseq_rev_drop_many)
  with m show "\<exists>took. subseq took sent_for \<and> state_of w = fold set_chain took s" "ntt_owner (state_of w) = ntt_owner s"
    by auto
qed

lemma follows_other:
  assumes "follows state_of pending s sent_for w" "\<forall>d \<in> set sent_for. of_int (cfg_chainId d) \<noteq> x"
  shows "ntt_supportedChains (state_of w) x = ntt_supportedChains s x"
proof -
  obtain d where d: "subseq d sent_for" "state_of w = fold set_chain d s" using follows_state(1) [OF assms(1)] by blast
  have "\<forall>c \<in> set d. of_int (cfg_chainId c) \<noteq> x" using subseq_in [OF d(1)] assms(2) by blast
  then show ?thesis unfolding d(2) by (rule fold_set_chain_other)
qed

lemma follows_advances:
  assumes "follows state_of pending s sent_for w" "advances state_of pending deployer (map requested sent) w w'"
    and owner: "ntt_owner s = deployer" and valid: "valid_chains (sent_for @ sent)"
  shows "follows state_of pending s (sent_for @ sent) w'"
proof -
  obtain mined queue where m: "state_of w = fold set_chain mined s" "pending w = map requested queue" "subseq (mined @ queue) sent_for"
    using assms(1) unfolding follows_def by blast
  define left where "left = queue @ sent"
  have p: "pending w @ map requested sent = map requested left" by (simp add: m(2) left_def)
  obtain k took where k: "subseq took (take k (map requested left))" "pending w' = drop k (map requested left)"
      "state_of w' = executed deployer took (state_of w)"
    using assms(2) unfolding advances_def p by blast
  have "set queue \<subseteq> set sent_for" using subseq_in [OF m(3)] by auto
  then have "valid_chains (take k left)" using valid by (auto simp: left_def dest!: in_set_takeD)
  then obtain new where new: "subseq new (take k left)" "state_of w' = fold set_chain new (state_of w)"
    using executed_follows [OF k(1) [unfolded take_map], of "state_of w"] owner k(3) by (auto simp: m(1))
  have "subseq (mined @ new @ drop k left) (mined @ take k left @ drop k left)"
    using new(1) by (intro list_emb_append_mono) auto
  also have "subseq \<dots> (sent_for @ sent)"
    unfolding append_take_drop_id left_def append_assoc [symmetric] by (intro list_emb_append_mono m(3)) simp
  finally show ?thesis
    unfolding follows_def
    by (intro exI [of _ "mined @ new"] exI [of _ "drop k left"]) (simp add: k(2) drop_map new(2) m(1))
qed

lemmas follows_wait = follows_advances [where sent = "[]", simplified]

lemma settled_wait:
  "settled state_of pending s sent_for w \<Longrightarrow> advances state_of pending deployer [] w w' \<Longrightarrow> settled state_of pending s sent_for w'"
  by (auto simp: settled_def advances_def executed_def dest: list_emb_Nil2)

text \<open>A transaction that was waited for.\<close>

lemma follows_mined:
  assumes h: "serves_contract state_of pending deployer h" and c: "valid_chain (cfg_chainId c)" and owner: "ntt_owner s = deployer"
    and calls: "nh_setSupportedChain h (cfg_chainId c) (cfg_enabled c) w = (Inr tx, w')" "nh_wait h tx w' = (Inr (), w'')"
    and "follows state_of pending s sent_for w" "valid_chains sent_for"
  shows "follows state_of pending s (sent_for @ [c]) w''"
    and "settled state_of pending s sent_for w \<Longrightarrow> settled state_of pending s (sent_for @ [c]) w''"
proof -
  obtain mined queue where m: "state_of w = fold set_chain mined s" "pending w = map requested queue" "subseq (mined @ queue) sent_for"
    using assms(6) unfolding follows_def by blast
  obtain d where w'': "pending w'' = []" "subseq d (pending w)"
      "sol_setSupportedChain deployer (of_int (cfg_chainId c)) (cfg_enabled c) (executed deployer d (state_of w)) = Inr (state_of w'')"
    using servesD(4) [OF h c calls] by blast
  have "valid_chains queue" using subseq_in [OF m(3)] assms(7) by auto
  then obtain new where new: "subseq new queue" "executed deployer d (state_of w) = fold set_chain new (state_of w)"
    using executed_follows [OF w''(2) [unfolded m(2)], of "state_of w"] owner by (auto simp: m(1))
  have "state_of w'' = set_chain c (fold set_chain new (state_of w))"
    using w''(3) sol_set_owner [of "fold set_chain new (state_of w)" deployer c] owner c unfolding new(2) by (simp add: m(1))
  moreover have "subseq (mined @ new) (mined @ queue)" using new(1) by (intro list_emb_append_mono) auto
  then have "subseq (mined @ new) sent_for" using m(3) by (rule subseq_order.order_trans)
  then have "subseq ((mined @ new) @ [c]) (sent_for @ [c])" by (rule list_emb_append_mono) simp
  ultimately show "follows state_of pending s (sent_for @ [c]) w''"
    unfolding follows_def
    by (intro exI [of _ "mined @ new @ [c]"] exI [of _ "[]"]) (simp add: w''(1) m(1))
  assume settled: "settled state_of pending s sent_for w"
  then have "executed deployer d (state_of w) = fold set_chain sent_for s"
    using list_emb_Nil2 [of "(=)" d] w''(2) unfolding settled_def executed_def by fastforce
  then show "settled state_of pending s (sent_for @ [c]) w''"
    using w''(1,3) sol_set_owner [of "fold set_chain sent_for s" deployer c] owner c by (simp add: settled_def)
qed

text \<open>One chain, and all of them in the order of the table.\<close>

lemma configureChain_spec:
  assumes h: "serves_contract state_of pending deployer h" and owner: "ntt_owner s = deployer"
    and c: "valid_chain (cfg_chainId c)" and run: "configureChain h c w = (r, w')"
    and f: "follows state_of pending s sent_for w" and valid: "valid_chains sent_for"
    and others: "\<forall>d \<in> set sent_for. of_int (cfg_chainId d) \<noteq> (of_int (cfg_chainId c) :: chain_id)"
  shows "follows state_of pending s (sent_for @ differing s [c]) w'"
    and "handle_reliable state_of deployer h \<Longrightarrow> settled state_of pending s sent_for w \<Longrightarrow>
      settled state_of pending s (sent_for @ differing s [c]) w'"
proof -
  obtain q w1 where q: "nh_supportedChains h (cfg_chainId c) w = (q, w1)" by force
  note read = servesD(1) [OF h c q]
  have f1: "follows state_of pending s sent_for w1" by (rule follows_wait [OF f conjunct1 [OF read] owner valid])
  have s1: "settled state_of pending s sent_for w \<Longrightarrow> settled state_of pending s sent_for w1"
    by (rule settled_wait [OF _ conjunct1 [OF read]])
  note same = follows_other [OF f others] follows_other [OF f1 others]
  have owner1: "is_ok (sol_setSupportedChain deployer (of_int (cfg_chainId c)) (cfg_enabled c) (state_of w1))"
    using sol_set_owner [of "state_of w1" deployer c] follows_state(2) [OF f1] owner c by simp
  have "follows state_of pending s (sent_for @ differing s [c]) w' \<and>
     (handle_reliable state_of deployer h \<longrightarrow> settled state_of pending s sent_for w \<longrightarrow>
        settled state_of pending s (sent_for @ differing s [c]) w')"
  proof (cases "q = Inr (\<not> cfg_enabled c)")
    case False
    have "w' = w1" using run q False by (cases q) (auto simp: configureChain_def split: if_splits)
    moreover have "differing s [c] = []" if "handle_reliable state_of deployer h"
      using reliable_reads [OF that c q] read False same by (cases q) (auto simp: differing_def)
    ultimately show ?thesis using s1 follows_mono [OF f1, of "sent_for @ differing s [c]"] by auto
  next
    case True
    then have differs: "differing s [c] = [c]" using read same by (auto simp: differing_def)
    obtain q2 w2 where set: "nh_setSupportedChain h (cfg_chainId c) (cfg_enabled c) w1 = (q2, w2)" by force
    show ?thesis
    proof (cases q2)
      case (Inl e)
      have "w' = w2" using run q set Inl True by (auto simp: configureChain_def)
      moreover have "\<not> handle_reliable state_of deployer h"
        using c set Inl owner1 unfolding handle_reliable_def by fastforce
      moreover have "follows state_of pending s (sent_for @ [c]) w2"
        using servesD(2) [OF h c set [unfolded Inl]]
      proof
        assume "advances state_of pending deployer [] w1 w2"
        then have "follows state_of pending s sent_for w2" by (rule follows_wait [OF f1 _ owner valid])
        then show ?thesis by (rule follows_mono) (rule subseq_rev_drop_many, rule subseq_order.order_refl)
      next
        assume "advances state_of pending deployer [(cfg_chainId c, cfg_enabled c)] w1 w2"
        then show ?thesis using follows_advances [OF f1 _ owner, of "[c]" w2] c valid by (simp add: requested_def)
      qed
      ultimately show ?thesis by (simp add: differs)
    next
      case (Inr tx)
      obtain q3 w3 where wait: "nh_wait h tx w2 = (q3, w3)" by force
      have w': "w' = w3" using run q set wait Inr True by (auto simp: configureChain_def)
      show ?thesis
      proof (cases q3)
        case (Inl e)
        have "follows state_of pending s (sent_for @ [c]) w2"
          using servesD(3) [OF h c set [unfolded Inr]] follows_advances [OF f1 _ owner, of "[c]" w2] c valid by (simp add: requested_def)
        then have "follows state_of pending s (sent_for @ [c]) w3"
          using follows_wait [OF _ servesD(5) [OF h wait] owner] c valid by simp
        moreover have "\<not> handle_reliable state_of deployer h"
          using c set Inr wait Inl owner1 unfolding handle_reliable_def by fastforce
        ultimately show ?thesis by (simp add: differs w')
      next
        case ok: (Inr u)
        show ?thesis using follows_mined [OF h c owner set [unfolded Inr] _ f1 valid, of w3] wait ok s1 by (simp add: differs w')
      qed
    qed
  qed
  then show "follows state_of pending s (sent_for @ differing s [c]) w'"
    and "handle_reliable state_of deployer h \<Longrightarrow> settled state_of pending s sent_for w \<Longrightarrow>
      settled state_of pending s (sent_for @ differing s [c]) w'" by blast+
qed

lemma differing_append: "differing s (xs @ ys) = differing s xs @ differing s ys"
  by (simp add: differing_def)

lemma configureChains_spec:
  assumes h: "serves_contract state_of pending deployer h" and owner: "ntt_owner s = deployer"
    and "config_ok (earlier @ listed)" "follows state_of pending s (differing s earlier) w"
    and "configureChains h listed w = (r, w')"
  shows "r = Inr () \<and> follows state_of pending s (differing s (earlier @ listed)) w' \<and>
     (handle_reliable state_of deployer h \<longrightarrow> settled state_of pending s (differing s earlier) w \<longrightarrow>
        settled state_of pending s (differing s (earlier @ listed)) w')"
  using assms(3-)
proof (induction listed arbitrary: w earlier)
  case (Cons c listed)
  obtain q w1 where q: "configureChain h c w = (q, w1)" by force
  have rest: "configureChains h listed w1 = (r, w')"
    using Cons.prems(3) q by (cases q) (auto simp: catch_io_def bind_io_def)
  have c: "valid_chain (cfg_chainId c)" and valid: "valid_chains (differing s earlier)"
    using Cons.prems(1) by (auto simp: config_ok_def differing_def)
  have others: "\<forall>d \<in> set (differing s earlier). of_int (cfg_chainId d) \<noteq> (of_int (cfg_chainId c) :: chain_id)"
    using Cons.prems(1) config_ok_words [OF Cons.prems(1), of _ c] by (fastforce simp: differing_def config_ok_def)
  note step = configureChain_spec [OF h owner c q Cons.prems(2) valid others]
  have "follows state_of pending s (differing s (earlier @ [c])) w1" using step(1) by (simp add: differing_append)
  from Cons.IH [OF _ this rest] show ?case using Cons.prems(1) step(2) by (auto simp: differing_append)
qed simp

text \<open>A reliable handle always reads.\<close>

lemma showChains_spec:
  assumes h: "serves_contract state_of pending deployer h" and ok: "config_ok listed" and run: "showChains h listed w = (r, w')"
    and owner: "ntt_owner s = deployer" and valid: "valid_chains sent_for" and f: "follows state_of pending s sent_for w"
  shows "follows state_of pending s sent_for w'"
    and "settled state_of pending s sent_for w \<Longrightarrow> settled state_of pending s sent_for w' \<and>
      (\<forall>shown. r = Inr shown \<longrightarrow> handle_reliable state_of deployer h \<longrightarrow> shown =
         map (\<lambda>c. (cfg_name c, cfg_chainId c, Some (ntt_supportedChains (fold set_chain sent_for s) (of_int (cfg_chainId c))))) listed)"
proof -
  have "follows state_of pending s sent_for w' \<and> (settled state_of pending s sent_for w \<longrightarrow> settled state_of pending s sent_for w' \<and>
      (\<forall>shown. r = Inr shown \<longrightarrow> handle_reliable state_of deployer h \<longrightarrow> shown =
         map (\<lambda>c. (cfg_name c, cfg_chainId c, Some (ntt_supportedChains (fold set_chain sent_for s) (of_int (cfg_chainId c))))) listed))"
    using ok run f
  proof (induction listed arbitrary: w r w')
    case (Cons c listed)
    obtain q w1 where q: "nh_supportedChains h (cfg_chainId c) w = (q, w1)" by force
    have ok: "valid_chain (cfg_chainId c)" "config_ok listed" using Cons.prems(1) by (auto simp: config_ok_def)
    note read = servesD(1) [OF h ok(1) q]
    have f1: "follows state_of pending s sent_for w1" by (rule follows_wait [OF Cons.prems(3) conjunct1 [OF read] owner valid])
    obtain p w2 where rest: "showChains h listed w1 = (p, w2)" by force
    have u: "or_unknown (nh_supportedChains h (cfg_chainId c)) w = (Inr (case q of Inr b \<Rightarrow> Some b | Inl _ \<Rightarrow> None), w1)"
      using q by (cases q) (simp_all add: or_unknown_def catch_io_def bind_io_def)
    have both: "showChains h (c # listed) w =
        (bind_res p (\<lambda>shown. Inr ((cfg_name c, cfg_chainId c, case q of Inr b \<Rightarrow> Some b | Inl _ \<Rightarrow> None) # shown)), w2)"
      using rest u by (cases p) (simp_all add: showChains_def)
    note ih = Cons.IH [OF ok(2) rest f1]
    show ?case
    proof (intro conjI impI allI)
      show "follows state_of pending s sent_for w'" using both Cons.prems(2) ih by simp
    next
      assume w: "settled state_of pending s sent_for w"
      have w1: "settled state_of pending s sent_for w1" by (rule settled_wait [OF w conjunct1 [OF read]])
      then show "settled state_of pending s sent_for w'" using both Cons.prems(2) ih by simp
      fix shown assume r: "r = Inr shown" and rel: "handle_reliable state_of deployer h"
      obtain b where b: "q = Inr b" using reliable_reads [OF rel ok(1) q] by (auto simp: is_ok_conv)
      have "b = ntt_supportedChains (fold set_chain sent_for s) (of_int (cfg_chainId c))"
        using read b w w1 by (auto simp: settled_def)
      then show "shown = map (\<lambda>c. (cfg_name c, cfg_chainId c,
          Some (ntt_supportedChains (fold set_chain sent_for s) (of_int (cfg_chainId c))))) (c # listed)"
        using both Cons.prems(2) r b ih w1 rel by (cases p) auto
    qed
  qed (auto simp: showChains_def)
  then show "follows state_of pending s sent_for w'"
    and "settled state_of pending s sent_for w \<Longrightarrow> settled state_of pending s sent_for w' \<and>
      (\<forall>shown. r = Inr shown \<longrightarrow> handle_reliable state_of deployer h \<longrightarrow> shown =
         map (\<lambda>c. (cfg_name c, cfg_chainId c, Some (ntt_supportedChains (fold set_chain sent_for s) (of_int (cfg_chainId c))))) listed)"
    by blast+
qed

lemma or_unknown_world: "or_unknown m w = (r, w') \<Longrightarrow> \<exists>q. m w = (q, w')"
  by (cases "m w"; cases "fst (m w)") (auto simp: or_unknown_def catch_io_def bind_io_def)

end
