(* ===== verification/NttClaims.thy ===== *)
theory NttClaims
  imports NttConfiguration ChainAddresses
begin

section \<open>Configuration and routing of the depositor contract\<close>

text \<open>
  What the configuration script leaves in the contract, and which receivers of the client library the
  configured contract accepts. A concrete contract behind a handle is at the end.
\<close>

subsection \<open>Lemmas\<close>

lemma configure_main_parts:
  assumes serve: "script_serves state_of deployer env w" and owner: "ntt_owner (state_of w) = deployer"
    and run: "configure_main env name w = (Inr report, w')"
  shows "\<exists>config done. NETWORK_CONFIGURATIONS name = Some config \<and>
     subseq done (differing (state_of w) (net_supportedChains config)) \<and> state_of w' = fold set_chain done (state_of w) \<and>
     (script_reliable state_of deployer env \<longrightarrow> done = differing (state_of w) (net_supportedChains config) \<and>
       rep_chains report = map (\<lambda>c. (cfg_name c, cfg_chainId c, Some (cfg_enabled c))) (net_supportedChains config))"
proof -
  obtain config where config: "NETWORK_CONFIGURATIONS name = Some config"
    using run by (cases "NETWORK_CONFIGURATIONS name") (auto simp: configure_main_def)
  define listed where "listed = net_supportedChains config"
  obtain a h w1 balance w2 u w3 m w4 shown w5 l where
      h: "ns_getContractAt env a w = (Inr h, w1)" and b: "ns_getBalance env w1 = (Inr balance, w2)"
      and c: "configureChains h listed w2 = (Inr u, w3)" and m: "or_unknown (nh_nttManager h) w3 = (Inr m, w4)"
      and s: "showChains h listed w4 = (Inr shown, w5)" and l: "or_unknown (nh_getSupportedChains h) w5 = (Inr l, w')"
      and r: "rep_chains report = shown"
    using run config unfolding listed_def
    by (auto simp: configure_main_def Let_def bind_io_Inr split: if_splits)
  have ok: "config_ok listed" using networks_ok [OF config] by (simp add: listed_def)
  define sent where "sent = differing (state_of w) listed"
  have valid: "valid_chains sent" using ok by (auto simp: sent_def differing_def config_ok_def)
  obtain pending where pending: "pending w = [] \<and> (\<forall>w w'.
     (\<forall>a r. ns_getContractAt env a w = (r, w') \<longrightarrow> advances state_of pending deployer [] w w' \<and>
        (\<forall>h. r = Inr h \<longrightarrow> serves_contract state_of pending deployer h)) \<and>
     (\<forall>r. ns_getBalance env w = (r, w') \<longrightarrow> advances state_of pending deployer [] w w'))"
    using serve [unfolded script_serves_def] by (rule exE)
  note start = conjunct1 [OF pending]
  note both = conjunct2 [OF pending, THEN spec, THEN spec]
  note laws = conjunct1 [OF both, THEN spec, THEN spec, THEN mp] conjunct2 [OF both, THEN spec, THEN mp]
  have serves: "serves_contract state_of pending deployer h" by (rule conjunct2 [OF laws(1) [OF h], THEN spec, THEN mp]) (rule refl)
  have "settled state_of pending (state_of w) [] w" using start by (simp add: settled_def)
  then have "settled state_of pending (state_of w) [] w1" by (rule settled_wait [OF _ conjunct1 [OF laws(1) [OF h]]])
  then have w2: "settled state_of pending (state_of w) [] w2" by (rule settled_wait [OF _ laws(2) [OF b]])
  note set = configureChains_spec [OF serves owner, of "[]", OF _ _ c, folded sent_def]
  have f3: "follows state_of pending (state_of w) sent w3"
    using set ok follows_settled [OF w2] by (simp add: differing_def sent_def)
  have s3: "handle_reliable state_of deployer h \<Longrightarrow> settled state_of pending (state_of w) sent w3"
    using set ok follows_settled [OF w2] w2 by (simp add: differing_def sent_def)
  obtain qm where qm: "nh_nttManager h w3 = (qm, w4)" using or_unknown_world [OF m] by blast
  note w4 = servesD(6) [OF serves qm]
  obtain ql where ql: "nh_getSupportedChains h w5 = (ql, w')" using or_unknown_world [OF l] by blast
  note w' = servesD(7) [OF serves ql]
  note f4 = follows_wait [OF f3 w4 owner valid]
  note display = showChains_spec [OF serves ok s owner valid f4]
  have "follows state_of pending (state_of w) sent w'" by (rule follows_wait [OF display(1) w' owner valid])
  then obtain d where d: "subseq d sent" "state_of w' = fold set_chain d (state_of w)"
    using follows_state(1) [of state_of pending "state_of w" sent w'] by blast
  have all_done: "state_of w' = fold set_chain sent (state_of w) \<and>
      rep_chains report = map (\<lambda>c. (cfg_name c, cfg_chainId c, Some (cfg_enabled c))) listed"
    if rel: "handle_reliable state_of deployer h"
  proof -
    note s5 = display(2) [OF settled_wait [OF s3 [OF rel] w4]]
    have "settled state_of pending (state_of w) sent w'" by (rule settled_wait [OF conjunct1 [OF s5] w'])
    then show ?thesis using s5 rel configured [OF ok] by (simp add: settled_def r sent_def)
  qed
  show ?thesis
  proof (cases "script_reliable state_of deployer env")
    case True
    then have "handle_reliable state_of deployer h" using h unfolding script_reliable_def by blast
    then show ?thesis using config all_done unfolding listed_def sent_def
      by (intro exI [of _ config] exI [of _ "differing (state_of w) (net_supportedChains config)"]) simp
  next
    case False
    then show ?thesis using config d unfolding listed_def sent_def by blast
  qed
qed

lemma set_chain_events: "ntt_events (fold set_chain done s) =
    ntt_events s @ map (\<lambda>c. SupportedChainUpdated (of_int (cfg_chainId c)) (cfg_enabled c)) done"
  by (induction "done" arbitrary: s) (simp_all add: set_chain_def emit_def)

lemma network_enables: "NETWORK_CONFIGURATIONS name = Some config \<Longrightarrow> c \<in> set (net_supportedChains config) \<Longrightarrow> cfg_enabled c"
  by (auto simp: NETWORK_CONFIGURATIONS_def network_config_def chain_config_def split: if_splits)

lemma network_without_sei:
  "NETWORK_CONFIGURATIONS name = Some config \<Longrightarrow> c \<in> set (net_supportedChains config) \<Longrightarrow> cfg_chainId c \<noteq> WORMHOLE_SEI"
  by (auto simp: NETWORK_CONFIGURATIONS_def network_config_def chain_config_def WORMHOLE_SEI_def split: if_splits)

lemma library_receiver:
  assumes "0 \<le> chainId" "chainId \<le> 65535" "length addr = 20"
  shows "encodeDestinationReceiver chainId (''0x'' @ bytes_to_hex addr) =
     Inr (Hex (sol_encodeDestinationReceiver (of_int chainId) addr))"
proof -
  have "unat (of_int chainId :: chain_id) = nat chainId"
    using assms(1,2) by (simp add: unat_eq_nat_uint uint_word_of_int)
  then have "sol_encodeDestinationReceiver (of_int chainId) addr = be_bytes 2 (nat chainId) @ replicate 10 0 @ addr"
    using sol_encode_bytes [OF assms(3), of "of_int chainId"] by (simp del: be_bytes.simps)
  then show ?thesis using encode_bytes [OF assms] by (simp del: be_bytes.simps)
qed

subsection \<open>Properties\<close>

text \<open>C25: The configuration script, run by the owner of the contract, enables chains of its table only: the
  transactions it gets through are those of some listed chains that were not enabled, in the order of
  the table, and nothing else changes. When every call succeeds all of them are, the report shows
  every listed chain as enabled, and a second run would send nothing.\<close>

theorem configuration_enables_listed_chains:
  assumes "script_serves state_of deployer env w" "ntt_owner (state_of w) = deployer"
    and "configure_main env name w = (Inr report, w')"
  shows "\<exists>config done. NETWORK_CONFIGURATIONS name = Some config \<and>
     subseq done (filter (\<lambda>c. \<not> ntt_supportedChains (state_of w) (of_int (cfg_chainId c))) (net_supportedChains config)) \<and>
     state_of w' = (state_of w)\<lparr>
       ntt_supportedChains := (\<lambda>x. ntt_supportedChains (state_of w) x \<or> (\<exists>c \<in> set done. x = of_int (cfg_chainId c))),
       ntt_events := ntt_events (state_of w) @ map (\<lambda>c. SupportedChainUpdated (of_int (cfg_chainId c)) True) done\<rparr> \<and>
     (script_reliable state_of deployer env \<longrightarrow>
       done = filter (\<lambda>c. \<not> ntt_supportedChains (state_of w) (of_int (cfg_chainId c))) (net_supportedChains config) \<and>
       rep_chains report = map (\<lambda>c. (cfg_name c, cfg_chainId c, Some True)) (net_supportedChains config) \<and>
       differing (state_of w') (net_supportedChains config) = [])"
proof -
  obtain config d where config: "NETWORK_CONFIGURATIONS name = Some config"
    and d: "subseq d (differing (state_of w) (net_supportedChains config))" "state_of w' = fold set_chain d (state_of w)"
    and rel: "script_reliable state_of deployer env \<longrightarrow> d = differing (state_of w) (net_supportedChains config) \<and>
       rep_chains report = map (\<lambda>c. (cfg_name c, cfg_chainId c, Some (cfg_enabled c))) (net_supportedChains config)"
    using configure_main_parts [OF assms] by blast
  have diff: "differing (state_of w) (net_supportedChains config) =
      filter (\<lambda>c. \<not> ntt_supportedChains (state_of w) (of_int (cfg_chainId c))) (net_supportedChains config)"
    unfolding differing_def using network_enables [OF config] by (intro filter_cong) auto
  have "\<forall>c \<in> set d. cfg_enabled c"
    using list_emb_set [OF d(1)] network_enables [OF config] by (force simp: differing_def)
  then have state: "state_of w' = (state_of w)\<lparr>
       ntt_supportedChains := (\<lambda>x. ntt_supportedChains (state_of w) x \<or> (\<exists>c \<in> set d. x = of_int (cfg_chainId c))),
       ntt_events := ntt_events (state_of w) @ map (\<lambda>c. SupportedChainUpdated (of_int (cfg_chainId c)) True) d\<rparr>"
    unfolding d(2)
  proof (induction d arbitrary: rule: rev_induct)
    case (snoc c d)
    then show ?case by (simp add: set_chain_def emit_def) (auto simp: fun_eq_iff)
  qed simp
  have again: "script_reliable state_of deployer env \<longrightarrow> differing (state_of w') (net_supportedChains config) = []"
    using rel d(2) configured_all [OF networks_ok [OF config]] by simp
  have "map (\<lambda>c. (cfg_name c, cfg_chainId c, Some (cfg_enabled c))) (net_supportedChains config) =
      map (\<lambda>c. (cfg_name c, cfg_chainId c, Some True)) (net_supportedChains config)"
    using network_enables [OF config] by auto
  then have report: "script_reliable state_of deployer env \<longrightarrow>
      d = filter (\<lambda>c. \<not> ntt_supportedChains (state_of w) (of_int (cfg_chainId c))) (net_supportedChains config) \<and>
      rep_chains report = map (\<lambda>c. (cfg_name c, cfg_chainId c, Some True)) (net_supportedChains config)"
    using rel unfolding diff by simp
  show ?thesis
    by (rule exI [of _ config], rule exI [of _ d]) (use config d(1) [unfolded diff] state again report in simp)
qed

text \<open>C23: The library and the contract agree on receivers: what the library encodes is what the contract's
  own helper encodes, it decodes to the chain and the address, and the contract takes them from it,
  provided that the chain is not zero and supported. Deposit owners as the library encodes them for
  Sei begin with zeros and are refused.\<close>

theorem receivers_are_routed:
  assumes "0 \<le> chainId" "chainId \<le> 65535" "length addr = 20"
  shows "\<exists>receiver. encodeDestinationReceiver chainId (''0x'' @ bytes_to_hex addr) = Inr (Hex receiver) \<and>
     receiver = sol_encodeDestinationReceiver (of_int chainId) addr \<and>
     sol_decodeDestinationReceiver receiver = (of_int chainId, addr) \<and>
     sol_recipient receiver = replicate 12 0 @ addr \<and>
     sol_destinationChain s receiver =
       (if chainId = 0 then Inl (Error ''Chain ID cannot be zero'')
        else if ntt_supportedChains s (of_int chainId) then Inr (of_int chainId)
        else Inl (Error ''Destination chain not supported'')) \<and>
     (\<exists>owner. Sei_encodeDepositOwner (SeiAddress (bytes_to_hex addr)) = Inr (Hex owner) \<and>
        sol_destinationChain s owner = Inl (Error ''Chain ID cannot be zero''))"
proof -
  define receiver where "receiver = sol_encodeDestinationReceiver (of_int chainId) addr"
  note parts = sol_encode_parts [OF assms(3), of "of_int chainId", folded receiver_def]
  have "(of_int chainId :: chain_id) = 0 \<longleftrightarrow> chainId = 0"
    using valid_chain_words(1) [of chainId chainId] assms(1,2) by (cases "0 < chainId") (simp_all add: valid_chain_def)
  then have chain: "sol_destinationChain s receiver =
       (if chainId = 0 then Inl (Error ''Chain ID cannot be zero'')
        else if ntt_supportedChains s (of_int chainId) then Inr (of_int chainId)
        else Inl (Error ''Destination chain not supported''))"
    by (simp add: sol_destinationChain_def parts Let_def)
  have owner: "Sei_encodeDepositOwner (SeiAddress (bytes_to_hex addr)) = Inr (Hex (replicate 12 0 @ addr))"
    using padStart_bytes_to_hex [of addr 32] assms(3) by simp
  have "take 2 (replicate 12 0 @ addr) = (replicate 2 0 :: byte list)" by simp
  then have "sol_destinationChain s (replicate 12 0 @ addr) = Inl (Error ''Chain ID cannot be zero'')"
    by (simp add: sol_destinationChain_def leading_chain_def Let_def del: take_append)
  with owner show ?thesis
    using library_receiver [OF assms, folded receiver_def] chain parts
    by (intro exI [of _ receiver]) (simp add: sol_decodeDestinationReceiver_def, simp add: receiver_def)
qed

text \<open>C24: A contract that supported no chain before the script configured it, on any network of the table, takes
  the receivers of the listed chains it was told of and no others. The number the library gives to
  Sei is in none of the lists: a transfer to a receiver encoded for Sei by the library fails.\<close>

theorem configured_contract_refuses_sei:
  assumes "script_serves state_of deployer env w" "ntt_owner (state_of w) = deployer"
    and "configure_main env name w = (Inr report, w')"
    and fresh: "\<forall>c. \<not> ntt_supportedChains (state_of w) c"
    and addr: "length addr = 20" and amount: "0 < amount"
  shows "\<exists>config receiver. NETWORK_CONFIGURATIONS name = Some config \<and>
     encodeDestinationReceiver WORMHOLE_SEI (''0x'' @ bytes_to_hex addr) = Inr (Hex receiver) \<and>
     sol_transferTbtc x msgValue amount receiver (state_of w') ext = Inl (Error ''Destination chain not supported'') \<and>
     (script_reliable state_of deployer env \<longrightarrow> (\<forall>chainId. valid_chain chainId \<longrightarrow>
        is_ok (sol_destinationChain (state_of w') (sol_encodeDestinationReceiver (of_int chainId) addr)) =
        (chainId \<in> cfg_chainId ` set (net_supportedChains config))))"
proof -
  obtain config d where config: "NETWORK_CONFIGURATIONS name = Some config"
    and d: "subseq d (differing (state_of w) (net_supportedChains config))" "state_of w' = fold set_chain d (state_of w)"
    and rel: "script_reliable state_of deployer env \<longrightarrow> d = differing (state_of w) (net_supportedChains config)"
    using configure_main_parts [OF assms(1-3)] by blast
  note ok = networks_ok [OF config]
  have listed: "c \<in> set (net_supportedChains config)" if "c \<in> set d" for c
    using list_emb_set [OF d(1) that] by (auto simp: differing_def)
  have unlisted: "\<not> ntt_supportedChains (state_of w') (of_int chainId)"
    if "valid_chain chainId" "chainId \<notin> cfg_chainId ` set (net_supportedChains config)" for chainId
  proof -
    have "of_int (cfg_chainId c) \<noteq> (of_int chainId :: chain_id)" if "c \<in> set d" for c
    proof -
      have "valid_chain (cfg_chainId c)" "cfg_chainId c \<noteq> chainId"
        using listed [OF that] ok \<open>chainId \<notin> _\<close> by (auto simp: config_ok_def)
      then show ?thesis using valid_chain_words(2) \<open>valid_chain chainId\<close> by blast
    qed
    then show ?thesis using fold_set_chain_other [of d "of_int chainId" "state_of w"] fresh by (simp add: d(2))
  qed
  have sei: "valid_chain WORMHOLE_SEI" and bounds: "0 \<le> WORMHOLE_SEI" "WORMHOLE_SEI \<le> 65535"
    by (simp_all add: valid_chain_def WORMHOLE_SEI_def)
  have "WORMHOLE_SEI \<notin> cfg_chainId ` set (net_supportedChains config)"
  proof
    assume "WORMHOLE_SEI \<in> cfg_chainId ` set (net_supportedChains config)"
    then obtain c where "c \<in> set (net_supportedChains config)" "WORMHOLE_SEI = cfg_chainId c" by (rule imageE)
    then show False using network_without_sei [OF config, of c] by simp
  qed
  note sei = sei this
  define receiver where "receiver = sol_encodeDestinationReceiver (of_int WORMHOLE_SEI) addr"
  note encoded = library_receiver [OF bounds addr, folded receiver_def]
  have "sol_destinationChain (state_of w') receiver = Inl (Error ''Destination chain not supported'')"
    using unlisted [OF sei] valid_chain_words(1) [OF sei(1) sei(1)] sol_encode_parts(1) [OF addr]
    by (simp add: sol_destinationChain_def receiver_def Let_def)
  then have refused: "sol_transferTbtc x msgValue amount receiver (state_of w') ext = Inl (Error ''Destination chain not supported'')"
    using amount by (simp add: sol_transferTbtc_def bind_require)
  have "is_ok (sol_destinationChain (state_of w') (sol_encodeDestinationReceiver (of_int chainId) addr)) =
        (chainId \<in> cfg_chainId ` set (net_supportedChains config))"
    if "script_reliable state_of deployer env" "valid_chain chainId" for chainId
  proof -
    have "ntt_supportedChains (state_of w') (of_int chainId)" if "chainId \<in> cfg_chainId ` set (net_supportedChains config)"
      using that configured [OF ok] network_enables [OF config] rel \<open>script_reliable state_of deployer env\<close> d(2) by auto
    then show ?thesis
      using unlisted [OF that(2)] valid_chain_words(1) [OF that(2,2)] sol_encode_parts(1) [OF addr]
      by (auto simp: sol_destinationChain_def Let_def)
  qed
  then show ?thesis using config encoded refused by blast
qed

subsection \<open>A deployed contract\<close>

text \<open>The world is the contract's state and the transactions no block holds yet: a call of \<open>setSupportedChain\<close> that the
  contract would take is queued, and \<open>wait\<close> lets a block take the queue. The script knows the
  contract's address and runs as its owner.\<close>

definition sample_deployer :: bytes where
  "sample_deployer = replicate 20 7"

definition sample_ntt_state :: ntt_state where
  "sample_ntt_state = \<lparr>ntt_owner = sample_deployer, ntt_manager = replicate 20 9, ntt_supportedChains = (\<lambda>_. False),
     ntt_defaultSupportedChain = 0, ntt_events = []\<rparr>"

definition sample_ntt_handle :: "(ntt_state \<times> (int \<times> bool) list) ntt_handle" where
  "sample_ntt_handle = \<lparr>nh_supportedChains = (\<lambda>c w. (Inr (ntt_supportedChains (fst w) (of_int c)), w)),
     nh_setSupportedChain = (\<lambda>c b w. case sol_setSupportedChain sample_deployer (of_int c) b (fst w) of
        Inl e \<Rightarrow> (Inl e, w) | Inr _ \<Rightarrow> (Inr ''0x01'', (fst w, snd w @ [(c, b)]))),
     nh_wait = (\<lambda>_ w. (Inr (), (executed sample_deployer (snd w) (fst w), []))), nh_nttManager = return_io ''0x09'',
     nh_getSupportedChains = throw_io (TypeError ''l1BtcDepositorNtt.getSupportedChains is not a function'')\<rparr>"

definition sample_ntt_script :: "(ntt_state \<times> (int \<times> bool) list) ntt_script" where
  "sample_ntt_script = \<lparr>ns_env_address = Some ''0x0a'', ns_getContractAt = (\<lambda>_. return_io sample_ntt_handle),
     ns_getBalance = return_io 5\<rparr>"

lemma advances_nothing: "advances state_of pending deployer [] w w"
  unfolding advances_def by (intro exI [of _ 0] exI [of _ "[]"]) (simp add: executed_def)

lemma advances_queued: "advances fst snd deployer [r] w (fst w, snd w @ [r])"
  unfolding advances_def by (intro exI [of _ 0] exI [of _ "[]"]) (simp add: executed_def)

lemma advances_all: "advances fst snd deployer [] w (executed deployer (snd w) (fst w), [])"
  unfolding advances_def by (intro exI [of _ "length (snd w)"] exI [of _ "snd w"]) simp

lemma set_ok_owner:
  "is_ok (sol_setSupportedChain deployer c b s) \<longleftrightarrow> ntt_owner s = deployer \<and> c \<noteq> 0"
  by (auto simp: sol_setSupportedChain_def onlyOwner_def bind_require is_ok_conv split: if_splits)

lemma set_keeps_owner: "sol_setSupportedChain deployer c b s = Inr s' \<Longrightarrow> ntt_owner s' = ntt_owner s"
  by (auto simp: sol_setSupportedChain_def onlyOwner_def bind_require emit_def split: if_splits)

lemma executed_owner [simp]: "ntt_owner (executed deployer q s) = ntt_owner s"
  unfolding executed_def by (induction q arbitrary: s) (auto split: sum.split dest: set_keeps_owner)

lemma executed_snoc:
  assumes "sol_setSupportedChain deployer (of_int c) b s = Inr s1"
  shows "sol_setSupportedChain deployer (of_int c) b (executed deployer q s) = Inr (executed deployer (q @ [(c, b)]) s)"
proof -
  have "is_ok (sol_setSupportedChain deployer (of_int c) b s)" by (simp add: assms)
  then have "is_ok (sol_setSupportedChain deployer (of_int c) b (executed deployer q s))" by (simp add: set_ok_owner)
  then show ?thesis by (auto simp: is_ok_conv executed_def)
qed

lemma sample_serves: "serves_contract fst snd sample_deployer sample_ntt_handle"
  unfolding serves_contract_def
proof (intro allI conjI impI)
  fix w w' :: "ntt_state \<times> (int \<times> bool) list" and c b tx w''
  assume sent: "valid_chain c \<and> nh_setSupportedChain sample_ntt_handle c b w = (Inr tx, w')"
  then obtain s where s: "sol_setSupportedChain sample_deployer (of_int c) b (fst w) = Inr s" and w': "w' = (fst w, snd w @ [(c, b)])"
    by (auto simp: sample_ntt_handle_def split: sum.split_asm)
  show "advances fst snd sample_deployer [(c, b)] w w'" unfolding w' by (rule advances_queued)
  assume "nh_wait sample_ntt_handle tx w' = (Inr (), w'')"
  then show "snd w'' = []" and "\<exists>mined. subseq mined (snd w) \<and>
      sol_setSupportedChain sample_deployer (of_int c) b (executed sample_deployer mined (fst w)) = Inr (fst w'')"
    using executed_snoc [OF s, of "snd w"] by (auto simp: sample_ntt_handle_def w')
qed (auto simp: sample_ntt_handle_def advances_nothing advances_all split: sum.split_asm)

lemma sample_script_serves: "script_serves fst sample_deployer sample_ntt_script (sample_ntt_state, [])"
  unfolding script_serves_def
  by (rule exI [of _ snd]) (use sample_serves in \<open>auto simp: sample_ntt_script_def advances_nothing\<close>)

lemma sample_script_reliable: "script_reliable fst sample_deployer sample_ntt_script"
  by (auto simp: script_reliable_def handle_reliable_def sample_ntt_script_def sample_ntt_handle_def is_ok_conv)

lemma sample_configured:
  "\<exists>report w. configure_main sample_ntt_script ''mainnet'' (sample_ntt_state, []) = (Inr report, w)"
proof -
  obtain config where "NETWORK_CONFIGURATIONS ''mainnet'' = Some config"
    by (simp add: NETWORK_CONFIGURATIONS_def)
  moreover obtain q w1 where c: "configureChains sample_ntt_handle (net_supportedChains config) (sample_ntt_state, []) = (q, w1)"
    by (cases "configureChains sample_ntt_handle (net_supportedChains config) (sample_ntt_state, [])") blast
  have "follows fst snd sample_ntt_state (differing sample_ntt_state []) (sample_ntt_state, [])"
    by (rule follows_settled) (simp add: settled_def differing_def)
  then have "q = Inr ()"
    using configureChains_spec [OF sample_serves, of sample_ntt_state "[]", OF _ _ _ c] networks_ok [OF calculation(1)]
    by (simp add: sample_ntt_state_def)
  moreover note c
  moreover have "showChains sample_ntt_handle listed w =
      (Inr (map (\<lambda>c. (cfg_name c, cfg_chainId c, Some (ntt_supportedChains (fst w) (of_int (cfg_chainId c))))) listed), w)" for listed w
    by (induction listed) (simp_all add: showChains_def or_unknown_def sample_ntt_handle_def bind_io_def catch_io_def)
  moreover have "or_unknown (nh_nttManager sample_ntt_handle) w = (Inr (Some ''0x09''), w)"
      "or_unknown (nh_getSupportedChains sample_ntt_handle) w = (Inr None, w)" for w
    by (simp_all add: or_unknown_def sample_ntt_handle_def)
  ultimately show ?thesis
    by (simp add: configure_main_def sample_ntt_script_def Let_def)
qed

theorem configuration_enables_listed_chains_witness:
  "\<exists>report w. configure_main sample_ntt_script ''mainnet'' (sample_ntt_state, []) = (Inr report, w) \<and>
     ntt_events (fst w) = [SupportedChainUpdated 32 True, SupportedChainUpdated 8453 True] \<and>
     rep_chains report = [(''Sei Mainnet'', 32, Some True), (''Base Mainnet'', 8453, Some True)]"
proof -
  obtain report w where run: "configure_main sample_ntt_script ''mainnet'' (sample_ntt_state, []) = (Inr report, w)"
    using sample_configured by blast
  have "ntt_owner (fst (sample_ntt_state, [] :: (int \<times> bool) list)) = sample_deployer" by (simp add: sample_ntt_state_def)
  from configuration_enables_listed_chains [OF sample_script_serves this run] run show ?thesis
    by (auto simp: sample_script_reliable NETWORK_CONFIGURATIONS_def network_config_def chain_config_def sample_ntt_state_def)
qed

theorem receivers_are_routed_witness:
  "\<exists>receiver. encodeDestinationReceiver 32 (''0x'' @ bytes_to_hex sample_deployer) = Inr (Hex receiver) \<and>
     sol_decodeDestinationReceiver receiver = (32, sample_deployer)"
  using receivers_are_routed [of 32 sample_deployer sample_ntt_state] by (auto simp: sample_deployer_def)

theorem configured_contract_refuses_sei_witness:
  "\<exists>report w receiver. configure_main sample_ntt_script ''mainnet'' (sample_ntt_state, []) = (Inr report, w) \<and>
     encodeDestinationReceiver WORMHOLE_SEI (''0x'' @ bytes_to_hex sample_deployer) = Inr (Hex receiver) \<and>
     (\<forall>x :: unit ntt_contracts. sol_transferTbtc x 3 1 receiver (fst w) () = Inl (Error ''Destination chain not supported'')) \<and>
     is_ok (sol_destinationChain (fst w) (sol_encodeDestinationReceiver 32 sample_deployer))"
proof -
  obtain report w where run: "configure_main sample_ntt_script ''mainnet'' (sample_ntt_state, []) = (Inr report, w)"
    using sample_configured by blast
  have "ntt_owner (fst (sample_ntt_state, [] :: (int \<times> bool) list)) = sample_deployer"
      "\<forall>c. \<not> ntt_supportedChains (fst (sample_ntt_state, [] :: (int \<times> bool) list)) c" "length sample_deployer = 20"
    by (simp_all add: sample_ntt_state_def sample_deployer_def)
  note refused = configured_contract_refuses_sei [OF sample_script_serves this(1) run this(2,3), of 1]
  from refused [of "undefined :: unit ntt_contracts" 3 "()"] obtain receiver where
    r: "encodeDestinationReceiver WORMHOLE_SEI (''0x'' @ bytes_to_hex sample_deployer) = Inr (Hex receiver)" by auto
  have "sol_transferTbtc x 3 1 receiver (fst w) () = Inl (Error ''Destination chain not supported'')" for x :: "unit ntt_contracts"
    using refused [of x 3 "()"] r by auto
  moreover have "is_ok (sol_destinationChain (fst w) (sol_encodeDestinationReceiver (of_int 32) sample_deployer))"
    using refused [of "undefined :: unit ntt_contracts" 3 "()"]
    by (auto simp: sample_script_reliable valid_chain_def NETWORK_CONFIGURATIONS_def network_config_def chain_config_def
        dest!: spec [of _ 32])
  ultimately show ?thesis using run r by auto
qed

end
