(* ===== verification/Governance.thy ===== *)
theory Governance
  imports BridgeContract
begin

section \<open>Governance of the Bridge\<close>

text \<open>
  The functions by which governance changes the Bridge that upgrade TIP-109 uses:
  \<open>Bridge.initializeV5_RepairRebateStaking\<close>, \<open>BridgeState.setRebateStaking\<close>,
  \<open>BridgeState.updateDepositParameters\<close> and \<open>BridgeGovernance.setRebateStaking\<close>,
  \<open>beginDepositTreasuryFeeDivisorUpdate\<close>, \<open>finalizeDepositTreasuryFeeDivisorUpdate\<close>
  (solidity/contracts/bridge). The proxies of EIP-1967 and the ProxyAdmin in front of them are
  OpenZeppelin's: of those the model has the two slots, the owner and what \<open>upgrade\<close> and
  \<open>upgradeAndCall\<close> are documented to do. The storage of the Bridge is \<open>bridge_state\<close>.
\<close>

subsection \<open>State\<close>

datatype governance_event =
    RebateStakingRepaired bytes bytes
  | RebateStakingSet bytes
  | DepositTreasuryFeeDivisorUpdateStarted nat nat
  | DepositTreasuryFeeDivisorUpdated nat
  | DepositParametersUpdated nat nat nat nat
  | Upgraded bytes bytes

text \<open>\<open>gv_initialized\<close> is the version of OpenZeppelin's initializer, \<open>gv_governor\<close> the governance of the
  Bridge, \<open>gv_owner\<close> the owner of BridgeGovernance; the last fields but one are those of the update of
  the divisor. Contracts are named by their addresses.\<close>

record 'x governed =
  gv_admin :: "bytes \<Rightarrow> bytes"
  gv_implementation :: "bytes \<Rightarrow> bytes"
  gv_adminOwner :: "bytes \<Rightarrow> bytes"
  gv_isContract :: "bytes \<Rightarrow> bool"
  gv_bridge :: bytes
  gv_governance :: bytes
  gv_storage :: "'x bridge_state"
  gv_depositTxMaxFee :: nat
  gv_initialized :: nat
  gv_governor :: bytes
  gv_owner :: bytes
  gv_governanceDelay :: nat
  gv_newDepositTreasuryFeeDivisor :: nat
  gv_divisorChangeInitiated :: nat
  gv_events :: "governance_event list"

definition log_event :: "governance_event \<Rightarrow> 'x governed \<Rightarrow> 'x governed" where
  "log_event event g = g\<lparr>gv_events := gv_events g @ [event]\<rparr>"

definition set_rebateStaking :: "bytes \<Rightarrow> 'x governed \<Rightarrow> 'x governed" where
  "set_rebateStaking a g = g\<lparr>gv_storage := (gv_storage g)\<lparr>st_rebateStaking := a\<rparr>\<rparr>"

subsection \<open>The Bridge\<close>

definition sol_initializeV5_RepairRebateStaking :: "bytes \<Rightarrow> 'x governed \<Rightarrow> 'x governed res" where
  "sol_initializeV5_RepairRebateStaking newRebateStaking g =
     bind_res (sol_require (gv_initialized g < 5) ''Initializable: contract is already initialized'') (\<lambda>_.
     let oldRebateStaking = st_rebateStaking (gv_storage g) in
     bind_res (sol_require (oldRebateStaking \<noteq> newRebateStaking) ''Rebate staking unchanged'') (\<lambda>_.
     bind_res (if newRebateStaking \<noteq> address0
       then sol_require (gv_isContract g newRebateStaking) ''Rebate staking must be a contract'' else Inr ()) (\<lambda>_.
     Inr (log_event (RebateStakingRepaired oldRebateStaking newRebateStaking)
       (set_rebateStaking newRebateStaking (g\<lparr>gv_initialized := 5\<rparr>))))))"

definition sol_bridge_setRebateStaking :: "bytes \<Rightarrow> bytes \<Rightarrow> 'x governed \<Rightarrow> 'x governed res" where
  "sol_bridge_setRebateStaking sender rebateStaking g =
     bind_res (sol_require (sender = gv_governor g) ''Caller is not the governance'') (\<lambda>_.
     bind_res (sol_require (st_rebateStaking (gv_storage g) = address0) ''Rebate staking already set'') (\<lambda>_.
     bind_res (sol_require (rebateStaking \<noteq> address0) ''Rebate staking address must not be 0x0'') (\<lambda>_.
     Inr (log_event (RebateStakingSet rebateStaking) (set_rebateStaking rebateStaking g)))))"

definition sol_updateDepositParameters :: "bytes \<Rightarrow> nat \<Rightarrow> nat \<Rightarrow> nat \<Rightarrow> nat \<Rightarrow> 'x governed \<Rightarrow> 'x governed res" where
  "sol_updateDepositParameters sender dustThreshold divisor maxFee aheadPeriod g =
     bind_res (sol_require (sender = gv_governor g) ''Caller is not the governance'') (\<lambda>_.
     bind_res (sol_require (0 < dustThreshold) ''Deposit dust threshold must be greater than zero'') (\<lambda>_.
     bind_res (sol_require (maxFee < dustThreshold) ''Deposit dust threshold must be greater than deposit TX max fee'') (\<lambda>_.
     bind_res (sol_require (0 < maxFee) ''Deposit transaction max fee must be greater than zero'') (\<lambda>_.
     Inr (log_event (DepositParametersUpdated dustThreshold divisor maxFee aheadPeriod)
       (g\<lparr>gv_storage := (gv_storage g)\<lparr>st_depositDustThreshold := dustThreshold, st_depositTreasuryFeeDivisor := divisor,
            st_depositRevealAheadPeriod := aheadPeriod\<rparr>, gv_depositTxMaxFee := maxFee\<rparr>))))))"

subsection \<open>BridgeGovernance\<close>

definition only_owner :: "bytes \<Rightarrow> 'x governed \<Rightarrow> unit res" where
  "only_owner sender g = sol_require (sender = gv_owner g) ''Ownable: caller is not the owner''"

definition sol_setRebateStaking :: "bytes \<Rightarrow> bytes \<Rightarrow> 'x governed \<Rightarrow> 'x governed res" where
  "sol_setRebateStaking sender rebateStaking g =
     bind_res (only_owner sender g) (\<lambda>_. sol_bridge_setRebateStaking (gv_governance g) rebateStaking g)"

definition sol_beginDivisorUpdate :: "bytes \<Rightarrow> nat \<Rightarrow> nat \<Rightarrow> 'x governed \<Rightarrow> 'x governed res" where
  "sol_beginDivisorUpdate sender timestamp divisor g =
     bind_res (only_owner sender g) (\<lambda>_.
     Inr (log_event (DepositTreasuryFeeDivisorUpdateStarted divisor timestamp)
       (g\<lparr>gv_newDepositTreasuryFeeDivisor := divisor, gv_divisorChangeInitiated := timestamp\<rparr>)))"

text \<open>The subtraction of the timestamps is checked; the caller reads the other parameters first.\<close>

definition onlyAfterGovernanceDelay :: "nat \<Rightarrow> nat \<Rightarrow> nat \<Rightarrow> unit res" where
  "onlyAfterGovernanceDelay timestamp changeInitiated delay =
     bind_res (sol_require (0 < changeInitiated) ''Change not initiated'') (\<lambda>_.
     bind_res (checked_sub timestamp changeInitiated) (\<lambda>elapsed.
     sol_require (delay \<le> elapsed) ''Governance delay has not elapsed''))"

definition sol_finalizeDivisorUpdate :: "bytes \<Rightarrow> nat \<Rightarrow> 'x governed \<Rightarrow> 'x governed res" where
  "sol_finalizeDivisorUpdate sender timestamp g =
     bind_res (only_owner sender g) (\<lambda>_.
     let divisor = gv_newDepositTreasuryFeeDivisor g in
     bind_res (onlyAfterGovernanceDelay timestamp (gv_divisorChangeInitiated g) (gv_governanceDelay g)) (\<lambda>_.
     sol_updateDepositParameters (gv_governance g) (st_depositDustThreshold (gv_storage g)) divisor
       (gv_depositTxMaxFee g) (st_depositRevealAheadPeriod (gv_storage g))
       (log_event (DepositTreasuryFeeDivisorUpdated divisor)
         (g\<lparr>gv_newDepositTreasuryFeeDivisor := 0, gv_divisorChangeInitiated := 0\<rparr>))))"

subsection \<open>The ProxyAdmin\<close>

definition proxy_upgrade :: "bytes \<Rightarrow> bytes \<Rightarrow> bytes \<Rightarrow> bytes \<Rightarrow> 'x governed \<Rightarrow> 'x governed res" where
  "proxy_upgrade sender admin proxy implementation g =
     bind_res (sol_require (sender = gv_adminOwner g admin) ''Ownable: caller is not the owner'') (\<lambda>_.
     bind_res (sol_require (gv_admin g proxy = admin) ''execution reverted'') (\<lambda>_.
     bind_res (sol_require (gv_isContract g implementation) ''ERC1967: new implementation is not a contract'') (\<lambda>_.
     Inr (log_event (Upgraded proxy implementation)
       (g\<lparr>gv_implementation := (gv_implementation g)(proxy := implementation)\<rparr>)))))"

subsection \<open>Calls\<close>

text \<open>An argument of a call as ethers takes it and as a contract reads it. The encoding of a call is that
  of ethers, what a contract decodes is the contract's; both are parameters.\<close>

datatype abi_arg = ArgAddress string | ArgUint int | ArgData string
datatype sol_arg = SolAddress bytes | SolUint nat | SolData string

record abi_codec =
  encodeFunctionData :: "string \<Rightarrow> abi_arg list \<Rightarrow> string"
  decodeFunctionData :: "string \<Rightarrow> (string \<times> sol_arg list) option"

definition address_bytes :: "string \<Rightarrow> bytes" where
  "address_bytes a = hex_to_bytes (drop 2 a)"

fun sol_arg_of :: "abi_arg \<Rightarrow> sol_arg" where
  "sol_arg_of (ArgAddress a) = SolAddress (address_bytes a)"
| "sol_arg_of (ArgUint n) = SolUint (nat n)"
| "sol_arg_of (ArgData d) = SolData d"

definition codec_ok :: "abi_codec \<Rightarrow> bool" where
  "codec_ok abi = (\<forall>f args. decodeFunctionData abi (encodeFunctionData abi f args) = Some (f, map sol_arg_of args))"

definition no_function :: "'a res" where
  "no_function = Inl (Error ''execution reverted'')"

text \<open>A call by the admin of a proxy runs the new implementation; of the Bridge's functions this is the
  one the upgrade calls.\<close>

definition call_bridge :: "abi_codec \<Rightarrow> string \<Rightarrow> 'x governed \<Rightarrow> 'x governed res" where
  "call_bridge abi calldata g = (case decodeFunctionData abi calldata of
     Some (f, [SolAddress a]) \<Rightarrow>
       if f = ''initializeV5_RepairRebateStaking'' then sol_initializeV5_RepairRebateStaking a g else no_function
   | _ \<Rightarrow> no_function)"

definition call_governance :: "abi_codec \<Rightarrow> bytes \<Rightarrow> nat \<Rightarrow> string \<Rightarrow> 'x governed \<Rightarrow> 'x governed res" where
  "call_governance abi sender timestamp calldata g = (case decodeFunctionData abi calldata of
     Some (f, [SolAddress a]) \<Rightarrow> if f = ''setRebateStaking'' then sol_setRebateStaking sender a g else no_function
   | Some (f, [SolUint n]) \<Rightarrow>
       if f = ''beginDepositTreasuryFeeDivisorUpdate'' then sol_beginDivisorUpdate sender timestamp n g else no_function
   | Some (f, []) \<Rightarrow>
       if f = ''finalizeDepositTreasuryFeeDivisorUpdate'' then sol_finalizeDivisorUpdate sender timestamp g else no_function
   | _ \<Rightarrow> no_function)"

definition call_admin :: "abi_codec \<Rightarrow> bytes \<Rightarrow> bytes \<Rightarrow> string \<Rightarrow> 'x governed \<Rightarrow> 'x governed res" where
  "call_admin abi sender admin calldata g = (case decodeFunctionData abi calldata of
     Some (f, [SolAddress proxy, SolAddress implementation]) \<Rightarrow>
       if f = ''upgrade'' then proxy_upgrade sender admin proxy implementation g else no_function
   | Some (f, [SolAddress proxy, SolAddress implementation, SolData d]) \<Rightarrow>
       if f = ''upgradeAndCall''
       then bind_res (proxy_upgrade sender admin proxy implementation g) (\<lambda>g'.
         if proxy = gv_bridge g' then call_bridge abi d g' else no_function)
       else no_function
   | _ \<Rightarrow> no_function)"

definition send_call :: "abi_codec \<Rightarrow> nat \<Rightarrow> bytes \<Rightarrow> bytes \<Rightarrow> string \<Rightarrow> 'x governed \<Rightarrow> 'x governed res" where
  "send_call abi timestamp sender target calldata g =
     (if target = gv_governance g then call_governance abi sender timestamp calldata g
      else call_admin abi sender target calldata g)"

text \<open>Calls of given senders to given targets one after another, each of which must succeed.\<close>

fun send_calls :: "abi_codec \<Rightarrow> nat \<Rightarrow> (bytes \<times> bytes \<times> string) list \<Rightarrow> 'x governed \<Rightarrow> 'x governed res" where
  "send_calls abi timestamp [] g = Inr g"
| "send_calls abi timestamp ((sender, target, calldata) # later) g =
     bind_res (send_call abi timestamp sender target calldata g) (send_calls abi timestamp later)"

end
