(* ===== verification/UpgradeScript.thy ===== *)
theory UpgradeScript
  imports Governance
begin

section \<open>The upgrade scripts\<close>

text \<open>
  The scripts \<open>solidity/deploy/85_deploy_tip109_governance_upgrade.ts\<close> and
  \<open>86_deploy_tip109_hotfix.ts\<close>: they deploy new implementations of the Bridge and the rebate staking,
  find the ProxyAdmin in the storage of the Bridge proxy, write down the calls that governance has to
  make, and submit the sources for verification. Hardhat, ethers, the file system and the HTTP client
  are parameters; console output is left out.
\<close>

subsection \<open>Constants\<close>

definition EIP_1967_ADMIN_SLOT :: string where
  "EIP_1967_ADMIN_SLOT = ''0xb53127684a568b3173ae13b9f8a6016e243e63b6e8ee1178d6a717850b5d6103''"

definition EIP_1967_IMPLEMENTATION_SLOT :: string where
  "EIP_1967_IMPLEMENTATION_SLOT = ''0x360894a13ba1a3210667c828492db98dca3e2076cc3735a920a3ca505d382bbc''"

definition KNOWN_TIMELOCK :: string where
  "KNOWN_TIMELOCK = ''0x92f2d8b72a7F6a551Be60b9aa4194248E9B4913D''"

definition KNOWN_COUNCIL_SAFE :: string where
  "KNOWN_COUNCIL_SAFE = ''0x9F6e831c8f8939dc0c830c6e492e7cef4f9c2f5f''"

definition KNOWN_T_TOKEN :: string where
  "KNOWN_T_TOKEN = ''0xCdF7028ceAB81fA0C6971208e83fa7872994beE5''"

definition AddressZero_text :: string where
  "AddressZero_text = ''0x0000000000000000000000000000000000000000''"

subsection \<open>Calldata\<close>

definition encodeRebateStakingUpgrade :: "abi_codec \<Rightarrow> string \<Rightarrow> string \<Rightarrow> string" where
  "encodeRebateStakingUpgrade abi rebateStakingProxy newImpl =
     encodeFunctionData abi ''upgrade'' [ArgAddress rebateStakingProxy, ArgAddress newImpl]"

definition encodeBridgeUpgradeAndCall :: "abi_codec \<Rightarrow> string \<Rightarrow> string \<Rightarrow> string" where
  "encodeBridgeUpgradeAndCall abi bridgeProxy newBridgeImpl =
     (let initData = encodeFunctionData abi ''initializeV5_RepairRebateStaking'' [ArgAddress AddressZero_text] in
      encodeFunctionData abi ''upgradeAndCall'' [ArgAddress bridgeProxy, ArgAddress newBridgeImpl, ArgData initData])"

definition encodeSetRebateStaking :: "abi_codec \<Rightarrow> string \<Rightarrow> string" where
  "encodeSetRebateStaking abi rebateStakingProxy = encodeFunctionData abi ''setRebateStaking'' [ArgAddress rebateStakingProxy]"

definition encodeBeginDepositTreasuryFeeDivisorUpdate :: "abi_codec \<Rightarrow> int \<Rightarrow> string" where
  "encodeBeginDepositTreasuryFeeDivisorUpdate abi newDivisor =
     encodeFunctionData abi ''beginDepositTreasuryFeeDivisorUpdate'' [ArgUint newDivisor]"

subsection \<open>Source verification\<close>

text \<open>The answer of Etherscan: not JSON, or an object with its texts, the absent ones empty.\<close>

record etherscan_answer =
  ea_status :: string
  ea_result :: string
  ea_message :: string

record verify_request =
  vr_query :: string
  vr_fields :: "(string \<times> string) list"

record 'w https =
  https_post :: "verify_request \<Rightarrow> ('w, string) io"
  https_parse :: "string \<Rightarrow> etherscan_answer option"

definition etherscanVerifyV2 ::
  "'w https \<Rightarrow> string \<Rightarrow> int \<Rightarrow> string \<Rightarrow> string \<Rightarrow> string \<Rightarrow> string \<Rightarrow> ('w, string) io" where
  "etherscanVerifyV2 https apiKey chainId contractAddress contractName compilerVersion solcInputJson =
     bind_io (https_post https \<lparr>vr_query = ''chainid='' @ show_int chainId,
       vr_fields = [(''apikey'', apiKey), (''module'', ''contract''), (''action'', ''verifysourcecode''),
         (''contractaddress'', contractAddress), (''sourceCode'', solcInputJson),
         (''codeformat'', ''solidity-standard-json-input''), (''contractname'', contractName),
         (''compilerversion'', compilerVersion), (''optimizationUsed'', ''1''), (''runs'', ''1000'')]\<rparr>) (\<lambda>answer.
     case https_parse https answer of
       None \<Rightarrow> throw_io (Error (''Invalid response: '' @ take 200 answer))
     | Some parsed \<Rightarrow>
         if ea_status parsed = ''1'' \<and> ea_result parsed \<noteq> [] then return_io (ea_result parsed)
         else throw_io (Error (if ea_result parsed \<noteq> [] then ea_result parsed
           else if ea_message parsed \<noteq> [] then ea_message parsed else ''Unknown error'')))"

record build_info =
  bi_hasDeposit :: bool
  bi_input :: string
  bi_solcVersion :: string

record verify_contract =
  vc_address :: string
  vc_name :: string

text \<open>Every contract is submitted; a failure is reported and the next one follows. The result says what
  became of each.\<close>

fun submit_contracts ::
  "'w https \<Rightarrow> string \<Rightarrow> int \<Rightarrow> string \<Rightarrow> string \<Rightarrow> verify_contract list \<Rightarrow> ('w, (js_error + string) list) io" where
  "submit_contracts https apiKey chainId compilerVersion solcInput [] = return_io []"
| "submit_contracts https apiKey chainId compilerVersion solcInput (contract # rest) =
     bind_io (catch_io (bind_io (etherscanVerifyV2 https apiKey chainId (vc_address contract) (vc_name contract) compilerVersion solcInput)
          (\<lambda>guid. return_io (Inr guid)))
        (\<lambda>err. return_io (Inl err))) (\<lambda>outcome.
     bind_io (submit_contracts https apiKey chainId compilerVersion solcInput rest) (\<lambda>outcomes.
     return_io (outcome # outcomes)))"

subsection \<open>The environment and the summary\<close>

record deploy_options =
  do_contract :: "string option"
  do_skipIfAlreadyDeployed :: "bool option"
  do_libraries :: "(string \<times> string) list"

record verification_check =
  ch_command :: string
  ch_expectedResult :: string
  ch_description :: string

record action =
  act_target :: string
  act_data :: string
  act_value :: int
  act_description :: string

record summary =
  su_network :: string
  su_timestamp :: string
  su_deployer :: string
  su_chainId :: string
  su_purpose :: "string option"
  su_deployedContracts :: "(string \<times> string) list"
  su_reusedContracts :: "(string \<times> string) list"
  su_existingContracts :: "(string \<times> string) list"
  su_timelockActions :: "action list"
  su_councilSafeActions :: "action list"
  su_governanceActions :: "action list"
  su_libraries :: "(string \<times> string) list"
  su_verificationChecks :: "verification_check list"

record 'w hardhat =
  hre_network :: string
  hre_deployer :: "('w, string) io"
  hre_deploy :: "string \<Rightarrow> deploy_options \<Rightarrow> ('w, string) io"
  hre_get :: "string \<Rightarrow> ('w, string) io"
  hre_save_implementation :: "string \<Rightarrow> string \<Rightarrow> ('w, unit) io"
  hre_getStorageAt :: "string \<Rightarrow> string \<Rightarrow> ('w, string) io"
  hre_getAddress :: "string \<Rightarrow> string res"
  hre_abi :: abi_codec
  hre_getChainId :: "('w, string) io"
  hre_timestamp :: "('w, string) io"
  hre_mkdir :: "('w, unit) io"
  hre_writeFile :: "summary \<Rightarrow> ('w, unit) io"
  hre_etherscan :: bool
  hre_apiKey :: "string option"
  hre_build_infos :: "('w, build_info list) io"
  hre_parse_chainId :: "string \<Rightarrow> int"
  hre_https :: "'w https"

definition plain_options :: deploy_options where
  "plain_options = \<lparr>do_contract = None, do_skipIfAlreadyDeployed = None, do_libraries = []\<rparr>"

definition fresh_options :: "string \<Rightarrow> (string \<times> string) list \<Rightarrow> deploy_options" where
  "fresh_options contract libraries = \<lparr>do_contract = Some contract, do_skipIfAlreadyDeployed = Some False, do_libraries = libraries\<rparr>"

subsection \<open>Shared steps\<close>

text \<open>The ProxyAdmin is in the last twenty of the 32 bytes of the slot.\<close>

definition discover_proxy_admin :: "'w hardhat \<Rightarrow> string \<Rightarrow> ('w, string) io" where
  "discover_proxy_admin hre bridge =
     bind_io (hre_getStorageAt hre bridge EIP_1967_ADMIN_SLOT) (\<lambda>adminData.
     lift_io (hre_getAddress hre (''0x'' @ drop 26 adminData)))"

text \<open>The summary is written if it can be; a failure is reported and the script goes on.\<close>

definition write_summary :: "'w hardhat \<Rightarrow> summary \<Rightarrow> ('w, unit) io" where
  "write_summary hre s =
     bind_io (hre_mkdir hre) (\<lambda>_. catch_io (hre_writeFile hre s) (\<lambda>error. return_io ()))"

definition verify_sources :: "'w hardhat \<Rightarrow> verify_contract list \<Rightarrow> ('w, (js_error + string) list) io" where
  "verify_sources hre contracts =
     (if \<not> hre_etherscan hre then return_io []
      else case hre_apiKey hre of
        None \<Rightarrow> return_io []
      | Some etherscanApiKey \<Rightarrow>
          if etherscanApiKey = [] then return_io []
          else bind_io (hre_build_infos hre) (\<lambda>infos.
            case find bi_hasDeposit infos of
              None \<Rightarrow> return_io []
            | Some bi \<Rightarrow>
                bind_io (hre_getChainId hre) (\<lambda>chainId.
                submit_contracts (hre_https hre) etherscanApiKey (hre_parse_chainId hre chainId)
                  (''v'' @ bi_solcVersion bi) (bi_input bi) contracts)))"

text \<open>The libraries that the Bridge is linked with.\<close>

definition bridge_libraries :: "string \<Rightarrow> string \<Rightarrow> string \<Rightarrow> string \<Rightarrow> string \<Rightarrow> string \<Rightarrow> (string \<times> string) list" where
  "bridge_libraries dep sweep red wallets fraud moving =
     [(''Deposit'', dep), (''DepositSweep'', sweep), (''Redemption'', red), (''Wallets'', wallets), (''Fraud'', fraud),
      (''MovingFunds'', moving)]"

subsection \<open>TIP-109 (85_deploy_tip109_governance_upgrade.ts)\<close>

definition buildVerificationChecks ::
  "string \<Rightarrow> string \<Rightarrow> string \<Rightarrow> string \<Rightarrow> string \<Rightarrow> string \<Rightarrow> verification_check list" where
  "buildVerificationChecks bridgeProxy bridgeImpl rebateStakingProxy rebateImpl depositLib redemptionLib =
     [\<lparr>ch_command = ''cast call '' @ bridgeProxy @ '' \"getRebateStaking()(address)\"'',
       ch_expectedResult = ''0x0000000000000000000000000000000000000000 (address(0))'',
       ch_description = ''After Bridge upgrade with initializeV5 repair, rebate staking getter should return address(0)''\<rparr>,
      \<lparr>ch_command = ''cast code '' @ bridgeImpl,
       ch_expectedResult = ''Bytecode should contain embedded library address fragments: '' @
         toLowerCase (drop 2 depositLib) @ '' (Deposit) and '' @ toLowerCase (drop 2 redemptionLib) @ '' (Redemption)'',
       ch_description = ''Bridge implementation bytecode should contain embedded addresses of new Deposit and Redemption libraries''\<rparr>,
      \<lparr>ch_command = ''cast call '' @ bridgeProxy @
         '' \"deposits(uint256)(bytes32,uint32,uint64,uint32,address,uint32)\" <sample_deposit_key>'',
       ch_expectedResult = ''Existing deposit data unchanged after upgrade'',
       ch_description = ''Existing P2SH deposits should remain unaffected by the Bridge upgrade''\<rparr>,
      \<lparr>ch_command = ''cast call '' @ bridgeImpl @ '' \"...\" | grep -c \"^\" -- or inspect ABI for 56 public/external selectors'',
       ch_expectedResult = ''56 selectors'',
       ch_description = ''Bridge implementation should expose exactly 56 public/external function selectors''\<rparr>,
      \<lparr>ch_command = ''cast storage '' @ rebateStakingProxy @ '' '' @ EIP_1967_IMPLEMENTATION_SLOT,
       ch_expectedResult = ''Should contain '' @ rebateImpl @ '' (padded to 32 bytes)'',
       ch_description = ''Proxy EIP-1967 implementation pointer should reference the newly deployed rebate impl''\<rparr>,
      \<lparr>ch_command = ''cast storage '' @ bridgeProxy @ '' 79 && '' @ ''cast storage '' @ bridgeProxy @ '' 80 && '' @
         ''cast storage '' @ bridgeProxy @ '' 81'',
       ch_expectedResult = ''Slot 79 = redemptionWatchtower address, slot 80 = rebate staking address, '' @
         ''slots 81-128 = zero (__gap[48], gap size unchanged)'',
       ch_description = ''Bridge storage layout: slot 79=redemptionWatchtower, slot 80=rebate staking, slots 81-128=__gap[48] with gap size unchanged''\<rparr>,
      \<lparr>ch_command = ''cast call '' @ rebateStakingProxy @ '' \"bridge()(address)\" && '' @
         ''cast call '' @ rebateStakingProxy @ '' \"rebatePerToken()(uint256)\" && '' @
         ''cast call '' @ rebateStakingProxy @ '' \"token()(address)\" && '' @
         ''cast call '' @ rebateStakingProxy @ '' \"rollingWindow()(uint256)\" && '' @
         ''cast call '' @ rebateStakingProxy @ '' \"unstakingPeriod()(uint256)\"'',
       ch_expectedResult = ''bridge() = '' @ bridgeProxy @ '', rebatePerToken = 1000000000000000000 (1e18), token = '' @
         KNOWN_T_TOKEN @ '', rollingWindow = 2592000, unstakingPeriod = 2592000'',
       ch_description = ''RebateStaking state should be preserved after proxy upgrade -- critical for staked T''\<rparr>]"

text \<open>The addresses the script works with, in the order it learns them.\<close>

record upgrade_addresses =
  ua_deposit :: string
  ua_redemption :: string
  ua_libraries :: "(string \<times> string) list"
  ua_bridgeImpl :: string
  ua_rebateImpl :: string
  ua_bridge :: string
  ua_proxyAdmin :: string
  ua_rebateStaking :: string

definition tip109_summary ::
  "abi_codec \<Rightarrow> string \<Rightarrow> string \<Rightarrow> string \<Rightarrow> string \<Rightarrow> upgrade_addresses \<Rightarrow> string \<Rightarrow> summary" where
  "tip109_summary abi network timestamp deployer chainId a bridgeGovernance =
     \<lparr>su_network = network, su_timestamp = timestamp, su_deployer = deployer, su_chainId = chainId, su_purpose = None,
      su_deployedContracts = [(''Deposit'', ua_deposit a), (''Redemption'', ua_redemption a),
        (''BridgeTIP109Implementation'', ua_bridgeImpl a), (''RebateStakingTIP109Implementation'', ua_rebateImpl a)],
      su_reusedContracts = [],
      su_existingContracts = [(''Bridge'', ua_bridge a), (''ProxyAdmin'', ua_proxyAdmin a), (''Timelock'', KNOWN_TIMELOCK),
        (''CouncilSafe'', KNOWN_COUNCIL_SAFE), (''BridgeGovernance'', bridgeGovernance),
        (''RebateStaking'', ua_rebateStaking a), (''TToken'', KNOWN_T_TOKEN)],
      su_timelockActions =
        [\<lparr>act_target = ua_proxyAdmin a, act_data = encodeRebateStakingUpgrade abi (ua_rebateStaking a) (ua_rebateImpl a),
          act_value = 0,
          act_description = ''RebateStaking proxy upgrade via ProxyAdmin.upgrade()''\<rparr>,
         \<lparr>act_target = ua_proxyAdmin a, act_data = encodeBridgeUpgradeAndCall abi (ua_bridge a) (ua_bridgeImpl a),
          act_value = 0,
          act_description = ''Bridge proxy upgrade via ProxyAdmin.upgradeAndCall()''\<rparr>],
      su_councilSafeActions =
        [\<lparr>act_target = bridgeGovernance, act_data = encodeSetRebateStaking abi (ua_rebateStaking a), act_value = 0,
          act_description = ''setRebateStaking on BridgeGovernance (direct onlyOwner call)''\<rparr>],
      su_governanceActions =
        [\<lparr>act_target = bridgeGovernance, act_data = encodeBeginDepositTreasuryFeeDivisorUpdate abi 500, act_value = 0,
          act_description = ''beginDepositTreasuryFeeDivisorUpdate on BridgeGovernance (172800s governance delay)''\<rparr>],
      su_libraries = ua_libraries a,
      su_verificationChecks = buildVerificationChecks (ua_bridge a) (ua_bridgeImpl a) (ua_rebateStaking a)
        (ua_rebateImpl a) (ua_deposit a) (ua_redemption a)\<rparr>"

text \<open>Steps 1 to 4: the libraries and the implementations.\<close>

definition deploy_tip109_contracts ::
  "'w hardhat \<Rightarrow> ('w, string \<times> string \<times> (string \<times> string) list \<times> string \<times> string) io" where
  "deploy_tip109_contracts hre =
     bind_io (hre_deploy hre ''Deposit'' plain_options) (\<lambda>dep.
     bind_io (hre_deploy hre ''Redemption'' plain_options) (\<lambda>red.
     bind_io (hre_get hre ''DepositSweep'') (\<lambda>sweep.
     bind_io (hre_get hre ''Wallets'') (\<lambda>wallets.
     bind_io (hre_get hre ''Fraud'') (\<lambda>fraud.
     bind_io (hre_get hre ''MovingFunds'') (\<lambda>moving.
     let libraries = bridge_libraries dep sweep red wallets fraud moving in
     bind_io (hre_deploy hre ''BridgeTIP109Implementation'' (fresh_options ''Bridge'' libraries)) (\<lambda>bridgeImpl.
     bind_io (hre_deploy hre ''RebateStakingTIP109Implementation'' (fresh_options ''RebateStaking'' [])) (\<lambda>rebateImpl.
     return_io (dep, red, libraries, bridgeImpl, rebateImpl)))))))))"

definition deploy_tip109 :: "'w hardhat \<Rightarrow> ('w, summary \<times> (js_error + string) list) io" where
  "deploy_tip109 hre =
     bind_io (hre_deployer hre) (\<lambda>deployer.
     bind_io (deploy_tip109_contracts hre) (\<lambda>(dep, red, libraries, bridgeImpl, rebateImpl).
     bind_io (hre_get hre ''Bridge'') (\<lambda>bridge.
     bind_io (discover_proxy_admin hre bridge) (\<lambda>proxyAdminAddress.
     bind_io (hre_get hre ''RebateStaking'') (\<lambda>rebateStaking.
     bind_io (hre_get hre ''BridgeGovernance'') (\<lambda>bridgeGovernance.
     bind_io (hre_getChainId hre) (\<lambda>chainId.
     bind_io (hre_timestamp hre) (\<lambda>timestamp.
     let deploymentSummary = tip109_summary (hre_abi hre) (hre_network hre) timestamp deployer chainId
       \<lparr>ua_deposit = dep, ua_redemption = red, ua_libraries = libraries, ua_bridgeImpl = bridgeImpl,
        ua_rebateImpl = rebateImpl, ua_bridge = bridge, ua_proxyAdmin = proxyAdminAddress,
        ua_rebateStaking = rebateStaking\<rparr> bridgeGovernance in
     bind_io (write_summary hre deploymentSummary) (\<lambda>_.
     bind_io (verify_sources hre
       [\<lparr>vc_address = dep, vc_name = ''contracts/bridge/Deposit.sol:Deposit''\<rparr>,
        \<lparr>vc_address = red, vc_name = ''contracts/bridge/Redemption.sol:Redemption''\<rparr>,
        \<lparr>vc_address = bridgeImpl, vc_name = ''contracts/bridge/Bridge.sol:Bridge''\<rparr>,
        \<lparr>vc_address = rebateImpl, vc_name = ''contracts/bridge/RebateStaking.sol:RebateStaking''\<rparr>]) (\<lambda>outcomes.
     return_io (deploymentSummary, outcomes)))))))))))"

subsection \<open>The hotfix (86_deploy_tip109_hotfix.ts)\<close>

definition encodeUpgrade :: "abi_codec \<Rightarrow> string \<Rightarrow> string \<Rightarrow> string" where
  "encodeUpgrade abi proxy newImpl = encodeFunctionData abi ''upgrade'' [ArgAddress proxy, ArgAddress newImpl]"

definition hotfix_summary ::
  "abi_codec \<Rightarrow> string \<Rightarrow> string \<Rightarrow> string \<Rightarrow> string \<Rightarrow> upgrade_addresses \<Rightarrow> summary" where
  "hotfix_summary abi network timestamp deployer chainId a =
     \<lparr>su_network = network, su_timestamp = timestamp, su_deployer = deployer, su_chainId = chainId,
      su_purpose = Some ''TIP-109 hotfix: add forceStakeTransfer (PR #939) and zero-address redeemer guard (PR #940)'',
      su_deployedContracts = [(''RedemptionTIP109Hotfix'', ua_redemption a),
        (''BridgeTIP109HotfixImplementation'', ua_bridgeImpl a), (''RebateStakingTIP109HotfixImplementation'', ua_rebateImpl a)],
      su_reusedContracts = [(''Deposit'', ua_deposit a)],
      su_existingContracts = [(''Bridge'', ua_bridge a), (''ProxyAdmin'', ua_proxyAdmin a), (''Timelock'', KNOWN_TIMELOCK),
        (''CouncilSafe'', KNOWN_COUNCIL_SAFE), (''RebateStaking'', ua_rebateStaking a)],
      su_timelockActions =
        [\<lparr>act_target = ua_proxyAdmin a, act_data = encodeUpgrade abi (ua_rebateStaking a) (ua_rebateImpl a), act_value = 0,
          act_description = ''RebateStaking proxy upgrade via ProxyAdmin.upgrade()''\<rparr>,
         \<lparr>act_target = ua_proxyAdmin a, act_data = encodeUpgrade abi (ua_bridge a) (ua_bridgeImpl a), act_value = 0,
          act_description = ''Bridge proxy upgrade via ProxyAdmin.upgrade()''\<rparr>],
      su_councilSafeActions = [], su_governanceActions = [], su_libraries = ua_libraries a, su_verificationChecks = []\<rparr>"

definition deploy_hotfix_contracts ::
  "'w hardhat \<Rightarrow> ('w, string \<times> string \<times> (string \<times> string) list \<times> string \<times> string) io" where
  "deploy_hotfix_contracts hre =
     bind_io (hre_get hre ''Deposit'') (\<lambda>dep.
     bind_io (hre_deploy hre ''RedemptionTIP109Hotfix'' (fresh_options ''Redemption'' [])) (\<lambda>red.
     bind_io (hre_get hre ''DepositSweep'') (\<lambda>sweep.
     bind_io (hre_get hre ''Wallets'') (\<lambda>wallets.
     bind_io (hre_get hre ''Fraud'') (\<lambda>fraud.
     bind_io (hre_get hre ''MovingFunds'') (\<lambda>moving.
     let libraries = bridge_libraries dep sweep red wallets fraud moving in
     bind_io (hre_deploy hre ''BridgeTIP109HotfixImplementation'' (fresh_options ''Bridge'' libraries)) (\<lambda>bridgeImpl.
     bind_io (hre_deploy hre ''RebateStakingTIP109HotfixImplementation'' (fresh_options ''RebateStaking'' [])) (\<lambda>rebateImpl.
     return_io (dep, red, libraries, bridgeImpl, rebateImpl)))))))))"

definition deploy_hotfix :: "'w hardhat \<Rightarrow> ('w, summary \<times> (js_error + string) list) io" where
  "deploy_hotfix hre =
     bind_io (hre_deployer hre) (\<lambda>deployer.
     bind_io (deploy_hotfix_contracts hre) (\<lambda>(dep, red, libraries, bridgeImpl, rebateImpl).
     bind_io (hre_get hre ''Bridge'') (\<lambda>bridge.
     bind_io (hre_get hre ''RebateStaking'') (\<lambda>rebateStaking.
     bind_io (hre_save_implementation hre ''Bridge'' bridgeImpl) (\<lambda>_.
     bind_io (hre_save_implementation hre ''RebateStaking'' rebateImpl) (\<lambda>_.
     bind_io (discover_proxy_admin hre bridge) (\<lambda>proxyAdminAddress.
     bind_io (hre_getChainId hre) (\<lambda>chainId.
     bind_io (hre_timestamp hre) (\<lambda>timestamp.
     let deploymentSummary = hotfix_summary (hre_abi hre) (hre_network hre) timestamp deployer chainId
       \<lparr>ua_deposit = dep, ua_redemption = red, ua_libraries = libraries, ua_bridgeImpl = bridgeImpl,
        ua_rebateImpl = rebateImpl, ua_bridge = bridge, ua_proxyAdmin = proxyAdminAddress,
        ua_rebateStaking = rebateStaking\<rparr> in
     bind_io (write_summary hre deploymentSummary) (\<lambda>_.
     bind_io (verify_sources hre
       [\<lparr>vc_address = red, vc_name = ''contracts/bridge/Redemption.sol:Redemption''\<rparr>,
        \<lparr>vc_address = bridgeImpl, vc_name = ''contracts/bridge/Bridge.sol:Bridge''\<rparr>,
        \<lparr>vc_address = rebateImpl, vc_name = ''contracts/bridge/RebateStaking.sol:RebateStaking''\<rparr>]) (\<lambda>outcomes.
     return_io (deploymentSummary, outcomes))))))))))))"

end
