(* ===== verification/UpgradeClaims.thy ===== *)
theory UpgradeClaims
  imports UpgradeScript BridgeSample
begin

section \<open>What the upgrade scripts hand to governance\<close>

text \<open>
  The calls in the summaries of the scripts, sent by the timelock and the council to the contracts of
  \<open>Governance\<close>: what they change, and what happens in another order. A concrete chain is at the end.
\<close>

subsection \<open>The calls of a summary\<close>

definition named :: "(string \<times> string) list \<Rightarrow> string \<Rightarrow> bytes" where
  "named contracts name = (case map_of contracts name of Some a \<Rightarrow> address_bytes a | None \<Rightarrow> [])"

definition sent_by :: "string \<Rightarrow> action list \<Rightarrow> (bytes \<times> bytes \<times> string) list" where
  "sent_by sender actions = map (\<lambda>a. (address_bytes sender, address_bytes (act_target a), act_data a)) actions"

definition planned_calls :: "summary \<Rightarrow> (bytes \<times> bytes \<times> string) list" where
  "planned_calls s = sent_by KNOWN_TIMELOCK (su_timelockActions s) @
     sent_by KNOWN_COUNCIL_SAFE (su_councilSafeActions s @ su_governanceActions s)"

text \<open>What the script relies on: the slot of a proxy holds its admin in the last twenty bytes, and
  \<open>getAddress\<close> returns the address it was given, perhaps in other letters.\<close>

definition sees_admins :: "'w hardhat \<Rightarrow> 'x governed \<Rightarrow> bool" where
  "sees_admins hre g =
     ((\<forall>proxy w r w'. hre_getStorageAt hre proxy EIP_1967_ADMIN_SLOT w = (Inr r, w') \<longrightarrow>
        r = ''0x'' @ bytes_to_hex (replicate 12 0 @ gv_admin g (address_bytes proxy))) \<and>
      (\<forall>a. length (gv_admin g a) = 20) \<and>
      (\<forall>bs y. length bs = 20 \<and> hre_getAddress hre (''0x'' @ bytes_to_hex bs) = Inr y \<longrightarrow> address_bytes y = bs))"

text \<open>The chain before the upgrade: both proxies have one admin, which the timelock owns, the council owns
  BridgeGovernance, and BridgeGovernance governs the Bridge.\<close>

definition governed_as_known :: "(string \<times> string) list \<Rightarrow> (string \<times> string) list \<Rightarrow> 'x governed \<Rightarrow> bool" where
  "governed_as_known existing deployed g =
     (gv_bridge g = named existing ''Bridge'' \<and>
      gv_admin g (named existing ''RebateStaking'') = gv_admin g (gv_bridge g) \<and>
      gv_admin g (gv_bridge g) \<noteq> gv_governance g \<and>
      gv_adminOwner g (gv_admin g (gv_bridge g)) = address_bytes KNOWN_TIMELOCK \<and>
      gv_owner g = address_bytes KNOWN_COUNCIL_SAFE \<and> gv_governor g = gv_governance g \<and>
      named existing ''RebateStaking'' \<noteq> address0 \<and>
      (\<forall>(name, a) \<in> set deployed. gv_isContract g (address_bytes a)))"

subsection \<open>Lemmas\<close>

lemma codec_decode: "codec_ok abi \<Longrightarrow> decodeFunctionData abi (encodeFunctionData abi f args) = Some (f, map sol_arg_of args)"
  by (simp add: codec_ok_def)

lemma address_zero_bytes: "address_bytes AddressZero_text = address0"
proof -
  have z: "byte_hex 0 = ''00''" by (simp add: byte_hex_def hex_digit_def hex_digits_def)
  have "replicate 20 (0 :: byte) = [0,0,0,0,0,0,0,0,0,0,0,0,0,0,0,0,0,0,0,0]" by (simp add: numeral_eq_Suc)
  then have "drop 2 AddressZero_text = bytes_to_hex (replicate 20 0)" by (simp add: AddressZero_text_def z)
  then show ?thesis by (simp add: address_bytes_def address0_def)
qed

lemma discovered_admin:
  assumes "sees_admins hre g" "discover_proxy_admin hre bridge w = (Inr a, w')"
  shows "address_bytes a = gv_admin g (address_bytes bridge)"
proof -
  obtain d w1 where d: "hre_getStorageAt hre bridge EIP_1967_ADMIN_SLOT w = (Inr d, w1)"
    and a: "hre_getAddress hre (''0x'' @ drop 26 d) = Inr a"
    using assms(2) by (auto simp: discover_proxy_admin_def bind_io_Inr)
  have "d = ''0x'' @ bytes_to_hex (replicate 12 0 @ gv_admin g (address_bytes bridge))"
    using assms(1) d unfolding sees_admins_def by blast
  then have "drop 26 d = drop 24 (bytes_to_hex (replicate 12 0 @ gv_admin g (address_bytes bridge)))" by simp
  also have "\<dots> = bytes_to_hex (gv_admin g (address_bytes bridge))"
    using drop_bytes_to_hex [of 12 "replicate 12 0 @ gv_admin g (address_bytes bridge)"] by simp
  finally show ?thesis using assms(1) a unfolding sees_admins_def by metis
qed

text \<open>A finished run leaves the summary of the addresses it found, with the admin of the Bridge proxy.\<close>

lemma tip109_run:
  assumes "sees_admins hre g" "deploy_tip109 hre w = (Inr (s, outcomes), w')"
  shows "\<exists>network timestamp deployer chainId a governance.
     s = tip109_summary (hre_abi hre) network timestamp deployer chainId a governance \<and>
     address_bytes (ua_proxyAdmin a) = gv_admin g (address_bytes (ua_bridge a))"
proof -
  obtain deployer chainId timestamp dep red libraries bridgeImpl rebateImpl bridge admin rebate governance w1 w2 where
      d: "discover_proxy_admin hre bridge w1 = (Inr admin, w2)"
    and s: "s = tip109_summary (hre_abi hre) (hre_network hre) timestamp deployer chainId
       \<lparr>ua_deposit = dep, ua_redemption = red, ua_libraries = libraries, ua_bridgeImpl = bridgeImpl,
        ua_rebateImpl = rebateImpl, ua_bridge = bridge, ua_proxyAdmin = admin, ua_rebateStaking = rebate\<rparr> governance"
    using assms(2) by (auto simp: deploy_tip109_def bind_io_Inr Let_def)
  show ?thesis
    by (intro exI conjI, rule s) (simp add: discovered_admin [OF assms(1) d])
qed

text \<open>What a run of the hotfix did on the chain, step by step, for the summary it returned. \<open>hre_deploy\<close> is the
  act of deploying, so the options it got say what the new code is linked with: the new Bridge is made from
  the contract \<open>Bridge\<close> with the library just deployed under \<open>Redemption\<close> and the five others
  as they stand in the deployments.\<close>

definition hotfix_deployed :: "'w hardhat \<Rightarrow> 'w \<Rightarrow> summary \<Rightarrow> bool" where
  "hotfix_deployed hre w s \<longleftrightarrow>
     (\<exists>w0 w1 w2 w3 w4 w5 w6 w7 w8 w9 w10 w11 w12 dep red sweep wallets fraud moving bridgeImpl rebateImpl.
       hre_deployer hre w = (Inr (su_deployer s), w0) \<and>
       hre_get hre ''Deposit'' w0 = (Inr dep, w1) \<and>
       hre_deploy hre ''RedemptionTIP109Hotfix'' (fresh_options ''Redemption'' []) w1 = (Inr red, w2) \<and>
       hre_get hre ''DepositSweep'' w2 = (Inr sweep, w3) \<and>
       hre_get hre ''Wallets'' w3 = (Inr wallets, w4) \<and>
       hre_get hre ''Fraud'' w4 = (Inr fraud, w5) \<and>
       hre_get hre ''MovingFunds'' w5 = (Inr moving, w6) \<and>
       su_libraries s = [(''Deposit'', dep), (''DepositSweep'', sweep), (''Redemption'', red), (''Wallets'', wallets),
         (''Fraud'', fraud), (''MovingFunds'', moving)] \<and>
       hre_deploy hre ''BridgeTIP109HotfixImplementation'' (fresh_options ''Bridge'' (su_libraries s)) w6 =
         (Inr bridgeImpl, w7) \<and>
       hre_deploy hre ''RebateStakingTIP109HotfixImplementation'' (fresh_options ''RebateStaking'' []) w7 =
         (Inr rebateImpl, w8) \<and>
       su_deployedContracts s = [(''RedemptionTIP109Hotfix'', red), (''BridgeTIP109HotfixImplementation'', bridgeImpl),
         (''RebateStakingTIP109HotfixImplementation'', rebateImpl)] \<and>
       su_reusedContracts s = [(''Deposit'', dep)] \<and>
       (\<exists>bridge rebateStaking. map_of (su_existingContracts s) ''Bridge'' = Some bridge \<and>
         map_of (su_existingContracts s) ''RebateStaking'' = Some rebateStaking \<and>
         hre_get hre ''Bridge'' w8 = (Inr bridge, w9) \<and> hre_get hre ''RebateStaking'' w9 = (Inr rebateStaking, w10)) \<and>
       hre_save_implementation hre ''Bridge'' bridgeImpl w10 = (Inr (), w11) \<and>
       hre_save_implementation hre ''RebateStaking'' rebateImpl w11 = (Inr (), w12))"

lemma hotfix_run:
  assumes "sees_admins hre g" "deploy_hotfix hre w = (Inr (s, outcomes), w')"
  shows "hotfix_deployed hre w s \<and> (\<exists>network timestamp deployer chainId a.
     s = hotfix_summary (hre_abi hre) network timestamp deployer chainId a \<and>
     address_bytes (ua_proxyAdmin a) = gv_admin g (address_bytes (ua_bridge a)))"
proof -
  obtain deployer chainId timestamp dep red libraries bridgeImpl rebateImpl bridge admin rebate w0 w0' w9 w10 w11 w1 w2 where
      d: "discover_proxy_admin hre bridge w1 = (Inr admin, w2)"
    and l: "deploy_hotfix_contracts hre w0 = (Inr (dep, red, libraries, bridgeImpl, rebateImpl), w0')"
    and others: "hre_deployer hre w = (Inr deployer, w0)" "hre_get hre ''Bridge'' w0' = (Inr bridge, w9)"
      "hre_get hre ''RebateStaking'' w9 = (Inr rebate, w10)" "hre_save_implementation hre ''Bridge'' bridgeImpl w10 = (Inr (), w11)"
      "hre_save_implementation hre ''RebateStaking'' rebateImpl w11 = (Inr (), w1)"
    and s: "s = hotfix_summary (hre_abi hre) (hre_network hre) timestamp deployer chainId
       \<lparr>ua_deposit = dep, ua_redemption = red, ua_libraries = libraries, ua_bridgeImpl = bridgeImpl,
        ua_rebateImpl = rebateImpl, ua_bridge = bridge, ua_proxyAdmin = admin, ua_rebateStaking = rebate\<rparr>"
    using assms(2) by (auto simp: deploy_hotfix_def bind_io_Inr Let_def)
  obtain sweep wallets fraud moving v1 v2 v3 v4 v5 v6 v7 where contracts:
      "hre_get hre ''Deposit'' w0 = (Inr dep, v1)"
      "hre_deploy hre ''RedemptionTIP109Hotfix'' (fresh_options ''Redemption'' []) v1 = (Inr red, v2)"
      "hre_get hre ''DepositSweep'' v2 = (Inr sweep, v3)" "hre_get hre ''Wallets'' v3 = (Inr wallets, v4)"
      "hre_get hre ''Fraud'' v4 = (Inr fraud, v5)" "hre_get hre ''MovingFunds'' v5 = (Inr moving, v6)"
      "libraries = bridge_libraries dep sweep red wallets fraud moving"
      "hre_deploy hre ''BridgeTIP109HotfixImplementation'' (fresh_options ''Bridge'' libraries) v6 = (Inr bridgeImpl, v7)"
      "hre_deploy hre ''RebateStakingTIP109HotfixImplementation'' (fresh_options ''RebateStaking'' []) v7 = (Inr rebateImpl, w0')"
    using l by (auto simp: deploy_hotfix_contracts_def bind_io_Inr Let_def)
  have "hotfix_deployed hre w s"
    unfolding hotfix_deployed_def
    by (rule exI [of _ w0], rule exI [of _ v1], rule exI [of _ v2], rule exI [of _ v3], rule exI [of _ v4], rule exI [of _ v5],
        rule exI [of _ v6], rule exI [of _ v7], rule exI [of _ w0'], rule exI [of _ w9], rule exI [of _ w10], rule exI [of _ w11],
        rule exI [of _ w1], rule exI [of _ dep], rule exI [of _ red], rule exI [of _ sweep], rule exI [of _ wallets], rule exI [of _ fraud],
        rule exI [of _ moving], rule exI [of _ bridgeImpl], rule exI [of _ rebateImpl])
      (use contracts others in \<open>simp add: s hotfix_summary_def bridge_libraries_def\<close>)
  moreover have "address_bytes admin = gv_admin g (address_bytes bridge)" by (rule discovered_admin [OF assms(1) d])
  ultimately show ?thesis using s by force
qed

text \<open>The single calls, for a chain on which the caller may make them.\<close>

lemma call_upgrade:
  assumes "codec_ok abi" "sender = gv_adminOwner g admin" "gv_admin g (address_bytes proxy) = admin" "admin \<noteq> gv_governance g"
    and "gv_isContract g (address_bytes impl)"
  shows "send_call abi t sender admin (encodeFunctionData abi ''upgrade'' [ArgAddress proxy, ArgAddress impl]) g =
     Inr (log_event (Upgraded (address_bytes proxy) (address_bytes impl))
       (g\<lparr>gv_implementation := (gv_implementation g)(address_bytes proxy := address_bytes impl)\<rparr>))"
  using assms by (simp add: send_call_def call_admin_def codec_decode proxy_upgrade_def bind_require)

lemma call_upgradeAndCall:
  assumes "codec_ok abi" "sender = gv_adminOwner g admin" "gv_admin g (address_bytes proxy) = admin" "admin \<noteq> gv_governance g"
    and "gv_isContract g (address_bytes impl)" "address_bytes proxy = gv_bridge g"
  shows "send_call abi t sender admin (encodeBridgeUpgradeAndCall abi proxy impl) g =
     sol_initializeV5_RepairRebateStaking address0 (log_event (Upgraded (address_bytes proxy) (address_bytes impl))
       (g\<lparr>gv_implementation := (gv_implementation g)(address_bytes proxy := address_bytes impl)\<rparr>))"
  using assms by (simp add: send_call_def call_admin_def encodeBridgeUpgradeAndCall_def Let_def codec_decode
      proxy_upgrade_def bind_require call_bridge_def address_zero_bytes log_event_def)

lemma call_setRebateStaking:
  assumes "codec_ok abi"
  shows "send_call abi t sender (gv_governance g) (encodeSetRebateStaking abi rebate) g =
     sol_setRebateStaking sender (address_bytes rebate) g"
  using assms by (simp add: send_call_def call_governance_def encodeSetRebateStaking_def codec_decode)

lemma call_beginUpdate:
  assumes "codec_ok abi"
  shows "send_call abi t sender (gv_governance g) (encodeBeginDepositTreasuryFeeDivisorUpdate abi d) g =
     sol_beginDivisorUpdate sender t (nat d) g"
  using assms by (simp add: send_call_def call_governance_def encodeBeginDepositTreasuryFeeDivisorUpdate_def codec_decode)

lemmas governed_simps = log_event_def set_rebateStaking_def only_owner_def bind_require
  sol_initializeV5_RepairRebateStaking_def sol_setRebateStaking_def sol_bridge_setRebateStaking_def sol_beginDivisorUpdate_def

definition upgraded :: "(string \<times> string) list \<Rightarrow> (string \<times> string) list \<Rightarrow> nat \<Rightarrow> 'x governed \<Rightarrow> 'x governed" where
  "upgraded existing deployed t g =
     (let bridge = named existing ''Bridge''; rebate = named existing ''RebateStaking'';
          bridgeImpl = named deployed ''BridgeTIP109Implementation'';
          rebateImpl = named deployed ''RebateStakingTIP109Implementation''
      in g\<lparr>gv_implementation := (gv_implementation g)(rebate := rebateImpl, bridge := bridgeImpl),
           gv_storage := (gv_storage g)\<lparr>st_rebateStaking := rebate\<rparr>, gv_initialized := 5,
           gv_newDepositTreasuryFeeDivisor := 500, gv_divisorChangeInitiated := t,
           gv_events := gv_events g @ [Upgraded rebate rebateImpl, Upgraded bridge bridgeImpl,
             RebateStakingRepaired (st_rebateStaking (gv_storage g)) address0, RebateStakingSet rebate,
             DepositTreasuryFeeDivisorUpdateStarted 500 t]\<rparr>)"

lemma planned_list:
  assumes "s = tip109_summary abi network timestamp deployer chainId a governance"
  shows "planned_calls s = [(address_bytes KNOWN_TIMELOCK, address_bytes (ua_proxyAdmin a),
       encodeRebateStakingUpgrade abi (ua_rebateStaking a) (ua_rebateImpl a)),
      (address_bytes KNOWN_TIMELOCK, address_bytes (ua_proxyAdmin a), encodeBridgeUpgradeAndCall abi (ua_bridge a) (ua_bridgeImpl a)),
      (address_bytes KNOWN_COUNCIL_SAFE, address_bytes governance, encodeSetRebateStaking abi (ua_rebateStaking a)),
      (address_bytes KNOWN_COUNCIL_SAFE, address_bytes governance, encodeBeginDepositTreasuryFeeDivisorUpdate abi 500)]"
  by (simp add: planned_calls_def sent_by_def assms tip109_summary_def)

lemma planned_known:
  assumes "s = tip109_summary abi network timestamp deployer chainId a governance"
    and "address_bytes (ua_proxyAdmin a) = gv_admin g (address_bytes (ua_bridge a))"
    and "governed_as_known (su_existingContracts s) (su_deployedContracts s) g"
    and "gv_governance g = named (su_existingContracts s) ''BridgeGovernance''"
  shows "gv_bridge g = address_bytes (ua_bridge a)" "address_bytes governance = gv_governance g"
    and "gv_admin g (address_bytes (ua_rebateStaking a)) = address_bytes (ua_proxyAdmin a)"
    and "gv_admin g (address_bytes (ua_bridge a)) = address_bytes (ua_proxyAdmin a)"
    and "address_bytes (ua_proxyAdmin a) \<noteq> gv_governance g"
    and "gv_adminOwner g (address_bytes (ua_proxyAdmin a)) = address_bytes KNOWN_TIMELOCK"
    and "gv_owner g = address_bytes KNOWN_COUNCIL_SAFE" "gv_governor g = gv_governance g"
    and "address_bytes (ua_rebateStaking a) \<noteq> address0"
    and "gv_isContract g (address_bytes (ua_bridgeImpl a))" "gv_isContract g (address_bytes (ua_rebateImpl a))"
  using assms by (auto simp: governed_as_known_def tip109_summary_def named_def)

lemma planned_tip109:
  assumes "codec_ok abi" "s = tip109_summary abi network timestamp deployer chainId a governance"
    and "address_bytes (ua_proxyAdmin a) = gv_admin g (address_bytes (ua_bridge a))"
    and "governed_as_known (su_existingContracts s) (su_deployedContracts s) g"
    and "gv_governance g = named (su_existingContracts s) ''BridgeGovernance''"
    and "gv_initialized g < 5" "st_rebateStaking (gv_storage g) \<noteq> address0"
  shows "send_calls abi t (planned_calls s) g = Inr (upgraded (su_existingContracts s) (su_deployedContracts s) t g)"
proof -
  define rebate where "rebate = address_bytes (ua_rebateStaking a)"
  define bridge where "bridge = address_bytes (ua_bridge a)"
  define admin where "admin = address_bytes (ua_proxyAdmin a)"
  define gov where "gov = address_bytes governance"
  note sum = assms(2)
  note known = planned_known [OF assms(2-5), folded rebate_def bridge_def admin_def gov_def]
  define g1 where "g1 = log_event (Upgraded rebate (address_bytes (ua_rebateImpl a)))
      (g\<lparr>gv_implementation := (gv_implementation g)(rebate := address_bytes (ua_rebateImpl a))\<rparr>)"
  have s1: "send_call abi t (address_bytes KNOWN_TIMELOCK) admin (encodeRebateStakingUpgrade abi (ua_rebateStaking a) (ua_rebateImpl a)) g = Inr g1"
    unfolding encodeRebateStakingUpgrade_def g1_def rebate_def
    by (rule call_upgrade) (use assms(1) known in \<open>simp_all add: rebate_def\<close>)
  define g2 where "g2 = log_event (RebateStakingRepaired (st_rebateStaking (gv_storage g)) address0) (set_rebateStaking address0
      ((log_event (Upgraded bridge (address_bytes (ua_bridgeImpl a)))
        (g1\<lparr>gv_implementation := (gv_implementation g1)(bridge := address_bytes (ua_bridgeImpl a))\<rparr>))\<lparr>gv_initialized := 5\<rparr>))"
  have "send_call abi t (address_bytes KNOWN_TIMELOCK) admin (encodeBridgeUpgradeAndCall abi (ua_bridge a) (ua_bridgeImpl a)) g1 =
     sol_initializeV5_RepairRebateStaking address0 (log_event (Upgraded bridge (address_bytes (ua_bridgeImpl a)))
       (g1\<lparr>gv_implementation := (gv_implementation g1)(bridge := address_bytes (ua_bridgeImpl a))\<rparr>))"
    unfolding bridge_def by (rule call_upgradeAndCall) (use assms(1) known in \<open>simp_all add: bridge_def g1_def log_event_def\<close>)
  then have s2: "send_call abi t (address_bytes KNOWN_TIMELOCK) admin (encodeBridgeUpgradeAndCall abi (ua_bridge a) (ua_bridgeImpl a)) g1 = Inr g2"
    using assms(6,7) by (simp add: governed_simps g1_def g2_def)
  define g3 where "g3 = log_event (RebateStakingSet rebate) (set_rebateStaking rebate g2)"
  have gov: "gov = gv_governance g2" "gov = gv_governance g3" by (simp_all add: g1_def g2_def g3_def governed_simps known(2))
  have s3: "send_call abi t (address_bytes KNOWN_COUNCIL_SAFE) gov (encodeSetRebateStaking abi (ua_rebateStaking a)) g2 = Inr g3"
    unfolding gov(1) call_setRebateStaking [OF assms(1)] rebate_def [symmetric]
    using known by (simp add: governed_simps g3_def) (simp add: governed_simps g2_def g1_def)
  have s4: "send_call abi t (address_bytes KNOWN_COUNCIL_SAFE) gov (encodeBeginDepositTreasuryFeeDivisorUpdate abi 500) g3 =
      Inr (log_event (DepositTreasuryFeeDivisorUpdateStarted 500 t)
        (g3\<lparr>gv_newDepositTreasuryFeeDivisor := 500, gv_divisorChangeInitiated := t\<rparr>))"
    unfolding gov(2) call_beginUpdate [OF assms(1)]
    using known by (simp add: sol_beginDivisorUpdate_def only_owner_def bind_require) (simp add: governed_simps g3_def g2_def g1_def)
  have "planned_calls s = [(address_bytes KNOWN_TIMELOCK, admin, encodeRebateStakingUpgrade abi (ua_rebateStaking a) (ua_rebateImpl a)),
      (address_bytes KNOWN_TIMELOCK, admin, encodeBridgeUpgradeAndCall abi (ua_bridge a) (ua_bridgeImpl a)),
      (address_bytes KNOWN_COUNCIL_SAFE, gov, encodeSetRebateStaking abi (ua_rebateStaking a)),
      (address_bytes KNOWN_COUNCIL_SAFE, gov, encodeBeginDepositTreasuryFeeDivisorUpdate abi 500)]"
    by (simp add: planned_list [OF sum] admin_def gov_def)
  then have "send_calls abi t (planned_calls s) g = Inr (log_event (DepositTreasuryFeeDivisorUpdateStarted 500 t)
        (g3\<lparr>gv_newDepositTreasuryFeeDivisor := 500, gv_divisorChangeInitiated := t\<rparr>))"
    by (simp add: s1 s2 s3 s4)
  also have "\<dots> = Inr (upgraded (su_existingContracts s) (su_deployedContracts s) t g)"
    by (simp add: upgraded_def Let_def sum tip109_summary_def named_def g3_def g2_def g1_def governed_simps rebate_def bridge_def)
  finally show ?thesis .
qed

text \<open>Who may make the calls, and when they fail.\<close>

lemma refused_upgrade:
  assumes "codec_ok abi" "sender \<noteq> gv_adminOwner g admin" "admin \<noteq> gv_governance g"
  shows "send_call abi t sender admin (encodeFunctionData abi ''upgrade'' [ArgAddress proxy, ArgAddress impl]) g =
     Inl (Error ''Ownable: caller is not the owner'')"
    and "send_call abi t sender admin (encodeBridgeUpgradeAndCall abi proxy impl) g = Inl (Error ''Ownable: caller is not the owner'')"
  using assms by (simp_all add: send_call_def call_admin_def encodeBridgeUpgradeAndCall_def Let_def codec_decode
      proxy_upgrade_def bind_require)

lemma refused_governance:
  assumes "codec_ok abi" "sender \<noteq> gv_owner g"
  shows "send_call abi t sender (gv_governance g) (encodeSetRebateStaking abi rebate) g = Inl (Error ''Ownable: caller is not the owner'')"
    and "send_call abi t sender (gv_governance g) (encodeBeginDepositTreasuryFeeDivisorUpdate abi d) g =
       Inl (Error ''Ownable: caller is not the owner'')"
  using assms by (simp_all add: call_setRebateStaking call_beginUpdate governed_simps)

lemma finalize_upgraded:
  assumes "gv_governor g = gv_governance g" "0 < t" "0 < gv_depositTxMaxFee g" "gv_depositTxMaxFee g < st_depositDustThreshold (gv_storage g)"
  shows "case sol_finalizeDivisorUpdate (gv_owner g) t' (upgraded existing deployed t g) of
       Inr g' \<Rightarrow> t + gv_governanceDelay g \<le> t' \<and> gv_storage g' = (gv_storage g)
         \<lparr>st_rebateStaking := named existing ''RebateStaking'', st_depositTreasuryFeeDivisor := 500\<rparr>
     | Inl e \<Rightarrow> t' < t + gv_governanceDelay g"
proof (cases "t + gv_governanceDelay g \<le> t'")
  case True
  have "onlyAfterGovernanceDelay t' t (gv_governanceDelay g) = Inr ()"
    using True assms(2) by (simp add: onlyAfterGovernanceDelay_def checked_sub_def bind_require sol_require_def)
  then show ?thesis using True assms
    by (simp add: sol_finalizeDivisorUpdate_def upgraded_def Let_def only_owner_def bind_require sol_updateDepositParameters_def log_event_def)
next
  case False
  have "\<exists>e. onlyAfterGovernanceDelay t' t (gv_governanceDelay g) = Inl e"
    using False assms(2) by (cases "t \<le> t'") (simp_all add: onlyAfterGovernanceDelay_def checked_sub_def bind_require sol_require_def guard_res_def)
  then show ?thesis using False assms
    by (auto simp: sol_finalizeDivisorUpdate_def upgraded_def Let_def only_owner_def bind_require)
qed

lemma planned_fails:
  assumes "codec_ok abi" "gv_bridge g = address_bytes bridge" "address_bytes governance = gv_governance g"
    and "gv_admin g (address_bytes rebate) = address_bytes admin" "gv_admin g (address_bytes bridge) = address_bytes admin"
    and "address_bytes admin \<noteq> gv_governance g" "gv_adminOwner g (address_bytes admin) = address_bytes KNOWN_TIMELOCK"
    and "gv_owner g = address_bytes KNOWN_COUNCIL_SAFE" "gv_governor g = gv_governance g"
    and "address_bytes rebate \<noteq> address0" "gv_isContract g (address_bytes bridgeImpl)" "gv_isContract g (address_bytes rebateImpl)"
    and "\<not> (gv_initialized g < 5 \<and> st_rebateStaking (gv_storage g) \<noteq> address0)"
  shows "\<exists>e. send_calls abi t ((address_bytes KNOWN_TIMELOCK, address_bytes admin, encodeRebateStakingUpgrade abi rebate rebateImpl) #
     (address_bytes KNOWN_TIMELOCK, address_bytes admin, encodeBridgeUpgradeAndCall abi bridge bridgeImpl) # later) g = Inl e"
proof -
  define g1 where "g1 = log_event (Upgraded (address_bytes rebate) (address_bytes rebateImpl))
      (g\<lparr>gv_implementation := (gv_implementation g)(address_bytes rebate := address_bytes rebateImpl)\<rparr>)"
  have s1: "send_call abi t (address_bytes KNOWN_TIMELOCK) (address_bytes admin) (encodeRebateStakingUpgrade abi rebate rebateImpl) g = Inr g1"
    unfolding encodeRebateStakingUpgrade_def g1_def
    by (rule call_upgrade) (use assms in simp_all)
  have "send_call abi t (address_bytes KNOWN_TIMELOCK) (address_bytes admin) (encodeBridgeUpgradeAndCall abi bridge bridgeImpl) g1 =
     sol_initializeV5_RepairRebateStaking address0 (log_event (Upgraded (address_bytes bridge) (address_bytes bridgeImpl))
       (g1\<lparr>gv_implementation := (gv_implementation g1)(address_bytes bridge := address_bytes bridgeImpl)\<rparr>))"
    by (rule call_upgradeAndCall) (use assms in \<open>simp_all add: g1_def log_event_def\<close>)
  then have "\<exists>e. send_call abi t (address_bytes KNOWN_TIMELOCK) (address_bytes admin) (encodeBridgeUpgradeAndCall abi bridge bridgeImpl) g1 = Inl e"
    using assms(13) by (auto simp: governed_simps g1_def)
  then show ?thesis using s1 by auto
qed

subsection \<open>What the upgrade does\<close>

text \<open>C26: Sent in the order of the summary, the calls of a finished run of the TIP-109 script succeed on a
  chain governed as the script assumes, whose Bridge has not been repaired before and has a rebate
  staking: both proxies run the implementations that the run deployed, the Bridge knows the rebate staking
  under its proxy, the new divisor is announced and nothing else changes. The owner can finalize the new
  divisor exactly when the governance delay has passed; then it is 500, and deposits, redemptions and
  wallets are as they were.\<close>

lemma tip109_upgrade_takes_effect:
  assumes "deploy_tip109 hre w = (Inr (s, outcomes), w')" "codec_ok (hre_abi hre)" "sees_admins hre g"
    and "governed_as_known (su_existingContracts s) (su_deployedContracts s) g"
    and "gv_governance g = named (su_existingContracts s) ''BridgeGovernance''"
    and "gv_initialized g < 5" "st_rebateStaking (gv_storage g) \<noteq> address0"
    and "0 < t" "0 < gv_depositTxMaxFee g" "gv_depositTxMaxFee g < st_depositDustThreshold (gv_storage g)"
  shows "send_calls (hre_abi hre) t (planned_calls s) g = Inr (upgraded (su_existingContracts s) (su_deployedContracts s) t g) \<and>
    (case sol_finalizeDivisorUpdate (gv_owner g) t' (upgraded (su_existingContracts s) (su_deployedContracts s) t g) of
       Inr g' \<Rightarrow> t + gv_governanceDelay g \<le> t' \<and> gv_storage g' = (gv_storage g)
         \<lparr>st_rebateStaking := named (su_existingContracts s) ''RebateStaking'', st_depositTreasuryFeeDivisor := 500\<rparr>
     | Inl e \<Rightarrow> t' < t + gv_governanceDelay g)"
proof
  obtain network timestamp deployer chainId a governance where
      s: "s = tip109_summary (hre_abi hre) network timestamp deployer chainId a governance"
    and admin: "address_bytes (ua_proxyAdmin a) = gv_admin g (address_bytes (ua_bridge a))"
    using tip109_run [OF assms(3,1)] by blast
  show "send_calls (hre_abi hre) t (planned_calls s) g = Inr (upgraded (su_existingContracts s) (su_deployedContracts s) t g)"
    using planned_tip109 [OF assms(2) s admin assms(4-7)] .
  have governor: "gv_governor g = gv_governance g" using assms(4) by (simp add: governed_as_known_def)
  show "case sol_finalizeDivisorUpdate (gv_owner g) t' (upgraded (su_existingContracts s) (su_deployedContracts s) t g) of
       Inr g' \<Rightarrow> t + gv_governanceDelay g \<le> t' \<and> gv_storage g' = (gv_storage g)
         \<lparr>st_rebateStaking := named (su_existingContracts s) ''RebateStaking'', st_depositTreasuryFeeDivisor := 500\<rparr>
     | Inl e \<Rightarrow> t' < t + gv_governanceDelay g"
    using governor assms(8-10) by (auto simp: finalize_upgraded)
qed

text \<open>C27: Only the timelock can make the upgrades of the summary and only the council the calls of
  BridgeGovernance, whatever the state of the Bridge. The council cannot register the rebate staking before the Bridge is
  upgraded. The calls go through exactly when the Bridge has a rebate staking to repair and has not
  been repaired, so they cannot be sent twice.\<close>

lemma tip109_calls_are_guarded:
  assumes "deploy_tip109 hre w = (Inr (s, outcomes), w')" "codec_ok (hre_abi hre)" "sees_admins hre g"
    and "governed_as_known (su_existingContracts s) (su_deployedContracts s) g"
    and "gv_governance g = named (su_existingContracts s) ''BridgeGovernance''"
  shows "(\<forall>(authority, target, calldata) \<in> set (planned_calls s). \<forall>sender. sender \<noteq> authority \<longrightarrow>
       send_call (hre_abi hre) t sender target calldata g = Inl (Error ''Ownable: caller is not the owner'')) \<and>
    (st_rebateStaking (gv_storage g) \<noteq> address0 \<longrightarrow>
       send_calls (hre_abi hre) t (drop 2 (planned_calls s)) g = Inl (Error ''Rebate staking already set'')) \<and>
    ((\<exists>g'. send_calls (hre_abi hre) t (planned_calls s) g = Inr g') \<longleftrightarrow>
       gv_initialized g < 5 \<and> st_rebateStaking (gv_storage g) \<noteq> address0)"
proof -
  obtain network timestamp deployer chainId a governance where
      s: "s = tip109_summary (hre_abi hre) network timestamp deployer chainId a governance"
    and admin: "address_bytes (ua_proxyAdmin a) = gv_admin g (address_bytes (ua_bridge a))"
    using tip109_run [OF assms(3,1)] by blast
  note known = planned_known [OF s admin assms(4,5)]
  note planned = planned_list [OF s]
  have "\<forall>(authority, target, calldata) \<in> set (planned_calls s). \<forall>sender. sender \<noteq> authority \<longrightarrow>
       send_call (hre_abi hre) t sender target calldata g = Inl (Error ''Ownable: caller is not the owner'')"
    using refused_upgrade [OF assms(2), of _ g "address_bytes (ua_proxyAdmin a)"] refused_governance [OF assms(2), of _ g] known
    by (simp add: planned encodeRebateStakingUpgrade_def)
  moreover have "st_rebateStaking (gv_storage g) \<noteq> address0 \<longrightarrow>
       send_calls (hre_abi hre) t (drop 2 (planned_calls s)) g = Inl (Error ''Rebate staking already set'')"
    using known by (simp add: planned call_setRebateStaking [OF assms(2)] governed_simps)
  moreover have "(\<exists>g'. send_calls (hre_abi hre) t (planned_calls s) g = Inr g') \<longleftrightarrow>
       gv_initialized g < 5 \<and> st_rebateStaking (gv_storage g) \<noteq> address0"
  proof (cases "gv_initialized g < 5 \<and> st_rebateStaking (gv_storage g) \<noteq> address0")
    case True
    then show ?thesis using planned_tip109 [OF assms(2) s admin assms(4,5)] by blast
  next
    case False
    obtain e where "send_calls (hre_abi hre) t (planned_calls s) g = Inl e"
      unfolding planned using planned_fails [OF assms(2) known False] by blast
    with False show ?thesis by simp
  qed
  ultimately show ?thesis by blast
qed

lemma hotfix_list:
  assumes "s = hotfix_summary abi network timestamp deployer chainId a"
  shows "planned_calls s = [(address_bytes KNOWN_TIMELOCK, address_bytes (ua_proxyAdmin a),
       encodeUpgrade abi (ua_rebateStaking a) (ua_rebateImpl a)),
      (address_bytes KNOWN_TIMELOCK, address_bytes (ua_proxyAdmin a), encodeUpgrade abi (ua_bridge a) (ua_bridgeImpl a))]"
  by (simp add: planned_calls_def sent_by_def assms hotfix_summary_def)

text \<open>C28: What a finished run of the hotfix hands to governance. Its summary is of what it deployed: the Bridge was
  deployed with the library that this run deployed just before and with the other libraries as they were, and
  each was recorded as the implementation of its proxy. On a chain governed as the script assumes the planned calls succeed,
  point the two proxies to those deployments and change nothing of what the contracts store. No other
  sender can make them.\<close>

lemma hotfix_replaces_code_only:
  assumes "deploy_hotfix hre w = (Inr (s, outcomes), w')" "codec_ok (hre_abi hre)" "sees_admins hre g"
    and "governed_as_known (su_existingContracts s) (su_deployedContracts s) g"
  shows "(\<exists>g'. send_calls (hre_abi hre) t (planned_calls s) g = Inr g' \<and>
       gv_implementation g' = (gv_implementation g)
         (named (su_existingContracts s) ''RebateStaking'' := named (su_deployedContracts s) ''RebateStakingTIP109HotfixImplementation'',
          named (su_existingContracts s) ''Bridge'' := named (su_deployedContracts s) ''BridgeTIP109HotfixImplementation'') \<and>
       g'\<lparr>gv_implementation := gv_implementation g, gv_events := gv_events g\<rparr> = g) \<and>
    (\<forall>(authority, target, calldata) \<in> set (planned_calls s). \<forall>sender. sender \<noteq> authority \<longrightarrow>
       send_call (hre_abi hre) t sender target calldata g = Inl (Error ''Ownable: caller is not the owner'')) \<and>
    hotfix_deployed hre w s"
proof -
  obtain network timestamp deployer chainId a where
      s: "s = hotfix_summary (hre_abi hre) network timestamp deployer chainId a"
    and admin: "address_bytes (ua_proxyAdmin a) = gv_admin g (address_bytes (ua_bridge a))"
    and run: "hotfix_deployed hre w s"
    using hotfix_run [OF assms(3,1)] by blast
  have known: "gv_admin g (address_bytes (ua_rebateStaking a)) = address_bytes (ua_proxyAdmin a)"
      "gv_admin g (address_bytes (ua_bridge a)) = address_bytes (ua_proxyAdmin a)"
      "address_bytes (ua_proxyAdmin a) \<noteq> gv_governance g"
      "gv_adminOwner g (address_bytes (ua_proxyAdmin a)) = address_bytes KNOWN_TIMELOCK"
      "gv_isContract g (address_bytes (ua_bridgeImpl a))" "gv_isContract g (address_bytes (ua_rebateImpl a))"
    using assms(4) admin by (auto simp: governed_as_known_def s hotfix_summary_def named_def)
  define g1 where "g1 = log_event (Upgraded (address_bytes (ua_rebateStaking a)) (address_bytes (ua_rebateImpl a)))
      (g\<lparr>gv_implementation := (gv_implementation g)(address_bytes (ua_rebateStaking a) := address_bytes (ua_rebateImpl a))\<rparr>)"
  have s1: "send_call (hre_abi hre) t (address_bytes KNOWN_TIMELOCK) (address_bytes (ua_proxyAdmin a))
      (encodeUpgrade (hre_abi hre) (ua_rebateStaking a) (ua_rebateImpl a)) g = Inr g1"
    unfolding encodeUpgrade_def g1_def by (rule call_upgrade) (use assms(2) known in simp_all)
  have s2: "send_call (hre_abi hre) t (address_bytes KNOWN_TIMELOCK) (address_bytes (ua_proxyAdmin a))
      (encodeUpgrade (hre_abi hre) (ua_bridge a) (ua_bridgeImpl a)) g1 =
      Inr (log_event (Upgraded (address_bytes (ua_bridge a)) (address_bytes (ua_bridgeImpl a)))
       (g1\<lparr>gv_implementation := (gv_implementation g1)(address_bytes (ua_bridge a) := address_bytes (ua_bridgeImpl a))\<rparr>))"
    unfolding encodeUpgrade_def
    by (rule call_upgrade) (use assms(2) known in \<open>simp_all add: g1_def log_event_def\<close>)
  have refused: "\<forall>(authority, target, calldata) \<in> set (planned_calls s). \<forall>sender. sender \<noteq> authority \<longrightarrow>
       send_call (hre_abi hre) t sender target calldata g = Inl (Error ''Ownable: caller is not the owner'')"
    using refused_upgrade(1) [OF assms(2), of _ g "address_bytes (ua_proxyAdmin a)"] known
    by (simp add: hotfix_list [OF s] encodeUpgrade_def)
  show ?thesis
    by (intro conjI refused run)
      (simp_all add: hotfix_list [OF s] s1 s2, simp_all add: s hotfix_summary_def named_def g1_def log_event_def)
qed

subsection \<open>A concrete chain\<close>

text \<open>A codec that writes the parts of a call one after another, each character behind a mark, and numbers
  in unary.\<close>

definition put_text :: "string \<Rightarrow> string" where
  "put_text s = concat (map (\<lambda>c. [CHR ''x'', c]) s) @ ''.''"

fun take_text :: "string \<Rightarrow> string \<times> string" where
  "take_text [] = ([], [])"
| "take_text (m # later) =
     (if m = CHR ''.'' then ([], later)
      else case later of [] \<Rightarrow> ([], []) | c # s \<Rightarrow> (case take_text s of (word, s') \<Rightarrow> (c # word, s')))"

fun put_arg :: "abi_arg \<Rightarrow> string" where
  "put_arg (ArgAddress a) = CHR ''a'' # put_text a"
| "put_arg (ArgUint n) = CHR ''u'' # put_text (replicate (nat n) CHR ''x'')"
| "put_arg (ArgData d) = CHR ''d'' # put_text d"

definition take_arg :: "string \<Rightarrow> sol_arg \<times> string" where
  "take_arg s = (case take_text (tl s) of (word, s') \<Rightarrow>
     (if hd s = CHR ''a'' then SolAddress (address_bytes word)
      else if hd s = CHR ''u'' then SolUint (length word) else SolData word, s'))"

fun take_args :: "nat \<Rightarrow> string \<Rightarrow> sol_arg list" where
  "take_args 0 s = []"
| "take_args (Suc n) s = (case take_arg s of (a, s') \<Rightarrow> a # take_args n s')"

definition sample_codec :: abi_codec where
  "sample_codec = \<lparr>encodeFunctionData = (\<lambda>f args. put_text f @ put_text (replicate (length args) CHR ''x'') @ concat (map put_arg args)),
     decodeFunctionData = (\<lambda>s. case take_text s of (f, s') \<Rightarrow> (case take_text s' of (count, s'') \<Rightarrow>
       Some (f, take_args (length count) s'')))\<rparr>"

lemma take_put_text [simp]: "take_text (put_text s @ later) = (s, later)"
  by (induction s) (simp_all add: put_text_def)

lemma take_put_arg [simp]: "take_arg (put_arg a @ later) = (sol_arg_of a, later)"
  by (cases a) (simp_all add: take_arg_def)

lemma take_put_args [simp]: "take_args (length args) (concat (map put_arg args) @ later) = map sol_arg_of args"
  by (induction args) simp_all

lemma sample_codec_ok: "codec_ok sample_codec"
  using take_put_args [where later = "[]"] by (simp add: codec_ok_def sample_codec_def)

definition account :: "byte \<Rightarrow> string" where
  "account b = ''0x'' @ bytes_to_hex (replicate 20 b)"

lemma account_bytes [simp]: "address_bytes (account b) = replicate 20 b"
  by (simp add: account_def address_bytes_def)

definition sample_hre :: "unit hardhat" where
  "sample_hre = \<lparr>hre_network = ''mainnet'', hre_deployer = return_io (account 8), hre_deploy = (\<lambda>name options. return_io (account 5)),
     hre_get = (\<lambda>name. return_io (account (if name = ''Bridge'' then 1 else if name = ''RebateStaking'' then 2
       else if name = ''BridgeGovernance'' then 3 else 4))),
     hre_save_implementation = (\<lambda>name a. return_io ()),
     hre_getStorageAt = (\<lambda>proxy slot. return_io (''0x'' @ bytes_to_hex (replicate 12 0 @ replicate 20 9))),
     hre_getAddress = Inr, hre_abi = sample_codec, hre_getChainId = return_io ''1'', hre_timestamp = return_io ''2026'',
     hre_mkdir = return_io (), hre_writeFile = (\<lambda>s. return_io ()), hre_etherscan = False, hre_apiKey = None,
     hre_build_infos = return_io [], hre_parse_chainId = (\<lambda>s. 1),
     hre_https = \<lparr>https_post = (\<lambda>r. return_io []), https_parse = (\<lambda>s. None)\<rparr>\<rparr>"

definition sample_governed :: "unit governed" where
  "sample_governed = \<lparr>gv_admin = (\<lambda>p. replicate 20 9), gv_implementation = (\<lambda>p. address0),
     gv_adminOwner = (\<lambda>a. address_bytes KNOWN_TIMELOCK), gv_isContract = (\<lambda>a. True),
     gv_bridge = replicate 20 1, gv_governance = replicate 20 3,
     gv_storage = (sample_state [])\<lparr>st_rebateStaking := replicate 20 7\<rparr>, gv_depositTxMaxFee = 10, gv_initialized = 4,
     gv_governor = replicate 20 3, gv_owner = address_bytes KNOWN_COUNCIL_SAFE, gv_governanceDelay = 172800,
     gv_newDepositTreasuryFeeDivisor = 0, gv_divisorChangeInitiated = 0, gv_events = []\<rparr>"

lemma sample_sees_admins: "sees_admins sample_hre sample_governed"
  by (auto simp: sees_admins_def sample_hre_def sample_governed_def address_bytes_def)

lemma sample_discover: "discover_proxy_admin sample_hre bridge w = (Inr (account 9), w)"
  using drop_bytes_to_hex [of 12 "replicate 12 0 @ replicate 20 (9 :: byte)"]
  by (simp add: discover_proxy_admin_def sample_hre_def account_def bind_io_def)

definition sample_addresses :: upgrade_addresses where
  "sample_addresses = \<lparr>ua_deposit = account 5, ua_redemption = account 5,
     ua_libraries = bridge_libraries (account 5) (account 4) (account 5) (account 4) (account 4) (account 4),
     ua_bridgeImpl = account 5, ua_rebateImpl = account 5, ua_bridge = account 1, ua_proxyAdmin = account 9,
     ua_rebateStaking = account 2\<rparr>"

definition sample_tip109 :: summary where
  "sample_tip109 = tip109_summary sample_codec ''mainnet'' ''2026'' (account 8) ''1'' sample_addresses (account 3)"

definition sample_hotfix :: summary where
  "sample_hotfix = hotfix_summary sample_codec ''mainnet'' ''2026'' (account 8) ''1''
     (sample_addresses\<lparr>ua_deposit := account 4,
        ua_libraries := bridge_libraries (account 4) (account 4) (account 5) (account 4) (account 4) (account 4)\<rparr>)"

lemma sample_tip109_run: "deploy_tip109 sample_hre () = (Inr (sample_tip109, []), ())"
  by (simp add: deploy_tip109_def deploy_tip109_contracts_def sample_discover Let_def bind_io_def write_summary_def verify_sources_def
      sample_tip109_def sample_addresses_def) (simp add: sample_hre_def)

lemma sample_hotfix_run: "deploy_hotfix sample_hre () = (Inr (sample_hotfix, []), ())"
  by (simp add: deploy_hotfix_def deploy_hotfix_contracts_def sample_discover Let_def bind_io_def write_summary_def verify_sources_def
      sample_hotfix_def sample_addresses_def) (simp add: sample_hre_def)

lemma sample_governed_known:
  "governed_as_known (su_existingContracts sample_tip109) (su_deployedContracts sample_tip109) sample_governed"
  "governed_as_known (su_existingContracts sample_hotfix) (su_deployedContracts sample_hotfix) sample_governed"
  "gv_governance sample_governed = named (su_existingContracts sample_tip109) ''BridgeGovernance''"
  by (simp_all add: governed_as_known_def sample_tip109_def tip109_summary_def sample_hotfix_def hotfix_summary_def
      sample_addresses_def named_def sample_governed_def address0_def)

lemma sample_governed_ready:
  "gv_initialized sample_governed < 5" "st_rebateStaking (gv_storage sample_governed) \<noteq> address0"
  "0 < gv_depositTxMaxFee sample_governed" "gv_depositTxMaxFee sample_governed < st_depositDustThreshold (gv_storage sample_governed)"
  by (simp_all add: sample_governed_def address0_def sample_state_def)

lemma sample_abi: "hre_abi sample_hre = sample_codec"
  by (simp add: sample_hre_def)

lemma tip109_upgrade_takes_effect_witness:
  "send_calls sample_codec 1000 (planned_calls sample_tip109) sample_governed =
     Inr (upgraded (su_existingContracts sample_tip109) (su_deployedContracts sample_tip109) 1000 sample_governed)"
  using tip109_upgrade_takes_effect [OF sample_tip109_run, unfolded sample_abi, OF sample_codec_ok sample_sees_admins
      sample_governed_known(1,3) sample_governed_ready(1,2), where t = 1000] sample_governed_ready(3,4) by simp

lemma tip109_calls_are_guarded_witness:
  "send_calls sample_codec 1000 (drop 2 (planned_calls sample_tip109)) sample_governed = Inl (Error ''Rebate staking already set'')"
  using tip109_calls_are_guarded [OF sample_tip109_run, unfolded sample_abi, OF sample_codec_ok sample_sees_admins
      sample_governed_known(1,3), where t = 1000] sample_governed_ready by simp

lemma hotfix_replaces_code_only_witness:
  "(\<exists>g'. send_calls sample_codec 1000 (planned_calls sample_hotfix) sample_governed = Inr g' \<and>
     gv_storage g' = gv_storage sample_governed) \<and> hotfix_deployed sample_hre () sample_hotfix"
  using hotfix_replaces_code_only [OF sample_hotfix_run, unfolded sample_abi, OF sample_codec_ok sample_sees_admins
      sample_governed_known(2), where t = 1000] 
proof (elim conjE exE)
  fix g' assume r: "send_calls sample_codec 1000 (planned_calls sample_hotfix) sample_governed = Inr g'"
    and e: "g'\<lparr>gv_implementation := gv_implementation sample_governed, gv_events := gv_events sample_governed\<rparr> = sample_governed"
    and d: "hotfix_deployed sample_hre () sample_hotfix"
  have "gv_storage g' = gv_storage sample_governed" by (subst e [symmetric]) simp
  with r d show ?thesis by blast
qed

end
