(* ===== verification/SweepContract.thy ===== *)
theory SweepContract
  imports BridgeContract "HOL-Library.Word"
begin

unbundle bit_operations_syntax

section \<open>Sweep proofs in the contract\<close>

text \<open>
  What the Bridge does with the proof of a sweep: \<open>DepositSweep.sol\<close>, the validation of proofs in
  \<open>BitcoinTx.sol\<close>, the increases of balances in \<open>Bank.sol\<close>, and the vaults that are told of them,
  \<open>TBTCVault.sol\<close> with the debts of \<open>TBTCOptimisticMinting.sol\<close> and \<open>DonationVault.sol\<close>. The library
  bitcoin-spv-sol, the relay, the token and other vaults are parameters.
\<close>

subsection \<open>Parameters\<close>

text \<open>Functions of bitcoin-spv-sol, those of \<open>btc_utils\<close> aside. The three that read an input may revert.\<close>

record spv_lib =
  validateVin :: "bytes \<Rightarrow> bool"
  validateVout :: "bytes \<Rightarrow> bool"
  parseVarInt :: "bytes \<Rightarrow> nat \<times> nat"
  extractInputTxIdLeAt :: "bytes \<Rightarrow> nat \<Rightarrow> bytes res"
  extractTxIndexLeAt :: "bytes \<Rightarrow> nat \<Rightarrow> bytes res"
  determineInputLengthAt :: "bytes \<Rightarrow> nat \<Rightarrow> nat res"
  extractMerkleRootLE :: "bytes \<Rightarrow> bytes"
  spv_prove :: "bytes \<Rightarrow> bytes \<Rightarrow> bytes \<Rightarrow> nat \<Rightarrow> bool"
  extractTarget :: "bytes \<Rightarrow> nat"
  calculateDifficulty :: "nat \<Rightarrow> nat"
  validateHeaderChain :: "bytes \<Rightarrow> nat"
  getErrBadLength :: nat
  getErrInvalidChain :: nat
  getErrLowWork :: nat

text \<open>The relay, the token and a vault of some other kind, which may change balances.\<close>

record 'x sweep_contracts =
  getCurrentEpochDifficulty :: "'x \<Rightarrow> nat res"
  getPrevEpochDifficulty :: "'x \<Rightarrow> nat res"
  token_mint :: "bytes \<Rightarrow> nat \<Rightarrow> 'x \<Rightarrow> 'x res"
  otherVault :: "bytes \<Rightarrow> bytes list \<Rightarrow> nat list \<Rightarrow> (bytes \<Rightarrow> nat) \<Rightarrow> 'x \<Rightarrow> ((bytes \<Rightarrow> nat) \<times> 'x) res"

subsection \<open>State\<close>

record sol_proof =
  sp_merkleProof :: bytes
  sp_txIndexInBlock :: nat
  sp_bitcoinHeaders :: bytes
  sp_coinbasePreimage :: bytes
  sp_coinbaseProof :: bytes

text \<open>The storage of the Bridge with the further fields a sweep uses, the balances of the Bank, the debts of
  the vault, and the events: the sweeps and the amounts minted.\<close>

record 'x sweep_state =
  sw_bridge :: "'x bridge_state"
  sw_isSpvMaintainer :: "bytes \<Rightarrow> bool"
  sw_spentMainUTXOs :: "bytes \<Rightarrow> bool"
  sw_depositTxMaxFee :: nat
  sw_txProofDifficultyFactor :: nat
  sw_treasury :: bytes
  sw_bank :: bytes
  sw_balanceOf :: "bytes \<Rightarrow> nat"
  sw_tbtcVault :: bytes
  sw_donationVault :: bytes
  sw_optimisticMintingDebt :: "bytes \<Rightarrow> nat"
  sw_minted :: "(bytes \<times> nat) list"
  sw_depositsSwept :: "(bytes \<times> bytes) list"

definition checked_add256 :: "nat \<Rightarrow> nat \<Rightarrow> nat res" where
  "checked_add256 a b = (if a + b < 2 ^ 256 then Inr (a + b) else Inl panic)"

definition checked_mul256 :: "nat \<Rightarrow> nat \<Rightarrow> nat res" where
  "checked_mul256 a b = (if a * b < 2 ^ 256 then Inr (a * b) else Inl panic)"

subsection \<open>Proofs (BitcoinTx.sol)\<close>

definition evaluateProofDifficulty :: "spv_lib \<Rightarrow> 'x sweep_contracts \<Rightarrow> bytes \<Rightarrow> 'x sweep_state \<Rightarrow> unit res" where
  "evaluateProofDifficulty sp ext bitcoinHeaders st =
     bind_res (getCurrentEpochDifficulty ext (st_contracts (sw_bridge st))) (\<lambda>currentEpochDifficulty.
     bind_res (getPrevEpochDifficulty ext (st_contracts (sw_bridge st))) (\<lambda>previousEpochDifficulty.
     let firstHeaderDiff = calculateDifficulty sp (extractTarget sp bitcoinHeaders) in
     bind_res (if firstHeaderDiff = currentEpochDifficulty then Inr currentEpochDifficulty
         else if firstHeaderDiff = previousEpochDifficulty then Inr previousEpochDifficulty
         else Inl (Error ''Not at current or previous difficulty'')) (\<lambda>requestedDiff.
     let observedDiff = validateHeaderChain sp bitcoinHeaders in
     bind_res (sol_require (observedDiff \<noteq> getErrBadLength sp) ''Invalid length of the headers chain'') (\<lambda>_.
     bind_res (sol_require (observedDiff \<noteq> getErrInvalidChain sp) ''Invalid headers chain'') (\<lambda>_.
     bind_res (sol_require (observedDiff \<noteq> getErrLowWork sp) ''Insufficient work in a header'') (\<lambda>_.
     bind_res (checked_mul256 requestedDiff (sw_txProofDifficultyFactor st)) (\<lambda>required.
     sol_require (required \<le> observedDiff) ''Insufficient accumulated difficulty in header chain'')))))))"

definition validateProof :: "evm \<Rightarrow> spv_lib \<Rightarrow> 'x sweep_contracts \<Rightarrow> sol_tx \<Rightarrow> sol_proof \<Rightarrow> 'x sweep_state \<Rightarrow> bytes res" where
  "validateProof e sp ext txInfo prf st =
     bind_res (sol_require (validateVin sp (sol_inputVector txInfo)) ''Invalid input vector provided'') (\<lambda>_.
     bind_res (sol_require (validateVout sp (sol_outputVector txInfo)) ''Invalid output vector provided'') (\<lambda>_.
     bind_res (sol_require (length (sp_merkleProof prf) = length (sp_coinbaseProof prf))
       ''Tx not on same level of merkle tree as coinbase'') (\<lambda>_.
     let txHash = sol_txid e txInfo; root = extractMerkleRootLE sp (sp_bitcoinHeaders prf) in
     bind_res (sol_require (spv_prove sp txHash root (sp_merkleProof prf) (sp_txIndexInBlock prf))
       ''Tx merkle proof is not valid for provided header and tx hash'') (\<lambda>_.
     let coinbaseHash = evm_sha256 e (sp_coinbasePreimage prf) in
     bind_res (sol_require (spv_prove sp coinbaseHash root (sp_coinbaseProof prf) 0)
       ''Coinbase merkle proof is not valid for provided header and hash'') (\<lambda>_.
     bind_res (evaluateProofDifficulty sp ext (sp_bitcoinHeaders prf) st) (\<lambda>_.
     Inr txHash))))))"

text \<open>The masks of the scripts with their lengths; a shift to the right by whole bytes is a prefix of zeros.\<close>

definition makeP2PKHScript :: "bytes \<Rightarrow> bytes" where
  "makeP2PKHScript pubKeyHash = map2 (\<lambda>x y. x OR y) (replicate 4 0 @ pubKeyHash @ replicate 2 0)
     ([0x19, 0x76, 0xa9, 0x14] @ replicate 20 0 @ [0x88, 0xac])"

definition makeP2WPKHScript :: "bytes \<Rightarrow> bytes" where
  "makeP2WPKHScript pubKeyHash = map2 (\<lambda>x y. x OR y) (replicate 3 0 @ pubKeyHash) ([0x16, 0x00, 0x14] @ replicate 20 0)"

definition extractPubKeyHash :: "btc_utils \<Rightarrow> bytes \<Rightarrow> bytes res" where
  "extractPubKeyHash u output =
     (let pubKeyHashBytes = extractHash u output in
      bind_res (sol_require (length pubKeyHashBytes = 20) ''Output's public key hash must have 20 bytes'') (\<lambda>_.
      let pubKeyHash = bytes_slice u 20 pubKeyHashBytes 0 in
      bind_res (checked_sub (length output) 8) (\<lambda>scriptLen.
      bind_res (sol_require (scriptLen = 26 \<or> scriptLen = 23) ''Output must be P2PKH or P2WPKH'') (\<lambda>_.
      bind_res (if scriptLen = 26
        then sol_require (take 26 (bytes_slice u 32 output 8) = makeP2PKHScript pubKeyHash) ''Invalid P2PKH script''
        else Inr ()) (\<lambda>_.
      bind_res (if scriptLen = 23
        then sol_require (take 23 (bytes_slice u 32 output 8) = makeP2WPKHScript pubKeyHash) ''Invalid P2WPKH script''
        else Inr ()) (\<lambda>_.
      Inr pubKeyHash))))))"

subsection \<open>The parts of a sweep (DepositSweep.sol)\<close>

definition sol_utxo_hash :: "evm \<Rightarrow> sol_utxo \<Rightarrow> bytes" where
  "sol_utxo_hash e utxo = evm_keccak256 e (sol_txHash utxo @ be_bytes 4 (sol_txOutputIndex utxo) @ be_bytes 8 (sol_txOutputValue utxo))"

definition no_utxo :: sol_utxo where
  "no_utxo = \<lparr>sol_txHash = bytes32_0, sol_txOutputIndex = 0, sol_txOutputValue = 0\<rparr>"

definition resolveDepositSweepingWallet :: "evm \<Rightarrow> bytes \<Rightarrow> sol_utxo \<Rightarrow> 'x sweep_state \<Rightarrow> sol_utxo res" where
  "resolveDepositSweepingWallet e walletPubKeyHash mainUtxo st =
     (let wallet = st_registeredWallets (sw_bridge st) walletPubKeyHash in
      bind_res (sol_require (wal_state wallet = Sol_Live \<or> wal_state wallet = Sol_MovingFunds)
        ''Wallet must be in Live or MovingFunds state'') (\<lambda>_.
      if wal_mainUtxoHash wallet \<noteq> bytes32_0
      then bind_res (sol_require (sol_utxo_hash e mainUtxo = wal_mainUtxoHash wallet) ''Invalid main UTXO data'') (\<lambda>_.
        Inr mainUtxo)
      else Inr no_utxo))"

definition processDepositSweepTxOutput :: "btc_utils \<Rightarrow> spv_lib \<Rightarrow> bytes \<Rightarrow> (bytes \<times> nat) res" where
  "processDepositSweepTxOutput u sp sweepTxOutputVector =
     bind_res (sol_require (snd (parseVarInt sp sweepTxOutputVector) = 1) ''Sweep transaction must have a single output'') (\<lambda>_.
     bind_res (extractOutputAtIndex u sweepTxOutputVector 0) (\<lambda>output.
     bind_res (extractPubKeyHash u output) (\<lambda>walletPubKeyHash.
     Inr (walletPubKeyHash, extractValue u output))))"

text \<open>What is known of the inputs; the three arrays have the length \<open>capacity\<close> from the start, here they grow
  and are filled up at the end.\<close>

record sweep_inputs_info =
  ii_inputsTotalValue :: nat
  ii_depositors :: "bytes list"
  ii_depositedAmounts :: "nat list"
  ii_treasuryFees :: "nat list"

definition parseDepositSweepTxInputAt :: "btc_utils \<Rightarrow> spv_lib \<Rightarrow> bytes \<Rightarrow> nat \<Rightarrow> (bytes \<times> nat \<times> nat) res" where
  "parseDepositSweepTxInputAt u sp inputVector inputStartingIndex =
     bind_res (extractInputTxIdLeAt sp inputVector inputStartingIndex) (\<lambda>outpointTxHash.
     bind_res (extractTxIndexLeAt sp inputVector inputStartingIndex) (\<lambda>index.
     bind_res (determineInputLengthAt sp inputVector inputStartingIndex) (\<lambda>inputLength.
     Inr (outpointTxHash, reverseUint32 u (be_nat index), inputLength))))"

text \<open>The body of the loop once an input is parsed: a deposit, or the main output, or neither.\<close>

definition processInput ::
  "evm \<Rightarrow> nat \<Rightarrow> sol_utxo \<Rightarrow> bytes \<Rightarrow> nat \<Rightarrow> bytes \<times> nat \<Rightarrow> bool \<times> sweep_inputs_info \<times> 'x sweep_state \<Rightarrow>
   (bool \<times> sweep_inputs_info \<times> 'x sweep_state) res" where
  "processInput e now mainUtxo vault capacity outpoint acc =
     (case (outpoint, acc) of ((outpointTxHash, outpointIndex), (mainUtxoFound, info, st)) \<Rightarrow>
      let key = sol_deposit_key e outpointTxHash outpointIndex;
          deposit = st_deposits (sw_bridge st) key;
          mainUtxoExpected = (sol_txHash mainUtxo \<noteq> bytes32_0)
      in if dep_revealedAt deposit \<noteq> 0
         then bind_res (sol_require (dep_sweptAt deposit = 0) ''Deposit already swept'') (\<lambda>_.
           bind_res (sol_require (dep_vault deposit = vault) ''Deposit should be routed to another vault'') (\<lambda>_.
           bind_res (sol_require (length (ii_depositors info) \<noteq> capacity)
             ''Expected main UTXO not present in sweep transaction inputs'') (\<lambda>_.
           bind_res (checked_add256 (ii_inputsTotalValue info) (dep_amount deposit)) (\<lambda>inputsTotalValue.
           Inr (mainUtxoFound,
             \<lparr>ii_inputsTotalValue = inputsTotalValue, ii_depositors = ii_depositors info @ [dep_depositor deposit],
              ii_depositedAmounts = ii_depositedAmounts info @ [dep_amount deposit],
              ii_treasuryFees = ii_treasuryFees info @ [dep_treasuryFee deposit]\<rparr>,
             st\<lparr>sw_bridge := (sw_bridge st)\<lparr>st_deposits :=
               (st_deposits (sw_bridge st))(key := deposit\<lparr>dep_sweptAt := now mod 2 ^ 32\<rparr>)\<rparr>\<rparr>)))))
         else if mainUtxoExpected \<noteq> mainUtxoFound \<and> sol_txHash mainUtxo = outpointTxHash \<and>
           sol_txOutputIndex mainUtxo = outpointIndex
         then bind_res (checked_add256 (ii_inputsTotalValue info) (sol_txOutputValue mainUtxo)) (\<lambda>inputsTotalValue.
           Inr (True, info\<lparr>ii_inputsTotalValue := inputsTotalValue\<rparr>,
             st\<lparr>sw_spentMainUTXOs := (sw_spentMainUTXOs st)(key := True)\<rparr>))
         else Inl (Error ''Unknown input type''))"

fun processInputs ::
  "evm \<Rightarrow> btc_utils \<Rightarrow> spv_lib \<Rightarrow> nat \<Rightarrow> bytes \<Rightarrow> sol_utxo \<Rightarrow> bytes \<Rightarrow> nat \<Rightarrow> nat \<Rightarrow> nat \<Rightarrow>
   bool \<times> sweep_inputs_info \<times> 'x sweep_state \<Rightarrow> (bool \<times> sweep_inputs_info \<times> 'x sweep_state) res" where
  "processInputs e u sp now inputVector mainUtxo vault capacity 0 inputStartingIndex acc = Inr acc"
| "processInputs e u sp now inputVector mainUtxo vault capacity (Suc left) inputStartingIndex acc =
     bind_res (parseDepositSweepTxInputAt u sp inputVector inputStartingIndex) (\<lambda>(outpointTxHash, outpointIndex, inputLength).
     bind_res (processInput e now mainUtxo vault capacity (outpointTxHash, outpointIndex) acc) (\<lambda>acc'.
     bind_res (checked_add256 inputStartingIndex inputLength) (\<lambda>next.
     processInputs e u sp now inputVector mainUtxo vault capacity left next acc')))"

definition no_inputs :: sweep_inputs_info where
  "no_inputs = \<lparr>ii_inputsTotalValue = 0, ii_depositors = [], ii_depositedAmounts = [], ii_treasuryFees = []\<rparr>"

definition filled :: "nat \<Rightarrow> sweep_inputs_info \<Rightarrow> sweep_inputs_info" where
  "filled capacity info =
     (let n = capacity - length (ii_depositors info) in
      info\<lparr>ii_depositors := ii_depositors info @ replicate n address0,
        ii_depositedAmounts := ii_depositedAmounts info @ replicate n 0,
        ii_treasuryFees := ii_treasuryFees info @ replicate n 0\<rparr>)"

definition processDepositSweepTxInputs ::
  "evm \<Rightarrow> btc_utils \<Rightarrow> spv_lib \<Rightarrow> nat \<Rightarrow> bytes \<Rightarrow> sol_utxo \<Rightarrow> bytes \<Rightarrow> 'x sweep_state \<Rightarrow> (sweep_inputs_info \<times> 'x sweep_state) res" where
  "processDepositSweepTxInputs e u sp now inputVector mainUtxo vault st =
     (let mainUtxoExpected = (sol_txHash mainUtxo \<noteq> bytes32_0);
          (compactSizeLength, inputsCount) = parseVarInt sp inputVector
      in
      bind_res (checked_add256 1 compactSizeLength) (\<lambda>inputStartingIndex.
      bind_res (if \<not> mainUtxoExpected then Inr inputsCount else checked_sub inputsCount 1) (\<lambda>capacity.
      bind_res (processInputs e u sp now inputVector mainUtxo vault capacity inputsCount inputStartingIndex (False, no_inputs, st))
        (\<lambda>(mainUtxoFound, info, st').
      bind_res (sol_require (0 < length (ii_depositors info)) ''Sweep transaction must process at least one deposit'') (\<lambda>_.
      bind_res (sol_require (mainUtxoExpected = mainUtxoFound)
        ''Expected main UTXO not present in sweep transaction inputs'') (\<lambda>_.
      Inr (filled capacity info, st')))))))"

definition depositSweepTxFeeDistribution :: "nat \<Rightarrow> nat \<Rightarrow> nat \<Rightarrow> (nat \<times> nat) res" where
  "depositSweepTxFeeDistribution sweepTxInputsTotalValue sweepTxOutputValue depositsCount =
     bind_res (checked_sub sweepTxInputsTotalValue sweepTxOutputValue) (\<lambda>sweepTxFee.
     if depositsCount = 0 then Inl (Error ''Panic(0x12)'')
     else let depositTxFeeRemainder = sweepTxFee mod depositsCount in
       Inr ((sweepTxFee - depositTxFeeRemainder) div depositsCount, depositTxFeeRemainder))"

text \<open>The loop that takes the fees from the amounts; the last deposit pays the remainder.\<close>

fun reduceAmounts :: "nat \<Rightarrow> nat \<Rightarrow> nat list \<Rightarrow> nat list \<Rightarrow> nat \<Rightarrow> (nat list \<times> nat) res" where
  "reduceAmounts depositTxFee remainder (amount # amounts) (treasuryFee # fees) totalTreasuryFee =
     bind_res (checked_sub amount treasuryFee) (\<lambda>v.
     bind_res (checked_sub v (if amounts = [] then depositTxFee + remainder else depositTxFee)) (\<lambda>v'.
     bind_res (checked_add256 totalTreasuryFee treasuryFee) (\<lambda>total.
     bind_res (reduceAmounts depositTxFee remainder amounts fees total) (\<lambda>(vs, total').
     Inr (v' # vs, total')))))"
| "reduceAmounts depositTxFee remainder _ _ totalTreasuryFee = Inr ([], totalTreasuryFee)"

subsection \<open>Balances (Bank.sol)\<close>

definition increaseBalance :: "bytes \<Rightarrow> nat \<Rightarrow> 'x sweep_state \<Rightarrow> 'x sweep_state res" where
  "increaseBalance recipient amount st =
     bind_res (sol_require (recipient \<noteq> sw_bank st) ''Can not increase balance for Bank'') (\<lambda>_.
     bind_res (checked_add256 (sw_balanceOf st recipient) amount) (\<lambda>v.
     Inr (st\<lparr>sw_balanceOf := (sw_balanceOf st)(recipient := v)\<rparr>)))"

fun increaseEach :: "(bytes \<times> nat) list \<Rightarrow> 'x sweep_state \<Rightarrow> 'x sweep_state res" where
  "increaseEach [] st = Inr st"
| "increaseEach ((recipient, amount) # later) st = bind_res (increaseBalance recipient amount st) (increaseEach later)"

definition increaseBalances :: "bytes list \<Rightarrow> nat list \<Rightarrow> 'x sweep_state \<Rightarrow> 'x sweep_state res" where
  "increaseBalances recipients amounts st =
     bind_res (sol_require (length recipients = length amounts) ''Arrays must have the same length'') (\<lambda>_.
     increaseEach (zip recipients amounts) st)"

fun checked_sum :: "nat list \<Rightarrow> nat \<Rightarrow> nat res" where
  "checked_sum [] acc = Inr acc"
| "checked_sum (a # as) acc = bind_res (checked_add256 acc a) (checked_sum as)"

subsection \<open>Vaults\<close>

definition SATOSHI_MULTIPLIER :: nat where
  "SATOSHI_MULTIPLIER = 10 ^ 10"

definition repayOptimisticMintingDebt :: "bytes \<Rightarrow> nat \<Rightarrow> 'x sweep_state \<Rightarrow> nat \<times> 'x sweep_state" where
  "repayOptimisticMintingDebt depositor amount st =
     (let debt = sw_optimisticMintingDebt st depositor in
      if debt = 0 then (amount, st)
      else if debt < amount
      then (amount - debt, st\<lparr>sw_optimisticMintingDebt := (sw_optimisticMintingDebt st)(depositor := 0)\<rparr>)
      else (0, st\<lparr>sw_optimisticMintingDebt := (sw_optimisticMintingDebt st)(depositor := debt - amount)\<rparr>))"

definition vault_mint :: "'x sweep_contracts \<Rightarrow> bytes \<Rightarrow> nat \<Rightarrow> 'x sweep_state \<Rightarrow> 'x sweep_state res" where
  "vault_mint ext minter amount st =
     bind_res (token_mint ext minter amount (st_contracts (sw_bridge st))) (\<lambda>x.
     Inr (st\<lparr>sw_minted := sw_minted st @ [(minter, amount)], sw_bridge := (sw_bridge st)\<lparr>st_contracts := x\<rparr>\<rparr>))"

fun mintEach :: "'x sweep_contracts \<Rightarrow> (bytes \<times> nat) list \<Rightarrow> 'x sweep_state \<Rightarrow> 'x sweep_state res" where
  "mintEach ext [] st = Inr st"
| "mintEach ext ((depositor, satoshis) # later) st =
     bind_res (checked_mul256 satoshis SATOSHI_MULTIPLIER) (\<lambda>amount.
     case repayOptimisticMintingDebt depositor amount st of (rest, st') \<Rightarrow>
       bind_res (vault_mint ext depositor rest st') (mintEach ext later))"

definition TBTCVault_receiveBalanceIncrease ::
  "'x sweep_contracts \<Rightarrow> bytes list \<Rightarrow> nat list \<Rightarrow> 'x sweep_state \<Rightarrow> 'x sweep_state res" where
  "TBTCVault_receiveBalanceIncrease ext depositors depositedSatoshiAmounts st =
     bind_res (sol_require (length depositors \<noteq> 0) ''No depositors specified'') (\<lambda>_.
     mintEach ext (zip depositors depositedSatoshiAmounts) st)"

definition decreaseBalance :: "bytes \<Rightarrow> nat \<Rightarrow> 'x sweep_state \<Rightarrow> 'x sweep_state res" where
  "decreaseBalance sender amount st =
     bind_res (checked_sub (sw_balanceOf st sender) amount) (\<lambda>v.
     Inr (st\<lparr>sw_balanceOf := (sw_balanceOf st)(sender := v)\<rparr>))"

definition DonationVault_receiveBalanceIncrease :: "bytes list \<Rightarrow> nat list \<Rightarrow> 'x sweep_state \<Rightarrow> 'x sweep_state res" where
  "DonationVault_receiveBalanceIncrease depositors depositedAmounts st =
     bind_res (sol_require (length depositors \<noteq> 0) ''No depositors specified'') (\<lambda>_.
     bind_res (checked_sum depositedAmounts 0) (\<lambda>totalAmount.
     decreaseBalance (sw_donationVault st) totalAmount st))"

definition receiveBalanceIncrease ::
  "'x sweep_contracts \<Rightarrow> bytes \<Rightarrow> bytes list \<Rightarrow> nat list \<Rightarrow> 'x sweep_state \<Rightarrow> 'x sweep_state res" where
  "receiveBalanceIncrease ext vault depositors amounts st =
     (if vault = sw_tbtcVault st then TBTCVault_receiveBalanceIncrease ext depositors amounts st
      else if vault = sw_donationVault st then DonationVault_receiveBalanceIncrease depositors amounts st
      else bind_res (otherVault ext vault depositors amounts (sw_balanceOf st) (st_contracts (sw_bridge st))) (\<lambda>(balances, x).
        Inr (st\<lparr>sw_balanceOf := balances, sw_bridge := (sw_bridge st)\<lparr>st_contracts := x\<rparr>\<rparr>)))"

definition increaseBalanceAndCall ::
  "'x sweep_contracts \<Rightarrow> bytes \<Rightarrow> bytes list \<Rightarrow> nat list \<Rightarrow> 'x sweep_state \<Rightarrow> 'x sweep_state res" where
  "increaseBalanceAndCall ext vault recipients amounts st =
     bind_res (sol_require (length recipients = length amounts) ''Arrays must have the same length'') (\<lambda>_.
     bind_res (checked_sum amounts 0) (\<lambda>totalAmount.
     bind_res (increaseBalance vault totalAmount st) (\<lambda>st'.
     receiveBalanceIncrease ext vault recipients amounts st')))"

subsection \<open>The sweep\<close>

text \<open>What follows the processing of the inputs: the fees, the new main output and the balances.\<close>

definition settleSweep ::
  "evm \<Rightarrow> 'x sweep_contracts \<Rightarrow> bytes \<Rightarrow> bytes \<Rightarrow> nat \<Rightarrow> bytes \<Rightarrow> sweep_inputs_info \<Rightarrow> 'x sweep_state \<Rightarrow> 'x sweep_state res" where
  "settleSweep e ext sweepTxHash walletPubKeyHash sweepTxOutputValue vault info st =
     bind_res (depositSweepTxFeeDistribution (ii_inputsTotalValue info) sweepTxOutputValue (length (ii_depositedAmounts info)))
       (\<lambda>(depositTxFee, depositTxFeeRemainder).
     bind_res (sol_require (depositTxFee + depositTxFeeRemainder \<le> sw_depositTxMaxFee st) ''Transaction fee is too high'') (\<lambda>_.
     bind_res (reduceAmounts depositTxFee depositTxFeeRemainder (ii_depositedAmounts info) (ii_treasuryFees info) 0)
       (\<lambda>(depositedAmounts, totalTreasuryFee).
     let mainUtxo = \<lparr>sol_txHash = sweepTxHash, sol_txOutputIndex = 0, sol_txOutputValue = sweepTxOutputValue\<rparr>;
         wallets = st_registeredWallets (sw_bridge st);
         st1 = st\<lparr>sw_bridge := (sw_bridge st)\<lparr>st_registeredWallets := wallets(walletPubKeyHash :=
             (wallets walletPubKeyHash)\<lparr>wal_mainUtxoHash := sol_utxo_hash e mainUtxo\<rparr>)\<rparr>,
           sw_depositsSwept := sw_depositsSwept st @ [(walletPubKeyHash, sweepTxHash)]\<rparr>
     in
     bind_res (if vault \<noteq> address0 \<and> st_isVaultTrusted (sw_bridge st) vault
       then increaseBalanceAndCall ext vault (ii_depositors info) depositedAmounts st1
       else increaseBalances (ii_depositors info) depositedAmounts st1) (\<lambda>st2.
     if 0 < totalTreasuryFee then increaseBalance (sw_treasury st2) totalTreasuryFee st2 else Inr st2))))"

definition sol_submitDepositSweepProof ::
  "evm \<Rightarrow> btc_utils \<Rightarrow> spv_lib \<Rightarrow> 'x sweep_contracts \<Rightarrow> bytes \<Rightarrow> nat \<Rightarrow> sol_tx \<Rightarrow> sol_proof \<Rightarrow> sol_utxo \<Rightarrow> bytes \<Rightarrow>
   'x sweep_state \<Rightarrow> 'x sweep_state res" where
  "sol_submitDepositSweepProof e u sp ext sender now sweepTx sweepProof mainUtxo vault st =
     bind_res (sol_require (sw_isSpvMaintainer st sender) ''Caller is not SPV maintainer'') (\<lambda>_.
     bind_res (validateProof e sp ext sweepTx sweepProof st) (\<lambda>sweepTxHash.
     bind_res (processDepositSweepTxOutput u sp (sol_outputVector sweepTx)) (\<lambda>(walletPubKeyHash, sweepTxOutputValue).
     bind_res (resolveDepositSweepingWallet e walletPubKeyHash mainUtxo st) (\<lambda>resolvedMainUtxo.
     bind_res (processDepositSweepTxInputs e u sp now (sol_inputVector sweepTx) resolvedMainUtxo vault st) (\<lambda>(info, st').
     settleSweep e ext sweepTxHash walletPubKeyHash sweepTxOutputValue vault info st')))))"

end
