(* ===== verification/SweepClaims.thy ===== *)
theory SweepClaims
  imports SweepContract BridgeSample
begin

section \<open>What a sweep keeps\<close>

text \<open>
  The Bank is backed by the main outputs of the wallets and the token by the Bank: a sweep raises the
  balances by exactly what it adds to the main output, and a deposit is swept once.
\<close>

subsection \<open>Inputs\<close>

text \<open>The outpoints of a vector, and the loop over outpoints.\<close>

fun outpoints_at :: "btc_utils \<Rightarrow> spv_lib \<Rightarrow> bytes \<Rightarrow> nat \<Rightarrow> nat \<Rightarrow> (bytes \<times> nat) list res" where
  "outpoints_at u sp inputVector 0 start = Inr []"
| "outpoints_at u sp inputVector (Suc left) start =
     bind_res (parseDepositSweepTxInputAt u sp inputVector start) (\<lambda>(outpointTxHash, outpointIndex, inputLength).
     bind_res (checked_add256 start inputLength) (\<lambda>next.
     bind_res (outpoints_at u sp inputVector left next) (\<lambda>later. Inr ((outpointTxHash, outpointIndex) # later))))"

fun processOutpoints ::
  "evm \<Rightarrow> nat \<Rightarrow> sol_utxo \<Rightarrow> bytes \<Rightarrow> nat \<Rightarrow> (bytes \<times> nat) list \<Rightarrow> bool \<times> sweep_inputs_info \<times> 'x sweep_state \<Rightarrow>
   (bool \<times> sweep_inputs_info \<times> 'x sweep_state) res" where
  "processOutpoints e now mainUtxo vault capacity [] acc = Inr acc"
| "processOutpoints e now mainUtxo vault capacity (outpoint # later) acc =
     bind_res (processInput e now mainUtxo vault capacity outpoint acc) (processOutpoints e now mainUtxo vault capacity later)"

lemma processInputs_outpoints:
  "processInputs e u sp now inputVector mainUtxo vault capacity left start acc = Inr acc' \<Longrightarrow>
   \<exists>os. outpoints_at u sp inputVector left start = Inr os \<and> length os = left \<and>
     processOutpoints e now mainUtxo vault capacity os acc = Inr acc'"
proof (induction left arbitrary: start acc)
  case (Suc left)
  then obtain h i n acc1 s where p: "parseDepositSweepTxInputAt u sp inputVector start = Inr (h, i, n)"
    and r: "processInput e now mainUtxo vault capacity (h, i) acc = Inr acc1" "checked_add256 start n = Inr s"
      "processInputs e u sp now inputVector mainUtxo vault capacity left s acc1 = Inr acc'"
    by (auto simp: bind_res_Inr)
  obtain os where "outpoints_at u sp inputVector left s = Inr os" "length os = left"
    "processOutpoints e now mainUtxo vault capacity os acc1 = Inr acc'"
    using Suc.IH [OF r(3)] by blast
  then show ?case using p r by (intro exI [of _ "(h, i) # os"]) (simp add: bind_res_Inr)
qed simp

text \<open>What an input does: a deposit is marked as swept, the main output as spent.\<close>

definition deposit_input :: "evm \<Rightarrow> 'x sweep_state \<Rightarrow> bytes \<times> nat \<Rightarrow> sol_deposit" where
  "deposit_input e st outpoint = st_deposits (sw_bridge st) (sol_deposit_key e (fst outpoint) (snd outpoint))"

definition books :: "bool \<times> sweep_inputs_info \<times> 'x sweep_state \<Rightarrow> sol_utxo \<Rightarrow> bool" where
  "books acc mainUtxo = (case acc of (found, info, st) \<Rightarrow>
     (found \<longrightarrow> sol_txHash mainUtxo \<noteq> bytes32_0) \<and>
     ii_inputsTotalValue info = sum_list (ii_depositedAmounts info) + (if found then sol_txOutputValue mainUtxo else 0) \<and>
     length (ii_depositedAmounts info) = length (ii_depositors info) \<and> length (ii_treasuryFees info) = length (ii_depositors info))"

definition frame :: "'x sweep_state \<Rightarrow> 'x sweep_state \<Rightarrow> bool" where
  "frame st st' = (\<exists>D S. st' = st\<lparr>sw_bridge := (sw_bridge st)\<lparr>st_deposits := D\<rparr>, sw_spentMainUTXOs := S\<rparr>)"

lemma frame_refl: "frame st st"
  unfolding frame_def by (intro exI [of _ "st_deposits (sw_bridge st)"] exI [of _ "sw_spentMainUTXOs st"]) simp

lemma frame_trans:
  assumes "frame a b" "frame b c"
  shows "frame a c"
proof -
  obtain D S D' S' where "b = a\<lparr>sw_bridge := (sw_bridge a)\<lparr>st_deposits := D\<rparr>, sw_spentMainUTXOs := S\<rparr>"
    "c = b\<lparr>sw_bridge := (sw_bridge b)\<lparr>st_deposits := D'\<rparr>, sw_spentMainUTXOs := S'\<rparr>"
    using assms unfolding frame_def by blast
  then have "c = a\<lparr>sw_bridge := (sw_bridge a)\<lparr>st_deposits := D'\<rparr>, sw_spentMainUTXOs := S'\<rparr>" by simp
  then show ?thesis unfolding frame_def by blast
qed

definition unswept :: "sol_deposit \<Rightarrow> sol_deposit" where
  "unswept d = d\<lparr>dep_sweptAt := 0\<rparr>"

text \<open>Nothing of a deposit has changed but the time of its sweep.\<close>

definition only_swept :: "'x sweep_state \<Rightarrow> 'x sweep_state \<Rightarrow> bool" where
  "only_swept st st' = (\<forall>k. unswept (st_deposits (sw_bridge st') k) = unswept (st_deposits (sw_bridge st) k))"

lemma unswept_eqD:
  assumes "unswept d = unswept d'"
  shows "dep_depositor d = dep_depositor d'" "dep_amount d = dep_amount d'" "dep_revealedAt d = dep_revealedAt d'"
    "dep_vault d = dep_vault d'" "dep_treasuryFee d = dep_treasuryFee d'"
  using arg_cong [OF assms, of dep_depositor] arg_cong [OF assms, of dep_amount] arg_cong [OF assms, of dep_revealedAt]
    arg_cong [OF assms, of dep_vault] arg_cong [OF assms, of dep_treasuryFee] by (simp_all add: unswept_def)

lemma processInput_deposit:
  assumes "d = deposit_input e st outpoint" "dep_revealedAt d \<noteq> 0"
  shows "processInput e now mainUtxo vault capacity outpoint (found, info, st) = Inr r \<longleftrightarrow>
    dep_sweptAt d = 0 \<and> dep_vault d = vault \<and> length (ii_depositors info) \<noteq> capacity \<and>
    ii_inputsTotalValue info + dep_amount d < 2 ^ 256 \<and>
    r = (found, \<lparr>ii_inputsTotalValue = ii_inputsTotalValue info + dep_amount d, ii_depositors = ii_depositors info @ [dep_depositor d],
         ii_depositedAmounts = ii_depositedAmounts info @ [dep_amount d], ii_treasuryFees = ii_treasuryFees info @ [dep_treasuryFee d]\<rparr>,
      st\<lparr>sw_bridge := (sw_bridge st)\<lparr>st_deposits := (st_deposits (sw_bridge st))
         (sol_deposit_key e (fst outpoint) (snd outpoint) := d\<lparr>dep_sweptAt := now mod 2 ^ 32\<rparr>)\<rparr>\<rparr>)"
proof -
  obtain h i where o: "outpoint = (h, i)" by (cases outpoint)
  have d: "st_deposits (sw_bridge st) (sol_deposit_key e h i) = d" using assms(1) by (simp add: deposit_input_def o)
  show ?thesis
    unfolding processInput_def o prod.case Let_def d bind_require checked_add256_def fst_conv snd_conv
    by (use assms(2) in \<open>simp split: if_splits, blast\<close>)
qed

lemma processInput_main:
  assumes "dep_revealedAt (deposit_input e st outpoint) = 0"
  shows "processInput e now mainUtxo vault capacity outpoint (found, info, st) = Inr r \<longleftrightarrow>
    (sol_txHash mainUtxo \<noteq> bytes32_0 \<longleftrightarrow> \<not> found) \<and> outpoint = (sol_txHash mainUtxo, sol_txOutputIndex mainUtxo) \<and>
    ii_inputsTotalValue info + sol_txOutputValue mainUtxo < 2 ^ 256 \<and>
    r = (True, info\<lparr>ii_inputsTotalValue := ii_inputsTotalValue info + sol_txOutputValue mainUtxo\<rparr>,
      st\<lparr>sw_spentMainUTXOs := (sw_spentMainUTXOs st)(sol_deposit_key e (fst outpoint) (snd outpoint) := True)\<rparr>)"
proof -
  obtain h i where o: "outpoint = (h, i)" by (cases outpoint)
  have d: "dep_revealedAt (st_deposits (sw_bridge st) (sol_deposit_key e h i)) = 0" using assms by (simp add: deposit_input_def o)
  show ?thesis
    unfolding processInput_def o prod.case Let_def checked_add256_def fst_conv snd_conv
    using d by (simp split: if_splits) blast
qed

lemma processInput_keeps:
  assumes "processInput e now mainUtxo vault capacity outpoint (found, info, st) = Inr (found', info', st')"
    and "books (found, info, st) mainUtxo"
  shows "books (found', info', st') mainUtxo \<and> frame st st' \<and> only_swept st st' \<and>
    length (ii_depositors info') + (if found' then 1 else 0) = length (ii_depositors info) + (if found then 1 else 0) + 1 \<and>
    (\<forall>P. (\<forall>k. dep_revealedAt (st_deposits (sw_bridge st) k) \<noteq> 0 \<longrightarrow> P (dep_depositor (st_deposits (sw_bridge st) k))) \<longrightarrow>
       list_all P (ii_depositors info) \<longrightarrow> list_all P (ii_depositors info'))"
proof (cases "dep_revealedAt (deposit_input e st outpoint) = 0")
  case True
  note m = assms(1) [unfolded processInput_main [OF True]]
  have "frame st st'" using m unfolding frame_def
    by (intro exI [of _ "st_deposits (sw_bridge st)"]) auto
  moreover have "\<not> found"
    using m assms(2) by (auto simp: books_def)
  ultimately show ?thesis using m assms(2) by (auto simp: books_def only_swept_def)
next
  case False
  note m = assms(1) [unfolded processInput_deposit [OF refl False]]
  let ?k = "sol_deposit_key e (fst outpoint) (snd outpoint)"
  have k: "deposit_input e st outpoint = st_deposits (sw_bridge st) ?k" by (simp add: deposit_input_def)
  have "frame st st'" using m unfolding frame_def
    by (intro exI [of _ "(st_deposits (sw_bridge st))(?k := (deposit_input e st outpoint)\<lparr>dep_sweptAt := now mod 2 ^ 32\<rparr>)"]
        exI [of _ "sw_spentMainUTXOs st"]) simp
  moreover have "only_swept st st'" using m by (auto simp: only_swept_def unswept_def k)
  ultimately show ?thesis using m assms(2) False by (auto simp: books_def k)
qed

lemma only_swept_revealed:
  assumes "only_swept st st'"
  shows "dep_revealedAt (st_deposits (sw_bridge st') k) = dep_revealedAt (st_deposits (sw_bridge st) k)"
    "dep_depositor (st_deposits (sw_bridge st') k) = dep_depositor (st_deposits (sw_bridge st) k)"
  using unswept_eqD [OF assms [unfolded only_swept_def, THEN spec, of k]] by simp_all

lemma processOutpoints_keeps:
  "processOutpoints e now mainUtxo vault capacity os (found, info, st) = Inr (found', info', st') \<Longrightarrow>
   books (found, info, st) mainUtxo \<Longrightarrow>
   books (found', info', st') mainUtxo \<and> frame st st' \<and> only_swept st st' \<and>
   length (ii_depositors info') + (if found' then 1 else 0) = length (ii_depositors info) + (if found then 1 else 0) + length os \<and>
   (\<forall>P. (\<forall>k. dep_revealedAt (st_deposits (sw_bridge st) k) \<noteq> 0 \<longrightarrow> P (dep_depositor (st_deposits (sw_bridge st) k))) \<longrightarrow>
      list_all P (ii_depositors info) \<longrightarrow> list_all P (ii_depositors info'))"
proof (induction os arbitrary: found info st)
  case Nil
  then show ?case by (simp add: frame_refl only_swept_def)
next
  case (Cons outpoint os)
  obtain found1 info1 st1 where one: "processInput e now mainUtxo vault capacity outpoint (found, info, st) = Inr (found1, info1, st1)"
    and rest: "processOutpoints e now mainUtxo vault capacity os (found1, info1, st1) = Inr (found', info', st')"
    using Cons.prems(1) by (auto simp: bind_res_Inr)
  note a = processInput_keeps [OF one Cons.prems(2)]
  note b = Cons.IH [OF rest conjunct1 [OF a]]
  have "only_swept st st'" using a b by (simp add: only_swept_def)
  moreover have "frame st st'" using a b frame_trans by blast
  moreover have "\<forall>P. (\<forall>k. dep_revealedAt (st_deposits (sw_bridge st) k) \<noteq> 0 \<longrightarrow> P (dep_depositor (st_deposits (sw_bridge st) k))) \<longrightarrow>
      list_all P (ii_depositors info) \<longrightarrow> list_all P (ii_depositors info')"
    using a b only_swept_revealed [of st st1] by (metis (no_types, lifting))
  ultimately show ?case using a b by simp
qed

text \<open>Each deposit among the inputs is swept once.\<close>

lemma processInput_once:
  assumes "processInput e now mainUtxo vault capacity outpoint (found, info, st) = Inr (found', info', st')"
  shows "dep_revealedAt (deposit_input e st outpoint) \<noteq> 0 \<longrightarrow>
      dep_sweptAt (deposit_input e st outpoint) = 0 \<and> dep_sweptAt (deposit_input e st' outpoint) = now mod 2 ^ 32"
    and "st_deposits (sw_bridge st') k = st_deposits (sw_bridge st) k \<or>
      dep_sweptAt (st_deposits (sw_bridge st) k) = 0 \<and> dep_sweptAt (st_deposits (sw_bridge st') k) = now mod 2 ^ 32"
proof -
  show "dep_revealedAt (deposit_input e st outpoint) \<noteq> 0 \<longrightarrow>
      dep_sweptAt (deposit_input e st outpoint) = 0 \<and> dep_sweptAt (deposit_input e st' outpoint) = now mod 2 ^ 32"
  proof
    assume "dep_revealedAt (deposit_input e st outpoint) \<noteq> 0"
    from assms [unfolded processInput_deposit [OF refl this]]
    show "dep_sweptAt (deposit_input e st outpoint) = 0 \<and> dep_sweptAt (deposit_input e st' outpoint) = now mod 2 ^ 32"
      by (auto simp: deposit_input_def)
  qed
  show "st_deposits (sw_bridge st') k = st_deposits (sw_bridge st) k \<or>
      dep_sweptAt (st_deposits (sw_bridge st) k) = 0 \<and> dep_sweptAt (st_deposits (sw_bridge st') k) = now mod 2 ^ 32"
  proof (cases "dep_revealedAt (deposit_input e st outpoint) = 0")
    case True
    then show ?thesis using assms [unfolded processInput_main [OF True]] by simp
  next
    case False
    then show ?thesis using assms [unfolded processInput_deposit [OF refl False]] by (auto simp: deposit_input_def)
  qed
qed

lemma processOutpoints_kept:
  "processOutpoints e now mainUtxo vault capacity os (found, info, st) = Inr (found', info', st') \<Longrightarrow>
   st_deposits (sw_bridge st') k = st_deposits (sw_bridge st) k \<or>
   dep_sweptAt (st_deposits (sw_bridge st) k) = 0 \<and> dep_sweptAt (st_deposits (sw_bridge st') k) = now mod 2 ^ 32"
proof (induction os arbitrary: found info st)
  case (Cons outpoint os)
  obtain found1 info1 st1 where one: "processInput e now mainUtxo vault capacity outpoint (found, info, st) = Inr (found1, info1, st1)"
    and rest: "processOutpoints e now mainUtxo vault capacity os (found1, info1, st1) = Inr (found', info', st')"
    using Cons.prems(1) by (auto simp: bind_res_Inr)
  show ?case using Cons.IH [OF rest] processInput_once(2) [OF one, of k] by auto
qed simp

lemma processOutpoints_once:
  "processOutpoints e now mainUtxo vault capacity os (found, info, st) = Inr (found', info', st') \<Longrightarrow> now mod 2 ^ 32 \<noteq> 0 \<Longrightarrow>
   only_swept st st' \<Longrightarrow> books (found, info, st) mainUtxo \<Longrightarrow>
   (\<forall>outpoint \<in> set os. dep_revealedAt (deposit_input e st outpoint) \<noteq> 0 \<longrightarrow>
      dep_sweptAt (deposit_input e st outpoint) = 0 \<and> dep_sweptAt (deposit_input e st' outpoint) = now mod 2 ^ 32) \<and>
   ((\<exists>outpoint \<in> set os. dep_revealedAt (deposit_input e st outpoint) \<noteq> 0) \<or> ii_depositors info' = ii_depositors info)"
proof (induction os arbitrary: found info st)
  case (Cons outpoint os)
  obtain found1 info1 st1 where one: "processInput e now mainUtxo vault capacity outpoint (found, info, st) = Inr (found1, info1, st1)"
    and rest: "processOutpoints e now mainUtxo vault capacity os (found1, info1, st1) = Inr (found', info', st')"
    using Cons.prems(1) by (auto simp: bind_res_Inr)
  note k1 = processInput_keeps [OF one Cons.prems(4)]
  note k2 = processOutpoints_keeps [OF rest conjunct1 [OF k1]]
  note IH = Cons.IH [OF rest Cons.prems(2) conjunct1 [OF conjunct2 [OF conjunct2 [OF k2]]] conjunct1 [OF k1]]
  have same: "dep_revealedAt (deposit_input e st1 p) = dep_revealedAt (deposit_input e st p)" for p
    using k1 only_swept_revealed(1) [of st st1] by (simp add: deposit_input_def)
  have stay: "dep_sweptAt (deposit_input e st1 p) \<noteq> 0 \<Longrightarrow> deposit_input e st' p = deposit_input e st1 p" for p
    using processOutpoints_kept [OF rest, of "sol_deposit_key e (fst p) (snd p)"] by (auto simp: deposit_input_def)
  have earlier: "dep_sweptAt (deposit_input e st1 p) = 0 \<Longrightarrow> dep_sweptAt (deposit_input e st p) = 0" for p
    using processInput_once(2) [OF one, of "sol_deposit_key e (fst p) (snd p)"] by (auto simp: deposit_input_def)
  have none: "dep_revealedAt (deposit_input e st outpoint) = 0 \<Longrightarrow> ii_depositors info1 = ii_depositors info"
    using one processInput_main [of e st outpoint] by auto
  show ?case
    using IH processInput_once(1) [OF one] same stay earlier none Cons.prems(2) by auto
qed simp

lemma swept_input_refused:
  "outpoint \<in> set os \<Longrightarrow> dep_revealedAt (deposit_input e st outpoint) \<noteq> 0 \<Longrightarrow> dep_sweptAt (deposit_input e st outpoint) \<noteq> 0 \<Longrightarrow>
   processOutpoints e now mainUtxo vault capacity os (found, info, st) \<noteq> Inr acc"
proof (induction os arbitrary: found info st)
  case (Cons p os)
  show ?case
  proof
    assume run: "processOutpoints e now mainUtxo vault capacity (p # os) (found, info, st) = Inr acc"
    then obtain found1 info1 st1 where one: "processInput e now mainUtxo vault capacity p (found, info, st) = Inr (found1, info1, st1)"
      and rest: "processOutpoints e now mainUtxo vault capacity os (found1, info1, st1) = Inr acc"
      by (auto simp: bind_res_Inr)
    have "p \<noteq> outpoint" using one processInput_once(1) [OF one] Cons.prems(2,3) by auto
    moreover have "deposit_input e st1 outpoint = deposit_input e st outpoint"
      using processInput_once(2) [OF one, of "sol_deposit_key e (fst outpoint) (snd outpoint)"] Cons.prems(3)
      by (auto simp: deposit_input_def)
    ultimately show False using Cons.IH [of st1] Cons.prems rest by auto
  qed
qed simp

subsection \<open>Fees and balances\<close>

lemma reduceAmounts_sums:
  "reduceAmounts depositTxFee remainder amounts fees tot0 = Inr (vs, tot1) \<Longrightarrow> length fees = length amounts \<Longrightarrow>
   sum_list vs + sum_list fees + depositTxFee * length amounts + (if amounts = [] then 0 else remainder) = sum_list amounts \<and>
   tot1 = tot0 + sum_list fees \<and> length vs = length amounts"
proof (induction depositTxFee remainder amounts fees tot0 arbitrary: vs rule: reduceAmounts.induct)
  case (1 depositTxFee remainder amount amounts treasuryFee fees tot0)
  obtain v v' t ws where s: "checked_sub amount treasuryFee = Inr v"
      "checked_sub v (if amounts = [] then depositTxFee + remainder else depositTxFee) = Inr v'"
      "checked_add256 tot0 treasuryFee = Inr t" "reduceAmounts depositTxFee remainder amounts fees t = Inr (ws, tot1)" "vs = v' # ws"
    using 1(2) by (auto simp: bind_res_Inr)
  have "sum_list ws + sum_list fees + depositTxFee * length amounts + (if amounts = [] then 0 else remainder) = sum_list amounts \<and>
     tot1 = t + sum_list fees \<and> length ws = length amounts"
    by (rule 1(1) [OF s(4)]) (use 1(3) in simp_all)
  then show ?case using s by (auto simp: checked_sub_def checked_add256_def split: if_splits)
qed auto

lemma distribution_sums:
  assumes "depositSweepTxFeeDistribution tot out n = Inr (fee, remainder)"
  shows "out \<le> tot \<and> 0 < n \<and> fee * n + remainder = tot - out"
proof -
  let ?f = "tot - out"
  have "out \<le> tot" "0 < n" "fee = (?f - ?f mod n) div n" "remainder = ?f mod n"
    using assms by (auto simp: depositSweepTxFeeDistribution_def bind_res_Inr checked_sub_def Let_def split: if_splits)
  moreover have "(?f - ?f mod n) div n * n + ?f mod n = ?f"
    by (simp add: minus_mod_eq_mult_div)
  ultimately show ?thesis by simp
qed

text \<open>The sum of the balances of a set of accounts.\<close>

definition balances :: "bytes set \<Rightarrow> 'x sweep_state \<Rightarrow> nat" where
  "balances A st = (\<Sum>a\<in>A. sw_balanceOf st a)"

definition debts :: "bytes set \<Rightarrow> 'x sweep_state \<Rightarrow> nat" where
  "debts A st = (\<Sum>a\<in>A. sw_optimisticMintingDebt st a)"

definition minted_total :: "'x sweep_state \<Rightarrow> nat" where
  "minted_total st = sum_list (map snd (sw_minted st))"

lemma sum_upd: "finite A \<Longrightarrow> a \<in> A \<Longrightarrow> (\<Sum>x\<in>A. (f(a := v)) x) + f a = (\<Sum>x\<in>A. f x) + (v :: nat)"
  by (simp add: sum.remove)

lemma increaseBalance_sums:
  assumes "increaseBalance recipient amount st = Inr st'"
  shows "\<exists>b. st' = st\<lparr>sw_balanceOf := b\<rparr> \<and> (finite A \<longrightarrow> recipient \<in> A \<longrightarrow> balances A st' = balances A st + amount) \<and>
    (recipient \<noteq> a \<longrightarrow> b a = sw_balanceOf st a) \<and> b recipient = sw_balanceOf st recipient + amount"
proof -
  have s: "st' = st\<lparr>sw_balanceOf := (sw_balanceOf st)(recipient := sw_balanceOf st recipient + amount)\<rparr>"
    using assms by (auto simp: increaseBalance_def bind_res_Inr checked_add256_def split: if_splits)
  show ?thesis
    using sum_upd [of A recipient "sw_balanceOf st" "sw_balanceOf st recipient + amount"]
    by (intro exI [of _ "(sw_balanceOf st)(recipient := sw_balanceOf st recipient + amount)"]) (simp add: s balances_def)
qed

lemma increaseEach_sums:
  "increaseEach ras st = Inr st' \<Longrightarrow> finite A \<Longrightarrow> fst ` set ras \<subseteq> A \<Longrightarrow> a \<notin> fst ` set ras \<Longrightarrow>
   \<exists>b. st' = st\<lparr>sw_balanceOf := b\<rparr> \<and> balances A st' = balances A st + sum_list (map snd ras) \<and> b a = sw_balanceOf st a"
proof (induction ras arbitrary: st)
  case Nil
  then show ?case by (auto intro: exI [of _ "sw_balanceOf st"])
next
  case (Cons ra ras)
  obtain r v where ra: "ra = (r, v)" by (cases ra)
  obtain st1 where one: "increaseBalance r v st = Inr st1" and rest: "increaseEach ras st1 = Inr st'"
    using Cons.prems(1) by (auto simp: ra bind_res_Inr)
  obtain b where b: "st1 = st\<lparr>sw_balanceOf := b\<rparr>" "balances A st1 = balances A st + v" "b a = sw_balanceOf st a"
    using increaseBalance_sums [OF one, of A a] Cons.prems by (auto simp: ra)
  obtain b' where "st' = st1\<lparr>sw_balanceOf := b'\<rparr>" "balances A st' = balances A st1 + sum_list (map snd ras)" "b' a = sw_balanceOf st1 a"
    using Cons.IH [OF rest] Cons.prems by auto
  then show ?case using b by (intro exI [of _ b']) (simp add: ra)
qed

lemma checked_sum_eq: "checked_sum as acc = Inr v \<Longrightarrow> v = acc + sum_list as"
  by (induction as arbitrary: acc) (fastforce simp: bind_res_Inr checked_add256_def split: if_splits)+

text \<open>What is minted for a deposit is its value less the debt it repays.\<close>

lemma mintEach_sums:
  "mintEach ext das st = Inr st' \<Longrightarrow> finite A \<Longrightarrow> fst ` set das \<subseteq> A \<Longrightarrow>
   \<exists>d m x. st' = st\<lparr>sw_optimisticMintingDebt := d, sw_minted := m, sw_bridge := (sw_bridge st)\<lparr>st_contracts := x\<rparr>\<rparr> \<and>
     minted_total st' + debts A st = minted_total st + debts A st' + SATOSHI_MULTIPLIER * sum_list (map snd das)"
proof (induction das arbitrary: st)
  case Nil
  then show ?case
    by (intro exI [of _ "sw_optimisticMintingDebt st"] exI [of _ "sw_minted st"] exI [of _ "st_contracts (sw_bridge st)"]) simp
next
  case (Cons da das)
  obtain a v where da: "da = (a, v)" by (cases da)
  obtain rest st0 where repay: "repayOptimisticMintingDebt a (v * SATOSHI_MULTIPLIER) st = (rest, st0)" by fastforce
  obtain st1 where one: "vault_mint ext a rest st0 = Inr st1" and later: "mintEach ext das st1 = Inr st'"
    using Cons.prems(1) by (auto simp: da bind_res_Inr repay checked_mul256_def split: if_splits)
  let ?debt = "sw_optimisticMintingDebt st a"
  define paid where "paid = min ?debt (v * SATOSHI_MULTIPLIER)"
  have r: "rest = v * SATOSHI_MULTIPLIER - paid"
      "st0 = st\<lparr>sw_optimisticMintingDebt := (sw_optimisticMintingDebt st)(a := ?debt - paid)\<rparr>"
    using repay by (cases "?debt = 0"; auto simp: repayOptimisticMintingDebt_def Let_def paid_def min_def fun_upd_idem split: if_splits)+
  obtain x where s1: "st1 = st0\<lparr>sw_minted := sw_minted st0 @ [(a, rest)], sw_bridge := (sw_bridge st0)\<lparr>st_contracts := x\<rparr>\<rparr>"
    using one by (auto simp: vault_mint_def bind_res_Inr)
  have "debts A st1 + ?debt = debts A st + (?debt - paid)"
    using sum_upd [of A a "sw_optimisticMintingDebt st" "?debt - paid"] Cons.prems by (simp add: da s1 r(2) debts_def)
  moreover have "paid \<le> ?debt" "paid \<le> v * SATOSHI_MULTIPLIER" by (simp_all add: paid_def)
  moreover have "minted_total st1 = minted_total st + rest" by (simp add: minted_total_def s1 r(2))
  ultimately have step: "minted_total st1 + debts A st = minted_total st + debts A st1 + v * SATOSHI_MULTIPLIER" using r(1) by simp
  obtain d m y where "st' = st1\<lparr>sw_optimisticMintingDebt := d, sw_minted := m, sw_bridge := (sw_bridge st1)\<lparr>st_contracts := y\<rparr>\<rparr>"
    "minted_total st' + debts A st1 = minted_total st1 + debts A st' + SATOSHI_MULTIPLIER * sum_list (map snd das)"
    using Cons.IH [OF later] Cons.prems by auto
  then show ?case
    using step by (intro exI [of _ d] exI [of _ m] exI [of _ y]) (simp add: s1 r(2) da algebra_simps)
qed

subsection \<open>The sweep\<close>

text \<open>The vault of a sweep is none, untrusted, or the vault of the token.\<close>

definition usual_vault :: "bytes \<Rightarrow> 'x sweep_state \<Rightarrow> bool" where
  "usual_vault vault st = (vault = address0 \<or> \<not> st_isVaultTrusted (sw_bridge st) vault \<or> vault = sw_tbtcVault st)"

text \<open>The token of the vault is backed by its balance and the debts: minted less debts and balance in the
  unit of the token does not change.\<close>

definition same_backing :: "bytes set \<Rightarrow> 'x sweep_state \<Rightarrow> 'x sweep_state \<Rightarrow> bool" where
  "same_backing A st st' =
     (minted_total st' + debts A st + SATOSHI_MULTIPLIER * sw_balanceOf st (sw_tbtcVault st) =
      minted_total st + debts A st' + SATOSHI_MULTIPLIER * sw_balanceOf st' (sw_tbtcVault st))"

definition credit_balances :: "'x sweep_contracts \<Rightarrow> bytes \<Rightarrow> bytes list \<Rightarrow> nat list \<Rightarrow> 'x sweep_state \<Rightarrow> 'x sweep_state res" where
  "credit_balances ext vault depositors amounts st =
     (if vault \<noteq> address0 \<and> st_isVaultTrusted (sw_bridge st) vault
      then increaseBalanceAndCall ext vault depositors amounts st else increaseBalances depositors amounts st)"

lemma credit_sums:
  assumes "credit_balances ext vault depositors amounts st = Inr st'" "length amounts = length depositors" "usual_vault vault st"
    and "finite A" "set depositors \<subseteq> A - {sw_tbtcVault st}" "sw_tbtcVault st \<in> A"
  shows "balances A st' = balances A st + sum_list amounts \<and> same_backing A st st' \<and>
    (\<exists>b d m x. st' = st\<lparr>sw_balanceOf := b, sw_optimisticMintingDebt := d, sw_minted := m,
       sw_bridge := (sw_bridge st)\<lparr>st_contracts := x\<rparr>\<rparr>)"
proof (cases "vault \<noteq> address0 \<and> st_isVaultTrusted (sw_bridge st) vault")
  case True
  then have v: "vault = sw_tbtcVault st" using assms(3) by (auto simp: usual_vault_def)
  obtain s st1 where s: "checked_sum amounts 0 = Inr s" and one: "increaseBalance vault s st = Inr st1"
    and r: "receiveBalanceIncrease ext vault depositors amounts st1 = Inr st'"
    using assms(1) True by (auto simp: credit_balances_def increaseBalanceAndCall_def bind_res_Inr)
  obtain b where b: "st1 = st\<lparr>sw_balanceOf := b\<rparr>" "balances A st1 = balances A st + sum_list amounts"
      "b vault = sw_balanceOf st vault + sum_list amounts"
    using increaseBalance_sums [OF one, of A] checked_sum_eq [OF s] assms(4,6) v by auto
  have m: "mintEach ext (zip depositors amounts) st1 = Inr st'"
    using r by (simp add: receiveBalanceIncrease_def v b(1) TBTCVault_receiveBalanceIncrease_def bind_require split: if_splits)
  have "fst ` set (zip depositors amounts) \<subseteq> A" using assms(5) by (auto dest: set_zip_leftD)
  then obtain d n x where st': "st' = st1\<lparr>sw_optimisticMintingDebt := d, sw_minted := n, sw_bridge := (sw_bridge st1)\<lparr>st_contracts := x\<rparr>\<rparr>"
    and sums: "minted_total st' + debts A st1 = minted_total st1 + debts A st' + SATOSHI_MULTIPLIER * sum_list (map snd (zip depositors amounts))"
    using mintEach_sums [OF m assms(4)] by blast
  have "minted_total st1 = minted_total st" "debts A st1 = debts A st" by (simp_all add: b(1) minted_total_def debts_def)
  then have "same_backing A st st'"
    using sums assms(2) b(3) by (simp add: same_backing_def st' b(1) v distrib_left)
  moreover have "balances A st' = balances A st + sum_list amounts" using b(2) by (simp add: st' balances_def)
  ultimately show ?thesis
    by (intro conjI exI [of _ b] exI [of _ d] exI [of _ n] exI [of _ x]) (simp_all add: st' b(1))
next
  case False
  have r: "increaseEach (zip depositors amounts) st = Inr st'"
    using assms(1) False by (auto simp: credit_balances_def increaseBalances_def bind_require split: if_splits)
  have "fst ` set (zip depositors amounts) \<subseteq> A" "sw_tbtcVault st \<notin> fst ` set (zip depositors amounts)"
    using assms(5) by (auto dest: set_zip_leftD)
  then obtain b where b: "st' = st\<lparr>sw_balanceOf := b\<rparr>" "balances A st' = balances A st + sum_list (map snd (zip depositors amounts))"
      "b (sw_tbtcVault st) = sw_balanceOf st (sw_tbtcVault st)"
    using increaseEach_sums [OF r assms(4)] by blast
  show ?thesis
    using b(2,3) assms(2)
    by (intro conjI exI [of _ b] exI [of _ "sw_optimisticMintingDebt st"] exI [of _ "sw_minted st"] exI [of _ "st_contracts (sw_bridge st)"])
      (simp_all add: b(1) same_backing_def minted_total_def debts_def)
qed

lemma increaseBalance_deposits: "increaseBalance r v st = Inr st' \<Longrightarrow> st_deposits (sw_bridge st') = st_deposits (sw_bridge st)"
  by (auto simp: increaseBalance_def bind_res_Inr)

lemma increaseEach_deposits: "increaseEach ras st = Inr st' \<Longrightarrow> st_deposits (sw_bridge st') = st_deposits (sw_bridge st)"
proof (induction ras arbitrary: st)
  case (Cons ra ras)
  obtain st1 where "increaseBalance (fst ra) (snd ra) st = Inr st1" "increaseEach ras st1 = Inr st'"
    using Cons.prems by (cases ra) (auto simp: bind_res_Inr)
  then show ?case using Cons.IH increaseBalance_deposits by fastforce
qed simp

lemma mint_deposits: "mintEach ext das st = Inr st' \<Longrightarrow> st_deposits (sw_bridge st') = st_deposits (sw_bridge st)"
proof (induction das arbitrary: st)
  case (Cons da das)
  obtain a v where da: "da = (a, v)" by (cases da)
  obtain rest st0 where repay: "repayOptimisticMintingDebt a (v * SATOSHI_MULTIPLIER) st = (rest, st0)" by fastforce
  obtain st1 where one: "vault_mint ext a rest st0 = Inr st1" and later: "mintEach ext das st1 = Inr st'"
    using Cons.prems(1) by (auto simp: da bind_res_Inr repay checked_mul256_def split: if_splits)
  have "sw_bridge st0 = sw_bridge st" using repay by (auto simp: repayOptimisticMintingDebt_def Let_def split: if_splits)
  then show ?case using one Cons.IH [OF later] by (auto simp: vault_mint_def bind_res_Inr)
qed simp

lemma credit_deposits: "credit_balances ext vault depositors amounts st = Inr st' \<Longrightarrow> st_deposits (sw_bridge st') = st_deposits (sw_bridge st)"
  by (auto simp: credit_balances_def increaseBalanceAndCall_def increaseBalances_def receiveBalanceIncrease_def
      TBTCVault_receiveBalanceIncrease_def DonationVault_receiveBalanceIncrease_def decreaseBalance_def bind_res_Inr
      dest!: increaseBalance_deposits increaseEach_deposits mint_deposits split: if_splits)

definition recorded_sweep :: "evm \<Rightarrow> bytes \<Rightarrow> bytes \<Rightarrow> nat \<Rightarrow> 'x sweep_state \<Rightarrow> 'x sweep_state" where
  "recorded_sweep e txHash pkh v st = st\<lparr>sw_bridge := (sw_bridge st)\<lparr>st_registeredWallets :=
     (st_registeredWallets (sw_bridge st))(pkh := (st_registeredWallets (sw_bridge st) pkh)
      \<lparr>wal_mainUtxoHash := sol_utxo_hash e \<lparr>sol_txHash = txHash, sol_txOutputIndex = 0, sol_txOutputValue = v\<rparr>\<rparr>)\<rparr>,
    sw_depositsSwept := sw_depositsSwept st @ [(pkh, txHash)]\<rparr>"

lemma settle_steps:
  "settleSweep e ext txHash pkh v vault info st = Inr st' \<longleftrightarrow>
   (\<exists>fee remainder vs fees st2.
      depositSweepTxFeeDistribution (ii_inputsTotalValue info) v (length (ii_depositedAmounts info)) = Inr (fee, remainder) \<and>
      fee + remainder \<le> sw_depositTxMaxFee st \<and>
      reduceAmounts fee remainder (ii_depositedAmounts info) (ii_treasuryFees info) 0 = Inr (vs, fees) \<and>
      credit_balances ext vault (ii_depositors info) vs (recorded_sweep e txHash pkh v st) = Inr st2 \<and>
      (if 0 < fees then increaseBalance (sw_treasury st2) fees st2 else Inr st2) = Inr st')"
  by (auto simp: settleSweep_def credit_balances_def bind_res_Inr Let_def recorded_sweep_def)

lemma settle_deposits:
  assumes "settleSweep e ext txHash pkh v vault info st = Inr st'"
  shows "st_deposits (sw_bridge st') = st_deposits (sw_bridge st)"
proof -
  obtain vs st2 fees where c: "credit_balances ext vault (ii_depositors info) vs (recorded_sweep e txHash pkh v st) = Inr st2"
    and t: "(if 0 < fees then increaseBalance (sw_treasury st2) fees st2 else Inr st2) = Inr st'"
    using assms unfolding settle_steps by blast
  have "st_deposits (sw_bridge st') = st_deposits (sw_bridge st2)" using t by (auto dest: increaseBalance_deposits split: if_splits)
  then show ?thesis using credit_deposits [OF c] by (simp add: recorded_sweep_def)
qed

lemma settle_sums:
  assumes "settleSweep e ext txHash pkh v vault info st = Inr st'" "usual_vault vault st" "finite A"
    and "set (ii_depositors info) \<subseteq> A - {sw_tbtcVault st}" "sw_tbtcVault st \<in> A" "sw_treasury st \<in> A" "sw_treasury st \<noteq> sw_tbtcVault st"
    and "length (ii_depositedAmounts info) = length (ii_depositors info)" "length (ii_treasuryFees info) = length (ii_depositors info)"
  shows "balances A st' + ii_inputsTotalValue info = balances A st + sum_list (ii_depositedAmounts info) + v \<and>
    same_backing A st st' \<and>
    st_registeredWallets (sw_bridge st') = (st_registeredWallets (sw_bridge st))(pkh := (st_registeredWallets (sw_bridge st) pkh)
      \<lparr>wal_mainUtxoHash := sol_utxo_hash e \<lparr>sol_txHash = txHash, sol_txOutputIndex = 0, sol_txOutputValue = v\<rparr>\<rparr>) \<and>
    sw_depositsSwept st' = sw_depositsSwept st @ [(pkh, txHash)] \<and> st_deposits (sw_bridge st') = st_deposits (sw_bridge st)"
proof -
  define st1 where "st1 = recorded_sweep e txHash pkh v st"
  note st1_def = st1_def [unfolded recorded_sweep_def]
  obtain fee remainder vs fees st2 where
      f: "depositSweepTxFeeDistribution (ii_inputsTotalValue info) v (length (ii_depositedAmounts info)) = Inr (fee, remainder)"
    and r: "reduceAmounts fee remainder (ii_depositedAmounts info) (ii_treasuryFees info) 0 = Inr (vs, fees)"
    and c: "credit_balances ext vault (ii_depositors info) vs st1 = Inr st2"
    and t: "(if 0 < fees then increaseBalance (sw_treasury st2) fees st2 else Inr st2) = Inr st'"
    using assms(1) unfolding settle_steps st1_def recorded_sweep_def by blast
  note fsum = distribution_sums [OF f]
  have rsum: "sum_list vs + fees + (ii_inputsTotalValue info - v) = sum_list (ii_depositedAmounts info) \<and> length vs = length (ii_depositors info)"
    using reduceAmounts_sums [OF r] fsum assms(8,9) by (auto split: if_splits)
  have csum: "balances A st2 = balances A st1 + sum_list vs \<and> same_backing A st1 st2 \<and>
    (\<exists>b d m x. st2 = st1\<lparr>sw_balanceOf := b, sw_optimisticMintingDebt := d, sw_minted := m,
       sw_bridge := (sw_bridge st1)\<lparr>st_contracts := x\<rparr>\<rparr>)"
    by (rule credit_sums [OF c]) (use rsum assms(2-5) in \<open>simp_all add: st1_def usual_vault_def\<close>)
  then obtain b d m x where st2: "st2 = st1\<lparr>sw_balanceOf := b, sw_optimisticMintingDebt := d, sw_minted := m,
       sw_bridge := (sw_bridge st1)\<lparr>st_contracts := x\<rparr>\<rparr>" by blast
  have st: "balances A st1 = balances A st" "same_backing A st1 st2 = same_backing A st st2"
    by (simp_all add: st1_def balances_def same_backing_def minted_total_def debts_def)
  have tr: "sw_treasury st2 = sw_treasury st" "sw_tbtcVault st2 = sw_tbtcVault st" by (simp_all add: st2 st1_def)
  obtain b' where st': "st' = st2\<lparr>sw_balanceOf := b'\<rparr>" "balances A st' = balances A st2 + fees"
      "b' (sw_tbtcVault st) = sw_balanceOf st2 (sw_tbtcVault st)"
  proof (cases "0 < fees")
    case True
    then have "increaseBalance (sw_treasury st2) fees st2 = Inr st'" using t by simp
    from increaseBalance_sums [OF this, of A "sw_tbtcVault st"] show ?thesis
      using that assms(3,6,7) tr by auto
  next
    case False
    then show ?thesis using that [of "sw_balanceOf st2"] t by simp
  qed
  have "same_backing A st2 st' \<and> sw_balanceOf st' (sw_tbtcVault st) = sw_balanceOf st2 (sw_tbtcVault st)"
    using st'(1,3) tr by (simp add: same_backing_def minted_total_def debts_def)
  then have "same_backing A st st'"
    using csum st(2) tr st'(1) by (simp add: same_backing_def minted_total_def debts_def)
  moreover have "balances A st' + ii_inputsTotalValue info = balances A st + sum_list (ii_depositedAmounts info) + v"
    using st'(2) csum st(1) rsum fsum by linarith
  ultimately show ?thesis by (simp add: st'(1) st2 st1_def)
qed

text \<open>What a submission that succeeds has done.\<close>

definition swept_outpoints :: "btc_utils \<Rightarrow> spv_lib \<Rightarrow> sol_tx \<Rightarrow> (bytes \<times> nat) list res" where
  "swept_outpoints u sp sweepTx =
     (case parseVarInt sp (sol_inputVector sweepTx) of (n, count) \<Rightarrow> outpoints_at u sp (sol_inputVector sweepTx) count (1 + n))"

lemma validateProof_txid: "validateProof e sp ext sweepTx prf st = Inr h \<Longrightarrow> h = sol_txid e sweepTx"
  by (auto simp: validateProof_def bind_res_Inr Let_def)

lemma sweep_run:
  assumes "sol_submitDepositSweepProof e u sp ext sender now sweepTx prf mainUtxo vault st = Inr st'"
  obtains pkh v main os found info st1 where
    "processDepositSweepTxOutput u sp (sol_outputVector sweepTx) = Inr (pkh, v)"
    "resolveDepositSweepingWallet e pkh mainUtxo st = Inr main" "swept_outpoints u sp sweepTx = Inr os"
    "processOutpoints e now main vault (length (ii_depositors info)) os (False, no_inputs, st) = Inr (found, info, st1)"
    "found \<longleftrightarrow> sol_txHash main \<noteq> bytes32_0" "ii_depositors info \<noteq> []" "books (found, info, st1) main" "frame st st1" "only_swept st st1"
    "settleSweep e ext (sol_txid e sweepTx) pkh v vault info st1 = Inr st'"
proof -
  obtain n count where pv: "parseVarInt sp (sol_inputVector sweepTx) = (n, count)" by fastforce
  obtain pkh v main info0 st1 where
      parts: "processDepositSweepTxOutput u sp (sol_outputVector sweepTx) = Inr (pkh, v)"
      "resolveDepositSweepingWallet e pkh mainUtxo st = Inr main"
    and ins: "processDepositSweepTxInputs e u sp now (sol_inputVector sweepTx) main vault st = Inr (info0, st1)"
    and settle: "settleSweep e ext (sol_txid e sweepTx) pkh v vault info0 st1 = Inr st'"
    using assms by (auto simp: sol_submitDepositSweepProof_def bind_res_Inr dest: validateProof_txid)
  obtain capacity found info where cap: "(if sol_txHash main = bytes32_0 then Inr count else checked_sub count 1) = Inr capacity"
    and loop: "processInputs e u sp now (sol_inputVector sweepTx) main vault capacity count (1 + n) (False, no_inputs, st) = Inr (found, info, st1)"
    and ok: "ii_depositors info \<noteq> []" "found \<longleftrightarrow> sol_txHash main \<noteq> bytes32_0" "info0 = filled capacity info"
    using ins by (auto simp: processDepositSweepTxInputs_def pv Let_def bind_res_Inr checked_add256_def split: if_splits)
  obtain os where os: "outpoints_at u sp (sol_inputVector sweepTx) count (1 + n) = Inr os" "length os = count"
    and run: "processOutpoints e now main vault capacity os (False, no_inputs, st) = Inr (found, info, st1)"
    using processInputs_outpoints [OF loop] by blast
  have b0: "books (False, no_inputs, st) main" by (simp add: books_def no_inputs_def)
  note keeps = processOutpoints_keeps [OF run b0]
  have "length (ii_depositors info) + (if found then 1 else 0) = count" using keeps os(2) by (simp add: no_inputs_def)
  then have len: "capacity = length (ii_depositors info)" using cap ok(2) by (auto simp: checked_sub_def split: if_splits)
  then have "info0 = info" using ok(3) by (simp add: filled_def)
  then show ?thesis
    using that [OF parts _ _ ok(2,1)] os(1) run keeps settle len by (simp add: swept_outpoints_def pv)
qed

text \<open>C4: A sweep that the contract accepts raises the balances of the Bank by exactly what it adds to the
  main output of the wallet: the value of the new main output, which the contract records under the hash of the sweep
  transaction, less that of the main output it spends. What the vault of the token mints is its new balance in units of the token
  less the optimistic debts that it repays. The balances are those of any accounts that
  contain the depositors, the treasury and the vault; the vault is none, an untrusted one or that of
  the token, which is neither a depositor nor the treasury.\<close>

theorem sweep_keeps_backing:
  assumes "sol_submitDepositSweepProof e u sp ext sender now sweepTx prf mainUtxo vault st = Inr st'"
    and "finite A" "usual_vault vault st" "sw_tbtcVault st \<in> A" "sw_treasury st \<in> A" "sw_treasury st \<noteq> sw_tbtcVault st"
    and "\<And>k. dep_revealedAt (st_deposits (sw_bridge st) k) \<noteq> 0 \<Longrightarrow>
      dep_depositor (st_deposits (sw_bridge st) k) \<in> A - {sw_tbtcVault st}"
  shows "\<exists>pkh v main.
    resolveDepositSweepingWallet e pkh mainUtxo st = Inr main \<and>
    processDepositSweepTxOutput u sp (sol_outputVector sweepTx) = Inr (pkh, v) \<and>
    balances A st' + (if sol_txHash main = bytes32_0 then 0 else sol_txOutputValue main) = balances A st + v \<and>
    same_backing A st st' \<and>
    st_registeredWallets (sw_bridge st') = (st_registeredWallets (sw_bridge st))(pkh := (st_registeredWallets (sw_bridge st) pkh)
      \<lparr>wal_mainUtxoHash := sol_utxo_hash e \<lparr>sol_txHash = sol_txid e sweepTx, sol_txOutputIndex = 0, sol_txOutputValue = v\<rparr>\<rparr>)"
proof -
  obtain pkh v main os found info st1 where r: "processDepositSweepTxOutput u sp (sol_outputVector sweepTx) = Inr (pkh, v)"
      "resolveDepositSweepingWallet e pkh mainUtxo st = Inr main"
      "processOutpoints e now main vault (length (ii_depositors info)) os (False, no_inputs, st) = Inr (found, info, st1)"
      "found \<longleftrightarrow> sol_txHash main \<noteq> bytes32_0" "books (found, info, st1) main" "frame st st1"
      "settleSweep e ext (sol_txid e sweepTx) pkh v vault info st1 = Inr st'"
    using sweep_run [OF assms(1)] by metis
  obtain D S where st1: "st1 = st\<lparr>sw_bridge := (sw_bridge st)\<lparr>st_deposits := D\<rparr>, sw_spentMainUTXOs := S\<rparr>"
    using r(6) by (auto simp: frame_def)
  have "books (False, no_inputs, st) main" by (simp add: books_def no_inputs_def)
  from processOutpoints_keeps [OF r(3) this]
  have "list_all (\<lambda>a. a \<in> A - {sw_tbtcVault st}) (ii_depositors info)" using assms(7) by (auto simp: no_inputs_def)
  then have "set (ii_depositors info) \<subseteq> A - {sw_tbtcVault st1}" by (auto simp: list_all_iff st1)
  then have "balances A st' + ii_inputsTotalValue info = balances A st1 + sum_list (ii_depositedAmounts info) + v \<and>
    same_backing A st1 st' \<and>
    st_registeredWallets (sw_bridge st') = (st_registeredWallets (sw_bridge st1))(pkh := (st_registeredWallets (sw_bridge st1) pkh)
      \<lparr>wal_mainUtxoHash := sol_utxo_hash e \<lparr>sol_txHash = sol_txid e sweepTx, sol_txOutputIndex = 0, sol_txOutputValue = v\<rparr>\<rparr>)"
    using settle_sums [OF r(7) _ assms(2), of ] assms(3-6) r(5) by (simp add: st1 usual_vault_def books_def)
  moreover have "balances A st1 = balances A st" "same_backing A st1 st' = same_backing A st st'"
    by (simp_all add: st1 balances_def same_backing_def minted_total_def debts_def)
  ultimately show ?thesis
    using r(1,2,4,5) by (intro exI [of _ pkh] exI [of _ v] exI [of _ main]) (auto simp: st1 books_def)
qed

text \<open>C10: A deposit is swept once: after a sweep is accepted, in a block whose time is not a multiple of two to the 32,
  the deposits among its inputs are marked with that time, and as long as they are, no
  submission of a transaction with one of them as input is accepted, whatever proof, main output, vault and
  time it names; the sweep has such an input, so it cannot be submitted again itself.\<close>

theorem deposits_are_swept_once:
  assumes "sol_submitDepositSweepProof e u sp ext sender now sweepTx prf mainUtxo vault st = Inr st'" "now mod 2 ^ 32 \<noteq> 0"
  shows "\<exists>os. swept_outpoints u sp sweepTx = Inr os \<and> (\<exists>outpoint \<in> set os. dep_revealedAt (deposit_input e st outpoint) \<noteq> 0) \<and>
    (\<forall>outpoint \<in> set os. dep_revealedAt (deposit_input e st outpoint) \<noteq> 0 \<longrightarrow>
       dep_sweptAt (deposit_input e st outpoint) = 0 \<and> dep_sweptAt (deposit_input e st' outpoint) = now mod 2 ^ 32 \<and>
       (\<forall>later tx os'. swept_outpoints u sp tx = Inr os' \<longrightarrow> outpoint \<in> set os' \<longrightarrow>
          deposit_input e later outpoint = deposit_input e st' outpoint \<longrightarrow>
          (\<forall>s n p m v. \<exists>err. sol_submitDepositSweepProof e u sp ext s n tx p m v later = Inl err)))"
proof -
  obtain pkh v main os found info st1 where r: "swept_outpoints u sp sweepTx = Inr os"
      "processOutpoints e now main vault (length (ii_depositors info)) os (False, no_inputs, st) = Inr (found, info, st1)"
      "ii_depositors info \<noteq> []" "only_swept st st1" "settleSweep e ext (sol_txid e sweepTx) pkh v vault info st1 = Inr st'"
    using sweep_run [OF assms(1)] by metis
  have "books (False, no_inputs, st) main" by (simp add: books_def no_inputs_def)
  note once = processOutpoints_once [OF r(2) assms(2) r(4) this]
  have dep: "deposit_input e st' p = deposit_input e st1 p" for p
    by (simp add: deposit_input_def settle_deposits [OF r(5)])
  have again: "\<exists>err. sol_submitDepositSweepProof e u sp ext s n tx pr m vt later = Inl err"
    if "outpoint \<in> set os" "dep_revealedAt (deposit_input e st outpoint) \<noteq> 0" "swept_outpoints u sp tx = Inr os'"
      "outpoint \<in> set os'" "deposit_input e later outpoint = deposit_input e st' outpoint" for outpoint s n tx pr m vt later os'
  proof (cases "sol_submitDepositSweepProof e u sp ext s n tx pr m vt later")
    case (Inr st2)
    have "dep_revealedAt (deposit_input e later outpoint) \<noteq> 0" "dep_sweptAt (deposit_input e later outpoint) \<noteq> 0"
      using that(1,2,5) once assms(2) only_swept_revealed(1) [OF r(4)] dep by (auto simp: deposit_input_def)
    with that(3,4) show ?thesis using sweep_run [OF Inr] swept_input_refused [of outpoint os'] by (metis Inr_inject)
  qed simp
  show ?thesis
    using r(1,3) once again dep by (intro exI [of _ os]) (auto simp: no_inputs_def)
qed


end
