(* ===== verification/BankCredits.thy ===== *)
theory BankCredits
  imports SweepClaims
begin

section \<open>What a sweep pays to whom\<close>

text \<open>
  The account of a sweep, written without the operations of the Bank: who is paid how much, what the
  vault of the token mints for whom and which optimistic debts it repays; and that the Bank and the
  vault come to it whenever the sums fit into a word.
\<close>

subsection \<open>The account\<close>

definition paid_to :: "(bytes \<times> nat) list \<Rightarrow> bytes \<Rightarrow> nat" where
  "paid_to payments a = sum_list (map snd (filter (\<lambda>p. fst p = a) payments))"

definition to_vault :: "bytes \<Rightarrow> 'x sweep_state \<Rightarrow> bool" where
  "to_vault vault st = (vault \<noteq> address0 \<and> st_isVaultTrusted (sw_bridge st) vault)"

text \<open>The shares go to the depositors, or their sum to the vault, which then mints for each depositor
  what the shares are worth in the unit of the token, less the debt, and reduces the debt.\<close>

definition bank_credited :: "bytes \<Rightarrow> (bytes \<times> nat) list \<Rightarrow> nat \<Rightarrow> 'x sweep_state \<Rightarrow> 'x sweep_state \<Rightarrow> bool" where
  "bank_credited vault shares fees st st' =
     ((\<forall>a. sw_balanceOf st' a = sw_balanceOf st a +
         (if to_vault vault st then (if a = vault then sum_list (map snd shares) else 0) else paid_to shares a) +
         (if a = sw_treasury st then fees else 0)) \<and>
      (\<exists>m. sw_minted st' = sw_minted st @ m \<and>
         (\<forall>a. paid_to m a = (if to_vault vault st then 10 ^ 10 * paid_to shares a - sw_optimisticMintingDebt st a else 0))) \<and>
      (\<forall>a. sw_optimisticMintingDebt st' a =
         (if to_vault vault st then sw_optimisticMintingDebt st a - 10 ^ 10 * paid_to shares a
          else sw_optimisticMintingDebt st a)))"

text \<open>Nobody paid is the Bank, the balances leave room for a sum of satoshis, and the token mints.\<close>

definition creditable :: "'x sweep_contracts \<Rightarrow> bytes \<Rightarrow> bytes list \<Rightarrow> 'x sweep_state \<Rightarrow> bool" where
  "creditable ext vault depositors st =
     (usual_vault vault st \<and> sw_bank st \<notin> set (sw_treasury st # vault # depositors) \<and>
      (\<forall>a. sw_balanceOf st a < 2 ^ 255) \<and> (\<forall>a v x. \<exists>x'. token_mint ext a v x = Inr x'))"

subsection \<open>The Bank\<close>

lemma paid_to_simps [simp]:
  "paid_to [] a = 0" "paid_to ((r, v) # ps) a = (if a = r then v else 0) + paid_to ps a"
  "paid_to (ps @ qs) a = paid_to ps a + paid_to qs a"
  by (simp_all add: paid_to_def)

lemma paid_to_le: "paid_to ps a \<le> sum_list (map snd ps)"
  by (induction ps) auto

lemma increaseBalance_ok:
  "r \<noteq> sw_bank st \<Longrightarrow> sw_balanceOf st r + v < 2 ^ 256 \<Longrightarrow>
   increaseBalance r v st = Inr (st\<lparr>sw_balanceOf := \<lambda>a. sw_balanceOf st a + (if a = r then v else 0)\<rparr>)"
proof -
  assume "r \<noteq> sw_bank st" "sw_balanceOf st r + v < 2 ^ 256"
  moreover have "(sw_balanceOf st)(r := sw_balanceOf st r + v) = (\<lambda>a. sw_balanceOf st a + (if a = r then v else 0))" by auto
  ultimately show ?thesis by (simp add: increaseBalance_def bind_require checked_add256_def)
qed

lemma increaseEach_ok:
  "sw_bank st \<notin> fst ` set ps \<Longrightarrow> \<forall>a. sw_balanceOf st a + sum_list (map snd ps) < 2 ^ 256 \<Longrightarrow>
   increaseEach ps st = Inr (st\<lparr>sw_balanceOf := \<lambda>a. sw_balanceOf st a + paid_to ps a\<rparr>)"
proof (induction ps arbitrary: st)
  case (Cons p ps)
  obtain r v where p: "p = (r, v)" by (cases p)
  have "sw_balanceOf st r + v < 2 ^ 256"
    using Cons.prems(2) [THEN spec, of r] by (simp add: p)
  then have one: "increaseBalance r v st = Inr (st\<lparr>sw_balanceOf := \<lambda>a. sw_balanceOf st a + (if a = r then v else 0)\<rparr>)"
    using Cons.prems(1) by (intro increaseBalance_ok) (auto simp: p)
  have "\<forall>a. sw_balanceOf st a + (if a = r then v else 0) + sum_list (map snd ps) < 2 ^ 256"
  proof
    fix a
    show "sw_balanceOf st a + (if a = r then v else 0) + sum_list (map snd ps) < 2 ^ 256"
      using Cons.prems(2) [THEN spec, of a] by (cases "a = r") (simp_all add: p)
  qed
  then show ?case
    using Cons.prems(1) one Cons.IH [of "st\<lparr>sw_balanceOf := \<lambda>a. sw_balanceOf st a + (if a = r then v else 0)\<rparr>"]
    by (auto simp: p add.assoc intro!: arg_cong2 [where f = sw_balanceOf_update])
qed simp

lemma checked_sum_ok: "acc + sum_list as < 2 ^ 256 \<Longrightarrow> checked_sum as acc = Inr (acc + sum_list as)"
  by (induction as arbitrary: acc) (auto simp: checked_add256_def)

subsection \<open>The vault of the token\<close>

lemma repay_ok:
  "repayOptimisticMintingDebt a v st =
     (v - sw_optimisticMintingDebt st a, st\<lparr>sw_optimisticMintingDebt :=
       (sw_optimisticMintingDebt st)(a := sw_optimisticMintingDebt st a - v)\<rparr>)"
proof (cases "sw_optimisticMintingDebt st a = 0")
  case True
  then have "(sw_optimisticMintingDebt st)(a := 0) = sw_optimisticMintingDebt st" by auto
  then show ?thesis using True by (simp add: repayOptimisticMintingDebt_def)
qed (simp add: repayOptimisticMintingDebt_def Let_def)

lemma mintEach_ok:
  assumes "\<forall>a v x. \<exists>x'. token_mint ext a v x = Inr x'"
  shows "10 ^ 10 * sum_list (map snd ps) < 2 ^ 256 \<Longrightarrow>
    \<exists>m d x. mintEach ext ps st = Inr (st\<lparr>sw_minted := sw_minted st @ m, sw_optimisticMintingDebt := d,
        sw_bridge := (sw_bridge st)\<lparr>st_contracts := x\<rparr>\<rparr>) \<and>
      (\<forall>a. paid_to m a = 10 ^ 10 * paid_to ps a - sw_optimisticMintingDebt st a) \<and>
      (\<forall>a. d a = sw_optimisticMintingDebt st a - 10 ^ 10 * paid_to ps a)"
proof (induction ps arbitrary: st)
  case Nil
  show ?case
    by (intro exI [of _ "[]"] exI [of _ "sw_optimisticMintingDebt st"] exI [of _ "st_contracts (sw_bridge st)"]) simp
next
  case (Cons p ps)
  obtain r v where p: "p = (r, v)" by (cases p)
  let ?D = "sw_optimisticMintingDebt st" and ?v = "v * 10 ^ 10"
  obtain y where y: "token_mint ext r (?v - ?D r) (st_contracts (sw_bridge st)) = Inr y" using assms by blast
  define st1 where "st1 = st\<lparr>sw_optimisticMintingDebt := ?D(r := ?D r - ?v), sw_minted := sw_minted st @ [(r, ?v - ?D r)],
    sw_bridge := (sw_bridge st)\<lparr>st_contracts := y\<rparr>\<rparr>"
  have c: "?v < 2 ^ 256" "10 ^ 10 * sum_list (map snd ps) < 2 ^ 256" using Cons.prems by (simp_all add: p)
  then have "mintEach ext (p # ps) st = mintEach ext ps st1"
    using y by (simp add: p checked_mul256_def SATOSHI_MULTIPLIER_def repay_ok vault_mint_def st1_def)
  moreover obtain m d x where rest: "mintEach ext ps st1 = Inr (st1\<lparr>sw_minted := sw_minted st1 @ m, sw_optimisticMintingDebt := d,
        sw_bridge := (sw_bridge st1)\<lparr>st_contracts := x\<rparr>\<rparr>)"
      "\<forall>a. paid_to m a = 10 ^ 10 * paid_to ps a - sw_optimisticMintingDebt st1 a"
      "\<forall>a. d a = sw_optimisticMintingDebt st1 a - 10 ^ 10 * paid_to ps a"
    using Cons.IH [OF c(2), of st1] by blast
  ultimately have "mintEach ext (p # ps) st = Inr (st\<lparr>sw_minted := sw_minted st @ ((r, ?v - ?D r) # m), sw_optimisticMintingDebt := d,
      sw_bridge := (sw_bridge st)\<lparr>st_contracts := x\<rparr>\<rparr>)"
    by (simp add: st1_def del: mintEach.simps)
  moreover have "paid_to ((r, ?v - ?D r) # m) a = 10 ^ 10 * paid_to (p # ps) a - ?D a" "d a = ?D a - 10 ^ 10 * paid_to (p # ps) a" for a
    using rest(2,3) by (auto simp: p st1_def algebra_simps)
  ultimately show ?case by blast
qed

subsection \<open>Both\<close>

lemma credited_ok:
  fixes st :: "'x sweep_state"
  assumes "creditable ext vault depositors st" "length amounts = length depositors" "depositors \<noteq> []"
    and "sum_list amounts + fees < 2 ^ 64"
  shows "\<exists>st2 st'. credit_balances ext vault depositors amounts st = Inr st2 \<and>
    (if 0 < fees then increaseBalance (sw_treasury st2) fees st2 else Inr st2) = Inr st' \<and>
    bank_credited vault (zip depositors amounts) fees st st' \<and>
    (\<exists>b d m x. st' = st\<lparr>sw_balanceOf := b, sw_optimisticMintingDebt := d, sw_minted := m,
       sw_bridge := (sw_bridge st)\<lparr>st_contracts := x\<rparr>\<rparr>)"
proof -
  let ?ps = "zip depositors amounts"
  have snd: "map snd ?ps = amounts" using assms(2) by simp
  have a: "usual_vault vault st" "sw_bank st \<noteq> sw_treasury st" "sw_bank st \<noteq> vault" "sw_bank st \<notin> set depositors"
    "\<forall>a. sw_balanceOf st a < 2 ^ 255" "\<forall>a v x. \<exists>x'. token_mint ext a v x = Inr x'"
    using assms(1) by (auto simp: creditable_def)
  have room: "sw_balanceOf st a + w < 2 ^ 256" if "w < 2 ^ 64" for a w
    using a(5) [THEN spec, of a] that by simp
  define paid where "paid = (\<lambda>a. if to_vault vault st then (if a = vault then sum_list amounts else 0) else paid_to ?ps a)"
  have paid: "paid a \<le> sum_list amounts" for a using paid_to_le [of ?ps a] by (simp add: paid_def snd)
  obtain m d x where c: "credit_balances ext vault depositors amounts st = Inr (st\<lparr>sw_balanceOf := \<lambda>a. sw_balanceOf st a + paid a,
        sw_minted := sw_minted st @ m, sw_optimisticMintingDebt := d, sw_bridge := (sw_bridge st)\<lparr>st_contracts := x\<rparr>\<rparr>)"
    and m: "\<forall>a. paid_to m a = (if to_vault vault st then 10 ^ 10 * paid_to ?ps a - sw_optimisticMintingDebt st a else 0)"
    and d: "\<forall>a. d a = (if to_vault vault st then sw_optimisticMintingDebt st a - 10 ^ 10 * paid_to ?ps a
          else sw_optimisticMintingDebt st a)"
  proof (cases "to_vault vault st")
    case True
    define st1 where "st1 = st\<lparr>sw_balanceOf := \<lambda>a. sw_balanceOf st a + (if a = vault then sum_list amounts else 0)\<rparr>"
    have tv: "vault = sw_tbtcVault st" using True a(1) by (auto simp: usual_vault_def to_vault_def)
    have "checked_sum amounts 0 = Inr (sum_list amounts)" using checked_sum_ok [of 0 amounts] assms(4) by simp
    moreover have "increaseBalance vault (sum_list amounts) st = Inr st1"
      unfolding st1_def by (rule increaseBalance_ok [OF a(3) [symmetric] room]) (use assms(4) in simp)
    ultimately have "credit_balances ext vault depositors amounts st = mintEach ext ?ps st1"
      using True assms(2,3) tv by (simp add: credit_balances_def to_vault_def increaseBalanceAndCall_def bind_require
          receiveBalanceIncrease_def TBTCVault_receiveBalanceIncrease_def st1_def)
    moreover have "10 ^ 10 * sum_list (map snd ?ps) < 2 ^ 256" using assms(4) by (simp add: snd)
    then obtain m d x where "mintEach ext ?ps st1 = Inr (st1\<lparr>sw_minted := sw_minted st1 @ m, sw_optimisticMintingDebt := d,
        sw_bridge := (sw_bridge st1)\<lparr>st_contracts := x\<rparr>\<rparr>)"
      "\<forall>a. paid_to m a = 10 ^ 10 * paid_to ?ps a - sw_optimisticMintingDebt st1 a"
      "\<forall>a. d a = sw_optimisticMintingDebt st1 a - 10 ^ 10 * paid_to ?ps a"
      using mintEach_ok [OF a(6), of ?ps st1] by blast
    ultimately show ?thesis
      using True by (intro that [where m = m and d = d and x = x]) (simp_all add: paid_def st1_def)
  next
    case False
    have f: "sw_bank st \<notin> fst ` set ?ps" using a(4) by (auto dest: set_zip_leftD)
    have "increaseEach ?ps st = Inr (st\<lparr>sw_balanceOf := \<lambda>a. sw_balanceOf st a + paid_to ?ps a\<rparr>)"
      by (rule increaseEach_ok [OF f]) (use room assms(4) in \<open>simp add: snd\<close>)
    then show ?thesis
      using False assms(2)
      by (intro that [where m = "[]" and d = "sw_optimisticMintingDebt st" and x = "st_contracts (sw_bridge st)"])
        (auto simp: credit_balances_def to_vault_def increaseBalances_def bind_require paid_def)
  qed
  define st2 where "st2 = st\<lparr>sw_balanceOf := \<lambda>a. sw_balanceOf st a + paid a, sw_minted := sw_minted st @ m,
    sw_optimisticMintingDebt := d, sw_bridge := (sw_bridge st)\<lparr>st_contracts := x\<rparr>\<rparr>"
  define st' where "st' = st\<lparr>sw_balanceOf := \<lambda>a. sw_balanceOf st a + paid a + (if a = sw_treasury st then fees else 0),
    sw_minted := sw_minted st @ m, sw_optimisticMintingDebt := d, sw_bridge := (sw_bridge st)\<lparr>st_contracts := x\<rparr>\<rparr>"
  have "sw_balanceOf st2 (sw_treasury st2) + fees < 2 ^ 256"
    using room [of "paid (sw_treasury st) + fees" "sw_treasury st"] paid [of "sw_treasury st"] assms(4)
    by (simp add: st2_def add.assoc)
  then have "increaseBalance (sw_treasury st2) fees st2 = Inr st'"
    using a(2) by (subst increaseBalance_ok) (simp_all add: st2_def st'_def)
  moreover have "(\<lambda>a. sw_balanceOf st a + paid a + (if a = sw_treasury st then fees else 0)) = (\<lambda>a. sw_balanceOf st a + paid a)"
    if "fees = 0" by (rule ext) (simp add: that)
  then have "st2 = st'" if "fees = 0" using that unfolding st2_def st'_def by metis
  ultimately have "(if 0 < fees then increaseBalance (sw_treasury st2) fees st2 else Inr st2) = Inr st'" by simp
  moreover have "bank_credited vault ?ps fees st st'"
    using m d by (simp add: bank_credited_def st'_def st2_def paid_def snd)
  moreover have "\<exists>b d m x. st' = st\<lparr>sw_balanceOf := b, sw_optimisticMintingDebt := d, sw_minted := m,
       sw_bridge := (sw_bridge st)\<lparr>st_contracts := x\<rparr>\<rparr>"
    by (intro exI [of _ "sw_balanceOf st'"] exI [of _ d] exI [of _ "sw_minted st @ m"] exI [of _ x]) (simp add: st'_def)
  ultimately show ?thesis using c unfolding st2_def [symmetric] by blast
qed

end
