(* ===== verification/ClientSweep.thy ===== *)
theory ClientSweep
  imports BankCredits WalletTx OnChain
begin

section \<open>A sweep from the library to the Bank\<close>

text \<open>
  The sweep transaction that the library makes, put on the contract: the vectors that the library
  writes are read by the contract's Bitcoin library, the inputs are the deposits the contract knows,
  and the fees are shared out.
\<close>

subsection \<open>What the Bitcoin library of the contract reads\<close>

definition input_bytes :: "js_tx_in \<Rightarrow> bytes" where
  "input_bytes i = in_hash i @ le_bytes 4 (nat (in_index i)) @ (byte_of (length (in_script i)) # in_script i) @
     le_bytes 4 (nat (in_sequence i))"

definition small_inputs :: "js_tx_in list \<Rightarrow> bool" where
  "small_inputs ins = (ins \<noteq> [] \<and> length ins < 253 \<and> (\<forall>i \<in> set ins. length (in_hash i) = 32 \<and> 0 \<le> in_index i \<and>
     in_index i < 2 ^ 32 \<and> length (in_script i) < 253 \<and> 0 \<le> in_sequence i \<and> in_sequence i < 2 ^ 32))"

definition input_vector :: "js_tx_in list \<Rightarrow> bytes" where
  "input_vector ins = byte_of (length ins) # concat (map input_bytes ins)"

definition input_start :: "js_tx_in list \<Rightarrow> nat \<Rightarrow> nat" where
  "input_start ins j = 1 + length (concat (map input_bytes (take j ins)))"

definition wallet_script :: "bool \<Rightarrow> bytes \<Rightarrow> bytes" where
  "wallet_script witness pkh = (if witness then [0x00, 0x14] @ pkh else [0x76, 0xa9, 0x14] @ pkh @ [0x88, 0xac])"

text \<open>A vector of inputs is their number and the inputs: the outpoint, the script after its length, the
  sequence. The hash of an output of a wallet is that of its key; a slice of 32 bytes begins with
  what there is.\<close>

definition reads_inputs :: "btc_utils \<Rightarrow> spv_lib \<Rightarrow> bool" where
  "reads_inputs u sp =
     ((\<forall>ins. small_inputs ins \<longrightarrow> validateVin sp (input_vector ins) \<and> parseVarInt sp (input_vector ins) = (0, length ins) \<and>
        (\<forall>j < length ins. extractInputTxIdLeAt sp (input_vector ins) (input_start ins j) = Inr (in_hash (ins ! j)) \<and>
           extractTxIndexLeAt sp (input_vector ins) (input_start ins j) = Inr (le_bytes 4 (nat (in_index (ins ! j)))) \<and>
           determineInputLengthAt sp (input_vector ins) (input_start ins j) = Inr (length (input_bytes (ins ! j))))) \<and>
      (\<forall>out. length (snd out) < 253 \<longrightarrow> validateVout sp (byte_of 1 # output_bytes out) \<and>
         parseVarInt sp (byte_of 1 # output_bytes out) = (0, 1)) \<and>
      (\<forall>v h w. length h = 20 \<longrightarrow> extractHash u (output_bytes (v, wallet_script w h)) = h) \<and>
      (\<forall>bs n i. i + n \<le> length bs \<longrightarrow> n \<le> 32 \<longrightarrow> take n (bytes_slice u 32 bs i) = take n (drop i bs)))"

lemma length_input_bytes: "length (in_hash i) = 32 \<Longrightarrow> length (input_bytes i) = 41 + length (in_script i)"
  by (simp add: input_bytes_def)

lemma input_start_Suc: "j < length ins \<Longrightarrow> input_start ins (Suc j) = input_start ins j + length (input_bytes (ins ! j))"
  by (simp add: input_start_def take_Suc_conv_app_nth)

lemma input_start_bound:
  assumes "small_inputs ins" "j \<le> length ins"
  shows "input_start ins j < 2 ^ 256"
proof -
  have "length (concat (map input_bytes (take j ins))) \<le> j * 294"
    using assms(2)
  proof (induction j)
    case (Suc j)
    then have m: "ins ! j \<in> set ins" by simp
    then have "length (input_bytes (ins ! j)) \<le> 294" using assms(1) by (auto simp: small_inputs_def length_input_bytes)
    then show ?case using Suc by (simp add: take_Suc_conv_app_nth)
  qed simp
  moreover have "j < 253" using assms by (simp add: small_inputs_def)
  ultimately have "input_start ins j < 1 + 253 * 294 + 1" by (simp add: input_start_def)
  then show ?thesis by simp
qed

lemma small_index:
  assumes "small_inputs ins" "i \<in> set ins"
  shows "nat (in_index i) mod 2 ^ 32 = nat (in_index i)"
proof -
  have "0 \<le> in_index i" "in_index i < 2 ^ 32" using assms by (auto simp: small_inputs_def)
  then have "nat (in_index i) < 2 ^ 32" by (simp add: nat_less_iff)
  then show ?thesis by simp
qed

text \<open>The contract finds the outpoints in their order.\<close>

definition sol_outpoint :: "byte list \<times> int \<Rightarrow> bytes \<times> nat" where
  "sol_outpoint o' = (fst o', nat (snd o'))"

lemma outpoints_found:
  assumes "reads u" "reads_inputs u sp" "small_inputs ins"
  shows "j \<le> length ins \<Longrightarrow> outpoints_at u sp (input_vector ins) j (input_start ins (length ins - j)) =
    Inr (map (sol_outpoint \<circ> outpoint) (drop (length ins - j) ins))"
proof (induction j)
  case (Suc j)
  let ?i = "length ins - Suc j"
  have i: "?i < length ins" "Suc ?i = length ins - j" using Suc.prems by auto
  then have m: "ins ! ?i \<in> set ins" by simp
  have "extractInputTxIdLeAt sp (input_vector ins) (input_start ins ?i) = Inr (in_hash (ins ! ?i))"
    "extractTxIndexLeAt sp (input_vector ins) (input_start ins ?i) = Inr (le_bytes 4 (nat (in_index (ins ! ?i))))"
    "determineInputLengthAt sp (input_vector ins) (input_start ins ?i) = Inr (length (input_bytes (ins ! ?i)))"
    using assms(2,3) i(1) unfolding reads_inputs_def by blast+
  moreover have "reverseUint32 u (be_nat (le_bytes 4 (nat (in_index (ins ! ?i))))) = nat (in_index (ins ! ?i))"
    using readsD(6) [OF assms(1), of "le_bytes 4 (nat (in_index (ins ! ?i)))"] small_index [OF assms(3) m]
    by (simp add: le_nat_le_bytes)
  ultimately have p: "parseDepositSweepTxInputAt u sp (input_vector ins) (input_start ins ?i) =
      Inr (in_hash (ins ! ?i), nat (in_index (ins ! ?i)), length (input_bytes (ins ! ?i)))"
    by (simp add: parseDepositSweepTxInputAt_def)
  have "checked_add256 (input_start ins ?i) (length (input_bytes (ins ! ?i))) = Inr (input_start ins (length ins - j))"
    using input_start_bound [OF assms(3), of "Suc ?i"] input_start_Suc [OF i(1)] i by (simp add: checked_add256_def)
  then show ?case
    using Suc p i by (simp add: Cons_nth_drop_Suc [symmetric] sol_outpoint_def outpoint_def)
qed simp

subsection \<open>Inputs that are accepted\<close>

text \<open>The deposits of some outpoints, marked as swept, and what the contract notes of them.\<close>

definition deposit_keys :: "evm \<Rightarrow> (bytes \<times> nat) list \<Rightarrow> bytes list" where
  "deposit_keys e os = map (\<lambda>outpoint. sol_deposit_key e (fst outpoint) (snd outpoint)) os"

definition mark_swept :: "evm \<Rightarrow> nat \<Rightarrow> (bytes \<times> nat) list \<Rightarrow> 'x sweep_state \<Rightarrow> 'x sweep_state" where
  "mark_swept e time os st = st\<lparr>sw_bridge := (sw_bridge st)\<lparr>st_deposits := (\<lambda>k.
     let d = st_deposits (sw_bridge st) k in if k \<in> set (deposit_keys e os) then d\<lparr>dep_sweptAt := time mod 2 ^ 32\<rparr> else d)\<rparr>\<rparr>"

definition note_deposits :: "sol_deposit list \<Rightarrow> sweep_inputs_info \<Rightarrow> sweep_inputs_info" where
  "note_deposits ds info = \<lparr>ii_inputsTotalValue = ii_inputsTotalValue info + sum_list (map dep_amount ds),
     ii_depositors = ii_depositors info @ map dep_depositor ds,
     ii_depositedAmounts = ii_depositedAmounts info @ map dep_amount ds,
     ii_treasuryFees = ii_treasuryFees info @ map dep_treasuryFee ds\<rparr>"

definition sweepable :: "bytes \<Rightarrow> sol_deposit \<Rightarrow> bool" where
  "sweepable vault d = (dep_revealedAt d \<noteq> 0 \<and> dep_sweptAt d = 0 \<and> dep_vault d = vault)"

lemma mark_swept_Cons:
  assumes "sol_deposit_key e (fst p) (snd p) \<notin> set (deposit_keys e os)"
  shows "mark_swept e time os (st\<lparr>sw_bridge := (sw_bridge st)\<lparr>st_deposits := (st_deposits (sw_bridge st))
     (sol_deposit_key e (fst p) (snd p) := (deposit_input e st p)\<lparr>dep_sweptAt := time mod 2 ^ 32\<rparr>)\<rparr>\<rparr>) = mark_swept e time (p # os) st"
proof -
  let ?k = "sol_deposit_key e (fst p) (snd p)" and ?D = "st_deposits (sw_bridge st)"
  have "(let d = (?D(?k := (?D ?k)\<lparr>dep_sweptAt := time mod 2 ^ 32\<rparr>)) k in
       if k \<in> set (deposit_keys e os) then d\<lparr>dep_sweptAt := time mod 2 ^ 32\<rparr> else d) =
     (let d = ?D k in if k \<in> set (deposit_keys e (p # os)) then d\<lparr>dep_sweptAt := time mod 2 ^ 32\<rparr> else d)" for k
    using assms by (simp add: Let_def deposit_keys_def)
  then show ?thesis by (simp add: mark_swept_def deposit_input_def)
qed

lemma deposits_accepted:
  "distinct (deposit_keys e os) \<Longrightarrow> \<forall>p \<in> set os. sweepable vault (deposit_input e st p) \<Longrightarrow>
   length (ii_depositors info) + length os \<le> capacity \<Longrightarrow>
   ii_inputsTotalValue info + sum_list (map (dep_amount \<circ> deposit_input e st) os) < 2 ^ 256 \<Longrightarrow>
   processOutpoints e time mainUtxo vault capacity os (found, info, st) =
     Inr (found, note_deposits (map (deposit_input e st) os) info, mark_swept e time os st)"
proof (induction os arbitrary: info st)
  case Nil
  then show ?case by (simp add: note_deposits_def mark_swept_def deposit_keys_def)
next
  case (Cons p os)
  let ?d = "deposit_input e st p" and ?k = "sol_deposit_key e (fst p) (snd p)"
  define st1 where "st1 = st\<lparr>sw_bridge := (sw_bridge st)\<lparr>st_deposits := (st_deposits (sw_bridge st))
     (?k := ?d\<lparr>dep_sweptAt := time mod 2 ^ 32\<rparr>)\<rparr>\<rparr>"
  define info1 where "info1 = note_deposits [?d] info"
  have nk: "?k \<notin> set (deposit_keys e os)" "distinct (deposit_keys e os)" using Cons.prems(1) by (simp_all add: deposit_keys_def)
  then have same: "deposit_input e st1 q = deposit_input e st q" if "q \<in> set os" for q
  proof -
    have "sol_deposit_key e (fst q) (snd q) \<in> set (deposit_keys e os)" using that by (simp add: deposit_keys_def)
    with nk(1) have "sol_deposit_key e (fst q) (snd q) \<noteq> ?k" by auto
    then show ?thesis by (simp add: st1_def deposit_input_def)
  qed
  then have map: "map (deposit_input e st1) os = map (deposit_input e st) os"
    "(\<Sum>a\<leftarrow>os. dep_amount (deposit_input e st1 a)) = (\<Sum>a\<leftarrow>os. dep_amount (deposit_input e st a))"
    by (simp_all cong: map_cong)
  have rev: "dep_revealedAt ?d \<noteq> 0" using Cons.prems(2) by (simp add: sweepable_def)
  have "processInput e time mainUtxo vault capacity p (found, info, st) = Inr (found, info1, st1)"
    unfolding processInput_deposit [OF refl rev] using Cons.prems by (simp add: sweepable_def info1_def note_deposits_def st1_def)
  moreover have "processOutpoints e time mainUtxo vault capacity os (found, info1, st1) =
      Inr (found, note_deposits (map (deposit_input e st1) os) info1, mark_swept e time os st1)"
    by (rule Cons.IH [OF nk(2)]) (use Cons.prems same map in \<open>simp_all add: info1_def note_deposits_def add.assoc\<close>)
  moreover have "mark_swept e time os st1 = mark_swept e time (p # os) st"
    unfolding st1_def by (rule mark_swept_Cons [OF nk(1)])
  ultimately show ?case by (simp add: map info1_def note_deposits_def add.assoc)
qed

subsection \<open>Fees\<close>

fun net_amounts :: "nat \<Rightarrow> nat \<Rightarrow> sol_deposit list \<Rightarrow> nat list" where
  "net_amounts share remainder [] = []"
| "net_amounts share remainder (d # ds) =
     (dep_amount d - dep_treasuryFee d - (if ds = [] then share + remainder else share)) # net_amounts share remainder ds"

lemma reduceAmounts_net:
  "\<forall>d \<in> set ds. dep_treasuryFee d + share + remainder \<le> dep_amount d \<Longrightarrow> fees + sum_list (map dep_treasuryFee ds) < 2 ^ 256 \<Longrightarrow>
   reduceAmounts share remainder (map dep_amount ds) (map dep_treasuryFee ds) fees =
     Inr (net_amounts share remainder ds, fees + sum_list (map dep_treasuryFee ds))"
proof (induction ds arbitrary: fees)
  case (Cons d ds)
  have "reduceAmounts share remainder (map dep_amount ds) (map dep_treasuryFee ds) (fees + dep_treasuryFee d) =
      Inr (net_amounts share remainder ds, (fees + dep_treasuryFee d) + sum_list (map dep_treasuryFee ds))"
    by (rule Cons.IH) (use Cons.prems in simp_all)
  moreover have "dep_treasuryFee d + share + remainder \<le> dep_amount d" using Cons.prems(1) by simp
  then have "share + remainder \<le> dep_amount d - dep_treasuryFee d" "share \<le> dep_amount d - dep_treasuryFee d"
    "dep_treasuryFee d \<le> dep_amount d" by linarith+
  ultimately show ?case using Cons.prems(2) by (simp add: checked_sub_def checked_add256_def)
qed simp

subsection \<open>The transaction of the library\<close>

text \<open>The sequences and versions that the buffer writer writes.\<close>

definition writes_inputs :: "bufio \<Rightarrow> bool" where
  "writes_inputs wr = ((\<forall>h. writeHash wr h = h) \<and> (\<forall>v. 0 \<le> v \<longrightarrow> v < 2 ^ 32 \<longrightarrow> writeU32 wr v = le_bytes 4 (nat v)))"

lemma input_vector_written:
  assumes "writes wr" "writes_inputs wr" "small_inputs (tx_ins t)"
  shows "hex_buf (getTxInputVector wr t) = input_vector (tx_ins t)"
proof -
  have "writeHash wr (in_hash i) @ writeU32 wr (in_index i) @ writeVarBytes wr (in_script i) @ writeU32 wr (in_sequence i) = input_bytes i"
    if "i \<in> set (tx_ins t)" for i
    using assms that by (simp add: writes_def writes_inputs_def small_inputs_def input_bytes_def)
  then have "map (\<lambda>i. writeHash wr (in_hash i) @ writeU32 wr (in_index i) @ writeVarBytes wr (in_script i) @ writeU32 wr (in_sequence i)) (tx_ins t) =
      map input_bytes (tx_ins t)" by simp
  moreover have "writeVarint wr (int (length (tx_ins t))) = [byte_of (length (tx_ins t))]"
    using assms(1,3) by (simp add: writes_def small_inputs_def)
  ultimately show ?thesis
    by (simp only: getTxInputVector_def input_vector_def Hex_from_buffer_def Hex.sel append_Cons append_Nil)
qed

lemma output_vector_written:
  assumes "writes wr" "tx_outs t = [\<lparr>out_value = v, out_script = s\<rparr>]" "0 \<le> v" "v < 2 ^ 63" "length s < 253"
  shows "hex_buf (getTxOutputVector wr t) = byte_of 1 # output_bytes (nat v, s)"
  using assms by (simp add: writes_def getTxOutputVector_def Hex_from_buffer_def output_bytes_def)

text \<open>The output of the sweep pays to the script of the wallet's address.\<close>

lemma sweep_output:
  assumes "txlib_ok L" "sweepTransaction c lib L w bn fee wif utxos ds mainUtxo = Inr t"
    and "createKeyPair L wif bn = Inr k" "publicKeyToAddress lib (Hex_from_buffer (kp_publicKey k)) bn w = Inr address"
    and "addressToOutputScript lib address bn = Inr (Hex s)"
  shows "map out_script (tx_outs t) = [s]"
proof -
  have len: "\<not> length utxos < 1" "\<not> length utxos \<noteq> length ds"
    using assms(2) by (auto simp: sweepTransaction_def split: if_splits)
  obtain t1 v1 t2 v2 n t3 t4 i where
      a1: "addUtxoInputs L (main_list mainUtxo) (tx_new L) 0 = Inr (t1, v1)"
    and a2: "addUtxoInputs L utxos t1 v1 = Inr (t2, v2)"
    and o3: "tx_addOutput L t2 (toBuffer (Hex s)) n = Inr t3"
    and m4: "(case mainUtxo of None \<Rightarrow> Inr t3
        | Some m \<Rightarrow> bind_res (previousOutput lib (raw_transactionHex m) (op_outputIndex m)) (\<lambda>prev.
            signMainUtxoInput lib L t3 0 prev k)) = Inr t4"
    and s5: "signDeposits c lib L k (zip utxos ds) i t4 = Inr t"
    using assms(2-5) len unfolding sweepTransaction_def main_list_def by (auto simp: res_simps Let_def)
  have "same_frame t3 t4" using m4 by (auto simp: res_simps dest: signMainUtxoInput_frame split: option.splits)
  then have "tx_outs t = tx_outs t3" using signDeposits_eq [OF s5] by (simp add: same_frame_def)
  moreover have "tx_outs t2 = []" using addUtxoInputs_eq [OF assms(1) a1] addUtxoInputs_eq [OF assms(1) a2] assms(1)
    by (simp add: txlib_ok_def)
  ultimately show ?thesis using addOutput_outs [OF assms(1) o3] by simp
qed

subsection \<open>The output on the contract\<close>

lemma or_zeros: "map2 (\<lambda>x y. x OR y) h (replicate (length h) 0) = (h :: bytes)" "map2 (\<lambda>x y. x OR y) (replicate (length h) 0) h = (h :: bytes)"
  by (induction h) simp_all

lemma makeScripts:
  assumes "length h = 20"
  shows "makeP2WPKHScript h = [0x16, 0x00, 0x14] @ h" "makeP2PKHScript h = [0x19, 0x76, 0xa9, 0x14] @ h @ [0x88, 0xac]"
proof -
  have h: "map2 (\<lambda>x y. x OR y) h (replicate 20 0) = h" using or_zeros(1) [of h] assms by simp
  show "makeP2WPKHScript h = [0x16, 0x00, 0x14] @ h"
    using h or_zeros(2) [of "[0x16, 0x00, 0x14]"] assms by (simp add: makeP2WPKHScript_def numeral_3_eq_3)
  show "makeP2PKHScript h = [0x19, 0x76, 0xa9, 0x14] @ h @ [0x88, 0xac]"
    using h or_zeros(2) [of "[0x19, 0x76, 0xa9, 0x14]"] or_zeros(2) [of "[0x88, 0xac]"] assms
    by (simp add: makeP2PKHScript_def eval_nat_numeral zip_append1)
qed

lemma wallet_output_read:
  assumes "reads u" "reads_inputs u sp" "length pkh = 20" "v < 2 ^ 64"
  shows "processDepositSweepTxOutput u sp (byte_of 1 # output_bytes (v, wallet_script w pkh)) = Inr (pkh, v)"
proof -
  let ?out = "output_bytes (v, wallet_script w pkh)"
  have len: "length (wallet_script w pkh) < 253" using assms(3) by (simp add: wallet_script_def)
  have "extractOutputAtIndex u (byte_of (length [(v, wallet_script w pkh)]) # concat (map output_bytes [(v, wallet_script w pkh)])) 0 =
      Inr (output_bytes ([(v, wallet_script w pkh)] ! 0))"
    by (rule readsD(1) [OF assms(1)]) (use len in simp_all)
  then have o: "extractOutputAtIndex u (byte_of 1 # ?out) 0 = Inr ?out" by simp
  have "parseVarInt sp (byte_of 1 # ?out) = (0, 1)"
    using assms(2) len unfolding reads_inputs_def by (metis snd_conv)
  moreover have h: "extractHash u ?out = pkh" using assms(2,3) unfolding reads_inputs_def by blast
  moreover have "extractValue u ?out = v" by (rule readsD(4) [OF assms(1,4)])
  moreover have "extractPubKeyHash u ?out = Inr pkh"
  proof -
    have pk: "bytes_slice u 20 pkh 0 = pkh" using readsD(5) [OF assms(1), of 0 20 pkh] assms(3) by simp
    have slice: "n \<le> 32 \<Longrightarrow> 8 + n \<le> length ?out \<Longrightarrow> take n (bytes_slice u 32 ?out 8) = take n (drop 8 ?out)" for n
      using assms(2) unfolding reads_inputs_def by blast
    have d: "drop 8 ?out = byte_of (length (wallet_script w pkh)) # wallet_script w pkh" by (simp add: output_bytes_def)
    have l: "length ?out = 9 + length (wallet_script w pkh)" by (simp add: output_bytes_length)
    show ?thesis
    proof (cases w)
      case True
      then have "length ?out = 31" "drop 8 ?out = [0x16, 0x00, 0x14] @ pkh"
        using l d assms(3) by (simp_all add: wallet_script_def byte_of_def)
      then show ?thesis using slice [of 23] assms(3) makeScripts(1) [OF assms(3)]
        by (simp add: extractPubKeyHash_def h pk bind_require checked_sub_def)
    next
      case False
      then have "length ?out = 34" "drop 8 ?out = [0x19, 0x76, 0xa9, 0x14] @ pkh @ [0x88, 0xac]"
        using l d assms(3) by (simp_all add: wallet_script_def byte_of_def)
      then show ?thesis using slice [of 26] assms(3) makeScripts(2) [OF assms(3)]
        by (simp add: extractPubKeyHash_def h pk bind_require checked_sub_def)
    qed
  qed
  ultimately show ?thesis by (simp add: processDepositSweepTxOutput_def bind_require o del: One_nat_def)
qed

subsection \<open>From the library to the Bank\<close>

text \<open>The main output that the contract knows, if there is one, is the one the library spends.\<close>

definition sol_utxo_of :: "('a) BitcoinUtxo_scheme \<Rightarrow> sol_utxo" where
  "sol_utxo_of m = \<lparr>sol_txHash = rev (hex_buf (op_transactionHash m)), sol_txOutputIndex = nat (op_outputIndex m),
     sol_txOutputValue = nat (utxo_value m)\<rparr>"

definition main_known :: "evm \<Rightarrow> bytes \<Rightarrow> UtxoWithRaw option \<Rightarrow> sol_utxo \<Rightarrow> 'x sweep_state \<Rightarrow> bool" where
  "main_known e pkh mainUtxo arg st =
     (let h = wal_mainUtxoHash (st_registeredWallets (sw_bridge st) pkh) in
      case mainUtxo of None \<Rightarrow> h = bytes32_0
      | Some m \<Rightarrow> h \<noteq> bytes32_0 \<and> arg = sol_utxo_of m \<and> h = sol_utxo_hash e arg \<and> sol_txHash arg \<noteq> bytes32_0 \<and>
          0 \<le> utxo_value m \<and> utxo_value m < 2 ^ 63 \<and>
          dep_revealedAt (st_deposits (sw_bridge st) (sol_deposit_key e (sol_txHash arg) (sol_txOutputIndex arg))) = 0)"

definition spend_main :: "evm \<Rightarrow> UtxoWithRaw option \<Rightarrow> 'x sweep_state \<Rightarrow> 'x sweep_state" where
  "spend_main e mainUtxo st = (case mainUtxo of None \<Rightarrow> st
     | Some m \<Rightarrow> st\<lparr>sw_spentMainUTXOs := (sw_spentMainUTXOs st)
         (sol_deposit_key e (sol_txHash (sol_utxo_of m)) (sol_txOutputIndex (sol_utxo_of m)) := True)\<rparr>)"

definition main_value :: "UtxoWithRaw option \<Rightarrow> nat" where
  "main_value mainUtxo = (case mainUtxo of None \<Rightarrow> 0 | Some m \<Rightarrow> nat (utxo_value m))"

lemma processInputs_eq:
  "outpoints_at u sp inputVector left start = Inr os \<Longrightarrow>
   processInputs e u sp time inputVector mainUtxo vault capacity left start acc = processOutpoints e time mainUtxo vault capacity os acc"
proof (induction left arbitrary: start os acc)
  case (Suc left)
  obtain h i n next' later where p: "parseDepositSweepTxInputAt u sp inputVector start = Inr (h, i, n)"
    "checked_add256 start n = Inr next'" "outpoints_at u sp inputVector left next' = Inr later" "os = (h, i) # later"
    using Suc.prems by (auto simp: bind_res_Inr)
  show ?case using p Suc.IH [OF p(3)] by (simp split: sum.splits)
qed simp

text \<open>The inputs: the main output first, if there is one, and then the deposits.\<close>

lemma sweep_inputs_accepted:
  assumes "main_known e pkh mainUtxo arg st" "main = (case mainUtxo of None \<Rightarrow> no_utxo | Some m \<Rightarrow> arg)"
    and "os = map (sol_outpoint \<circ> utxo_outpoint) (main_list mainUtxo) @ ps" "ds = map (deposit_input e st) ps"
    and "distinct (deposit_keys e ps)" "\<forall>d \<in> set ds. sweepable vault d" "capacity = length ps"
    and "main_value mainUtxo + sum_list (map dep_amount ds) < 2 ^ 256"
  shows "processOutpoints e time main vault capacity os (False, no_inputs, st) =
     Inr (mainUtxo \<noteq> None, note_deposits ds (no_inputs\<lparr>ii_inputsTotalValue := main_value mainUtxo\<rparr>),
       mark_swept e time ps (spend_main e mainUtxo st))"
proof (cases mainUtxo)
  case None
  have "processOutpoints e time main vault capacity ps (False, no_inputs, st) =
      Inr (False, note_deposits (map (deposit_input e st) ps) no_inputs, mark_swept e time ps st)"
    by (rule deposits_accepted) (use assms(4-8) in \<open>simp_all add: no_inputs_def None main_value_def comp_def\<close>)
  then show ?thesis using assms(3,4) by (simp add: None main_list_def spend_main_def main_value_def no_inputs_def)
next
  case (Some m)
  let ?p = "(sol_txHash arg, sol_txOutputIndex arg)" and ?info = "no_inputs\<lparr>ii_inputsTotalValue := main_value mainUtxo\<rparr>"
  have m: "arg = sol_utxo_of m" "sol_txHash arg \<noteq> bytes32_0" "dep_revealedAt (deposit_input e st ?p) = 0"
    using assms(1) unfolding main_known_def Some Let_def deposit_input_def by auto
  have p: "(sol_outpoint \<circ> utxo_outpoint) m = ?p" by (simp add: m(1) sol_utxo_of_def sol_outpoint_def utxo_outpoint_def)
  have "processInput e time main vault capacity ?p (False, no_inputs, st) = Inr (True, ?info, spend_main e mainUtxo st)"
    unfolding processInput_main [OF m(3)] using m assms(2,8)
    by (simp add: Some spend_main_def main_value_def no_inputs_def sol_utxo_of_def)
  moreover have "processOutpoints e time main vault capacity ps (True, ?info, spend_main e mainUtxo st) =
      Inr (True, note_deposits (map (deposit_input e (spend_main e mainUtxo st)) ps) ?info, mark_swept e time ps (spend_main e mainUtxo st))"
    by (rule deposits_accepted)
      (use assms(4-8) in \<open>simp_all add: no_inputs_def Some main_value_def spend_main_def deposit_input_def comp_def\<close>)
  moreover have "deposit_input e (spend_main e mainUtxo st) = deposit_input e st"
    by (rule ext) (simp add: spend_main_def Some deposit_input_def)
  ultimately show ?thesis using assms(3,4) p by (simp add: Some main_list_def)
qed

lemma distribution_share:
  assumes "0 < n" "f + v = tot"
  shows "depositSweepTxFeeDistribution tot v n = Inr (f div n, f mod n)"
proof -
  have "(f - f mod n) div n = f div n"
    by (metis div_mult_mod_eq diff_add_inverse2 nonzero_mult_div_cancel_right assms(1) less_numeral_extra(3))
  moreover have "tot - v = f" using assms(2) by simp
  ultimately show ?thesis using assms by (auto simp: depositSweepTxFeeDistribution_def checked_sub_def Let_def)
qed

lemma settle_shared:
  assumes "ds \<noteq> []" "f + v = m + sum_list (map dep_amount ds)" "share = f div length ds" "remainder = f mod length ds"
    and "share + remainder \<le> sw_depositTxMaxFee st" "\<forall>d \<in> set ds. dep_treasuryFee d + share + remainder \<le> dep_amount d"
    and "sum_list (map dep_treasuryFee ds) < 2 ^ 256"
  shows "settleSweep e ext txHash pkh v vault (note_deposits ds (no_inputs\<lparr>ii_inputsTotalValue := m\<rparr>)) st =
    bind_res (credit_balances ext vault (map dep_depositor ds) (net_amounts share remainder ds) (recorded_sweep e txHash pkh v st)) (\<lambda>st2.
      if 0 < sum_list (map dep_treasuryFee ds) then increaseBalance (sw_treasury st2) (sum_list (map dep_treasuryFee ds)) st2 else Inr st2)"
proof -
  have d: "depositSweepTxFeeDistribution (m + sum_list (map dep_amount ds)) v (length ds) = Inr (share, remainder)"
    using distribution_share [of "length ds" f v] assms(1-4) by simp
  have r: "reduceAmounts share remainder (map dep_amount ds) (map dep_treasuryFee ds) 0 =
      Inr (net_amounts share remainder ds, sum_list (map dep_treasuryFee ds))"
    using reduceAmounts_net [OF assms(6), of 0] assms(7) by simp
  show ?thesis
    using d r assms(5) by (simp add: settleSweep_def note_deposits_def no_inputs_def credit_balances_def recorded_sweep_def bind_require Let_def)
qed

lemma process_inputs_ok:
  assumes "parseVarInt sp vec = (0, n)" "(if sol_txHash main = bytes32_0 then Inr n else checked_sub n 1) = Inr capacity"
    and "processInputs e u sp time vec main vault capacity n 1 (False, no_inputs, st) = Inr (sol_txHash main \<noteq> bytes32_0, info, st')"
    and "ii_depositors info \<noteq> []" "filled capacity info = info"
  shows "processDepositSweepTxInputs e u sp time vec main vault st = Inr (info, st')"
  using assms
  by (cases "sol_txHash main = bytes32_0")
    (simp_all add: processDepositSweepTxInputs_def checked_add256_def bind_require del: One_nat_def)

text \<open>The parts of the contract's function before the settlement, for a transaction of the library.\<close>

lemma sweep_before_settlement:
  assumes "writes wr" "writes_inputs wr" "reads u" "reads_inputs u sp" "small_inputs (tx_ins t)"
    and "tx_outs t = [\<lparr>out_value = int v, out_script = wallet_script w pkh\<rparr>]" "v < 2 ^ 63" "length pkh = 20"
    and "map outpoint (tx_ins t) = map utxo_outpoint (main_list mainUtxo @ utxos)"
    and "sw_isSpvMaintainer st sender" "validateProof e sp ext (sol_tx_of wr t) prf st = Inr h"
    and "wal_state (st_registeredWallets (sw_bridge st) pkh) \<in> {Sol_Live, Sol_MovingFunds}" "main_known e pkh mainUtxo arg st"
    and "ps = map (sol_outpoint \<circ> utxo_outpoint) utxos" "ds = map (deposit_input e st) ps" "ds \<noteq> []"
    and "distinct (deposit_keys e ps)" "\<forall>d \<in> set ds. sweepable vault d" "main_value mainUtxo + sum_list (map dep_amount ds) < 2 ^ 256"
  shows "sol_submitDepositSweepProof e u sp ext sender time (sol_tx_of wr t) prf arg vault st =
    settleSweep e ext (sol_txid e (sol_tx_of wr t)) pkh v vault
      (note_deposits ds (no_inputs\<lparr>ii_inputsTotalValue := main_value mainUtxo\<rparr>)) (mark_swept e time ps (spend_main e mainUtxo st))"
proof -
  define main where "main = (case mainUtxo of None \<Rightarrow> no_utxo | Some m \<Rightarrow> arg)"
  define os where "os = map (sol_outpoint \<circ> utxo_outpoint) (main_list mainUtxo) @ ps"
  let ?n = "length (tx_ins t)" and ?vec = "input_vector (tx_ins t)"
  have len: "length (wallet_script w pkh) < 253" using assms(8) by (simp add: wallet_script_def)
  have iv: "sol_inputVector (sol_tx_of wr t) = ?vec"
    using input_vector_written [OF assms(1,2,5)] by (simp add: sol_tx_of_def)
  have ov: "sol_outputVector (sol_tx_of wr t) = byte_of 1 # output_bytes (v, wallet_script w pkh)"
    using output_vector_written [OF assms(1,6)] assms(7) len by (simp add: sol_tx_of_def)
  have out: "processDepositSweepTxOutput u sp (sol_outputVector (sol_tx_of wr t)) = Inr (pkh, v)"
    unfolding ov by (rule wallet_output_read [OF assms(3,4,8)]) (use assms(7) in simp)
  have wal: "resolveDepositSweepingWallet e pkh arg st = Inr main"
    using assms(12,13) by (auto simp: resolveDepositSweepingWallet_def main_known_def main_def bind_require Let_def split: option.splits)
  have expected: "sol_txHash main \<noteq> bytes32_0 \<longleftrightarrow> mainUtxo \<noteq> None"
    using assms(13) by (auto simp: main_known_def main_def no_utxo_def Let_def split: option.splits)
  have lens: "?n = length (main_list mainUtxo) + length utxos" using arg_cong [OF assms(9), of length] by simp
  have "map (sol_outpoint \<circ> outpoint) (tx_ins t) = os"
    using arg_cong [OF assms(9), of "map sol_outpoint"] by (simp add: os_def assms(14))
  then have "outpoints_at u sp ?vec ?n (input_start (tx_ins t) 0) = Inr os"
    using outpoints_found [OF assms(3,4,5), of ?n] by simp
  moreover have "input_start (tx_ins t) 0 = 1" by (simp add: input_start_def)
  ultimately have found: "outpoints_at u sp ?vec ?n 1 = Inr os" by simp
  have "processOutpoints e time main vault (length ps) os (False, no_inputs, st) =
     Inr (mainUtxo \<noteq> None, note_deposits ds (no_inputs\<lparr>ii_inputsTotalValue := main_value mainUtxo\<rparr>),
       mark_swept e time ps (spend_main e mainUtxo st))"
    by (rule sweep_inputs_accepted [OF assms(13) main_def os_def assms(15,17,18) refl assms(19)])
  then have loop: "processInputs e u sp time ?vec main vault (length ps) ?n 1 (False, no_inputs, st) =
     Inr (mainUtxo \<noteq> None, note_deposits ds (no_inputs\<lparr>ii_inputsTotalValue := main_value mainUtxo\<rparr>),
       mark_swept e time ps (spend_main e mainUtxo st))"
    unfolding processInputs_eq [OF found] .
  have cap: "(if sol_txHash main = bytes32_0 then Inr ?n else checked_sub ?n 1) = Inr (length ps)"
    using lens expected by (cases mainUtxo) (simp_all add: main_list_def checked_sub_def assms(14))
  have pv: "parseVarInt sp ?vec = (0, ?n)" using assms(4,5) unfolding reads_inputs_def by blast
  define info where "info = note_deposits ds (no_inputs\<lparr>ii_inputsTotalValue := main_value mainUtxo\<rparr>)"
  define st1 where "st1 = mark_swept e time ps (spend_main e mainUtxo st)"
  have deps: "ii_depositors info \<noteq> []" "filled (length ps) info = info"
    using assms(15,16) by (simp_all add: info_def filled_def note_deposits_def no_inputs_def)
  have "processInputs e u sp time ?vec main vault (length ps) ?n 1 (False, no_inputs, st) =
      Inr (sol_txHash main \<noteq> bytes32_0, info, st1)"
    using loop expected unfolding info_def st1_def by simp
  then have ins: "processDepositSweepTxInputs e u sp time (sol_inputVector (sol_tx_of wr t)) main vault st = Inr (info, st1)"
    using process_inputs_ok [OF pv cap] deps unfolding iv by blast
  have "h = sol_txid e (sol_tx_of wr t)" using validateProof_txid [OF assms(11)] .
  then show ?thesis using assms(10,11) out wal ins
    unfolding info_def [symmetric] st1_def [symmetric] by (simp add: sol_submitDepositSweepProof_def bind_require)
qed

lemma shares_covered:
  assumes "\<forall>d \<in> set ds. dep_treasuryFee d + share + remainder \<le> dep_amount d" "ds \<noteq> []"
  shows "share * length ds + remainder \<le> sum_list (map dep_amount ds) \<and> sum_list (map dep_treasuryFee ds) \<le> sum_list (map dep_amount ds)"
  using assms
proof (induction ds)
  case (Cons d ds)
  then show ?case by (cases "ds = []") auto
qed simp

lemma sum_of_amounts: "map (int \<circ> dep_amount) ds = map utxo_value us \<Longrightarrow> sum_utxos us = int (sum_list (map dep_amount ds))"
proof -
  assume "map (int \<circ> dep_amount) ds = map utxo_value us"
  then have "sum_utxos us = sum_list (map int (map dep_amount ds))" by (simp add: sum_utxos_def)
  also have "\<dots> = int (sum_list (map dep_amount ds))" by (induction ds) simp_all
  finally show ?thesis .
qed

lemma sweep_reaches_bank:
  assumes "writes wr" "writes_inputs wr" "reads u" "reads_inputs u sp" "small_inputs (tx_ins t)"
    and "tx_outs t = [\<lparr>out_value = int v, out_script = wallet_script w pkh\<rparr>]" "length pkh = 20"
    and "map outpoint (tx_ins t) = map utxo_outpoint (main_list mainUtxo @ utxos)"
    and "sw_isSpvMaintainer st sender" "validateProof e sp ext (sol_tx_of wr t) prf st = Inr h"
    and "wal_state (st_registeredWallets (sw_bridge st) pkh) \<in> {Sol_Live, Sol_MovingFunds}" "main_known e pkh mainUtxo arg st"
    and "ps = map (sol_outpoint \<circ> utxo_outpoint) utxos" "ds = map (deposit_input e st) ps" "ds \<noteq> []"
    and "distinct (deposit_keys e ps)" "\<forall>d \<in> set ds. sweepable vault d"
    and "f + v = main_value mainUtxo + sum_list (map dep_amount ds)" "share = f div length ds" "remainder = f mod length ds"
    and "share + remainder \<le> sw_depositTxMaxFee st" "\<forall>d \<in> set ds. dep_treasuryFee d + share + remainder \<le> dep_amount d"
    and "main_value mainUtxo + sum_list (map dep_amount ds) < 2 ^ 63"
  shows "sol_submitDepositSweepProof e u sp ext sender time (sol_tx_of wr t) prf arg vault st =
    bind_res (credit_balances ext vault (map dep_depositor ds) (net_amounts share remainder ds)
        (recorded_sweep e (sol_txid e (sol_tx_of wr t)) pkh v (mark_swept e time ps (spend_main e mainUtxo st)))) (\<lambda>st2.
      if 0 < sum_list (map dep_treasuryFee ds) then increaseBalance (sw_treasury st2) (sum_list (map dep_treasuryFee ds)) st2
      else Inr st2)"
proof -
  have limit: "share + remainder \<le> sw_depositTxMaxFee (mark_swept e time ps (spend_main e mainUtxo st))"
    using assms(21) by (simp add: mark_swept_def spend_main_def split: option.splits)
  have v: "v < 2 ^ 63" using assms(18,23) by linarith
  have "sol_submitDepositSweepProof e u sp ext sender time (sol_tx_of wr t) prf arg vault st =
    settleSweep e ext (sol_txid e (sol_tx_of wr t)) pkh v vault
      (note_deposits ds (no_inputs\<lparr>ii_inputsTotalValue := main_value mainUtxo\<rparr>)) (mark_swept e time ps (spend_main e mainUtxo st))"
    by (rule sweep_before_settlement [OF assms(1-6) v assms(7-17)]) (use assms(23) in simp)
  also have "\<dots> = bind_res (credit_balances ext vault (map dep_depositor ds) (net_amounts share remainder ds)
        (recorded_sweep e (sol_txid e (sol_tx_of wr t)) pkh v (mark_swept e time ps (spend_main e mainUtxo st)))) (\<lambda>st2.
      if 0 < sum_list (map dep_treasuryFee ds) then increaseBalance (sw_treasury st2) (sum_list (map dep_treasuryFee ds)) st2
      else Inr st2)"
    by (rule settle_shared [OF assms(15,18-20) limit assms(22)]) (use shares_covered [OF assms(22,15)] assms(23) in simp)
  finally show ?thesis .
qed

text \<open>The deposits of the contract, some of them marked as swept.\<close>

definition deposits_marked :: "evm \<Rightarrow> nat \<Rightarrow> (bytes \<times> nat) list \<Rightarrow> 'x sweep_state \<Rightarrow> 'x sweep_state \<Rightarrow> bool" where
  "deposits_marked e time ps st st' =
     (\<forall>k. st_deposits (sw_bridge st') k =
        (let d = st_deposits (sw_bridge st) k in if k \<in> set (deposit_keys e ps) then d\<lparr>dep_sweptAt := time mod 2 ^ 32\<rparr> else d))"

lemma length_net_amounts [simp]: "length (net_amounts share remainder ds) = length ds"
  by (induction ds) simp_all

lemma sum_net_amounts: "sum_list (net_amounts share remainder ds) + sum_list (map dep_treasuryFee ds) \<le>
    sum_list (map dep_amount ds)" if "\<forall>d \<in> set ds. dep_treasuryFee d \<le> dep_amount d"
  using that by (induction ds) (simp_all, linarith)

lemma credited_frame:
  assumes "creditable ext vault ads st"
  shows "creditable ext vault ads (recorded_sweep e h pkh v (mark_swept e time ps (spend_main e mainUtxo st)))"
    and "bank_credited vault shares fees (recorded_sweep e h pkh v (mark_swept e time ps (spend_main e mainUtxo st))) st' =
      bank_credited vault shares fees st st'"
  using assms
  by (simp_all add: creditable_def usual_vault_def bank_credited_def to_vault_def recorded_sweep_def mark_swept_def
      spend_main_def split: option.splits)

text \<open>C3: A sweep transaction of the library reaches the Bank. The library sweeps deposits, after the main
  output of the wallet if it has one; the address of the wallet's key pays to the wallet. If the
  deposits are revealed in the contract for the named vault with the values the library was given, none is swept or named twice, the
  contract knows the main output, the fee is not negative and its share is within the limit and
  what each deposit can pay, the proof is valid and the Bank can credit the accounts, then the contract
  accepts the transaction. It marks exactly the deposits of the sweep and the spent main output, records the output of the transaction as the
  new main output, and the balances grow by exactly these amounts: each depositor by the values of the
  deposits less their treasury fees and their shares of the fee, the last one also less the
  remainder, and the treasury by its fees; where the deposits go to the trusted vault of the
  token, the vault gets the sum, mints for each depositor what it is worth in units of the
  token less the optimistic debt, and lowers the debt by it.\<close>

theorem client_sweep_reaches_bank:
  assumes libs: "writes wr" "writes_inputs wr" "reads u" "reads_inputs u sp" "txlib_ok L"
    and made: "sweepTransaction c lib L w bn fee wif utxos receipts mainUtxo = Inr t" "createKeyPair L wif bn = Inr k"
      "publicKeyToAddress lib (Hex_from_buffer (kp_publicKey k)) bn w = Inr address"
      "addressToOutputScript lib address bn = Inr (Hex (wallet_script w pkh))" "length pkh = 20" "small_inputs (tx_ins t)"
    and proven: "sw_isSpvMaintainer st sender" "validateProof e sp ext (sol_tx_of wr t) prf st = Inr h"
    and wallet: "wal_state (st_registeredWallets (sw_bridge st) pkh) \<in> {Sol_Live, Sol_MovingFunds}" "main_known e pkh mainUtxo arg st"
    and deposits: "ps = map (sol_outpoint \<circ> utxo_outpoint) utxos" "ds = map (deposit_input e st) ps"
      "distinct (deposit_keys e ps)" "\<forall>d \<in> set ds. sweepable vault d" "map (int \<circ> dep_amount) ds = map utxo_value utxos"
    and fees: "0 \<le> fee" "share = nat fee div length ds" "remainder = nat fee mod length ds"
      "share + remainder \<le> sw_depositTxMaxFee st" "\<forall>d \<in> set ds. dep_treasuryFee d + share + remainder \<le> dep_amount d"
      "main_value mainUtxo + sum_list (map dep_amount ds) < 2 ^ 63"
    and bank: "creditable ext vault (map dep_depositor ds) st"
  shows "\<exists>st'. sol_submitDepositSweepProof e u sp ext sender time (sol_tx_of wr t) prf arg vault st = Inr st' \<and>
    bank_credited vault (zip (map dep_depositor ds) (net_amounts share remainder ds)) (sum_list (map dep_treasuryFee ds)) st st' \<and>
    deposits_marked e time ps st st' \<and> sw_spentMainUTXOs st' = sw_spentMainUTXOs (spend_main e mainUtxo st) \<and>
    st_registeredWallets (sw_bridge st') = (st_registeredWallets (sw_bridge st))(pkh := (st_registeredWallets (sw_bridge st) pkh)
      \<lparr>wal_mainUtxoHash := sol_utxo_hash e \<lparr>sol_txHash = sol_txid e (sol_tx_of wr t), sol_txOutputIndex = 0,
        sol_txOutputValue = main_value mainUtxo + sum_list (map dep_amount ds) - nat fee\<rparr>\<rparr>) \<and>
    sw_depositsSwept st' = sw_depositsSwept st @ [(pkh, sol_txid e (sol_tx_of wr t))]"
proof -
  define v where "v = main_value mainUtxo + sum_list (map dep_amount ds) - nat fee"
  define st1 where "st1 = recorded_sweep e (sol_txid e (sol_tx_of wr t)) pkh v (mark_swept e time ps (spend_main e mainUtxo st))"
  note parts = sweep_parts [OF libs(5) made(1)]
  have ne: "ds \<noteq> []" using parts deposits(1,2) by auto
  note covered = shares_covered [OF fees(5) ne]
  have "nat fee = share * length ds + remainder" by (simp add: fees(2,3))
  then have fee: "nat fee + v = main_value mainUtxo + sum_list (map dep_amount ds)" "v < 2 ^ 63"
    using covered fees(6) by (auto simp: v_def)
  have mv: "sum_utxos (main_list mainUtxo) = int (main_value mainUtxo)"
    using wallet(2) by (auto simp: main_list_def main_value_def main_known_def Let_def split: option.splits)
  have "map out_value (tx_outs t) = [int v]"
    using parts mv sum_of_amounts [OF deposits(5)] fee(1) fees(1) by simp
  then have out: "tx_outs t = [\<lparr>out_value = int v, out_script = wallet_script w pkh\<rparr>]"
    using sweep_output [OF libs(5) made(1-4)] by (cases "tx_outs t") (auto intro: js_tx_out.equality)
  have run: "sol_submitDepositSweepProof e u sp ext sender time (sol_tx_of wr t) prf arg vault st =
    bind_res (credit_balances ext vault (map dep_depositor ds) (net_amounts share remainder ds) st1) (\<lambda>st2.
      if 0 < sum_list (map dep_treasuryFee ds) then increaseBalance (sw_treasury st2) (sum_list (map dep_treasuryFee ds)) st2
      else Inr st2)"
    unfolding st1_def
    by (rule sweep_reaches_bank [OF libs(1-4) made(6) out made(5) _ proven wallet deposits(1,2) ne deposits(3,4) fee(1) fees(2-6)])
      (use parts in simp)
  have "\<forall>d \<in> set ds. dep_treasuryFee d \<le> dep_amount d" using fees(5) by auto
  from sum_net_amounts [OF this, of share remainder]
  have small: "sum_list (net_amounts share remainder ds) + sum_list (map dep_treasuryFee ds) < 2 ^ 64" using fees(6) by simp
  have room: "creditable ext vault (map dep_depositor ds) st1" unfolding st1_def by (rule credited_frame(1) [OF bank])
  obtain st2 st' where st': "credit_balances ext vault (map dep_depositor ds) (net_amounts share remainder ds) st1 = Inr st2"
      "(if 0 < sum_list (map dep_treasuryFee ds) then increaseBalance (sw_treasury st2) (sum_list (map dep_treasuryFee ds)) st2
        else Inr st2) = Inr st'"
      "bank_credited vault (zip (map dep_depositor ds) (net_amounts share remainder ds)) (sum_list (map dep_treasuryFee ds)) st1 st'"
    and frame: "\<exists>b d m x. st' = st1\<lparr>sw_balanceOf := b, sw_optimisticMintingDebt := d, sw_minted := m,
       sw_bridge := (sw_bridge st1)\<lparr>st_contracts := x\<rparr>\<rparr>"
    using credited_ok [OF room _ _ small] ne
    by (simp only: length_map length_net_amounts map_is_Nil_conv not_False_eq_True simp_thms) blast
  have "deposits_marked e time ps st st' \<and> sw_spentMainUTXOs st' = sw_spentMainUTXOs (spend_main e mainUtxo st) \<and>
    st_registeredWallets (sw_bridge st') = (st_registeredWallets (sw_bridge st))(pkh := (st_registeredWallets (sw_bridge st) pkh)
      \<lparr>wal_mainUtxoHash := sol_utxo_hash e \<lparr>sol_txHash = sol_txid e (sol_tx_of wr t), sol_txOutputIndex = 0, sol_txOutputValue = v\<rparr>\<rparr>) \<and>
    sw_depositsSwept st' = sw_depositsSwept st @ [(pkh, sol_txid e (sol_tx_of wr t))]"
    using frame by (auto simp: st1_def deposits_marked_def recorded_sweep_def mark_swept_def spend_main_def split: option.splits)
  moreover have "bank_credited vault (zip (map dep_depositor ds) (net_amounts share remainder ds)) (sum_list (map dep_treasuryFee ds)) st st'"
    using st'(3) unfolding st1_def credited_frame(2) [OF bank] .
  ultimately show ?thesis using run st'(1,2) unfolding v_def by auto
qed

end
