(* ===== verification/SweepSample.thy ===== *)
theory SweepSample
  imports ClientSweep
begin

section \<open>A concrete sweep\<close>

text \<open>
  A Bitcoin library for the contract that reads what the library writes, a wallet with two deposits,
  and the sweep of both; the properties of sweeps hold of it.
\<close>

subsection \<open>The library of the contract\<close>

definition sample_spv :: spv_lib where
  "sample_spv = \<lparr>validateVin = (\<lambda>v. 0 < length v), validateVout = (\<lambda>v. 0 < length v), parseVarInt = (\<lambda>v. (0, unat (hd v))),
     extractInputTxIdLeAt = (\<lambda>v i. Inr (take 32 (drop i v))), extractTxIndexLeAt = (\<lambda>v i. Inr (take 4 (drop (32 + i) v))),
     determineInputLengthAt = (\<lambda>v i. Inr (41 + unat (hd (drop (36 + i) v)))), extractMerkleRootLE = take 32,
     spv_prove = (\<lambda>tx root branch i. branch = []), extractTarget = length, calculateDifficulty = (\<lambda>t. 10),
     validateHeaderChain = (\<lambda>hs. 60), getErrBadLength = 1, getErrInvalidChain = 2, getErrLowWork = 3\<rparr>"

definition sweep_utils :: btc_utils where
  "sweep_utils = sample_utils\<lparr>extractHash := (\<lambda>bs. let s = drop 9 bs in
     if take 2 s = [0x00, 0x14] then drop 2 s
     else if take 3 s = [0x76, 0xa9, 0x14] then take 20 (drop 3 s) else extractHash sample_utils bs)\<rparr>"

lemma reads_sweep_utils: "reads sweep_utils"
proof -
  have "extractHash sweep_utils (output_bytes (v, [0x00, 0x20] @ h)) = extractHash sample_utils (output_bytes (v, [0x00, 0x20] @ h))"
    "extractHash sweep_utils (output_bytes (v, [0xa9, 0x14] @ h @ [0x87])) = extractHash sample_utils (output_bytes (v, [0xa9, 0x14] @ h @ [0x87]))"
    for v h
    by (simp_all add: sweep_utils_def output_bytes_def Let_def)
  moreover have "extractOutputAtIndex sweep_utils = extractOutputAtIndex sample_utils" "extractValue sweep_utils = extractValue sample_utils"
    "reverseUint32 sweep_utils = reverseUint32 sample_utils" "bytes_slice sweep_utils = bytes_slice sample_utils"
    by (simp_all add: sweep_utils_def)
  ultimately show ?thesis using reads_sample by (simp add: reads_def)
qed

lemma drop_input_vector:
  assumes "j < length ins"
  shows "drop (input_start ins j) (input_vector ins) = input_bytes (ins ! j) @ concat (map input_bytes (drop (Suc j) ins))"
proof -
  have "concat (map input_bytes ins) = concat (map input_bytes (take j ins)) @ concat (map input_bytes (drop j ins))"
    by (metis append_take_drop_id concat_append map_append)
  then have "drop (input_start ins j) (input_vector ins) = concat (map input_bytes (drop j ins))"
    by (simp add: input_start_def input_vector_def)
  then show ?thesis using assms by (simp add: Cons_nth_drop_Suc [symmetric])
qed

lemma reads_inputs_sample: "reads_inputs sweep_utils sample_spv"
proof -
  have ins: "extractInputTxIdLeAt sample_spv (input_vector ins) (input_start ins j) = Inr (in_hash (ins ! j))"
    "extractTxIndexLeAt sample_spv (input_vector ins) (input_start ins j) = Inr (le_bytes 4 (nat (in_index (ins ! j))))"
    "determineInputLengthAt sample_spv (input_vector ins) (input_start ins j) = Inr (length (input_bytes (ins ! j)))"
    if "small_inputs ins" "j < length ins" for ins j
  proof -
    have m: "length (in_hash (ins ! j)) = 32" "length (in_script (ins ! j)) < 253" using that by (auto simp: small_inputs_def)
    show "extractInputTxIdLeAt sample_spv (input_vector ins) (input_start ins j) = Inr (in_hash (ins ! j))"
      "extractTxIndexLeAt sample_spv (input_vector ins) (input_start ins j) = Inr (le_bytes 4 (nat (in_index (ins ! j))))"
      "determineInputLengthAt sample_spv (input_vector ins) (input_start ins j) = Inr (length (input_bytes (ins ! j)))"
      using m by (simp_all add: sample_spv_def drop_drop [symmetric] drop_input_vector [OF that(2)] input_bytes_def unat_byte_of del: drop_drop)
  qed
  have counts: "validateVin sample_spv (input_vector ins)" "parseVarInt sample_spv (input_vector ins) = (0, length ins)"
    if "small_inputs ins" for ins
    using that by (simp_all add: sample_spv_def input_vector_def small_inputs_def unat_byte_of)
  have outs: "validateVout sample_spv (byte_of 1 # output_bytes out)" "parseVarInt sample_spv (byte_of 1 # output_bytes out) = (0, 1)" for out
    by (simp_all add: sample_spv_def unat_byte_of del: One_nat_def)
  have hash: "extractHash sweep_utils (output_bytes (v, wallet_script w h)) = h" if "length h = 20" for v h w
    using that by (simp add: sweep_utils_def output_bytes_def wallet_script_def Let_def)
  have slice: "take n (bytes_slice sweep_utils 32 bs i) = take n (drop i bs)" if "n \<le> 32" for n bs i
    using that by (simp add: sweep_utils_def sample_utils_def min_def)
  show ?thesis unfolding reads_inputs_def using ins counts outs hash slice by simp
qed

subsection \<open>The transaction\<close>

definition sweep_key :: bytes where
  "sweep_key = 2 # replicate 32 1"

definition sweep_wallet :: bytes where
  "sweep_wallet = replicate 20 4"

definition sweep_lib :: btcjs where
  "sweep_lib = sample_funding_lib\<lparr>p2sh := (\<lambda>a. Inl (TypeError ''Output is invalid'')),
     address_toOutputScript := (\<lambda>a n. Inr (wallet_script True sweep_wallet))\<rparr>"

definition sweep_utxo :: "nat \<Rightarrow> UtxoWithRaw" where
  "sweep_utxo i = \<lparr>op_transactionHash = Hex (replicate 32 (byte_of i)), op_outputIndex = 0, utxo_value = 600, raw_transactionHex = ''00''\<rparr>"

definition sweep_receipt :: "Hex \<Rightarrow> DepositReceipt" where
  "sweep_receipt h = (ds_receipt sample_script)\<lparr>dr_walletPublicKeyHash := h\<rparr>"

lemma sweep_lib_simps:
  "previousOutput sweep_lib h 0 = Inr \<lparr>out_value = 600, out_script = [0, 20]\<rparr>"
  "isP2SHScript sweep_lib x = False" "isP2WSHScript sweep_lib x"
  "\<exists>a. publicKeyToAddress sweep_lib k Testnet b = Inr a"
  "addressToOutputScript sweep_lib s Testnet = Inr (Hex (wallet_script True sweep_wallet))"
  by (simp_all add: sweep_lib_def previousOutput_def sample_funding_lib_def sample_btcjs_def isP2WSHScript_def isP2SHScript_def
      publicKeyToAddress_def addressToOutputScript_def sample_payment_def Let_def Hex_from_buffer_def)

lemma sample_sweep_made:
  "\<exists>h t. sweepTransaction sample_crypto sweep_lib sample_tx_lib True Testnet 51 ''wif'' [sweep_utxo 1, sweep_utxo 2]
     [sweep_receipt h, sweep_receipt h] None = Inr t \<and> small_inputs (tx_ins t)"
proof -
  obtain b where h: "computeHash160 sample_crypto (Hex (2 # replicate 32 1)) = Inr (Hex b)" "length b = 20"
    using computeHash160_bytes[OF crypto_ok_sample, of "2 # replicate 32 1"] by blast
  obtain a where a: "publicKeyToAddress sweep_lib (Hex (2 # replicate 32 1)) Testnet True = Inr a"
    using sweep_lib_simps(4) by blast
  have "isCompressedPublicKey (Hex (2 # replicate 32 1))"
    by (simp add: isCompressedPublicKey_def byte_hex_def hex_digit_def hex_digits_def Let_def)
  then have "\<exists>t. sweepTransaction sample_crypto sweep_lib sample_tx_lib True Testnet 51 ''wif'' [sweep_utxo 1, sweep_utxo 2]
     [sweep_receipt (Hex b), sweep_receipt (Hex b)] None = Inr t \<and> small_inputs (tx_ins t)"
    using h a by (simp add: sweepTransaction_def createKeyPair_def sample_tx_lib_def
        sweep_utxo_def sweep_lib_simps bn_toNumber_def Let_def sample_script_def set_input_def sweep_receipt_def
        sweep_prepareDepositScript_def signP2WSHDepositInput_def DepositScript_fromReceipt_def validateDepositReceipt_def
        Hex_from_buffer_def signP2WSH_def signature_def small_inputs_def)
  then show ?thesis by blast
qed

subsection \<open>The contract\<close>

definition sweep_evm :: evm where
  "sweep_evm = sample_evm\<lparr>evm_keccak256 := take 33\<rparr>"

definition sweep_deposit :: sol_deposit where
  "sweep_deposit = \<lparr>dep_depositor = replicate 20 5, dep_amount = 600, dep_revealedAt = 1, dep_vault = address0,
     dep_treasuryFee = 10, dep_sweptAt = 0, dep_extraData = bytes32_0\<rparr>"

definition sweep_ext :: "unit sweep_contracts" where
  "sweep_ext = \<lparr>getCurrentEpochDifficulty = (\<lambda>x. Inr 10), getPrevEpochDifficulty = (\<lambda>x. Inr 9),
     token_mint = (\<lambda>a v x. Inr x), otherVault = (\<lambda>v as vs b x. Inr (b, x))\<rparr>"

definition sample_sweep_state :: "unit sweep_state" where
  "sample_sweep_state = \<lparr>sw_bridge = (sample_state bytes32_0)\<lparr>st_deposits := (\<lambda>k. sweep_deposit)\<rparr>,
     sw_isSpvMaintainer = (\<lambda>a. a = replicate 20 6), sw_spentMainUTXOs = (\<lambda>k. False), sw_depositTxMaxFee = 100,
     sw_txProofDifficultyFactor = 6, sw_treasury = replicate 20 7, sw_bank = replicate 20 8, sw_balanceOf = (\<lambda>a. 0),
     sw_tbtcVault = replicate 20 9, sw_donationVault = replicate 20 10, sw_optimisticMintingDebt = (\<lambda>a. 0), sw_minted = [],
     sw_depositsSwept = []\<rparr>"

definition sample_sweep_proof :: sol_proof where
  "sample_sweep_proof = \<lparr>sp_merkleProof = [], sp_txIndexInBlock = 0, sp_bitcoinHeaders = replicate 80 1,
     sp_coinbasePreimage = [1], sp_coinbaseProof = []\<rparr>"

lemma sample_proof_valid:
  assumes "sol_inputVector tx \<noteq> []" "sol_outputVector tx \<noteq> []"
  shows "validateProof sweep_evm sample_spv sweep_ext tx sample_sweep_proof sample_sweep_state = Inr (sol_txid sweep_evm tx)"
  using assms by (simp add: validateProof_def sample_sweep_proof_def sample_spv_def evaluateProofDifficulty_def sweep_ext_def
      checked_mul256_def sample_sweep_state_def bind_require Let_def)

lemma writes_inputs_sample: "writes_inputs sample_bufio"
  by (simp add: writes_inputs_def sample_bufio_def)

definition sample_points :: "(bytes \<times> nat) list" where
  "sample_points = map (sol_outpoint \<circ> utxo_outpoint) [sweep_utxo 1, sweep_utxo 2]"

lemma sample_points_keys: "distinct (deposit_keys sweep_evm sample_points)"
proof -
  have "hd (sol_deposit_key sweep_evm (replicate 32 x) 0) = x" for x
    by (simp add: sol_deposit_key_def sweep_evm_def hd_append)
  moreover have "byte_of 1 \<noteq> byte_of 2" by (simp add: byte_of_def)
  ultimately have "sol_deposit_key sweep_evm (replicate 32 (byte_of 1)) 0 \<noteq> sol_deposit_key sweep_evm (replicate 32 (byte_of 2)) 0" by metis
  then show ?thesis by (simp add: sample_points_def deposit_keys_def sol_outpoint_def utxo_outpoint_def sweep_utxo_def)
qed

lemma sample_deposits: "map (deposit_input sweep_evm sample_sweep_state) sample_points = [sweep_deposit, sweep_deposit]"
  by (simp add: sample_points_def deposit_input_def sample_sweep_state_def)

lemma sample_sweepable: "\<forall>d \<in> set [sweep_deposit, sweep_deposit]. sweepable address0 d"
  by (simp add: sweepable_def sweep_deposit_def)

lemma sample_net: "net_amounts 25 1 [sweep_deposit, sweep_deposit] = [565, 564]"
  by (simp add: sweep_deposit_def)

text \<open>What remains is to credit the balances.\<close>

definition sample_credited :: "bytes \<Rightarrow> unit sweep_state res" where
  "sample_credited h =
     bind_res (credit_balances sweep_ext address0 [replicate 20 5, replicate 20 5] [565, 564]
        (recorded_sweep sweep_evm h sweep_wallet 1149 (mark_swept sweep_evm 1000 sample_points sample_sweep_state))) (\<lambda>st2.
      if 0 < (20 :: nat) then increaseBalance (sw_treasury st2) 20 st2 else Inr st2)"

lemma sample_credited_ok:
  "\<exists>st'. sample_credited h = Inr st' \<and> sw_balanceOf st' (replicate 20 5) = 1129 \<and> sw_balanceOf st' (replicate 20 7) = 20"
  by (simp add: sample_credited_def credit_balances_def increaseBalances_def increaseBalance_def checked_add256_def bind_require
      recorded_sweep_def mark_swept_def sample_sweep_state_def)

subsection \<open>The properties on it\<close>

lemma writes_sweep: "writes sample_bufio"
  by (simp add: writes_def sample_bufio_def)

lemma sample_key_pair: "createKeyPair sample_tx_lib ''wif'' Testnet = Inr \<lparr>kp_publicKey = 2 # replicate 32 1, kp_sign = id\<rparr>"
  by (simp add: createKeyPair_def sample_tx_lib_def)

lemma sample_vectors:
  assumes "small_inputs (tx_ins t)"
  shows "validateProof sweep_evm sample_spv sweep_ext (sol_tx_of sample_bufio t) sample_sweep_proof sample_sweep_state =
    Inr (sol_txid sweep_evm (sol_tx_of sample_bufio t))"
  by (rule sample_proof_valid)
    (simp_all add: sol_tx_of_def getTxInputVector_def getTxOutputVector_def Hex_from_buffer_def sample_bufio_def)

lemma sweep_wallet_facts:
  "wal_state (st_registeredWallets (sw_bridge sample_sweep_state) sweep_wallet) \<in> {Sol_Live, Sol_MovingFunds}"
  "main_known sweep_evm sweep_wallet None arg sample_sweep_state" "sw_isSpvMaintainer sample_sweep_state (replicate 20 6)"
  "length sweep_wallet = 20" "25 + 1 \<le> sw_depositTxMaxFee sample_sweep_state"
  by (simp_all add: sample_sweep_state_def sample_state_def main_known_def sweep_wallet_def)

lemma sample_amounts: "\<forall>d \<in> set [sweep_deposit, sweep_deposit]. dep_treasuryFee d + 25 + 1 \<le> dep_amount d"
  "map (int \<circ> dep_amount) [sweep_deposit, sweep_deposit] = map utxo_value [sweep_utxo 1, sweep_utxo 2]"
  "main_value None + sum_list (map dep_amount [sweep_deposit, sweep_deposit]) = 1200"
  "sum_list (map dep_treasuryFee [sweep_deposit, sweep_deposit]) = 20"
  "map dep_depositor [sweep_deposit, sweep_deposit] = [replicate 20 5, replicate 20 5]"
  by (simp_all add: sweep_deposit_def sweep_utxo_def main_value_def)

lemma sample_spend: "spend_main e None st = st"
  by (simp add: spend_main_def)

text \<open>The sweep on the contract, from the general lemma.\<close>

lemma sample_sweep_accepted:
  "\<exists>t st'. sol_submitDepositSweepProof sweep_evm sweep_utils sample_spv sweep_ext (replicate 20 6) 1000 (sol_tx_of sample_bufio t)
     sample_sweep_proof no_utxo address0 sample_sweep_state = Inr st'"
proof -
  obtain h t where t: "sweepTransaction sample_crypto sweep_lib sample_tx_lib True Testnet 51 ''wif'' [sweep_utxo 1, sweep_utxo 2]
     [sweep_receipt h, sweep_receipt h] None = Inr t" "small_inputs (tx_ins t)"
    using sample_sweep_made by blast
  obtain a where a: "publicKeyToAddress sweep_lib (Hex_from_buffer (2 # replicate 32 1)) Testnet True = Inr a"
    using sweep_lib_simps(4) by blast
  have s: "map out_script (tx_outs t) = [wallet_script True sweep_wallet]"
    by (rule sweep_output [OF txlib_ok_sample t(1) sample_key_pair]) (use a sweep_lib_simps(5) in simp_all)
  note parts = sweep_parts [OF txlib_ok_sample t(1)]
  have "map out_value (tx_outs t) = [int 1149]" using parts by (simp add: main_list_def sweep_utxo_def)
  then have o: "tx_outs t = [\<lparr>out_value = int 1149, out_script = wallet_script True sweep_wallet\<rparr>]"
    using s by (cases "tx_outs t") (auto intro: js_tx_out.equality)
  have p: "map outpoint (tx_ins t) = map utxo_outpoint (main_list None @ [sweep_utxo 1, sweep_utxo 2])" using parts by simp
  let ?ds = "[sweep_deposit, sweep_deposit]"
  have "sol_submitDepositSweepProof sweep_evm sweep_utils sample_spv sweep_ext (replicate 20 6) 1000 (sol_tx_of sample_bufio t)
      sample_sweep_proof no_utxo address0 sample_sweep_state =
    bind_res (credit_balances sweep_ext address0 (map dep_depositor ?ds) (net_amounts 25 1 ?ds)
        (recorded_sweep sweep_evm (sol_txid sweep_evm (sol_tx_of sample_bufio t)) sweep_wallet 1149
          (mark_swept sweep_evm 1000 sample_points (spend_main sweep_evm None sample_sweep_state)))) (\<lambda>st2.
      if 0 < sum_list (map dep_treasuryFee ?ds) then increaseBalance (sw_treasury st2) (sum_list (map dep_treasuryFee ?ds)) st2
      else Inr st2)"
    by (rule sweep_reaches_bank [OF writes_sweep writes_inputs_sample reads_sweep_utils reads_inputs_sample t(2) o sweep_wallet_facts(4) p
        sweep_wallet_facts(3) sample_vectors [OF t(2)] sweep_wallet_facts(1,2) sample_points_def sample_deposits [symmetric] _ sample_points_keys
        sample_sweepable, where f = 51])
      (simp_all only: sample_amounts(3) sweep_wallet_facts(5) sample_amounts(1), simp_all add: sweep_deposit_def flip: numeral_2_eq_2)
  then have "sol_submitDepositSweepProof sweep_evm sweep_utils sample_spv sweep_ext (replicate 20 6) 1000 (sol_tx_of sample_bufio t)
     sample_sweep_proof no_utxo address0 sample_sweep_state = sample_credited (sol_txid sweep_evm (sol_tx_of sample_bufio t))"
    unfolding sample_credited_def sample_net sample_spend sample_amounts(4,5) .
  then show ?thesis using sample_credited_ok by metis
qed

theorem sweep_keeps_backing_witness:
  "\<exists>t st' v (main :: sol_utxo). sol_submitDepositSweepProof sweep_evm sweep_utils sample_spv sweep_ext (replicate 20 6) 1000 (sol_tx_of sample_bufio t)
     sample_sweep_proof no_utxo address0 sample_sweep_state = Inr st' \<and>
     balances {replicate 20 5, replicate 20 7, replicate 20 9} st' + (if sol_txHash main = bytes32_0 then 0 else sol_txOutputValue main) =
       balances {replicate 20 5, replicate 20 7, replicate 20 9} sample_sweep_state + v"
proof -
  obtain t st' where r: "sol_submitDepositSweepProof sweep_evm sweep_utils sample_spv sweep_ext (replicate 20 6) 1000 (sol_tx_of sample_bufio t)
     sample_sweep_proof no_utxo address0 sample_sweep_state = Inr st'" using sample_sweep_accepted by blast
  have "usual_vault address0 sample_sweep_state" "sw_tbtcVault sample_sweep_state = replicate 20 9" "sw_treasury sample_sweep_state = replicate 20 7"
    "\<And>k. dep_depositor (st_deposits (sw_bridge sample_sweep_state) k) = replicate 20 5"
    by (simp_all add: usual_vault_def sample_sweep_state_def sweep_deposit_def)
  then have "\<exists>pkh v main. resolveDepositSweepingWallet sweep_evm pkh no_utxo sample_sweep_state = Inr main \<and>
     balances {replicate 20 5, replicate 20 7, replicate 20 9} st' + (if sol_txHash main = bytes32_0 then 0 else sol_txOutputValue main) =
       balances {replicate 20 5, replicate 20 7, replicate 20 9} sample_sweep_state + v"
    using sweep_keeps_backing [OF r, of "{replicate 20 5, replicate 20 7, replicate 20 9}"]
    by (simp split del: if_split) (elim exE conjE, intro exI conjI, assumption+)
  then show ?thesis using r by blast
qed

theorem deposits_are_swept_once_witness:
  "\<exists>t st' os. sol_submitDepositSweepProof sweep_evm sweep_utils sample_spv sweep_ext (replicate 20 6) 1000 (sol_tx_of sample_bufio t)
     sample_sweep_proof no_utxo address0 sample_sweep_state = Inr st' \<and> swept_outpoints sweep_utils sample_spv (sol_tx_of sample_bufio t) = Inr os \<and>
     (\<exists>outpoint \<in> set os. dep_sweptAt (deposit_input sweep_evm st' outpoint) = 1000)"
proof -
  obtain t st' where r: "sol_submitDepositSweepProof sweep_evm sweep_utils sample_spv sweep_ext (replicate 20 6) 1000 (sol_tx_of sample_bufio t)
     sample_sweep_proof no_utxo address0 sample_sweep_state = Inr st'" using sample_sweep_accepted by blast
  have "(1000 :: nat) mod 2 ^ 32 \<noteq> 0" "(1000 :: nat) mod 2 ^ 32 = 1000" by simp_all
  with deposits_are_swept_once [OF r] r show ?thesis by fastforce
qed

lemma sample_creditable: "creditable sweep_ext address0 [replicate 20 5, replicate 20 5] sample_sweep_state"
  by (simp add: creditable_def usual_vault_def sample_sweep_state_def sweep_ext_def address0_def)

theorem client_sweep_reaches_bank_witness:
  "\<exists>h t st'. sweepTransaction sample_crypto sweep_lib sample_tx_lib True Testnet 51 ''wif'' [sweep_utxo 1, sweep_utxo 2]
     [sweep_receipt h, sweep_receipt h] None = Inr t \<and>
   sol_submitDepositSweepProof sweep_evm sweep_utils sample_spv sweep_ext (replicate 20 6) 1000 (sol_tx_of sample_bufio t)
     sample_sweep_proof no_utxo address0 sample_sweep_state = Inr st' \<and>
   sw_balanceOf st' (replicate 20 5) = 1129 \<and> sw_balanceOf st' (replicate 20 7) = 20 \<and> sw_balanceOf st' (replicate 20 9) = 0"
proof -
  let ?ds = "[sweep_deposit, sweep_deposit]"
  obtain h t where t: "sweepTransaction sample_crypto sweep_lib sample_tx_lib True Testnet 51 ''wif'' [sweep_utxo 1, sweep_utxo 2]
     [sweep_receipt h, sweep_receipt h] None = Inr t" "small_inputs (tx_ins t)"
    using sample_sweep_made by blast
  obtain a where a: "publicKeyToAddress sweep_lib (Hex_from_buffer (2 # replicate 32 1)) Testnet True = Inr a"
    using sweep_lib_simps(4) by blast
  have "\<exists>st'. sol_submitDepositSweepProof sweep_evm sweep_utils sample_spv sweep_ext (replicate 20 6) 1000 (sol_tx_of sample_bufio t)
      sample_sweep_proof no_utxo address0 sample_sweep_state = Inr st' \<and>
    bank_credited address0 (zip (map dep_depositor ?ds) (net_amounts 25 1 ?ds)) (sum_list (map dep_treasuryFee ?ds)) sample_sweep_state st' \<and>
    deposits_marked sweep_evm 1000 sample_points sample_sweep_state st' \<and>
    sw_spentMainUTXOs st' = sw_spentMainUTXOs (spend_main sweep_evm None sample_sweep_state) \<and>
    st_registeredWallets (sw_bridge st') = (st_registeredWallets (sw_bridge sample_sweep_state))(sweep_wallet :=
      (st_registeredWallets (sw_bridge sample_sweep_state) sweep_wallet)\<lparr>wal_mainUtxoHash := sol_utxo_hash sweep_evm
        \<lparr>sol_txHash = sol_txid sweep_evm (sol_tx_of sample_bufio t), sol_txOutputIndex = 0,
         sol_txOutputValue = main_value None + sum_list (map dep_amount ?ds) - nat 51\<rparr>\<rparr>) \<and>
    sw_depositsSwept st' = sw_depositsSwept sample_sweep_state @ [(sweep_wallet, sol_txid sweep_evm (sol_tx_of sample_bufio t))]"
    by (rule client_sweep_reaches_bank [OF writes_sweep writes_inputs_sample reads_sweep_utils reads_inputs_sample txlib_ok_sample
        t(1) sample_key_pair _ sweep_lib_simps(5) sweep_wallet_facts(4) t(2) sweep_wallet_facts(3) sample_vectors [OF t(2)] sweep_wallet_facts(1,2)
        sample_points_def sample_deposits [symmetric] sample_points_keys sample_sweepable sample_amounts(2)])
      (use a in \<open>simp_all only: sample_amounts(3,5) sweep_wallet_facts(5) sample_amounts(1) sample_creditable\<close>,
        simp_all add: sweep_deposit_def flip: numeral_2_eq_2)
  then obtain st' where st': "sol_submitDepositSweepProof sweep_evm sweep_utils sample_spv sweep_ext (replicate 20 6) 1000
      (sol_tx_of sample_bufio t) sample_sweep_proof no_utxo address0 sample_sweep_state = Inr st'"
    "bank_credited address0 (zip (map dep_depositor ?ds) (net_amounts 25 1 ?ds)) (sum_list (map dep_treasuryFee ?ds)) sample_sweep_state st'"
    by blast
  have "\<not> to_vault address0 sample_sweep_state" by (simp add: to_vault_def)
  then have "sw_balanceOf st' (replicate 20 5) = 1129 \<and> sw_balanceOf st' (replicate 20 7) = 20 \<and> sw_balanceOf st' (replicate 20 9) = 0"
    using st'(2) by (simp add: bank_credited_def sweep_deposit_def sample_sweep_state_def)
  then show ?thesis using t(1) st'(1) by blast
qed

end
