(* ===== verification/Spec2Isabelle.thy ===== *)
theory Spec2Isabelle
  imports RedemptionRequests Backoff MonitorAlerts ElectrumClaims EthereumContracts RelayerClaims TbtcCore SolanaToken
    EndToEnd BridgeLedger NttClaims UpgradeClaims SweepSample
begin

text \<open>
  The client library of tBTC v2 (typescript/src), the monitoring service (monitoring/src), the
  functions of the Bridge contract that the library calls for its users (solidity/contracts/bridge),
  the depositor contract of the Wormhole bridge with the script that configures it
  (solidity/contracts/cross-chain, solidity/scripts), and the scripts that prepare upgrade TIP-109
  of the Bridge with the contract functions it calls (solidity/deploy).

  The program. Bitcoin is deposited by a payment to a script that names a wallet and a depositor,
  and minted as a token on Ethereum; a redemption burns the token and the wallet pays bitcoin. The
  library computes deposit scripts and addresses, finds the funding output, reveals it to the Bridge
  contract, proves wallet transactions to the contract with block headers and Merkle paths, and
  requests redemptions from a wallet that can pay. It talks to Bitcoin through a client interface,
  which the Electrum client implements, and to Ethereum through interfaces that the contract handles
  implement; deposits for other chains go through a depositor of that chain. The monitoring service
  reads the events of the contracts window by window and delivers alerts.

  How code is modelled. A class is a record of its fields, an interface a record of its operations,
  an operation a function of the same name. \<open>Prelude\<close> has the results: a synchronous function that
  may throw returns \<open>'a res\<close>, an error or a value; an asynchronous one is an \<open>('w, 'a) io\<close>, a
  function from a world to a result and a world, with \<open>bind_io\<close> for \<open>await\<close>, \<open>catch_io\<close> and
  \<open>finally_io\<close> for \<open>try\<close>. The world is a type variable: nothing is assumed of it but what a theorem
  states. \<open>JsText\<close> models the string, number and buffer operations of JavaScript, \<open>BigNumbers\<close> those
  of ethers numbers.

  Theories and sources. Paths without a first directory are under typescript/src.

  \<^item> \<open>Codec\<close>: the contract of an encoder and its decoder, a locale that the codecs below interpret.
    \<open>HexValue\<close>: lib/utils/hex.ts. \<open>Backoff\<close>: lib/utils/backoff.ts and bitcoin.ts. \<open>Ntt\<close>:
    lib/utils/ntt.ts, wormhole.ts.
  \<^item> \<open>BitcoinLib\<close> holds the third-party libraries as parameters with their documented laws;
    \<open>BitcoinPrimitives\<close>: lib/bitcoin/csuint.ts, hash.ts, ecdsa-key.ts, network.ts, script.ts,
    address.ts, tx.ts. \<open>Header\<close>: lib/bitcoin/header.ts. \<open>Spv\<close>: lib/bitcoin/spv.ts and client.ts.
  \<^item> \<open>ChainAddresses\<close>: the addresses and extra data encoders of the chains, with the locale
    \<open>deposit_owner_encoder\<close>. \<open>Bridge\<close>: the data and interfaces of lib/contracts.
  \<^item> \<open>Deposits\<close>: services/deposits/deposits-service.ts, deposit.ts, cross-chain.ts. \<open>TxBuild\<close>,
    \<open>DepositTx\<close>: funding.ts and refund.ts. \<open>WalletTx\<close>: services/maintenance/wallet-tx.ts.
  \<^item> \<open>Redemptions\<close>: services/redemptions. \<open>WalletSearch\<close> states what the concurrent search for a
    wallet must return and proves it; \<open>RedemptionRequests\<close> what requests are made with.
  \<^item> \<open>Electrum\<close>, \<open>ElectrumClaims\<close>: lib/electrum/client.ts.
  \<^item> \<open>EthersAdapter\<close>, \<open>EthereumHandles\<close>, \<open>EthereumBridge\<close>, \<open>EthereumContracts\<close>:
    lib/ethereum/adapter.ts, wallet-registry.ts, bridge.ts, tbtc-vault.ts, tbtc-token.ts,
    depositor-proxy.ts. \<open>CrossChainHandles\<close>: the depositors, redeemers and tokens of Ethereum, Base
    and Arbitrum and their loaders.
  \<^item> \<open>RelayerDepositors\<close>, \<open>RelayerClaims\<close>: the depositors of StarkNet, Sei and Solana. \<open>EntryPoints\<close>:
    lib/sui, the StarkNet token and loader, the other services of services/maintenance, the
    preparation of destination chains in services/tbtc.ts. \<open>TbtcCore\<close>: services/tbtc-core.ts and the
    rest of tbtc.ts, the construction of the services and their wiring. \<open>SolanaToken\<close>: the token and
    loader of lib/solana.
  \<^item> \<open>SystemEvents\<close>: monitoring/src/system-event.ts, file-persistence.ts and the receivers.
    \<open>ChainMonitors\<close>, \<open>MintingMonitor\<close>, \<open>MonitorService\<close>: the monitors and index.ts there.
    \<open>EventDelivery\<close>, \<open>MonitorRuns\<close>, \<open>MonitorClaims\<close>, \<open>Notices\<close>, \<open>MonitorAlerts\<close>: what a run, a
    history of runs and the alerts guarantee, down to the notices that are sent.
  \<^item> \<open>BridgeContract\<close>: Deposit.sol and Redemption.sol there, the reveals and the requests;
    \<open>BridgeLedger\<close> what any sequence of them keeps. \<open>OnChain\<close> puts the Ethereum handle on the
    contract: arguments are decoded as the ABI does, mappings read back; \<open>OnChainClaims\<close> follows a
    reveal and a redemption from the handle to the contract and back, \<open>EndToEnd\<close> a deposit from the
    service over Bitcoin to the contract. \<open>Journal\<close>: the locale of a store that a log of events
    describes, which both mappings of the contract interpret. \<open>BridgeSample\<close>, \<open>OnChainSample\<close>:
    instances.
  \<^item> \<open>SweepContract\<close>: DepositSweep.sol, the validation of proofs in BitcoinTx.sol, the increases of
    balances in Bank.sol and the vaults (TBTCVault.sol, TBTCOptimisticMinting.sol,
    DonationVault.sol). \<open>SweepClaims\<close>: what a sweep keeps; \<open>BankCredits\<close>: when the Bank can credit
    accounts, and that it then does; \<open>ClientSweep\<close> follows the sweep transaction of the library to
    the balances of the Bank; \<open>SweepSample\<close> an instance.
  \<^item> \<open>NttContract\<close>: solidity/contracts/cross-chain/wormhole/L1BTCDepositorNtt.sol, its chains,
    receivers and transfers; \<open>NttConfiguration\<close>: solidity/scripts/configure-l1-btc-depositor-ntt.ts;
    \<open>NttClaims\<close> what the script leaves in the contract and which receivers of the library it takes.
  \<^item> \<open>Governance\<close>: the functions of Bridge.sol, BridgeState.sol, BridgeGovernance.sol and
    BridgeGovernanceParameters.sol that the upgrade calls, and what a proxy admin is documented to
    do. \<open>UpgradeScript\<close>: solidity/deploy/85_deploy_tip109_governance_upgrade.ts and
    86_deploy_tip109_hotfix.ts; \<open>UpgradeClaims\<close> sends the calls of their summaries to those
    contracts.

  What is shown. Headers and inclusion proofs: the validators accept exactly the valid chains and
  proofs, honest proofs are accepted, and two paths to one root are the same or contain a collision
  of the hash. Transactions: value is conserved, outputs pay to the scripts asked for, every deposit
  is unlocked with its own script, a refund satisfies the script. Deposits: receipts are valid, with
  a locktime nine months ahead, and the bytes of the script determine them. Redemptions: the search
  returns the wallet that the sequential specification chooses under every schedule, the key of a
  request can be recomputed from its event. Clients: connections are closed, confirmations are
  counted from the recorded height, events read in batches are those of the whole range, retries are
  bounded. Other chains: owners survive the extra data on every chain but Solana, the relayer's
  answers are settled as specified; deposits to Sei with extra data and owners of Solana are shown
  to fail. Monitoring: no block is missed over any history of runs, what is found is sent to the
  receivers and stored as handled, and the alerts are raised exactly when they should. Client and
  contract: both compile the same deposit script, what the client reveals or requests is accepted
  and found again under the keys it computes, and the contract's records are those of its events. A
  sweep that the library makes is accepted and credits what each depositor is due; what the Bank and
  the token owe grows by what the wallet holds, and a deposit is swept once. Entry point: the
  services know the destination chains that were prepared and no others. Wormhole: library and
  contract agree on receivers; the script enables chains of its table, of which none has the number
  that the library gives to Sei, whichever of its transactions blocks take. Upgrades: the calls that
  the scripts prepare have the intended effect in their order and from their senders, and fail
  otherwise; what the hotfix hands over is what its run deployed.

  Bounds and fuel. Loops over lists are structural. The wallet search runs its tasks under a
  schedule that gives each task its three reads, so every task ends. The batches of an event query
  get one round per block of the range, which is enough because an interval that is not negative
  moves the start by one block at least; with a negative interval the code does not return, and the
  model says so. The retriers recurse over the retries left, the relayer loop over its three delays.

  Parameters and hypotheses. Bitcoin, PSBT, Electrum, ethers, HTTP, Discord, Sentry, Sui and Solana
  libraries, contracts, deployment files, clocks and random numbers are arguments. Hash functions
  return the length of their kind; payments, scripts and transactions behave as bitcoinjs-lib
  documents (\<open>crypto_ok\<close>, \<open>psbt_ok\<close>, \<open>psbt_pays\<close>, \<open>txlib_ok\<close>); \<open>getAddress\<close> returns the address it
  was given. A post to Discord or a capture by Sentry that returns has been sent, and nothing
  unsends it (\<open>posts\<close>, \<open>keeps_sent\<close>). Where client and contract meet, both compute the same hash
  functions (\<open>same_hashes\<close>, \<open>keccak_ok\<close>), scripts and buffers are written in the formats of Bitcoin
  (\<open>compiles\<close>, \<open>writes\<close>, \<open>writes_inputs\<close>) and the contract's libraries read them (\<open>reads\<close>,
  \<open>reads_inputs\<close>). The Bank can credit accounts whose balances have room for it, and the token mints
  (\<open>creditable\<close>). Calls of the contract that the script configures may fail, and their transactions
  may be executed late or never; a \<open>wait\<close> that returns says that the transaction was executed
  (\<open>script_serves\<close>). For the upgrades, contracts decode calls as ethers encodes them (\<open>codec_ok\<close>),
  the admin slot of a proxy holds its admin (\<open>sees_admins\<close>), and the owners are those the scripts
  name (\<open>governed_as_known\<close>). Each such hypothesis is satisfied by a sample in the witnesses.

  Not modelled. The other functions of the contracts (redemption proofs, wallets, fraud, other
  parameters of the governance) and the other scripts that deploy them, which are not the library;
  the delays of the timelock; generated contract bindings; console output except where it is a
  parameter; texts of stack traces; the simulation of wallets (simulation/wallets.js), whose figures
  depend on the rounding of floating-point numbers and on reads of undefined elements. In the
  minting of other chains the handles of Arbitrum that repeat those of Base are modelled once.
  Arguments of the wrong JavaScript type are excluded by the types of the model.
\<close>

end
